(* ===== verification/Js_Prelude.thy ===== *)
theory Js_Prelude
  imports Complex_Main "HOL-Library.Word"
begin

text \<open>
  The fragment of JavaScript and of the Workers platform that the panel under
  \<^verbatim>\<open>omni-panel/src\<close> is written in, shared by every component theory.

  \<^item> Strings are lists of code units in U+0000..U+00FF (\<^typ>\<open>string\<close>). Every identifier, key,
    token, path and protocol field of the program lies in that range. The Persian
    texts of error messages are not represented: an error is its status and code.
  \<^item> A finite Number is an exact rational (\<open>num\<close>); \<open>jsnum\<close> adds NaN and the infinities,
    which only \<open>Number(...)\<close> conversions produce. Binary64 rounding is not modelled.
  \<^item> A JSON value, with \<open>undefined\<close> for an absent field, is a \<open>jval\<close>.
  \<^item> A thrown value is an \<open>exn\<close>; a function that may throw returns \<open>exn + 'a\<close>, and a handler
    that also changes state is an \<open>act\<close>: the state it leaves is kept when it throws.
  \<^item> \<open>Date.now()\<close> and random values are arguments; the clock does not advance inside one call.
\<close>

subsection \<open>Collections used by the component theories\<close>

named_theorems js_defs \<open>string and value conversions, unfolded to evaluate closed terms\<close>
named_theorems act_defs \<open>the state and exception combinators\<close>

type_synonym byte = "8 word"
type_synonym num = rat

subsection \<open>Strings\<close>

definition is_ws :: "char \<Rightarrow> bool" where
  "is_ws c \<longleftrightarrow> (let n = (of_char c :: nat) in (9 \<le> n \<and> n \<le> 13) \<or> n = 32 \<or> n = 160)"

definition trim :: "string \<Rightarrow> string" where
  "trim s = rev (dropWhile is_ws (rev (dropWhile is_ws s)))"

definition is_digit :: "char \<Rightarrow> bool" where
  "is_digit c \<longleftrightarrow> (let n = (of_char c :: nat) in 48 \<le> n \<and> n \<le> 57)"

definition is_lower :: "char \<Rightarrow> bool" where
  "is_lower c \<longleftrightarrow> (let n = (of_char c :: nat) in 97 \<le> n \<and> n \<le> 122)"

definition is_upper :: "char \<Rightarrow> bool" where
  "is_upper c \<longleftrightarrow> (let n = (of_char c :: nat) in 65 \<le> n \<and> n \<le> 90)"

definition is_alnum :: "char \<Rightarrow> bool" where
  "is_alnum c \<longleftrightarrow> is_digit c \<or> is_lower c \<or> is_upper c"

text \<open>\<open>toLowerCase\<close> on U+0000..U+00FF: A-Z and the Latin-1 capitals but U+00D7 move up by 32.\<close>

definition lower_char :: "char \<Rightarrow> char" where
  "lower_char c =
     (let n = (of_char c :: nat)
      in if (65 \<le> n \<and> n \<le> 90) \<or> (192 \<le> n \<and> n \<le> 222 \<and> n \<noteq> 215) then char_of (n + 32) else c)"

definition to_lower :: "string \<Rightarrow> string" where
  "to_lower s = map lower_char s"

fun split_on :: "char \<Rightarrow> string \<Rightarrow> string list" where
  "split_on c [] = [[]]"
| "split_on c (x # xs) =
     (if x = c then [] # split_on c xs
      else (case split_on c xs of [] \<Rightarrow> [[x]] | y # ys \<Rightarrow> (x # y) # ys))"

fun join_with :: "string \<Rightarrow> string list \<Rightarrow> string" where
  "join_with sep [] = []"
| "join_with sep [x] = x"
| "join_with sep (x # y # ys) = x @ sep @ join_with sep (y # ys)"

fun starts_with :: "string \<Rightarrow> string \<Rightarrow> bool" where
  "starts_with [] s = True"
| "starts_with (p # ps) [] = False"
| "starts_with (p # ps) (x # xs) = (p = x \<and> starts_with ps xs)"

definition ends_with :: "string \<Rightarrow> string \<Rightarrow> bool" where
  "ends_with suf s = starts_with (rev suf) (rev s)"

fun contains_str :: "string \<Rightarrow> string \<Rightarrow> bool" where
  "contains_str needle [] = (needle = [])"
| "contains_str needle (x # xs) = (starts_with needle (x # xs) \<or> contains_str needle xs)"

fun replace_char :: "char \<Rightarrow> string \<Rightarrow> string \<Rightarrow> string" where
  "replace_char c r [] = []"
| "replace_char c r (x # xs) = (if x = c then r @ replace_char c r xs else x # replace_char c r xs)"

lemma starts_with_append: "starts_with p s \<longleftrightarrow> (\<exists>t. s = p @ t)"
  by (induction p s rule: starts_with.induct) auto

lemma starts_with_self [simp]: "starts_with p (p @ t)"
  by (auto simp: starts_with_append)

lemma ends_with_append: "ends_with suf s \<longleftrightarrow> (\<exists>t. s = t @ suf)"
proof -
  have "(\<exists>t. rev s = rev suf @ t) \<longleftrightarrow> (\<exists>t. s = t @ suf)"
    by (metis rev_append rev_rev_ident)
  then show ?thesis by (simp add: ends_with_def starts_with_append)
qed

lemma includes_iff: "contains_str p s \<longleftrightarrow> (\<exists>a b. s = a @ p @ b)"
proof (induction s)
  case Nil
  then show ?case by simp
next
  case (Cons x xs)
  show ?case
  proof
    assume "contains_str p (x # xs)"
    then consider "starts_with p (x # xs)" | "contains_str p xs" by auto
    then show "\<exists>a b. x # xs = a @ p @ b"
    proof cases
      case 1
      then obtain t where "x # xs = [] @ p @ t" by (auto simp: starts_with_append)
      then show ?thesis by blast
    next
      case 2
      then obtain a b where "xs = a @ p @ b" using Cons.IH by blast
      then have "x # xs = (x # a) @ p @ b" by simp
      then show ?thesis by blast
    qed
  next
    assume "\<exists>a b. x # xs = a @ p @ b"
    then obtain a b where eq: "x # xs = a @ p @ b" by blast
    show "contains_str p (x # xs)"
    proof (cases a)
      case Nil
      with eq have "starts_with p (x # xs)" by (metis append_Nil starts_with_self)
      then show ?thesis by simp
    next
      case (Cons y ys)
      with eq have "xs = ys @ p @ b" by simp
      then show ?thesis using \<open>contains_str p xs \<longleftrightarrow> (\<exists>a b. xs = a @ p @ b)\<close> by auto
    qed
  qed
qed

lemma split_on_not_Nil [simp]: "split_on c s \<noteq> []"
  by (induction s) (auto split: list.splits)

lemma split_on_no_sep: "c \<notin> set s \<Longrightarrow> split_on c s = [s]"
  by (induction s) auto

lemma split_on_append: "c \<notin> set a \<Longrightarrow> split_on c (a @ c # b) = a # split_on c b"
  by (induction a) auto

lemma split_on_join:
  "xs \<noteq> [] \<Longrightarrow> (\<forall>x\<in>set xs. c \<notin> set x) \<Longrightarrow> split_on c (join_with [c] xs) = xs"
proof (induction xs)
  case (Cons x xs)
  then show ?case by (cases xs) (auto simp: split_on_no_sep split_on_append)
qed simp

lemma join_split_on: "join_with [c] (split_on c s) = s"
proof (induction s)
  case (Cons x xs)
  obtain y ys where ys: "split_on c xs = y # ys" by (cases "split_on c xs") auto
  with Cons.IH show ?case by (cases ys) auto
qed simp

lemma split_on_no_sep_parts: "p \<in> set (split_on c s) \<Longrightarrow> c \<notin> set p"
proof (induction s arbitrary: p)
  case (Cons x xs)
  obtain y ys where ys: "split_on c xs = y # ys" by (cases "split_on c xs") auto
  with Cons show ?case by (auto split: if_splits)
qed simp

lemma length_trim_le: "length (trim s) \<le> length s"
proof -
  have "length (trim s) \<le> length (dropWhile is_ws s)"
    using length_dropWhile_le [of is_ws "rev (dropWhile is_ws s)"] by (simp add: trim_def)
  then show ?thesis using length_dropWhile_le [of is_ws s] by linarith
qed

lemma trim_no_ws: "list_all (\<lambda>c. \<not> is_ws c) s \<Longrightarrow> trim s = s"
proof -
  assume a: "list_all (\<lambda>c. \<not> is_ws c) s"
  have d: "dropWhile is_ws t = t" if "list_all (\<lambda>c. \<not> is_ws c) t" for t
    using that by (cases t) auto
  from a have "list_all (\<lambda>c. \<not> is_ws c) (rev s)" by (simp add: list_all_iff)
  with a show ?thesis by (simp add: trim_def d)
qed

subsection \<open>Decimal text\<close>

definition digit_char :: "nat \<Rightarrow> char" where
  "digit_char d = char_of (48 + d)"

fun show_nat :: "nat \<Rightarrow> string" where
  "show_nat n = (if n < 10 then [digit_char n] else show_nat (n div 10) @ [digit_char (n mod 10)])"

declare show_nat.simps [simp del]

definition show_int :: "int \<Rightarrow> string" where
  "show_int i = (if i < 0 then CHR ''-'' # show_nat (nat (- i)) else show_nat (nat i))"

fun nat_of_digits :: "nat \<Rightarrow> string \<Rightarrow> nat" where
  "nat_of_digits acc [] = acc"
| "nat_of_digits acc (c # cs) = nat_of_digits (acc * 10 + (of_char c - 48)) cs"

lemma digit_char_of: "d < 10 \<Longrightarrow> (of_char (digit_char d) :: nat) = 48 + d"
  by (simp add: digit_char_def)

lemma is_digit_digit_char: "d < 10 \<Longrightarrow> is_digit (digit_char d)"
  by (simp add: is_digit_def digit_char_of)

lemma show_nat_digits: "list_all is_digit (show_nat n)"
proof (induction n rule: show_nat.induct)
  case (1 n)
  then show ?case
    by (subst show_nat.simps) (auto simp: is_digit_digit_char)
qed

lemma show_nat_not_Nil [simp]: "show_nat n \<noteq> []"
  by (subst show_nat.simps) simp

lemma nat_of_digits_append: "nat_of_digits a (xs @ ys) = nat_of_digits (nat_of_digits a xs) ys"
  by (induction xs arbitrary: a) auto

lemma nat_of_digits_show_nat: "nat_of_digits 0 (show_nat n) = n"
proof (induction n rule: show_nat.induct)
  case (1 n)
  show ?case
  proof (cases "n < 10")
    case True
    then show ?thesis by (subst show_nat.simps) (simp add: digit_char_of)
  next
    case False
    with "1.IH" have "nat_of_digits 0 (show_nat (n div 10)) = n div 10" by simp
    with False show ?thesis
      by (subst show_nat.simps) (simp add: nat_of_digits_append digit_char_of)
  qed
qed

lemma show_nat_inj: "show_nat a = show_nat b \<Longrightarrow> a = b"
  by (metis nat_of_digits_show_nat)

subsection \<open>Numbers\<close>

datatype jsnum = NaN | PInf | NInf | Fin num

text \<open>
  \<open>Number(s)\<close> of a string: blank is 0, an optional sign, digits with an optional fraction
  and exponent, \<open>Infinity\<close>, or a hexadecimal literal; anything else is NaN.
\<close>

definition digits_only :: "string \<Rightarrow> bool" where
  "digits_only s \<longleftrightarrow> s \<noteq> [] \<and> list_all is_digit s"

definition hex_val :: "char \<Rightarrow> nat option" where
  "hex_val c =
     (let n = (of_char c :: nat)
      in if 48 \<le> n \<and> n \<le> 57 then Some (n - 48)
         else if 97 \<le> n \<and> n \<le> 102 then Some (n - 87)
         else if 65 \<le> n \<and> n \<le> 70 then Some (n - 55)
         else None)"

fun hex_nat :: "nat \<Rightarrow> string \<Rightarrow> nat option" where
  "hex_nat acc [] = Some acc"
| "hex_nat acc (c # cs) = (case hex_val c of None \<Rightarrow> None | Some d \<Rightarrow> hex_nat (acc * 16 + d) cs)"

definition parse_mantissa :: "string \<Rightarrow> num option" where
  "parse_mantissa s =
     (case split_on CHR ''.'' s of
        [i] \<Rightarrow> if digits_only i then Some (of_nat (nat_of_digits 0 i)) else None
      | [i, f] \<Rightarrow>
          if list_all is_digit i \<and> list_all is_digit f \<and> (i \<noteq> [] \<or> f \<noteq> [])
          then Some (of_nat (nat_of_digits 0 i) + of_nat (nat_of_digits 0 f) / 10 ^ length f)
          else None
      | _ \<Rightarrow> None)"

definition parse_exponent :: "string \<Rightarrow> int option" where
  "parse_exponent s =
     (let d = (if starts_with ''-'' s \<or> starts_with ''+'' s then tl s else s)
      in if digits_only d
         then Some (if starts_with ''-'' s then - int (nat_of_digits 0 d) else int (nat_of_digits 0 d))
         else None)"

definition scale10 :: "num \<Rightarrow> int \<Rightarrow> num" where
  "scale10 m e = (if 0 \<le> e then m * 10 ^ nat e else m / 10 ^ nat (- e))"

definition parse_unsigned :: "string \<Rightarrow> jsnum" where
  "parse_unsigned s =
     (if s = ''Infinity'' then PInf
      else let s' = map (\<lambda>c. if c = CHR ''E'' then CHR ''e'' else c) s in
      (case split_on CHR ''e'' s' of
         [m] \<Rightarrow> (case parse_mantissa m of None \<Rightarrow> NaN | Some q \<Rightarrow> Fin q)
       | [m, e] \<Rightarrow>
           (case (parse_mantissa m, parse_exponent e) of
              (Some q, Some k) \<Rightarrow> Fin (scale10 q k)
            | _ \<Rightarrow> NaN)
       | _ \<Rightarrow> NaN))"

fun num_neg :: "jsnum \<Rightarrow> jsnum" where
  "num_neg NaN = NaN"
| "num_neg PInf = NInf"
| "num_neg NInf = PInf"
| "num_neg (Fin q) = Fin (- q)"

definition str_to_num :: "string \<Rightarrow> jsnum" where
  "str_to_num s0 =
     (let s = trim s0 in
      if s = [] then Fin 0
      else if starts_with ''0x'' s \<or> starts_with ''0X'' s then
        (if drop 2 s = [] then NaN
         else case hex_nat 0 (drop 2 s) of None \<Rightarrow> NaN | Some n \<Rightarrow> Fin (of_nat n))
      else if starts_with ''-'' s then num_neg (parse_unsigned (tl s))
      else if starts_with ''+'' s then parse_unsigned (tl s)
      else parse_unsigned s)"

text \<open>Comparisons are false when an operand is NaN.\<close>

fun num_le :: "jsnum \<Rightarrow> jsnum \<Rightarrow> bool" where
  "num_le NaN y = False"
| "num_le x NaN = False"
| "num_le NInf y = True"
| "num_le x PInf = True"
| "num_le (Fin a) (Fin b) = (a \<le> b)"
| "num_le x y = False"

fun num_lt :: "jsnum \<Rightarrow> jsnum \<Rightarrow> bool" where
  "num_lt NaN y = False"
| "num_lt x NaN = False"
| "num_lt x NInf = False"
| "num_lt PInf y = False"
| "num_lt (Fin a) (Fin b) = (a < b)"
| "num_lt x y = True"

fun js_max :: "jsnum \<Rightarrow> jsnum \<Rightarrow> jsnum" where
  "js_max a b = (if a = NaN \<or> b = NaN then NaN else if num_lt a b then b else a)"

fun js_min :: "jsnum \<Rightarrow> jsnum \<Rightarrow> jsnum" where
  "js_min a b = (if a = NaN \<or> b = NaN then NaN else if num_lt b a then b else a)"

text \<open>Scaling by a positive factor and shifting by a finite number.\<close>

fun num_scale :: "num \<Rightarrow> jsnum \<Rightarrow> jsnum" where
  "num_scale k (Fin q) = Fin (q * k)"
| "num_scale k x = x"

fun num_shift :: "num \<Rightarrow> jsnum \<Rightarrow> jsnum" where
  "num_shift k (Fin q) = Fin (q + k)"
| "num_shift k x = x"

text \<open>\<open>Math.round\<close>: halves go up.\<close>

definition js_round :: "num \<Rightarrow> num" where
  "js_round q = of_int \<lfloor>q + 1 / 2\<rfloor>"

fun is_finite :: "jsnum \<Rightarrow> bool" where
  "is_finite (Fin q) = True"
| "is_finite x = False"

fun fin_val :: "jsnum \<Rightarrow> num" where
  "fin_val (Fin q) = q"
| "fin_val x = 0"

definition is_int :: "num \<Rightarrow> bool" where
  "is_int q \<longleftrightarrow> of_int (floor q) = q"

text \<open>
  \<open>String(q)\<close>: integers in decimal; otherwise the decimal expansion, which is exact for every
  value with at most seventeen fractional digits.
\<close>

fun frac_digits :: "nat \<Rightarrow> num \<Rightarrow> string" where
  "frac_digits 0 f = []"
| "frac_digits (Suc n) f =
     (if f = 0 then []
      else digit_char (nat (floor (f * 10))) # frac_digits n (f * 10 - of_int (floor (f * 10))))"

definition show_num :: "num \<Rightarrow> string" where
  "show_num q =
     (if is_int q then show_int (floor q)
      else (if q < 0 then ''-'' else '''') @ show_nat (nat (floor \<bar>q\<bar>)) @ ''.'' @
           frac_digits 17 (\<bar>q\<bar> - of_int (floor \<bar>q\<bar>)))"

fun show_jsnum :: "jsnum \<Rightarrow> string" where
  "show_jsnum NaN = ''NaN''"
| "show_jsnum PInf = ''Infinity''"
| "show_jsnum NInf = ''-Infinity''"
| "show_jsnum (Fin q) = show_num q"

subsection \<open>JSON values\<close>

datatype jval = JUndef | JNull | JBool bool | JNum jsnum | JStr string | JArr "jval list"
  | JObj "(string \<times> jval) list"

fun truthy :: "jval \<Rightarrow> bool" where
  "truthy JUndef = False"
| "truthy JNull = False"
| "truthy (JBool b) = b"
| "truthy (JNum n) = (n \<noteq> NaN \<and> n \<noteq> Fin 0)"
| "truthy (JStr s) = (s \<noteq> [])"
| "truthy (JArr _) = True"
| "truthy (JObj _) = True"

definition js_or :: "jval \<Rightarrow> jval \<Rightarrow> jval" where
  "js_or a b = (if truthy a then a else b)"

definition nullish :: "jval \<Rightarrow> bool" where
  "nullish v \<longleftrightarrow> v = JUndef \<or> v = JNull"

definition js_coalesce :: "jval \<Rightarrow> jval \<Rightarrow> jval" where
  "js_coalesce a b = (if nullish a then b else a)"

fun to_str :: "jval \<Rightarrow> string" where
  "to_str JUndef = ''undefined''"
| "to_str JNull = ''null''"
| "to_str (JBool b) = (if b then ''true'' else ''false'')"
| "to_str (JNum n) = show_jsnum n"
| "to_str (JStr s) = s"
| "to_str (JArr xs) =
     join_with '','' (map (\<lambda>x. if x = JUndef \<or> x = JNull then [] else to_str x) xs)"
| "to_str (JObj _) = ''[object Object]''"

fun to_num :: "jval \<Rightarrow> jsnum" where
  "to_num JUndef = NaN"
| "to_num JNull = Fin 0"
| "to_num (JBool b) = (if b then Fin 1 else Fin 0)"
| "to_num (JNum n) = n"
| "to_num (JStr s) = str_to_num s"
| "to_num (JArr xs) = str_to_num (to_str (JArr xs))"
| "to_num (JObj _) = NaN"

fun fld :: "jval \<Rightarrow> string \<Rightarrow> jval" where
  "fld (JObj kvs) k = (case map_of kvs k of None \<Rightarrow> JUndef | Some v \<Rightarrow> v)"
| "fld v k = JUndef"

fun obj_keys :: "jval \<Rightarrow> string list" where
  "obj_keys (JObj kvs) = map fst kvs"
| "obj_keys v = []"

text \<open>Setting a property: in place when it exists, last otherwise.\<close>

fun upsert :: "'k \<Rightarrow> 'v \<Rightarrow> ('k \<times> 'v) list \<Rightarrow> ('k \<times> 'v) list" where
  "upsert k v [] = [(k, v)]"
| "upsert k v ((k', v') # xs) = (if k' = k then (k', v) # xs else (k', v') # upsert k v xs)"

definition adel :: "'k \<Rightarrow> ('k \<times> 'v) list \<Rightarrow> ('k \<times> 'v) list" where
  "adel k xs = filter (\<lambda>p. fst p \<noteq> k) xs"

lemma find_SomeD: "find P xs = Some x \<Longrightarrow> P x \<and> x \<in> set xs"
  by (induction xs) (auto split: if_splits)

lemma map_of_upsert: "map_of (upsert k v xs) = (map_of xs)(k \<mapsto> v)"
  by (induction xs) auto

lemma map_of_adel: "map_of (adel k xs) = (map_of xs)(k := None)"
  by (induction xs) (auto simp: adel_def fun_eq_iff)

lemma keys_upsert: "set (map fst (upsert k v xs)) = insert k (set (map fst xs))"
proof (induction xs)
  case (Cons p xs)
  then show ?case by (cases p) (auto simp del: set_map simp flip: set_map)
qed simp

lemma distinct_upsert: "distinct (map fst xs) \<Longrightarrow> distinct (map fst (upsert k v xs))"
proof (induction xs)
  case (Cons p xs)
  obtain a b where p: "p = (a, b)" by (cases p)
  have "set (map fst (upsert k v xs)) = insert k (set (map fst xs))" by (rule keys_upsert)
  with Cons show ?case by (auto simp: p simp del: set_map)
qed simp

lemma upsert_fresh: "k \<notin> fst ` set xs \<Longrightarrow> upsert k v xs = xs @ [(k, v)]"
  by (induction xs) auto

lemma distinct_adel: "distinct (map fst xs) \<Longrightarrow> distinct (map fst (adel k xs))"
  by (auto simp: adel_def distinct_map inj_on_def)

text \<open>
  The interface of a keyed store. Objects and Maps, response headers, the settings table and
  the storage of a Durable Object are all used through it.
\<close>

locale kv_store =
  fixes put :: "'k \<Rightarrow> 'v \<Rightarrow> 's \<Rightarrow> 's" and del :: "'k \<Rightarrow> 's \<Rightarrow> 's" and lookup :: "'s \<Rightarrow> 'k \<Rightarrow> 'v option"
  assumes lookup_put: "lookup (put k v s) k' = (if k' = k then Some v else lookup s k')"
    and lookup_del: "lookup (del k s) k' = (if k' = k then None else lookup s k')"
begin

lemma lookup_puts:
  "lookup (fold (\<lambda>(k, v). put k v) kvs s) k' =
     (case map_of (rev kvs) k' of Some v \<Rightarrow> Some v | None \<Rightarrow> lookup s k')"
proof (induction kvs arbitrary: s)
  case (Cons kv kvs)
  obtain k v where kv: "kv = (k, v)" by (cases kv)
  show ?case by (simp add: kv Cons.IH lookup_put map_add_def split: option.splits)
qed simp

lemma lookup_puts_other: "k' \<notin> fst ` set kvs \<Longrightarrow> lookup (fold (\<lambda>(k, v). put k v) kvs s) k' = lookup s k'"
proof -
  assume "k' \<notin> fst ` set kvs"
  then have "map_of (rev kvs) k' = None" by (simp add: map_of_eq_None_iff)
  then show ?thesis by (simp add: lookup_puts)
qed

lemma put_after_del: "lookup (put k v (del k s)) = lookup (put k v s)"
  by (auto simp: lookup_put lookup_del)

end

interpretation obj: kv_store upsert adel map_of
  by unfold_locales (simp_all add: map_of_upsert map_of_adel)

text \<open>\<open>for (let i = 0; i < xs.length; i += n) ... xs.slice(i, i + n)\<close>.\<close>

function chunks :: "nat \<Rightarrow> 'a list \<Rightarrow> 'a list list" where
  "chunks n xs = (if xs = [] \<or> n = 0 then [] else take n xs # chunks n (drop n xs))"
  by auto
termination
  by (relation "measure (\<lambda>(n, xs). length xs)") auto

declare chunks.simps [simp del]

lemma chunks_Nil [simp]: "chunks n [] = []"
  by (simp add: chunks.simps)

lemma concat_chunks: "0 < n \<Longrightarrow> concat (chunks n xs) = xs"
proof (induction n xs rule: chunks.induct)
  case (1 n xs)
  then show ?case by (subst chunks.simps) auto
qed

lemma chunks_bound: "c \<in> set (chunks n xs) \<Longrightarrow> c \<noteq> [] \<and> length c \<le> n"
proof (induction n xs rule: chunks.induct)
  case (1 n xs)
  show ?case
  proof (cases "xs = [] \<or> n = 0")
    case True
    then show ?thesis using "1.prems" by (simp add: chunks.simps)
  next
    case False
    then have "c = take n xs \<or> c \<in> set (chunks n (drop n xs))"
      using "1.prems" by (subst (asm) chunks.simps) auto
    then show ?thesis using False "1.IH" by auto
  qed
qed

lemma chunks_small: "xs \<noteq> [] \<Longrightarrow> length xs \<le> n \<Longrightarrow> chunks n xs = [xs]"
  by (subst chunks.simps) (cases n; simp)

text \<open>A stable sort by a total preorder, as \<open>Array.prototype.sort\<close> and \<open>ORDER BY\<close> are used.\<close>

fun insert_by :: "('a \<Rightarrow> 'a \<Rightarrow> bool) \<Rightarrow> 'a \<Rightarrow> 'a list \<Rightarrow> 'a list" where
  "insert_by le x [] = [x]"
| "insert_by le x (y # ys) = (if le x y then x # y # ys else y # insert_by le x ys)"

definition sort_by :: "('a \<Rightarrow> 'a \<Rightarrow> bool) \<Rightarrow> 'a list \<Rightarrow> 'a list" where
  "sort_by le xs = foldr (insert_by le) xs []"

lemma set_insert_by [simp]: "set (insert_by le x xs) = insert x (set xs)"
  by (induction xs) auto

lemma length_insert_by [simp]: "length (insert_by le x xs) = Suc (length xs)"
  by (induction xs) auto

lemma set_sort_by [simp]: "set (sort_by le xs) = set xs"
  by (induction xs) (auto simp: sort_by_def)

lemma length_sort_by [simp]: "length (sort_by le xs) = length xs"
  by (induction xs) (auto simp: sort_by_def)

lemma distinct_insert_by: "distinct (insert_by le x xs) \<longleftrightarrow> x \<notin> set xs \<and> distinct xs"
  by (induction xs) auto

lemma distinct_sort_by: "distinct (sort_by le xs) \<longleftrightarrow> distinct xs"
proof (induction xs)
  case (Cons x xs)
  have "sort_by le (x # xs) = insert_by le x (sort_by le xs)" by (simp add: sort_by_def)
  with Cons show ?case by (simp add: distinct_insert_by)
qed (simp add: sort_by_def)

text \<open>The interface of an order to sort by.\<close>

locale total_preorder =
  fixes le :: "'a \<Rightarrow> 'a \<Rightarrow> bool"
  assumes le_total: "le x y \<or> le y x" and le_trans: "le x y \<Longrightarrow> le y z \<Longrightarrow> le x z"
begin

lemma insert_by_sorted: "sorted_wrt le xs \<Longrightarrow> sorted_wrt le (insert_by le x xs)"
  by (induction xs) (use le_total le_trans in auto)

lemma sort_by_sorted: "sorted_wrt le (sort_by le xs)"
  by (induction xs) (auto simp: sort_by_def insert_by_sorted)

end

text \<open>First occurrences in order: \<open>[...new Set(xs)]\<close>.\<close>

definition uniq :: "'a list \<Rightarrow> 'a list" where
  "uniq xs = rev (remdups (rev xs))"

lemma set_uniq [simp]: "set (uniq xs) = set xs" and distinct_uniq [simp]: "distinct (uniq xs)"
  by (simp_all add: uniq_def)

lemma uniq_id: "distinct xs \<Longrightarrow> uniq xs = xs"
  by (simp add: uniq_def distinct_remdups_id)

abbreviation JInt :: "int \<Rightarrow> jval" where
  "JInt i \<equiv> JNum (Fin (of_int i))"

definition opt_str :: "string option \<Rightarrow> jval" where
  "opt_str x = (case x of None \<Rightarrow> JNull | Some s \<Rightarrow> JStr s)"

definition opt_num :: "num option \<Rightarrow> jval" where
  "opt_num x = (case x of None \<Rightarrow> JNull | Some q \<Rightarrow> JNum (Fin q))"

declare is_ws_def [js_defs] is_digit_def [js_defs] is_lower_def [js_defs] is_upper_def [js_defs]
  is_alnum_def [js_defs] lower_char_def [js_defs] to_lower_def [js_defs] trim_def [js_defs]
  js_or_def [js_defs] js_coalesce_def [js_defs] nullish_def [js_defs] ends_with_def [js_defs]
  digit_char_def [js_defs] show_int_def [js_defs] show_num_def [js_defs] is_int_def [js_defs]
  str_to_num_def [js_defs] parse_unsigned_def [js_defs] parse_mantissa_def [js_defs]
  digits_only_def [js_defs] opt_str_def [js_defs] opt_num_def [js_defs]

subsection \<open>Thrown values and results\<close>

datatype exn =
    HttpError (he_status: nat) (he_code: string) (he_retry: "num option")
      (he_allow: "string option") (he_detail: jval)
  | BootError
  | JsError string

type_synonym 'a res = "exn + 'a"

fun res_bind :: "'a res \<Rightarrow> ('a \<Rightarrow> 'b res) \<Rightarrow> 'b res" where
  "res_bind (Inl e) f = Inl e"
| "res_bind (Inr x) f = f x"

lemma res_bind_Inr: "res_bind m f = Inr y \<longleftrightarrow> (\<exists>x. m = Inr x \<and> f x = Inr y)"
  by (cases m) auto

text \<open>A stateful handler: the state survives a throw, as writes before it do.\<close>

type_synonym ('s, 'a) act = "'s \<Rightarrow> 'a res \<times> 's"

definition act_ret :: "'a \<Rightarrow> ('s, 'a) act" where
  "act_ret x s = (Inr x, s)"

definition act_throw :: "exn \<Rightarrow> ('s, 'a) act" where
  "act_throw e s = (Inl e, s)"

definition act_bind :: "('s, 'a) act \<Rightarrow> ('a \<Rightarrow> ('s, 'b) act) \<Rightarrow> ('s, 'b) act" where
  "act_bind m k s = (case m s of (Inl e, s') \<Rightarrow> (Inl e, s') | (Inr x, s') \<Rightarrow> k x s')"

definition act_seq :: "('s, 'a) act \<Rightarrow> ('s, 'b) act \<Rightarrow> ('s, 'b) act" where
  "act_seq m k = act_bind m (\<lambda>_. k)"

definition act_lift :: "'a res \<Rightarrow> ('s, 'a) act" where
  "act_lift r s = (r, s)"

definition act_get :: "('s \<Rightarrow> 'a) \<Rightarrow> ('s, 'a) act" where
  "act_get f s = (Inr (f s), s)"

definition act_upd :: "('s \<Rightarrow> 's) \<Rightarrow> ('s, unit) act" where
  "act_upd f s = (Inr (), f s)"

definition act_if :: "bool \<Rightarrow> ('s, 'a) act \<Rightarrow> ('s, 'a) act \<Rightarrow> ('s, 'a) act" where
  "act_if b m k = (if b then m else k)"

definition act_when :: "bool \<Rightarrow> exn \<Rightarrow> ('s, unit) act" where
  "act_when b e s = ((if b then Inl e else Inr ()), s)"

definition act_catch :: "('s, 'a) act \<Rightarrow> (exn \<Rightarrow> ('s, 'a) act) \<Rightarrow> ('s, 'a) act" where
  "act_catch m h s = (case m s of (Inl e, s') \<Rightarrow> h e s' | (Inr x, s') \<Rightarrow> (Inr x, s'))"

lemmas act_unfold [act_defs] =
  act_ret_def act_throw_def act_bind_def act_seq_def act_lift_def act_get_def act_upd_def
  act_if_def act_when_def act_catch_def

end
