(* ===== verification/Codec.thy ===== *)
theory Codec
  imports Js_Prelude
begin

unbundle bit_operations_syntax

text \<open>
  Byte-level encodings: UTF-8 (\<open>TextEncoder\<close>), base64 (\<open>btoa\<close>, \<open>atob\<close>), the base64url pair
  \<open>b64u\<close> of \<^verbatim>\<open>auth/session.js\<close>, hexadecimal bytes and the accumulator of the constant-time
  comparisons. The interface \<open>codec\<close> states the round-trip law once; each encoder interprets it.
\<close>

subsection \<open>The round-trip interface\<close>

locale codec =
  fixes enc :: "'a \<Rightarrow> 'b" and dec :: "'b \<Rightarrow> 'a option" and valid :: "'a \<Rightarrow> bool"
  assumes dec_enc: "valid x \<Longrightarrow> dec (enc x) = Some x"
begin

lemma enc_inj: "valid x \<Longrightarrow> valid y \<Longrightarrow> enc x = enc y \<Longrightarrow> x = y"
  by (metis dec_enc option.inject)

lemma enc_eq_iff: "valid x \<Longrightarrow> valid y \<Longrightarrow> enc x = enc y \<longleftrightarrow> x = y"
  using enc_inj by blast

end

subsection \<open>TextEncoder and hexadecimal\<close>

definition utf8_char :: "char \<Rightarrow> byte list" where
  "utf8_char c =
     (let n = (of_char c :: nat)
      in if n < 128 then [word_of_nat n] else [word_of_nat (192 + n div 64), word_of_nat (128 + n mod 64)])"

definition utf8_encode :: "string \<Rightarrow> byte list" where
  "utf8_encode s = concat (map utf8_char s)"

definition hex_digit :: "nat \<Rightarrow> char" where
  "hex_digit d = (if d < 10 then char_of (48 + d) else char_of (87 + d))"

text \<open>\<open>b.toString(16).padStart(2, "0")\<close>\<close>

definition hex2 :: "byte \<Rightarrow> string" where
  "hex2 b = [hex_digit (unat b div 16), hex_digit (unat b mod 16)]"

definition hex_bytes :: "byte list \<Rightarrow> string" where
  "hex_bytes bs = concat (map hex2 bs)"

lemma utf8_char_ascii: "of_char c < (128::nat) \<Longrightarrow> utf8_char c = [word_of_nat (of_char c)]"
  by (simp add: utf8_char_def Let_def)

lemma utf8_encode_Nil_iff [simp]: "utf8_encode s = [] \<longleftrightarrow> s = []"
  by (cases s) (auto simp: utf8_encode_def utf8_char_def Let_def)

lemma hex_val_hex_digit: "d < 16 \<Longrightarrow> hex_val (hex_digit d) = Some d"
  by (auto simp: hex_val_def hex_digit_def Let_def)

lemma length_hex_bytes [simp]: "length (hex_bytes bs) = 2 * length bs"
  by (induction bs) (auto simp: hex_bytes_def hex2_def)

lemma hex_bytes_Nil [simp]: "hex_bytes [] = []"
  by (simp add: hex_bytes_def)

lemma hex_bytes_Cons: "hex_bytes (b # bs) = hex_digit (unat b div 16) # hex_digit (unat b mod 16) # hex_bytes bs"
  by (simp add: hex_bytes_def hex2_def)

lemma hex_bytes_append: "hex_bytes (a @ b) = hex_bytes a @ hex_bytes b"
  by (simp add: hex_bytes_def)

lemma unat_byte_lt: "unat (b :: byte) < 256"
  using unsigned_less [of b] by simp

lemma byte_div16_lt: "unat (b :: byte) div 16 < 16"
  using unat_byte_lt [of b] by simp

subsection \<open>Constant-time comparison\<close>

text \<open>\<open>let diff = 0; for (i) diff |= a[i] ^ b[i]\<close> over arrays of the same length.\<close>

fun ct_diff :: "byte \<Rightarrow> byte list \<Rightarrow> byte list \<Rightarrow> byte" where
  "ct_diff d (a # as) (b # bs) = ct_diff (d OR (a XOR b)) as bs"
| "ct_diff d as bs = d"

lemma or_eq_0_word: "(a :: byte) OR b = 0 \<longleftrightarrow> a = 0 \<and> b = 0"
  by (auto simp: bit_eq_iff bit_or_iff)

lemma xor_eq_0_word: "(a :: byte) XOR b = 0 \<longleftrightarrow> a = b"
  by (auto simp: bit_eq_iff bit_xor_iff)

lemma ct_diff_zero: "length as = length bs \<Longrightarrow> ct_diff d as bs = 0 \<longleftrightarrow> d = 0 \<and> as = bs"
proof (induction d as bs rule: ct_diff.induct)
  case (1 d a as b bs)
  then show ?case by (auto simp: or_eq_0_word xor_eq_0_word)
qed auto

text \<open>
  The interface of a comparison that decides equality whatever the data: the two comparisons
  of the panel (cookie signatures and the agent key) interpret it.
\<close>

locale constant_time_eq =
  fixes eq :: "'a \<Rightarrow> 'a \<Rightarrow> bool"
  assumes eq_iff: "eq x y \<longleftrightarrow> x = y"
begin

lemma eq_refl: "eq x x"
  by (simp add: eq_iff)

lemma eq_sym: "eq x y = eq y x"
  by (auto simp: eq_iff)

end

subsection \<open>Base64\<close>

definition b64_alphabet :: string where
  "b64_alphabet = ''ABCDEFGHIJKLMNOPQRSTUVWXYZabcdefghijklmnopqrstuvwxyz0123456789+/''"

definition b64_char :: "nat \<Rightarrow> char" where
  "b64_char n = b64_alphabet ! n"

definition b64_val :: "char \<Rightarrow> nat option" where
  "b64_val c =
     (let n = (of_char c :: nat)
      in if 65 \<le> n \<and> n \<le> 90 then Some (n - 65)
         else if 97 \<le> n \<and> n \<le> 122 then Some (n - 71)
         else if 48 \<le> n \<and> n \<le> 57 then Some (n + 4)
         else if n = 43 then Some 62
         else if n = 47 then Some 63
         else None)"

text \<open>The six-bit groups of a byte string, without padding, and back.\<close>

fun sextets :: "byte list \<Rightarrow> nat list" where
  "sextets [] = []"
| "sextets [a] = [unat a div 4, (unat a mod 4) * 16]"
| "sextets [a, b] = [unat a div 4, (unat a mod 4) * 16 + unat b div 16, (unat b mod 16) * 4]"
| "sextets (a # b # c # r) =
     [unat a div 4, (unat a mod 4) * 16 + unat b div 16,
      (unat b mod 16) * 4 + unat c div 64, unat c mod 64] @ sextets r"

fun unsextets :: "nat list \<Rightarrow> byte list" where
  "unsextets (w # x # y # z # r) =
     [word_of_nat (w * 4 + x div 16), word_of_nat ((x mod 16) * 16 + y div 4),
      word_of_nat ((y mod 4) * 64 + z)] @ unsextets r"
| "unsextets [w, x, y] = [word_of_nat (w * 4 + x div 16), word_of_nat ((x mod 16) * 16 + y div 4)]"
| "unsextets [w, x] = [word_of_nat (w * 4 + x div 16)]"
| "unsextets _ = []"

definition b64_pad :: "nat \<Rightarrow> string" where
  "b64_pad n = (if n mod 4 = 0 then [] else replicate (4 - n mod 4) CHR ''='')"

definition btoa :: "byte list \<Rightarrow> string" where
  "btoa bs = map b64_char (sextets bs) @ b64_pad (length (sextets bs))"

definition ascii_ws :: "char \<Rightarrow> bool" where
  "ascii_ws c \<longleftrightarrow> (of_char c :: nat) \<in> {9, 10, 12, 13, 32}"

text \<open>The forgiving base64 decoder of the platform; \<open>None\<close> is its InvalidCharacterError.\<close>

definition drop_last_eq :: "string \<Rightarrow> string" where
  "drop_last_eq s = (if s \<noteq> [] \<and> last s = CHR ''='' then butlast s else s)"

definition strip_pad2 :: "string \<Rightarrow> string" where
  "strip_pad2 s = drop_last_eq (drop_last_eq s)"

definition atob :: "string \<Rightarrow> byte list option" where
  "atob s =
     (let t = filter (\<lambda>c. \<not> ascii_ws c) s;
          u = (if length t mod 4 = 0 then strip_pad2 t else t)
      in if length u mod 4 = 1 then None
         else map_option unsextets (those (map b64_val u)))"

lemma sextets_lt: "x \<in> set (sextets bs) \<Longrightarrow> x < 64"
proof (induction bs rule: sextets.induct)
  case (2 a)
  then show ?case using unat_byte_lt [of a] by auto
next
  case (3 a b)
  then show ?case using unat_byte_lt [of a] unat_byte_lt [of b] by auto
next
  case (4 a b c r)
  then show ?case
    using unat_byte_lt [of a] unat_byte_lt [of b] unat_byte_lt [of c] by auto
qed simp

lemma group_arith1: "b < 16 \<Longrightarrow> (a::nat) div 4 * 4 + ((a mod 4) * 16 + b) div 16 = a"
  by simp

lemma group_arith2:
  "b < 256 \<Longrightarrow> c < 4 \<Longrightarrow>
     ((a mod 4) * 16 + b div 16) mod 16 * 16 + ((b mod 16) * 4 + c) div 4 = (b::nat)"
proof -
  assume "b < 256" "c < 4"
  then have "b div 16 < 16" by simp
  then have "((a mod 4) * 16 + b div 16) mod 16 = b div 16" by (simp add: mod_add_eq)
  moreover have "((b mod 16) * 4 + c) div 4 = b mod 16" using \<open>c < 4\<close> by simp
  ultimately show ?thesis by simp
qed

lemma unsextets_sextets: "unsextets (sextets bs) = bs"
proof (induction bs rule: sextets.induct)
  case (2 a)
  then show ?case using group_arith1 [of 0 "unat a"] by simp
next
  case (3 a b)
  have "unat b div 16 < 16" by (rule byte_div16_lt)
  then show ?case
    using group_arith1 [of "unat b div 16" "unat a"]
      group_arith2 [of "unat b" 0 "unat a"] unat_byte_lt [of b] by simp
next
  case (4 a b c r)
  have "unat b div 16 < 16" by (rule byte_div16_lt)
  moreover have "unat c div 64 < 4" using unat_byte_lt [of c] by simp
  moreover have "((unat b mod 16) * 4 + unat c div 64) mod 4 * 64 + unat c mod 64 = unat c"
    using unat_byte_lt [of c] by simp
  ultimately show ?case
    using group_arith1 [of "unat b div 16" "unat a"]
      group_arith2 [of "unat b" "unat c div 64" "unat a"] unat_byte_lt [of b] "4.IH" by simp
qed simp

lemma length_sextets_mod4: "length (sextets bs) mod 4 \<noteq> 1"
  by (induction bs rule: sextets.induct) auto

lemma b64_val_all: "map b64_val b64_alphabet = map Some [0..<64]"
  by (simp add: b64_alphabet_def b64_val_def upt_rec)

lemma b64_val_char: "n < 64 \<Longrightarrow> b64_val (b64_char n) = Some n"
proof -
  assume n: "n < 64"
  have "length b64_alphabet = 64" by (simp add: b64_alphabet_def)
  with n have "b64_val (b64_char n) = map b64_val b64_alphabet ! n"
    by (simp add: b64_char_def)
  with n show ?thesis by (simp add: b64_val_all)
qed

lemma b64_val_SomeD: "b64_val c = Some n \<Longrightarrow> \<not> ascii_ws c \<and> c \<noteq> CHR ''=''"
  by (auto simp: b64_val_def ascii_ws_def Let_def split: if_splits)

lemma those_map_Some: "those (map Some xs) = Some xs"
  by (induction xs) auto

lemma those_b64: "\<forall>x\<in>set xs. x < 64 \<Longrightarrow> those (map b64_val (map b64_char xs)) = Some xs"
proof -
  assume "\<forall>x\<in>set xs. x < 64"
  then have "map b64_val (map b64_char xs) = map Some xs" by (auto simp: b64_val_char)
  then show ?thesis by (simp only: those_map_Some)
qed

text \<open>Decoding any padding-free text of alphabet characters, padded to a multiple of four.\<close>

lemma strip_pad2_padded:
  "u = [] \<or> last u \<noteq> CHR ''='' \<Longrightarrow> k \<le> 2 \<Longrightarrow> strip_pad2 (u @ replicate k CHR ''='') = u"
proof -
  assume u: "u = [] \<or> last u \<noteq> CHR ''=''" and k: "k \<le> 2"
  have u0: "drop_last_eq u = u" using u by (auto simp: drop_last_eq_def)
  have u1: "drop_last_eq (v @ [CHR ''='']) = v" for v by (simp add: drop_last_eq_def)
  from k consider "k = 0" | "k = 1" | "k = 2" by linarith
  then show ?thesis
  proof cases
    case 1 then show ?thesis by (simp add: strip_pad2_def u0)
  next
    case 2 then show ?thesis by (simp add: strip_pad2_def u0 u1)
  next
    case 3
    then have "u @ replicate k CHR ''='' = (u @ [CHR ''='']) @ [CHR ''='']"
      by (simp add: numeral_2_eq_2)
    then show ?thesis by (simp only: strip_pad2_def u1)
  qed
qed

lemma atob_padded:
  assumes xs: "\<forall>x\<in>set xs. x < 64" and len: "length xs mod 4 \<noteq> 1"
  shows "atob (map b64_char xs @ b64_pad (length xs)) = Some (unsextets xs)"
proof -
  let ?u = "map b64_char xs"
  have plain: "\<not> ascii_ws c \<and> c \<noteq> CHR ''=''" if "c \<in> set ?u" for c
    using that xs by (auto dest: b64_val_SomeD [OF b64_val_char])
  have t: "filter (\<lambda>c. \<not> ascii_ws c) (?u @ b64_pad (length xs)) = ?u @ b64_pad (length xs)"
    using plain by (intro filter_True) (auto simp: b64_pad_def ascii_ws_def)
  define k where "k = (if length xs mod 4 = 0 then 0 else 4 - length xs mod 4)"
  have pad: "b64_pad (length xs) = replicate k CHR ''=''" by (simp add: b64_pad_def k_def)
  have "length xs mod 4 < 4" by simp
  then have k: "k \<le> 2" using len by (auto simp: k_def)
  have "(length xs + k) mod 4 = 0"
    using \<open>length xs mod 4 < 4\<close> by (auto simp: k_def mod_add_left_eq [symmetric, of "length xs"])
  then have "length (?u @ b64_pad (length xs)) mod 4 = 0" by (simp add: pad)
  moreover have "strip_pad2 (?u @ b64_pad (length xs)) = ?u"
  proof -
    have "?u = [] \<or> last ?u \<noteq> CHR ''=''" using plain last_in_set by blast
    then show ?thesis using k by (simp add: pad strip_pad2_padded)
  qed
  ultimately show ?thesis using t len those_b64 [OF xs] by (simp add: atob_def Let_def)
qed

lemma atob_btoa: "atob (btoa bs) = Some bs"
  using atob_padded [OF _ length_sextets_mod4, of bs] sextets_lt
  by (simp add: btoa_def unsextets_sextets)

interpretation b64: codec btoa atob "\<lambda>_. True"
  by unfold_locales (simp add: atob_btoa)

subsection \<open>base64url, as auth/session.js and core/keys.js write it\<close>

definition url_safe :: "char \<Rightarrow> char" where
  "url_safe c = (if c = CHR ''+'' then CHR ''-'' else if c = CHR ''/'' then CHR ''_'' else c)"

definition url_unsafe :: "char \<Rightarrow> char" where
  "url_unsafe c = (if c = CHR ''-'' then CHR ''+'' else if c = CHR ''_'' then CHR ''/'' else c)"

definition strip_eq :: "string \<Rightarrow> string" where
  "strip_eq s = rev (dropWhile (\<lambda>c. c = CHR ''='') (rev s))"

definition b64u_encode :: "byte list \<Rightarrow> string" where
  "b64u_encode bytes = strip_eq (map url_safe (btoa bytes))"

definition b64u_decode :: "string \<Rightarrow> byte list option" where
  "b64u_decode str = atob (map url_unsafe str @ b64_pad (length str))"

lemma strip_eq_padded:
  "u = [] \<or> last u \<noteq> CHR ''='' \<Longrightarrow> strip_eq (u @ replicate k CHR ''='') = u"
proof -
  assume u: "u = [] \<or> last u \<noteq> CHR ''=''"
  have "dropWhile (\<lambda>c. c = CHR ''='') (replicate k CHR ''='' @ rev u) = rev u"
    using u by (induction k) (auto simp: dropWhile_eq_self_iff hd_rev)
  then show ?thesis by (simp add: strip_eq_def)
qed

lemma b64_char_plain:
  "n < 64 \<Longrightarrow> url_unsafe (url_safe (b64_char n)) = b64_char n \<and> url_safe (b64_char n) \<noteq> CHR ''=''"
proof -
  assume "n < 64"
  then have v: "b64_val (b64_char n) = Some n" by (rule b64_val_char)
  then show ?thesis
    by (auto simp: b64_val_def url_safe_def url_unsafe_def Let_def split: if_splits)
qed

lemma b64u_encode_sextets: "b64u_encode bs = map url_safe (map b64_char (sextets bs))"
proof -
  let ?u = "map url_safe (map b64_char (sextets bs))"
  have "c \<noteq> CHR ''=''" if "c \<in> set ?u" for c
    using that b64_char_plain sextets_lt by auto
  then have "?u = [] \<or> last ?u \<noteq> CHR ''=''" using last_in_set by blast
  then have "strip_eq (?u @ replicate k CHR ''='') = ?u" for k by (rule strip_eq_padded)
  moreover have "\<exists>k. map url_safe (b64_pad (length (sextets bs))) = replicate k CHR ''=''"
    by (auto simp: b64_pad_def url_safe_def intro: exI [of _ 0])
  ultimately show ?thesis by (auto simp: b64u_encode_def btoa_def)
qed

lemma b64u_decode_encode: "b64u_decode (b64u_encode bs) = Some bs"
proof -
  have "map url_unsafe (b64u_encode bs) = map b64_char (sextets bs)"
    using b64_char_plain sextets_lt by (auto simp: b64u_encode_sextets)
  moreover have "length (b64u_encode bs) = length (sextets bs)"
    by (simp add: b64u_encode_sextets)
  ultimately show ?thesis
    using atob_padded [OF _ length_sextets_mod4, of bs] sextets_lt
    by (simp add: b64u_decode_def unsextets_sextets)
qed

interpretation b64u: codec b64u_encode b64u_decode "\<lambda>_. True"
  by unfold_locales (simp add: b64u_decode_encode)

lemma b64u_encode_no_sep:
  "c \<in> set (b64u_encode bs) \<Longrightarrow> is_alnum c \<or> c = CHR ''-'' \<or> c = CHR ''_''"
proof -
  assume "c \<in> set (b64u_encode bs)"
  then obtain n where n: "n < 64" and c: "c = url_safe (b64_char n)"
    using sextets_lt by (auto simp: b64u_encode_sextets)
  have "c = CHR ''-'' \<or> c = CHR ''_'' \<or> b64_val c = Some n \<and> c \<noteq> CHR ''+'' \<and> c \<noteq> CHR ''/''"
    using b64_val_char [OF n] by (simp add: c url_safe_def)
  moreover have "is_alnum c" if "b64_val c = Some n" "c \<noteq> CHR ''+''" "c \<noteq> CHR ''/''"
  proof -
    have "char_of (43::nat) = CHR ''+''" "char_of (47::nat) = CHR ''/''"
      by (simp_all add: char_of_def bit_0)
    then have "(of_char c :: nat) \<noteq> 43" "(of_char c :: nat) \<noteq> 47"
      using that(2,3) by (metis char_of_char)+
    with that(1) show ?thesis
      by (auto simp: b64_val_def is_alnum_def is_digit_def is_lower_def is_upper_def
          Let_def split: if_splits)
  qed
  ultimately show ?thesis by blast
qed

lemma b64u_encode_Nil_iff: "b64u_encode bs = [] \<longleftrightarrow> bs = []"
  by (metis b64u.enc_inj b64u_encode_sextets list.simps(8) sextets.simps(1))

end
