(* ===== verification/Json.thy ===== *)
theory Json
  imports Codec
begin

text \<open>
  \<open>JSON.stringify\<close> and \<open>JSON.parse\<close>, which the panel uses for request bodies, session payloads
  and the list-valued columns and settings. Texts are within U+0000..U+00FF, also when
  written as escapes. The main lemma is the round trip on values without \<open>undefined\<close> whose numbers
  are integers; the interface \<open>codec\<close> is interpreted on it.
\<close>

subsection \<open>Printing\<close>

definition esc_char :: "char \<Rightarrow> string" where
  "esc_char c =
     (if c = CHR 0x22 then [CHR 0x5C, CHR 0x22]
      else if c = CHR 0x5C then [CHR 0x5C, CHR 0x5C]
      else if c = CHR 0x08 then [CHR 0x5C, CHR ''b'']
      else if c = CHR 0x0C then [CHR 0x5C, CHR ''f'']
      else if c = CHR 0x0A then [CHR 0x5C, CHR ''n'']
      else if c = CHR 0x0D then [CHR 0x5C, CHR ''r'']
      else if c = CHR 0x09 then [CHR 0x5C, CHR ''t'']
      else if of_char c < (32::nat)
        then [CHR 0x5C, CHR ''u'', CHR ''0'', CHR ''0''] @ hex2 (word_of_nat (of_char c))
      else [c])"

definition quote :: "string \<Rightarrow> string" where
  "quote s = CHR 0x22 # concat (map esc_char s) @ [CHR 0x22]"

fun json_stringify :: "jval \<Rightarrow> string" where
  "json_stringify JUndef = ''null''"
| "json_stringify JNull = ''null''"
| "json_stringify (JBool b) = (if b then ''true'' else ''false'')"
| "json_stringify (JNum n) = (case n of Fin q \<Rightarrow> show_num q | _ \<Rightarrow> ''null'')"
| "json_stringify (JStr s) = quote s"
| "json_stringify (JArr xs) = ''['' @ join_with '','' (map json_stringify xs) @ '']''"
| "json_stringify (JObj kvs) =
     ''{'' @ join_with '',''
       (map (\<lambda>(k, v). quote k @ '':'' @ json_stringify v) (filter (\<lambda>(k, v). v \<noteq> JUndef) kvs)) @ ''}''"

subsection \<open>Parsing\<close>

definition json_ws :: "char \<Rightarrow> bool" where
  "json_ws c \<longleftrightarrow> c = CHR '' '' \<or> c = CHR 0x09 \<or> c = CHR 0x0A \<or> c = CHR 0x0D"

definition skip_ws :: "string \<Rightarrow> string" where
  "skip_ws s = dropWhile json_ws s"

definition unesc :: "char \<Rightarrow> char option" where
  "unesc e =
     (if e = CHR 0x22 \<or> e = CHR 0x5C \<or> e = CHR ''/'' then Some e
      else if e = CHR ''b'' then Some (CHR 0x08)
      else if e = CHR ''f'' then Some (CHR 0x0C)
      else if e = CHR ''n'' then Some (CHR 0x0A)
      else if e = CHR ''r'' then Some (CHR 0x0D)
      else if e = CHR ''t'' then Some (CHR 0x09)
      else None)"

definition push :: "char \<Rightarrow> (string \<times> string) option \<Rightarrow> (string \<times> string) option" where
  "push c r = map_option (\<lambda>(s, t). (c # s, t)) r"

text \<open>The characters of a string literal, after the opening quote.\<close>

fun parse_str :: "string \<Rightarrow> (string \<times> string) option" where
  "parse_str [] = None"
| "parse_str (c # cs) =
     (if c = CHR 0x22 then Some ([], cs)
      else if c = CHR 0x5C then
        (case cs of
           [] \<Rightarrow> None
         | e # r \<Rightarrow>
             if e = CHR ''u'' then
               (case r of
                  h1 # h2 # h3 # h4 # r' \<Rightarrow>
                    (case hex_nat 0 [h1, h2, h3, h4] of
                       Some n \<Rightarrow> if n < 256 then push (char_of n) (parse_str r') else None
                     | None \<Rightarrow> None)
                | _ \<Rightarrow> None)
             else (case unesc e of Some c' \<Rightarrow> push c' (parse_str r) | None \<Rightarrow> None))
      else if of_char c < (32::nat) then None
      else push c (parse_str cs))"

definition parse_int_part :: "string \<Rightarrow> (string \<times> string) option" where
  "parse_int_part s =
     (let ds = takeWhile is_digit s
      in if ds = [] \<or> (hd ds = CHR ''0'' \<and> length ds \<noteq> 1) then None else Some (ds, dropWhile is_digit s))"

definition parse_frac :: "string \<Rightarrow> (string \<times> string) option" where
  "parse_frac s =
     (case s of
        c # r \<Rightarrow>
          if c = CHR ''.'' then
            (let ds = takeWhile is_digit r in if ds = [] then None else Some (ds, dropWhile is_digit r))
          else Some ([], s)
      | [] \<Rightarrow> Some ([], s))"

definition parse_exp :: "string \<Rightarrow> (int \<times> string) option" where
  "parse_exp s =
     (case s of
        c # r \<Rightarrow>
          if c = CHR ''e'' \<or> c = CHR ''E'' then
            (let r' = (if starts_with ''+'' r \<or> starts_with ''-'' r then tl r else r);
                 ds = takeWhile is_digit r'
             in if ds = [] then None
                else Some ((if starts_with ''-'' r then - 1 else 1) * int (nat_of_digits 0 ds), dropWhile is_digit r'))
          else Some (0, s)
      | [] \<Rightarrow> Some (0, s))"

definition parse_num :: "string \<Rightarrow> (num \<times> string) option" where
  "parse_num s0 =
     (let neg = starts_with ''-'' s0; s = (if neg then tl s0 else s0)
      in case parse_int_part s of None \<Rightarrow> None | Some (i, s1) \<Rightarrow>
        (case parse_frac s1 of None \<Rightarrow> None | Some (f, s2) \<Rightarrow>
          (case parse_exp s2 of None \<Rightarrow> None | Some (e, s3) \<Rightarrow>
            (let m = of_nat (nat_of_digits 0 i) + of_nat (nat_of_digits 0 f) / 10 ^ length f
             in Some ((if neg then - 1 else 1) * scale10 m e, s3)))))"

text \<open>
  Recursive descent with fuel; the fuel bounds the number of nested and successive calls and
  \<open>json_parse\<close> supplies one more than the length of the text, which every call chain stays below.
\<close>

fun parse_val :: "nat \<Rightarrow> string \<Rightarrow> (jval \<times> string) option"
  and parse_elems :: "nat \<Rightarrow> string \<Rightarrow> (jval list \<times> string) option"
  and parse_members :: "nat \<Rightarrow> string \<Rightarrow> ((string \<times> jval) list \<times> string) option" where
  "parse_val 0 s = None"
| "parse_val (Suc n) s =
     (case skip_ws s of
        [] \<Rightarrow> None
      | c # r \<Rightarrow>
          if c = CHR 0x22 then map_option (\<lambda>(t, r'). (JStr t, r')) (parse_str r)
          else if c = CHR ''['' then
            (if starts_with '']'' (skip_ws r) then Some (JArr [], tl (skip_ws r))
             else map_option (\<lambda>(xs, r'). (JArr xs, r')) (parse_elems n r))
          else if c = CHR ''{'' then
            (if starts_with ''}'' (skip_ws r) then Some (JObj [], tl (skip_ws r))
             else map_option (\<lambda>(kvs, r'). (JObj (fold (\<lambda>(k, v). upsert k v) kvs []), r'))
                    (parse_members n r))
          else if starts_with ''null'' (c # r) then Some (JNull, drop 4 (c # r))
          else if starts_with ''true'' (c # r) then Some (JBool True, drop 4 (c # r))
          else if starts_with ''false'' (c # r) then Some (JBool False, drop 5 (c # r))
          else map_option (\<lambda>(q, r'). (JNum (Fin q), r')) (parse_num (c # r)))"
| "parse_elems 0 s = None"
| "parse_elems (Suc n) s =
     (case parse_val n s of
        None \<Rightarrow> None
      | Some (v, r) \<Rightarrow>
          (case skip_ws r of
             c # r' \<Rightarrow>
               if c = CHR '']'' then Some ([v], r')
               else if c = CHR '','' then map_option (\<lambda>(vs, t). (v # vs, t)) (parse_elems n r')
               else None
           | [] \<Rightarrow> None))"
| "parse_members 0 s = None"
| "parse_members (Suc n) s =
     (case skip_ws s of
        [] \<Rightarrow> None
      | q # s1 \<Rightarrow>
          if q \<noteq> CHR 0x22 then None
          else (case parse_str s1 of
             None \<Rightarrow> None
           | Some (k, s2) \<Rightarrow>
               (case skip_ws s2 of
                  [] \<Rightarrow> None
                | col # s3 \<Rightarrow>
                    if col \<noteq> CHR '':'' then None
                    else (case parse_val n s3 of
                       None \<Rightarrow> None
                     | Some (v, r) \<Rightarrow>
                         (case skip_ws r of
                            [] \<Rightarrow> None
                          | c # r' \<Rightarrow>
                              if c = CHR ''}'' then Some ([(k, v)], r')
                              else if c = CHR '','' then
                                map_option (\<lambda>(kvs, t). ((k, v) # kvs, t)) (parse_members n r')
                              else None)))))"

text \<open>\<open>None\<close> is the SyntaxError.\<close>

definition json_parse :: "string \<Rightarrow> jval option" where
  "json_parse s =
     (case parse_val (Suc (length s)) s of
        None \<Rightarrow> None
      | Some (v, r) \<Rightarrow> if skip_ws r = [] then Some v else None)"

subsection \<open>Round trip\<close>

text \<open>The values the round trip holds for.\<close>

fun plain :: "jval \<Rightarrow> bool" where
  "plain JUndef = False"
| "plain JNull = True"
| "plain (JBool b) = True"
| "plain (JNum n) = (case n of Fin q \<Rightarrow> is_int q | _ \<Rightarrow> False)"
| "plain (JStr s) = True"
| "plain (JArr xs) = list_all plain xs"
| "plain (JObj kvs) = (distinct (map fst kvs) \<and> list_all (\<lambda>(k, v). plain v) kvs)"

lemma hex_nat_two: "hex_nat 0 (CHR ''0'' # CHR ''0'' # hex2 b) = Some (unat b)"
proof -
  have "hex_val (CHR ''0'') = Some 0" by (simp add: hex_val_def)
  then show ?thesis
    using byte_div16_lt [of b] by (simp add: hex2_def hex_val_hex_digit)
qed

lemma parse_str_esc_char: "parse_str (esc_char c @ t) = push c (parse_str t)"
proof (cases "of_char c < (32::nat)")
  case True
  have h: "hex_nat 0 (CHR ''0'' # CHR ''0'' # hex2 (word_of_nat (of_char c))) = Some (of_char c)"
    unfolding hex_nat_two using True by (simp add: unat_of_nat)
  then show ?thesis
    using True by (auto simp: esc_char_def unesc_def hex2_def)
next
  case False
  then show ?thesis by (auto simp: esc_char_def unesc_def)
qed

lemma parse_str_quote: "parse_str (concat (map esc_char s) @ CHR 0x22 # r) = Some (s, r)"
  by (induction s) (simp_all add: parse_str_esc_char push_def)

lemma show_nat_head: "show_nat n = [digit_char n] \<and> n < 10 \<or> hd (show_nat n) \<noteq> CHR ''0''"
proof (induction n rule: show_nat.induct)
  case (1 n)
  show ?case
  proof (cases "n < 10")
    case True
    then show ?thesis by (subst show_nat.simps) simp
  next
    case False
    have "hd (show_nat (n div 10)) \<noteq> CHR ''0''"
    proof (cases "hd (show_nat (n div 10)) \<noteq> CHR ''0''")
      case False
      with "1.IH" \<open>\<not> n < 10\<close> have s: "show_nat (n div 10) = [digit_char (n div 10)]" "n div 10 < 10"
        by auto
      with False have "(of_char (digit_char (n div 10)) :: nat) = 48" by simp
      with s(2) have "n div 10 = 0" by (simp add: digit_char_of)
      with \<open>\<not> n < 10\<close> show ?thesis by linarith
    qed
    with False show ?thesis by (subst (1 2) show_nat.simps) simp
  qed
qed

definition num_end :: "string \<Rightarrow> bool" where
  "num_end r \<longleftrightarrow>
     (case r of [] \<Rightarrow> True | c # _ \<Rightarrow> \<not> is_digit c \<and> c \<noteq> CHR ''.'' \<and> c \<noteq> CHR ''e'' \<and> c \<noteq> CHR ''E'')"

lemma digits_span:
  assumes "list_all is_digit ds" and "num_end r"
  shows "takeWhile is_digit (ds @ r) = ds" and "dropWhile is_digit (ds @ r) = r"
proof -
  have "takeWhile is_digit r = []" "dropWhile is_digit r = r"
    using assms(2) by (auto simp: num_end_def split: list.splits)
  then show "takeWhile is_digit (ds @ r) = ds" and "dropWhile is_digit (ds @ r) = r"
    using assms(1) by (simp_all add: list_all_iff)
qed

lemma parse_int_show_nat: "num_end r \<Longrightarrow> parse_int_part (show_nat n @ r) = Some (show_nat n, r)"
  using digits_span [OF show_nat_digits] show_nat_head [of n] by (auto simp: parse_int_part_def Let_def)

lemma parse_frac_end: "num_end r \<Longrightarrow> parse_frac r = Some ([], r)"
  by (auto simp: parse_frac_def num_end_def split: list.splits)

lemma parse_exp_end: "num_end r \<Longrightarrow> parse_exp r = Some (0, r)"
  by (auto simp: parse_exp_def num_end_def split: list.splits)

lemma digit_not_minus: "is_digit c \<Longrightarrow> c \<noteq> CHR ''-''"
  by (auto simp: is_digit_def)

lemma show_nat_not_minus: "\<not> starts_with ''-'' (show_nat n @ r)"
proof -
  obtain c cs where c: "show_nat n = c # cs" by (cases "show_nat n") auto
  have "is_digit c" using show_nat_digits [of n] by (simp add: c)
  then show ?thesis by (auto simp: c dest: digit_not_minus)
qed

lemma parse_num_show_int: "num_end r \<Longrightarrow> parse_num (show_int i @ r) = Some (of_int i, r)"
  using show_nat_not_minus [of "nat i" r]
  by (auto simp: show_int_def parse_num_def parse_int_show_nat parse_frac_end parse_exp_end
      nat_of_digits_show_nat scale10_def Let_def)

definition val_head :: "string \<Rightarrow> bool" where
  "val_head s \<longleftrightarrow> (\<exists>c cs. s = c # cs \<and> \<not> json_ws c \<and> c \<noteq> CHR '']'')"

lemma show_int_head: "\<exists>c cs. show_int i = c # cs \<and> (is_digit c \<or> c = CHR ''-'')"
proof -
  obtain c cs where c: "show_nat (nat i) = c # cs" by (cases "show_nat (nat i)") auto
  have "is_digit c" using show_nat_digits [of "nat i"] by (simp add: c)
  with c show ?thesis by (auto simp: show_int_def)
qed

lemma val_head_plain: "plain v \<Longrightarrow> val_head (json_stringify v)"
proof (cases v)
  case (JNum n)
  assume "plain v"
  with JNum obtain q where "n = Fin q" "is_int q" by (cases n) auto
  moreover obtain c cs where "show_int \<lfloor>q\<rfloor> = c # cs" "is_digit c \<or> c = CHR ''-''"
    using show_int_head by blast
  ultimately show ?thesis
    using JNum by (auto simp: val_head_def show_num_def json_ws_def is_digit_def)
qed (auto simp: val_head_def quote_def json_ws_def)

lemma skip_ws_head: "\<not> json_ws c \<Longrightarrow> skip_ws (c # cs) = c # cs"
  by (simp add: skip_ws_def)

lemma skip_ws_val: "val_head s \<Longrightarrow> skip_ws (s @ r) = s @ r"
  by (auto simp: val_head_def skip_ws_head)

definition rt :: "jval \<Rightarrow> bool" where
  "rt v \<longleftrightarrow> (\<forall>n r. num_end r \<longrightarrow> length (json_stringify v) \<le> n \<longrightarrow>
     parse_val n (json_stringify v @ r) = Some (v, r))"

lemma rtD: "rt v \<Longrightarrow> num_end r \<Longrightarrow> length (json_stringify v) \<le> n \<Longrightarrow>
    parse_val n (json_stringify v @ r) = Some (v, r)"
  by (simp add: rt_def)

lemma num_end_sep [simp]:
  "num_end (CHR '','' # r)" "num_end (CHR '']'' # r)" "num_end (CHR ''}'' # r)" "num_end []"
  by (simp_all add: num_end_def is_digit_def)

lemma skip_ws_sep [simp]:
  "skip_ws (CHR '','' # r) = CHR '','' # r" "skip_ws (CHR '']'' # r) = CHR '']'' # r"
  "skip_ws (CHR ''}'' # r) = CHR ''}'' # r" "skip_ws (CHR '':'' # r) = CHR '':'' # r"
  "skip_ws (CHR 0x22 # r) = CHR 0x22 # r" "skip_ws [] = []"
  by (simp_all add: skip_ws_def json_ws_def)

lemma parse_elems_join:
  "list_all rt xs \<Longrightarrow> xs \<noteq> [] \<Longrightarrow> length (join_with '','' (map json_stringify xs)) < n \<Longrightarrow>
     parse_elems n (join_with '','' (map json_stringify xs) @ CHR '']'' # r) = Some (xs, r)"
proof (induction xs arbitrary: n)
  case (Cons x xs)
  then obtain m where n: "n = Suc m" by (cases n) auto
  show ?case
  proof (cases xs)
    case Nil
    with Cons.prems show ?thesis by (simp add: n rtD)
  next
    case (Cons y ys)
    let ?rest = "join_with '','' (map json_stringify xs)"
    have "length (json_stringify x) \<le> m" "length ?rest < m"
      using Cons.prems Cons by (auto simp: n)
    moreover have "parse_elems m (?rest @ CHR '']'' # r) = Some (xs, r)"
      using Cons.IH Cons.prems(1) Cons \<open>length ?rest < m\<close> by simp
    ultimately show ?thesis using Cons.prems(1) Cons by (simp add: n rtD)
  qed
qed simp

definition member_text :: "string \<times> jval \<Rightarrow> string" where
  "member_text kv = quote (fst kv) @ '':'' @ json_stringify (snd kv)"

lemma parse_members_join:
  "list_all (\<lambda>kv. rt (snd kv)) kvs \<Longrightarrow> kvs \<noteq> [] \<Longrightarrow>
   length (join_with '','' (map member_text kvs)) < n \<Longrightarrow>
     parse_members n (join_with '','' (map member_text kvs) @ CHR ''}'' # r) = Some (kvs, r)"
proof (induction kvs arbitrary: n)
  case (Cons kv kvs)
  then obtain m where n: "n = Suc m" by (cases n) auto
  obtain k v where kv: "kv = (k, v)" by (cases kv)
  have mt: "member_text (k, v) = CHR 0x22 # concat (map esc_char k) @ CHR 0x22 # CHR '':'' # json_stringify v"
    by (simp add: member_text_def quote_def)
  show ?case
  proof (cases kvs)
    case Nil
    with Cons.prems show ?thesis
      by (simp add: n kv mt parse_str_quote rtD)
  next
    case (Cons y ys)
    let ?rest = "join_with '','' (map member_text kvs)"
    have l: "length (json_stringify v) \<le> m" "length ?rest < m"
      using Cons.prems Cons by (auto simp: n kv mt)
    moreover have "parse_members m (?rest @ CHR ''}'' # r) = Some (kvs, r)"
      using Cons.IH Cons.prems(1) Cons \<open>length ?rest < m\<close> by simp
    ultimately show ?thesis
      using Cons.prems(1) Cons by (simp add: n kv mt parse_str_quote rtD)
  qed
qed simp

lemma fold_upsert_fresh:
  "distinct (map fst (acc @ kvs)) \<Longrightarrow> fold (\<lambda>(k, v). upsert k v) kvs acc = acc @ kvs"
proof (induction kvs arbitrary: acc)
  case (Cons kv kvs)
  obtain k v where kv: "kv = (k, v)" by (cases kv)
  have "upsert k v acc = acc @ [(k, v)]" using Cons.prems by (auto simp: kv intro!: upsert_fresh)
  with Cons show ?case by (simp add: kv)
qed simp

lemma plain_members_filter:
  "list_all (\<lambda>(k, v). plain v) kvs \<Longrightarrow> filter (\<lambda>(k, v). v \<noteq> JUndef) kvs = kvs"
  by (induction kvs) auto

lemma rt_plain: "plain v \<Longrightarrow> rt v"
proof (induction v rule: plain.induct)
  case (4 n)
  then obtain q where q: "n = Fin q" "is_int q" by (cases n) auto
  then have tx: "json_stringify (JNum n) = show_int \<lfloor>q\<rfloor>" by (simp add: show_num_def)
  obtain c cs where c: "show_int \<lfloor>q\<rfloor> = c # cs" "is_digit c \<or> c = CHR ''-''"
    using show_int_head by blast
  have ne: "c \<noteq> x" if "x \<in> {CHR 0x22, CHR ''['', CHR ''{'', CHR ''n'', CHR ''t'', CHR ''f'', CHR '' '', CHR 0x09, CHR 0x0A, CHR 0x0D}" for x
    using c(2) that by (auto simp: is_digit_def)
  have "parse_num (show_int \<lfloor>q\<rfloor> @ r) = Some (q, r)" if "num_end r" for r
    using parse_num_show_int [OF that, of "\<lfloor>q\<rfloor>"] q(2) by (simp add: is_int_def)
  then have pv: "parse_val (Suc m) (show_int \<lfloor>q\<rfloor> @ r) = Some (JNum n, r)" if "num_end r" for m r
    using that c q ne ne [symmetric] by (simp add: skip_ws_head json_ws_def)
  show ?case
    unfolding rt_def tx
  proof (intro allI impI)
    fix m r
    assume "num_end r" "length (show_int \<lfloor>q\<rfloor>) \<le> m"
    moreover obtain k where "m = Suc k" using c calculation by (cases m) auto
    ultimately show "parse_val m (show_int \<lfloor>q\<rfloor> @ r) = Some (JNum n, r)" using pv by blast
  qed
next
  case (6 xs)
  then have rts: "list_all rt xs" by (auto simp: list_all_iff)
  show ?case
  proof (cases "xs = []")
    case True
    then show ?thesis
      by (auto simp: rt_def skip_ws_head json_ws_def Suc_le_eq dest!: less_imp_Suc_add)
  next
    case False
    let ?b = "join_with '','' (map json_stringify xs)"
    have "val_head (json_stringify (hd xs))"
      using "6.prems" False by (intro val_head_plain) (auto simp: list_all_iff)
    then have h: "val_head ?b"
      using False by (cases xs; cases "tl xs") (auto simp: val_head_def)
    then have nb: "\<not> starts_with '']'' (skip_ws (?b @ t))" for t
      by (auto simp: skip_ws_val) (auto simp: val_head_def)
    show ?thesis
      unfolding rt_def
    proof (intro allI impI)
      fix n r
      assume "length (json_stringify (JArr xs)) \<le> n"
      then obtain m where "n = Suc m" "length ?b < m" by (cases n) auto
      then show "parse_val n (json_stringify (JArr xs) @ r) = Some (JArr xs, r)"
        using nb parse_elems_join [OF rts False] by (simp add: skip_ws_head json_ws_def)
    qed
  qed
next
  case (7 kvs)
  then have rts: "list_all (\<lambda>kv. rt (snd kv)) kvs" by (auto simp: list_all_iff)
  have mt: "(\<lambda>(k, v). quote k @ '':'' @ json_stringify v) = member_text"
    by (auto simp: member_text_def)
  have tx: "json_stringify (JObj kvs) = ''{'' @ join_with '','' (map member_text kvs) @ ''}''"
    using "7.prems" unfolding json_stringify.simps mt by (simp add: plain_members_filter)
  show ?case
  proof (cases "kvs = []")
    case True
    then show ?thesis
      by (auto simp: rt_def skip_ws_head json_ws_def Suc_le_eq dest!: less_imp_Suc_add)
  next
    case False
    let ?b = "join_with '','' (map member_text kvs)"
    have "\<exists>t. ?b = CHR 0x22 # t"
      using False by (cases kvs; cases "tl kvs") (auto simp: member_text_def quote_def)
    then have nb: "\<not> starts_with ''}'' (skip_ws (?b @ t))" for t by auto
    have f: "fold (\<lambda>(k, v). upsert k v) kvs [] = kvs"
      using fold_upsert_fresh [of "[]" kvs] "7.prems" by simp
    show ?thesis
      unfolding rt_def tx
    proof (intro allI impI)
      fix n r
      assume "length (''{'' @ ?b @ ''}'') \<le> n"
      then obtain m where "n = Suc m" "length ?b < m" by (cases n) auto
      then show "parse_val n ((''{'' @ ?b @ ''}'') @ r) = Some (JObj kvs, r)"
        using nb f parse_members_join [OF rts False] by (simp add: skip_ws_head json_ws_def)
    qed
  qed
qed (auto simp: rt_def skip_ws_head json_ws_def quote_def parse_str_quote Suc_le_eq
      dest!: less_imp_Suc_add)

lemma json_parse_stringify: "plain v \<Longrightarrow> json_parse (json_stringify v) = Some v"
  using rtD [OF rt_plain, of v "[]" "Suc (length (json_stringify v))"]
  by (simp add: json_parse_def)

interpretation jsonc: codec json_stringify json_parse plain
  by unfold_locales (rule json_parse_stringify)

end
