(* ===== verification/Core_Http.thy ===== *)
theory Core_Http
  imports Json
begin

text \<open>
  The worker's HTTP plumbing: \<^verbatim>\<open>core/errors.js\<close> (error constructors and the single error
  boundary), \<^verbatim>\<open>core/http.js\<close> (responses, body parsing, security headers, client address),
  \<^verbatim>\<open>core/env.js\<close> (environment resolution).

  A request is its parsed form: method, URL parts, headers with lower-case names, and the body
  text. Human-readable message texts are not part of an error or a body.
\<close>

subsection \<open>Requests and responses\<close>

record request =
  rq_method :: string
  rq_hostname :: string
  rq_path :: string
  rq_query :: "(string \<times> string) list"
  rq_headers :: "(string \<times> string) list"
  rq_body :: string

datatype resp_body = Empty | Json jval | Text string

record response =
  rs_status :: nat
  rs_headers :: "(string \<times> string) list"
  rs_body :: resp_body

definition header_of :: "request \<Rightarrow> string \<Rightarrow> string option" where
  "header_of r k = map_of (rq_headers r) k"

definition query_of :: "request \<Rightarrow> string \<Rightarrow> string option" where
  "query_of r k = map_of (rq_query r) k"

text \<open>\<open>headers.set\<close>: replace the value in place or append.\<close>

fun set_header :: "string \<Rightarrow> string \<Rightarrow> (string \<times> string) list \<Rightarrow> (string \<times> string) list" where
  "set_header k v [] = [(k, v)]"
| "set_header k v ((k', v') # hs) = (if k' = k then (k, v) # hs else (k', v') # set_header k v hs)"

lemma map_of_set_header: "map_of (set_header k v hs) = (map_of hs)(k \<mapsto> v)"
  by (induction hs) auto

interpretation hdr: kv_store set_header adel map_of
  by unfold_locales (simp_all add: map_of_set_header map_of_adel)

definition with_header :: "string \<Rightarrow> string \<Rightarrow> response \<Rightarrow> response" where
  "with_header k v r = r\<lparr>rs_headers := set_header k v (rs_headers r)\<rparr>"

subsection \<open>core/http.js\<close>

definition json :: "jval \<Rightarrow> nat \<Rightarrow> (string \<times> string) list \<Rightarrow> response" where
  "json body status hs =
     \<lparr>rs_status = status,
      rs_headers = fold (\<lambda>(k, v). set_header k v) hs [(''content-type'', ''application/json; charset=utf-8'')],
      rs_body = Json body\<rparr>"

fun obj_fields :: "jval \<Rightarrow> (string \<times> jval) list" where
  "obj_fields (JObj kvs) = kvs"
| "obj_fields v = []"

text \<open>\<open>{ ok: true, ...body }\<close>: a field \<open>ok\<close> of the body overrides.\<close>

definition spread :: "(string \<times> jval) list \<Rightarrow> jval \<Rightarrow> jval" where
  "spread base v = JObj (fold (\<lambda>(k, x). upsert k x) (obj_fields v) base)"

definition ok :: "jval \<Rightarrow> response" where
  "ok body = json (spread [(''ok'', JBool True)] body) 200 []"

definition text_response :: "string \<Rightarrow> nat \<Rightarrow> (string \<times> string) list \<Rightarrow> response" where
  "text_response body status hs =
     \<lparr>rs_status = status,
      rs_headers = fold (\<lambda>(k, v). set_header k v) hs [(''content-type'', ''text/plain; charset=utf-8'')],
      rs_body = Text body\<rparr>"

definition noContent :: response where
  "noContent = \<lparr>rs_status = 204, rs_headers = [], rs_body = Empty\<rparr>"

text \<open>
  \<open>readJson\<close>: an empty body is \<open>{}\<close>. For a malformed one the code evaluates
  \<open>new (await import("./errors.js")).badRequest(...)\<close>; \<open>badRequest\<close> is an arrow function, which has no
  construct behaviour, so what is thrown is a TypeError and not the intended 400.
\<close>

definition readJson :: "request \<Rightarrow> jval res" where
  "readJson r =
     (if rq_body r = [] then Inr (JObj [])
      else case json_parse (rq_body r) of
        Some v \<Rightarrow> Inr v
      | None \<Rightarrow> Inl (JsError ''TypeError''))"

text \<open>Reading a property of the JSON value \<open>null\<close> throws.\<close>

definition need_obj :: "jval \<Rightarrow> jval res" where
  "need_obj v = (if nullish v then Inl (JsError ''TypeError'') else Inr v)"

definition sq :: "string \<Rightarrow> string" where
  "sq s = CHR 0x27 # s @ [CHR 0x27]"

definition csp_value :: string where
  "csp_value = join_with ''; ''
     [''default-src '' @ sq ''self'', ''script-src '' @ sq ''self'',
      ''style-src '' @ sq ''self'' @ '' '' @ sq ''unsafe-inline'',
      ''img-src '' @ sq ''self'' @ '' data: blob:'', ''connect-src '' @ sq ''self'',
      ''font-src '' @ sq ''self'', ''object-src '' @ sq ''none'', ''base-uri '' @ sq ''none'',
      ''form-action '' @ sq ''self'', ''frame-ancestors '' @ sq ''none'']"

definition securityHeaders :: "bool \<Rightarrow> (string \<times> string) list" where
  "securityHeaders isHtml =
     [(''x-content-type-options'', ''nosniff''), (''x-frame-options'', ''DENY''),
      (''referrer-policy'', ''no-referrer''),
      (''permissions-policy'', ''geolocation=(), microphone=(), camera=()''),
      (''cross-origin-opener-policy'', ''same-origin'')] @
     (if isHtml then [(''content-security-policy'', csp_value)] else [])"

definition clientIp :: "request \<Rightarrow> string" where
  "clientIp r =
     (let cf = header_of r ''cf-connecting-ip'';
          xff = (case header_of r ''x-forwarded-for'' of
                   None \<Rightarrow> [] | Some v \<Rightarrow> trim (hd (split_on CHR '','' v)))
      in if cf \<noteq> None \<and> cf \<noteq> Some [] then the cf
         else if xff \<noteq> [] then xff
         else ''0.0.0.0'')"

subsection \<open>core/errors.js\<close>

definition badRequest :: "jval \<Rightarrow> exn" where
  "badRequest detail = HttpError 400 ''bad_request'' None None detail"

definition unauthorized :: exn where
  "unauthorized = HttpError 401 ''unauthorized'' None None JUndef"

definition forbidden :: exn where
  "forbidden = HttpError 403 ''forbidden'' None None JUndef"

definition notFound :: exn where
  "notFound = HttpError 404 ''not_found'' None None JUndef"

definition methodNotAllowed :: "string list \<Rightarrow> exn" where
  "methodNotAllowed allowed =
     HttpError 405 ''method_not_allowed'' None (Some (join_with '', '' allowed)) JUndef"

definition conflict :: exn where
  "conflict = HttpError 409 ''conflict'' None None JUndef"

definition tooMany :: "num \<Rightarrow> exn" where
  "tooMany retryAfter = HttpError 429 ''rate_limited'' (Some retryAfter) None JUndef"

lemmas http_error_defs [act_defs] =
  badRequest_def unauthorized_def forbidden_def notFound_def methodNotAllowed_def conflict_def tooMany_def

text \<open>
  The error boundary. \<open>ref\<close> is the random correlation id; a JsError carries no status, so it
  becomes a 500 whose body names nothing of the cause unless DEBUG_ERRORS is on (the \<open>name\<close> and \<open>stack\<close>
  texts of the \<open>debug\<close> object are not modelled).
\<close>

fun handleError :: "exn \<Rightarrow> bool \<Rightarrow> string \<Rightarrow> response" where
  "handleError (HttpError status code retry allow detail) debugErrors ref =
     json (JObj [(''ok'', JBool False), (''code'', JStr code), (''detail'', detail)]) status
       ((case retry of None \<Rightarrow> [] | Some q \<Rightarrow> if q = 0 then [] else [(''Retry-After'', show_num q)]) @
        (case allow of None \<Rightarrow> [] | Some a \<Rightarrow> if a = [] then [] else [(''Allow'', a)]))"
| "handleError BootError debugErrors ref =
     json (JObj [(''ok'', JBool False), (''code'', JStr ''error'')]) 503 []"
| "handleError (JsError msg) debugErrors ref =
     json (JObj ([(''ok'', JBool False), (''code'', JStr ''internal_error''), (''ref'', JStr ref)] @
                 (if debugErrors then [(''debug'', JObj [(''message'', JStr (take 400 msg))])] else []))) 500 []"

subsection \<open>core/env.js\<close>

record config =
  panelName :: string
  subPrefix :: string
  defaultQuotaGb :: num
  defaultExpiryDays :: num
  fragmentPreset :: string
  logLevel :: string
  sessionTtlMs :: num
  maxLoginAttempts :: num
  loginWindowMs :: num
  dohResolver :: string
  connectTimeoutMs :: num
  debugErrors :: bool

definition DEFAULTS :: config where
  "DEFAULTS = \<lparr>panelName = ''Kaveh'', subPrefix = ''s'', defaultQuotaGb = 50, defaultExpiryDays = 30,
     fragmentPreset = ''mci'', logLevel = ''info'', sessionTtlMs = 1000 * 60 * 60 * 12,
     maxLoginAttempts = 8, loginWindowMs = 1000 * 60 * 10,
     dohResolver = ''https://cloudflare-dns.com/dns-query'', connectTimeoutMs = 8000,
     debugErrors = False\<rparr>"

text \<open>The raw environment: which bindings exist, and the vars and secrets.\<close>

record raw_env =
  re_bound :: "string \<Rightarrow> bool"
  re_vars :: jval

record env =
  e_raw :: raw_env
  e_db :: bool
  e_ledger :: bool
  e_guard :: bool
  e_cache :: bool
  e_assets :: bool
  e_secret :: jval
  e_config :: config

definition env_num :: "jval \<Rightarrow> num \<Rightarrow> num" where
  "env_num v d = (case to_num v of Fin q \<Rightarrow> q | _ \<Rightarrow> d)"

definition env_str :: "jval \<Rightarrow> string \<Rightarrow> string" where
  "env_str v d = to_str (js_coalesce v (JStr d))"

definition resolveEnv :: "raw_env \<Rightarrow> env" where
  "resolveEnv e =
     (let v = fld (re_vars e) in
      \<lparr>e_raw = e, e_db = re_bound e ''DB'', e_ledger = re_bound e ''LEDGER'',
       e_guard = re_bound e ''GUARD'', e_cache = re_bound e ''CACHE'', e_assets = re_bound e ''ASSETS'',
       e_secret = js_coalesce (v ''SECRET'') JNull,
       e_config =
         \<lparr>panelName = env_str (v ''PANEL_NAME'') (panelName DEFAULTS),
          subPrefix = env_str (v ''SUB_PATH_PREFIX'') (subPrefix DEFAULTS),
          defaultQuotaGb = env_num (v ''DEFAULT_QUOTA_GB'') (defaultQuotaGb DEFAULTS),
          defaultExpiryDays = env_num (v ''DEFAULT_EXPIRY_DAYS'') (defaultExpiryDays DEFAULTS),
          fragmentPreset = env_str (v ''FRAGMENT_PRESET'') (fragmentPreset DEFAULTS),
          logLevel = env_str (v ''LOG_LEVEL'') (logLevel DEFAULTS),
          sessionTtlMs = env_num (v ''SESSION_TTL_MS'') (sessionTtlMs DEFAULTS),
          maxLoginAttempts = env_num (v ''MAX_LOGIN_ATTEMPTS'') (maxLoginAttempts DEFAULTS),
          loginWindowMs = env_num (v ''LOGIN_WINDOW_MS'') (loginWindowMs DEFAULTS),
          dohResolver = env_str (v ''DOH_RESOLVER'') (dohResolver DEFAULTS),
          connectTimeoutMs = env_num (v ''CONNECT_TIMEOUT_MS'') (connectTimeoutMs DEFAULTS),
          debugErrors = (env_str (v ''DEBUG_ERRORS'') [] = ''1'')\<rparr>\<rparr>)"

definition assertReady :: "env \<Rightarrow> unit res" where
  "assertReady E = (if e_db E then Inr () else Inl BootError)"

fun log_rank :: "string \<Rightarrow> nat option" where
  "log_rank l =
     (if l = ''error'' then Some 0 else if l = ''warn'' then Some 1
      else if l = ''info'' then Some 2 else if l = ''debug'' then Some 3 else None)"

text \<open>Whether a logger created at \<open>level\<close> emits a line at \<open>lvl\<close>.\<close>

definition logger_emits :: "string \<Rightarrow> string \<Rightarrow> bool" where
  "logger_emits level lvl =
     (let threshold = (case log_rank level of None \<Rightarrow> 2 | Some n \<Rightarrow> n)
      in case log_rank lvl of None \<Rightarrow> False | Some n \<Rightarrow> n \<le> threshold)"

text \<open>A Durable Object stub: the object named \<open>name\<close>, absent when the binding is.\<close>

definition doStub :: "bool \<Rightarrow> string \<Rightarrow> string option" where
  "doStub bound name = (if bound then Some name else None)"

subsection \<open>URI text\<close>

definition hex_upper :: "byte \<Rightarrow> string" where
  "hex_upper b = map (\<lambda>c. if is_lower c then char_of (of_char c - (32::nat)) else c) (hex2 b)"

definition percent :: "char \<Rightarrow> string" where
  "percent c = concat (map (\<lambda>b. CHR ''%'' # hex_upper b) (utf8_char c))"

definition encodeURIComponent :: "string \<Rightarrow> string" where
  "encodeURIComponent s =
     concat (map (\<lambda>c. if is_alnum c \<or> c \<in> set ''-_.!~*()'' \<or> c = CHR 0x27 then [c] else percent c) s)"

text \<open>The serialisation of \<open>URLSearchParams\<close>.\<close>

definition form_encode :: "string \<Rightarrow> string" where
  "form_encode s =
     concat (map (\<lambda>c. if is_alnum c \<or> c \<in> set ''-_.*'' then [c] else if c = CHR '' '' then ''+'' else percent c) s)"

definition query_string :: "(string \<times> string) list \<Rightarrow> string" where
  "query_string kvs = join_with ''&'' (map (\<lambda>(k, v). form_encode k @ ''='' @ form_encode v) kvs)"

lemma encodeURIComponent_plain: "list_all is_alnum s \<Longrightarrow> encodeURIComponent s = s"
  by (induction s) (auto simp: encodeURIComponent_def)

end
