(* ===== verification/Db.thy ===== *)
theory Db
  imports Core_Http
begin

text \<open>
  The D1 database of the panel and its access layer: the tables of the schema as lists of rows,
  \<^verbatim>\<open>db/index.js\<close> (batching, the settings store, the audit trail), \<^verbatim>\<open>db/migrate.js\<close> (splitting and
  applying migrations behind the isolate latch) and \<^verbatim>\<open>core/keys.js\<close> (the session signing key).

  The crypto and Unicode services of the runtime are the fields of \<open>platform\<close>. A D1 batch is one
  transaction: all its statements take effect or none. Other D1 calls do not fail on their own; a
  constraint violation is an error.
\<close>

subsection \<open>Services of the runtime\<close>

record platform =
  p_sha256 :: "byte list \<Rightarrow> byte list"
  p_hmac :: "byte list \<Rightarrow> byte list \<Rightarrow> byte list"
  p_pbkdf2 :: "byte list \<Rightarrow> byte list \<Rightarrow> nat \<Rightarrow> byte list"
  p_decode :: "byte list \<Rightarrow> string"
  p_decodeURI :: "string \<Rightarrow> string option"
  p_bind :: "jval \<Rightarrow> jval option"

text \<open>
  \<open>p_hmac key data\<close>, \<open>p_pbkdf2 input salt iterations\<close> (256 bits), \<open>p_decode\<close> is \<open>TextDecoder\<close>,
  \<open>p_decodeURI\<close> is \<open>decodeURIComponent\<close>, and \<open>p_bind v\<close> is what D1 stores for a bound value \<open>v\<close>
  (\<open>None\<close>: D1 rejects the type). The random values one request may draw:
\<close>

record entropy =
  en_uuid :: string
  en_uuid2 :: string
  en_key :: "byte list"
  en_salt :: "byte list"
  en_float :: num

subsection \<open>Dates\<close>

text \<open>The UTC calendar date of a day number, and \<open>new Date(ms).toISOString()\<close> for the years 0..9999.\<close>

definition civil :: "int \<Rightarrow> int \<times> int \<times> int" where
  "civil dn =
     (let z = dn + 719468; era = z div 146097; doe = z mod 146097;
          yoe = (doe - doe div 1460 + doe div 36524 - doe div 146096) div 365;
          doy = doe - (365 * yoe + yoe div 4 - yoe div 100);
          mp = (5 * doy + 2) div 153;
          d = doy - (153 * mp + 2) div 5 + 1;
          m = (if mp < 10 then mp + 3 else mp - 9)
      in (yoe + era * 400 + (if m \<le> 2 then 1 else 0), m, d))"

definition pad0 :: "nat \<Rightarrow> int \<Rightarrow> string" where
  "pad0 w i = (let s = show_int i in replicate (w - length s) CHR ''0'' @ s)"

definition iso_day :: "num \<Rightarrow> string" where
  "iso_day ms =
     (let (y, m, d) = civil (\<lfloor>ms\<rfloor> div 86400000)
      in pad0 4 y @ ''-'' @ pad0 2 m @ ''-'' @ pad0 2 d)"

definition iso_string :: "num \<Rightarrow> string" where
  "iso_string ms =
     (let t = \<lfloor>ms\<rfloor> mod 86400000
      in iso_day ms @ ''T'' @ pad0 2 (t div 3600000) @ '':'' @ pad0 2 (t div 60000 mod 60) @ '':'' @
         pad0 2 (t div 1000 mod 60) @ ''.'' @ pad0 3 (t mod 1000) @ ''Z'')"

text \<open>\<open>new Date(x).toISOString().slice(0, 10)\<close>, a RangeError when the time value is out of range.\<close>

fun iso_day_js :: "jsnum \<Rightarrow> string res" where
  "iso_day_js (Fin q) =
     (if \<bar>q\<bar> \<le> 8640000000000000 then Inr (iso_day q) else Inl (JsError ''RangeError''))"
| "iso_day_js x = Inl (JsError ''RangeError'')"

subsection \<open>Tables\<close>

text \<open>
  A user. Columns that a request may fill with an uncoerced JSON value hold a \<open>jval\<close>; the others hold
  what the code always writes into them.
\<close>

record user_row =
  u_id :: nat
  u_username :: string
  u_uuid :: jval
  u_sub_token :: jval
  u_quota_gb :: jval
  u_used_bytes :: num
  u_expiry_days :: jval
  u_first_connect :: jval
  u_activated_at :: "num option"
  u_expires_at :: "num option"
  u_device_limit :: jval
  u_request_limit :: jval
  u_requests_used :: num
  u_ips :: string
  u_proxies :: string
  u_connection :: jval
  u_tls :: jval
  u_fragment :: jval
  u_fingerprint :: jval
  u_block_list :: string
  u_is_active :: num
  u_created_by :: jval
  u_note :: jval
  u_created_at :: num
  u_updated_at :: num

record session_row =
  ss_id :: string
  ss_subject :: string
  ss_role :: string
  ss_created_at :: num
  ss_expires_at :: num
  ss_ip_hash :: "string option"
  ss_ua_hash :: "string option"

record audit_row =
  au_id :: nat
  au_at :: num
  au_actor :: string
  au_action :: string
  au_target :: "string option"
  au_ip_hash :: "string option"
  au_detail :: "string option"

record usage_row =
  us_day :: string
  us_username :: string
  us_up :: num
  us_down :: num
  us_conns :: num

record db =
  db_users :: "user_row list"
  db_user_seq :: nat
  db_settings :: "(string \<times> string \<times> num) list"
  db_sessions :: "session_row list"
  db_audit :: "audit_row list"
  db_audit_seq :: nat
  db_usage :: "usage_row list"
  db_plans :: "jval list"
  db_nodes :: "jval list"
  db_meta :: "(nat \<times> string \<times> num) list"
  db_ddl :: "string list"

definition empty_db :: db where
  "empty_db = \<lparr>db_users = [], db_user_seq = 0, db_settings = [], db_sessions = [], db_audit = [],
     db_audit_seq = 0, db_usage = [], db_plans = [], db_nodes = [], db_meta = [], db_ddl = []\<rparr>"

subsection \<open>Statements and batches\<close>

type_synonym 'd stmt = "'d \<Rightarrow> 'd res"

fun run_stmts :: "'d stmt list \<Rightarrow> 'd \<Rightarrow> 'd res" where
  "run_stmts [] d = Inr d"
| "run_stmts (s # ss) d = (case s d of Inl e \<Rightarrow> Inl e | Inr d' \<Rightarrow> run_stmts ss d')"

text \<open>\<open>E.db.batch\<close>: one transaction.\<close>

definition d1_batch :: "'d stmt list \<Rightarrow> ('d, unit) act" where
  "d1_batch ss d = (case run_stmts ss d of Inl e \<Rightarrow> (Inl e, d) | Inr d' \<Rightarrow> (Inr (), d'))"

fun run_batches :: "'d stmt list list \<Rightarrow> ('d, unit) act" where
  "run_batches [] d = (Inr (), d)"
| "run_batches (b # bs) d = (case d1_batch b d of (Inl e, d') \<Rightarrow> (Inl e, d') | (Inr _, d') \<Rightarrow> run_batches bs d')"

definition batch :: "'d stmt list \<Rightarrow> ('d, unit) act" where
  "batch statements = run_batches (chunks 100 statements)"

definition ok_stmt :: "('d \<Rightarrow> 'd) \<Rightarrow> 'd stmt" where
  "ok_stmt f d = Inr (f d)"

lemma run_stmts_ok: "run_stmts (map ok_stmt fs) d = Inr (fold (\<lambda>f. f) fs d)"
  by (induction fs arbitrary: d) (auto simp: ok_stmt_def)

lemma run_stmts_append:
  "run_stmts (a @ b) d = (case run_stmts a d of Inl e \<Rightarrow> Inl e | Inr d' \<Rightarrow> run_stmts b d')"
  by (induction a arbitrary: d) (auto split: sum.splits)

text \<open>When no statement fails, chunking is not observable.\<close>

lemma run_batches_concat:
  "run_stmts (concat bs) d = Inr d' \<Longrightarrow> run_batches bs d = (Inr (), d')"
  by (induction bs arbitrary: d) (auto simp: d1_batch_def run_stmts_append split: sum.splits)

lemma batch_ok: "run_stmts ss d = Inr d' \<Longrightarrow> batch ss d = (Inr (), d')"
  using run_batches_concat [of "chunks 100 ss" d d'] by (simp add: batch_def concat_chunks)

lemma batch_ok_stmts: "batch (map ok_stmt fs) d = (Inr (), fold (\<lambda>f. f) fs d)"
  by (rule batch_ok) (rule run_stmts_ok)

lemma batch_small: "length ss \<le> 100 \<Longrightarrow> batch ss d = (if ss = [] then (Inr (), d) else d1_batch ss d)"
  by (cases "ss = []")
     (auto simp: batch_def chunks_small split: prod.splits sum.splits)

subsection \<open>The settings store\<close>

definition settings_put :: "num \<Rightarrow> string \<Rightarrow> string \<Rightarrow> db \<Rightarrow> db" where
  "settings_put now k v d = d\<lparr>db_settings := upsert k (v, now) (db_settings d)\<rparr>"

definition settings_del :: "string \<Rightarrow> db \<Rightarrow> db" where
  "settings_del k d = d\<lparr>db_settings := adel k (db_settings d)\<rparr>"

definition setting :: "db \<Rightarrow> string \<Rightarrow> string option" where
  "setting d k = map_option fst (map_of (db_settings d) k)"

interpretation st: kv_store "settings_put now" settings_del setting for now
  by unfold_locales (auto simp: settings_put_def settings_del_def setting_def map_of_upsert map_of_adel)

definition ensureMigrated :: "num \<Rightarrow> db \<Rightarrow> string \<times> db" where
  "ensureMigrated now d =
     (case setting d ''schema_version'' of
        Some v \<Rightarrow> (v, d)
      | None \<Rightarrow> (''1'', d\<lparr>db_settings := db_settings d @ [(''schema_version'', ''1'', now)]\<rparr>))"

text \<open>The in-request cache of \<open>class Settings\<close>; a fresh object has the empty one.\<close>

type_synonym settings_cache = "(string \<times> string) list"

definition S_all :: "db \<Rightarrow> settings_cache \<Rightarrow> settings_cache" where
  "S_all d cache =
     (if cache \<noteq> [] then cache
      else fold (\<lambda>(k, v). upsert k v) (map (\<lambda>(k, v, t). (k, v)) (db_settings d)) [])"

definition S_get :: "db \<Rightarrow> settings_cache \<Rightarrow> string \<Rightarrow> string option \<Rightarrow> string option" where
  "S_get d cache key fallback =
     (case map_of (S_all d cache) key of None \<Rightarrow> fallback | Some v \<Rightarrow> Some v)"

definition S_getJson :: "db \<Rightarrow> settings_cache \<Rightarrow> string \<Rightarrow> jval \<Rightarrow> jval" where
  "S_getJson d cache key fallback =
     (case S_get d cache key None of
        None \<Rightarrow> fallback
      | Some raw \<Rightarrow>
          if raw = [] then fallback
          else (case json_parse raw of Some v \<Rightarrow> v | None \<Rightarrow> fallback))"

fun setting_text :: "jval \<Rightarrow> string" where
  "setting_text (JStr s) = s"
| "setting_text v = json_stringify v"

definition S_set :: "num \<Rightarrow> (string \<times> jval) list \<Rightarrow> db \<times> settings_cache \<Rightarrow> db \<times> settings_cache" where
  "S_set now entries dc =
     (let kvs = map (\<lambda>(k, v). (k, setting_text v)) entries
      in (snd (batch (map (\<lambda>(k, v). ok_stmt (settings_put now k v)) kvs) (fst dc)),
          fold (\<lambda>(k, v). upsert k v) kvs (snd dc)))"

lemma S_get_fresh: "S_get d [] key fb = (case setting d key of None \<Rightarrow> fb | Some v \<Rightarrow> Some v)"
  if "distinct (map fst (db_settings d))"
proof -
  have eq: "map fst (map (\<lambda>(k, v, t). (k, v)) (db_settings d)) = map fst (db_settings d)" by auto
  have "fold (\<lambda>(k, v). upsert k v) (map (\<lambda>(k, v, t). (k, v)) (db_settings d)) [] =
      map (\<lambda>(k, v, t). (k, v)) (db_settings d)"
    using fold_upsert_fresh [of "[]" "map (\<lambda>(k, v, t). (k, v)) (db_settings d)"] that
    unfolding append_Nil eq by blast
  moreover have "map_of (map (\<lambda>(k, v, t). (k, v)) xs) key = map_option fst (map_of xs key)"
    for xs :: "(string \<times> string \<times> num) list"
    by (induction xs) auto
  ultimately show ?thesis by (simp add: S_get_def S_all_def setting_def)
qed

lemma S_set_db: "fst (S_set now entries (d, c)) =
    fold (\<lambda>(k, v). settings_put now k v) (map (\<lambda>(k, v). (k, setting_text v)) entries) d"
proof -
  let ?kvs = "map (\<lambda>(k, v). (k, setting_text v)) entries"
  have "map (\<lambda>(k, v). ok_stmt (settings_put now k v)) ?kvs =
      map ok_stmt (map (\<lambda>(k, v). settings_put now k v) ?kvs)" by auto
  moreover have "fold (\<lambda>f. f) (map (\<lambda>(k, v). settings_put now k v) ?kvs) d =
      fold (\<lambda>(k, v). settings_put now k v) ?kvs d"
    by (simp add: fold_map comp_def case_prod_unfold)
  ultimately show ?thesis by (simp only: S_set_def Let_def batch_ok_stmts fst_conv snd_conv)
qed

lemma settings_fold_other: "db_users (fold (\<lambda>(k, v). settings_put now k v) kvs d) = db_users d"
  "db_sessions (fold (\<lambda>(k, v). settings_put now k v) kvs d) = db_sessions d"
  by (induction kvs arbitrary: d) (auto simp: settings_put_def)

subsection \<open>Audit trail\<close>

definition hashIp :: "platform \<Rightarrow> string \<Rightarrow> string" where
  "hashIp P ip = hex_bytes (take 8 (p_sha256 P (utf8_encode ip)))"

definition audit ::
  "platform \<Rightarrow> num \<Rightarrow> jval \<Rightarrow> string \<Rightarrow> string option \<Rightarrow> string option \<Rightarrow> jval \<Rightarrow> db \<Rightarrow> db" where
  "audit P now actor action target ip detail d =
     d\<lparr>db_audit := db_audit d @
         [\<lparr>au_id = Suc (db_audit_seq d), au_at = now, au_actor = to_str (js_or actor (JStr ''system'')),
           au_action = action, au_target = target,
           au_ip_hash = (case ip of None \<Rightarrow> None | Some a \<Rightarrow> if a = [] then None else Some (hashIp P a)),
           au_detail = (if truthy detail then Some (take 2000 (json_stringify detail)) else None)\<rparr>],
       db_audit_seq := Suc (db_audit_seq d)\<rparr>"

lemma audit_frame [simp]:
  "db_users (audit P now a b c e f d) = db_users d"
  "db_settings (audit P now a b c e f d) = db_settings d"
  "db_sessions (audit P now a b c e f d) = db_sessions d"
  "db_usage (audit P now a b c e f d) = db_usage d"
  "db_meta (audit P now a b c e f d) = db_meta d"
  by (simp_all add: audit_def)

text \<open>Audit ids are strictly increasing and the trail only grows at its end.\<close>

definition audit_ok :: "db \<Rightarrow> bool" where
  "audit_ok d \<longleftrightarrow> sorted_wrt (<) (map au_id (db_audit d)) \<and> list_all (\<lambda>r. au_id r \<le> db_audit_seq d) (db_audit d)"

lemma audit_ok_audit: "audit_ok d \<Longrightarrow> audit_ok (audit P now a b c e f d)"
  by (auto simp: audit_ok_def audit_def sorted_wrt_append list_all_iff less_Suc_eq_le
      intro: le_SucI)

subsection \<open>Schema provisioning\<close>

definition strip_comment_line :: "string \<Rightarrow> string" where
  "strip_comment_line line = (if starts_with ''--'' (trim line) then [] else line)"

definition splitStatements :: "string \<Rightarrow> string list" where
  "splitStatements sql =
     filter (\<lambda>s. s \<noteq> [] \<and> \<not> starts_with ''--'' (dropWhile is_ws s))
       (map trim (split_on CHR '';''
         (join_with [CHR 0x0A] (map strip_comment_line (split_on (CHR 0x0A) sql)))))"

record migration =
  mg_v :: nat
  mg_name :: string
  mg_sql :: string

text \<open>\<open>MIGRATIONS\<close>: one entry, whose text is the bundled \<open>schema/0001_init.sql\<close>.\<close>

definition MIGRATIONS :: "string \<Rightarrow> migration list" where
  "MIGRATIONS schema_0001 = [\<lparr>mg_v = 1, mg_name = ''0001_init'', mg_sql = schema_0001\<rparr>]"

definition ddl_stmt :: "(string \<Rightarrow> bool) \<Rightarrow> string \<Rightarrow> db stmt" where
  "ddl_stmt accepts sql d =
     (if accepts sql then Inr (d\<lparr>db_ddl := db_ddl d @ [sql]\<rparr>) else Inl (JsError ''D1_ERROR''))"

definition meta_stmt :: "num \<Rightarrow> migration \<Rightarrow> db stmt" where
  "meta_stmt now m d =
     (if mg_v m \<in> fst ` set (db_meta d) then Inl (JsError ''D1_ERROR'')
      else Inr (d\<lparr>db_meta := db_meta d @ [(mg_v m, mg_name m, now)]\<rparr>))"

definition migration_stmts :: "(string \<Rightarrow> bool) \<Rightarrow> num \<Rightarrow> migration \<Rightarrow> db stmt list" where
  "migration_stmts accepts now m = map (ddl_stmt accepts) (splitStatements (mg_sql m)) @ [meta_stmt now m]"

fun apply_migrations :: "(string \<Rightarrow> bool) \<Rightarrow> num \<Rightarrow> migration list \<Rightarrow> (db, unit) act" where
  "apply_migrations accepts now [] d = (Inr (), d)"
| "apply_migrations accepts now (m # ms) d =
     (case d1_batch (migration_stmts accepts now m) d of
        (Inl e, d') \<Rightarrow> (Inl e, d')
      | (Inr _, d') \<Rightarrow> apply_migrations accepts now ms d')"

record migrate_state =
  ms_provisioned :: bool
  ms_db :: db

record migrate_result =
  mr_applied :: "nat list"
  mr_skipped :: bool

text \<open>\<open>accepts\<close> says which statements D1 executes without an error; \<open>bound\<close>, whether the DB binding exists.\<close>

definition ensureSchema ::
  "migration list \<Rightarrow> (string \<Rightarrow> bool) \<Rightarrow> bool \<Rightarrow> num \<Rightarrow> (migrate_state, migrate_result) act" where
  "ensureSchema migs accepts bound now s =
     (if ms_provisioned s then (Inr \<lparr>mr_applied = [], mr_skipped = True\<rparr>, s)
      else if \<not> bound then (Inl (JsError ''ensureSchema: no D1 binding''), s)
      else let have_v = fst ` set (db_meta (ms_db s));
               todo = filter (\<lambda>m. mg_v m \<notin> have_v) migs
           in if todo = []
              then (Inr \<lparr>mr_applied = [], mr_skipped = False\<rparr>, s\<lparr>ms_provisioned := True\<rparr>)
              else (case apply_migrations accepts now todo (ms_db s) of
                      (Inl e, d) \<Rightarrow> (Inl e, s\<lparr>ms_db := d\<rparr>)
                    | (Inr _, d) \<Rightarrow>
                        (Inr \<lparr>mr_applied = map mg_v todo, mr_skipped = False\<rparr>,
                         s\<lparr>ms_db := d, ms_provisioned := True\<rparr>)))"

definition resetSchemaLatch :: "migrate_state \<Rightarrow> migrate_state" where
  "resetSchemaLatch s = s\<lparr>ms_provisioned := False\<rparr>"

subsection \<open>core/keys.js\<close>

definition REDACTED_KEYS :: "string list" where
  "REDACTED_KEYS = [''admin_hash'', ''signing_key'', ''cf_api_token'', ''secret'']"

definition newKey :: "byte list \<Rightarrow> string" where
  "newKey bytes = strip_eq (map url_safe (btoa bytes))"

text \<open>The database and the module-level \<open>cached\<close> of the isolate.\<close>

type_synonym key_state = "db \<times> string option"

definition insert_or_ignore :: "num \<Rightarrow> string \<Rightarrow> string \<Rightarrow> db \<Rightarrow> db" where
  "insert_or_ignore now k v d =
     (if k \<in> fst ` set (db_settings d) then d
      else d\<lparr>db_settings := db_settings d @ [(k, v, now)]\<rparr>)"

definition signingKey :: "env \<Rightarrow> num \<Rightarrow> byte list \<Rightarrow> (key_state, string) act" where
  "signingKey E now bytes dc =
     (if truthy (e_secret E) then (Inr (to_str (e_secret E)), dc)
      else (case snd dc of
        Some k \<Rightarrow> (Inr k, dc)
      | None \<Rightarrow>
          let d = insert_or_ignore now ''signing_key'' (newKey bytes) (fst dc)
          in (case setting d ''signing_key'' of
                Some v \<Rightarrow> if v = [] then (Inl (JsError ''could not establish a session signing key''), (d, None))
                          else (Inr v, (d, Some v))
              | None \<Rightarrow> (Inl (JsError ''could not establish a session signing key''), (d, None)))))"

definition redactSettings :: "(string \<times> 'v) list \<Rightarrow> (string \<times> 'v) list" where
  "redactSettings obj = fold adel REDACTED_KEYS obj"

definition resetKeyCache :: "key_state \<Rightarrow> key_state" where
  "resetKeyCache dc = (fst dc, None)"

subsection \<open>What the access layer guarantees\<close>

definition settings_ok :: "db \<Rightarrow> bool" where
  "settings_ok d \<longleftrightarrow> distinct (map fst (db_settings d))"

lemma settings_ok_puts: "settings_ok d \<Longrightarrow> settings_ok (fold (\<lambda>(k, v). settings_put now k v) kvs d)"
  by (induction kvs arbitrary: d) (auto simp: settings_ok_def settings_put_def distinct_upsert)

lemma setting_after_set:
  "setting (fst (S_set now entries (d, c))) key =
     (case map_of (rev (map (\<lambda>(k, v). (k, setting_text v)) entries)) key of
        Some v \<Rightarrow> Some v | None \<Rightarrow> setting d key)"
  by (simp only: S_set_db st.lookup_puts)

text \<open>
  Settings written through one \<open>Settings\<close> object are what a later request reads through a
  fresh one: a written key yields the text of its value, every other key keeps its old value, and
  the table keeps one row per key.
\<close>

theorem settings_roundtrip:
  assumes "settings_ok d" and "distinct (map fst entries)" and "(k, v) \<in> set entries"
    and "k' \<notin> fst ` set entries"
  shows "S_get (fst (S_set now entries (d, c))) [] k None = Some (setting_text v) \<and>
    S_get (fst (S_set now entries (d, c))) [] k' None = S_get d [] k' None \<and>
    settings_ok (fst (S_set now entries (d, c)))"
proof (intro conjI)
  let ?d = "fst (S_set now entries (d, c))"
  let ?kvs = "map (\<lambda>(k, v). (k, setting_text v)) entries"
  show ok: "settings_ok ?d" using assms(1) by (simp only: S_set_db settings_ok_puts)
  have keys: "map fst ?kvs = map fst entries" by auto
  have "(k, setting_text v) \<in> set (rev ?kvs)" using assms(3) by force
  moreover have "distinct (map fst (rev ?kvs))" using assms(2) keys by (simp only: rev_map [symmetric] distinct_rev)
  ultimately have "map_of (rev ?kvs) k = Some (setting_text v)" by (rule map_of_is_SomeI [rotated])
  then have "setting ?d k = Some (setting_text v)" by (simp only: setting_after_set option.case)
  then show "S_get ?d [] k None = Some (setting_text v)"
    using ok by (simp add: S_get_fresh settings_ok_def)
  have "k' \<notin> set (map fst ?kvs)" unfolding keys using assms(4) by simp
  then have "map_of (rev ?kvs) k' = None" by (simp only: map_of_eq_None_iff set_rev set_map not_False_eq_True)
  then have "setting ?d k' = setting d k'" by (simp only: setting_after_set option.case)
  then show "S_get ?d [] k' None = S_get d [] k' None"
    using ok assms(1) by (simp add: S_get_fresh settings_ok_def)
qed

theorem settings_roundtrip_witness:
  "S_get (fst (S_set 5 [(''port'', JStr ''8443'')] (empty_db, []))) [] ''port'' None = Some ''8443'' \<and>
   S_get (fst (S_set 5 [(''port'', JStr ''8443'')] (empty_db, []))) [] ''host'' None = None"
  using settings_roundtrip [of empty_db "[(''port'', JStr ''8443'')]" "''port''" "JStr ''8443''" "''host''" 5 "[]"]
  by (simp add: settings_ok_def empty_db_def S_get_def S_all_def)

lemma redact_lookup: "map_of (fold adel ks obj) k = (if k \<in> set ks then None else map_of obj k)"
  by (induction ks arbitrary: obj) (auto simp: map_of_adel)

text \<open>
  Two isolates that start without \<open>SECRET\<close> agree: once one of them has obtained a signing key, any
  other one (its own cache empty, drawing other random bytes, at another time) obtains the same key
  and leaves the database unchanged, and the key row is never among the redacted settings.
\<close>

theorem signingKey_converges:
  assumes "signingKey E now bytes (d, None) = (Inr k, (d', c'))"
  shows "(\<exists>c. signingKey E now' bytes' (d', None) = (Inr k, (d', c))) \<and>
    map_of (redactSettings (S_all d' [])) ''signing_key'' = None"
proof (intro conjI)
  show "\<exists>c. signingKey E now' bytes' (d', None) = (Inr k, (d', c))"
  proof (cases "truthy (e_secret E)")
    case True
    with assms show ?thesis by (simp add: signingKey_def)
  next
    case False
    with assms have s: "setting d' ''signing_key'' = Some k" "k \<noteq> []"
      by (auto simp: signingKey_def Let_def split: option.splits if_splits)
    then have "insert_or_ignore now' ''signing_key'' (newKey bytes') d' = d'"
      by (auto simp: insert_or_ignore_def setting_def dest!: map_of_SomeD intro: rev_image_eqI)
    with False s show ?thesis by (simp add: signingKey_def)
  qed
  show "map_of (redactSettings (S_all d' [])) ''signing_key'' = None"
    unfolding redactSettings_def redact_lookup by (simp add: REDACTED_KEYS_def)
qed

lemma run_ddl: "list_all accepts ss \<Longrightarrow>
    run_stmts (map (ddl_stmt accepts) ss) d = Inr (d\<lparr>db_ddl := db_ddl d @ ss\<rparr>)"
  by (induction ss arbitrary: d) (auto simp: ddl_stmt_def)

lemma d1_batch_err: "d1_batch ss d = (Inl e, d') \<Longrightarrow> d' = d"
  by (auto simp: d1_batch_def split: sum.splits)

lemma run_stmts_fail: "s \<in> set ss \<Longrightarrow> (\<forall>d. \<exists>e. s d = Inl e) \<Longrightarrow> \<exists>e. run_stmts ss d = Inl e"
proof (induction ss arbitrary: d)
  case (Cons t ss)
  then show ?case by (cases "t d") (auto, metis Inl_Inr_False)
qed simp

lemma newKey_b64u: "newKey bytes = b64u_encode bytes"
  by (simp add: newKey_def b64u_encode_def)

text \<open>An environment with every binding and no variables, for the closed examples.\<close>

definition demo_env :: env where
  "demo_env = resolveEnv \<lparr>re_bound = (\<lambda>_. True), re_vars = JObj []\<rparr>"

lemma demo_env_simps [simp]:
  "e_db demo_env" "e_secret demo_env = JNull" "e_guard demo_env" "e_ledger demo_env" "e_assets demo_env"
  "e_config demo_env = DEFAULTS"
  by (simp_all add: demo_env_def resolveEnv_def Let_def js_coalesce_def nullish_def env_str_def
      env_num_def DEFAULTS_def)

text \<open>A runtime for the closed examples: exact UTF-8 decoding on the modelled range, constant digests.\<close>

fun demo_decode :: "byte list \<Rightarrow> string" where
  "demo_decode [] = []"
| "demo_decode [a] = [char_of (unat a)]"
| "demo_decode (a # b # bs) =
     (if unat a < 128 then char_of (unat a) # demo_decode (b # bs)
      else char_of (unat a mod 4 * 64 + unat b mod 64) # demo_decode bs)"

lemma demo_decode_ascii: "unat a < 128 \<Longrightarrow> demo_decode (a # bs) = char_of (unat a) # demo_decode bs"
  by (cases bs) auto

lemma demo_decode_encode: "demo_decode (utf8_encode t) = t"
proof (induction t)
  case (Cons c t)
  let ?n = "of_char c :: nat"
  have n: "?n < 256" by (metis mod_less_divisor of_char_mod_256 zero_less_numeral)
  show ?case
  proof (cases "?n < 128")
    case True
    then show ?thesis
      using Cons by (simp add: utf8_encode_def utf8_char_ascii demo_decode_ascii unat_of_nat)
  next
    case False
    have "(192 + q) mod 4 = q" if "q < 4" for q :: nat using that by presburger
    moreover have q: "?n div 64 < 4" using n by linarith
    ultimately have d: "(192 + ?n div 64) mod 4 = ?n div 64" by blast
    have "192 + ?n div 64 < 256" using q by linarith
    moreover have "(128 + ?n mod 64) mod 64 = ?n mod 64"
      using mod_mult_self3 [of 2 64 "?n mod 64"] by simp
    moreover have "?n div 64 * 64 + ?n mod 64 = ?n" by simp
    moreover define A B :: byte where "A = word_of_nat (192 + ?n div 64)" and "B = word_of_nat (128 + ?n mod 64)"
    have "unat A = 192 + ?n div 64" unfolding A_def unat_of_nat using q by simp
    moreover have "?n mod 64 < 64" by simp
    then have "unat B = 128 + ?n mod 64" unfolding B_def unat_of_nat by simp
    moreover have "utf8_char c = [A, B]" using False by (simp only: utf8_char_def Let_def A_def B_def if_False)
    ultimately have "demo_decode (utf8_char c @ bs) = c # demo_decode bs" for bs using d by simp
    with Cons show ?thesis by (simp add: utf8_encode_def)
  qed
qed (simp add: utf8_encode_def)

definition demo_platform :: platform where
  "demo_platform = \<lparr>p_sha256 = (\<lambda>b. replicate 32 7), p_hmac = (\<lambda>k m. [word_of_nat (length m), 1]),
     p_pbkdf2 = (\<lambda>a s i. a), p_decode = demo_decode, p_decodeURI = Some,
     p_bind = (\<lambda>v. case v of JUndef \<Rightarrow> None | JArr _ \<Rightarrow> None | JObj _ \<Rightarrow> None
                 | JBool b \<Rightarrow> Some (JNum (Fin (if b then 1 else 0))) | _ \<Rightarrow> Some v)\<rparr>"

definition demo_entropy :: entropy where
  "demo_entropy = \<lparr>en_uuid = ''11111111-1111-4111-8111-111111111111'', en_uuid2 = ''22222222-2222-4222-8222-222222222222'',
     en_key = [1, 2, 3], en_salt = [4, 5, 6], en_float = 0\<rparr>"

lemma demo_platform_simps [simp]:
  "p_decode demo_platform (utf8_encode t) = t" "p_bind demo_platform (JStr t) = Some (JStr t)"
  "p_bind demo_platform (JNum n) = Some (JNum n)" "p_bind demo_platform JNull = Some JNull"
  "p_bind demo_platform (JObj kvs) = None"
  "p_hmac demo_platform k m = [word_of_nat (length m), 1]" "p_decodeURI demo_platform t = Some t"
  by (simp_all add: demo_platform_def demo_decode_encode)

theorem signingKey_converges_witness:
  "\<exists>d' c c'. signingKey demo_env 5 [9, 8, 7] (empty_db, None) = (Inr (newKey [9, 8, 7]), (d', c')) \<and>
     signingKey demo_env 7 [1, 2, 3] (d', None) = (Inr (newKey [9, 8, 7]), (d', c))"
proof -
  let ?d = "insert_or_ignore 5 ''signing_key'' (newKey [9, 8, 7]) empty_db"
  have "signingKey demo_env 5 [9, 8, 7] (empty_db, None) =
      (Inr (newKey [9, 8, 7]), (?d, Some (newKey [9, 8, 7])))"
    by (simp add: signingKey_def insert_or_ignore_def setting_def empty_db_def newKey_b64u b64u_encode_Nil_iff)
  then show ?thesis using signingKey_converges by blast
qed

text \<open>The state once the schema file has been applied.\<close>

definition migrated :: "num \<Rightarrow> string \<Rightarrow> migrate_state \<Rightarrow> migrate_state" where
  "migrated now sql s =
     \<lparr>ms_provisioned = True,
      ms_db = (ms_db s)\<lparr>db_ddl := db_ddl (ms_db s) @ splitStatements sql,
        db_meta := db_meta (ms_db s) @ [(1, ''0001_init'', now)]\<rparr>\<rparr>"

text \<open>
  C14. Provisioning is atomic and happens once. On a database without migration 1, one call either applies
  every statement of the schema file in order, records version 1, sets the latch and makes the next
  call a no-op; or, when D1 refuses a statement, fails and leaves the database and the latch untouched.
\<close>

theorem ensureSchema_atomic:
  assumes "\<not> ms_provisioned s" and "1 \<notin> fst ` set (db_meta (ms_db s))"
  shows "if list_all accepts (splitStatements sql)
    then ensureSchema (MIGRATIONS sql) accepts True now s =
        (Inr \<lparr>mr_applied = [1], mr_skipped = False\<rparr>, migrated now sql s) \<and>
      ensureSchema (MIGRATIONS sql) accepts True now' (migrated now sql s) =
        (Inr \<lparr>mr_applied = [], mr_skipped = True\<rparr>, migrated now sql s)
    else \<exists>e. ensureSchema (MIGRATIONS sql) accepts True now s = (Inl e, s)"
proof (cases "list_all accepts (splitStatements sql)")
  case True
  have "run_stmts (migration_stmts accepts now \<lparr>mg_v = 1, mg_name = ''0001_init'', mg_sql = sql\<rparr>) (ms_db s)
      = Inr (ms_db (migrated now sql s))"
    using assms(2) by (simp add: migration_stmts_def run_stmts_append run_ddl True meta_stmt_def migrated_def)
  then show ?thesis
    using True assms by (simp add: ensureSchema_def MIGRATIONS_def d1_batch_def migrated_def)
next
  case False
  then obtain st where st: "st \<in> set (splitStatements sql)" "\<not> accepts st" by (auto simp: list_all_iff)
  then have "\<exists>e. run_stmts (migration_stmts accepts now \<lparr>mg_v = 1, mg_name = ''0001_init'', mg_sql = sql\<rparr>) (ms_db s) = Inl e"
    by (intro run_stmts_fail [of "ddl_stmt accepts st"]) (auto simp: migration_stmts_def ddl_stmt_def)
  then obtain e where "d1_batch (migration_stmts accepts now \<lparr>mg_v = 1, mg_name = ''0001_init'', mg_sql = sql\<rparr>) (ms_db s)
      = (Inl e, ms_db s)"
    by (auto simp: d1_batch_def)
  then show ?thesis
    using False assms by (simp add: ensureSchema_def MIGRATIONS_def)
qed

theorem ensureSchema_atomic_witness:
  "ensureSchema (MIGRATIONS ''A;B;'') (\<lambda>_. True) True 9 \<lparr>ms_provisioned = False, ms_db = empty_db\<rparr> =
     (Inr \<lparr>mr_applied = [1], mr_skipped = False\<rparr>,
      \<lparr>ms_provisioned = True, ms_db = empty_db\<lparr>db_ddl := [''A'', ''B''], db_meta := [(1, ''0001_init'', 9)]\<rparr>\<rparr>)"
proof -
  have "splitStatements ''A;B;'' = [''A'', ''B'']"
    by (simp add: splitStatements_def strip_comment_line_def trim_def is_ws_def)
  then show ?thesis
    using ensureSchema_atomic [of "\<lparr>ms_provisioned = False, ms_db = empty_db\<rparr>" "\<lambda>_. True" "''A;B;''" 9 0]
    by (simp add: empty_db_def migrated_def)
qed

text \<open>A migration file as its lines: comment lines and one-line statements.\<close>

fun item_line :: "string + string \<Rightarrow> string" where
  "item_line (Inl comment) = ''--'' @ comment"
| "item_line (Inr st) = st @ '';''"

definition simple_item :: "string + string \<Rightarrow> bool" where
  "simple_item it \<longleftrightarrow>
     (case it of
        Inl comment \<Rightarrow> CHR 0x0A \<notin> set comment
      | Inr st \<Rightarrow> st \<noteq> [] \<and> \<not> is_ws (hd st) \<and> \<not> is_ws (last st) \<and> CHR 0x0A \<notin> set st \<and>
          CHR '';'' \<notin> set st \<and> \<not> starts_with ''--'' st)"

definition statements_of :: "(string + string) list \<Rightarrow> string list" where
  "statements_of items = concat (map (\<lambda>it. case it of Inl c \<Rightarrow> [] | Inr st \<Rightarrow> [st]) items)"

definition kept_line :: "string + string \<Rightarrow> string" where
  "kept_line it = (case it of Inl c \<Rightarrow> [] | Inr st \<Rightarrow> st @ '';'')"

lemma trim_prefix_ws: "list_all is_ws w \<Longrightarrow> trim (w @ s) = trim s"
  by (simp add: trim_def dropWhile_append list_all_iff)

lemma trim_id: "s \<noteq> [] \<Longrightarrow> \<not> is_ws (hd s) \<Longrightarrow> \<not> is_ws (last s) \<Longrightarrow> trim s = s"
proof -
  assume s: "s \<noteq> []" "\<not> is_ws (hd s)" "\<not> is_ws (last s)"
  then have "dropWhile is_ws s = s" by (cases s) auto
  moreover have "dropWhile is_ws (rev s) = rev s" using s by (auto simp: dropWhile_eq_self_iff hd_rev)
  ultimately show ?thesis by (simp add: trim_def)
qed

lemma trim_ws: "list_all is_ws w \<Longrightarrow> trim w = []"
  using trim_prefix_ws [of w "[]"] by (simp add: trim_def)

lemma strip_item_line: "simple_item it \<Longrightarrow> strip_comment_line (item_line it) = kept_line it"
proof (cases it)
  case (Inl c)
  have "dropWhile is_ws (''--'' @ c) = ''--'' @ c" by (simp add: is_ws_def)
  moreover have "\<exists>t. trim (''--'' @ c) = ''--'' @ t"
  proof -
    have "rev (dropWhile is_ws (rev c @ ''--'')) = ''--'' @ rev (dropWhile is_ws (rev c))"
      by (simp add: dropWhile_append is_ws_def)
    then show ?thesis using calculation by (auto simp: trim_def)
  qed
  ultimately show ?thesis
    using Inl by (auto simp: strip_comment_line_def kept_line_def starts_with_append)
next
  case (Inr st)
  assume "simple_item it"
  with Inr have s: "st \<noteq> []" "\<not> is_ws (hd st)" "\<not> starts_with ''--'' st" by (auto simp: simple_item_def)
  have "trim (st @ '';'') = st @ '';''" using s by (intro trim_id) (auto simp: is_ws_def)
  moreover have "\<not> starts_with ''--'' (st @ '';'')" using s by (cases st; cases "tl st") auto
  ultimately show ?thesis using Inr by (simp add: strip_comment_line_def kept_line_def)
qed

lemma split_kept_lines:
  "list_all simple_item items \<Longrightarrow> list_all is_ws w \<Longrightarrow>
     filter (\<lambda>s. s \<noteq> [] \<and> \<not> starts_with ''--'' (dropWhile is_ws s))
       (map trim (split_on CHR '';'' (w @ join_with [CHR 0x0A] (map kept_line items)))) =
     statements_of items"
proof (induction items arbitrary: w)
  case Nil
  have "CHR '';'' \<notin> set w" using Nil.prems by (auto simp: list_all_iff is_ws_def)
  with Nil.prems show ?case by (simp add: split_on_no_sep trim_ws statements_of_def)
next
  case (Cons it items)
  have nows: "CHR '';'' \<notin> set w" using Cons.prems by (auto simp: list_all_iff is_ws_def)
  have tail: "join_with [CHR 0x0A] (map kept_line (it # items)) =
      kept_line it @ (if items = [] then [] else CHR 0x0A # join_with [CHR 0x0A] (map kept_line items))"
    by (cases items) auto
  have ws: "list_all is_ws [CHR 0x0A]" by (simp add: is_ws_def)
  show ?case
  proof (cases it)
    case (Inl c)
    then have k: "kept_line it = []" by (simp add: kept_line_def)
    have st: "statements_of (it # items) = statements_of items" by (simp add: statements_of_def Inl)
    show ?thesis
      using Cons.IH [of "w @ [CHR 0x0A]"] Cons.IH [of w] Cons.prems ws
      unfolding tail k st by (cases "items = []") simp_all
  next
    case (Inr st)
    with Cons.prems have s: "st \<noteq> []" "\<not> is_ws (hd st)" "\<not> is_ws (last st)" "CHR '';'' \<notin> set st"
      "\<not> starts_with ''--'' st" by (auto simp: simple_item_def)
    let ?r = "if items = [] then [] else CHR 0x0A # join_with [CHR 0x0A] (map kept_line items)"
    have "split_on CHR '';'' ((w @ st) @ CHR '';'' # ?r) = (w @ st) # split_on CHR '';'' ?r"
      using nows s(4) by (intro split_on_append) auto
    moreover have "trim (w @ st) = st" using Cons.prems(2) s by (simp add: trim_prefix_ws trim_id)
    moreover have "dropWhile is_ws st = st" using s by (cases st) auto
    moreover have "filter (\<lambda>s. s \<noteq> [] \<and> \<not> starts_with ''--'' (dropWhile is_ws s)) (map trim (split_on CHR '';'' ?r)) =
        statements_of items"
    proof (cases "items = []")
      case True
      then show ?thesis by (simp add: statements_of_def trim_def)
    next
      case False
      then show ?thesis using Cons.IH [of "[CHR 0x0A]"] Cons.prems ws by (simp del: split_on.simps)
    qed
    moreover have "w @ join_with [CHR 0x0A] (map kept_line (it # items)) = (w @ st) @ CHR '';'' # ?r"
      unfolding tail by (simp add: Inr kept_line_def)
    ultimately show ?thesis using s by (simp add: statements_of_def Inr)
  qed
qed

text \<open>
  Splitting a migration file made of comment lines and one-line statements terminated by a
  semicolon returns exactly its statements, in order.
\<close>

theorem splitStatements_file:
  assumes "list_all simple_item items" and "items \<noteq> []"
  shows "splitStatements (join_with [CHR 0x0A] (map item_line items)) = statements_of items"
proof -
  have "CHR 0x0A \<notin> set (item_line it)" if "simple_item it" for it
    using that by (cases it) (auto simp: simple_item_def)
  then have "CHR 0x0A \<notin> set (item_line it)" if "it \<in> set items" for it
    using that assms(1) by (auto simp: list_all_iff)
  then have "split_on (CHR 0x0A) (join_with [CHR 0x0A] (map item_line items)) = map item_line items"
    using assms(2) by (intro split_on_join) auto
  moreover have "map strip_comment_line (map item_line items) = map kept_line items"
    using assms(1) by (auto simp: list_all_iff strip_item_line)
  ultimately show ?thesis
    using split_kept_lines [OF assms(1), of "[]"] by (simp only: splitStatements_def) simp
qed

theorem splitStatements_file_witness:
  "splitStatements (join_with [CHR 0x0A] [''-- a; b'', ''DROP x;'', ''DROP y;'']) = [''DROP x'', ''DROP y'']"
  using splitStatements_file [of "[Inl '' a; b'', Inr ''DROP x'', Inr ''DROP y'']"]
  by (simp add: simple_item_def statements_of_def is_ws_def)

end
