(* ===== verification/Net_Dns.thy ===== *)
theory Net_Dns
  imports Core_Http
begin

text \<open>
  \<^verbatim>\<open>net/dns.js\<close>: the DNS-over-HTTPS resolver and its bounded least-recently-used cache. The cache is
  a Map in insertion order; the answer of the DoH server to a URL is the parameter \<open>doh\<close>.
\<close>

subsection \<open>The interface of a bounded cache\<close>

locale bounded_cache =
  fixes valid :: "'c \<Rightarrow> bool" and count :: "'c \<Rightarrow> nat" and cap :: nat
    and store :: "'k \<Rightarrow> 'v \<Rightarrow> 'c \<Rightarrow> 'c" and read :: "'k \<Rightarrow> 'c \<Rightarrow> 'v option"
  assumes store_valid: "valid c \<Longrightarrow> valid (store k v c)"
    and valid_count: "valid c \<Longrightarrow> count c \<le> cap"
    and read_store: "valid c \<Longrightarrow> read k (store k v c) = Some v"
begin

lemma stores_valid: "valid c \<Longrightarrow> valid (fold (\<lambda>(k, v). store k v) kvs c)"
  by (induction kvs arbitrary: c) (auto simp: store_valid)

lemma stores_bounded: "valid c \<Longrightarrow> count (fold (\<lambda>(k, v). store k v) kvs c) \<le> cap"
  using stores_valid valid_count by blast

lemma read_last_store: "valid c \<Longrightarrow> read k (store k v (fold (\<lambda>(k, v). store k v) kvs c)) = Some v"
  using stores_valid read_store by blast

end

subsection \<open>DnsCache\<close>

record 'v dns_entry =
  de_value :: 'v
  de_exp :: jsnum

type_synonym 'v dns_cache = "(string \<times> 'v dns_entry) list"

definition TTL_MS :: num where
  "TTL_MS = 5 * 60 * 1000"

definition MAX_ENTRIES :: nat where
  "MAX_ENTRIES = 2048"

definition dns_get :: "num \<Rightarrow> string \<Rightarrow> 'v dns_cache \<Rightarrow> 'v option \<times> 'v dns_cache" where
  "dns_get now key m =
     (case map_of m key of
        None \<Rightarrow> (None, m)
      | Some hit \<Rightarrow>
          if num_lt (de_exp hit) (Fin now) then (None, adel key m)
          else (Some (de_value hit), upsert key hit (adel key m)))"

definition dns_set :: "num \<Rightarrow> string \<Rightarrow> 'v \<Rightarrow> jsnum \<Rightarrow> 'v dns_cache \<Rightarrow> 'v dns_cache" where
  "dns_set now key value ttl m =
     (let m1 = (if MAX_ENTRIES \<le> length m then adel (fst (hd m)) m else m)
      in upsert key \<lparr>de_value = value, de_exp = num_shift now ttl\<rparr> m1)"

definition cache_ok :: "'v dns_cache \<Rightarrow> bool" where
  "cache_ok m \<longleftrightarrow> distinct (map fst m) \<and> length m \<le> MAX_ENTRIES"

lemma length_upsert: "length (upsert k v xs) = (if k \<in> fst ` set xs then length xs else Suc (length xs))"
proof (induction xs)
  case (Cons p xs)
  then show ?case by (cases p) (simp add: image_iff)
qed simp

lemma adel_head: "distinct (map fst m) \<Longrightarrow> m \<noteq> [] \<Longrightarrow> adel (fst (hd m)) m = tl m"
proof (cases m)
  case (Cons p ps)
  assume "distinct (map fst m)"
  then have "\<forall>q\<in>set ps. fst q \<noteq> fst p" using Cons by (metis distinct.simps(2) image_eqI list.simps(9) list.set_map)
  then show ?thesis using Cons by (simp add: adel_def)
qed simp

lemma cache_ok_set: "cache_ok m \<Longrightarrow> cache_ok (dns_set now key value ttl m)"
proof -
  assume ok: "cache_ok m"
  show ?thesis
  proof (cases "MAX_ENTRIES \<le> length m")
    case True
    then have ne: "m \<noteq> []" by (auto simp: MAX_ENTRIES_def)
    with True ok show ?thesis
      by (auto simp: cache_ok_def dns_set_def Let_def adel_head length_upsert distinct_upsert distinct_tl map_tl MAX_ENTRIES_def)
  next
    case False
    with ok show ?thesis by (auto simp: cache_ok_def dns_set_def length_upsert distinct_upsert)
  qed
qed

lemma cache_ok_get: "cache_ok m \<Longrightarrow> cache_ok (snd (dns_get now key m))"
proof (cases "map_of m key")
  case (Some hit)
  assume ok: "cache_ok m"
  have "key \<in> fst ` set m" using Some by (metis map_of_eq_None_iff option.distinct(1))
  then have "length (adel key m) < length m" by (auto simp: adel_def intro: length_filter_less)
  then show ?thesis
    using Some ok by (auto simp: cache_ok_def dns_get_def length_upsert distinct_upsert distinct_adel)
qed (simp add: dns_get_def)

lemma get_after_set:
  "0 \<le> ttl \<Longrightarrow> fst (dns_get now' key (dns_set now key value (Fin ttl) m)) = (if now + ttl < now' then None else Some value)"
  by (simp add: dns_get_def dns_set_def Let_def map_of_upsert add.commute)

text \<open>The cache as it is used: entries of a lifetime \<open>ttl\<close>, written and read at the same time.\<close>

interpretation dnsc: bounded_cache cache_ok length MAX_ENTRIES
  "\<lambda>k v. dns_set now k v (Fin TTL_MS)" "\<lambda>k c. fst (dns_get now k c)" for now
  by unfold_locales (simp_all add: cache_ok_set get_after_set TTL_MS_def, simp add: cache_ok_def)

text \<open>
  The DNS cache never exceeds 2048 entries whatever is stored in it, a stored answer is returned until its
  lifetime has passed and not after it, and an entry that was just read is not the one evicted by the next
  insertion of another name.
\<close>

theorem dns_cache_bounded_lru:
  assumes "cache_ok m"
  shows "length (fold (\<lambda>(k, v). dns_set now k v (Fin TTL_MS)) kvs m) \<le> 2048 \<and>
    (0 \<le> ttl \<longrightarrow> fst (dns_get now' key (dns_set now key value (Fin ttl) m)) = (if now + ttl < now' then None else Some value)) \<and>
    (\<forall>v. fst (dns_get now key m) = Some v \<and> key' \<noteq> key \<longrightarrow>
       map_of (dns_set now key' value (Fin ttl) (snd (dns_get now key m))) key = map_of m key)"
proof (intro conjI impI allI)
  show "length (fold (\<lambda>(k, v). dns_set now k v (Fin TTL_MS)) kvs m) \<le> 2048"
    using dnsc.stores_bounded [OF assms] by (simp add: MAX_ENTRIES_def)
  show "fst (dns_get now' key (dns_set now key value (Fin ttl) m)) = (if now + ttl < now' then None else Some value)" if "0 \<le> ttl"
    using that by (rule get_after_set)
next
  fix v
  assume a: "fst (dns_get now key m) = Some v \<and> key' \<noteq> key"
  then obtain hit where hit: "map_of m key = Some hit" "\<not> num_lt (de_exp hit) (Fin now)"
    by (auto simp: dns_get_def split: option.splits if_splits)
  let ?m = "snd (dns_get now key m)"
  have m: "?m = adel key m @ [(key, hit)]"
    using hit upsert_fresh [of key "adel key m" hit] by (simp add: dns_get_def adel_def image_iff)
  have "fst (hd ?m) \<noteq> key" if "MAX_ENTRIES \<le> length ?m"
  proof -
    have "adel key m \<noteq> []" using that by (auto simp: m MAX_ENTRIES_def)
    then have "hd ?m \<in> set (adel key m)" by (simp add: m hd_append)
    then show ?thesis by (auto simp: adel_def)
  qed
  moreover have "map_of ?m key = Some hit" by (simp add: m map_of_adel map_add_def)
  ultimately show "map_of (dns_set now key' value (Fin ttl) ?m) key = map_of m key"
    using a hit by (auto simp: dns_set_def Let_def map_of_upsert map_of_adel)
qed

theorem dns_cache_bounded_lru_witness:
  "fst (dns_get 900 ''A:x'' (dns_set 0 ''A:x'' [''1.1.1.1''] (Fin 1000) [])) = Some [''1.1.1.1''] \<and>
   fst (dns_get 1100 ''A:x'' (dns_set 0 ''A:x'' [''1.1.1.1''] (Fin 1000) [])) = None"
  using dns_cache_bounded_lru [of "[]" 0 "[]" 1000 900 "''A:x''" "[''1.1.1.1'']" "''y''"]
    dns_cache_bounded_lru [of "[]" 0 "[]" 1000 1100 "''A:x''" "[''1.1.1.1'']" "''y''"]
  by (simp add: cache_ok_def)

subsection \<open>Resolution\<close>

datatype doh_reply = DohDown string | DohReply nat "jval option"

fun arr_items :: "jval \<Rightarrow> jval list" where
  "arr_items (JArr xs) = xs"
| "arr_items v = []"

definition dns_url :: "string \<Rightarrow> string \<Rightarrow> string \<Rightarrow> string" where
  "dns_url resolver domain type = resolver @ ''?name='' @ encodeURIComponent domain @ ''&type='' @ type"

definition dns_answers :: "string \<Rightarrow> jval \<Rightarrow> jval list" where
  "dns_answers type body =
     map (\<lambda>a. fld a ''data'')
       (filter (\<lambda>a. fld a ''type'' = (if type = ''A'' then JInt 1 else JInt 28)) (arr_items (fld body ''Answer'')))"

definition dns_ttl :: "jval \<Rightarrow> jsnum" where
  "dns_ttl body =
     (let first = (case arr_items (fld body ''Answer'') of [] \<Rightarrow> JUndef | a # _ \<Rightarrow> fld a ''TTL'')
      in js_min (Fin TTL_MS) (js_max (Fin 30000) (num_scale 1000 (to_num (js_or first (JInt 300))))))"

definition resolve ::
  "(string \<Rightarrow> doh_reply) \<Rightarrow> num \<Rightarrow> string \<Rightarrow> string \<Rightarrow> string \<Rightarrow> (jval list dns_cache, jval list) act" where
  "resolve doh now type resolver domain m =
     (let key = type @ '':'' @ domain in
      case dns_get now key m of
        (Some cached, m') \<Rightarrow> (Inr cached, m')
      | (None, m') \<Rightarrow>
          (case doh (dns_url resolver domain type) of
             DohDown e \<Rightarrow> (Inl (JsError e), m')
           | DohReply status body \<Rightarrow>
               if \<not> (200 \<le> status \<and> status \<le> 299) then (Inl (JsError ''DoH''), m')
               else (case body of
                  None \<Rightarrow> (Inl (JsError ''SyntaxError''), m')
                | Some b \<Rightarrow>
                    if nullish b then (Inl (JsError ''TypeError''), m')
                    else let answers = dns_answers type b
                         in (Inr answers, if answers \<noteq> [] then dns_set now key answers (dns_ttl b) m' else m'))))"

definition resolveOne ::
  "(string \<Rightarrow> doh_reply) \<Rightarrow> num \<Rightarrow> num \<Rightarrow> string \<Rightarrow> string \<Rightarrow> (jval list dns_cache, jval) act" where
  "resolveOne doh rnd now resolver domain m =
     (case resolve doh now ''A'' resolver domain m of
        (Inl e, m') \<Rightarrow> (Inl e, m')
      | (Inr xs, m') \<Rightarrow>
          if xs = [] then (Inl (JsError ''no address''), m')
          else (Inr (xs ! nat \<lfloor>rnd * of_nat (length xs)\<rfloor>), m'))"

definition isIpv4 :: "string \<Rightarrow> bool" where
  "isIpv4 v \<longleftrightarrow>
     (let parts = split_on CHR ''.'' v
      in length parts = 4 \<and> list_all (\<lambda>p. 1 \<le> length p \<and> length p \<le> 3 \<and> list_all is_digit p) parts)"

definition isIpv6 :: "string \<Rightarrow> bool" where
  "isIpv6 v \<longleftrightarrow> contains_str '':'' v"

lemma dns_ttl_range: "dns_ttl b = NaN \<or> (\<exists>q. dns_ttl b = Fin q \<and> 30000 \<le> q \<and> q \<le> TTL_MS)"
proof -
  obtain x where x: "dns_ttl b = js_min (Fin TTL_MS) (js_max (Fin 30000) x)"
    by (simp add: dns_ttl_def Let_def del: js_min.simps js_max.simps)
  show ?thesis unfolding x by (cases x) (auto simp: TTL_MS_def)
qed

lemma pick_in_range: "xs \<noteq> [] \<Longrightarrow> 0 \<le> rnd \<Longrightarrow> rnd < 1 \<Longrightarrow> nat \<lfloor>rnd * of_nat (length xs)\<rfloor> < length xs"
proof -
  assume a: "xs \<noteq> []" "0 \<le> rnd" "rnd < 1"
  then have "rnd * of_nat (length xs) < of_nat (length xs)" by simp
  then have "\<lfloor>rnd * of_nat (length xs)\<rfloor> < int (length xs)" by (simp add: floor_less_iff)
  then show ?thesis using a by (simp add: nat_less_iff)
qed

text \<open>
  Resolution only ever answers with addresses of the asked record type: whatever the DoH server sends, an
  address chosen by \<open>resolveOne\<close> on an empty cache is the data of an answer of type A; and a second call
  within thirty seconds is served from the cache, whatever the server would say then.
\<close>

theorem resolveOne_type_and_cache:
  assumes "resolveOne doh rnd now resolver domain [] = (Inr addr, m)" and "0 \<le> rnd" and "rnd < 1"
    and "now \<le> now'" and "now' \<le> now + 30000"
  shows "(\<exists>st b a. doh (dns_url resolver domain ''A'') = DohReply st (Some b) \<and> a \<in> set (arr_items (fld b ''Answer'')) \<and>
      fld a ''type'' = JInt 1 \<and> addr = fld a ''data'') \<and>
    (\<forall>doh' rnd'. 0 \<le> rnd' \<longrightarrow> rnd' < 1 \<longrightarrow> (\<exists>addr' m'. resolveOne doh' rnd' now' resolver domain m = (Inr addr', m')))"
proof -
  from assms(1) obtain st b where d: "doh (dns_url resolver domain ''A'') = DohReply st (Some b)"
    and ne: "dns_answers ''A'' b \<noteq> []"
    and addr: "addr = dns_answers ''A'' b ! nat \<lfloor>rnd * of_nat (length (dns_answers ''A'' b))\<rfloor>"
    and m: "m = dns_set now (''A:'' @ domain) (dns_answers ''A'' b) (dns_ttl b) []"
    by (auto simp: resolveOne_def resolve_def dns_get_def Let_def
        split: doh_reply.splits option.splits if_splits)
  have "addr \<in> set (dns_answers ''A'' b)"
    unfolding addr using pick_in_range [OF ne assms(2,3)] by (rule nth_mem)
  then have "\<exists>a. a \<in> set (arr_items (fld b ''Answer'')) \<and> fld a ''type'' = JInt 1 \<and> addr = fld a ''data''"
    by (auto simp: dns_answers_def)
  moreover have "fst (dns_get now' (''A:'' @ domain) m) = Some (dns_answers ''A'' b)"
    using dns_ttl_range [of b] assms(4,5)
    by (auto simp: m dns_set_def dns_get_def MAX_ENTRIES_def)
  then have "resolve doh' now' ''A'' resolver domain m = (Inr (dns_answers ''A'' b), snd (dns_get now' (''A:'' @ domain) m))" for doh'
    by (cases "dns_get now' (''A:'' @ domain) m") (simp add: resolve_def Let_def)
  then have "\<exists>addr' m'. resolveOne doh' rnd' now' resolver domain m = (Inr addr', m')" for doh' rnd'
    using ne by (simp add: resolveOne_def)
  ultimately show ?thesis using d by blast
qed

definition demo_answer :: jval where
  "demo_answer = JObj [(''type'', JInt 1), (''TTL'', JInt 60), (''data'', JStr ''93.184.216.34'')]"

theorem resolveOne_type_and_cache_witness:
  "\<exists>m addr' m'. resolveOne (\<lambda>_. DohReply 200 (Some (JObj [(''Answer'', JArr [demo_answer])]))) 0 5 ''r'' ''x.org'' [] =
       (Inr (JStr ''93.184.216.34''), m) \<and>
     resolveOne (\<lambda>_. DohDown ''x'') 0 9 ''r'' ''x.org'' m = (Inr addr', m')"
proof -
  let ?doh = "\<lambda>_. DohReply 200 (Some (JObj [(''Answer'', JArr [demo_answer])]))"
  have "dns_answers ''A'' (JObj [(''Answer'', JArr [demo_answer])]) = [JStr ''93.184.216.34'']"
    by (simp add: dns_answers_def demo_answer_def)
  then have "\<exists>m. resolveOne ?doh 0 5 ''r'' ''x.org'' [] = (Inr (JStr ''93.184.216.34''), m)"
    by (simp add: resolveOne_def resolve_def dns_get_def nullish_def Let_def)
  then obtain m where m: "resolveOne ?doh 0 5 ''r'' ''x.org'' [] = (Inr (JStr ''93.184.216.34''), m)" by blast
  have "\<exists>addr' m'. resolveOne (\<lambda>_. DohDown ''x'') 0 9 ''r'' ''x.org'' m = (Inr addr', m')"
    using resolveOne_type_and_cache [OF m, of 9] by simp
  with m show ?thesis by blast
qed

end
