(* ===== verification/Users.thy ===== *)
theory Users
  imports Upstream
begin

text \<open>
  \<^verbatim>\<open>db/users.js\<close>: the users table. Validation of new users, the row operations with the UNIQUE and NOT NULL
  constraints of the schema, the derived view of a row (\<open>hydrate\<close>), listing, bulk operations and counters.
  A bound value goes through the runtime's \<open>p_bind\<close>; LIKE is SQLite's (ASCII case-insensitive).
\<close>

subsection \<open>Validation\<close>

definition username_char :: "char \<Rightarrow> bool" where
  "username_char c \<longleftrightarrow> is_alnum c \<or> c = CHR ''.'' \<or> c = CHR ''_'' \<or> c = CHR ''-''"

definition username_ok :: "string \<Rightarrow> bool" where
  "username_ok s \<longleftrightarrow> 3 \<le> length s \<and> length s \<le> 32 \<and> list_all username_char s"

definition normaliseList :: "jval \<Rightarrow> string list" where
  "normaliseList v =
     (if \<not> truthy v then []
      else let arr = (case v of
                        JArr xs \<Rightarrow> map to_str xs
                      | _ \<Rightarrow> split_on CHR '','' (map (\<lambda>c. if c = CHR 0x0A then CHR '','' else c) (to_str v)))
           in take 32 (uniq (filter (\<lambda>s. s \<noteq> []) (map trim arr))))"

definition str_arr :: "string list \<Rightarrow> jval" where
  "str_arr xs = JArr (map JStr xs)"

definition assertRealProxies :: "string list \<Rightarrow> string list res" where
  "assertRealProxies xs =
     (case find isExampleUpstream xs of
        Some spec \<Rightarrow> Inl (badRequest (JObj [(''proxies'', JStr spec)]))
      | None \<Rightarrow> Inr xs)"

text \<open>\<open>crypto.randomUUID().replaceAll("-", "")\<close>\<close>

definition undash :: "string \<Rightarrow> string" where
  "undash s = filter (\<lambda>c. c \<noteq> CHR ''-'') s"

text \<open>The object literal \<open>newUserInput\<close> returns, in the order of the source.\<close>

definition new_user_fields ::
  "num \<Rightarrow> entropy \<Rightarrow> jval \<Rightarrow> string \<Rightarrow> num \<Rightarrow> num \<Rightarrow> string list \<Rightarrow> (string \<times> jval) list" where
  "new_user_fields now en raw username quota days proxies =
     [(''username'', JStr username),
      (''uuid'', js_or (fld raw ''uuid'') (JStr (en_uuid en))),
      (''sub_token'', js_or (fld raw ''sub_token'') (JStr (undash (en_uuid2 en)))),
      (''quota_gb'', JNum (Fin quota)),
      (''used_bytes'', JNum (to_num (js_or (fld raw ''used_bytes'') (JInt 0)))),
      (''expiry_days'', JNum (Fin days)),
      (''first_connect'', if fld raw ''first_connect'' = JBool False then JInt 0 else JInt 1),
      (''activated_at'', JNull),
      (''expires_at'', if fld raw ''first_connect'' = JBool False then JNum (Fin (now + days * 86400000)) else JNull),
      (''device_limit'', JNum (js_max (Fin 1) (to_num (js_or (fld raw ''device_limit'') (JInt 3))))),
      (''request_limit'', JNum (js_max (Fin 0) (to_num (js_or (fld raw ''request_limit'') (JInt 0))))),
      (''requests_used'', JInt 0),
      (''ips'', JStr (json_stringify (str_arr (normaliseList (fld raw ''ips''))))),
      (''proxies'', JStr (json_stringify (str_arr proxies))),
      (''connection'', JStr (to_str (js_or (fld raw ''connection'') (JStr ''ws'')))),
      (''tls'', if fld raw ''tls'' = JStr ''off'' then JStr ''off'' else JStr ''on''),
      (''fragment'', JStr (to_str (js_or (fld raw ''fragment'') (JStr [])))),
      (''fingerprint'', JStr (to_str (js_or (fld raw ''fingerprint'') (JStr [])))),
      (''block_list'', JStr (json_stringify (str_arr (normaliseList (fld raw ''block_list''))))),
      (''is_active'', if fld raw ''is_active'' = JBool False then JInt 0 else JInt 1),
      (''created_by'', js_or (fld raw ''created_by'') JNull),
      (''note'', JStr (take 500 (to_str (js_or (fld raw ''note'') (JStr []))))),
      (''created_at'', JNum (Fin now)),
      (''updated_at'', JNum (Fin now))]"

definition newUserInput :: "env \<Rightarrow> num \<Rightarrow> entropy \<Rightarrow> jval \<Rightarrow> jval res" where
  "newUserInput E now en raw =
     (let username = trim (to_str (js_or (fld raw ''username'') (JStr []))) in
      if \<not> username_ok username then Inl (badRequest (JObj [(''username'', JStr username)]))
      else let quota = to_num (js_coalesce (fld raw ''quota_gb'') (JNum (Fin (defaultQuotaGb (e_config E)))));
               days = to_num (js_coalesce (fld raw ''expiry_days'') (JNum (Fin (defaultExpiryDays (e_config E))))) in
        if \<not> is_finite quota \<or> fin_val quota \<le> 0 then Inl (badRequest JUndef)
        else if \<not> is_finite days \<or> fin_val days \<le> 0 then Inl (badRequest JUndef)
        else res_bind (assertRealProxies (normaliseList (fld raw ''proxies''))) (\<lambda>proxies.
          Inr (JObj (new_user_fields now en raw username (fin_val quota) (fin_val days) proxies))))"

subsection \<open>Columns\<close>

definition COLS :: "string list" where
  "COLS = [''username'', ''uuid'', ''sub_token'', ''quota_gb'', ''used_bytes'', ''expiry_days'', ''first_connect'',
     ''activated_at'', ''expires_at'', ''device_limit'', ''request_limit'', ''requests_used'', ''ips'', ''proxies'',
     ''connection'', ''tls'', ''fragment'', ''fingerprint'', ''block_list'', ''is_active'', ''created_by'', ''note'',
     ''created_at'', ''updated_at'']"

fun num_col :: "jval \<Rightarrow> num option" where
  "num_col (JNum (Fin q)) = Some q"
| "num_col v = None"

fun text_col :: "jval \<Rightarrow> string option" where
  "text_col (JStr s) = Some s"
| "text_col v = None"

definition not_null :: "jval \<Rightarrow> jval option" where
  "not_null v = (if nullish v then None else Some v)"

text \<open>The row of an INSERT, \<open>None\<close> when a NOT NULL column gets NULL (or a typed column gets no such value).\<close>

definition row_of :: "nat \<Rightarrow> (string \<Rightarrow> jval) \<Rightarrow> user_row option" where
  "row_of rid v =
     Option.bind (text_col (v ''username'')) (\<lambda>username.
     Option.bind (not_null (v ''uuid'')) (\<lambda>uuid.
     Option.bind (not_null (v ''sub_token'')) (\<lambda>sub_token.
     Option.bind (not_null (v ''quota_gb'')) (\<lambda>quota_gb.
     Option.bind (num_col (v ''used_bytes'')) (\<lambda>used_bytes.
     Option.bind (not_null (v ''expiry_days'')) (\<lambda>expiry_days.
     Option.bind (not_null (v ''first_connect'')) (\<lambda>first_connect.
     Option.bind (not_null (v ''device_limit'')) (\<lambda>device_limit.
     Option.bind (not_null (v ''request_limit'')) (\<lambda>request_limit.
     Option.bind (num_col (v ''requests_used'')) (\<lambda>requests_used.
     Option.bind (text_col (v ''ips'')) (\<lambda>ips.
     Option.bind (text_col (v ''proxies'')) (\<lambda>proxies.
     Option.bind (not_null (v ''connection'')) (\<lambda>connection.
     Option.bind (not_null (v ''tls'')) (\<lambda>tls.
     Option.bind (not_null (v ''fragment'')) (\<lambda>fragment.
     Option.bind (not_null (v ''fingerprint'')) (\<lambda>fingerprint.
     Option.bind (text_col (v ''block_list'')) (\<lambda>block_list.
     Option.bind (num_col (v ''is_active'')) (\<lambda>is_active.
     Option.bind (not_null (v ''note'')) (\<lambda>note.
     Option.bind (num_col (v ''created_at'')) (\<lambda>created_at.
     Option.bind (num_col (v ''updated_at'')) (\<lambda>updated_at.
       Some \<lparr>u_id = rid, u_username = username, u_uuid = uuid, u_sub_token = sub_token, u_quota_gb = quota_gb,
         u_used_bytes = used_bytes, u_expiry_days = expiry_days, u_first_connect = first_connect,
         u_activated_at = num_col (v ''activated_at''), u_expires_at = num_col (v ''expires_at''),
         u_device_limit = device_limit, u_request_limit = request_limit, u_requests_used = requests_used,
         u_ips = ips, u_proxies = proxies, u_connection = connection, u_tls = tls, u_fragment = fragment,
         u_fingerprint = fingerprint, u_block_list = block_list, u_is_active = is_active,
         u_created_by = v ''created_by'', u_note = note, u_created_at = created_at,
         u_updated_at = updated_at\<rparr>)))))))))))))))))))))"

definition clashes :: "user_row \<Rightarrow> user_row \<Rightarrow> bool" where
  "clashes a b \<longleftrightarrow> u_username a = u_username b \<or> u_uuid a = u_uuid b \<or> u_sub_token a = u_sub_token b"

subsection \<open>The view of a row\<close>

record user = user_row +
  h_ips :: jval
  h_proxies :: jval
  h_block_list :: jval
  h_is_active :: bool
  h_first_connect :: bool
  h_quota_bytes :: jsnum
  h_used_pct :: num
  h_status :: string
  h_ms_left :: "num option"

definition safe_parse :: "string \<Rightarrow> jval \<Rightarrow> jval" where
  "safe_parse s f = (case json_parse s of Some v \<Rightarrow> v | None \<Rightarrow> f)"

definition quota_bytes :: "jval \<Rightarrow> jsnum" where
  "quota_bytes q = (case to_num q of Fin x \<Rightarrow> Fin (js_round (x * 1024 ^ 3)) | x \<Rightarrow> x)"

definition used_pct :: "num \<Rightarrow> jsnum \<Rightarrow> num" where
  "used_pct used qb =
     (case qb of
        Fin q \<Rightarrow> if q = 0 then 0 else min 100 (js_round (used / q * 1000) / 10)
      | _ \<Rightarrow> 0)"

definition status_of :: "num \<Rightarrow> user_row \<Rightarrow> string" where
  "status_of now row =
     (let expired = (case u_expires_at row of None \<Rightarrow> False | Some t \<Rightarrow> t \<le> now);
          over = num_le (quota_bytes (u_quota_gb row)) (Fin (u_used_bytes row))
      in if u_is_active row = 0 then ''disabled'' else if expired then ''expired''
         else if over then ''exhausted'' else ''active'')"

definition hydrate :: "num \<Rightarrow> user_row \<Rightarrow> user" where
  "hydrate now row =
     user_row.extend row
      \<lparr>h_ips = safe_parse (u_ips row) (JArr []), h_proxies = safe_parse (u_proxies row) (JArr []),
       h_block_list = safe_parse (u_block_list row) (JArr []),
       h_is_active = (u_is_active row \<noteq> 0), h_first_connect = truthy (u_first_connect row),
       h_quota_bytes = quota_bytes (u_quota_gb row),
       h_used_pct = used_pct (u_used_bytes row) (quota_bytes (u_quota_gb row)),
       h_status = status_of now row,
       h_ms_left = (case u_expires_at row of None \<Rightarrow> None | Some t \<Rightarrow> if t = 0 then None else Some (max 0 (t - now)))\<rparr>"

definition user_json :: "user \<Rightarrow> jval" where
  "user_json u = JObj
     [(''id'', JInt (int (u_id u))), (''username'', JStr (u_username u)), (''uuid'', u_uuid u),
      (''sub_token'', u_sub_token u), (''quota_gb'', u_quota_gb u), (''used_bytes'', JNum (Fin (u_used_bytes u))),
      (''expiry_days'', u_expiry_days u), (''first_connect'', JBool (h_first_connect u)),
      (''activated_at'', opt_num (u_activated_at u)), (''expires_at'', opt_num (u_expires_at u)),
      (''device_limit'', u_device_limit u), (''request_limit'', u_request_limit u),
      (''requests_used'', JNum (Fin (u_requests_used u))), (''ips'', h_ips u), (''proxies'', h_proxies u),
      (''connection'', u_connection u), (''tls'', u_tls u), (''fragment'', u_fragment u),
      (''fingerprint'', u_fingerprint u), (''block_list'', h_block_list u), (''is_active'', JBool (h_is_active u)),
      (''created_by'', u_created_by u), (''note'', u_note u), (''created_at'', JNum (Fin (u_created_at u))),
      (''updated_at'', JNum (Fin (u_updated_at u))), (''quota_bytes'', JNum (h_quota_bytes u)),
      (''used_pct'', JNum (Fin (h_used_pct u))), (''status'', JStr (h_status u)), (''ms_left'', opt_num (h_ms_left u))]"

subsection \<open>Row operations\<close>

definition find_user :: "string \<Rightarrow> db \<Rightarrow> user_row option" where
  "find_user name d = find (\<lambda>r. u_username r = name) (db_users d)"

definition getUser :: "num \<Rightarrow> string \<Rightarrow> db \<Rightarrow> user res" where
  "getUser now name d = (case find_user name d of None \<Rightarrow> Inl notFound | Some r \<Rightarrow> Inr (hydrate now r))"

definition getUserByUuid :: "num \<Rightarrow> string \<Rightarrow> db \<Rightarrow> user option" where
  "getUserByUuid now uuid d = map_option (hydrate now) (find (\<lambda>r. u_uuid r = JStr uuid) (db_users d))"

definition getUserBySubToken :: "num \<Rightarrow> string \<Rightarrow> db \<Rightarrow> user option" where
  "getUserBySubToken now token d = map_option (hydrate now) (find (\<lambda>r. u_sub_token r = JStr token) (db_users d))"

definition bind_all :: "platform \<Rightarrow> jval list \<Rightarrow> jval list option" where
  "bind_all P vs = List.those (map (p_bind P) vs)"

definition createUser :: "platform \<Rightarrow> num \<Rightarrow> jval \<Rightarrow> (db, user) act" where
  "createUser P now inp d =
     (case bind_all P (map (\<lambda>c. js_coalesce (fld inp c) JNull) COLS) of
        None \<Rightarrow> (Inl (JsError ''D1_TYPE_ERROR''), d)
      | Some vals \<Rightarrow>
          (case row_of (Suc (db_user_seq d)) (\<lambda>c. the (map_of (zip COLS vals) c)) of
             None \<Rightarrow> (Inl (JsError ''NOT NULL constraint failed''), d)
           | Some row \<Rightarrow>
               if list_ex (clashes row) (db_users d) then (Inl conflict, d)
               else let d' = d\<lparr>db_users := db_users d @ [row], db_user_seq := Suc (db_user_seq d)\<rparr>
                    in (getUser now (to_str (fld inp ''username'')) d', d')))"

definition PATCHABLE :: "string list" where
  "PATCHABLE = [''quota_gb'', ''expiry_days'', ''device_limit'', ''request_limit'', ''connection'', ''tls'', ''fragment'',
     ''fingerprint'', ''note'', ''is_active'', ''first_connect'', ''ips'', ''proxies'', ''block_list'']"

text \<open>One assignment of an UPDATE; \<open>None\<close> is a NOT NULL violation.\<close>

definition set_col :: "string \<Rightarrow> jval \<Rightarrow> user_row \<Rightarrow> user_row option" where
  "set_col c v r =
     (let nn = (\<lambda>f. if nullish v then None else Some (f v)) in
      if c = ''quota_gb'' then nn (\<lambda>x. r\<lparr>u_quota_gb := x\<rparr>)
      else if c = ''expiry_days'' then nn (\<lambda>x. r\<lparr>u_expiry_days := x\<rparr>)
      else if c = ''device_limit'' then nn (\<lambda>x. r\<lparr>u_device_limit := x\<rparr>)
      else if c = ''request_limit'' then nn (\<lambda>x. r\<lparr>u_request_limit := x\<rparr>)
      else if c = ''connection'' then nn (\<lambda>x. r\<lparr>u_connection := x\<rparr>)
      else if c = ''tls'' then nn (\<lambda>x. r\<lparr>u_tls := x\<rparr>)
      else if c = ''fragment'' then nn (\<lambda>x. r\<lparr>u_fragment := x\<rparr>)
      else if c = ''fingerprint'' then nn (\<lambda>x. r\<lparr>u_fingerprint := x\<rparr>)
      else if c = ''note'' then nn (\<lambda>x. r\<lparr>u_note := x\<rparr>)
      else if c = ''first_connect'' then nn (\<lambda>x. r\<lparr>u_first_connect := x\<rparr>)
      else if c = ''is_active'' then map_option (\<lambda>q. r\<lparr>u_is_active := q\<rparr>) (num_col v)
      else if c = ''ips'' then map_option (\<lambda>s. r\<lparr>u_ips := s\<rparr>) (text_col v)
      else if c = ''proxies'' then map_option (\<lambda>s. r\<lparr>u_proxies := s\<rparr>) (text_col v)
      else if c = ''block_list'' then map_option (\<lambda>s. r\<lparr>u_block_list := s\<rparr>) (text_col v)
      else if c = ''expires_at'' then Some (r\<lparr>u_expires_at := num_col v\<rparr>)
      else if c = ''updated_at'' then map_option (\<lambda>q. r\<lparr>u_updated_at := q\<rparr>) (num_col v)
      else None)"

fun set_cols :: "(string \<times> jval) list \<Rightarrow> user_row \<Rightarrow> user_row option" where
  "set_cols [] r = Some r"
| "set_cols ((c, v) # cs) r = Option.bind (set_col c v r) (set_cols cs)"

fun patch_sets :: "(string \<times> jval) list \<Rightarrow> (string \<times> jval) list res" where
  "patch_sets [] = Inr []"
| "patch_sets ((k, v) # kvs) =
     (if k \<notin> set PATCHABLE then patch_sets kvs
      else res_bind
        (if k = ''proxies'' then
           res_bind (assertRealProxies (normaliseList v)) (\<lambda>ps. Inr (JStr (json_stringify (str_arr ps))))
         else if k \<in> {''ips'', ''block_list''} then Inr (JStr (json_stringify (str_arr (normaliseList v))))
         else if k = ''is_active'' then Inr (if truthy v then JInt 1 else JInt 0)
         else Inr v)
        (\<lambda>x. res_bind (patch_sets kvs) (\<lambda>r. Inr ((k, x) # r))))"

fun update_where :: "(user_row \<Rightarrow> bool) \<Rightarrow> (user_row \<Rightarrow> user_row option) \<Rightarrow> user_row list \<Rightarrow> user_row list option" where
  "update_where p f [] = Some []"
| "update_where p f (r # rs) =
     Option.bind (if p r then f r else Some r) (\<lambda>r'. Option.bind (update_where p f rs) (\<lambda>rs'. Some (r' # rs')))"

definition updateUser :: "platform \<Rightarrow> num \<Rightarrow> string \<Rightarrow> jval \<Rightarrow> (db, user) act" where
  "updateUser P now username patch d =
     (case patch_sets (obj_fields patch) of
        Inl e \<Rightarrow> (Inl e, d)
      | Inr sets0 \<Rightarrow>
          let sets1 = sets0 @ (if nullish (fld patch ''expiry_days'') then []
                  else [(''expires_at'', JNum (num_shift now (num_scale 86400000 (to_num (fld patch ''expiry_days'')))))]) in
          if sets1 = [] then (getUser now username d, d)
          else let sets = sets1 @ [(''updated_at'', JNum (Fin now))] in
            case bind_all P (map snd sets) of
              None \<Rightarrow> (Inl (JsError ''D1_TYPE_ERROR''), d)
            | Some vals \<Rightarrow>
                if find_user username d = None then (Inl notFound, d)
                else (case update_where (\<lambda>r. u_username r = username) (set_cols (zip (map fst sets) vals)) (db_users d) of
                        None \<Rightarrow> (Inl (JsError ''NOT NULL constraint failed''), d)
                      | Some us \<Rightarrow> (getUser now username (d\<lparr>db_users := us\<rparr>), d\<lparr>db_users := us\<rparr>)))"

definition deleteUser :: "string \<Rightarrow> (db, unit) act" where
  "deleteUser username d =
     (if find_user username d = None then (Inl notFound, d)
      else (Inr (), d\<lparr>db_users := filter (\<lambda>r. u_username r \<noteq> username) (db_users d)\<rparr>))"

subsection \<open>Listing\<close>

definition ascii_lower :: "char \<Rightarrow> char" where
  "ascii_lower c = (if is_upper c then char_of (of_char c + (32::nat)) else c)"

fun like :: "string \<Rightarrow> string \<Rightarrow> bool" where
  "like [] s = (s = [])"
| "like (p # ps) s =
     (if p = CHR ''%'' then like ps s \<or> (case s of [] \<Rightarrow> False | _ # t \<Rightarrow> like (p # ps) t)
      else case s of [] \<Rightarrow> False | c # t \<Rightarrow> (p = CHR ''_'' \<or> ascii_lower p = ascii_lower c) \<and> like ps t)"

definition like_col :: "string \<Rightarrow> jval \<Rightarrow> bool" where
  "like_col pat v \<longleftrightarrow> \<not> nullish v \<and> like pat (to_str v)"

record list_query =
  lq_q :: string
  lq_status :: string
  lq_sort :: string
  lq_dir :: string
  lq_page :: num
  lq_size :: num

definition list_where :: "num \<Rightarrow> list_query \<Rightarrow> user_row \<Rightarrow> bool" where
  "list_where now q r \<longleftrightarrow>
     (lq_q q \<noteq> [] \<longrightarrow>
        (let pat = ''%'' @ lq_q q @ ''%''
         in like_col pat (JStr (u_username r)) \<or> like_col pat (u_note r) \<or> like_col pat (u_uuid r))) \<and>
     (lq_status q = ''active'' \<longrightarrow> u_is_active r = 1) \<and>
     (lq_status q = ''disabled'' \<longrightarrow> u_is_active r = 0) \<and>
     (lq_status q = ''expired'' \<longrightarrow> (case u_expires_at r of None \<Rightarrow> False | Some t \<Rightarrow> t \<le> now))"

fun text_le :: "string \<Rightarrow> string \<Rightarrow> bool" where
  "text_le [] t = True"
| "text_le (c # s) [] = False"
| "text_le (c # s) (d # t) =
     (if of_char c < (of_char d :: nat) then True else if of_char d < (of_char c :: nat) then False else text_le s t)"

fun opt_le :: "num option \<Rightarrow> num option \<Rightarrow> bool" where
  "opt_le None y = True"
| "opt_le (Some a) None = False"
| "opt_le (Some a) (Some b) = (a \<le> b)"

definition allowedSort :: "string list" where
  "allowedSort = [''created_at'', ''username'', ''used_bytes'', ''expires_at'', ''last_active'']"

text \<open>The ORDER BY of a sort column; \<open>None\<close> when the table has no such column.\<close>

definition sort_order :: "string \<Rightarrow> (user_row \<Rightarrow> user_row \<Rightarrow> bool) option" where
  "sort_order c =
     (if c = ''created_at'' then Some (\<lambda>a b. u_created_at a \<le> u_created_at b)
      else if c = ''username'' then Some (\<lambda>a b. text_le (u_username a) (u_username b))
      else if c = ''used_bytes'' then Some (\<lambda>a b. u_used_bytes a \<le> u_used_bytes b)
      else if c = ''expires_at'' then Some (\<lambda>a b. opt_le (u_expires_at a) (u_expires_at b))
      else None)"

definition sql_page :: "num \<Rightarrow> num \<Rightarrow> 'a list \<Rightarrow> 'a list" where
  "sql_page limit offset xs =
     (let ys = drop (nat \<lfloor>offset\<rfloor>) xs in if limit < 0 then ys else take (nat \<lfloor>limit\<rfloor>) ys)"

definition listUsers :: "num \<Rightarrow> list_query \<Rightarrow> db \<Rightarrow> (user list \<times> nat) res" where
  "listUsers now q d =
     (let s = (if lq_sort q \<in> set allowedSort then lq_sort q else ''created_at'');
          offset = (max 1 (lq_page q) - 1) * lq_size q;
          hits = filter (list_where now q) (db_users d) in
      if \<not> is_int (lq_size q) \<or> \<not> is_int offset then Inl (JsError ''datatype mismatch'')
      else case sort_order s of
        None \<Rightarrow> Inl (JsError ''no such column'')
      | Some le \<Rightarrow>
          (let ordered = sort_by (if lq_dir q = ''asc'' then le else (\<lambda>a b. le b a)) hits
           in Inr (map (hydrate now) (sql_page (lq_size q) offset ordered), length hits)))"

subsection \<open>Bulk operations and counters\<close>

text \<open>A SQL number: text counts as its numeric value, 0 when it has none.\<close>

fun sql_num :: "jval \<Rightarrow> num option" where
  "sql_num (JNum (Fin q)) = Some q"
| "sql_num (JStr s) = Some (fin_val (str_to_num s))"
| "sql_num v = None"

definition bulk_set :: "(user_row \<Rightarrow> user_row) \<Rightarrow> jval list \<Rightarrow> db \<Rightarrow> db" where
  "bulk_set f names d =
     d\<lparr>db_users := map (\<lambda>r. if JStr (u_username r) \<in> set names then f r else r) (db_users d)\<rparr>"

definition extend_row :: "num \<Rightarrow> jval \<Rightarrow> jval \<Rightarrow> user_row \<Rightarrow> user_row option" where
  "extend_row now ms days r =
     (case (sql_num (u_expiry_days r), num_col days) of
        (Some e, Some n) \<Rightarrow>
          Some (r\<lparr>u_expires_at := map_option (\<lambda>m. (case u_expires_at r of None \<Rightarrow> now | Some t \<Rightarrow> t) + m) (num_col ms),
                  u_expiry_days := JNum (Fin (e + n)), u_updated_at := now\<rparr>)
      | _ \<Rightarrow> None)"

definition bulk :: "platform \<Rightarrow> num \<Rightarrow> jval \<Rightarrow> jval \<Rightarrow> jval \<Rightarrow> (db, jval) act" where
  "bulk P now usernames op value d =
     (case usernames of
        JArr xs \<Rightarrow>
          if xs = [] then (Inl (badRequest JUndef), d)
          else let reply = JObj [(''affected'', JInt (int (length xs))), (''op'', op)] in
            (case op of
               JStr o1 \<Rightarrow>
                 if o1 \<notin> {''enable'', ''disable'', ''delete'', ''reset_traffic'', ''reset_requests'', ''extend''}
                 then (Inl (badRequest JUndef), d)
                 else (case bind_all P xs of
                    None \<Rightarrow> (Inl (JsError ''D1_TYPE_ERROR''), d)
                  | Some names \<Rightarrow>
                      if o1 = ''enable'' then (Inr reply, bulk_set (\<lambda>r. r\<lparr>u_is_active := 1, u_updated_at := now\<rparr>) names d)
                      else if o1 = ''disable'' then (Inr reply, bulk_set (\<lambda>r. r\<lparr>u_is_active := 0, u_updated_at := now\<rparr>) names d)
                      else if o1 = ''delete'' then
                        (Inr reply, d\<lparr>db_users := filter (\<lambda>r. JStr (u_username r) \<notin> set names) (db_users d)\<rparr>)
                      else if o1 = ''reset_traffic'' then (Inr reply, bulk_set (\<lambda>r. r\<lparr>u_used_bytes := 0, u_updated_at := now\<rparr>) names d)
                      else if o1 = ''reset_requests'' then (Inr reply, bulk_set (\<lambda>r. r\<lparr>u_requests_used := 0, u_updated_at := now\<rparr>) names d)
                      else (case bind_all P [JNum (num_scale 86400000 (to_num value)), JNum (to_num value)] of
                         Some [ms, days] \<Rightarrow>
                           (case update_where (\<lambda>r. JStr (u_username r) \<in> set names) (extend_row now ms days) (db_users d) of
                              None \<Rightarrow> (Inl (JsError ''NOT NULL constraint failed''), d)
                            | Some us \<Rightarrow> (Inr reply, d\<lparr>db_users := us\<rparr>))
                       | _ \<Rightarrow> (Inl (JsError ''D1_TYPE_ERROR''), d)))
             | _ \<Rightarrow> (Inl (badRequest JUndef), d))
      | JStr s \<Rightarrow> (Inl (if s = [] then badRequest JUndef else JsError ''TypeError''), d)
      | _ \<Rightarrow> (Inl (badRequest JUndef), d))"

record user_stats =
  st_total :: nat
  st_active :: num
  st_expired :: nat
  st_used_bytes :: num
  st_requests :: num

definition userStats :: "num \<Rightarrow> db \<Rightarrow> user_stats" where
  "userStats now d =
     (let us = db_users d in
      \<lparr>st_total = length us, st_active = sum_list (map u_is_active us),
       st_expired = length (filter (\<lambda>r. case u_expires_at r of None \<Rightarrow> False | Some t \<Rightarrow> t \<le> now) us),
       st_used_bytes = sum_list (map u_used_bytes us), st_requests = sum_list (map u_requests_used us)\<rparr>)"

definition rotateSubToken :: "num \<Rightarrow> entropy \<Rightarrow> string \<Rightarrow> (db, string) act" where
  "rotateSubToken now en username d =
     (let token = undash (en_uuid en) in
      if list_ex (\<lambda>r. u_username r \<noteq> username \<and> u_sub_token r = JStr token) (db_users d) \<and> find_user username d \<noteq> None
      then (Inl (JsError ''UNIQUE constraint failed''), d)
      else (Inr token, d\<lparr>db_users := map (\<lambda>r. if u_username r = username
              then r\<lparr>u_sub_token := JStr token, u_updated_at := now\<rparr> else r) (db_users d)\<rparr>))"

definition rotateUuid :: "num \<Rightarrow> entropy \<Rightarrow> string \<Rightarrow> (db, string) act" where
  "rotateUuid now en username d =
     (let uuid = en_uuid en in
      if list_ex (\<lambda>r. u_username r \<noteq> username \<and> u_uuid r = JStr uuid) (db_users d) \<and> find_user username d \<noteq> None
      then (Inl (JsError ''UNIQUE constraint failed''), d)
      else (Inr uuid, d\<lparr>db_users := map (\<lambda>r. if u_username r = username
              then r\<lparr>u_uuid := JStr uuid, u_updated_at := now\<rparr> else r) (db_users d)\<rparr>))"

subsection \<open>The table invariant\<close>

definition users_ok :: "db \<Rightarrow> bool" where
  "users_ok d \<longleftrightarrow> distinct (map u_username (db_users d)) \<and> distinct (map u_uuid (db_users d)) \<and>
     distinct (map u_sub_token (db_users d)) \<and> list_all (\<lambda>r. u_id r \<le> db_user_seq d) (db_users d)"

lemma users_ok_same_keys:
  assumes "users_ok d" "map u_username us = map u_username (db_users d)" "map u_uuid us = map u_uuid (db_users d)"
    "map u_sub_token us = map u_sub_token (db_users d)" "map u_id us = map u_id (db_users d)"
  shows "users_ok (d\<lparr>db_users := us\<rparr>)"
proof -
  have ids: "list_all (\<lambda>r. u_id r \<le> n) rs = list_all (\<lambda>i. i \<le> n) (map u_id rs)" for n rs
    by (simp add: list_all_iff)
  have "list_all (\<lambda>r. u_id r \<le> db_user_seq d) us" using assms(1) unfolding users_ok_def ids assms(5) by blast
  then show ?thesis using assms unfolding users_ok_def by (simp del: map_eq_conv)
qed

text \<open>
  Row updates that keep the identity of a row keep the invariant: the interface states it once, and every
  assignment of the program interprets it.
\<close>

locale identity_keeping =
  fixes f :: "user_row \<Rightarrow> user_row"
  assumes keeps: "u_username (f r) = u_username r" "u_uuid (f r) = u_uuid r" "u_sub_token (f r) = u_sub_token r" "u_id (f r) = u_id r"
begin

lemma map_if_keeps:
  "map u_username (map (\<lambda>r. if p r then f r else r) rs) = map u_username rs"
  "map u_uuid (map (\<lambda>r. if p r then f r else r) rs) = map u_uuid rs"
  "map u_sub_token (map (\<lambda>r. if p r then f r else r) rs) = map u_sub_token rs"
  "map u_id (map (\<lambda>r. if p r then f r else r) rs) = map u_id rs"
  by (induction rs) (auto simp: keeps)

lemma users_ok_update: "users_ok d \<Longrightarrow> users_ok (d\<lparr>db_users := map (\<lambda>r. if p r then f r else r) (db_users d)\<rparr>)"
  by (erule users_ok_same_keys) (rule map_if_keeps)+

lemma find_update:
  "find_user n (d\<lparr>db_users := map (\<lambda>r. if p r then f r else r) (db_users d)\<rparr>) =
     map_option (\<lambda>r. if p r then f r else r) (find_user n d)"
proof -
  have "find (\<lambda>r. u_username r = n) (map (\<lambda>r. if p r then f r else r) rs) =
      map_option (\<lambda>r. if p r then f r else r) (find (\<lambda>r. u_username r = n) rs)" for rs
    by (induction rs) (auto simp: keeps)
  then show ?thesis by (simp add: find_user_def)
qed

end

interpretation enable: identity_keeping "\<lambda>r. r\<lparr>u_is_active := 1, u_updated_at := now\<rparr>" for now by unfold_locales auto
interpretation disable: identity_keeping "\<lambda>r. r\<lparr>u_is_active := 0, u_updated_at := now\<rparr>" for now by unfold_locales auto
interpretation reset_traffic: identity_keeping "\<lambda>r. r\<lparr>u_used_bytes := 0, u_updated_at := now\<rparr>" for now by unfold_locales auto
interpretation reset_requests: identity_keeping "\<lambda>r. r\<lparr>u_requests_used := 0, u_updated_at := now\<rparr>" for now by unfold_locales auto
interpretation usage: identity_keeping
  "\<lambda>r. r\<lparr>u_used_bytes := u_used_bytes r + n, u_requests_used := u_requests_used r + 1\<rparr>" for n by unfold_locales auto

lemma update_where_key:
  "update_where p f rs = Some rs' \<Longrightarrow> (\<And>r r'. f r = Some r' \<Longrightarrow> key r' = key r) \<Longrightarrow> map key rs' = map key rs"
proof (induction rs arbitrary: rs')
  case (Cons r rs)
  then show ?case by (auto simp: bind_eq_Some_conv split: if_splits)
qed simp

lemma update_where_other: "update_where p f rs = Some rs' \<Longrightarrow>
    list_all2 (\<lambda>r r'. p r \<and> f r = Some r' \<or> \<not> p r \<and> r' = r) rs rs'"
proof (induction rs arbitrary: rs')
  case (Cons r rs)
  then show ?case by (auto simp: bind_eq_Some_conv split: if_splits)
qed simp

definition same_identity :: "user_row \<Rightarrow> user_row \<Rightarrow> bool" where
  "same_identity r r' \<longleftrightarrow> u_username r' = u_username r \<and> u_uuid r' = u_uuid r \<and> u_sub_token r' = u_sub_token r \<and>
     u_id r' = u_id r \<and> u_used_bytes r' = u_used_bytes r \<and> u_requests_used r' = u_requests_used r \<and>
     u_created_at r' = u_created_at r \<and> u_created_by r' = u_created_by r"

lemma set_col_identity: "set_col c v r = Some r' \<Longrightarrow> same_identity r r'"
  by (auto simp: set_col_def same_identity_def Let_def split: if_splits)

lemma same_identity_trans: "same_identity a b \<Longrightarrow> same_identity b c \<Longrightarrow> same_identity a c"
  by (simp add: same_identity_def)

lemma set_cols_identity: "set_cols cs r = Some r' \<Longrightarrow> same_identity r r'"
proof (induction cs arbitrary: r)
  case Nil
  then show ?case by (simp add: same_identity_def)
next
  case (Cons cv cs)
  obtain c v where "cv = (c, v)" by (cases cv)
  with Cons show ?case by (auto simp: bind_eq_Some_conv intro: same_identity_trans set_col_identity)
qed

lemma updateUser_cases:
  assumes "updateUser P now name patch d = (r, d')"
  obtains "d' = d" | us cs where "d' = d\<lparr>db_users := us\<rparr>"
    "update_where (\<lambda>r. u_username r = name) (set_cols cs) (db_users d) = Some us"
  using assms by (auto simp: updateUser_def Let_def split: sum.splits if_splits option.splits)

lemma users_ok_updateUser:
  assumes "users_ok d" "updateUser P now name patch d = (r, d')"
  shows "users_ok d'"
  using assms(2)
proof (cases rule: updateUser_cases)
  case (2 us cs)
  have k: "u_username r' = u_username r" "u_uuid r' = u_uuid r" "u_sub_token r' = u_sub_token r" "u_id r' = u_id r"
    if "set_cols cs r = Some r'" for r r'
    using set_cols_identity [OF that] by (simp_all add: same_identity_def)
  show ?thesis
    unfolding 2(1) using assms(1)
    by (rule users_ok_same_keys) (rule update_where_key [OF 2(2)], erule k)+
qed (use assms in simp)

lemma row_of_id: "row_of n v = Some row \<Longrightarrow> u_id row = n"
  by (auto simp: row_of_def bind_eq_Some_conv)

lemma users_ok_createUser:
  assumes "users_ok d" "createUser P now inp d = (r, d')"
  shows "users_ok d'"
proof (cases "d' = d")
  case False
  with assms(2) obtain row where d': "d' = d\<lparr>db_users := db_users d @ [row], db_user_seq := Suc (db_user_seq d)\<rparr>"
    and nc: "\<not> list_ex (clashes row) (db_users d)" and "u_id row = Suc (db_user_seq d)"
    by (auto simp: createUser_def Let_def row_of_id split: option.splits if_splits)
  then show ?thesis using assms(1) unfolding d' users_ok_def
    by (auto simp: list_ex_iff list_all_iff clashes_def le_SucI)
qed (use assms in simp)

lemma users_ok_filter: "users_ok d \<Longrightarrow> users_ok (d\<lparr>db_users := filter p (db_users d)\<rparr>)"
  by (auto simp: users_ok_def list_all_iff distinct_map_filter)

lemma extend_row_keeps: "extend_row now ms days r = Some r' \<Longrightarrow>
    u_username r' = u_username r \<and> u_uuid r' = u_uuid r \<and> u_sub_token r' = u_sub_token r \<and> u_id r' = u_id r"
  by (auto simp: extend_row_def split: option.splits)

lemma users_ok_bulk:
  assumes "users_ok d" "bulk P now names op v d = (r, d')"
  shows "users_ok d'"
proof -
  have ext: "users_ok (d\<lparr>db_users := us\<rparr>)"
    if "update_where p (extend_row now ms days) (db_users d) = Some us" for p ms days us
    using assms(1)
    by (rule users_ok_same_keys) (rule update_where_key [OF that], drule extend_row_keeps, blast)+
  have "d' = d \<or> users_ok d'"
    using assms ext enable.users_ok_update disable.users_ok_update reset_traffic.users_ok_update
      reset_requests.users_ok_update users_ok_filter
    by (auto simp: bulk_def bulk_set_def Let_def split: jval.splits if_splits option.splits list.splits)
  then show ?thesis using assms(1) by blast
qed

lemma find_user_SomeD: "find_user n d = Some r \<Longrightarrow> r \<in> set (db_users d) \<and> u_username r = n"
  by (auto simp: find_user_def find_Some_iff)

lemma distinct_map_update_one:
  assumes "distinct (map u_username rs)" "distinct (map key rs)"
    and "\<forall>r\<in>set rs. u_username r \<noteq> n \<longrightarrow> key r \<noteq> k" and "\<And>r. key (g r) = k"
  shows "distinct (map key (map (\<lambda>r. if u_username r = n then g r else r) rs))"
  using assms(1-3)
proof (induction rs)
  case (Cons r rs)
  show ?case
  proof (cases "u_username r = n")
    case True
    then have "\<forall>r'\<in>set rs. u_username r' \<noteq> n" using Cons.prems(1) by (auto simp: image_iff)
    then show ?thesis using True Cons assms(4) by (auto simp: image_iff)
  next
    case False
    then show ?thesis using Cons assms(4) by (auto simp: image_iff split: if_splits)
  qed
qed simp

lemma users_ok_rotate:
  assumes "users_ok d"
  shows "users_ok (snd (rotateSubToken now en name d))" and "users_ok (snd (rotateUuid now en name d))"
proof -
  have miss: "map (\<lambda>r. if u_username r = name then g r else r) (db_users d) = db_users d"
    if "find_user name d = None" for g
    using that by (auto simp: find_user_def find_None_iff intro: map_idI)
  have part: "users_ok (d\<lparr>db_users := map (\<lambda>r. if u_username r = name then g r else r) (db_users d)\<rparr>)"
    if "distinct (map u_uuid (map (\<lambda>r. if u_username r = name then g r else r) (db_users d)))"
      "distinct (map u_sub_token (map (\<lambda>r. if u_username r = name then g r else r) (db_users d)))"
      "\<And>r. u_username (g r) = u_username r" "\<And>r. u_id (g r) = u_id r" for g
  proof -
    have "map u_username (map (\<lambda>r. if u_username r = name then g r else r) (db_users d)) = map u_username (db_users d)"
      using that(3) by auto
    then show ?thesis using assms that by (auto simp: users_ok_def list_all_iff simp del: map_map)
  qed
  show "users_ok (snd (rotateSubToken now en name d))"
  proof (cases "find_user name d")
    case None
    then show ?thesis using assms miss by (simp add: rotateSubToken_def Let_def)
  next
    case (Some u)
    show ?thesis
    proof (cases "list_ex (\<lambda>r. u_username r \<noteq> name \<and> u_sub_token r = JStr (undash (en_uuid en))) (db_users d)")
      case True
      then show ?thesis using assms Some by (simp add: rotateSubToken_def)
    next
      case False
      let ?g = "\<lambda>r. r\<lparr>u_sub_token := JStr (undash (en_uuid en)), u_updated_at := now\<rparr>"
      have "map u_uuid (map (\<lambda>r. if u_username r = name then ?g r else r) (db_users d)) = map u_uuid (db_users d)" by auto
      moreover have "distinct (map u_sub_token (map (\<lambda>r. if u_username r = name then ?g r else r) (db_users d)))"
        using assms False by (intro distinct_map_update_one) (auto simp: users_ok_def list_ex_iff)
      ultimately show ?thesis
        using part [of ?g] assms False by (simp add: rotateSubToken_def Let_def users_ok_def del: map_map)
    qed
  qed
  show "users_ok (snd (rotateUuid now en name d))"
  proof (cases "find_user name d")
    case None
    then show ?thesis using assms miss by (simp add: rotateUuid_def Let_def)
  next
    case (Some u)
    show ?thesis
    proof (cases "list_ex (\<lambda>r. u_username r \<noteq> name \<and> u_uuid r = JStr (en_uuid en)) (db_users d)")
      case True
      then show ?thesis using assms Some by (simp add: rotateUuid_def)
    next
      case False
      let ?g = "\<lambda>r. r\<lparr>u_uuid := JStr (en_uuid en), u_updated_at := now\<rparr>"
      have "map u_sub_token (map (\<lambda>r. if u_username r = name then ?g r else r) (db_users d)) = map u_sub_token (db_users d)" by auto
      moreover have "distinct (map u_uuid (map (\<lambda>r. if u_username r = name then ?g r else r) (db_users d)))"
        using assms False by (intro distinct_map_update_one) (auto simp: users_ok_def list_ex_iff)
      ultimately show ?thesis
        using part [of ?g] assms False by (simp add: rotateUuid_def Let_def users_ok_def del: map_map)
    qed
  qed
qed

text \<open>
  The UNIQUE columns stay unique: whatever the arguments, creating, updating, deleting, bulk
  changing and rotating leave a table in which no two users share a name, a UUID or a subscription token.
\<close>

theorem users_table_invariant:
  assumes "users_ok d"
  shows "users_ok (snd (createUser P now inp d)) \<and> users_ok (snd (updateUser P now name patch d)) \<and>
    users_ok (snd (deleteUser name d)) \<and> users_ok (snd (bulk P now names op v d)) \<and>
    users_ok (snd (rotateSubToken now en name d)) \<and> users_ok (snd (rotateUuid now en name d))"
proof (intro conjI)
  show "users_ok (snd (createUser P now inp d))" using users_ok_createUser [OF assms] by (metis surjective_pairing)
  show "users_ok (snd (updateUser P now name patch d))" using users_ok_updateUser [OF assms] by (metis surjective_pairing)
  show "users_ok (snd (deleteUser name d))" using assms users_ok_filter by (auto simp: deleteUser_def)
  show "users_ok (snd (bulk P now names op v d))" using users_ok_bulk [OF assms] by (metis surjective_pairing)
qed (use users_ok_rotate [OF assms] in auto)

theorem users_table_invariant_witness:
  "users_ok (snd (createUser demo_platform 5 (JObj []) empty_db)) \<and> users_ok (snd (deleteUser ''ann'' empty_db))"
  using users_table_invariant [of empty_db demo_platform 5 "JObj []" "''ann''" "JObj []" JNull JNull JNull demo_entropy]
  by (auto simp: users_ok_def empty_db_def)

text \<open>How D1 stores text, finite numbers and null.\<close>

definition binds_plain :: "platform \<Rightarrow> bool" where
  "binds_plain P \<longleftrightarrow> (\<forall>t. p_bind P (JStr t) = Some (JStr t)) \<and> (\<forall>q. p_bind P (JNum (Fin q)) = Some (JNum (Fin q))) \<and>
     p_bind P JNull = Some JNull"

lemma fields_by_key:
  "distinct (map fst kvs) \<Longrightarrow> map (\<lambda>c. the (map_of kvs c)) (map fst kvs) = map snd kvs"
proof (induction kvs)
  case (Cons kv kvs)
  then have "map (\<lambda>c. the (map_of (kv # kvs) c)) (map fst kvs) = map (\<lambda>c. the (map_of kvs c)) (map fst kvs)"
    by (auto simp: image_iff)
  with Cons show ?case by simp
qed simp

lemma new_user_keys: "map fst (new_user_fields now en raw u q dy ps) = COLS"
  by (simp add: new_user_fields_def COLS_def)

lemma distinct_COLS: "distinct COLS"
  by (simp add: COLS_def)

lemma newUserInput_Inr:
  assumes "newUserInput E now en raw = Inr inp"
  obtains q days ps where "inp = JObj (new_user_fields now en raw (trim (to_str (js_or (fld raw ''username'') (JStr [])))) q days ps)"
    "username_ok (trim (to_str (js_or (fld raw ''username'') (JStr []))))" "0 < q" "0 < days"
    "assertRealProxies (normaliseList (fld raw ''proxies'')) = Inr ps"
  using assms by (auto simp: newUserInput_def Let_def res_bind_Inr split: if_splits)

lemma newUserInput_username:
  assumes "newUserInput E now en raw = Inr inp"
  shows "fld inp ''username'' = JStr (trim (to_str (js_or (fld raw ''username'') (JStr []))))"
  using assms by (rule newUserInput_Inr) (simp add: new_user_fields_def)

definition storable :: "jval \<Rightarrow> bool" where
  "storable v \<longleftrightarrow> v = JNull \<or> (\<exists>t. v = JStr t) \<or> (\<exists>q. v = JNum (Fin q))"

lemma bind_all_storable: "binds_plain P \<Longrightarrow> list_all storable vs \<Longrightarrow> bind_all P vs = Some vs"
  by (induction vs) (auto simp: bind_all_def binds_plain_def storable_def)

lemma coalesce_storable: "storable v \<Longrightarrow> js_coalesce v JNull = v"
  by (auto simp: storable_def js_coalesce_def nullish_def)

lemma new_user_bound:
  assumes "binds_plain P" and "list_all storable (map snd (new_user_fields now en raw u q dy ps))"
  shows "bind_all P (map (\<lambda>c. js_coalesce (fld (JObj (new_user_fields now en raw u q dy ps)) c) JNull) COLS) =
    Some (map snd (new_user_fields now en raw u q dy ps))"
proof -
  let ?kvs = "new_user_fields now en raw u q dy ps"
  have "map (\<lambda>c. fld (JObj ?kvs) c) COLS = map (\<lambda>c. the (map_of ?kvs c)) (map fst ?kvs)"
    unfolding new_user_keys [of now en raw u q dy ps, symmetric]
    by (intro map_cong refl) (auto split: option.splits simp: map_of_eq_None_iff)
  also have "\<dots> = map snd ?kvs" by (rule fields_by_key) (simp only: new_user_keys distinct_COLS)
  finally have f: "map (\<lambda>c. fld (JObj ?kvs) c) COLS = map snd ?kvs" .
  have "map (\<lambda>c. js_coalesce (fld (JObj ?kvs) c) JNull) COLS = map (\<lambda>v. js_coalesce v JNull) (map (\<lambda>c. fld (JObj ?kvs) c) COLS)"
    by simp
  also have "\<dots> = map snd ?kvs"
    unfolding f using assms(2) by (intro map_idI) (auto simp: list_all_iff coalesce_storable)
  finally show ?thesis using bind_all_storable [OF assms] by simp
qed

definition new_row :: "num \<Rightarrow> entropy \<Rightarrow> jval \<Rightarrow> string \<Rightarrow> num \<Rightarrow> num \<Rightarrow> string list \<Rightarrow> nat \<Rightarrow> user_row option" where
  "new_row now en raw u q dy ps n = row_of n (\<lambda>c. the (map_of (new_user_fields now en raw u q dy ps) c))"

lemma js_or_undef: "js_or JUndef b = b"
  by (simp add: js_or_def)

lemma new_user_storable:
  assumes "fld raw ''uuid'' = JUndef" and "fld raw ''sub_token'' = JUndef" and "fld raw ''created_by'' = JUndef"
    and "to_num (js_or (fld raw ''used_bytes'') (JNum (Fin 0))) = Fin used"
    and "to_num (js_or (fld raw ''device_limit'') (JNum (Fin 3))) = Fin dl"
    and "to_num (js_or (fld raw ''request_limit'') (JNum (Fin 0))) = Fin rl"
  shows "list_all storable (map snd (new_user_fields now en raw u q dy ps))"
  by (simp add: new_user_fields_def assms js_or_undef storable_def)

lemma new_row_fields:
  assumes "fld raw ''uuid'' = JUndef" and "fld raw ''sub_token'' = JUndef" and "fld raw ''created_by'' = JUndef"
    and "to_num (js_or (fld raw ''used_bytes'') (JNum (Fin 0))) = Fin used"
    and "to_num (js_or (fld raw ''device_limit'') (JNum (Fin 3))) = Fin dl"
    and "to_num (js_or (fld raw ''request_limit'') (JNum (Fin 0))) = Fin rl"
  shows "\<exists>row. new_row now en raw u q dy ps n = Some row \<and> u_id row = n \<and> u_username row = u \<and>
    u_uuid row = JStr (en_uuid en) \<and> u_sub_token row = JStr (undash (en_uuid2 en)) \<and> u_quota_gb row = JNum (Fin q) \<and>
    u_used_bytes row = used \<and> u_is_active row = (if fld raw ''is_active'' = JBool False then 0 else 1) \<and>
    u_expires_at row = (if fld raw ''first_connect'' = JBool False then Some (now + dy * 86400000) else None)"
proof -
  define fc ea tl ia where "fc = (if fld raw ''first_connect'' = JBool False then JInt 0 else JInt 1)"
    and "ea = (if fld raw ''first_connect'' = JBool False then JNum (Fin (now + dy * 86400000)) else JNull)"
    and "tl = (if fld raw ''tls'' = JStr ''off'' then JStr ''off'' else JStr ''on'')"
    and "ia = (if fld raw ''is_active'' = JBool False then JInt 0 else JInt 1)"
  have "\<not> nullish fc" "\<not> nullish tl" "num_col ia = Some (if fld raw ''is_active'' = JBool False then 0 else 1)"
    "num_col ea = (if fld raw ''first_connect'' = JBool False then Some (now + dy * 86400000) else None)"
    by (simp_all add: fc_def ea_def tl_def ia_def nullish_def)
  then show ?thesis
    unfolding new_row_def new_user_fields_def fc_def [symmetric] ea_def [symmetric] tl_def [symmetric] ia_def [symmetric]
    by (simp add: row_of_def not_null_def assms js_or_undef)
       (simp add: nullish_def)
qed

lemma find_append: "find p (xs @ ys) = (case find p xs of None \<Rightarrow> find p ys | Some x \<Rightarrow> Some x)"
  by (induction xs) auto

text \<open>
  Creating a user. For a request that passes validation, with ordinary numeric fields and without a
  chosen UUID, token or creator, and fresh random identifiers: if the name is free the user is stored with the
  given quota and an untouched table otherwise, and the answer is what a later lookup by name, by UUID and by
  token returns; if the name is taken, the answer is 409 and the table is unchanged.
\<close>

theorem createUser_spec:
  assumes "newUserInput E now en raw = Inr inp"
    and "fld raw ''uuid'' = JUndef" and "fld raw ''sub_token'' = JUndef" and "fld raw ''created_by'' = JUndef"
    and "to_num (js_or (fld raw ''used_bytes'') (JNum (Fin 0))) = Fin used"
    and "to_num (js_or (fld raw ''device_limit'') (JNum (Fin 3))) = Fin dl"
    and "to_num (js_or (fld raw ''request_limit'') (JNum (Fin 0))) = Fin rl"
    and "binds_plain P"
    and "\<forall>r\<in>set (db_users d). u_uuid r \<noteq> JStr (en_uuid en) \<and> u_sub_token r \<noteq> JStr (undash (en_uuid2 en))"
  shows "\<exists>name. fld inp ''username'' = JStr name \<and> username_ok name \<and>
    (if find_user name d = None
     then \<exists>u d'. createUser P now inp d = (Inr u, d') \<and> getUser now name d' = Inr u \<and>
            getUserByUuid now (en_uuid en) d' = Some u \<and> getUserBySubToken now (undash (en_uuid2 en)) d' = Some u \<and>
            u_used_bytes u = used \<and> db_users d' = db_users d @ [user_row.truncate u] \<and>
            (\<forall>n. n \<noteq> name \<longrightarrow> find_user n d' = find_user n d)
     else createUser P now inp d = (Inl conflict, d))"
proof -
  obtain name q days ps where inp: "inp = JObj (new_user_fields now en raw name q days ps)" and nm: "username_ok name"
    using assms(1) by (metis newUserInput_Inr)
  let ?kvs = "new_user_fields now en raw name q days ps"
  have name: "fld inp ''username'' = JStr name" by (simp add: inp new_user_fields_def)
  have zip: "zip COLS (map snd ?kvs) = ?kvs"
    unfolding new_user_keys [of now en raw name q days ps, symmetric] by (rule zip_map_fst_snd)
  have ba: "bind_all P (map (\<lambda>c. js_coalesce (fld inp c) JNull) COLS) = Some (map snd ?kvs)"
    unfolding inp using assms(8) new_user_storable [OF assms(2-7)] by (rule new_user_bound)
  obtain row where row: "row_of (Suc (db_user_seq d)) (\<lambda>c. the (map_of ?kvs c)) = Some row" and
    r: "u_username row = name" "u_uuid row = JStr (en_uuid en)" "u_sub_token row = JStr (undash (en_uuid2 en))" "u_used_bytes row = used"
    using new_row_fields [OF assms(2-7), of now en name q days ps "Suc (db_user_seq d)"] unfolding new_row_def by auto
  let ?d = "d\<lparr>db_users := db_users d @ [row], db_user_seq := Suc (db_user_seq d)\<rparr>"
  have cr: "createUser P now inp d = (if list_ex (clashes row) (db_users d) then (Inl conflict, d) else (getUser now name ?d, ?d))"
    by (simp add: createUser_def ba zip row name Let_def)
  have cl: "list_ex (clashes row) (db_users d) \<longleftrightarrow> find_user name d \<noteq> None"
    using assms(9) r unfolding list_ex_iff clashes_def find_user_def find_None_iff by metis
  have fresh: "find (\<lambda>r. u_uuid r = JStr (en_uuid en)) (db_users d) = None"
    "find (\<lambda>r. u_sub_token r = JStr (undash (en_uuid2 en))) (db_users d) = None"
    using assms(9) by (auto simp: find_None_iff)
  show ?thesis
  proof (intro exI [of _ name] conjI name nm)
    show "if find_user name d = None
     then \<exists>u d'. createUser P now inp d = (Inr u, d') \<and> getUser now name d' = Inr u \<and>
            getUserByUuid now (en_uuid en) d' = Some u \<and> getUserBySubToken now (undash (en_uuid2 en)) d' = Some u \<and>
            u_used_bytes u = used \<and> db_users d' = db_users d @ [user_row.truncate u] \<and>
            (\<forall>n. n \<noteq> name \<longrightarrow> find_user n d' = find_user n d)
     else createUser P now inp d = (Inl conflict, d)"
    proof (cases "find_user name d")
      case None
      then have g: "getUser now name ?d = Inr (hydrate now row)"
        using r by (simp add: getUser_def find_user_def find_append)
      have "getUserByUuid now (en_uuid en) ?d = Some (hydrate now row)"
        "getUserBySubToken now (undash (en_uuid2 en)) ?d = Some (hydrate now row)"
        using fresh r by (simp_all add: getUserByUuid_def getUserBySubToken_def find_append)
      moreover have "u_used_bytes (hydrate now row) = used" "user_row.truncate (hydrate now row) = row"
        using r by (simp_all add: hydrate_def user_row.defs)
      moreover have "find_user n ?d = find_user n d" if "n \<noteq> name" for n
        using that r by (auto simp: find_user_def find_append split: option.splits)
      ultimately show ?thesis using None cr cl g by auto
    next
      case (Some u)
      then show ?thesis using cr cl by simp
    qed
  qed
qed

theorem createUser_spec_witness:
  "\<exists>inp u d'. newUserInput demo_env 5 demo_entropy (JObj [(''username'', JStr ''anna'')]) = Inr inp \<and>
     createUser demo_platform 5 inp empty_db = (Inr u, d') \<and> getUser 5 ''anna'' d' = Inr u"
proof -
  let ?raw = "JObj [(''username'', JStr ''anna'')]"
  have "trim ''anna'' = ''anna''" by (simp add: trim_def is_ws_def)
  moreover have "username_ok ''anna''" by (simp add: username_ok_def username_char_def is_alnum_def is_digit_def is_lower_def is_upper_def)
  ultimately obtain inp where inp: "newUserInput demo_env 5 demo_entropy ?raw = Inr inp"
    by (simp add: newUserInput_def js_or_def js_coalesce_def nullish_def DEFAULTS_def normaliseList_def assertRealProxies_def Let_def)
  have b: "binds_plain demo_platform" by (simp add: binds_plain_def)
  obtain name where n: "fld inp ''username'' = JStr name"
    "\<exists>u d'. createUser demo_platform 5 inp empty_db = (Inr u, d') \<and> getUser 5 name d' = Inr u"
    using createUser_spec [OF inp, of 0 3 0 demo_platform empty_db] b by (auto simp: js_or_def empty_db_def find_user_def)
  have "name = ''anna''" using newUserInput_username [OF inp] n(1) \<open>trim ''anna'' = ''anna''\<close>
    by (simp add: js_or_def)
  with n inp show ?thesis by blast
qed

text \<open>
  Updating a user touches no one else and none of the columns a panel client may not set: in every
  outcome the other users' rows are unchanged, and the updated row keeps its name, UUID, subscription token,
  traffic and request counters, creation time and creator; on an error the whole table is unchanged.
\<close>

theorem updateUser_frame:
  assumes "updateUser P now name patch d = (r, d')"
  shows "list_all2 (\<lambda>a b. u_username a \<noteq> name \<and> b = a \<or> u_username a = name \<and> same_identity a b) (db_users d) (db_users d') \<and>
    db_settings d' = db_settings d \<and> db_sessions d' = db_sessions d \<and>
    (\<forall>e. r = Inl e \<longrightarrow> d' = d)"
proof -
  have refl: "list_all2 (\<lambda>a b. u_username a \<noteq> name \<and> b = a \<or> u_username a = name \<and> same_identity a b) us us" for us
    by (rule list_all2_refl) (auto simp: same_identity_def)
  have main: "list_all2 (\<lambda>a b. u_username a \<noteq> name \<and> b = a \<or> u_username a = name \<and> same_identity a b) (db_users d) (db_users d') \<and>
    db_settings d' = db_settings d \<and> db_sessions d' = db_sessions d"
    using assms
  proof (cases rule: updateUser_cases)
    case 1
    then show ?thesis using refl by simp
  next
    case (2 us cs)
    have "list_all2 (\<lambda>a b. u_username a \<noteq> name \<and> b = a \<or> u_username a = name \<and> same_identity a b) (db_users d) us"
      by (rule list_all2_mono [OF update_where_other [OF 2(2)]]) (auto dest: set_cols_identity)
    then show ?thesis unfolding 2(1) by simp
  qed
  moreover have "d' = d" if e: "r = Inl e" for e
  proof (rule ccontr)
    assume ne: "d' \<noteq> d"
    with assms e obtain us where d': "d' = d\<lparr>db_users := us\<rparr>" and g: "getUser now name d' = Inl e"
      and f: "find_user name d \<noteq> None"
      by (auto simp: updateUser_def Let_def split: sum.splits if_splits option.splits)
    have "map u_username ys = map u_username xs"
      if "list_all2 (\<lambda>a b. u_username a \<noteq> name \<and> b = a \<or> u_username a = name \<and> same_identity a b) xs ys" for xs ys
      using that by (induction rule: list_all2_induct) (auto simp: same_identity_def)
    then have "map u_username (db_users d') = map u_username (db_users d)" using main by blast
    then have "u_username ` set (db_users d') = u_username ` set (db_users d)" by (metis list.set_map)
    then have "find_user name d' \<noteq> None"
      using f unfolding find_user_def find_None_iff by (metis imageE imageI)
    with g show False by (auto simp: getUser_def split: option.splits)
  qed
  ultimately show ?thesis by blast
qed

theorem updateUser_frame_witness:
  "\<exists>r d'. updateUser demo_platform 7 ''bob'' (JObj [(''note'', JStr ''x'')]) empty_db = (r, d') \<and> db_sessions d' = db_sessions empty_db"
proof -
  obtain r d' where u: "updateUser demo_platform 7 ''bob'' (JObj [(''note'', JStr ''x'')]) empty_db = (r, d')"
    by (rule prod.exhaust)
  with updateUser_frame [OF u] show ?thesis by blast
qed

subsection \<open>Listing is sound, complete and ordered\<close>

lemma text_le_refl: "text_le s s"
  by (induction s) auto

lemma text_le_total: "text_le s t \<or> text_le t s"
  by (induction s t rule: text_le.induct) auto

lemma text_le_trans: "text_le s t \<Longrightarrow> text_le t u \<Longrightarrow> text_le s u"
proof (induction s t arbitrary: u rule: text_le.induct)
  case (3 c s d t)
  then show ?case by (cases u) (auto split: if_splits)
qed auto

lemma opt_le_total: "opt_le a b \<or> opt_le b a"
  by (cases a; cases b) auto

lemma opt_le_trans: "opt_le a b \<Longrightarrow> opt_le b c \<Longrightarrow> opt_le a c"
  by (cases a; cases b; cases c) auto

interpretation by_created: total_preorder "\<lambda>a b. u_created_at a \<le> u_created_at b"
  by unfold_locales auto
interpretation by_username: total_preorder "\<lambda>a b. text_le (u_username a) (u_username b)"
  by unfold_locales (auto simp: text_le_total intro: text_le_trans)
interpretation by_used: total_preorder "\<lambda>a b. u_used_bytes a \<le> u_used_bytes b"
  by unfold_locales auto
interpretation by_expiry: total_preorder "\<lambda>a b. opt_le (u_expires_at a) (u_expires_at b)"
  by unfold_locales (auto simp: opt_le_total intro: opt_le_trans)

lemma total_preorder_flip: "total_preorder le \<Longrightarrow> total_preorder (\<lambda>a b. le b a)"
  by (simp add: total_preorder_def)

lemma sort_order_preorder: "sort_order c = Some le \<Longrightarrow> total_preorder le"
  by (auto simp: sort_order_def split: if_splits
      intro: by_created.total_preorder_axioms by_username.total_preorder_axioms by_used.total_preorder_axioms
        by_expiry.total_preorder_axioms)

definition order_of :: "list_query \<Rightarrow> (user_row \<Rightarrow> user_row \<Rightarrow> bool) option" where
  "order_of q =
     map_option (\<lambda>le. if lq_dir q = ''asc'' then le else (\<lambda>a b. le b a))
       (sort_order (if lq_sort q \<in> set allowedSort then lq_sort q else ''created_at''))"

lemma sorted_sublist: "sorted_wrt le xs \<Longrightarrow> sorted_wrt le (sql_page l off xs)"
  by (auto simp: sql_page_def Let_def intro: sorted_wrt_take sorted_wrt_drop)

lemma truncate_hydrate: "user_row.truncate (hydrate now r) = r"
  by (simp add: hydrate_def user_row.defs)

text \<open>
  A page of the user list is a slice of the matching users in the requested order: every listed user
  satisfies the filter, the list is sorted by the requested column and direction, the total counts all
  matching users, and the first page with a sufficient size lists each of them.
\<close>

theorem listUsers_spec:
  assumes "listUsers now q d = Inr (us, cnt)"
  shows "\<exists>le. order_of q = Some le \<and> sorted_wrt le (map user_row.truncate us) \<and>
    set (map user_row.truncate us) \<subseteq> {r \<in> set (db_users d). list_where now q r} \<and>
    cnt = length (filter (list_where now q) (db_users d)) \<and>
    (lq_page q \<le> 1 \<and> of_nat cnt \<le> lq_size q \<longrightarrow>
       set (map user_row.truncate us) = {r \<in> set (db_users d). list_where now q r})"
proof -
  from assms obtain le0 where so: "sort_order (if lq_sort q \<in> set allowedSort then lq_sort q else ''created_at'') = Some le0"
    and us: "us = map (hydrate now) (sql_page (lq_size q) ((max 1 (lq_page q) - 1) * lq_size q)
      (sort_by (if lq_dir q = ''asc'' then le0 else (\<lambda>a b. le0 b a)) (filter (list_where now q) (db_users d))))"
    and tot: "cnt = length (filter (list_where now q) (db_users d))"
    by (auto simp: listUsers_def Let_def split: option.splits if_splits)
  define le where "le = (if lq_dir q = ''asc'' then le0 else (\<lambda>a b. le0 b a))"
  have "total_preorder le0" using so by (rule sort_order_preorder)
  then have tp: "total_preorder le" by (simp add: le_def total_preorder_flip)
  let ?s = "sort_by le (filter (list_where now q) (db_users d))"
  have tr: "map user_row.truncate us = sql_page (lq_size q) ((max 1 (lq_page q) - 1) * lq_size q) ?s"
    by (simp add: us truncate_hydrate comp_def flip: le_def)
  have "sorted_wrt le (map user_row.truncate us)"
    unfolding tr by (rule sorted_sublist) (rule total_preorder.sort_by_sorted [OF tp])
  moreover have "set (sql_page l off xs) \<subseteq> set xs" for l off and xs :: "user_row list"
    by (auto simp: sql_page_def Let_def dest: in_set_takeD in_set_dropD)
  from this [of _ _ ?s] have "set (map user_row.truncate us) \<subseteq> {r \<in> set (db_users d). list_where now q r}"
    unfolding tr by auto
  moreover have "set (map user_row.truncate us) = {r \<in> set (db_users d). list_where now q r}"
    if p: "lq_page q \<le> 1" "of_nat cnt \<le> lq_size q"
  proof -
    have "length ?s \<le> nat \<lfloor>lq_size q\<rfloor>" using p(2) by (simp add: tot le_nat_floor le_floor_iff nat_le_eq_zle le_nat_iff)
    then have "sql_page (lq_size q) 0 ?s = ?s" using p(2) by (auto simp: sql_page_def)
    moreover have "(max 1 (lq_page q) - 1) * lq_size q = 0" using p(1) by simp
    ultimately show ?thesis unfolding tr by auto
  qed
  ultimately show ?thesis using tot by (intro exI [of _ le]) (simp add: order_of_def so le_def)
qed

definition demo_query :: list_query where
  "demo_query = \<lparr>lq_q = [], lq_status = ''all'', lq_sort = ''username'', lq_dir = ''asc'', lq_page = 1, lq_size = 50\<rparr>"

theorem listUsers_spec_witness:
  "listUsers 5 demo_query empty_db = Inr ([], 0) \<and> order_of demo_query \<noteq> None"
proof -
  have l: "listUsers 5 demo_query empty_db = Inr ([], 0)"
    by (simp add: listUsers_def demo_query_def empty_db_def allowedSort_def sort_order_def is_int_def sort_by_def sql_page_def)
  from listUsers_spec [OF l] l show ?thesis by auto
qed

text \<open>
  Sorting by \<open>last_active\<close>, which the whitelist admits, always fails: the schema has no such column.
\<close>

theorem listUsers_last_active_fails:
  "\<exists>e. listUsers now (q\<lparr>lq_sort := ''last_active''\<rparr>) d = Inl (JsError e)"
  by (auto simp: listUsers_def Let_def sort_order_def allowedSort_def)

end
