(* ===== verification/Ledger.thy ===== *)
theory Ledger
  imports Db
begin

text \<open>
  The Durable Object \<open>Ledger\<close> of \<^verbatim>\<open>auth/guard.js\<close>: traffic reports are accumulated per user and flushed to
  D1 in batches of 100 statements; devices seen in the last five minutes are counted for the device
  limit. Which batches D1 refuses is the argument \<open>fails\<close> (by batch index). A flush is atomic with
  respect to other requests of the object.
\<close>

subsection \<open>State\<close>

record dirty =
  di_up :: num
  di_down :: num
  di_conns :: num

record ledger =
  lg_dirty :: "(string \<times> dirty) list"
  lg_devices :: "(string \<times> (string \<times> num) list) list"
  lg_timer :: bool
  lg_alarm :: "num option"

definition new_ledger :: ledger where
  "new_ledger = \<lparr>lg_dirty = [], lg_devices = [], lg_timer = False, lg_alarm = None\<rparr>"

definition FLUSH_INTERVAL_MS :: num where
  "FLUSH_INTERVAL_MS = 30000"

definition add_dirty :: "string \<Rightarrow> num \<Rightarrow> num \<Rightarrow> num \<Rightarrow> (string \<times> dirty) list \<Rightarrow> (string \<times> dirty) list" where
  "add_dirty u up down conns ds =
     (let cur = (case map_of ds u of Some v \<Rightarrow> v | None \<Rightarrow> \<lparr>di_up = 0, di_down = 0, di_conns = 0\<rparr>)
      in upsert u \<lparr>di_up = di_up cur + up, di_down = di_down cur + down, di_conns = di_conns cur + conns\<rparr> ds)"

definition touchDevice :: "num \<Rightarrow> string \<Rightarrow> string \<Rightarrow> ledger \<Rightarrow> ledger" where
  "touchDevice now user hash lg =
     (let m = (case map_of (lg_devices lg) user of Some m \<Rightarrow> m | None \<Rightarrow> []);
          m' = filter (\<lambda>(k, v). \<not> 5 * 60 * 1000 < now - v) (upsert hash now m)
      in lg\<lparr>lg_devices := upsert user m' (lg_devices lg)\<rparr>)"

definition device_count :: "string \<Rightarrow> ledger \<Rightarrow> nat" where
  "device_count u lg = (case map_of (lg_devices lg) u of Some m \<Rightarrow> length m | None \<Rightarrow> 0)"

subsection \<open>Flushing to D1\<close>

definition add_usage_user :: "string \<Rightarrow> num \<Rightarrow> db \<Rightarrow> db" where
  "add_usage_user user n d =
     d\<lparr>db_users := map (\<lambda>r. if u_username r = user
        then r\<lparr>u_used_bytes := u_used_bytes r + n, u_requests_used := u_requests_used r + 1\<rparr> else r) (db_users d)\<rparr>"

fun upsert_usage :: "string \<Rightarrow> string \<Rightarrow> dirty \<Rightarrow> usage_row list \<Rightarrow> usage_row list" where
  "upsert_usage day user v [] =
     [\<lparr>us_day = day, us_username = user, us_up = di_up v, us_down = di_down v, us_conns = di_conns v\<rparr>]"
| "upsert_usage day user v (r # rs) =
     (if us_day r = day \<and> us_username r = user
      then r\<lparr>us_up := us_up r + di_up v, us_down := us_down r + di_down v, us_conns := us_conns r + di_conns v\<rparr> # rs
      else r # upsert_usage day user v rs)"

definition add_usage_daily :: "string \<Rightarrow> string \<Rightarrow> dirty \<Rightarrow> db \<Rightarrow> db" where
  "add_usage_daily day user v d = d\<lparr>db_usage := upsert_usage day user v (db_usage d)\<rparr>"

definition entry_stmts :: "string \<Rightarrow> string \<times> dirty \<Rightarrow> db stmt list" where
  "entry_stmts day uv =
     [ok_stmt (add_usage_user (fst uv) (di_up (snd uv) + di_down (snd uv))),
      ok_stmt (add_usage_daily day (fst uv) (snd uv))]"

text \<open>The batch loop: \<open>True\<close> when every batch was committed; it stops at the first refused one.\<close>

fun flush_batches :: "(nat \<Rightarrow> bool) \<Rightarrow> nat \<Rightarrow> db stmt list list \<Rightarrow> db \<Rightarrow> bool \<times> db" where
  "flush_batches fails i [] d = (True, d)"
| "flush_batches fails i (b # bs) d =
     (if fails i then (False, d)
      else case d1_batch b d of
        (Inl e, d') \<Rightarrow> (False, d')
      | (Inr _, d') \<Rightarrow> flush_batches fails (Suc i) bs d')"

definition requeue :: "(string \<times> dirty) list \<Rightarrow> (string \<times> dirty) list \<Rightarrow> (string \<times> dirty) list" where
  "requeue entries ds = fold (\<lambda>(u, v). add_dirty u (di_up v) (di_down v) (di_conns v)) entries ds"

definition flush :: "bool \<Rightarrow> (nat \<Rightarrow> bool) \<Rightarrow> num \<Rightarrow> ledger \<times> db \<Rightarrow> ledger \<times> db" where
  "flush bound fails now s =
     (let lg = fst s; d = snd s in
      if lg_dirty lg = [] then s
      else let entries = lg_dirty lg; lg1 = lg\<lparr>lg_dirty := []\<rparr> in
        if \<not> bound then (lg1, d)
        else let day = iso_day now;
                 (committed, d') = flush_batches fails 0 (chunks 100 (concat (map (entry_stmts day) entries))) d;
                 lg2 = (if committed then lg1
                        else lg1\<lparr>lg_dirty := requeue entries (lg_dirty lg1), lg_alarm := Some (now + 15000)\<rparr>)
             in (lg2\<lparr>lg_alarm := Some (now + FLUSH_INTERVAL_MS)\<rparr>, d'))"

definition scheduleFlush :: "bool \<Rightarrow> (nat \<Rightarrow> bool) \<Rightarrow> num \<Rightarrow> ledger \<times> db \<Rightarrow> ledger \<times> db" where
  "scheduleFlush bound fails now s =
     (if lg_timer (fst s) then s else flush bound fails now ((fst s)\<lparr>lg_timer := True\<rparr>, snd s))"

definition timer_fires :: "ledger \<Rightarrow> ledger" where
  "timer_fires lg = lg\<lparr>lg_timer := False\<rparr>"

definition ledger_alarm :: "bool \<Rightarrow> (nat \<Rightarrow> bool) \<Rightarrow> num \<Rightarrow> ledger \<times> db \<Rightarrow> ledger \<times> db" where
  "ledger_alarm bound fails now s = flush bound fails now s"

subsection \<open>Requests\<close>

datatype ledger_req =
    LReport (lr_u: string) (lr_up: num) (lr_down: num) (lr_d: "string option")
  | LAdmit string string num
  | LDevices string
  | LPeek
  | LFlush
  | LOther string

datatype ledger_reply =
    LOk nat | LAdmitted bool nat "num option" | LDeviceList "string list"
  | LDirty "(string \<times> dirty) list" | LDone | LUnknown

definition apply_report :: "num \<Rightarrow> string \<Rightarrow> num \<Rightarrow> num \<Rightarrow> string option \<Rightarrow> ledger \<Rightarrow> ledger" where
  "apply_report now u up down dev lg =
     (let lg1 = lg\<lparr>lg_dirty := add_dirty u up down 1 (lg_dirty lg)\<rparr>
      in case dev of None \<Rightarrow> lg1 | Some h \<Rightarrow> if h = [] then lg1 else touchDevice now u h lg1)"

fun Ledger_fetch ::
  "bool \<Rightarrow> (nat \<Rightarrow> bool) \<Rightarrow> num \<Rightarrow> ledger_req \<Rightarrow> ledger \<times> db \<Rightarrow> ledger_reply \<times> (ledger \<times> db)" where
  "Ledger_fetch bound fails now (LReport u up down dev) s =
     (let s' = scheduleFlush bound fails now (apply_report now u up down dev (fst s), snd s)
      in (LOk (device_count u (fst s')), s'))"
| "Ledger_fetch bound fails now (LAdmit u h limit) s =
     (if limit = 0 then (LAdmitted True 0 None, s)
      else let lg = touchDevice now u h (fst s); n = device_count u lg
           in (LAdmitted (of_nat n \<le> limit) n (Some limit), (lg, snd s)))"
| "Ledger_fetch bound fails now (LDevices u) s =
     (LDeviceList (case map_of (lg_devices (fst s)) u of Some m \<Rightarrow> map fst m | None \<Rightarrow> []), s)"
| "Ledger_fetch bound fails now LPeek s = (LDirty (lg_dirty (fst s)), s)"
| "Ledger_fetch bound fails now LFlush s = (LDone, flush bound fails now s)"
| "Ledger_fetch bound fails now (LOther a) s = (LUnknown, s)"

subsection \<open>Accounting\<close>

text \<open>The three quantities the ledger keeps of a user.\<close>

datatype quantity = Up_bytes | Down_bytes | Connections

fun amount :: "quantity \<Rightarrow> dirty \<Rightarrow> num" where
  "amount Up_bytes v = di_up v"
| "amount Down_bytes v = di_down v"
| "amount Connections v = di_conns v"

fun row_amount :: "quantity \<Rightarrow> usage_row \<Rightarrow> num" where
  "row_amount Up_bytes r = us_up r"
| "row_amount Down_bytes r = us_down r"
| "row_amount Connections r = us_conns r"

text \<open>What is queued for one user, and what \<open>usage_daily\<close> holds of one user over all days.\<close>

definition queued :: "quantity \<Rightarrow> string \<Rightarrow> (string \<times> dirty) list \<Rightarrow> num" where
  "queued q u ds = sum_list (map (\<lambda>e. if fst e = u then amount q (snd e) else 0) ds)"

definition recorded :: "quantity \<Rightarrow> string \<Rightarrow> db \<Rightarrow> num" where
  "recorded q u d = sum_list (map (\<lambda>r. if us_username r = u then row_amount q r else 0) (db_usage d))"

definition queued_bytes :: "string \<Rightarrow> (string \<times> dirty) list \<Rightarrow> num" where
  "queued_bytes u ds = queued Up_bytes u ds + queued Down_bytes u ds"

text \<open>The byte counters of the rows of \<open>users\<close> grow by \<open>g\<close> of the row's user name.\<close>

definition counters_grew :: "(string \<Rightarrow> num) \<Rightarrow> db \<Rightarrow> db \<Rightarrow> bool" where
  "counters_grew g d d' \<longleftrightarrow>
     list_all2 (\<lambda>r r'. u_username r' = u_username r \<and> u_used_bytes r' = u_used_bytes r + g (u_username r))
       (db_users d) (db_users d')"

lemma queued_simps [simp]:
  "queued q u [] = 0"
  "queued q u (e # es) = (if fst e = u then amount q (snd e) else 0) + queued q u es"
  "queued q u (xs @ ys) = queued q u xs + queued q u ys"
  by (simp_all add: queued_def)

lemma queued_bytes_simps [simp]:
  "queued_bytes u [] = 0"
  "queued_bytes u (e # es) = (if fst e = u then di_up (snd e) + di_down (snd e) else 0) + queued_bytes u es"
  "queued_bytes u (xs @ ys) = queued_bytes u xs + queued_bytes u ys"
  by (simp_all add: queued_bytes_def)

lemma amount_record [simp]: "amount q \<lparr>di_up = di_up v, di_down = di_down v, di_conns = di_conns v\<rparr> = amount q v"
  by (cases q) simp_all

lemma counters_grew_refl: "counters_grew (\<lambda>u. 0) d d"
  by (simp add: counters_grew_def list.rel_refl)

lemma counters_grew_trans:
  assumes "counters_grew g d d1" and "counters_grew h d1 d2"
  shows "counters_grew (\<lambda>u. g u + h u) d d2"
  using assms by (auto simp: counters_grew_def list_all2_conv_all_nth)

lemma counters_grew_same_users: "db_users d' = db_users d \<Longrightarrow> counters_grew (\<lambda>u. 0) d d'"
  by (simp add: counters_grew_def list.rel_refl)

lemma queued_absent: "u \<notin> fst ` set ds \<Longrightarrow> queued q u ds = 0"
  by (induction ds) auto

lemma queued_upsert:
  "distinct (map fst ds) \<Longrightarrow>
   queued q w (upsert u v ds) = (if w = u then amount q v else queued q w ds)"
proof (induction ds)
  case (Cons p ds)
  then show ?case by (cases p) (auto simp: queued_absent)
qed simp

lemma queued_map_of:
  "distinct (map fst ds) \<Longrightarrow> queued q u ds = (case map_of ds u of Some v \<Rightarrow> amount q v | None \<Rightarrow> 0)"
proof (induction ds)
  case (Cons p ds)
  then show ?case by (cases p) (auto simp: queued_absent)
qed simp

lemma queued_nth:
  assumes "distinct (map fst ds)" "i < length ds"
  shows "queued q (fst (ds ! i)) ds = amount q (snd (ds ! i))"
proof -
  have "map_of ds (fst (ds ! i)) = Some (snd (ds ! i))"
    using assms by (simp add: map_of_eq_Some_iff)
  with queued_map_of [OF assms(1), of q "fst (ds ! i)"] show ?thesis by (simp only: option.case)
qed

lemma queued_take_nth:
  assumes "distinct (map fst ds)" "i < length ds"
  shows "queued q (fst (ds ! i)) (take n ds) = (if i < n then amount q (snd (ds ! i)) else 0)"
proof (cases "i < n")
  case True
  have "distinct (map fst (take n ds))" using assms(1) by (simp add: take_map [symmetric])
  from queued_nth [OF this, of i q] show ?thesis using True assms(2) by simp
next
  case False
  have "fst (ds ! i) \<notin> fst ` set (take n ds)"
  proof
    assume "fst (ds ! i) \<in> fst ` set (take n ds)"
    then obtain j where "j < n" "j < length ds" "fst (ds ! j) = fst (ds ! i)"
      by (auto simp: in_set_conv_nth)
    with assms False show False by (auto simp: distinct_conv_nth)
  qed
  then show ?thesis using False by (simp add: queued_absent)
qed

lemma queued_add:
  "distinct (map fst ds) \<Longrightarrow>
   queued q w (add_dirty u up down n ds) =
     queued q w ds + (if w = u then amount q \<lparr>di_up = up, di_down = down, di_conns = n\<rparr> else 0)"
  by (cases q) (auto simp: add_dirty_def queued_upsert queued_map_of Let_def split: option.splits)

lemma distinct_add_dirty: "distinct (map fst ds) \<Longrightarrow> distinct (map fst (add_dirty u up down n ds))"
  by (simp add: add_dirty_def distinct_upsert Let_def)

lemma requeue_queued:
  "distinct (map fst ds) \<Longrightarrow> queued q w (requeue entries ds) = queued q w ds + queued q w entries \<and>
     distinct (map fst (requeue entries ds))"
proof (induction entries arbitrary: ds)
  case (Cons e es)
  obtain u v where e: "e = (u, v)" by (cases e)
  let ?ds = "add_dirty u (di_up v) (di_down v) (di_conns v) ds"
  from Cons.IH [OF distinct_add_dirty [OF Cons.prems]] Cons.prems
  show ?case
    using queued_add [OF Cons.prems, of q w u "di_up v" "di_down v" "di_conns v"]
    by (simp add: e requeue_def)
qed (simp add: requeue_def)

lemma requeue_empty [simp]:
  "queued q w (requeue es []) = queued q w es" "queued_bytes w (requeue es []) = queued_bytes w es"
  "distinct (map fst (requeue es []))"
  using requeue_queued [of "[]" _ w es] by (simp_all add: queued_bytes_def)

lemma recorded_add_usage_daily:
  "recorded q w (add_usage_daily day u v d) = recorded q w d + (if u = w then amount q v else 0)"
proof -
  have "sum_list (map (\<lambda>r. if us_username r = w then row_amount q r else 0) (upsert_usage day u v us)) =
      sum_list (map (\<lambda>r. if us_username r = w then row_amount q r else 0) us) + (if u = w then amount q v else 0)" for us
    by (induction us) (cases q; auto)+
  then show ?thesis by (simp add: recorded_def add_usage_daily_def)
qed

lemma counters_add_usage_user: "counters_grew (\<lambda>w. if w = u then n else 0) d (add_usage_user u n d)"
  by (auto simp: counters_grew_def add_usage_user_def list_all2_conv_all_nth)

text \<open>
  The statements of the entries \<open>es\<close> move exactly the amounts of \<open>es\<close> to the usage rows and to the counters of
  each user, and to nobody else's.
\<close>

definition booked :: "(string \<times> dirty) list \<Rightarrow> db \<Rightarrow> db \<Rightarrow> bool" where
  "booked es d d' \<longleftrightarrow>
     (\<forall>q u. recorded q u d' = recorded q u d + queued q u es) \<and> counters_grew (\<lambda>u. queued_bytes u es) d d'"

lemma booked_refl: "booked [] d d"
  by (simp add: booked_def counters_grew_refl)

lemma booked_trans: "booked xs d d1 \<Longrightarrow> booked ys d1 d2 \<Longrightarrow> booked (xs @ ys) d d2"
  using counters_grew_trans [of "\<lambda>u. queued_bytes u xs" d d1 "\<lambda>u. queued_bytes u ys" d2]
  by (simp add: booked_def)

lemma booked_entry:
  "booked [e] d (add_usage_daily day (fst e) (snd e) (add_usage_user (fst e) (di_up (snd e) + di_down (snd e)) d))"
proof -
  let ?d = "add_usage_user (fst e) (di_up (snd e) + di_down (snd e)) d"
  have "counters_grew (\<lambda>u. queued_bytes u [e]) d ?d"
    using counters_add_usage_user [of "fst e" "di_up (snd e) + di_down (snd e)" d]
    by (simp add: counters_grew_def eq_commute)
  moreover have "recorded q u ?d = recorded q u d" for q u by (simp add: recorded_def add_usage_user_def)
  ultimately show ?thesis
    by (simp add: booked_def recorded_add_usage_daily) (simp add: counters_grew_def add_usage_daily_def)
qed

lemma run_entries: "\<exists>d'. run_stmts (concat (map (entry_stmts day) es)) d = Inr d' \<and> booked es d d'"
proof (induction es arbitrary: d)
  case (Cons e es)
  let ?d = "add_usage_daily day (fst e) (snd e) (add_usage_user (fst e) (di_up (snd e) + di_down (snd e)) d)"
  obtain d' where d': "run_stmts (concat (map (entry_stmts day) es)) ?d = Inr d'" "booked es ?d d'"
    using Cons.IH by blast
  have "run_stmts (concat (map (entry_stmts day) (e # es))) d = Inr d'"
    using d'(1) by (simp add: entry_stmts_def ok_stmt_def)
  with booked_trans [OF booked_entry d'(2)] show ?case by auto
qed (simp add: booked_refl)

text \<open>Batches of 100 statements are the statements of 50 users each.\<close>

lemma chunks_pairs:
  assumes "\<And>x. length (f x) = 2"
  shows "chunks 100 (concat (map f xs)) = map (\<lambda>c. concat (map f c)) (chunks 50 xs)"
proof (induction "50 :: nat" xs rule: chunks.induct)
  case (1 xs)
  have td: "take (2 * n) (concat (map f ys)) = concat (map f (take n ys)) \<and>
      drop (2 * n) (concat (map f ys)) = concat (map f (drop n ys))" for n ys
  proof (induction ys arbitrary: n)
    case (Cons y ys)
    then show ?case using assms [of y] by (cases n) auto
  qed simp
  show ?case
  proof (cases "xs = []")
    case False
    then have "length (concat (map f xs)) \<noteq> 0" using assms by (cases xs) simp_all
    then have "concat (map f xs) \<noteq> []" by simp
    then show ?thesis
      using 1 False td [of 50 xs] by (subst (1 2) chunks.simps) simp
  qed simp
qed

lemma flush_batches_spec:
  "flush_batches fails i (map (\<lambda>c. concat (map (entry_stmts day) c)) cs) d = (committed, d') \<Longrightarrow>
     \<exists>k. k \<le> length cs \<and> (committed \<longleftrightarrow> k = length cs) \<and> (\<forall>j<k. \<not> fails (i + j)) \<and> (k < length cs \<longrightarrow> fails (i + k)) \<and>
       booked (concat (take k cs)) d d'"
proof (induction cs arbitrary: i d)
  case Nil
  then show ?case by (simp add: booked_refl)
next
  case (Cons c cs)
  show ?case
  proof (cases "fails i")
    case True
    with Cons.prems show ?thesis by (intro exI [of _ 0]) (simp add: booked_refl)
  next
    case False
    obtain d1 where d1: "run_stmts (concat (map (entry_stmts day) c)) d = Inr d1" "booked c d d1"
      using run_entries by blast
    with Cons.prems False have "flush_batches fails (Suc i) (map (\<lambda>c. concat (map (entry_stmts day) c)) cs) d1 = (committed, d')"
      by (simp add: d1_batch_def)
    from Cons.IH [OF this] obtain k where k: "k \<le> length cs" "committed \<longleftrightarrow> k = length cs"
      "\<forall>j<k. \<not> fails (Suc i + j)" "k < length cs \<longrightarrow> fails (Suc i + k)"
      "booked (concat (take k cs)) d1 d'" by blast
    have "\<forall>j<Suc k. \<not> fails (i + j)" using k(3) False by (auto simp: less_Suc_eq_0_disj)
    with k booked_trans [OF d1(2) k(5)] show ?thesis by (intro exI [of _ "Suc k"]) auto
  qed
qed

text \<open>
  What one flush does, with \<open>k\<close> the number of batches D1 committed: exactly the entries of those batches are
  booked, and when a later batch is refused every entry, the booked ones included, is queued again.
\<close>

lemma flush_accounts:
  "\<exists>k. (\<forall>j<k. \<not> fails j) \<and> k \<le> length (chunks 50 (lg_dirty (fst s))) \<and>
    (k < length (chunks 50 (lg_dirty (fst s))) \<longrightarrow> fails k) \<and>
    booked (concat (take k (chunks 50 (lg_dirty (fst s))))) (snd s) (snd (flush True fails now s)) \<and>
    lg_dirty (fst (flush True fails now s)) =
      (if k = length (chunks 50 (lg_dirty (fst s))) then [] else requeue (lg_dirty (fst s)) [])"
proof (cases "lg_dirty (fst s) = []")
  case True
  then show ?thesis by (intro exI [of _ 0]) (simp add: flush_def booked_refl)
next
  case False
  let ?es = "lg_dirty (fst s)"
  let ?cs = "chunks 50 ?es"
  obtain committed d' where fb: "flush_batches fails 0 (chunks 100 (concat (map (entry_stmts (iso_day now)) ?es))) (snd s) = (committed, d')"
    by fastforce
  have "chunks 100 (concat (map (entry_stmts (iso_day now)) ?es)) =
      map (\<lambda>c. concat (map (entry_stmts (iso_day now)) c)) ?cs"
    by (rule chunks_pairs) (simp add: entry_stmts_def)
  then obtain k where k: "k \<le> length ?cs" "committed \<longleftrightarrow> k = length ?cs" "\<forall>j<k. \<not> fails j" "k < length ?cs \<longrightarrow> fails k"
    "booked (concat (take k ?cs)) (snd s) d'"
    using flush_batches_spec [of fails 0 "iso_day now" ?cs "snd s" committed d'] fb by auto
  then show ?thesis
    using False fb by (intro exI [of _ k]) (auto simp: flush_def Let_def)
qed

lemma flush_distinct:
  assumes "distinct (map fst (lg_dirty (fst s)))"
  shows "distinct (map fst (lg_dirty (fst (flush True fails now s))))"
  using flush_accounts [of fails s now] by (auto split: if_splits)

subsection \<open>Every run keeps exact books, up to fifty users\<close>

fun reported :: "ledger_req \<Rightarrow> string \<Rightarrow> quantity \<Rightarrow> num" where
  "reported (LReport u up down dev) w q =
     (if w = u then amount q \<lparr>di_up = up, di_down = down, di_conns = 1\<rparr> else 0)"
| "reported r w q = 0"

fun concerns :: "string set \<Rightarrow> ledger_req \<Rightarrow> bool" where
  "concerns U (LReport u up down dev) = (u \<in> U)"
| "concerns U r = True"

text \<open>
  The life of the object from its creation over a database \<open>d0\<close>: requests about users of \<open>U\<close>, timer
  expirations and alarms in any order, with D1 refusing any batches. \<open>t\<close> is what has been reported so far, for
  each user and quantity.
\<close>

inductive ledger_run :: "string set \<Rightarrow> db \<Rightarrow> (string \<Rightarrow> quantity \<Rightarrow> num) \<Rightarrow> ledger \<times> db \<Rightarrow> bool" for U d0 where
  start: "ledger_run U d0 (\<lambda>u q. 0) (new_ledger, d0)"
| request: "ledger_run U d0 t s \<Longrightarrow> concerns U req \<Longrightarrow> Ledger_fetch True fails now req s = (r, s') \<Longrightarrow>
    ledger_run U d0 (\<lambda>u q. t u q + reported req u q) s'"
| timer: "ledger_run U d0 t (lg, d) \<Longrightarrow> ledger_run U d0 t (timer_fires lg, d)"
| alarm: "ledger_run U d0 t s \<Longrightarrow> ledger_run U d0 t (ledger_alarm True fails now s)"

inductive_cases ledger_run_elim: "ledger_run U d0 t s"

definition ledger_wf :: "string set \<Rightarrow> ledger \<times> db \<Rightarrow> bool" where
  "ledger_wf U s \<longleftrightarrow> distinct (map fst (lg_dirty (fst s))) \<and> fst ` set (lg_dirty (fst s)) \<subseteq> U"

text \<open>
  The books agree with the reports \<open>t\<close>: for each user, the rows of \<open>usage_daily\<close> and the queue together hold what
  they held at the start plus what was reported, and so does the byte counter of each row of \<open>users\<close>.
\<close>

definition books_agree :: "db \<Rightarrow> (string \<Rightarrow> quantity \<Rightarrow> num) \<Rightarrow> ledger \<times> db \<Rightarrow> bool" where
  "books_agree d0 t s \<longleftrightarrow>
     (\<forall>u q. recorded q u (snd s) + queued q u (lg_dirty (fst s)) = recorded q u d0 + t u q) \<and>
     counters_grew (\<lambda>u. t u Up_bytes + t u Down_bytes - queued_bytes u (lg_dirty (fst s))) d0 (snd s)"

lemma wf_small:
  assumes "ledger_wf U s" "finite U" "card U \<le> 50"
  shows "length (lg_dirty (fst s)) \<le> 50"
proof -
  have "length (lg_dirty (fst s)) = card (fst ` set (lg_dirty (fst s)))"
    using assms(1) by (metis distinct_card length_map ledger_wf_def list.set_map)
  also have "\<dots> \<le> card U" using assms(1,2) by (intro card_mono) (auto simp: ledger_wf_def)
  finally show ?thesis using assms(3) by linarith
qed

lemma keys_add_dirty: "fst ` set (add_dirty u a b n ds) = insert u (fst ` set ds)"
  using keys_upsert [of u _ ds] by (simp add: add_dirty_def Let_def)

lemma keys_requeue: "fst ` set (requeue es ds) = fst ` set es \<union> fst ` set ds"
proof (induction es arbitrary: ds)
  case (Cons e es)
  then show ?case by (cases e) (auto simp: requeue_def keys_add_dirty)
qed (simp add: requeue_def)

lemma flush_wf: "ledger_wf U s \<Longrightarrow> ledger_wf U (flush True fails now s)"
  using flush_distinct [of s fails now]
  by (auto simp: flush_def Let_def ledger_wf_def keys_requeue split: prod.splits if_splits)

lemma flush_exact:
  assumes "length (lg_dirty (fst s)) \<le> 50" and "books_agree d0 t s"
  shows "books_agree d0 t (flush True fails now s)"
proof -
  let ?es = "lg_dirty (fst s)" and ?s = "flush True fails now s"
  have cs: "chunks 50 ?es = (if ?es = [] then [] else [?es])"
    using assms(1) by (simp add: chunks_small)
  obtain k where k: "k \<le> length (chunks 50 ?es)"
    "booked (concat (take k (chunks 50 ?es))) (snd s) (snd ?s)"
    "lg_dirty (fst ?s) = (if k = length (chunks 50 ?es) then [] else requeue ?es [])"
    using flush_accounts [of fails s now] by blast
  have "booked ?es (snd s) (snd ?s) \<and> lg_dirty (fst ?s) = [] \<or>
      booked [] (snd s) (snd ?s) \<and> lg_dirty (fst ?s) = requeue ?es []"
    using k cs by (cases "?es = []"; cases k) auto
  then show ?thesis
  proof
    assume b: "booked ?es (snd s) (snd ?s) \<and> lg_dirty (fst ?s) = []"
    have "counters_grew (\<lambda>u. t u Up_bytes + t u Down_bytes) d0 (snd ?s)"
      using counters_grew_trans [of _ d0 "snd s" "\<lambda>u. queued_bytes u ?es" "snd ?s"] assms(2) b
      by (fastforce simp: books_agree_def booked_def)
    with assms(2) b show ?thesis by (simp add: books_agree_def booked_def)
  next
    assume b: "booked [] (snd s) (snd ?s) \<and> lg_dirty (fst ?s) = requeue ?es []"
    then have "counters_grew (\<lambda>u. t u Up_bytes + t u Down_bytes - queued_bytes u ?es) d0 (snd ?s)"
      using counters_grew_trans [of _ d0 "snd s" "\<lambda>u. 0" "snd ?s"] assms(2)
      by (fastforce simp: books_agree_def booked_def)
    with assms(2) b show ?thesis by (simp add: books_agree_def booked_def)
  qed
qed

lemma touchDevice_dirty [simp]: "lg_dirty (touchDevice now u h lg) = lg_dirty lg"
  by (simp add: touchDevice_def Let_def)

lemma apply_report_dirty:
  "lg_dirty (apply_report now u up down dev lg) = add_dirty u up down 1 (lg_dirty lg)"
  by (simp add: apply_report_def Let_def split: option.splits)

lemma report_accounts:
  assumes "ledger_wf U (lg, d)" and "u \<in> U"
  shows "ledger_wf U (apply_report now u up down dev lg, d)"
  using assms by (auto simp: apply_report_dirty ledger_wf_def keys_add_dirty distinct_add_dirty)

lemma report_books:
  assumes "ledger_wf U (lg, d)" and "books_agree d0 t (lg, d)"
  shows "books_agree d0 (\<lambda>w q. t w q + reported (LReport u up down dev) w q) (apply_report now u up down dev lg, d)"
proof -
  have q: "queued q w (add_dirty u up down 1 (lg_dirty lg)) =
      queued q w (lg_dirty lg) + reported (LReport u up down dev) w q" for q w
    using assms(1) by (simp add: ledger_wf_def queued_add)
  have b: "queued_bytes w (add_dirty u up down 1 (lg_dirty lg)) = queued_bytes w (lg_dirty lg) +
      (reported (LReport u up down dev) w Up_bytes + reported (LReport u up down dev) w Down_bytes)" for w
    by (simp add: queued_bytes_def q)
  have grew: "counters_grew (\<lambda>w. t w Up_bytes + t w Down_bytes - queued_bytes w (lg_dirty lg)) d0 d"
    using assms(2) by (simp add: books_agree_def)
  have "(\<lambda>w. t w Up_bytes + reported (LReport u up down dev) w Up_bytes +
        (t w Down_bytes + reported (LReport u up down dev) w Down_bytes) -
        queued_bytes w (add_dirty u up down 1 (lg_dirty lg))) =
      (\<lambda>w. t w Up_bytes + t w Down_bytes - queued_bytes w (lg_dirty lg))"
    by (rule ext) (simp only: b algebra_simps)
  with grew assms(2) show ?thesis
    by (simp only: books_agree_def apply_report_dirty fst_conv snd_conv q) (simp add: add.assoc [symmetric])
qed

lemma scheduleFlush_exact:
  assumes "ledger_wf U s" "finite U" "card U \<le> 50" "books_agree d0 t s"
  shows "books_agree d0 t (scheduleFlush True fails now s) \<and> ledger_wf U (scheduleFlush True fails now s)"
proof (cases "lg_timer (fst s)")
  case False
  let ?s = "((fst s)\<lparr>lg_timer := True\<rparr>, snd s)"
  have wf: "ledger_wf U ?s" using assms(1) by (simp add: ledger_wf_def)
  have "books_agree d0 t ?s" using assms(4) by (simp add: books_agree_def)
  then show ?thesis
    using flush_exact [OF wf_small [OF wf assms(2,3)]] flush_wf [OF wf] False
    by (simp add: scheduleFlush_def)
qed (use assms in \<open>simp add: scheduleFlush_def\<close>)

lemma fetch_exact:
  assumes "ledger_wf U s" "finite U" "card U \<le> 50" "concerns U req" "Ledger_fetch True fails now req s = (r, s')"
    and "books_agree d0 t s"
  shows "books_agree d0 (\<lambda>u q. t u q + reported req u q) s' \<and> ledger_wf U s'"
proof (cases req)
  case (LReport u up down dev)
  let ?s = "(apply_report now u up down dev (fst s), snd s)"
  have "ledger_wf U ?s" "books_agree d0 (\<lambda>w q. t w q + reported req w q) ?s"
    using report_accounts [of U "fst s" "snd s" u] report_books [of U "fst s" "snd s" d0 t u up down dev now] assms(1,4,6) LReport
    by auto
  then show ?thesis
    using scheduleFlush_exact [of U ?s d0 _ fails now] assms(2,3,5) LReport by (auto simp: Let_def)
next
  case (LAdmit u h limit)
  then have "lg_dirty (fst s') = lg_dirty (fst s) \<and> snd s' = snd s"
    using assms(5) by (auto simp: Let_def split: if_splits)
  then show ?thesis using assms(1,6) LAdmit by (simp add: ledger_wf_def books_agree_def)
next
  case LFlush
  then show ?thesis using assms flush_exact [OF wf_small [OF assms(1-3)]] flush_wf [OF assms(1)] by auto
qed (use assms in auto)

lemma run_books:
  assumes "finite U" "card U \<le> 50"
  shows "ledger_run U d0 t s \<Longrightarrow> books_agree d0 t s \<and> ledger_wf U s"
proof (induction rule: ledger_run.induct)
  case start
  then show ?case by (simp add: books_agree_def new_ledger_def ledger_wf_def counters_grew_refl)
next
  case (request t s req fails now r s')
  then show ?case using fetch_exact [of U s req fails now r s'] assms by blast
next
  case (timer t lg d)
  then show ?case by (simp add: timer_fires_def books_agree_def ledger_wf_def)
next
  case (alarm t s fails now)
  then show ?case
    using flush_exact [of s d0 t fails now] wf_small [of U s] assms flush_wf by (simp add: ledger_alarm_def)
qed

text \<open>
  C11. For every user, the ledger loses and invents nothing while at most fifty users are active. In every run
  of the object (reports, admissions, peeks, forced flushes, timer expirations and alarms in any order, D1
  refusing any of the batches): the upload bytes, the download bytes and the connections in the user's own rows of
  \<open>usage_daily\<close>, plus those still queued under the user's name, are what the rows held at the start plus exactly
  what was reported for that user; and the byte counter of every row of \<open>users\<close> is its old value plus the bytes
  reported for the row's user name, less those still queued.
\<close>

theorem ledger_conserves_traffic:
  assumes "ledger_run U d0 t s" and "finite U" and "card U \<le> 50"
  shows "(\<forall>u q. recorded q u (snd s) + queued q u (lg_dirty (fst s)) = recorded q u d0 + t u q) \<and>
    list_all2 (\<lambda>r0 r. u_username r = u_username r0 \<and>
        u_used_bytes r + queued_bytes (u_username r) (lg_dirty (fst s)) =
          u_used_bytes r0 + (t (u_username r) Up_bytes + t (u_username r) Down_bytes))
      (db_users d0) (db_users (snd s))"
  using run_books [OF assms(2,3,1)]
  by (auto simp: books_agree_def counters_grew_def list_all2_conv_all_nth)

theorem ledger_conserves_traffic_witness:
  "\<exists>t s. ledger_run {''ann'', ''bob''} empty_db t s \<and>
     recorded Up_bytes ''ann'' (snd s) + queued Up_bytes ''ann'' (lg_dirty (fst s)) = 10 \<and>
     recorded Down_bytes ''ann'' (snd s) + queued Down_bytes ''ann'' (lg_dirty (fst s)) = 20 \<and>
     recorded Down_bytes ''bob'' (snd s) + queued Down_bytes ''bob'' (lg_dirty (fst s)) = 4"
proof -
  let ?U = "{''ann'', ''bob''}"
  let ?a = "LReport ''ann'' 10 20 (Some ''dev'')" and ?b = "LReport ''bob'' 3 4 None"
  obtain r s where s: "Ledger_fetch True (\<lambda>_. True) 7 ?a (new_ledger, empty_db) = (r, s)"
    by (rule prod.exhaust)
  have run: "ledger_run ?U empty_db (\<lambda>u q. 0 + reported ?a u q) s"
    by (rule request [OF start _ s]) simp
  obtain r' s' where s': "Ledger_fetch True (\<lambda>_. False) 9 ?b s = (r', s')"
    by (rule prod.exhaust)
  have run': "ledger_run ?U empty_db (\<lambda>u q. 0 + reported ?a u q + reported ?b u q) s'"
    by (rule request [OF run _ s']) simp
  show ?thesis
    using ledger_conserves_traffic [OF run'] run'
    by (intro exI conjI) (auto simp: recorded_def empty_db_def)
qed

text \<open>
  C16. With more than fifty users waiting, a flush whose first batch commits and whose second is refused books the
  first fifty users and queues every entry again, theirs included; when the alarm flushes again and D1 accepts
  everything, each of the first fifty users has been charged twice for the same traffic and every other user once, in
  \<open>usage_daily\<close> and in the byte counter of \<open>users\<close>.
\<close>

theorem flush_double_counts:
  assumes "distinct (map fst (lg_dirty lg))" and "50 < length (lg_dirty lg)" and "\<not> fails 0" and "fails 1"
    and "s1 = flush True fails t1 (lg, d)" and "s2 = ledger_alarm True (\<lambda>_. False) t2 s1"
    and "i < length (lg_dirty lg)" and "lg_dirty lg ! i = (u, v)"
  shows "recorded q u (snd s1) = recorded q u d + (if i < 50 then amount q v else 0) \<and>
    queued q u (lg_dirty (fst s1)) = amount q v \<and>
    lg_dirty (fst s2) = [] \<and>
    recorded q u (snd s2) = recorded q u d + (if i < 50 then 2 else 1) * amount q v \<and>
    list_all2 (\<lambda>r r'. u_username r' = u_username r \<and>
        (u_username r = u \<longrightarrow> u_used_bytes r' = u_used_bytes r + (if i < 50 then 2 else 1) * (di_up v + di_down v)))
      (db_users d) (db_users (snd s2))"
proof -
  let ?es = "lg_dirty lg" and ?cs = "chunks 50 (lg_dirty lg)"
  have cs: "?cs = take 50 ?es # chunks 50 (drop 50 ?es)"
    using assms(2) by (subst chunks.simps) auto
  have two: "1 < length ?cs" using assms(2) by (subst cs) (subst chunks.simps; simp)
  obtain k where k: "\<forall>j<k. \<not> fails j" "k < length ?cs \<longrightarrow> fails k" "booked (concat (take k ?cs)) d (snd s1)"
    "lg_dirty (fst s1) = (if k = length ?cs then [] else requeue ?es [])"
    using flush_accounts [of fails "(lg, d)" t1] assms(5) by auto
  have "k \<le> 1" using k(1) assms(4) by (meson not_le_imp_less)
  moreover have "k \<noteq> 0" using k(2) two assms(3) by (cases k) auto
  ultimately have "k = 1" by linarith
  then have first: "booked (take 50 ?es) d (snd s1)" "lg_dirty (fst s1) = requeue ?es []"
    using k(3,4) two by (subst (asm) cs; simp)+
  have second: "booked (requeue ?es []) (snd s1) (snd s2)" "lg_dirty (fst s2) = []"
    using flush_accounts [of "\<lambda>_. False" s1 t2] first(2)
    by (auto simp: assms(6) ledger_alarm_def concat_chunks)
  have q: "queued q' u ?es = amount q' v" "queued q' u (take 50 ?es) = (if i < 50 then amount q' v else 0)" for q'
    using queued_nth [OF assms(1,7)] queued_take_nth [OF assms(1,7)] assms(8) by simp_all
  have "counters_grew (\<lambda>w. queued_bytes w (take 50 ?es) + queued_bytes w ?es) d (snd s2)"
    using counters_grew_trans first(1) second(1) by (fastforce simp: booked_def)
  moreover have "queued_bytes u (take 50 ?es) + queued_bytes u ?es = (if i < 50 then 2 else 1) * (di_up v + di_down v)"
    using q [of Up_bytes] q [of Down_bytes] by (simp add: queued_bytes_def)
  ultimately have "list_all2 (\<lambda>r r'. u_username r' = u_username r \<and>
        (u_username r = u \<longrightarrow> u_used_bytes r' = u_used_bytes r + (if i < 50 then 2 else 1) * (di_up v + di_down v)))
      (db_users d) (db_users (snd s2))"
    by (auto simp: counters_grew_def elim!: list_all2_mono)
  then show ?thesis using first second q [of q] by (simp add: booked_def)
qed

definition fifty_one :: "(string \<times> dirty) list" where
  "fifty_one = map (\<lambda>i. (replicate i CHR ''u'', \<lparr>di_up = 10, di_down = 0, di_conns = 1\<rparr>)) [0..<51]"

theorem flush_double_counts_witness:
  "recorded Up_bytes ''u'' (snd (ledger_alarm True (\<lambda>_. False) 9
     (flush True (\<lambda>i. i = 1) 7 (new_ledger\<lparr>lg_dirty := fifty_one\<rparr>, empty_db)))) = 20"
proof -
  have "distinct (map fst fifty_one)"
    by (auto simp: fifty_one_def distinct_map inj_on_def comp_def dest: arg_cong [of _ _ length])
  moreover have "length fifty_one = 51" by (simp add: fifty_one_def)
  moreover have "fifty_one ! 1 = (''u'', \<lparr>di_up = 10, di_down = 0, di_conns = 1\<rparr>)" by (simp add: fifty_one_def)
  ultimately show ?thesis
    using flush_double_counts [of "new_ledger\<lparr>lg_dirty := fifty_one\<rparr>" "\<lambda>i. i = 1" _ 7 empty_db _ 9 1 "''u''" _ Up_bytes]
    by (simp add: recorded_def empty_db_def)
qed

subsection \<open>Device limit\<close>

definition devices_of :: "string \<Rightarrow> ledger \<Rightarrow> (string \<times> num) list" where
  "devices_of u lg = (case map_of (lg_devices lg) u of Some m \<Rightarrow> m | None \<Rightarrow> [])"

lemma devices_of_touch:
  "devices_of u (touchDevice now user h lg) =
     (if u = user then filter (\<lambda>(k, v). \<not> 300000 < now - v) (upsert h now (devices_of user lg)) else devices_of u lg)"
  by (simp add: devices_of_def touchDevice_def Let_def map_of_upsert)

text \<open>
  Device-limit admission: with a limit set, a device of a user is admitted exactly when the number of
  different devices of that user seen in the last five minutes, itself included, is within the limit; devices
  of other users are not touched and nothing is written to D1.
\<close>

theorem admit_counts_recent_devices:
  assumes "distinct (map fst (devices_of u (fst s)))" and "limit \<noteq> 0"
  shows "\<exists>n lg'. Ledger_fetch bound fails now (LAdmit u h limit) s = (LAdmitted (of_nat n \<le> limit) n (Some limit), (lg', snd s)) \<and>
    n = card (insert h {k. \<exists>t. (k, t) \<in> set (devices_of u (fst s)) \<and> now - t \<le> 300000}) \<and>
    (\<forall>u'. u' \<noteq> u \<longrightarrow> devices_of u' lg' = devices_of u' (fst s))"
proof -
  let ?m = "devices_of u (fst s)"
  let ?lg = "touchDevice now u h (fst s)"
  let ?f = "filter (\<lambda>(k, v). \<not> 300000 < now - v) (upsert h now ?m)"
  have dc: "device_count u ?lg = length ?f"
    using devices_of_touch [of u now u h "fst s"] by (auto simp: device_count_def devices_of_def split: option.splits)
  have dist: "distinct (map fst (upsert h now ?m))" using assms(1) by (rule distinct_upsert)
  have mem: "(k, t) \<in> set (upsert h now ?m) \<longleftrightarrow> map_of (upsert h now ?m) k = Some t" for k t
    using dist by simp
  have "fst ` set ?f = insert h {k. \<exists>t. (k, t) \<in> set ?m \<and> now - t \<le> 300000}"
  proof (intro set_eqI)
    fix k
    have "k \<in> fst ` set ?f \<longleftrightarrow> (\<exists>t. (k, t) \<in> set (upsert h now ?m) \<and> \<not> 300000 < now - t)" by force
    also have "\<dots> \<longleftrightarrow> (\<exists>t. map_of (upsert h now ?m) k = Some t \<and> \<not> 300000 < now - t)" by (simp only: mem)
    also have "\<dots> \<longleftrightarrow> k = h \<or> (\<exists>t. map_of ?m k = Some t \<and> \<not> 300000 < now - t)"
      by (cases "k = h") (simp_all add: map_of_upsert)
    also have "\<dots> \<longleftrightarrow> k \<in> insert h {k. \<exists>t. (k, t) \<in> set ?m \<and> now - t \<le> 300000}"
      using assms(1) by (simp add: not_less)
    finally show "k \<in> fst ` set ?f \<longleftrightarrow> k \<in> insert h {k. \<exists>t. (k, t) \<in> set ?m \<and> now - t \<le> 300000}" .
  qed
  moreover have "length ?f = card (fst ` set ?f)"
  proof -
    have "distinct (map fst ?f)" using dist by (rule distinct_map_filter)
    from distinct_card [OF this] show ?thesis by (simp only: set_map length_map)
  qed
  ultimately show ?thesis
    using dc assms(2) devices_of_touch
    by (intro exI [of _ "device_count u ?lg"] exI [of _ ?lg]) (auto simp: Let_def)
qed

theorem admit_counts_recent_devices_witness:
  "fst (Ledger_fetch True (\<lambda>_. False) 9 (LAdmit ''ann'' ''phone'' 1) (new_ledger, empty_db)) = LAdmitted True 1 (Some 1)"
  using admit_counts_recent_devices [of "''ann''" "(new_ledger, empty_db)" 1 True "\<lambda>_. False" 9 "''phone''"]
  by (auto simp: new_ledger_def devices_of_def)

lemma device_count_devices_of: "device_count u lg = length (devices_of u lg)"
  by (auto simp: device_count_def devices_of_def split: option.splits)

text \<open>
  A refused device keeps its place: \<open>admit\<close> records the device before it compares with the limit. With a limit
  of one, a device that is refused at \<open>t1\<close> makes the device admitted at \<open>t0\<close> be refused at \<open>t2\<close> too, as long as the
  refused attempt is less than five minutes old, although only one device was ever let in.
\<close>

theorem refused_device_locks_out:
  assumes "devices_of u (fst s) = []" and "a \<noteq> b" and "t0 \<le> t1" and "t1 - t0 \<le> 300000" and "t1 \<le> t2" and "t2 - t1 \<le> 300000"
  shows "\<exists>s1 s2 s3. Ledger_fetch bound fails t0 (LAdmit u a 1) s = (LAdmitted True 1 (Some 1), s1) \<and>
    Ledger_fetch bound fails t1 (LAdmit u b 1) s1 = (LAdmitted False 2 (Some 1), s2) \<and>
    Ledger_fetch bound fails t2 (LAdmit u a 1) s2 = (LAdmitted False 2 (Some 1), s3)"
proof -
  let ?l1 = "touchDevice t0 u a (fst s)"
  let ?l2 = "touchDevice t1 u b ?l1"
  let ?l3 = "touchDevice t2 u a ?l2"
  have d1: "devices_of u ?l1 = [(a, t0)]" using assms by (simp add: devices_of_touch)
  have d2: "devices_of u ?l2 = [(a, t0), (b, t1)]" using assms d1 by (simp add: devices_of_touch not_less)
  have d3: "devices_of u ?l3 = [(a, t2), (b, t1)]" using assms d2 by (simp add: devices_of_touch not_less)
  show ?thesis using d1 d2 d3 by (simp add: Let_def device_count_devices_of)
qed

theorem refused_device_locks_out_witness:
  "\<exists>s1 s2 s3. Ledger_fetch True (\<lambda>_. False) 0 (LAdmit ''ann'' ''phone'' 1) (new_ledger, empty_db) = (LAdmitted True 1 (Some 1), s1) \<and>
    Ledger_fetch True (\<lambda>_. False) 1000 (LAdmit ''ann'' ''tablet'' 1) s1 = (LAdmitted False 2 (Some 1), s2) \<and>
    Ledger_fetch True (\<lambda>_. False) 2000 (LAdmit ''ann'' ''phone'' 1) s2 = (LAdmitted False 2 (Some 1), s3)"
  using refused_device_locks_out [of "''ann''" "(new_ledger, empty_db)" "''phone''" "''tablet''" 0 1000 2000 True "\<lambda>_. False"]
  by (simp add: new_ledger_def devices_of_def)

end
