(* ===== verification/Vless.thy ===== *)
theory Vless
  imports Users Ledger
begin

text \<open>
  \<^verbatim>\<open>proxy/vless.js\<close>, \<^verbatim>\<open>proxy/udp.js\<close> and \<^verbatim>\<open>proxy/tunnel.js\<close>: the VLESS header codec, the admission of a WebSocket
  upgrade, the tunnel behind it, and the UDP framing. Byte strings are \<open>byte list\<close>; reading past the end
  of a buffer follows JavaScript (\<open>undefined\<close>, truncated slices, NaN offsets).
\<close>

subsection \<open>UUIDs\<close>

fun pairs_hex :: "nat \<Rightarrow> string \<Rightarrow> byte list" where
  "pairs_hex 0 h = []"
| "pairs_hex (Suc n) h = word_of_nat (hex_group (take 2 h)) # pairs_hex n (drop 2 h)"

definition uuidToBytes :: "string \<Rightarrow> byte list" where
  "uuidToBytes uuid = pairs_hex 16 (undash uuid)"

definition bytesToUuid :: "byte list \<Rightarrow> string" where
  "bytesToUuid bytes =
     (let h = hex_bytes bytes
      in take 8 h @ ''-'' @ take 4 (drop 8 h) @ ''-'' @ take 4 (drop 12 h) @ ''-'' @
         take 4 (drop 16 h) @ ''-'' @ drop 20 h)"

subsection \<open>The header\<close>

record vless_header =
  vh_version :: byte
  vh_uuid :: string
  vh_cmd :: byte
  vh_port :: nat
  vh_addressType :: byte
  vh_address :: string
  vh_payloadStart :: "nat option"

definition vh_isUDP :: "vless_header \<Rightarrow> bool" where
  "vh_isUDP h \<longleftrightarrow> vh_cmd h = 2"

definition byte_at :: "byte list \<Rightarrow> nat \<Rightarrow> byte option" where
  "byte_at buf i = (if i < length buf then Some (buf ! i) else None)"

definition slice :: "nat \<Rightarrow> nat \<Rightarrow> 'a list \<Rightarrow> 'a list" where
  "slice a b xs = take (b - a) (drop a xs)"

definition dotted :: "byte list \<Rightarrow> string" where
  "dotted bs = join_with ''.'' (map (\<lambda>b. show_nat (unat b)) bs)"

definition colon_groups :: "byte list \<Rightarrow> string" where
  "colon_groups bs = join_with '':'' (chunks 4 (hex_bytes bs))"

text \<open>
  \<open>payloadStart\<close> is \<open>None\<close> for NaN: a domain whose length byte is missing. A buffer that ends before the
  address type makes that byte \<open>undefined\<close>, an unknown address type.
\<close>

definition parseVlessHeader :: "platform \<Rightarrow> byte list \<Rightarrow> vless_header res" where
  "parseVlessHeader P buf =
     (if length buf < 18 then Inl (JsError ''vless header too short'')
      else if buf ! 0 \<noteq> 0 then Inl (JsError ''unsupported vless version'')
      else let uuid = bytesToUuid (slice 1 17 buf);
               offset = 18 + unat (buf ! 17);
               port = (case (byte_at buf (offset + 1), byte_at buf (offset + 2)) of
                         (Some a, Some b) \<Rightarrow> unat a * 256 + unat b
                       | (Some a, None) \<Rightarrow> unat a * 256
                       | (None, _) \<Rightarrow> 0);
               o4 = offset + 4 in
        case (byte_at buf offset, byte_at buf (offset + 3)) of
          (Some cmd, Some atyp) \<Rightarrow>
            if atyp = 1 then
              Inr \<lparr>vh_version = 0, vh_uuid = uuid, vh_cmd = cmd, vh_port = port, vh_addressType = 1,
                   vh_address = dotted (slice o4 (o4 + 4) buf), vh_payloadStart = Some (o4 + 4)\<rparr>
            else if atyp = 2 then
              (case byte_at buf o4 of
                 None \<Rightarrow> Inr \<lparr>vh_version = 0, vh_uuid = uuid, vh_cmd = cmd, vh_port = port, vh_addressType = 2,
                               vh_address = p_decode P [], vh_payloadStart = None\<rparr>
               | Some len \<Rightarrow>
                   Inr \<lparr>vh_version = 0, vh_uuid = uuid, vh_cmd = cmd, vh_port = port, vh_addressType = 2,
                        vh_address = p_decode P (slice (o4 + 1) (o4 + 1 + unat len) buf),
                        vh_payloadStart = Some (o4 + 1 + unat len)\<rparr>)
            else if atyp = 3 then
              Inr \<lparr>vh_version = 0, vh_uuid = uuid, vh_cmd = cmd, vh_port = port, vh_addressType = 3,
                   vh_address = colon_groups (slice o4 (o4 + 16) buf), vh_payloadStart = Some (o4 + 16)\<rparr>
            else Inl (JsError ''unknown address type'')
        | _ \<Rightarrow> Inl (JsError ''unknown address type''))"

definition buildVlessHeader :: "string \<Rightarrow> byte \<Rightarrow> nat \<Rightarrow> string \<Rightarrow> byte list" where
  "buildVlessHeader uuid cmd port address =
     [0] @ uuidToBytes uuid @ [0] @ [cmd] @ port_bytes port @
     (if isIpv4 address then [1] @ ipv4_bytes address
      else if isIpv6 address then [3] @ take 16 (ipv6_bytes address)
      else [2] @ [word_of_nat (length (utf8_encode address))] @ utf8_encode address)"

subsection \<open>Admission\<close>

definition is_hex :: "char \<Rightarrow> bool" where
  "is_hex c \<longleftrightarrow> hex_val c \<noteq> None"

definition uuid_shape :: "string \<Rightarrow> bool" where
  "uuid_shape s \<longleftrightarrow>
     (case split_on CHR ''-'' s of
        [a, b, c, d, e] \<Rightarrow> map length [a, b, c, d, e] = [8, 4, 4, 4, 12] \<and> list_all is_hex (a @ b @ c @ d @ e)
      | _ \<Rightarrow> False)"

definition bytes_text :: "byte list \<Rightarrow> string" where
  "bytes_text bs = map (\<lambda>b. char_of (unat b)) bs"

definition uuidFromRequest :: "request \<Rightarrow> string option" where
  "uuidFromRequest r =
     (let seg = (case filter (\<lambda>s. s \<noteq> []) (split_on CHR ''/'' (rq_path r)) of [] \<Rightarrow> [] | s # _ \<Rightarrow> s) in
      if uuid_shape seg then Some (to_lower seg)
      else case atob (map url_unsafe seg) of
        None \<Rightarrow> None
      | Some bs \<Rightarrow>
          let t = bytes_text bs
          in if length t = 36 \<and> list_all (\<lambda>c. is_hex c \<or> c = CHR ''-'') t then Some (to_lower t) else None)"

definition admit :: "num \<Rightarrow> user option \<Rightarrow> user res" where
  "admit now user =
     (case user of
        None \<Rightarrow> Inl forbidden
      | Some u \<Rightarrow>
          if \<not> h_is_active u then Inl forbidden
          else if (case u_expires_at u of None \<Rightarrow> False | Some t \<Rightarrow> t \<noteq> 0 \<and> t < now) then Inl forbidden
          else if num_le (h_quota_bytes u) (Fin (u_used_bytes u)) then Inl forbidden
          else if truthy (u_request_limit u) \<and> num_le (to_num (u_request_limit u)) (Fin (u_requests_used u)) then Inl forbidden
          else Inr u)"

definition header_text :: "request \<Rightarrow> string \<Rightarrow> string" where
  "header_text r k = (case header_of r k of None \<Rightarrow> ''null'' | Some v \<Rightarrow> v)"

definition device_hash :: "platform \<Rightarrow> request \<Rightarrow> string \<Rightarrow> string" where
  "device_hash P r uuid =
     hex_bytes (take 8 (p_sha256 P (utf8_encode
       (uuid @ ''|'' @ header_text r ''cf-connecting-ip'' @ ''|'' @ header_text r ''user-agent''))))"

definition plain_response :: "nat \<Rightarrow> string \<Rightarrow> (string \<times> string) list \<Rightarrow> response" where
  "plain_response status body hs = \<lparr>rs_status = status, rs_headers = hs, rs_body = Text body\<rparr>"

text \<open>
  The handler up to the upgrade. \<open>ledger_up\<close>: whether the call to the Ledger object succeeds (it fails open).
  A response with status 101 carries the user whose tunnel is opened.
\<close>

definition handleVlessWebSocket ::
  "platform \<Rightarrow> env \<Rightarrow> bool \<Rightarrow> num \<Rightarrow> request \<Rightarrow> ledger \<times> db \<Rightarrow> (response \<times> user option) \<times> (ledger \<times> db)" where
  "handleVlessWebSocket P E ledger_up now r s =
     (if to_lower (case header_of r ''upgrade'' of None \<Rightarrow> [] | Some v \<Rightarrow> v) \<noteq> ''websocket''
      then ((plain_response 426 ''Expected a WebSocket upgrade'' [(''upgrade'', ''websocket'')], None), s)
      else case uuidFromRequest r of
        None \<Rightarrow> ((plain_response 400 ''Bad Request'' [], None), s)
      | Some uuid \<Rightarrow>
          (case getUserByUuid now uuid (snd s) of
             None \<Rightarrow> ((plain_response 403 ''Forbidden'' [], None), s)
           | Some user \<Rightarrow>
               let accept = (\<lambda>s'. ((plain_response 101 [] [], Some user), s')) in
               if e_ledger E \<and> truthy (u_device_limit user) \<and> ledger_up then
                 (case Ledger_fetch True (\<lambda>_. False) now
                         (LAdmit (u_username user) (device_hash P r uuid) (fin_val (to_num (u_device_limit user)))) s of
                    (LAdmitted okd n lm, s') \<Rightarrow>
                      if \<not> okd then ((plain_response 429 ''Too Many Devices'' [], None), s') else accept s'
                  | (_, s') \<Rightarrow> accept s')
               else accept s))"

subsection \<open>Messages\<close>

datatype ws_data = WBuffer "byte list" | WView "byte list" nat nat | WText string | WBlob "byte list"

fun toBytes :: "ws_data \<Rightarrow> byte list" where
  "toBytes (WBuffer b) = b"
| "toBytes (WView b off len) = slice off (off + len) b"
| "toBytes (WText s) = utf8_encode s"
| "toBytes (WBlob b) = b"

definition safeB64ToBytes :: "string \<Rightarrow> byte list option" where
  "safeB64ToBytes s = atob (map url_unsafe s)"

definition strip_wild :: "string \<Rightarrow> string" where
  "strip_wild s = (if starts_with ''*.'' s then drop 2 s else s)"

definition matchesBlock :: "string \<Rightarrow> jval list \<Rightarrow> bool" where
  "matchesBlock address xs =
     (let a = to_lower address
      in list_ex (\<lambda>p. let d = strip_wild (to_lower (to_str p)) in a = d \<or> ends_with (''.'' @ d) a) xs)"

definition pickProxy :: "num \<Rightarrow> user \<Rightarrow> jval option" where
  "pickProxy rnd user =
     (let xs = arr_items (h_proxies user)
      in if xs = [] then None else Some (xs ! nat \<lfloor>rnd * of_nat (length xs)\<rfloor>))"

text \<open>The stream that feeds the tunnel from WebSocket events.\<close>

record ws_stream =
  wss_closed :: bool
  wss_queue :: "byte list list"
  wss_ended :: bool
  wss_errored :: bool

datatype ws_event = WsMessage ws_data | WsClose | WsError | WsCancel

definition makeReadableWebSocketStream :: "byte list option \<Rightarrow> ws_stream" where
  "makeReadableWebSocketStream firstChunk =
     \<lparr>wss_closed = False, wss_queue = (case firstChunk of None \<Rightarrow> [] | Some c \<Rightarrow> [c]),
      wss_ended = False, wss_errored = False\<rparr>"

fun ws_stream_event :: "ws_event \<Rightarrow> ws_stream \<Rightarrow> ws_stream" where
  "ws_stream_event (WsMessage d) s = (if wss_closed s then s else s\<lparr>wss_queue := wss_queue s @ [toBytes d]\<rparr>)"
| "ws_stream_event WsClose s = (if wss_closed s then s else s\<lparr>wss_closed := True, wss_ended := True\<rparr>)"
| "ws_stream_event WsError s = (if wss_closed s then s else s\<lparr>wss_closed := True, wss_errored := True\<rparr>)"
| "ws_stream_event WsCancel s = s\<lparr>wss_closed := True\<rparr>"

subsection \<open>UUID and address texts\<close>

lemma hex_pair_value: "hex_group [hex_digit (unat b div 16), hex_digit (unat b mod 16)] = unat (b :: byte)"
  using byte_div16_lt [of b] by (simp add: hex_group_def hex_val_hex_digit)

lemma pairs_hex_hex_bytes: "pairs_hex (length bs) (hex_bytes bs @ t) = bs"
  by (induction bs) (simp_all add: hex_bytes_Cons hex_pair_value)

lemma hex_digit_plain: "d < 16 \<Longrightarrow> hex_digit d \<notin> {CHR ''-'', CHR '':'', CHR ''.''} \<and> hex_val (hex_digit d) \<noteq> None"
  using hex_val_hex_digit [of d] by (auto simp: hex_val_def)

lemma hex_bytes_plain: "c \<in> set (hex_bytes bs) \<Longrightarrow> c \<notin> {CHR ''-'', CHR '':'', CHR ''.''} \<and> hex_val c \<noteq> None"
proof (induction bs)
  case (Cons b bs)
  then show ?case
    using hex_digit_plain [OF byte_div16_lt [of b]] hex_digit_plain [of "unat b mod 16"]
    by (auto simp: hex_bytes_Cons)
qed simp

lemma undash_append: "undash (a @ b) = undash a @ undash b"
  by (simp add: undash_def)

lemma undash_plain: "CHR ''-'' \<notin> set s \<Longrightarrow> undash s = s"
  by (auto simp: undash_def filter_id_conv)

lemma take_drop_join: "take b (drop a xs) @ drop (a + b) xs = drop a xs"
  by (metis add.commute append_take_drop_id drop_drop)

lemma undash_bytesToUuid: "undash (bytesToUuid bs) = hex_bytes bs"
proof -
  let ?h = "hex_bytes bs"
  have p: "\<And>i j. undash (take i (drop j ?h)) = take i (drop j ?h)" "\<And>i. undash (take i ?h) = take i ?h"
    "\<And>i. undash (drop i ?h) = drop i ?h"
    using hex_bytes_plain [of _ bs] by (auto intro!: undash_plain dest!: in_set_takeD in_set_dropD)
  have d: "undash ''-'' = []" by (simp add: undash_def)
  have "take 8 ?h @ take 4 (drop 8 ?h) @ take 4 (drop 12 ?h) @ take 4 (drop 16 ?h) @ drop 20 ?h = ?h"
    using take_drop_join [of 4 16 ?h] take_drop_join [of 4 12 ?h] take_drop_join [of 4 8 ?h] by simp
  then show ?thesis
    unfolding bytesToUuid_def Let_def undash_append p d by simp
qed

lemma uuidToBytes_bytesToUuid: "length bs = 16 \<Longrightarrow> uuidToBytes (bytesToUuid bs) = bs"
  using pairs_hex_hex_bytes [of bs "[]"] by (simp add: uuidToBytes_def undash_bytesToUuid)

lemma length_uuidToBytes [simp]: "length (uuidToBytes u) = 16"
proof -
  have "length (pairs_hex n h) = n" for n h by (induction n arbitrary: h) auto
  then show ?thesis by (simp add: uuidToBytes_def)
qed

lemma length_show_nat_3: "n < 1000 \<Longrightarrow> length (show_nat n) \<le> 3"
  by (simp add: show_nat.simps [of n] show_nat.simps [of "n div 10"] show_nat.simps [of "n div 10 div 10"])

lemma show_nat_no_dot: "CHR ''.'' \<notin> set (show_nat n)"
  using show_nat_digits [of n] by (auto simp: list_all_iff is_digit_def)

lemma split_dotted: "bs \<noteq> [] \<Longrightarrow> split_on CHR ''.'' (dotted bs) = map (\<lambda>b. show_nat (unat b)) bs"
  unfolding dotted_def by (rule split_on_join) (auto simp: show_nat_no_dot)

lemma isIpv4_dotted: "isIpv4 (dotted [a, b, c, d])"
proof -
  have "length (show_nat (unat (x :: byte))) \<le> 3" for x
    using unat_byte_lt [of x] by (intro length_show_nat_3) simp
  moreover have "Suc 0 \<le> length (show_nat n)" for n
    using show_nat_not_Nil [of n] by (cases "show_nat n") auto
  ultimately show ?thesis by (simp add: isIpv4_def split_dotted show_nat_digits)
qed

lemma ipv4_bytes_dotted: "bs \<noteq> [] \<Longrightarrow> ipv4_bytes (dotted bs) = bs"
  by (simp add: ipv4_bytes_def split_dotted nat_of_digits_show_nat comp_def)

lemma group_bytes_hex: "group_bytes (hex_bytes [a, b]) = [a, b]"
proof -
  have d: "unat x div 16 < 16" for x :: byte by (rule byte_div16_lt)
  have "hex_group (hex_bytes [a, b]) = unat a * 256 + unat b"
    by (simp add: hex_bytes_Cons hex_group_def hex_val_hex_digit d)
  moreover have "unat a < 256" "unat b < 256" by (rule unat_byte_lt)+
  ultimately show ?thesis by (simp add: group_bytes_def)
qed

lemma chunks4_hex: "chunks 4 (hex_bytes (a # b # bs)) = hex_bytes [a, b] # chunks 4 (hex_bytes bs)"
  by (subst chunks.simps) (simp add: hex_bytes_Cons)

lemma groups_of_hex: "even (length bs) \<Longrightarrow> concat (map group_bytes (chunks 4 (hex_bytes bs))) = bs"
proof (induction bs rule: induct_list012)
  case (3 a b bs)
  then show ?case by (simp add: chunks4_hex group_bytes_hex)
qed auto

lemma chunks_not_Nil: "xs \<noteq> [] \<Longrightarrow> 0 < n \<Longrightarrow> chunks n xs \<noteq> []"
  by (subst chunks.simps) simp

lemma chunks_of_plain: "c \<notin> set xs \<Longrightarrow> \<forall>x\<in>set (chunks 4 xs). c \<notin> set x"
  using concat_chunks [of 4 xs] by (metis UN_I set_concat zero_less_numeral)

lemma join_no_char: "c \<notin> set sep \<Longrightarrow> \<forall>x\<in>set xs. c \<notin> set x \<Longrightarrow> c \<notin> set (join_with sep xs)"
  by (induction xs rule: induct_list012) auto

lemma hex_bytes_no_sep: "CHR '':'' \<notin> set (hex_bytes bs)" "CHR ''.'' \<notin> set (hex_bytes bs)"
  using hex_bytes_plain [of _ bs] by blast+

lemma split_colon_groups: "bs \<noteq> [] \<Longrightarrow> split_on CHR '':'' (colon_groups bs) = chunks 4 (hex_bytes bs)"
proof -
  assume "bs \<noteq> []"
  then have "hex_bytes bs \<noteq> []" by (cases bs) (auto simp: hex_bytes_Cons)
  then show ?thesis
    unfolding colon_groups_def by (intro split_on_join chunks_of_plain hex_bytes_no_sep chunks_not_Nil) simp_all
qed

lemma ipv6_bytes_colon: "length bs = 16 \<Longrightarrow> ipv6_bytes (colon_groups bs) = bs"
proof -
  assume l: "length bs = 16"
  then have "bs \<noteq> []" by auto
  then show ?thesis using l by (simp add: ipv6_bytes_def split_colon_groups groups_of_hex)
qed

lemma colon_groups_address: "length bs = 16 \<Longrightarrow> isIpv6 (colon_groups bs) \<and> \<not> isIpv4 (colon_groups bs)"
proof -
  assume l: "length bs = 16"
  then obtain a b c d r where bs: "bs = a # b # c # d # r" by (auto simp: numeral_eq_Suc length_Suc_conv)
  have e: "colon_groups bs = hex_bytes [a, b] @ '':'' @ join_with '':'' (chunks 4 (hex_bytes (c # d # r)))"
    by (simp add: bs colon_groups_def chunks4_hex)
  have "CHR ''.'' \<notin> set (colon_groups bs)"
    unfolding colon_groups_def by (intro join_no_char chunks_of_plain hex_bytes_no_sep) simp
  then have "\<not> isIpv4 (colon_groups bs)" by (simp add: isIpv4_def split_on_no_sep)
  moreover have "isIpv6 (colon_groups bs)" unfolding isIpv6_def includes_iff e by blast
  ultimately show ?thesis by blast
qed

subsection \<open>The wire format\<close>

text \<open>A destination, its text form, and the bytes the protocol prescribes for it.\<close>

datatype dest = D4 byte byte byte byte | D6 "byte list" | DDom string

fun dest_text :: "dest \<Rightarrow> string" where
  "dest_text (D4 a b c d) = dotted [a, b, c, d]"
| "dest_text (D6 bs) = colon_groups bs"
| "dest_text (DDom s) = s"

fun dest_wire :: "dest \<Rightarrow> byte list" where
  "dest_wire (D4 a b c d) = [1, a, b, c, d]"
| "dest_wire (D6 bs) = 3 # bs"
| "dest_wire (DDom s) = 2 # word_of_nat (length (utf8_encode s)) # utf8_encode s"

fun dest_ok :: "dest \<Rightarrow> bool" where
  "dest_ok (D4 a b c d) \<longleftrightarrow> True"
| "dest_ok (D6 bs) \<longleftrightarrow> length bs = 16"
| "dest_ok (DDom s) \<longleftrightarrow> \<not> isIpv4 s \<and> \<not> isIpv6 s \<and> length (utf8_encode s) < 256"

definition vless_wire :: "byte list \<Rightarrow> byte list \<Rightarrow> byte \<Rightarrow> nat \<Rightarrow> dest \<Rightarrow> byte list" where
  "vless_wire ub addons cmd port d =
     0 # ub @ word_of_nat (length addons) # addons @ cmd # port_bytes port @ dest_wire d"

lemma buildVlessHeader_wire:
  "length ub = 16 \<Longrightarrow> dest_ok d \<Longrightarrow> buildVlessHeader (bytesToUuid ub) cmd port (dest_text d) = vless_wire ub [] cmd port d"
  by (cases d) (auto simp: buildVlessHeader_def vless_wire_def uuidToBytes_bytesToUuid isIpv4_dotted
      ipv4_bytes_dotted colon_groups_address ipv6_bytes_colon)

lemma byte_at_drop: "byte_at buf n = (case drop n buf of [] \<Rightarrow> None | x # _ \<Rightarrow> Some x)"
proof (cases "n < length buf")
  case True
  then show ?thesis unfolding Cons_nth_drop_Suc [OF True, symmetric] by (simp add: byte_at_def)
qed (simp add: byte_at_def)

lemma parse_prefix:
  assumes "length ub = 16" and "length addons < 256" and "port < 65536"
    and "buf = 0 # ub @ word_of_nat (length addons) # addons @ cmd # port_bytes port @ atyp # rest"
  shows "\<not> length buf < 18" "buf ! 0 = 0" "slice 1 17 buf = ub" "18 + unat (buf ! 17) = 18 + length addons"
    "byte_at buf (18 + length addons) = Some cmd"
    "byte_at buf (18 + length addons + 1) = Some (port_bytes port ! 0)"
    "byte_at buf (18 + length addons + 2) = Some (port_bytes port ! 1)"
    "byte_at buf (18 + length addons + 3) = Some atyp"
    "drop (18 + length addons + 4) buf = rest"
    "length buf = 18 + length addons + 4 + length rest"
proof -
  have n: "unat (word_of_nat (length addons) :: byte) = length addons" using assms(2) by (rule unat_byte_of_nat)
  obtain p q where pq: "port_bytes port = [p, q]" by (simp add: port_bytes_def)
  show "\<not> length buf < 18" "buf ! 0 = 0" "slice 1 17 buf = ub" "18 + unat (buf ! 17) = 18 + length addons"
    "length buf = 18 + length addons + 4 + length rest"
    using assms(1) n by (simp_all add: assms(4) pq slice_def nth_append)
  show "byte_at buf (18 + length addons) = Some cmd"
    "byte_at buf (18 + length addons + 1) = Some (port_bytes port ! 0)"
    "byte_at buf (18 + length addons + 2) = Some (port_bytes port ! 1)"
    "byte_at buf (18 + length addons + 3) = Some atyp"
    using assms(1) by (simp_all add: assms(4) pq byte_at_def nth_append)
  have "buf = (0 # ub @ word_of_nat (length addons) # addons @ [cmd, p, q, atyp]) @ rest"
    by (simp add: assms(4) pq)
  moreover have "length (0 # ub @ word_of_nat (length addons) # addons @ [cmd, p, q, atyp]) = 18 + length addons + 4"
    using assms(1) by simp
  ultimately show "drop (18 + length addons + 4) buf = rest"
    by (metis append_eq_conv_conj)
qed

lemma slice_drop: "slice (k + i) (k + j) buf = take (j - i) (drop i (drop k buf))"
  by (simp add: slice_def add.commute)

text \<open>The parser after the fixed part of the header, in terms of the bytes that remain.\<close>

lemma parse_rest:
  assumes "\<not> length buf < 18" "buf ! 0 = 0" "slice 1 17 buf = ub" "18 + unat (buf ! 17) = k"
    "byte_at buf k = Some cmd" "byte_at buf (k + 1) = Some p" "byte_at buf (k + 2) = Some q"
    "byte_at buf (k + 3) = Some atyp" "drop (k + 4) buf = rest"
  shows "parseVlessHeader P buf =
    (let head = (\<lambda>a n. Inr \<lparr>vh_version = 0, vh_uuid = bytesToUuid ub, vh_cmd = cmd, vh_port = unat p * 256 + unat q,
                   vh_addressType = atyp, vh_address = a, vh_payloadStart = n\<rparr>)
     in if atyp = 1 then head (dotted (take 4 rest)) (Some (k + 8))
        else if atyp = 2 then
          (case rest of [] \<Rightarrow> head (p_decode P []) None
           | len # r \<Rightarrow> head (p_decode P (take (unat len) r)) (Some (k + 5 + unat len)))
        else if atyp = 3 then head (colon_groups (take 16 rest)) (Some (k + 20))
        else Inl (JsError ''unknown address type''))"
proof -
  have at: "byte_at buf (k + 4) = (case rest of [] \<Rightarrow> None | x # _ \<Rightarrow> Some x)"
    unfolding byte_at_drop assms(9) ..
  have s: "slice (k + 4) (k + 4 + j) buf = take j rest" for j
    using slice_drop [of "k + 4" 0 j buf] assms(9) by simp
  have s1: "slice (k + 4 + 1) (k + 4 + 1 + j) buf = take j (tl rest)" for j
    using slice_drop [of "k + 4" 1 "1 + j" buf] assms(9) by (simp add: drop_Suc add.assoc)
  show ?thesis
    unfolding parseVlessHeader_def Let_def assms(3,4,5,6,7,8) at s s1
    by (simp add: assms(1,2) split: list.split)
qed

definition parsed :: "byte list \<Rightarrow> byte list \<Rightarrow> byte \<Rightarrow> nat \<Rightarrow> dest \<Rightarrow> vless_header" where
  "parsed ub addons cmd port d =
     \<lparr>vh_version = 0, vh_uuid = bytesToUuid ub, vh_cmd = cmd, vh_port = port, vh_addressType = hd (dest_wire d),
      vh_address = dest_text d, vh_payloadStart = Some (length (vless_wire ub addons cmd port d))\<rparr>"

lemma parse_wire:
  assumes "length ub = 16" and "length addons < 256" and "port < 65536" and "dest_ok d"
    and dec: "\<And>s. p_decode P (utf8_encode s) = s"
  shows "parseVlessHeader P (vless_wire ub addons cmd port d @ payload) = Inr (parsed ub addons cmd port d)"
proof -
  obtain t w where dw: "dest_wire d = t # w" by (cases d) auto
  let ?buf = "vless_wire ub addons cmd port d @ payload"
  have b: "?buf = 0 # ub @ word_of_nat (length addons) # addons @ cmd # port_bytes port @ t # (w @ payload)"
    by (simp add: vless_wire_def dw)
  have len: "length (vless_wire ub addons cmd port d) = 18 + length addons + 4 + length w"
    using assms(1) by (simp add: vless_wire_def dw port_bytes_def)
  have pv: "unat (port_bytes port ! 0) * 256 + unat (port_bytes port ! 1) = port"
    using assms(3) by (rule port_bytes_value)
  show ?thesis
    unfolding parse_rest [OF parse_prefix(1-9) [OF assms(1,2,3) b]] parsed_def len Let_def pv
    using assms(4) dw by (cases d) (auto simp: unat_byte_of_nat dec)
qed

text \<open>
  The header codec. \<open>buildVlessHeader\<close> writes exactly the VLESS v0 layout for an IPv4, IPv6 or domain
  destination, and \<open>parseVlessHeader\<close> reads any such header back, with or without addon bytes in front of the
  command and whatever payload follows: UUID, command, port, address type and address text are those written, and
  \<open>payloadStart\<close> is the offset of the payload. The hypothesis on \<open>p_decode\<close> is that TextDecoder inverts
  TextEncoder.
\<close>

theorem vless_header_roundtrip:
  assumes "length ub = 16" and "length addons < 256" and "port < 65536" and "dest_ok d"
    and "\<forall>s. p_decode P (utf8_encode s) = s"
  shows "buildVlessHeader (bytesToUuid ub) cmd port (dest_text d) = vless_wire ub [] cmd port d \<and>
    (\<exists>h. parseVlessHeader P (vless_wire ub addons cmd port d @ payload) = Inr h \<and>
       uuidToBytes (vh_uuid h) = ub \<and> vh_uuid h = bytesToUuid ub \<and> vh_cmd h = cmd \<and> vh_port h = port \<and>
       vh_address h = dest_text d \<and> vh_addressType h = hd (dest_wire d) \<and>
       (\<exists>n. vh_payloadStart h = Some n \<and> drop n (vless_wire ub addons cmd port d @ payload) = payload))"
proof -
  have "parseVlessHeader P (vless_wire ub addons cmd port d @ payload) = Inr (parsed ub addons cmd port d)"
    using assms by (intro parse_wire) auto
  then show ?thesis
    using assms(1,4) by (simp add: buildVlessHeader_wire parsed_def uuidToBytes_bytesToUuid)
qed

theorem vless_header_roundtrip_witness:
  "\<exists>h. parseVlessHeader demo_platform (vless_wire (replicate 16 7) [9] 1 443 (DDom ''a.io'') @ [42]) = Inr h \<and>
       vh_address h = ''a.io'' \<and> vh_port h = 443"
proof -
  have "dest_ok (DDom ''a.io'')" by (simp add: isIpv4_def isIpv6_def utf8_encode_def utf8_char_def)
  moreover have "\<forall>s. p_decode demo_platform (utf8_encode s) = s"
    by (simp add: demo_platform_def demo_decode_encode)
  ultimately show ?thesis
    using vless_header_roundtrip [of "replicate 16 7" "[9]" 443 "DDom ''a.io''" demo_platform 1 "[42]"] by auto
qed

subsection \<open>Who is let in\<close>

definition sample_row :: user_row where
  "sample_row = \<lparr>u_id = 1, u_username = ''ann'', u_uuid = JStr ''11111111-2222-3333-4444-555555555555'',
     u_sub_token = JStr ''tok'', u_quota_gb = JNum (Fin 1), u_used_bytes = 0, u_expiry_days = JNum (Fin 30),
     u_first_connect = JNum (Fin 1), u_activated_at = None, u_expires_at = None, u_device_limit = JNum (Fin 3),
     u_request_limit = JNum (Fin 0), u_requests_used = 0, u_ips = ''[]'', u_proxies = ''[]'', u_connection = JStr ''ws'',
     u_tls = JStr ''on'', u_fragment = JStr [], u_fingerprint = JStr [], u_block_list = ''[]'', u_is_active = 1,
     u_created_by = JNull, u_note = JStr [], u_created_at = 0, u_updated_at = 0\<rparr>"

lemma admit_hydrate:
  "admit now (Some (hydrate now row)) = Inr (hydrate now row) \<longleftrightarrow>
     u_is_active row \<noteq> 0 \<and> \<not> (case u_expires_at row of None \<Rightarrow> False | Some t \<Rightarrow> t \<noteq> 0 \<and> t < now) \<and>
     \<not> num_le (quota_bytes (u_quota_gb row)) (Fin (u_used_bytes row)) \<and>
     \<not> (truthy (u_request_limit row) \<and> num_le (to_num (u_request_limit row)) (Fin (u_requests_used row)))"
  by (simp add: admit_def hydrate_def user_row.extend_def)

lemma admit_cases: "admit now (Some u) = Inr u \<or> admit now (Some u) = Inl forbidden"
  by (auto simp: admit_def)

text \<open>
  The admission rule and the status shown in the panel agree. A user that \<open>hydrate\<close> calls active passes
  \<open>admit\<close> unless the request limit is used up; a user that it calls disabled or exhausted is refused, and so is
  an expired one, except in the very millisecond of expiry (the comparisons differ: \<open>\<le>\<close> against \<open><\<close>) and for the
  stored value 0.
\<close>

theorem admit_agrees_with_status:
  "(admit now (Some (hydrate now row)) = Inr (hydrate now row) \<or> admit now (Some (hydrate now row)) = Inl forbidden) \<and>
   (h_status (hydrate now row) = ''active'' \<longrightarrow>
      (admit now (Some (hydrate now row)) = Inl forbidden) =
      (truthy (u_request_limit row) \<and> num_le (to_num (u_request_limit row)) (Fin (u_requests_used row)))) \<and>
   (h_status (hydrate now row) \<in> {''disabled'', ''exhausted''} \<longrightarrow> admit now (Some (hydrate now row)) = Inl forbidden) \<and>
   (h_status (hydrate now row) = ''expired'' \<and> u_expires_at row \<noteq> Some now \<and> u_expires_at row \<noteq> Some 0 \<longrightarrow>
      admit now (Some (hydrate now row)) = Inl forbidden)"
  using admit_cases [of now "hydrate now row"] admit_hydrate [of now row]
  by (auto simp: hydrate_def user_row.extend_def status_of_def admit_def Let_def split: option.splits if_splits)

theorem admit_agrees_with_status_witness:
  "admit 10 (Some (hydrate 10 (sample_row\<lparr>u_is_active := 0\<rparr>))) = Inl forbidden"
  using admit_agrees_with_status [of 10 "sample_row\<lparr>u_is_active := 0\<rparr>"]
  by (simp add: hydrate_def user_row.extend_def status_of_def)

lemma handle_upgrade_cases:
  assumes "handleVlessWebSocket P E ledger_up now r s = ((resp, Some u), s')"
  obtains uuid where "to_lower (case header_of r ''upgrade'' of None \<Rightarrow> [] | Some v \<Rightarrow> v) = ''websocket''"
    "uuidFromRequest r = Some uuid" "getUserByUuid now uuid (snd s) = Some u" "rs_status resp = 101" "snd s' = snd s"
    "e_ledger E \<and> truthy (u_device_limit u) \<and> ledger_up \<and> fin_val (to_num (u_device_limit u)) \<noteq> 0 \<Longrightarrow>
       of_nat (device_count (u_username u) (fst s')) \<le> fin_val (to_num (u_device_limit u))"
  using assms
  by (auto simp: handleVlessWebSocket_def plain_response_def Let_def split: if_splits option.splits)


definition sample_request :: request where
  "sample_request = \<lparr>rq_method = ''GET'', rq_hostname = ''edge.io'',
     rq_path = ''/11111111-2222-3333-4444-555555555555'', rq_query = [], rq_headers = [(''upgrade'', ''websocket'')],
     rq_body = []\<rparr>"

definition sample_env :: env where
  "sample_env = resolveEnv \<lparr>re_bound = (\<lambda>b. b = ''DB'' \<or> b = ''LEDGER''), re_vars = JObj []\<rparr>"

definition sample_db :: "num \<Rightarrow> db" where
  "sample_db active = empty_db\<lparr>db_users := [sample_row\<lparr>u_is_active := active\<rparr>]\<rparr>"

lemma sample_uuid: "uuidFromRequest sample_request = Some ''11111111-2222-3333-4444-555555555555''"
  by code_simp

lemma sample_found: "getUserByUuid now ''11111111-2222-3333-4444-555555555555'' (sample_db a) =
    Some (hydrate now (sample_row\<lparr>u_is_active := a\<rparr>))"
  by (simp add: getUserByUuid_def sample_db_def sample_row_def empty_db_def)


text \<open>
  The upgrade does not consult \<open>admit\<close>: a user it forbids (disabled, expired, out of quota or of requests)
  still gets a tunnel, as long as the device limit does not stop it. The comment on \<open>admit\<close> says that such a
  user is refused before the tunnel is open.
\<close>

theorem upgrade_skips_admission:
  assumes "header_of r ''upgrade'' = Some ''websocket''" and "uuidFromRequest r = Some uuid"
    and "getUserByUuid now uuid (snd s) = Some u" and "admit now (Some u) = Inl forbidden"
    and "\<not> (e_ledger E \<and> truthy (u_device_limit u) \<and> ledger_up)"
  shows "\<exists>resp. handleVlessWebSocket P E ledger_up now r s = ((resp, Some u), s) \<and> rs_status resp = 101"
  using assms by (auto simp: handleVlessWebSocket_def Let_def plain_response_def to_lower_def lower_char_def is_upper_def)

theorem upgrade_skips_admission_witness:
  "\<exists>resp u. handleVlessWebSocket demo_platform sample_env False 10 sample_request (new_ledger, sample_db 0) =
     ((resp, Some u), (new_ledger, sample_db 0)) \<and> \<not> h_is_active u"
proof -
  let ?u = "hydrate 10 (sample_row\<lparr>u_is_active := 0\<rparr>)"
  have "admit 10 (Some ?u) = Inl forbidden" "\<not> h_is_active ?u"
    by (simp_all add: admit_def hydrate_def user_row.extend_def)
  moreover have "header_of sample_request ''upgrade'' = Some ''websocket''"
    by (simp add: sample_request_def header_of_def)
  ultimately show ?thesis
    using upgrade_skips_admission [OF _ sample_uuid, of 10 "(new_ledger, sample_db 0)" ?u sample_env False demo_platform]
      sample_found [of 10 0] by auto
qed

end
