(* ===== verification/Tunnel.thy ===== *)
theory Tunnel
  imports Vless
begin

text \<open>
  The tunnel behind an accepted upgrade (\<^verbatim>\<open>proxy/vless.js\<close>, from \<open>ws.accept()\<close> on), the UDP framing of
  \<^verbatim>\<open>proxy/udp.js\<close> and the stream pumps of \<^verbatim>\<open>proxy/tunnel.js\<close>.

  The local variables of \<open>handleVlessWebSocket\<close> are a record; each callback of the code is a function on it, cut
  where the code awaits: the sink's \<open>write\<close> up to the connection attempt, the attempt's result, \<open>socket.opened\<close>,
  one chunk from upstream, the end of the upstream, \<open>close\<close> and \<open>abort\<close> of the sink. The step relation runs them in
  any order the stream contract allows: a sink's \<open>write\<close>, \<open>close\<close> or \<open>abort\<close> is called only when the previous
  \<open>write\<close> has settled, and never after \<open>controller.error\<close>.
\<close>

subsection \<open>State\<close>

datatype phase =
    Idle
  | Dialing vless_header "byte list"
  | Opening vless_header "byte list"
  | Open
  | Failed

datatype dial_call = DialDirect string nat | DialVia jval string nat

record tunnel_state =
  tn_phase :: phase
  tn_remoteSocket :: bool
  tn_opening :: bool
  tn_pendingChunks :: "byte list list"
  tn_finished :: bool
  tn_up :: nat
  tn_down :: nat
  tn_dials :: "dial_call list"
  tn_upstream :: "byte list list"
  tn_client :: "byte list list"
  tn_ws_close :: "nat option"
  tn_socket_closed :: bool
  tn_pumping :: bool
  tn_reports :: "(nat \<times> nat) list"
  tn_error :: "exn option"
  tn_ended :: bool
  tn_received :: "byte list list"

definition new_tunnel :: tunnel_state where
  "new_tunnel = \<lparr>tn_phase = Idle, tn_remoteSocket = False, tn_opening = False, tn_pendingChunks = [],
     tn_finished = False, tn_up = 0, tn_down = 0, tn_dials = [], tn_upstream = [], tn_client = [],
     tn_ws_close = None, tn_socket_closed = False, tn_pumping = False, tn_reports = [], tn_error = None,
     tn_ended = False, tn_received = []\<rparr>"

text \<open>A write is in flight: the sink is not called again until it settles.\<close>

definition tn_busy :: "tunnel_state \<Rightarrow> bool" where
  "tn_busy t \<longleftrightarrow> (case tn_phase t of Dialing _ _ \<Rightarrow> True | Opening _ _ \<Rightarrow> True | _ \<Rightarrow> False)"

subsection \<open>Operations\<close>

definition ws_close :: "nat \<Rightarrow> tunnel_state \<Rightarrow> tunnel_state" where
  "ws_close code t = (case tn_ws_close t of None \<Rightarrow> t\<lparr>tn_ws_close := Some code\<rparr> | Some _ \<Rightarrow> t)"

definition finish :: "bool \<Rightarrow> tunnel_state \<Rightarrow> tunnel_state" where
  "finish ledger t =
     (if tn_finished t then t
      else let t1 = ws_close 1000 (t\<lparr>tn_finished := True\<rparr>);
               t2 = (if tn_remoteSocket t1 then t1\<lparr>tn_socket_closed := True\<rparr> else t1)
           in if ledger \<and> (tn_up t2 \<noteq> 0 \<or> tn_down t2 \<noteq> 0)
              then t2\<lparr>tn_reports := tn_reports t2 @ [(tn_up t2, tn_down t2)]\<rparr> else t2)"

text \<open>The \<open>catch\<close> of \<open>write\<close>: \<open>finish()\<close>, then \<open>controller.error(e)\<close>.\<close>

definition write_failed :: "bool \<Rightarrow> exn \<Rightarrow> tunnel_state \<Rightarrow> tunnel_state" where
  "write_failed ledger e t =
     (finish ledger t)\<lparr>tn_error := Some e, tn_phase := Failed\<rparr>"

definition writeToUpstream :: "byte list \<Rightarrow> tunnel_state \<Rightarrow> tunnel_state" where
  "writeToUpstream chunk t = t\<lparr>tn_upstream := tn_upstream t @ [chunk], tn_up := tn_up t + length chunk\<rparr>"

text \<open>\<open>blocked.length && matchesBlock(header.address, blocked)\<close> for the parsed JSON of the column.\<close>

definition is_blocked :: "string \<Rightarrow> user \<Rightarrow> bool res" where
  "is_blocked address user =
     (case js_or (h_block_list user) (JArr []) of
        JArr xs \<Rightarrow> Inr (xs \<noteq> [] \<and> matchesBlock address xs)
      | JStr s \<Rightarrow> Inl (JsError ''TypeError'')
      | v \<Rightarrow> if truthy (fld v ''length'') then Inl (JsError ''TypeError'') else Inr False)"

definition payload_of :: "vless_header \<Rightarrow> byte list \<Rightarrow> byte list" where
  "payload_of h buf = (case vh_payloadStart h of Some n \<Rightarrow> drop n buf | None \<Rightarrow> buf)"

text \<open>
  \<open>openTunnel\<close> up to the connection attempt. \<open>createUdpForwarder\<close> is not imported by the module, so that the UDP
  branch is a ReferenceError.
\<close>

definition openTunnel :: "platform \<Rightarrow> user \<Rightarrow> byte list \<Rightarrow> (vless_header \<times> byte list) res" where
  "openTunnel P user buf =
     res_bind (parseVlessHeader P buf) (\<lambda>header.
      if JStr (vh_uuid header) \<noteq> u_uuid user then Inl forbidden
      else res_bind (is_blocked (vh_address header) user) (\<lambda>b.
        if b then Inl forbidden
        else if vh_isUDP header then Inl (JsError ''ReferenceError'')
        else Inr (header, payload_of header buf)))"

text \<open>The sink's \<open>write\<close>. \<open>w_ok\<close>: whether the upstream accepts the bytes.\<close>

definition tunnel_write :: "platform \<Rightarrow> bool \<Rightarrow> user \<Rightarrow> bool \<Rightarrow> byte list \<Rightarrow> tunnel_state \<Rightarrow> tunnel_state" where
  "tunnel_write P ledger user w_ok chunk t0 =
     (let t = t0\<lparr>tn_received := tn_received t0 @ [chunk]\<rparr> in
      if tn_remoteSocket t then
        (if w_ok then writeToUpstream chunk t else write_failed ledger (JsError ''write failed'') t)
      else if \<not> tn_opening t then
        (case openTunnel P user chunk of
           Inl e \<Rightarrow> write_failed ledger e (t\<lparr>tn_opening := True\<rparr>)
         | Inr (h, payload) \<Rightarrow> t\<lparr>tn_opening := True, tn_phase := Dialing h payload\<rparr>)
      else t\<lparr>tn_pendingChunks := tn_pendingChunks t @ [chunk]\<rparr>)"

text \<open>
  The connection attempt: \<open>resolved\<close> is what \<open>resolveOne\<close> gives for a host name (unused for a literal address),
  \<open>rnd\<close> the random number of \<open>pickProxy\<close>, \<open>conn\<close> whether \<open>connect\<close> or the proxy handshake succeeds.
\<close>

definition dial_target :: "num \<Rightarrow> user \<Rightarrow> vless_header \<Rightarrow> string \<Rightarrow> dial_call" where
  "dial_target rnd user h host =
     (case pickProxy rnd user of
        Some p \<Rightarrow> if truthy p then DialVia p host (vh_port h) else DialDirect host (vh_port h)
      | None \<Rightarrow> DialDirect host (vh_port h))"

definition tunnel_dial ::
  "bool \<Rightarrow> user \<Rightarrow> string res \<Rightarrow> num \<Rightarrow> unit res \<Rightarrow> vless_header \<Rightarrow> byte list \<Rightarrow> tunnel_state \<Rightarrow> tunnel_state" where
  "tunnel_dial ledger user resolved rnd conn h payload t =
     (case (if isIpv4 (vh_address h) \<or> isIpv6 (vh_address h) then Inr (vh_address h) else resolved) of
        Inl e \<Rightarrow> write_failed ledger e t
      | Inr host \<Rightarrow>
          let t1 = t\<lparr>tn_dials := tn_dials t @ [dial_target rnd user h host]\<rparr> in
          (case conn of
             Inl e \<Rightarrow> write_failed ledger e t1
           | Inr _ \<Rightarrow> t1\<lparr>tn_remoteSocket := True, tn_phase := Opening h payload\<rparr>))"

text \<open>
  \<open>socket.opened\<close> against the timeout; then the response byte, the payload and what is pending. \<open>w_ok i\<close>: whether
  the upstream accepts the \<open>i\<close>th of these writes.
\<close>

fun write_pending :: "(nat \<Rightarrow> bool) \<Rightarrow> nat \<Rightarrow> byte list list \<Rightarrow> tunnel_state \<Rightarrow> bool \<times> tunnel_state" where
  "write_pending w_ok i [] t = (True, t\<lparr>tn_pendingChunks := []\<rparr>)"
| "write_pending w_ok i (c # cs) t =
     (if w_ok i then write_pending w_ok (Suc i) cs (writeToUpstream c t) else (False, t\<lparr>tn_pendingChunks := cs\<rparr>))"

definition tunnel_opened ::
  "bool \<Rightarrow> unit res \<Rightarrow> (nat \<Rightarrow> bool) \<Rightarrow> vless_header \<Rightarrow> byte list \<Rightarrow> tunnel_state \<Rightarrow> tunnel_state" where
  "tunnel_opened ledger opened w_ok h payload t =
     (case opened of
        Inl e \<Rightarrow> write_failed ledger e (ws_close 1011 (t\<lparr>tn_socket_closed := True\<rparr>))
      | Inr _ \<Rightarrow>
          let t1 = t\<lparr>tn_client := tn_client t @ [[vh_version h]]\<rparr> in
          if payload \<noteq> [] \<and> \<not> w_ok 0 then write_failed ledger (JsError ''write failed'') t1
          else let t2 = (if payload = [] then t1 else writeToUpstream payload t1) in
            (case write_pending w_ok 1 (tn_pendingChunks t2) t2 of
               (False, t3) \<Rightarrow> write_failed ledger (JsError ''write failed'') t3
             | (True, t3) \<Rightarrow> t3\<lparr>tn_phase := Open, tn_pumping := True\<rparr>))"

definition tunnel_down :: "byte list \<Rightarrow> tunnel_state \<Rightarrow> tunnel_state" where
  "tunnel_down chunk t =
     (let t1 = t\<lparr>tn_down := tn_down t + length chunk\<rparr>
      in if tn_ws_close t1 = None then t1\<lparr>tn_client := tn_client t1 @ [chunk]\<rparr> else t1)"

definition tunnel_down_end :: "bool \<Rightarrow> tunnel_state \<Rightarrow> tunnel_state" where
  "tunnel_down_end ledger t = finish ledger (t\<lparr>tn_pumping := False\<rparr>)"

definition sink_end :: "bool \<Rightarrow> tunnel_state \<Rightarrow> tunnel_state" where
  "sink_end ledger t = (finish ledger t)\<lparr>tn_ended := True\<rparr>"

subsection \<open>Runs\<close>

inductive tunnel_run :: "platform \<Rightarrow> bool \<Rightarrow> user \<Rightarrow> tunnel_state \<Rightarrow> bool" for P ledger user where
  start: "tunnel_run P ledger user new_tunnel"
| chunk: "tunnel_run P ledger user t \<Longrightarrow> \<not> tn_busy t \<Longrightarrow> tn_error t = None \<Longrightarrow> \<not> tn_ended t \<Longrightarrow>
    tunnel_run P ledger user (tunnel_write P ledger user w_ok c t)"
| dialed: "tunnel_run P ledger user t \<Longrightarrow> tn_phase t = Dialing h payload \<Longrightarrow>
    tunnel_run P ledger user (tunnel_dial ledger user resolved rnd conn h payload t)"
| opened: "tunnel_run P ledger user t \<Longrightarrow> tn_phase t = Opening h payload \<Longrightarrow>
    tunnel_run P ledger user (tunnel_opened ledger op oks h payload t)"
| down: "tunnel_run P ledger user t \<Longrightarrow> tn_pumping t \<Longrightarrow> tunnel_run P ledger user (tunnel_down c t)"
| down_end: "tunnel_run P ledger user t \<Longrightarrow> tn_pumping t \<Longrightarrow> tunnel_run P ledger user (tunnel_down_end ledger t)"
| ended: "tunnel_run P ledger user t \<Longrightarrow> \<not> tn_busy t \<Longrightarrow> \<not> tn_ended t \<Longrightarrow> tunnel_run P ledger user (sink_end ledger t)"

subsection \<open>Invariant\<close>

text \<open>What the code may have sent upstream when the chunks \<open>cs\<close> have arrived.\<close>

definition expected :: "platform \<Rightarrow> user \<Rightarrow> byte list list \<Rightarrow> byte list" where
  "expected P user cs =
     (case cs of
        [] \<Rightarrow> []
      | c # rest \<Rightarrow> (case openTunnel P user c of Inl _ \<Rightarrow> [] | Inr (h, payload) \<Rightarrow> payload @ concat rest))"

definition checked_dial :: "platform \<Rightarrow> user \<Rightarrow> byte list \<Rightarrow> dial_call \<Rightarrow> bool" where
  "checked_dial P user c d \<longleftrightarrow>
     (\<exists>h payload host rnd. openTunnel P user c = Inr (h, payload) \<and> d = dial_target rnd user h host \<and>
        (isIpv4 (vh_address h) \<or> isIpv6 (vh_address h) \<longrightarrow> host = vh_address h))"

definition phase_inv :: "platform \<Rightarrow> user \<Rightarrow> tunnel_state \<Rightarrow> bool" where
  "phase_inv P user t \<longleftrightarrow>
     (case tn_phase t of
        Idle \<Rightarrow> tn_received t = [] \<and> \<not> tn_opening t \<and> \<not> tn_remoteSocket t \<and> tn_dials t = [] \<and> tn_upstream t = [] \<and> tn_client t = []
      | Dialing h p \<Rightarrow> (\<exists>c. tn_received t = [c] \<and> openTunnel P user c = Inr (h, p)) \<and> tn_opening t \<and> \<not> tn_remoteSocket t \<and>
          tn_dials t = [] \<and> tn_upstream t = [] \<and> tn_client t = []
      | Opening h p \<Rightarrow> (\<exists>c d. tn_received t = [c] \<and> openTunnel P user c = Inr (h, p) \<and> tn_dials t = [d] \<and> checked_dial P user c d) \<and>
          tn_opening t \<and> tn_remoteSocket t \<and> tn_upstream t = [] \<and> tn_client t = []
      | Open \<Rightarrow> (\<exists>c d cs h p. tn_received t = c # cs \<and> openTunnel P user c = Inr (h, p) \<and> tn_dials t = [d] \<and> checked_dial P user c d) \<and>
          tn_opening t \<and> tn_remoteSocket t \<and> concat (tn_upstream t) = expected P user (tn_received t)
      | Failed \<Rightarrow> (\<exists>c cs. tn_received t = c # cs \<and> (tn_dials t = [] \<or> (\<exists>d. tn_dials t = [d] \<and> checked_dial P user c d))) \<and>
          (tn_dials t = [] \<longrightarrow> tn_upstream t = [] \<and> tn_client t = []) \<and>
          (\<exists>rest. expected P user (tn_received t) = concat (tn_upstream t) @ rest))"

definition tunnel_inv :: "platform \<Rightarrow> bool \<Rightarrow> user \<Rightarrow> tunnel_state \<Rightarrow> bool" where
  "tunnel_inv P ledger user t \<longleftrightarrow>
     phase_inv P user t \<and> tn_pendingChunks t = [] \<and> tn_up t = length (concat (tn_upstream t)) \<and>
     (tn_error t = None \<longleftrightarrow> tn_phase t \<noteq> Failed) \<and>
     (tn_reports t = [] \<or> tn_finished t \<and> ledger \<and> (\<exists>u d. tn_reports t = [(u, d)] \<and> u \<le> tn_up t \<and> d \<le> tn_down t \<and> 0 < u + d)) \<and>
     (tn_pumping t \<longrightarrow> tn_client t \<noteq> [])"

lemma finish_fields [simp]:
  "tn_phase (finish l t) = tn_phase t" "tn_received (finish l t) = tn_received t" "tn_opening (finish l t) = tn_opening t"
  "tn_remoteSocket (finish l t) = tn_remoteSocket t" "tn_dials (finish l t) = tn_dials t"
  "tn_upstream (finish l t) = tn_upstream t" "tn_client (finish l t) = tn_client t"
  "tn_pendingChunks (finish l t) = tn_pendingChunks t" "tn_up (finish l t) = tn_up t" "tn_down (finish l t) = tn_down t"
  "tn_error (finish l t) = tn_error t" "tn_pumping (finish l t) = tn_pumping t" "tn_finished (finish l t)"
  by (auto simp: finish_def ws_close_def Let_def split: option.splits)

lemma finish_reports:
  "tn_reports (finish l t) =
     tn_reports t @ (if \<not> tn_finished t \<and> l \<and> (tn_up t \<noteq> 0 \<or> tn_down t \<noteq> 0) then [(tn_up t, tn_down t)] else [])"
  by (auto simp: finish_def ws_close_def Let_def split: option.splits)

lemma finish_idem: "finish l (finish l' t) = finish l' t"
  by (simp add: finish_def [of l "finish l' t"])

lemma phase_inv_cong:
  "tn_phase t' = tn_phase t \<Longrightarrow> tn_received t' = tn_received t \<Longrightarrow> tn_opening t' = tn_opening t \<Longrightarrow>
   tn_remoteSocket t' = tn_remoteSocket t \<Longrightarrow> tn_dials t' = tn_dials t \<Longrightarrow> tn_upstream t' = tn_upstream t \<Longrightarrow>
   tn_client t' = tn_client t \<Longrightarrow> phase_inv P user t' = phase_inv P user t"
  by (simp add: phase_inv_def split: phase.splits)

lemma inv_finish: "tunnel_inv P l user t \<Longrightarrow> tunnel_inv P l user (finish l t)"
  using phase_inv_cong [of "finish l t" t] by (auto simp: tunnel_inv_def finish_reports)

lemma inv_write_failed:
  assumes "tn_pendingChunks t = []" "tn_up t = length (concat (tn_upstream t))"
    and "tn_reports t = [] \<or> tn_finished t \<and> l \<and> (\<exists>u d. tn_reports t = [(u, d)] \<and> u \<le> tn_up t \<and> d \<le> tn_down t \<and> 0 < u + d)"
    and "tn_pumping t \<longrightarrow> tn_client t \<noteq> []"
    and "\<exists>c cs. tn_received t = c # cs \<and> (tn_dials t = [] \<or> (\<exists>d. tn_dials t = [d] \<and> checked_dial P user c d))"
    and "tn_dials t = [] \<longrightarrow> tn_upstream t = [] \<and> tn_client t = []"
    and "\<exists>rest. expected P user (tn_received t) = concat (tn_upstream t) @ rest"
  shows "tunnel_inv P l user (write_failed l e t)"
  using assms by (auto simp: tunnel_inv_def phase_inv_def write_failed_def finish_reports)

lemma inv_write:
  assumes inv: "tunnel_inv P l user t" and nb: "\<not> tn_busy t" and ne: "tn_error t = None"
  shows "tunnel_inv P l user (tunnel_write P l user w_ok c t)"
proof -
  consider "tn_phase t = Idle" | "tn_phase t = Open"
    using inv nb ne by (cases "tn_phase t") (auto simp: tunnel_inv_def tn_busy_def)
  then show ?thesis
  proof cases
    case 1
    let ?t = "t\<lparr>tn_received := tn_received t @ [c], tn_opening := True\<rparr>"
    show ?thesis
    proof (cases "openTunnel P user c")
      case (Inl e)
      then have "tunnel_inv P l user (write_failed l e ?t)"
        using inv 1 by (intro inv_write_failed) (auto simp: tunnel_inv_def phase_inv_def)
      moreover have "\<not> tn_remoteSocket t" "\<not> tn_opening t" using inv 1 by (simp_all add: tunnel_inv_def phase_inv_def)
      ultimately show ?thesis using Inl by (simp add: tunnel_write_def)
    next
      case (Inr hp)
      then show ?thesis using inv 1 by (cases hp) (auto simp: tunnel_write_def tunnel_inv_def phase_inv_def)
    qed
  next
    case 2
    let ?t = "t\<lparr>tn_received := tn_received t @ [c]\<rparr>"
    have ex: "expected P user (tn_received t @ [c]) = expected P user (tn_received t) @ c"
      using inv 2 by (auto simp: tunnel_inv_def phase_inv_def expected_def)
    show ?thesis
    proof (cases w_ok)
      case True
      then show ?thesis using inv 2 ex
        by (auto simp: tunnel_write_def tunnel_inv_def phase_inv_def writeToUpstream_def)
    next
      case False
      have "tunnel_inv P l user (write_failed l (JsError ''write failed'') ?t)"
        using inv 2 ex by (intro inv_write_failed) (auto simp: tunnel_inv_def phase_inv_def)
      moreover have "tn_remoteSocket t" using inv 2 by (simp add: tunnel_inv_def phase_inv_def)
      ultimately show ?thesis using False by (simp add: tunnel_write_def)
    qed
  qed
qed

lemma inv_dial:
  assumes inv: "tunnel_inv P l user t" and ph: "tn_phase t = Dialing h payload"
  shows "tunnel_inv P l user (tunnel_dial l user resolved rnd conn h payload t)"
proof -
  obtain c where c: "tn_received t = [c]" "openTunnel P user c = Inr (h, payload)"
    using inv ph by (auto simp: tunnel_inv_def phase_inv_def)
  let ?host = "if isIpv4 (vh_address h) \<or> isIpv6 (vh_address h) then Inr (vh_address h) else resolved"
  show ?thesis
  proof (cases ?host)
    case (Inl e)
    have "tunnel_inv P l user (write_failed l e t)"
      using inv ph c by (intro inv_write_failed) (auto simp: tunnel_inv_def phase_inv_def)
    then show ?thesis unfolding tunnel_dial_def Inl by simp
  next
    case (Inr host)
    let ?t = "t\<lparr>tn_dials := tn_dials t @ [dial_target rnd user h host]\<rparr>"
    have cd: "checked_dial P user c (dial_target rnd user h host)"
      using c(2) Inr by (auto simp: checked_dial_def split: if_splits)
    show ?thesis
    proof (cases conn)
      case (Inl e)
      have "tunnel_inv P l user (write_failed l e ?t)"
        using inv ph c cd by (intro inv_write_failed) (auto simp: tunnel_inv_def phase_inv_def)
      then show ?thesis unfolding tunnel_dial_def Inr by (simp add: Inl Let_def)
    next
      case (Inr u)
      have "tunnel_inv P l user (?t\<lparr>tn_remoteSocket := True, tn_phase := Opening h payload\<rparr>)"
        using inv ph c cd by (auto simp: tunnel_inv_def phase_inv_def)
      then show ?thesis unfolding tunnel_dial_def \<open>?host = Inr host\<close> by (simp add: Inr Let_def)
    qed
  qed
qed

lemma ws_close_fields [simp]:
  "tn_phase (ws_close n t) = tn_phase t" "tn_received (ws_close n t) = tn_received t"
  "tn_dials (ws_close n t) = tn_dials t" "tn_upstream (ws_close n t) = tn_upstream t" "tn_client (ws_close n t) = tn_client t"
  "tn_pendingChunks (ws_close n t) = tn_pendingChunks t" "tn_up (ws_close n t) = tn_up t" "tn_down (ws_close n t) = tn_down t"
  "tn_pumping (ws_close n t) = tn_pumping t" "tn_finished (ws_close n t) = tn_finished t" "tn_reports (ws_close n t) = tn_reports t"
  "tn_error (ws_close n t) = tn_error t" "tn_opening (ws_close n t) = tn_opening t"
  "tn_remoteSocket (ws_close n t) = tn_remoteSocket t"
  by (auto simp: ws_close_def split: option.splits)

lemma inv_opened:
  assumes inv: "tunnel_inv P l user t" and ph: "tn_phase t = Opening h payload"
  shows "tunnel_inv P l user (tunnel_opened l op oks h payload t)"
proof -
  obtain c d where c: "tn_received t = [c]" "openTunnel P user c = Inr (h, payload)" "tn_dials t = [d]" "checked_dial P user c d"
    "tn_upstream t = []" "tn_pendingChunks t = []" "tn_up t = 0" "tn_opening t" "tn_remoteSocket t" "tn_client t = []"
    using inv ph by (auto simp: tunnel_inv_def phase_inv_def)
  have ex: "expected P user [c] = payload" using c(2) by (simp add: expected_def)
  have rp: "tn_reports t = [] \<or> tn_finished t \<and> l \<and> (\<exists>u d. tn_reports t = [(u, d)] \<and> u \<le> tn_up t \<and> d \<le> tn_down t \<and> 0 < u + d)"
    using inv unfolding tunnel_inv_def by blast
  show ?thesis
  proof (cases op)
    case (Inl e)
    have "tunnel_inv P l user (write_failed l e (ws_close 1011 (t\<lparr>tn_socket_closed := True\<rparr>)))"
      using c rp inv by (intro inv_write_failed) (auto simp: tunnel_inv_def)
    then show ?thesis by (simp add: tunnel_opened_def Inl)
  next
    case (Inr u)
    let ?t = "t\<lparr>tn_client := tn_client t @ [[vh_version h]]\<rparr>"
    show ?thesis
    proof (cases "payload \<noteq> [] \<and> \<not> oks 0")
      case True
      have "tunnel_inv P l user (write_failed l (JsError ''write failed'') ?t)"
        using c rp by (intro inv_write_failed) auto
      then show ?thesis using True by (simp add: tunnel_opened_def Inr)
    next
      case False
      let ?t' = "(if payload = [] then ?t else writeToUpstream payload ?t)
                   \<lparr>tn_pendingChunks := [], tn_phase := Open, tn_pumping := True\<rparr>"
      have "tunnel_opened l op oks h payload t = ?t'"
        using False c(6) by (auto simp: tunnel_opened_def Inr writeToUpstream_def Let_def)
      moreover have "phase_inv P user ?t'"
        using c ex by (auto simp: phase_inv_def writeToUpstream_def)
      moreover have "tn_error t = None" using inv ph by (simp add: tunnel_inv_def)
      ultimately show ?thesis using c rp by (auto simp: tunnel_inv_def writeToUpstream_def)
    qed
  qed
qed

lemma inv_down:
  assumes inv: "tunnel_inv P l user t" and "tn_pumping t"
  shows "tunnel_inv P l user (tunnel_down c t)"
proof -
  have "tn_client t \<noteq> []" using assms by (simp add: tunnel_inv_def)
  then have "phase_inv P user (tunnel_down c t)"
    using inv by (auto simp: tunnel_inv_def phase_inv_def tunnel_down_def Let_def split: phase.splits)
  then show ?thesis using inv by (auto simp: tunnel_inv_def tunnel_down_def Let_def split: phase.splits)
qed

lemma inv_run: "tunnel_run P l user t \<Longrightarrow> tunnel_inv P l user t"
proof (induction rule: tunnel_run.induct)
  case start
  then show ?case by (simp add: tunnel_inv_def phase_inv_def new_tunnel_def)
next
  case (down_end t)
  then have "tunnel_inv P l user (t\<lparr>tn_pumping := False\<rparr>)"
    using phase_inv_cong [of "t\<lparr>tn_pumping := False\<rparr>" t] by (auto simp: tunnel_inv_def)
  then show ?case unfolding tunnel_down_end_def by (rule inv_finish)
next
  case (ended t)
  then have "tunnel_inv P l user (finish l t)" by (intro inv_finish)
  then show ?case
    using phase_inv_cong [of "(finish l t)\<lparr>tn_ended := True\<rparr>" "finish l t"] by (auto simp: sink_end_def tunnel_inv_def)
qed (auto intro: inv_write inv_dial inv_opened inv_down)

definition sample_uuid_bytes :: "byte list" where
  "sample_uuid_bytes = [17, 17, 17, 17, 34, 34, 51, 51, 68, 68, 85, 85, 85, 85, 85, 85]"

definition sample_chunk :: "byte list" where
  "sample_chunk = vless_wire sample_uuid_bytes [] 1 443 (D4 1 1 1 1) @ [42]"

definition sample_user :: user where
  "sample_user = hydrate 10 sample_row"

definition sample_header :: vless_header where
  "sample_header = parsed sample_uuid_bytes [] 1 443 (D4 1 1 1 1)"

lemma sample_open: "openTunnel demo_platform sample_user sample_chunk = Inr (sample_header, [42])"
proof -
  have "parseVlessHeader demo_platform sample_chunk = Inr sample_header"
    unfolding sample_chunk_def sample_header_def
    by (rule parse_wire) (simp_all add: sample_uuid_bytes_def demo_platform_def demo_decode_encode)
  moreover have "bytesToUuid sample_uuid_bytes = ''11111111-2222-3333-4444-555555555555''" by code_simp
  moreover have "json_parse ''[]'' = Some (JArr [])" by code_simp
  ultimately show ?thesis
    by (simp add: openTunnel_def sample_user_def hydrate_def user_row.extend_def sample_row_def sample_header_def parsed_def
        is_blocked_def safe_parse_def js_or_def vh_isUDP_def payload_of_def sample_chunk_def)
qed


definition sample_tunnel :: tunnel_state where
  "sample_tunnel =
     (let t1 = tunnel_write demo_platform True sample_user True sample_chunk new_tunnel;
          t2 = tunnel_dial True sample_user (Inl forbidden) 0 (Inr ()) sample_header [42] t1;
          t3 = tunnel_opened True (Inr ()) (\<lambda>_. True) sample_header [42] t2
      in tunnel_write demo_platform True sample_user True [7, 7] t3)"

lemma sample_run: "tunnel_run demo_platform True sample_user sample_tunnel \<and> tn_phase sample_tunnel = Open \<and>
    tn_received sample_tunnel = [sample_chunk, [7, 7]] \<and> tn_dials sample_tunnel \<noteq> [] \<and>
    \<not> tn_finished sample_tunnel \<and> tn_up sample_tunnel = 3 \<and> tn_down sample_tunnel = 0"
proof -
  define t1 where "t1 = tunnel_write demo_platform True sample_user True sample_chunk new_tunnel"
  define t2 where "t2 = tunnel_dial True sample_user (Inl forbidden) 0 (Inr ()) sample_header [42] t1"
  define t3 where "t3 = tunnel_opened True (Inr ()) (\<lambda>_. True) sample_header [42] t2"
  have f1: "t1 = new_tunnel\<lparr>tn_received := [sample_chunk], tn_opening := True, tn_phase := Dialing sample_header [42]\<rparr>"
    by (simp add: t1_def tunnel_write_def sample_open new_tunnel_def)
  have ip: "isIpv4 (vh_address sample_header)"
    by (simp add: sample_header_def parsed_def isIpv4_dotted)
  have f2: "t2 = t1\<lparr>tn_dials := [dial_target 0 sample_user sample_header (vh_address sample_header)],
      tn_remoteSocket := True, tn_phase := Opening sample_header [42]\<rparr>"
    by (simp add: t2_def tunnel_dial_def ip f1 new_tunnel_def Let_def)
  have f3: "t3 = t2\<lparr>tn_client := [[vh_version sample_header]], tn_upstream := [[42]], tn_up := 1, tn_phase := Open, tn_pumping := True\<rparr>"
    by (simp add: t3_def tunnel_opened_def f2 f1 new_tunnel_def writeToUpstream_def)
  have r1: "tunnel_run demo_platform True sample_user t1"
    unfolding t1_def by (intro tunnel_run.chunk tunnel_run.start) (simp_all add: new_tunnel_def tn_busy_def)
  have r2: "tunnel_run demo_platform True sample_user t2"
    unfolding t2_def by (rule tunnel_run.dialed [OF r1]) (simp add: f1)
  have r3: "tunnel_run demo_platform True sample_user t3"
    unfolding t3_def by (rule tunnel_run.opened [OF r2]) (simp add: f2)
  have s: "sample_tunnel = tunnel_write demo_platform True sample_user True [7, 7] t3"
    by (simp add: sample_tunnel_def t1_def t2_def t3_def Let_def)
  have "tunnel_run demo_platform True sample_user sample_tunnel"
    unfolding s by (rule tunnel_run.chunk [OF r3]) (simp_all add: f1 f2 f3 new_tunnel_def tn_busy_def)
  then show ?thesis
    by (simp add: s f1 f2 f3 new_tunnel_def tunnel_write_def writeToUpstream_def)
qed


lemma checked_dialD:
  assumes "checked_dial P user c d"
  shows "\<exists>h host rnd. parseVlessHeader P c = Inr h \<and> JStr (vh_uuid h) = u_uuid user \<and>
       is_blocked (vh_address h) user = Inr False \<and> vh_cmd h \<noteq> 2 \<and> d = dial_target rnd user h host \<and>
       (isIpv4 (vh_address h) \<or> isIpv6 (vh_address h) \<longrightarrow> host = vh_address h)"
  using assms
  by (fastforce simp: checked_dial_def openTunnel_def res_bind_Inr vh_isUDP_def split: if_splits)



subsection \<open>Closing and reporting\<close>

definition close_inv :: "tunnel_state \<Rightarrow> bool" where
  "close_inv t \<longleftrightarrow>
     (tn_error t \<noteq> None \<or> tn_ended t \<longrightarrow> tn_finished t) \<and>
     (tn_finished t \<longrightarrow> tn_ws_close t \<noteq> None \<and> (tn_remoteSocket t \<longrightarrow> tn_socket_closed t)) \<and>
     (tn_finished t \<longrightarrow> \<not> tn_busy t) \<and> (tn_pumping t \<longrightarrow> tn_phase t = Open \<or> tn_phase t = Failed) \<and>
     (tn_finished t \<and> tn_phase t = Idle \<longrightarrow> tn_ended t)"

lemma finish_closes: "\<not> tn_finished t \<Longrightarrow> tn_ws_close (finish l t) \<noteq> None \<and> (tn_remoteSocket t \<longrightarrow> tn_socket_closed (finish l t))"
  by (auto simp: finish_def ws_close_def Let_def split: option.splits)

lemma finish_ended [simp]: "tn_ended (finish l t) = tn_ended t"
  by (auto simp: finish_def ws_close_def Let_def split: option.splits)

lemma tn_busy_finish [simp]: "tn_busy (finish l t) = tn_busy t"
  by (simp add: tn_busy_def)

lemma finish_closed:
  "(tn_finished t \<longrightarrow> tn_ws_close t \<noteq> None \<and> (tn_remoteSocket t \<longrightarrow> tn_socket_closed t)) \<Longrightarrow>
   tn_ws_close (finish l t) \<noteq> None \<and> (tn_remoteSocket t \<longrightarrow> tn_socket_closed (finish l t))"
  using finish_closes [of t l] by (cases "tn_finished t") (simp_all add: finish_def)

lemma close_write_failed:
  "(tn_finished t \<longrightarrow> tn_ws_close t \<noteq> None \<and> (tn_remoteSocket t \<longrightarrow> tn_socket_closed t)) \<Longrightarrow> close_inv (write_failed l e t)"
  using finish_closed [of t l] by (auto simp: close_inv_def write_failed_def tn_busy_def)

lemma close_write:
  assumes c: "close_inv t" and inv: "tunnel_inv P l user t" and nb: "\<not> tn_busy t" "tn_error t = None" "\<not> tn_ended t"
  shows "close_inv (tunnel_write P l user w_ok ch t)"
proof -
  consider "tn_phase t = Idle" "\<not> tn_remoteSocket t" "\<not> tn_opening t" "\<not> tn_finished t" | "tn_phase t = Open" "tn_remoteSocket t"
    using inv nb c by (cases "tn_phase t") (auto simp: tunnel_inv_def tn_busy_def phase_inv_def close_inv_def)
  then show ?thesis
  proof cases
    case 1
    then show ?thesis using c nb
      by (cases "openTunnel P user ch") (auto simp: tunnel_write_def intro!: close_write_failed, auto simp: close_inv_def tn_busy_def)
  next
    case 2
    have "close_inv (writeToUpstream ch (t\<lparr>tn_received := tn_received t @ [ch]\<rparr>))"
      using c nb by (simp add: close_inv_def writeToUpstream_def tn_busy_def)
    moreover have "close_inv (write_failed l (JsError ''write failed'') (t\<lparr>tn_received := tn_received t @ [ch]\<rparr>))"
      using c by (intro close_write_failed) (simp add: close_inv_def)
    ultimately show ?thesis using 2 by (simp add: tunnel_write_def Let_def)
  qed
qed

lemma close_dial:
  assumes c: "close_inv t" and ph: "tn_phase t = Dialing h payload"
  shows "close_inv (tunnel_dial l user resolved rnd conn h payload t)"
proof -
  have nf: "\<not> tn_finished t" using c ph by (auto simp: close_inv_def tn_busy_def)
  have "close_inv (write_failed l e t)" "close_inv (write_failed l e (t\<lparr>tn_dials := ds\<rparr>))" for e ds
    using nf by (simp_all add: close_write_failed)
  moreover have "close_inv (t\<lparr>tn_dials := ds, tn_remoteSocket := True, tn_phase := Opening h payload\<rparr>)" for ds
    using nf c ph by (auto simp: close_inv_def tn_busy_def)
  ultimately show ?thesis by (auto simp: tunnel_dial_def Let_def split: sum.splits)
qed

lemma write_pending_fields:
  "write_pending w_ok i cs t = (b, t') \<Longrightarrow>
     tn_finished t' = tn_finished t \<and> tn_error t' = tn_error t \<and> tn_ended t' = tn_ended t \<and> tn_phase t' = tn_phase t"
  by (induction w_ok i cs t arbitrary: b t' rule: write_pending.induct)
     (auto simp: writeToUpstream_def split: if_splits)

lemma close_opened:
  assumes c: "close_inv t" and ph: "tn_phase t = Opening h payload"
  shows "close_inv (tunnel_opened l op oks h payload t)"
proof -
  have nf: "\<not> tn_finished t" "tn_error t = None" "\<not> tn_ended t" using c ph by (auto simp: close_inv_def tn_busy_def)
  have cw: "close_inv (write_failed l e t')" if "\<not> tn_finished t'" for e t'
    using that by (simp add: close_write_failed)
  show ?thesis
  proof (cases op)
    case (Inl e)
    then show ?thesis using cw nf by (simp add: tunnel_opened_def)
  next
    case (Inr u)
    let ?t = "t\<lparr>tn_client := tn_client t @ [[vh_version h]]\<rparr>"
    let ?t2 = "if payload = [] then ?t else writeToUpstream payload ?t"
    obtain b t3 where w: "write_pending oks 1 (tn_pendingChunks ?t2) ?t2 = (b, t3)" by fastforce
    have "\<not> tn_finished t3" "tn_error t3 = None" "\<not> tn_ended t3"
      using write_pending_fields [OF w] nf by (auto simp: writeToUpstream_def)
    then have "close_inv (t3\<lparr>tn_phase := Open, tn_pumping := True\<rparr>)" "close_inv (write_failed l e t3)" for e
      using cw by (simp_all add: close_inv_def)
    moreover have "close_inv (write_failed l e ?t)" for e using cw nf by simp
    ultimately show ?thesis using w by (cases b) (simp_all add: tunnel_opened_def Inr Let_def)
  qed
qed

lemma close_run: "tunnel_run P l user t \<Longrightarrow> close_inv t"
proof (induction rule: tunnel_run.induct)
  case start
  then show ?case by (simp add: close_inv_def new_tunnel_def tn_busy_def)
next
  case (chunk t w_ok c)
  then show ?case by (intro close_write inv_run)
next
  case (dialed t h payload resolved rnd conn)
  then show ?case by (intro close_dial)
next
  case (opened t h payload op oks)
  then show ?case by (intro close_opened)
next
  case (down t c)
  then show ?case by (auto simp: close_inv_def tunnel_down_def Let_def tn_busy_def)
next
  case (down_end t)
  then have "tn_phase t = Open \<or> tn_phase t = Failed" by (simp add: close_inv_def)
  with down_end show ?case
    using finish_closed [of "t\<lparr>tn_pumping := False\<rparr>" l]
    by (auto simp: close_inv_def tunnel_down_end_def tn_busy_def)
next
  case (ended t)
  then show ?case
    using finish_closed [of t l] by (auto simp: close_inv_def sink_end_def tn_busy_def)
qed

text \<open>
  A tunnel ends once and leaves nothing open. In every reachable state: after an error or the end of the
  stream \<open>finish\<close> has run; once it has run the WebSocket is closed and so is the upstream socket if there is one;
  the ledger has been told at most once, with at most the bytes counted; and on a tunnel not yet finished, \<open>finish\<close>
  reports exactly the bytes counted so far (nothing for an unused tunnel) and a second \<open>finish\<close> changes nothing.
\<close>

theorem tunnel_ends_once:
  assumes "tunnel_run P ledger user t"
  shows "(tn_error t \<noteq> None \<or> tn_ended t \<longrightarrow> tn_finished t) \<and>
    (tn_finished t \<longrightarrow> tn_ws_close t \<noteq> None \<and> (tn_remoteSocket t \<longrightarrow> tn_socket_closed t)) \<and>
    (tn_reports t = [] \<or> (\<exists>u d. tn_reports t = [(u, d)] \<and> u \<le> tn_up t \<and> d \<le> tn_down t \<and> ledger \<and> tn_finished t)) \<and>
    (\<not> tn_finished t \<longrightarrow>
       tn_reports (finish ledger t) = (if ledger \<and> (tn_up t \<noteq> 0 \<or> tn_down t \<noteq> 0) then [(tn_up t, tn_down t)] else [])) \<and>
    finish ledger (finish ledger t) = finish ledger t"
  using close_run [OF assms] inv_run [OF assms]
  unfolding close_inv_def tunnel_inv_def by (auto simp: finish_idem finish_reports)

theorem tunnel_ends_once_witness:
  "tn_reports (finish True sample_tunnel) = [(3, 0)] \<and> tn_ws_close (sink_end True sample_tunnel) \<noteq> None"
proof -
  have "tunnel_run demo_platform True sample_user (sink_end True sample_tunnel)"
    using sample_run tunnel_ends_once [of demo_platform True sample_user sample_tunnel]
    by (intro tunnel_run.ended) (auto simp: tn_busy_def)
  from tunnel_ends_once [OF this] show ?thesis
    using tunnel_ends_once [of demo_platform True sample_user sample_tunnel] sample_run
    by (simp add: sink_end_def)
qed

subsection \<open>UDP\<close>

text \<open>
  UDP never works: a header with the UDP command, valid in every other respect, fails with a ReferenceError
  (\<open>createUdpForwarder\<close> is defined in \<^verbatim>\<open>proxy/udp.js\<close> and not imported), which finishes the tunnel before anything is
  dialled or sent.
\<close>

theorem udp_header_fails:
  assumes "parseVlessHeader P c = Inr h" and "JStr (vh_uuid h) = u_uuid user"
    and "is_blocked (vh_address h) user = Inr False" and "vh_cmd h = 2"
  shows "\<exists>t. tunnel_write P ledger user w_ok c new_tunnel = t \<and> tn_error t = Some (JsError ''ReferenceError'') \<and>
    tn_finished t \<and> tn_dials t = [] \<and> tn_client t = [] \<and> tn_ws_close t = Some 1000"
  using assms
  by (simp add: tunnel_write_def openTunnel_def vh_isUDP_def write_failed_def new_tunnel_def finish_def ws_close_def)

theorem udp_header_fails_witness:
  "tn_error (tunnel_write demo_platform True sample_user True (vless_wire sample_uuid_bytes [] 2 53 (D4 8 8 8 8)) new_tunnel)
     = Some (JsError ''ReferenceError'')"
proof -
  let ?c = "vless_wire sample_uuid_bytes [] 2 53 (D4 8 8 8 8)"
  let ?h = "parsed sample_uuid_bytes [] 2 53 (D4 8 8 8 8)"
  have p: "parseVlessHeader demo_platform (?c @ []) = Inr ?h"
    by (rule parse_wire) (simp_all add: sample_uuid_bytes_def demo_platform_def demo_decode_encode)
  have u: "bytesToUuid sample_uuid_bytes = ''11111111-2222-3333-4444-555555555555''" by code_simp
  have j: "json_parse ''[]'' = Some (JArr [])" by code_simp
  have "JStr (vh_uuid ?h) = u_uuid sample_user" "is_blocked (vh_address ?h) sample_user = Inr False" "vh_cmd ?h = 2"
    by (simp_all add: parsed_def u j sample_user_def hydrate_def user_row.extend_def sample_row_def is_blocked_def safe_parse_def js_or_def)
  then show ?thesis
    using udp_header_fails [OF p [simplified], of sample_user True True] by auto
qed

text \<open>The loop of \<open>createUdpForwarder\<close>: length-prefixed datagrams; it stops at an empty or incomplete one.\<close>

function udp_frames :: "byte list \<Rightarrow> byte list list" where
  "udp_frames buf =
     (if length buf < 2 then []
      else let len = unat (buf ! 0) * 256 + unat (buf ! 1) in
        if len = 0 \<or> 2 + len > length buf then []
        else take len (drop 2 buf) # udp_frames (drop (2 + len) buf))"
  by auto
termination
  by (relation "measure length") auto

declare udp_frames.simps [simp del]

definition udp_frame :: "byte list \<Rightarrow> byte list" where
  "udp_frame data = port_bytes (length data) @ data"

text \<open>
  \<open>sendDatagram\<close>: \<open>cf_sockets\<close> says whether \<open>globalThis.__cfSockets\<close> provides \<open>connect\<close>, \<open>resolved\<close> what \<open>resolveOne\<close>
  gives. The result is what is handed to a UDP socket; errors drop the datagram.
\<close>

definition connectUdp :: "bool \<Rightarrow> string \<Rightarrow> nat \<Rightarrow> (string \<times> nat) option" where
  "connectUdp cf_sockets host port = (if cf_sockets then Some (host, port) else None)"

definition sendDatagram ::
  "bool \<Rightarrow> string res \<Rightarrow> vless_header \<Rightarrow> byte list \<Rightarrow> (string \<times> nat \<times> byte list) option" where
  "sendDatagram cf_sockets resolved h packet =
     (case (if \<not> isIpv4 (vh_address h) \<and> \<not> contains_str '':'' (vh_address h) then resolved else Inr (vh_address h)) of
        Inl _ \<Rightarrow> None
      | Inr host \<Rightarrow>
          (case connectUdp cf_sockets host (vh_port h) of
             None \<Rightarrow> None
           | Some (hs, p) \<Rightarrow> Some (hs, p, packet)))"

definition createUdpForwarder ::
  "bool \<Rightarrow> string res \<Rightarrow> vless_header \<Rightarrow> byte list \<Rightarrow> (string \<times> nat \<times> byte list) list" where
  "createUdpForwarder cf_sockets resolved h chunk = List.map_filter (sendDatagram cf_sockets resolved h) (udp_frames chunk)"

text \<open>A reply: framed and sent while the WebSocket is open.\<close>

definition udp_reply :: "bool \<Rightarrow> ws_data \<Rightarrow> byte list option" where
  "udp_reply ws_open d =
     (if \<not> ws_open then None
      else Some (udp_frame (case d of WBuffer b \<Rightarrow> b | WText s \<Rightarrow> utf8_encode s | _ \<Rightarrow> utf8_encode ''[object Object]'')))"

lemma udp_frames_frame:
  assumes "0 < length d" and "length d < 65536"
  shows "udp_frames (udp_frame d @ rest) = d # udp_frames rest"
proof -
  obtain a b where p: "port_bytes (length d) = [a, b]" by (simp add: port_bytes_def)
  have v: "unat a * 256 + unat b = length d" using port_bytes_value [OF assms(2)] p by simp
  show ?thesis
    unfolding udp_frames.simps [of "udp_frame d @ rest"] using assms(1) v by (simp add: udp_frame_def p)
qed

text \<open>
  UDP framing round trip: whatever non-empty datagrams of up to 65535 bytes a peer frames into one message,
  the forwarder cuts it back into exactly those datagrams, and bytes after the last complete frame are dropped.
\<close>

theorem udp_framing_roundtrip:
  assumes "\<forall>d\<in>set ds. 0 < length d \<and> length d < 65536" and "length junk < 2"
  shows "udp_frames (concat (map udp_frame ds) @ junk) = ds \<and>
    createUdpForwarder False resolved h (concat (map udp_frame ds) @ junk) = []"
proof -
  have "udp_frames (concat (map udp_frame ds) @ junk) = ds"
    using assms
  proof (induction ds)
    case Nil
    then show ?case by (simp add: udp_frames.simps)
  next
    case (Cons d ds)
    then show ?case by (simp add: udp_frames_frame)
  qed
  moreover have "sendDatagram False resolved h = (\<lambda>_. None)"
    by (auto simp: sendDatagram_def connectUdp_def split: sum.splits)
  ultimately show ?thesis by (simp add: createUdpForwarder_def map_filter_def)
qed

theorem udp_framing_roundtrip_witness:
  "udp_frames (concat (map udp_frame [[1, 2, 3], [4]]) @ [9]) = [[1, 2, 3], [4]]"
  using udp_framing_roundtrip [of "[[1, 2, 3], [4]]" "[9]" "Inl forbidden" sample_header] by simp

subsection \<open>proxy/tunnel.js\<close>

text \<open>
  \<open>pumpDown\<close>: what the reader yields in turn, with the state of the WebSocket at that moment. The result: bytes
  counted, messages sent. A read that never settles is the end of the list; \<open>None\<close> then, since the pump has not
  returned.
\<close>

datatype read_event = RdData "byte list" bool | RdDone | RdThrow

fun pumpDown :: "nat \<Rightarrow> byte list list \<Rightarrow> read_event list \<Rightarrow> (nat \<times> byte list list) option" where
  "pumpDown down sent [] = None"
| "pumpDown down sent (RdDone # _) = Some (down, sent)"
| "pumpDown down sent (RdThrow # _) = Some (down, sent)"
| "pumpDown down sent (RdData b ws_open # es) =
     (if ws_open then pumpDown (down + length b) (sent @ [b]) es else Some (down + length b, sent))"

text \<open>
  \<open>pumpUp\<close>: the messages in order with the fate of each upstream write; every message is counted before it is
  written. It settles at the first failed write or at the close of the WebSocket, but the listener stays, so that
  messages after a failed write are still counted and written.
\<close>

datatype up_event = UpMessage ws_data bool | UpClose

definition up_bytes :: "ws_data \<Rightarrow> byte list" where
  "up_bytes d = (case d of WBuffer b \<Rightarrow> b | WText s \<Rightarrow> utf8_encode s | WView b off len \<Rightarrow> slice off (off + len) b | WBlob b \<Rightarrow> b)"

fun pumpUp :: "nat \<Rightarrow> byte list list \<Rightarrow> bool \<Rightarrow> up_event list \<Rightarrow> nat \<times> byte list list \<times> bool" where
  "pumpUp up written settled [] = (up, written, settled)"
| "pumpUp up written settled (UpClose # es) = pumpUp up written True es"
| "pumpUp up written settled (UpMessage d w_ok # es) =
     (let b = up_bytes d
      in if w_ok then pumpUp (up + length b) (written @ [b]) settled es
         else pumpUp (up + length b) written True es)"

text \<open>\<open>tunnel\<close> returns the two totals when both pumps have settled.\<close>

definition tunnel :: "read_event list \<Rightarrow> up_event list \<Rightarrow> (nat \<times> nat) option" where
  "tunnel rs us =
     (case (pumpDown 0 [] rs, pumpUp 0 [] False us) of
        (Some (down, _), (up, _, True)) \<Rightarrow> Some (up, down)
      | _ \<Rightarrow> None)"

text \<open>
  \<open>pipeDuplex\<close>: the upstream copy counts what was written and stops at the first error; the downstream copy counts
  every chunk of the remote, waits while the observed \<open>desiredSize\<close> is neither \<open>null\<close> nor positive, and then calls
  \<open>enqueue\<close> on a sink controller that has no such method: nothing reaches the client.
\<close>

fun pipe_up :: "nat \<Rightarrow> (byte list \<times> bool) list \<Rightarrow> nat" where
  "pipe_up up [] = up"
| "pipe_up up ((b, w_ok) # cs) = (if w_ok then pipe_up (up + length b) cs else up)"

fun backpressure_wait :: "jval list \<Rightarrow> nat option" where
  "backpressure_wait [] = None"
| "backpressure_wait (v # vs) =
     (if v = JNull \<or> num_lt (Fin 0) (to_num v) then Some 0 else map_option Suc (backpressure_wait vs))"

fun pipe_down :: "nat \<Rightarrow> (byte list \<times> jval list) list \<Rightarrow> nat option" where
  "pipe_down down [] = Some down"
| "pipe_down down ((b, sizes) # cs) =
     (case backpressure_wait sizes of None \<Rightarrow> None | Some _ \<Rightarrow> pipe_down (down + length b) cs)"

definition pipeDuplex :: "(byte list \<times> bool) list \<Rightarrow> (byte list \<times> jval list) list \<Rightarrow> (nat \<times> nat) option" where
  "pipeDuplex ups downs = map_option (\<lambda>d. (pipe_up 0 ups, d)) (pipe_down 0 downs)"

lemma pumpDown_counts:
  "pumpDown n sent rs = Some (down, out) \<Longrightarrow>
     \<exists>more lost. out = sent @ more \<and> down = n + length (concat more) + lost"
proof (induction n sent rs rule: pumpDown.induct)
  case (4 n sent b ws_open es)
  show ?case
  proof (cases ws_open)
    case True
    then obtain more lost where "out = (sent @ [b]) @ more" "down = n + length b + length (concat more) + lost"
      using 4 by fastforce
    then show ?thesis by (intro exI [of _ "b # more"] exI [of _ lost]) simp
  next
    case False
    then show ?thesis using "4.prems" by (intro exI [of _ "[]"] exI [of _ "length b"]) auto
  qed
qed auto

end
