(* ===== verification/Config.thy ===== *)
theory Config
  imports Net_Dns "HOL-Library.Multiset"
begin

text \<open>
  Client configuration: \<^verbatim>\<open>config/fragment.js\<close> (TLS fragment presets), \<^verbatim>\<open>config/cleanip.js\<close> (the clean-IP
  pool: deterministic pick, probing, ranking) and \<^verbatim>\<open>config/generator.js\<close> (VLESS and Trojan URIs, sing-box JSON,
  Clash YAML, the base64 subscription). The Persian labels of the presets are not modelled.
\<close>

subsection \<open>config/fragment.js\<close>

record fragment_preset =
  fp_size :: string
  fp_interval :: string
  fp_packets :: string

definition PRESETS :: "(string \<times> fragment_preset) list" where
  "PRESETS =
     [(''none'', \<lparr>fp_size = [], fp_interval = [], fp_packets = []\<rparr>),
      (''mci'', \<lparr>fp_size = ''100-200'', fp_interval = ''1-1'', fp_packets = ''tlshello''\<rparr>),
      (''irancell'', \<lparr>fp_size = ''1-3'', fp_interval = ''1-1'', fp_packets = ''tlshello''\<rparr>),
      (''rightel'', \<lparr>fp_size = ''100-200'', fp_interval = ''5-10'', fp_packets = ''tlshello''\<rparr>),
      (''tci'', \<lparr>fp_size = ''1-1'', fp_interval = ''1-1'', fp_packets = ''tlshello,sniext''\<rparr>),
      (''gaming'', \<lparr>fp_size = [], fp_interval = [], fp_packets = []\<rparr>),
      (''aggressive'', \<lparr>fp_size = ''1-100'', fp_interval = ''1-5'', fp_packets = ''tlshello,sniext,clienthello''\<rparr>)]"

definition FINGERPRINTS :: "string list" where
  "FINGERPRINTS = [''chrome'', ''safari'', ''ios'', ''android'', ''edge'', ''firefox'', ''randomized'', []]"

definition CF_TLS_PORTS :: "nat list" where
  "CF_TLS_PORTS = [443, 2053, 2083, 2087, 2096, 8443]"

definition CF_HTTP_PORTS :: "nat list" where
  "CF_HTTP_PORTS = [80, 8080, 8880, 2052, 2082, 2086, 2095]"

definition preset :: "string \<Rightarrow> fragment_preset option" where
  "preset name =
     (let p = (case map_of PRESETS name of Some p \<Rightarrow> p | None \<Rightarrow> the (map_of PRESETS ''none''))
      in if fp_size p = [] then None else Some p)"

definition preset_json :: "fragment_preset \<Rightarrow> (string \<times> jval) list" where
  "preset_json p = [(''size'', JStr (fp_size p)), (''interval'', JStr (fp_interval p)), (''packets'', JStr (fp_packets p))]"

definition presetList :: "jval list" where
  "presetList = map (\<lambda>(k, p). JObj ((''id'', JStr k) # preset_json p)) PRESETS"

definition fingerprintList :: "string list" where
  "fingerprintList = filter (\<lambda>s. s \<noteq> []) FINGERPRINTS"

definition pickPort :: "bool \<Rightarrow> nat" where
  "pickPort preferTls = (if preferTls then 443 else 80)"

subsection \<open>config/cleanip.js\<close>

definition FALLBACK :: "string list" where
  "FALLBACK = [''104.16.0.0'', ''104.17.0.0'', ''104.18.0.0'', ''172.66.0.0'', ''188.114.96.0'']"

text \<open>The xorshift step: JavaScript's bitwise operators work on 32 bits, \<open>>>>\<close> shifts in zeros.\<close>

unbundle bit_operations_syntax

definition xorshift :: "32 word \<Rightarrow> 32 word" where
  "xorshift s =
     (let s1 = s XOR push_bit 13 s; s2 = s1 XOR drop_bit 17 s1 in s2 XOR push_bit 5 s2)"

text \<open>\<open>Math.abs(s % 1e9) / 1e9\<close>, \<open>s\<close> read as a signed integer.\<close>

definition rnd_of :: "32 word \<Rightarrow> num" where
  "rnd_of s = of_int (\<bar>sint s\<bar> mod 1000000000) / 1000000000"

definition splice_at :: "nat \<Rightarrow> 'a list \<Rightarrow> 'a list" where
  "splice_at i xs = take i xs @ drop (Suc i) xs"

fun pick_loop :: "nat \<Rightarrow> 32 word \<Rightarrow> 'a list \<Rightarrow> 'a list" where
  "pick_loop 0 s copy = []"
| "pick_loop (Suc n) s copy =
     (if copy = [] then []
      else let s' = xorshift s; i = nat \<lfloor>rnd_of s' * of_nat (length copy)\<rfloor>
           in copy ! i # pick_loop n s' (splice_at i copy))"

definition pickCleanIps :: "string list \<Rightarrow> nat \<Rightarrow> int \<Rightarrow> string list" where
  "pickCleanIps pool cnt seed = pick_loop cnt (word_of_int seed) (if pool = [] then FALLBACK else pool)"

text \<open>\<open>probeIp\<close>: \<open>None\<close> for the fetch stands for a network error or the timeout, otherwise whether \<open>res.ok\<close>.\<close>

definition probeIp :: "bool option \<Rightarrow> num \<Rightarrow> num \<Rightarrow> num option" where
  "probeIp fetched started finished =
     (case fetched of None \<Rightarrow> None | Some is_ok \<Rightarrow> if is_ok then Some (finished - started) else None)"

text \<open>\<open>Array.prototype.slice\<close> with its treatment of negative bounds; fractions are truncated.\<close>

definition js_trunc :: "num \<Rightarrow> int" where
  "js_trunc q = (if 0 \<le> q then \<lfloor>q\<rfloor> else \<lceil>q\<rceil>)"

definition slice_bound :: "nat \<Rightarrow> int \<Rightarrow> nat" where
  "slice_bound len k = (if k < 0 then nat (int len + k) else min (nat k) len)"

definition js_slice :: "int \<Rightarrow> int \<Rightarrow> 'a list \<Rightarrow> 'a list" where
  "js_slice a b xs = take (slice_bound (length xs) b - slice_bound (length xs) a) (drop (slice_bound (length xs) a) xs)"

text \<open>The slices of \<open>for (let i = 0; i < pool.length; i += concurrency)\<close>; \<open>None\<close> when the loop does not end.\<close>

partial_function (option) slices_from :: "num \<Rightarrow> 'a list \<Rightarrow> num \<Rightarrow> 'a list list option" where
  "slices_from conc pool i =
     (if i < of_nat (length pool)
      then Option.bind (slices_from conc pool (i + conc)) (\<lambda>r. Some (js_slice (js_trunc i) (js_trunc (i + conc)) pool # r))
      else Some [])"

fun pool_slices :: "jsnum \<Rightarrow> 'a list \<Rightarrow> 'a list list option" where
  "pool_slices (Fin c) pool = slices_from c pool 0"
| "pool_slices PInf pool = Some (if pool = [] then [] else [pool])"
| "pool_slices NaN pool = Some []"
| "pool_slices NInf pool = (if pool = [] then Some [] else None)"

definition rankPool :: "('a \<Rightarrow> num option) \<Rightarrow> jsnum \<Rightarrow> 'a list \<Rightarrow> 'a list option" where
  "rankPool probe concurrency pool =
     map_option
       (\<lambda>slices. map fst (sort_by (\<lambda>a b. snd a \<le> snd b)
          (List.map_filter (\<lambda>ip. map_option (Pair ip) (probe ip)) (concat slices))))
       (pool_slices concurrency pool)"

subsection \<open>config/generator.js\<close>

definition TLS_PORTS :: "jsnum list" where
  "TLS_PORTS = map (\<lambda>n. Fin (of_nat n)) [443, 8443, 2053, 2083, 2087, 2096]"

record node_item =
  it_uuid :: jval
  it_host :: string
  it_address :: jval
  it_port :: jsnum
  it_path :: string
  it_fingerprint :: jval
  it_remark :: string

definition set_if :: "jval \<Rightarrow> string \<Rightarrow> (string \<times> string) list \<Rightarrow> (string \<times> string) list" where
  "set_if v k q = (if truthy v then set_header k (to_str v) q else q)"

definition fragment_params :: "jval \<Rightarrow> (string \<times> string) list \<Rightarrow> (string \<times> string) list" where
  "fragment_params f q =
     (if truthy f
      then set_if (fld f ''interval'') ''fragmentInterval''
             (set_header ''fragmentPackets'' (to_str (js_or (fld f ''packets'') (JStr ''tlshello'')))
               (set_header ''fragment'' (to_str (js_or (fld f ''size'') (JStr ''100-200''))) q))
      else q)"

definition reality_params :: "jval \<Rightarrow> (string \<times> string) list \<Rightarrow> (string \<times> string) list" where
  "reality_params opts q =
     (if truthy (fld opts ''pbk'')
      then set_header ''security'' ''reality''
             (set_header ''spx'' (to_str (js_or (fld opts ''spx'') (JStr ''/'')))
               (set_header ''sid'' (to_str (js_or (fld opts ''sid'') (JStr [])))
                 (set_header ''pbk'' (to_str (fld opts ''pbk'')) q)))
      else q)"

definition mask_params :: "string \<Rightarrow> jval \<Rightarrow> (string \<times> string) list \<Rightarrow> (string \<times> string) list" where
  "mask_params host m q =
     (if truthy m
      then set_header ''maskSni'' (to_str (js_or (fld m ''sni'') (JStr host)))
             (set_header ''mask'' (to_str (js_or (fld m ''host'') (JStr host))) q)
      else q)"

definition vless_params :: "string \<Rightarrow> string \<Rightarrow> jsnum \<Rightarrow> string \<Rightarrow> jval \<Rightarrow> (string \<times> string) list" where
  "vless_params uuid host port path opts =
     (let q0 = [(''encryption'', ''none''), (''security'', if port \<in> set TLS_PORTS then ''tls'' else []), (''type'', ''ws''),
                (''host'', host), (''sni'', host), (''alpn'', ''http/1.1''),
                (''path'', if path \<noteq> [] then path else ''/'' @ uuid)];
          q1 = set_if (fld opts ''fingerprint'') ''fp'' q0;
          q2 = (if truthy (fld opts ''mux'')
                then set_header ''xmux'' ''maxStreams=8'' (set_header ''mux'' (to_str (fld opts ''mux'')) q1) else q1);
          q3 = reality_params opts q2;
          q4 = fragment_params (fld opts ''fragment'') q3;
          q5 = set_if (fld opts ''cs'') ''cs'' (set_if (fld opts ''fm'') ''fm'' q4)
      in mask_params host (fld opts ''mask'') q5)"

definition vlessUri :: "string \<Rightarrow> string \<Rightarrow> jval \<Rightarrow> jsnum \<Rightarrow> string \<Rightarrow> jval \<Rightarrow> string" where
  "vlessUri uuid host address port path opts =
     ''vless://'' @ uuid @ ''@'' @ to_str (js_or address (JStr host)) @ '':'' @ show_jsnum port @ ''?'' @
     query_string (vless_params uuid host port path opts) @ ''#'' @
     encodeURIComponent (to_str (js_or (fld opts ''remark'') (JStr host)))"

definition trojanUri :: "string \<Rightarrow> string \<Rightarrow> jval \<Rightarrow> jsnum \<Rightarrow> string \<Rightarrow> jval \<Rightarrow> string" where
  "trojanUri password host address port path opts =
     ''trojan://'' @ password @ ''@'' @ to_str (js_or address (JStr host)) @ '':'' @ show_jsnum port @ ''?'' @
     query_string (set_if (fld opts ''fingerprint'') ''fp''
       [(''security'', if port \<in> set TLS_PORTS then ''tls'' else []), (''type'', ''ws''), (''host'', host), (''sni'', host),
        (''alpn'', ''http/1.1''), (''path'', if path \<noteq> [] then path else ''/'' @ password)]) @ ''#'' @
     encodeURIComponent (to_str (js_or (fld opts ''remark'') (JStr host)))"

definition item_path :: "node_item \<Rightarrow> string" where
  "item_path it = (if it_path it \<noteq> [] then it_path it else ''/'' @ to_str (it_uuid it))"

definition singbox_tag :: "nat \<Rightarrow> node_item \<Rightarrow> string" where
  "singbox_tag i it = (if it_remark it \<noteq> [] then it_remark it else ''node-'' @ show_nat i)"

text \<open>The items never carry \<open>mux\<close>, so that \<open>multiplex\<close> is always undefined and dropped by the serialiser.\<close>

definition singbox_outbound :: "nat \<Rightarrow> node_item \<Rightarrow> jval" where
  "singbox_outbound i it = JObj
     [(''type'', JStr ''vless''), (''tag'', JStr (singbox_tag i it)),
      (''server'', js_or (it_address it) (JStr (it_host it))), (''server_port'', JNum (it_port it)), (''uuid'', it_uuid it),
      (''tls'', JObj [(''enabled'', JBool True), (''server_name'', JStr (it_host it)),
         (''utls'', if truthy (it_fingerprint it) then JObj [(''enabled'', JBool True), (''fingerprint'', it_fingerprint it)] else JUndef),
         (''insecure'', JBool False)]),
      (''transport'', JObj [(''type'', JStr ''ws''), (''path'', JStr (item_path it)), (''headers'', JObj [(''Host'', JStr (it_host it))]),
         (''max_early_data'', JInt 2048), (''early_data_header_name'', JStr ''Sec-WebSocket-Protocol'')]),
      (''multiplex'', JUndef)]"

definition singBoxConfig :: "node_item list \<Rightarrow> jval" where
  "singBoxConfig items =
     (let outs = map (\<lambda>(i, it). singbox_outbound i it) (enumerate 0 items);
          tags = map (\<lambda>o'. fld o' ''tag'') outs
      in JObj
        [(''log'', JObj [(''level'', JStr ''warn''), (''timestamp'', JBool True)]),
         (''dns'', JObj
            [(''servers'', JArr
               [JObj [(''tag'', JStr ''remote''), (''address'', JStr ''https://8.8.8.8/dns-query''), (''detour'', JStr ''select'')],
                JObj [(''tag'', JStr ''direct''), (''address'', JStr ''https://cloudflare-dns.com/dns-query''), (''detour'', JStr ''direct'')],
                JObj [(''tag'', JStr ''block''), (''address'', JStr ''rcode://success'')]]),
             (''rules'', JArr [JObj [(''outbound'', JStr ''any''), (''server'', JStr ''direct'')]]),
             (''final'', JStr ''remote'')]),
         (''inbounds'', JArr
            [JObj [(''type'', JStr ''tun''), (''tag'', JStr ''tun-in''), (''inet4_address'', JStr ''172.19.0.1/30''),
                   (''auto_route'', JBool True), (''strict_route'', JBool True), (''stack'', JStr ''system'')]]),
         (''outbounds'', JArr
            ([JObj [(''type'', JStr ''selector''), (''tag'', JStr ''select''), (''outbounds'', JArr (JStr ''auto'' # tags))],
              JObj [(''type'', JStr ''urltest''), (''tag'', JStr ''auto''), (''outbounds'', JArr tags),
                    (''url'', JStr ''https://cp.cloudflare.com''), (''interval'', JStr ''3m'')],
              JObj [(''type'', JStr ''direct''), (''tag'', JStr ''direct'')],
              JObj [(''type'', JStr ''block''), (''tag'', JStr ''block'')],
              JObj [(''type'', JStr ''dns''), (''tag'', JStr ''dns-out'')]] @ outs)),
         (''route'', JObj
            [(''rules'', JArr
               [JObj [(''protocol'', JStr ''dns''), (''outbound'', JStr ''dns-out'')],
                JObj [(''ip_is_private'', JBool True), (''outbound'', JStr ''direct'')],
                JObj [(''domain_suffix'', JArr [JStr ''.ir'', JStr ''.melli'']), (''outbound'', JStr ''direct'')]]),
             (''final'', JStr ''select''), (''auto_detect_interface'', JBool True)])])"

definition yaml_esc :: "string \<Rightarrow> string" where
  "yaml_esc s = [CHR 0x22] @ concat (map (\<lambda>c. if c = CHR 0x22 then [CHR 0x5C, CHR 0x22] else [c]) s) @ [CHR 0x22]"

definition clash_name :: "node_item \<Rightarrow> string" where
  "clash_name it = (if it_remark it \<noteq> [] then it_remark it else it_host it @ ''-'' @ show_jsnum (it_port it))"

definition clash_proxy :: "node_item \<Rightarrow> string list" where
  "clash_proxy it =
     [''  - name: '' @ yaml_esc (clash_name it), ''    type: vless'',
      ''    server: '' @ yaml_esc (to_str (js_or (it_address it) (JStr (it_host it)))),
      ''    port: '' @ show_jsnum (it_port it), ''    uuid: '' @ yaml_esc (to_str (it_uuid it)), ''    tls: true'',
      ''    servername: '' @ yaml_esc (it_host it),
      ''    client-fingerprint: '' @ yaml_esc (to_str (js_or (it_fingerprint it) (JStr ''chrome''))),
      ''    network: ws'', ''    ws-opts:'', ''      path: '' @ yaml_esc (item_path it), ''      max-early-data: 2048'',
      ''      early-data-header-name: Sec-WebSocket-Protocol'', ''      headers:'',
      ''        Host: '' @ yaml_esc (it_host it)]"

definition clashYaml :: "node_item list \<Rightarrow> string" where
  "clashYaml items = join_with [CHR 0x0A]
     ([''mixed-port: 7890'', ''allow-lan: false'', ''mode: rule'', ''log-level: warning'', ''proxies:''] @
      concat (map clash_proxy items) @
      [''proxy-groups:'', ''  - name: '' @ yaml_esc ''SELECT'', ''    type: select'', ''    proxies:''] @
      map (\<lambda>it. ''      - '' @ yaml_esc (clash_name it)) items @
      [''rules:'', ''  - DOMAIN-SUFFIX,ir,DIRECT'', ''  - GEOIP,IR,DIRECT'', ''  - MATCH,SELECT''])"

text \<open>\<open>btoa(unescape(encodeURIComponent(s)))\<close> is the base64 text of the UTF-8 bytes of \<open>s\<close>.\<close>

definition base64Subscription :: "string list \<Rightarrow> string" where
  "base64Subscription uris = btoa (utf8_encode (join_with [CHR 0x0A] uris))"

definition subscriptionInfoHeader :: "num \<Rightarrow> jsnum \<Rightarrow> num option \<Rightarrow> string" where
  "subscriptionInfoHeader used quota expireAt =
     join_with '';'' ([''upload=0'', ''download='' @ show_num used, ''total='' @ show_jsnum quota] @
       (case expireAt of None \<Rightarrow> [] | Some t \<Rightarrow> if t = 0 then [] else [''expire='' @ show_int \<lfloor>t / 1000\<rfloor>]))"

subsection \<open>The clean-IP pool\<close>

lemma rnd_of_range: "0 \<le> rnd_of s \<and> rnd_of s < 1"
proof -
  have "\<bar>sint s\<bar> mod 1000000000 < 1000000000" "0 \<le> \<bar>sint s\<bar> mod 1000000000" by simp_all
  then have "of_int (\<bar>sint s\<bar> mod 1000000000) < (1000000000 :: num)" "0 \<le> (of_int (\<bar>sint s\<bar> mod 1000000000) :: num)"
    by (metis of_int_less_iff of_int_numeral, simp)
  then show ?thesis by (simp add: rnd_of_def)
qed

lemma length_splice_at: "i < length xs \<Longrightarrow> length (splice_at i xs) = length xs - 1"
  by (simp add: splice_at_def)

lemma mset_splice_at: "i < length xs \<Longrightarrow> mset xs = add_mset (xs ! i) (mset (splice_at i xs))"
  by (metis splice_at_def add_mset_add_single id_take_nth_drop mset.simps(2) mset_append union_mset_add_mset_right)

lemma pick_loop_spec: "mset (pick_loop n s copy) \<subseteq># mset copy \<and> length (pick_loop n s copy) = min n (length copy)"
proof (induction n s copy rule: pick_loop.induct)
  case (2 n s copy)
  show ?case
  proof (cases "copy = []")
    case False
    let ?s = "xorshift s" let ?i = "nat \<lfloor>rnd_of ?s * of_nat (length copy)\<rfloor>"
    have i: "?i < length copy" using pick_in_range [OF False] rnd_of_range [of ?s] by blast
    have "mset (pick_loop n ?s (splice_at ?i copy)) \<subseteq># mset (splice_at ?i copy) \<and>
        length (pick_loop n ?s (splice_at ?i copy)) = min n (length (splice_at ?i copy))"
      using 2 [OF False] by simp
    then show ?thesis
      using i False mset_splice_at [OF i] length_splice_at [OF i]
      by (auto simp: Let_def)
  qed simp
qed simp

text \<open>
  \<open>pickCleanIps\<close> returns a selection without repetition of positions: as a multiset it is contained in the pool
  (the built-in list when the pool is empty), and it has exactly as many entries as asked for or as the pool has,
  whatever the seed.
\<close>

theorem pickCleanIps_selects:
  "mset (pickCleanIps pool cnt seed) \<subseteq># mset (if pool = [] then FALLBACK else pool) \<and>
   length (pickCleanIps pool cnt seed) = min cnt (length (if pool = [] then FALLBACK else pool))"
  unfolding pickCleanIps_def by (rule pick_loop_spec)

text \<open>With a negative step the loop of \<open>rankPool\<close> never reaches its bound.\<close>

lemma slices_from_neg:
  assumes "slices_from conc pool i = Some r"
  shows "conc < 0 \<longrightarrow> \<not> i < of_nat (length pool)"
proof (rule slices_from.raw_induct [OF _ assms])
  fix sf :: "num \<Rightarrow> 'a list \<Rightarrow> num \<Rightarrow> 'a list list option" and conc pool i r
  assume IH: "\<And>conc pool i r. sf conc pool i = Some r \<Longrightarrow> conc < 0 \<longrightarrow> \<not> i < of_nat (length pool)"
    and step: "(if i < of_nat (length pool)
      then Option.bind (sf conc pool (i + conc)) (\<lambda>r. Some (js_slice (js_trunc i) (js_trunc (i + conc)) pool # r))
      else Some []) = Some r"
  show "conc < 0 \<longrightarrow> \<not> i < of_nat (length pool)"
  proof (intro impI notI)
    assume "conc < 0" and i: "i < of_nat (length pool)"
    then obtain r' where "sf conc pool (i + conc) = Some r'" using step by (auto simp: Option.bind_eq_Some_conv)
    then have "\<not> i + conc < of_nat (length pool)" using IH \<open>conc < 0\<close> by blast
    then show False using i \<open>conc < 0\<close> by linarith
  qed
qed

lemma js_slice_nat:
  "a \<le> b \<Longrightarrow> a \<le> length xs \<Longrightarrow> js_slice (int a) (int b) xs = take (b - a) (drop a xs)"
  by (auto simp: js_slice_def slice_bound_def min_def)

lemma slices_from_pos:
  assumes "0 < c" and "k * c \<le> length pool + c"
  shows "slices_from (of_nat c) pool (of_nat (k * c)) = Some (chunks c (drop (k * c) pool))"
  using assms
proof (induction "length pool - k * c" arbitrary: k rule: less_induct)
  case less
  show ?case
  proof (cases "k * c < length pool")
    case True
    have e: "of_nat (k * c) + of_nat c = (of_nat (Suc k * c) :: num)" by simp
    have "slices_from (of_nat c) pool (of_nat (Suc k * c)) = Some (chunks c (drop (Suc k * c) pool))"
      using True less.prems by (intro less.hyps) (auto simp: less_imp_le)
    moreover have "js_slice (js_trunc (of_nat (k * c))) (js_trunc (of_nat (Suc k * c))) pool = take c (drop (k * c) pool)"
    proof -
      have "js_trunc (of_nat n) = int n" for n by (simp add: js_trunc_def)
      then show ?thesis using True js_slice_nat [of "k * c" "Suc k * c" pool] by (simp only:) simp
    qed
    moreover have "chunks c (drop (k * c) pool) = take c (drop (k * c) pool) # chunks c (drop (Suc k * c) pool)"
      using True less.prems by (subst chunks.simps) (simp add: add.commute)
    moreover have "(of_nat (k * c) :: num) < of_nat (length pool)" using True by (simp only: of_nat_less_iff)
    ultimately show ?thesis
      by (subst slices_from.simps) (simp only: e if_True Option.bind.bind_lunit)
  next
    case False
    then have "\<not> (of_nat (k * c) :: num) < of_nat (length pool)" by (simp only: of_nat_less_iff not_False_eq_True)
    then show ?thesis using False by (subst slices_from.simps) (simp only: if_False, simp)
  qed
qed

lemma pool_slices_pos: "0 < c \<Longrightarrow> pool_slices (Fin (of_nat c)) pool = Some (chunks c pool)"
  using slices_from_pos [of c 0 pool] by simp

interpretation lat: total_preorder "\<lambda>a b :: 'a \<times> num. snd a \<le> snd b"
  by unfold_locales auto

lemma set_map_filter_probe: "set (List.map_filter (\<lambda>ip. map_option (Pair ip) (probe ip)) xs) = {(ip, t). ip \<in> set xs \<and> probe ip = Some t}"
  by (induction xs) (auto simp: map_filter_simps split: option.splits)

lemma sorted_wrt_map_fst:
  "\<forall>(a, t)\<in>set xs. f a = Some t \<Longrightarrow> sorted_wrt (\<lambda>a b. snd a \<le> snd b) xs \<Longrightarrow>
   sorted_wrt (\<lambda>a b. the (f a) \<le> (the (f b) :: num)) (map fst xs)"
  by (induction xs) fastforce+

text \<open>
  \<open>rankPool\<close> with a positive integer concurrency returns exactly the addresses that answered the probe, as many
  times as they occur, ordered by latency, whatever the concurrency; with a negative one, which \<open>rankIps\<close> passes on
  from the request body, it never returns for a non-empty pool.
\<close>

theorem rankPool_ranks_or_hangs:
  "(0 < c \<longrightarrow> (\<exists>r. rankPool probe (Fin (of_nat c)) pool = Some r \<and>
      set r = {ip \<in> set pool. probe ip \<noteq> None} \<and> length r = length (filter (\<lambda>ip. probe ip \<noteq> None) pool) \<and>
      sorted_wrt (\<lambda>a b. the (probe a) \<le> the (probe b)) r)) \<and>
   (q < 0 \<and> pool \<noteq> [] \<longrightarrow> rankPool probe (Fin q) pool = None)"
proof (intro conjI impI)
  assume c: "0 < c"
  let ?xs = "List.map_filter (\<lambda>ip. map_option (Pair ip) (probe ip)) pool"
  let ?r = "map fst (sort_by (\<lambda>a b. snd a \<le> snd b) ?xs)"
  have "rankPool probe (Fin (of_nat c)) pool = Some ?r"
    unfolding rankPool_def pool_slices_pos [OF c] by (simp add: concat_chunks c)
  moreover have "set ?r = {ip \<in> set pool. probe ip \<noteq> None}"
    by (auto simp: set_map_filter_probe image_iff)
  moreover have "length ?r = length (filter (\<lambda>ip. probe ip \<noteq> None) pool)"
    by (induction pool) (auto simp: map_filter_simps split: option.splits)
  moreover have "sorted_wrt (\<lambda>a b. the (probe a) \<le> the (probe b)) ?r"
    by (rule sorted_wrt_map_fst [OF _ lat.sort_by_sorted]) (auto simp: set_map_filter_probe)
  ultimately show "\<exists>r. rankPool probe (Fin (of_nat c)) pool = Some r \<and> set r = {ip \<in> set pool. probe ip \<noteq> None} \<and>
      length r = length (filter (\<lambda>ip. probe ip \<noteq> None) pool) \<and> sorted_wrt (\<lambda>a b. the (probe a) \<le> the (probe b)) r"
    by blast
next
  assume "q < 0 \<and> pool \<noteq> []"
  then have "pool_slices (Fin q) pool = None"
    using slices_from_neg [of q pool 0] by (cases "slices_from q pool 0") auto
  then show "rankPool probe (Fin q) pool = None" by (simp add: rankPool_def)
qed

theorem rankPool_ranks_or_hangs_witness:
  "(\<exists>r. rankPool (\<lambda>ip. if ip = ''b'' then None else Some 3) (Fin 2) [''a'', ''b'', ''c''] = Some r \<and> set r = {''a'', ''c''}) \<and>
   rankPool (\<lambda>ip. if ip = ''b'' then None else Some 3) (Fin (-1)) [''a'', ''b'', ''c''] = None"
proof -
  let ?p = "\<lambda>ip :: string. if ip = ''b'' then None else Some (3 :: num)"
  have s: "{ip \<in> set [''a'', ''b'', ''c'']. ?p ip \<noteq> None} = {''a'', ''c''}" by auto
  have n: "(of_nat 2 :: num) = 2" by simp
  show ?thesis
    using rankPool_ranks_or_hangs [of 2 ?p "[''a'', ''b'', ''c'']" "-1", unfolded s n] by simp blast
qed

end
