(* ===== verification/Auth_Session.thy ===== *)
theory Auth_Session
  imports Db
begin

unbundle bit_operations_syntax

text \<open>
  \<^verbatim>\<open>auth/session.js\<close>: password hashing with chained PBKDF2, and HMAC-signed session cookies backed by
  a revocable row. State is the database with the isolate's cached signing key (\<open>key_state\<close>).
  Results: a stored hash verifies exactly the passwords that derive the same bits; a cookie verifies
  only with the right signature and a live row; creation and verification round trip; revocation is final.
\<close>

subsection \<open>Passwords\<close>

definition PBKDF2_MAX_ITERATIONS :: nat where
  "PBKDF2_MAX_ITERATIONS = 100000"

definition PBKDF2_ITERATIONS :: nat where
  "PBKDF2_ITERATIONS = PBKDF2_MAX_ITERATIONS"

definition PBKDF2_ROUNDS :: nat where
  "PBKDF2_ROUNDS = 2"

definition pbkdf2 :: "platform \<Rightarrow> byte list \<Rightarrow> byte list \<Rightarrow> nat \<Rightarrow> byte list res" where
  "pbkdf2 P input salt iterations =
     (if PBKDF2_MAX_ITERATIONS < iterations then Inl (JsError ''PBKDF2 iterations exceed the workerd cap'')
      else Inr (p_pbkdf2 P input salt iterations))"

text \<open>The loop of \<open>derive\<close>: \<open>todo\<close> rounds are left, \<open>r\<close> is the index of the next one.\<close>

fun derive_loop :: "platform \<Rightarrow> byte list \<Rightarrow> nat \<Rightarrow> nat \<Rightarrow> nat \<Rightarrow> byte list \<Rightarrow> byte list \<Rightarrow> byte list res" where
  "derive_loop P salt iterations 0 r input out = Inr out"
| "derive_loop P salt iterations (Suc todo) r input out =
     res_bind (pbkdf2 P input (salt @ [word_of_nat r AND 0xff]) iterations)
       (\<lambda>out'. derive_loop P salt iterations todo (Suc r) out' out')"

definition derive :: "platform \<Rightarrow> string \<Rightarrow> byte list \<Rightarrow> nat \<Rightarrow> nat \<Rightarrow> byte list res" where
  "derive P password salt rounds iterations =
     derive_loop P salt iterations rounds 0 (utf8_encode password) (replicate 32 0)"

definition deriveLegacy :: "platform \<Rightarrow> string \<Rightarrow> byte list \<Rightarrow> nat \<Rightarrow> byte list res" where
  "deriveLegacy P password salt iterations = pbkdf2 P (utf8_encode password) salt iterations"

definition hashPassword :: "platform \<Rightarrow> byte list \<Rightarrow> string \<Rightarrow> string res" where
  "hashPassword P salt password =
     res_bind (derive P password salt PBKDF2_ROUNDS PBKDF2_ITERATIONS)
       (\<lambda>bits. Inr (''pbkdf2$'' @ show_nat PBKDF2_ROUNDS @ ''x'' @ show_nat PBKDF2_ITERATIONS @ ''$'' @
                    b64u_encode salt @ ''$'' @ b64u_encode bits))"

definition decode_or_throw :: "string \<Rightarrow> byte list res" where
  "decode_or_throw s = (case b64u_decode s of Some b \<Rightarrow> Inr b | None \<Rightarrow> Inl (JsError ''InvalidCharacterError''))"

definition pos_int :: "jsnum \<Rightarrow> nat option" where
  "pos_int n = (case n of Fin q \<Rightarrow> if is_int q \<and> 0 < q then Some (nat \<lfloor>q\<rfloor>) else None | _ \<Rightarrow> None)"

definition verifyPassword :: "platform \<Rightarrow> string \<Rightarrow> string option \<Rightarrow> bool res" where
  "verifyPassword P password stored =
     (case stored of None \<Rightarrow> Inr False | Some st \<Rightarrow>
      if st = [] then Inr False
      else (case split_on CHR ''$'' st of
        [tag, params, saltB64, hashB64] \<Rightarrow>
          if tag \<noteq> ''pbkdf2'' then Inr False
          else res_bind (decode_or_throw saltB64) (\<lambda>salt.
            let chained = contains_str ''x'' params;
                ns = map str_to_num (split_on CHR ''x'' params);
                rounds = pos_int (if chained then ns ! 0 else Fin 1);
                iters = pos_int (if chained then ns ! 1 else str_to_num params)
            in case (rounds, iters) of
                 (Some r, Some i) \<Rightarrow>
                   if PBKDF2_MAX_ITERATIONS < i \<or> 64 < r then Inr False
                   else res_bind (if chained then derive P password salt r i else deriveLegacy P password salt i)
                     (\<lambda>a. res_bind (decode_or_throw hashB64) (\<lambda>b.
                        if length a \<noteq> length b then Inr False else Inr (ct_diff 0 a b = 0)))
               | _ \<Rightarrow> Inr False)
      | _ \<Rightarrow> Inr False))"

subsection \<open>Sessions\<close>

definition hmac :: "platform \<Rightarrow> string \<Rightarrow> string \<Rightarrow> byte list" where
  "hmac P secret data = p_hmac P (utf8_encode secret) (utf8_encode data)"

definition SESSION_COOKIE :: string where
  "SESSION_COOKIE = ''kaveh_session''"

definition sha8 :: "platform \<Rightarrow> string \<Rightarrow> string" where
  "sha8 P s = hex_bytes (take 8 (p_sha256 P (utf8_encode s)))"

definition opt_hash :: "platform \<Rightarrow> string option \<Rightarrow> string option" where
  "opt_hash P x = (case x of None \<Rightarrow> None | Some s \<Rightarrow> if s = [] then None else Some (sha8 P s))"

record session_out =
  so_id :: string
  so_token :: string
  so_expiresAt :: num

definition session_payload :: "string \<Rightarrow> string \<Rightarrow> string \<Rightarrow> num \<Rightarrow> num \<Rightarrow> jval" where
  "session_payload sid subject role expiry iat =
     JObj [(''id'', JStr sid), (''sub'', JStr subject), (''role'', JStr role),
           (''exp'', JNum (Fin expiry)), (''iat'', JNum (Fin iat))]"

definition insert_session :: "session_row \<Rightarrow> db stmt" where
  "insert_session row d =
     (if ss_id row \<in> ss_id ` set (db_sessions d) then Inl (JsError ''UNIQUE constraint failed: sessions.id'')
      else Inr (d\<lparr>db_sessions := db_sessions d @ [row]\<rparr>))"

definition createSession ::
  "platform \<Rightarrow> env \<Rightarrow> num \<Rightarrow> entropy \<Rightarrow> string \<Rightarrow> string \<Rightarrow> string option \<Rightarrow> string option \<Rightarrow> num
     \<Rightarrow> (key_state, session_out) act" where
  "createSession P E now en subject role ip ua ttlMs =
     (let body = b64u_encode (utf8_encode (json_stringify
                   (session_payload (en_uuid en) subject role (now + ttlMs) now)))
      in act_bind (signingKey E now (en_key en)) (\<lambda>key.
         let sig = b64u_encode (hmac P key body);
             row = \<lparr>ss_id = en_uuid en, ss_subject = subject, ss_role = role, ss_created_at = now,
                    ss_expires_at = now + ttlMs, ss_ip_hash = opt_hash P ip, ss_ua_hash = opt_hash P ua\<rparr>
         in (\<lambda>(d, c). case insert_session row d of
               Inl e \<Rightarrow> (Inl e, (d, c))
             | Inr d' \<Rightarrow>
                 (Inr \<lparr>so_id = en_uuid en, so_token = body @ ''.'' @ sig, so_expiresAt = now + ttlMs\<rparr>,
                  (d', c)))))"

text \<open>What a verified cookie yields; the fields come from the signed payload.\<close>

record session =
  se_id :: jval
  se_subject :: jval
  se_role :: jval

definition timingSafeEqual :: "byte list \<Rightarrow> byte list \<Rightarrow> bool" where
  "timingSafeEqual a b = (if length a \<noteq> length b then False else ct_diff 0 a b = 0)"

interpretation tse: constant_time_eq timingSafeEqual
  by unfold_locales (auto simp: timingSafeEqual_def ct_diff_zero)

definition cookie_value :: "string \<Rightarrow> string option" where
  "cookie_value cookieHeader =
     map_option (drop (length SESSION_COOKIE + 1))
       (find (starts_with (SESSION_COOKIE @ ''='')) (map trim (split_on CHR '';'' cookieHeader)))"

definition live_row :: "platform \<Rightarrow> num \<Rightarrow> jval \<Rightarrow> db \<Rightarrow> bool res" where
  "live_row P now sid d =
     (case p_bind P sid of
        None \<Rightarrow> Inl (JsError ''D1_TYPE_ERROR'')
      | Some v \<Rightarrow> Inr (\<exists>r\<in>set (db_sessions d). JStr (ss_id r) = v \<and> now < ss_expires_at r))"

definition verifySession ::
  "platform \<Rightarrow> env \<Rightarrow> num \<Rightarrow> byte list \<Rightarrow> string option \<Rightarrow> (key_state, session option) act" where
  "verifySession P E now keybytes cookieHeader =
     (case cookieHeader of None \<Rightarrow> act_ret None | Some h \<Rightarrow>
      if h = [] then act_ret None
      else (case cookie_value h of
        None \<Rightarrow> act_ret None
      | Some token \<Rightarrow>
          (case split_on CHR ''.'' token of
             body # sig # _ \<Rightarrow>
               if body = [] \<or> sig = [] then act_ret None
               else act_bind (signingKey E now keybytes) (\<lambda>key.
                 act_bind (act_lift (decode_or_throw (b64u_encode (hmac P key body)))) (\<lambda>expct.
                 act_bind (act_lift (decode_or_throw sig)) (\<lambda>given.
                   if \<not> timingSafeEqual expct given then act_ret None
                   else (case (case b64u_decode body of None \<Rightarrow> None | Some b \<Rightarrow> json_parse (p_decode P b)) of
                     None \<Rightarrow> act_ret None
                   | Some payload \<Rightarrow>
                       let expiry = fld payload ''exp'' in
                       if \<not> truthy expiry \<or> num_lt (to_num expiry) (Fin now) then act_ret None
                       else act_bind (act_get fst) (\<lambda>d.
                         act_bind (act_lift (live_row P now (fld payload ''id'') d)) (\<lambda>live.
                           if \<not> live then act_ret None
                           else act_ret (Some \<lparr>se_id = fld payload ''id'', se_subject = fld payload ''sub'',
                                               se_role = fld payload ''role''\<rparr>)))))))
           | _ \<Rightarrow> act_ret None)))"

definition destroySession :: "string \<Rightarrow> db \<Rightarrow> db" where
  "destroySession sid d = d\<lparr>db_sessions := filter (\<lambda>r. ss_id r \<noteq> sid) (db_sessions d)\<rparr>"

definition destroyAllSessions :: "string option \<Rightarrow> db \<Rightarrow> db" where
  "destroyAllSessions subject d =
     (case subject of
        Some sub \<Rightarrow> if sub = [] then d\<lparr>db_sessions := []\<rparr>
                    else d\<lparr>db_sessions := filter (\<lambda>r. ss_subject r \<noteq> sub) (db_sessions d)\<rparr>
      | None \<Rightarrow> d\<lparr>db_sessions := []\<rparr>)"

definition purgeExpiredSessions :: "num \<Rightarrow> db \<Rightarrow> db" where
  "purgeExpiredSessions now d = d\<lparr>db_sessions := filter (\<lambda>r. \<not> ss_expires_at r < now) (db_sessions d)\<rparr>"

definition sessionCookie :: "string \<Rightarrow> num \<Rightarrow> bool \<Rightarrow> string" where
  "sessionCookie token ttlSec secure =
     join_with ''; '' (filter (\<lambda>s. s \<noteq> [])
       [SESSION_COOKIE @ ''='' @ token, ''Path=/'', ''HttpOnly'', (if secure then ''Secure'' else []),
        ''SameSite=Strict'', ''Max-Age='' @ show_num ttlSec])"

definition clearSessionCookie :: string where
  "clearSessionCookie = SESSION_COOKIE @ ''=; Path=/; HttpOnly; Secure; SameSite=Strict; Max-Age=0''"

definition requireRole :: "session option \<Rightarrow> string list \<Rightarrow> unit res" where
  "requireRole s roles =
     (case s of
        None \<Rightarrow> Inl unauthorized
      | Some se \<Rightarrow> if se_role se \<in> JStr ` set roles then Inr () else Inl forbidden)"

subsection \<open>Password properties\<close>

lemma pbkdf2_ok: "i \<le> PBKDF2_MAX_ITERATIONS \<Longrightarrow> pbkdf2 P a b i = Inr (p_pbkdf2 P a b i)"
  by (simp add: pbkdf2_def)

lemma derive_loop_total:
  "i \<le> PBKDF2_MAX_ITERATIONS \<Longrightarrow> \<exists>bits. derive_loop P salt i n r input out = Inr bits"
  by (induction n arbitrary: r input out) (auto simp: pbkdf2_ok)

lemma derive_total: "i \<le> PBKDF2_MAX_ITERATIONS \<Longrightarrow> \<exists>bits. derive P pw salt n i = Inr bits"
  by (simp add: derive_def derive_loop_total)

lemma decode_or_throw_encode [simp]: "decode_or_throw (b64u_encode b) = Inr b"
  by (simp add: decode_or_throw_def b64u_decode_encode)

lemma b64u_no_special:
  "c \<in> set (b64u_encode bs) \<Longrightarrow>
     c \<noteq> CHR ''$'' \<and> c \<noteq> CHR '';'' \<and> c \<noteq> CHR ''.'' \<and> \<not> is_ws c"
  by (drule b64u_encode_no_sep)
     (auto simp: is_alnum_def is_digit_def is_lower_def is_upper_def is_ws_def Let_def)

lemma show_rounds: "show_nat PBKDF2_ROUNDS = ''2''"
  by (simp add: PBKDF2_ROUNDS_def show_nat.simps digit_char_def char_of_def bit_0)

lemma show_iters: "show_nat PBKDF2_ITERATIONS = ''100000''"
  by (simp add: PBKDF2_ITERATIONS_def PBKDF2_MAX_ITERATIONS_def show_nat.simps digit_char_def char_of_def bit_0)

lemma split_hash:
  "split_on CHR ''$'' (''pbkdf2$2x100000$'' @ b64u_encode a @ ''$'' @ b64u_encode b) =
     [''pbkdf2'', ''2x100000'', b64u_encode a, b64u_encode b]"
proof -
  have "''pbkdf2$2x100000$'' @ b64u_encode a @ ''$'' @ b64u_encode b =
      join_with [CHR ''$''] [''pbkdf2'', ''2x100000'', b64u_encode a, b64u_encode b]" by simp
  moreover have "\<forall>x\<in>set [''pbkdf2'', ''2x100000'', b64u_encode a, b64u_encode b]. CHR ''$'' \<notin> set x"
    using b64u_no_special by auto
  ultimately show ?thesis by (simp only: split_on_join list.distinct simp_thms)
qed

lemma pos_int_params: "pos_int (str_to_num ''2'') = Some 2" "pos_int (str_to_num ''100000'') = Some 100000"
  by (simp_all add: pos_int_def js_defs)

lemma hashPassword_verifies:
  "\<exists>h bits. hashPassword P salt pw = Inr h \<and> h \<noteq> [] \<and> derive P pw salt 2 100000 = Inr bits \<and>
     verifyPassword P pw (Some h) = Inr True \<and>
     (\<forall>pw'. verifyPassword P pw' (Some h) = Inr (derive P pw' salt 2 100000 = Inr bits))"
proof -
  obtain bits where bits: "derive P pw salt 2 100000 = Inr bits"
    using derive_total [of 100000 P pw salt 2] by (auto simp: PBKDF2_MAX_ITERATIONS_def)
  let ?h = "''pbkdf2$2x100000$'' @ b64u_encode salt @ ''$'' @ b64u_encode bits"
  have it: "PBKDF2_ITERATIONS = 100000" "PBKDF2_ROUNDS = 2"
    by (simp_all add: PBKDF2_ITERATIONS_def PBKDF2_MAX_ITERATIONS_def PBKDF2_ROUNDS_def)
  have h: "hashPassword P salt pw = Inr ?h"
    using bits show_rounds show_iters by (simp add: hashPassword_def it)
  have v: "verifyPassword P pw' (Some ?h) = Inr (derive P pw' salt 2 100000 = Inr bits)" for pw'
  proof -
    obtain a where a: "derive P pw' salt 2 100000 = Inr a"
      using derive_total [of 100000 P pw' salt 2] by (auto simp: PBKDF2_MAX_ITERATIONS_def)
    have "?h \<noteq> []" by simp
    then show ?thesis
      using pos_int_params a
      by (simp only: verifyPassword_def split_hash option.case if_False list.case)
         (auto simp: PBKDF2_MAX_ITERATIONS_def ct_diff_zero)
  qed
  show ?thesis using bits h v by auto
qed

text \<open>
  A hash made by \<open>hashPassword\<close> verifies, without ever throwing, exactly the passwords whose chained
  derivation gives the same bits; in particular it verifies the password it was made from.
\<close>

theorem verifyPassword_hashPassword:
  "\<exists>h bits. hashPassword P salt pw = Inr h \<and> derive P pw salt 2 100000 = Inr bits \<and>
     verifyPassword P pw (Some h) = Inr True \<and>
     (\<forall>pw'. verifyPassword P pw' (Some h) = Inr (derive P pw' salt 2 100000 = Inr bits))"
  using hashPassword_verifies [of P salt pw] by blast

lemma b64u_decode_star: "b64u_decode ''*'' = None"
proof -
    have "map url_unsafe ''*'' @ b64_pad (length ''*'') = ''*===''"
      by (simp add: b64_pad_def url_unsafe_def numeral_3_eq_3)
    moreover have "filter (\<lambda>c. \<not> ascii_ws c) ''*==='' = ''*===''" by (simp add: ascii_ws_def)
    moreover have "strip_pad2 ''*==='' = ''*=''" by (simp add: strip_pad2_def drop_last_eq_def)
    moreover have "b64_val (CHR ''*'') = None" by (simp add: b64_val_def)
    ultimately show ?thesis by (simp only: b64u_decode_def atob_def Let_def) simp
qed

text \<open>
  A row of \<open>settings\<close> whose salt is not base64 makes \<open>verifyPassword\<close> throw, although the code states that a
  tampered row must never turn a login into an error.
\<close>

theorem verifyPassword_tampered_throws:
  "verifyPassword P pw (Some ''pbkdf2$2x100000$*$AA'') = Inl (JsError ''InvalidCharacterError'')"
  by (simp add: verifyPassword_def decode_or_throw_def b64u_decode_star)

subsection \<open>Session properties\<close>

lemma signingKey_stable:
  "signingKey E now b s = (Inr k, s') \<Longrightarrow> signingKey E now' b' (d, snd s') = (Inr k, (d, snd s'))"
  by (auto simp: signingKey_def Let_def split: option.splits if_splits)

lemma signingKey_frame: "signingKey E now b s = (r, s') \<Longrightarrow>
    db_sessions (fst s') = db_sessions (fst s) \<and> db_users (fst s') = db_users (fst s)"
  by (auto simp: signingKey_def insert_or_ignore_def Let_def split: option.splits if_splits)

lemma cookie_value_single:
  assumes "\<And>c. c \<in> set token \<Longrightarrow> c \<noteq> CHR '';'' \<and> \<not> is_ws c"
  shows "cookie_value (SESSION_COOKIE @ ''='' @ token) = Some token"
proof -
  let ?h = "SESSION_COOKIE @ ''='' @ token"
  have "CHR '';'' \<notin> set ?h" using assms by (auto simp: SESSION_COOKIE_def)
  then have "split_on CHR '';'' ?h = [?h]" by (rule split_on_no_sep)
  moreover have "trim ?h = ?h"
    using assms by (intro trim_no_ws) (auto simp: SESSION_COOKIE_def list_all_iff is_ws_def)
  moreover have "starts_with (SESSION_COOKIE @ ''='') ?h" by (auto simp: starts_with_append)
  ultimately show ?thesis by (simp add: cookie_value_def)
qed

lemma createSession_Inr:
  assumes "createSession P E now en subject role ip ua ttl s = (Inr out, s')"
  obtains key d c row where
    "signingKey E now (en_key en) s = (Inr key, (d, c))"
    "so_token out = b64u_encode (utf8_encode (json_stringify (session_payload (en_uuid en) subject role (now + ttl) now)))
        @ ''.'' @ b64u_encode (hmac P key
           (b64u_encode (utf8_encode (json_stringify (session_payload (en_uuid en) subject role (now + ttl) now)))))"
    "s' = (d\<lparr>db_sessions := db_sessions d @ [row]\<rparr>, c)" "ss_id row = en_uuid en"
    "ss_expires_at row = now + ttl" "so_id out = en_uuid en"
  using assms
  by (auto simp: createSession_def act_bind_def Let_def insert_session_def
      split: prod.splits sum.splits if_splits)

lemma verify_token:
  assumes "signingKey E now kb (d, c) = (Inr key, (d, c))"
    and "p_decode P payload_bytes = json_stringify payload" and "plain payload"
    and "truthy (fld payload ''exp'')" and "\<not> num_lt (to_num (fld payload ''exp'')) (Fin now)"
    and "live_row P now (fld payload ''id'') d = Inr live" and "payload_bytes \<noteq> []"
    and "hmac P key (b64u_encode payload_bytes) \<noteq> []"
  shows "verifySession P E now kb
      (Some (SESSION_COOKIE @ ''='' @ b64u_encode payload_bytes @ ''.'' @ b64u_encode (hmac P key (b64u_encode payload_bytes)))) (d, c)
    = (Inr (if live then Some \<lparr>se_id = fld payload ''id'', se_subject = fld payload ''sub'', se_role = fld payload ''role''\<rparr>
            else None), (d, c))"
proof -
  let ?b = "b64u_encode payload_bytes"
  let ?s = "b64u_encode (hmac P key ?b)"
  have "cookie_value (SESSION_COOKIE @ ''='' @ ?b @ ''.'' @ ?s) = Some (?b @ ''.'' @ ?s)"
    by (rule cookie_value_single) (auto simp: is_ws_def dest: b64u_no_special)
  moreover have "CHR ''.'' \<notin> set ?b" "CHR ''.'' \<notin> set ?s" using b64u_no_special by blast+
  then have "split_on CHR ''.'' (?b @ ''.'' @ ?s) = [?b, ?s]"
    by (simp add: split_on_append split_on_no_sep)
  ultimately show ?thesis
    using assms
    by (simp add: verifySession_def act_defs b64u_encode_Nil_iff b64u_decode_encode tse.eq_refl
        json_parse_stringify Let_def SESSION_COOKIE_def)
qed

lemma createSession_verifies:
  assumes "createSession P E now en subject role ip ua ttl s = (Inr out, s')"
    and "is_int now" and "is_int ttl" and "0 \<le> now'" and "now' < now + ttl"
    and "\<And>t. p_decode P (utf8_encode t) = t" and "\<And>t. p_bind P (JStr t) = Some (JStr t)"
    and "\<And>k m. p_hmac P k m \<noteq> []" and rows: "db_sessions d2 = db_sessions (fst s')"
  shows "verifySession P E now' kb (Some (SESSION_COOKIE @ ''='' @ so_token out)) (d2, snd s') =
    (Inr (Some \<lparr>se_id = JStr (so_id out), se_subject = JStr subject, se_role = JStr role\<rparr>), (d2, snd s'))"
proof -
  let ?p = "session_payload (en_uuid en) subject role (now + ttl) now"
  let ?bytes = "utf8_encode (json_stringify ?p)"
  from assms(1) obtain key d c row where k: "signingKey E now (en_key en) s = (Inr key, (d, c))"
    and t: "so_token out = b64u_encode ?bytes @ ''.'' @ b64u_encode (hmac P key (b64u_encode ?bytes))"
    and s': "s' = (d\<lparr>db_sessions := db_sessions d @ [row]\<rparr>, c)" and row: "ss_id row = en_uuid en"
      "ss_expires_at row = now + ttl" and so: "so_id out = en_uuid en"
    by (rule createSession_Inr)
  have key: "signingKey E now' kb (d2, snd s') = (Inr key, (d2, snd s'))"
    using signingKey_stable [OF k, of now' kb d2] by (simp add: s')
  have "is_int (now + ttl)"
    using assms(2,3) by (metis is_int_def floor_of_int of_int_add)
  then have pl: "plain ?p" using assms(2) by (simp add: session_payload_def)
  have live: "live_row P now' (fld ?p ''id'') d2 = Inr True"
    using assms(5,7) row rows by (auto simp: live_row_def session_payload_def s')
  have "?bytes \<noteq> []" by (simp add: session_payload_def)
  then show ?thesis
    using verify_token [of E now' kb d2 "snd s'" key P ?bytes ?p True] key pl live assms(4-6,8) so
    by (simp add: t hmac_def session_payload_def)
qed

text \<open>
  C13. A session cookie made by \<open>createSession\<close> verifies until it expires: presented alone in the Cookie header
  at any later time before the expiry, it yields the id, subject and role it was made for and changes
  nothing. The hypotheses on the runtime are that \<open>TextDecoder\<close> inverts \<open>TextEncoder\<close>, that D1 binds text as
  text and that an HMAC is not the empty byte string; times are whole milliseconds.
\<close>

theorem session_roundtrip:
  assumes "createSession P E now en subject role ip ua ttl s = (Inr out, s')"
    and "is_int now" and "is_int ttl" and "0 \<le> now'" and "now' < now + ttl"
    and "\<And>t. p_decode P (utf8_encode t) = t" and "\<And>t. p_bind P (JStr t) = Some (JStr t)"
    and "\<And>k m. p_hmac P k m \<noteq> []"
  shows "verifySession P E now' kb (Some (SESSION_COOKIE @ ''='' @ so_token out)) s' =
    (Inr (Some \<lparr>se_id = JStr (so_id out), se_subject = JStr subject, se_role = JStr role\<rparr>), s')"
  using createSession_verifies [OF assms, of "fst s'"] by simp

lemma verifySession_frame:
  assumes "verifySession P E now kb cookie (d0, c) = (r, s')"
  shows "db_sessions (fst s') = db_sessions d0"
  using assms
  by (auto simp: verifySession_def act_defs Let_def
      split: option.splits list.splits if_splits prod.splits sum.splits dest: signingKey_frame)

lemma verifySession_rows:
  assumes "verifySession P E now kb cookie s = (Inr (Some se), s')"
  shows "\<exists>row. row \<in> set (db_sessions (fst s')) \<and> p_bind P (se_id se) = Some (JStr (ss_id row)) \<and> now < ss_expires_at row"
  using assms
  by (auto simp: verifySession_def act_defs decode_or_throw_def live_row_def Let_def
      split: option.splits list.splits if_splits prod.splits sum.splits)

text \<open>
  C12. Soundness of \<open>verifySession\<close>: whatever the Cookie header, a session is accepted only if the
  signature part decodes to the HMAC of the payload part under the deployment's signing key, the payload's
  expiry has not passed, and a row with the payload's id is still in the table and unexpired.
\<close>

theorem verifySession_sound:
  assumes "verifySession P E now kb cookie s = (Inr (Some se), s')"
  shows "\<exists>h token body sig rest key payload row.
    cookie = Some h \<and> cookie_value h = Some token \<and> split_on CHR ''.'' token = body # sig # rest \<and>
    fst (signingKey E now kb s) = Inr key \<and> b64u_decode sig = Some (hmac P key body) \<and>
    map_option (\<lambda>b. json_parse (p_decode P b)) (b64u_decode body) = Some (Some payload) \<and>
    \<not> num_lt (to_num (fld payload ''exp'')) (Fin now) \<and> se_id se = fld payload ''id'' \<and>
    row \<in> set (db_sessions (fst s')) \<and> p_bind P (se_id se) = Some (JStr (ss_id row)) \<and> now < ss_expires_at row"
  using assms
  by (auto simp: verifySession_def act_defs decode_or_throw_def b64u_decode_encode tse.eq_iff live_row_def Let_def
      split: option.splits list.splits if_splits prod.splits sum.splits)

lemma createSession_ok:
  assumes "signingKey E now (en_key en) (d, c) = (Inr key, (d', c'))" and "en_uuid en \<notin> ss_id ` set (db_sessions d)"
  shows "\<exists>out s'. createSession P E now en subject role ip ua ttl (d, c) = (Inr out, s')"
  using assms signingKey_frame [OF assms(1)]
  by (auto simp: createSession_def act_bind_def Let_def insert_session_def)

lemma demo_session:
  "\<exists>out s'. createSession demo_platform demo_env 1000 demo_entropy ''admin'' ''owner'' None None 5000 (empty_db, None) = (Inr out, s')"
  by (rule createSession_ok [of _ _ _ _ _ "newKey [1, 2, 3]"])
     (auto simp: signingKey_def insert_or_ignore_def setting_def empty_db_def newKey_b64u
        b64u_encode_Nil_iff demo_entropy_def)

theorem session_roundtrip_witness:
  "\<exists>out s'. createSession demo_platform demo_env 1000 demo_entropy ''admin'' ''owner'' None None 5000 (empty_db, None) = (Inr out, s') \<and>
     verifySession demo_platform demo_env 2000 [] (Some (SESSION_COOKIE @ ''='' @ so_token out)) s' =
       (Inr (Some \<lparr>se_id = JStr (so_id out), se_subject = JStr ''admin'', se_role = JStr ''owner''\<rparr>), s')"
proof -
  obtain out s' where c: "createSession demo_platform demo_env 1000 demo_entropy ''admin'' ''owner'' None None 5000 (empty_db, None) = (Inr out, s')"
    using demo_session by blast
  show ?thesis using c session_roundtrip [OF c, of 2000 "[]"] by (auto simp: is_int_def)
qed

lemma demo_session_verifies:
  "\<exists>h se d' c'. verifySession demo_platform demo_env 2000 [] (Some h) (d', c') = (Inr (Some se), (d', c')) \<and>
     se_id se = JStr (en_uuid demo_entropy) \<and> destroySession ''x'' d' = d'"
proof -
  obtain out s' where c: "createSession demo_platform demo_env 1000 demo_entropy ''admin'' ''owner'' None None 5000 (empty_db, None) = (Inr out, s')"
    using demo_session by blast
  let ?p = "session_payload (en_uuid demo_entropy) ''admin'' ''owner'' (1000 + 5000) 1000"
  let ?b = "b64u_encode (utf8_encode (json_stringify ?p))"
  from c obtain key d ch row where k: "signingKey demo_env 1000 (en_key demo_entropy) (empty_db, None) = (Inr key, (d, ch))"
    and t: "so_token out = ?b @ ''.'' @ b64u_encode (hmac demo_platform key ?b)"
    and s': "s' = (d\<lparr>db_sessions := db_sessions d @ [row]\<rparr>, ch)" and id: "ss_id row = en_uuid demo_entropy"
    and exp: "ss_expires_at row = 1000 + 5000" and so: "so_id out = en_uuid demo_entropy"
    by (rule createSession_Inr)
  have "db_sessions d = []" using signingKey_frame [OF k] by (simp add: empty_db_def)
  then have "destroySession ''x'' (fst s') = fst s'"
    using id by (simp add: s' destroySession_def demo_entropy_def)
  moreover
  have "verifySession demo_platform demo_env 2000 [] (Some (SESSION_COOKIE @ ''='' @ so_token out)) (fst s', snd s') =
      (Inr (if True then Some \<lparr>se_id = fld ?p ''id'', se_subject = fld ?p ''sub'', se_role = fld ?p ''role''\<rparr> else None), (fst s', snd s'))"
    unfolding t
    using signingKey_stable [OF k, of 2000 "[]" "fst s'"] id exp
    by (intro verify_token)
       (auto simp: s' session_payload_def is_int_def live_row_def hmac_def)
  moreover have "se_id \<lparr>se_id = fld ?p ''id'', se_subject = fld ?p ''sub'', se_role = fld ?p ''role''\<rparr> = JStr (en_uuid demo_entropy)"
    by (simp add: session_payload_def)
  ultimately show ?thesis unfolding if_True by blast
qed

theorem verifySession_sound_witness:
  "\<exists>h row (s' :: db). cookie_value h \<noteq> None \<and> row \<in> set (db_sessions s') \<and> 2000 < ss_expires_at row \<and>
     p_bind demo_platform (JStr (en_uuid demo_entropy)) = Some (JStr (ss_id row))"
proof -
  obtain h se d' c' where v: "verifySession demo_platform demo_env 2000 [] (Some h) (d', c') = (Inr (Some se), (d', c'))"
    and i: "se_id se = JStr (en_uuid demo_entropy)"
    using demo_session_verifies by blast
  from verifySession_sound [OF v] obtain row where "cookie_value h \<noteq> None" "row \<in> set (db_sessions d')"
    "2000 < ss_expires_at row" "p_bind demo_platform (se_id se) = Some (JStr (ss_id row))" by auto
  then show ?thesis using i by metis
qed

text \<open>
  C15. Revocation is immediate and final. Once \<open>destroySession\<close> has deleted a row, no Cookie header
  whatsoever authenticates as that session id; after \<open>destroyAllSessions\<close> (as a password change does) no Cookie
  header authenticates at all.
\<close>

theorem revoked_session_rejected:
  "(\<forall>cookie kb se s'. verifySession P E now kb cookie (destroySession sid d, c) = (Inr (Some se), s') \<longrightarrow>
      p_bind P (se_id se) \<noteq> Some (JStr sid)) \<and>
   (\<forall>cookie kb r s'. verifySession P E now kb cookie (destroyAllSessions None d, c) = (Inr r, s') \<longrightarrow> r = None)"
proof -
  note frame = verifySession_frame
  have one: "p_bind P (se_id se) \<noteq> Some (JStr sid)"
    if v: "verifySession P E now kb cookie (destroySession sid d, c) = (Inr (Some se), s')" for cookie kb se s'
  proof
    assume b: "p_bind P (se_id se) = Some (JStr sid)"
    from verifySession_rows [OF v] frame [OF v] obtain row where
      "row \<in> set (db_sessions (destroySession sid d))" "p_bind P (se_id se) = Some (JStr (ss_id row))" by auto
    with b show False by (auto simp: destroySession_def)
  qed
  have all: "r = None" if v: "verifySession P E now kb cookie (destroyAllSessions None d, c) = (Inr r, s')" for cookie kb r s'
  proof (cases r)
    case (Some se)
    from verifySession_rows v frame [OF v] Some show ?thesis by (fastforce simp: destroyAllSessions_def)
  qed
  show ?thesis using one all by blast
qed

theorem revoked_session_rejected_witness:
  "\<exists>h se d' c'. verifySession demo_platform demo_env 2000 [] (Some h) (destroySession ''x'' d', c') = (Inr (Some se), (d', c')) \<and>
     p_bind demo_platform (se_id se) \<noteq> Some (JStr ''x'')"
proof -
  obtain h se d' c' where v: "verifySession demo_platform demo_env 2000 [] (Some h) (d', c') = (Inr (Some se), (d', c'))"
    and d: "destroySession ''x'' d' = d'"
    using demo_session_verifies by blast
  have "verifySession demo_platform demo_env 2000 [] (Some h) (destroySession ''x'' d', c') = (Inr (Some se), (d', c'))"
    using v d by simp
  with revoked_session_rejected [of demo_platform demo_env 2000 "''x''" d' c'] show ?thesis by blast
qed

text \<open>
  A cookie whose signature part is not base64 makes \<open>verifySession\<close> throw instead of being treated as
  no session: the decoding of the signature is outside the \<open>try\<close>.
\<close>

theorem verifySession_bad_signature_throws:
  "fst (verifySession P demo_env now kb (Some ''kaveh_session=e30.*'') (empty_db, Some key)) =
     Inl (JsError ''InvalidCharacterError'')"
proof -
  have "cookie_value ''kaveh_session=e30.*'' = Some ''e30.*''"
    by (simp add: cookie_value_def SESSION_COOKIE_def trim_def is_ws_def)
  then show ?thesis
    by (simp add: verifySession_def act_defs signingKey_def decode_or_throw_def b64u_decode_star b64u_decode_encode)
qed

end
