(* ===== verification/Auth_Guard.thy ===== *)
theory Auth_Guard
  imports Db
begin

text \<open>
  The Durable Object \<open>Guard\<close> of \<^verbatim>\<open>auth/guard.js\<close>: per-key rate limiting with strikes and bans, over one
  storage whose keys carry the prefixes \<open>rl:\<close>, \<open>ban:\<close> and \<open>strike:\<close>. A Durable Object serves one
  request at a time, so an operation is a function on the storage. Query parameters are already
  parsed; the callers pass numbers.
\<close>

subsection \<open>Storage\<close>

datatype gval = GWin (win_count: num) (win_start: num) | GNum (gnum: num)

type_synonym guard = "(string \<times> gval) list"

definition g_num :: "guard \<Rightarrow> string \<Rightarrow> num" where
  "g_num st k = (case map_of st k of Some (GNum n) \<Rightarrow> n | _ \<Rightarrow> 0)"

definition g_win :: "guard \<Rightarrow> string \<Rightarrow> (num \<times> num) option" where
  "g_win st k = (case map_of st k of Some (GWin c s) \<Rightarrow> Some (c, s) | _ \<Rightarrow> None)"

record hit_reply =
  hr_allowed :: bool
  hr_remaining :: num
  hr_resetIn :: num
  hr_banned :: bool

subsection \<open>Operations\<close>

definition isBanned :: "num \<Rightarrow> string \<Rightarrow> guard \<Rightarrow> bool \<times> guard" where
  "isBanned now key st =
     (let until = g_num st (''ban:'' @ key)
      in if until = 0 then (False, st)
         else if until < now then (False, adel (''ban:'' @ key) st)
         else (True, st))"

definition guard_hit :: "num \<Rightarrow> string \<Rightarrow> num \<Rightarrow> num \<Rightarrow> guard \<Rightarrow> hit_reply \<times> guard" where
  "guard_hit now key limit windowSec st0 =
     (case isBanned now key st0 of
        (True, st) \<Rightarrow> (\<lparr>hr_allowed = False, hr_remaining = 0, hr_resetIn = 0, hr_banned = True\<rparr>, st)
      | (False, st) \<Rightarrow>
          let bucket = ''rl:'' @ key;
              (c0, s0) = (case g_win st bucket of None \<Rightarrow> (0, now) | Some w \<Rightarrow> w);
              (c1, s1) = (if windowSec * 1000 < now - s0 then (0, now) else (c0, s0));
              count = c1 + 1;
              st1 = upsert bucket (GWin count s1) st;
              remaining = max 0 (limit - count);
              resetIn = of_int \<lceil>(s1 + windowSec * 1000 - now) / 1000\<rceil>;
              allowed = (count \<le> limit)
          in if \<not> allowed then
               (let strikes = g_num st1 (''strike:'' @ key) + 1;
                    st2 = upsert (''strike:'' @ key) (GNum strikes) st1
                in if 3 \<le> strikes
                   then (\<lparr>hr_allowed = False, hr_remaining = 0, hr_resetIn = 900, hr_banned = True\<rparr>,
                         adel (''strike:'' @ key) (upsert (''ban:'' @ key) (GNum (now + 15 * 60 * 1000)) st2))
                   else (\<lparr>hr_allowed = False, hr_remaining = remaining, hr_resetIn = resetIn, hr_banned = False\<rparr>, st2))
             else (\<lparr>hr_allowed = True, hr_remaining = remaining, hr_resetIn = resetIn, hr_banned = False\<rparr>,
                   adel (''strike:'' @ key) st1))"

datatype guard_req =
    GHit (gr_key: "string option") (gr_limit: "num option") (gr_window: "num option")
  | GReset "string option"
  | GUnban "string option"
  | GBan "string option" "num option"
  | GBanned "string option"
  | GOther string

datatype guard_reply =
  RHit hit_reply | ROk | RUnbanned string | RBanned bool | RUnknown

text \<open>\<open>x || d\<close> on query parameters: absent, empty and 0 take the default.\<close>

definition q_key :: "string option \<Rightarrow> string" where
  "q_key k = (case k of None \<Rightarrow> ''global'' | Some s \<Rightarrow> if s = [] then ''global'' else s)"

definition q_num :: "num option \<Rightarrow> num \<Rightarrow> num" where
  "q_num x d = (case x of None \<Rightarrow> d | Some n \<Rightarrow> n)"

fun Guard_fetch :: "num \<Rightarrow> guard_req \<Rightarrow> guard \<Rightarrow> guard_reply \<times> guard" where
  "Guard_fetch now (GHit k l w) st =
     (let (r, st') = guard_hit now (q_key k) (q_num l 100) (q_num w 60) st in (RHit r, st'))"
| "Guard_fetch now (GReset k) st = (ROk, adel (''rl:'' @ q_key k) st)"
| "Guard_fetch now (GUnban k) st =
     (RUnbanned (q_key k), adel (''ban:'' @ q_key k) (adel (''rl:'' @ q_key k) st))"
| "Guard_fetch now (GBan k ttl) st = (ROk, upsert (''ban:'' @ q_key k) (GNum (now + q_num ttl 900000)) st)"
| "Guard_fetch now (GBanned k) st = (let (b, st') = isBanned now (q_key k) st in (RBanned b, st'))"
| "Guard_fetch now (GOther a) st = (RUnknown, st)"

subsection \<open>Storage lemmas\<close>

lemmas g_defs = g_num_def g_win_def obj.lookup_put obj.lookup_del

lemma g_num_upsert: "g_num (upsert k (GNum n) st) k' = (if k' = k then n else g_num st k')"
  "g_num (upsert k (GWin c s) st) k' = (if k' = k then 0 else g_num st k')"
  by (simp_all add: g_defs)

lemma g_win_upsert: "g_win (upsert k (GWin c s) st) k' = (if k' = k then Some (c, s) else g_win st k')"
  "g_win (upsert k (GNum n) st) k' = (if k' = k then None else g_win st k')"
  by (simp_all add: g_defs)

lemma g_adel: "g_num (adel k st) k' = (if k' = k then 0 else g_num st k')"
  "g_win (adel k st) k' = (if k' = k then None else g_win st k')"
  by (simp_all add: g_defs)

lemmas g_simps = g_num_upsert g_win_upsert g_adel

lemma isBanned_win: "g_win (snd (isBanned now key st)) (''rl:'' @ k) = g_win st (''rl:'' @ k)"
  by (simp add: isBanned_def Let_def g_simps)

definition next_win :: "num \<Rightarrow> string \<Rightarrow> num \<Rightarrow> guard \<Rightarrow> num \<times> num" where
  "next_win now key w st =
     (case g_win st (''rl:'' @ key) of
        None \<Rightarrow> (1, now)
      | Some (c, s) \<Rightarrow> if w * 1000 < now - s then (1, now) else (c + 1, s))"

lemma isBanned_frame:
  "isBanned now key st = (b, st') \<Longrightarrow> g_win st' (''rl:'' @ key) = g_win st (''rl:'' @ key) \<and>
     g_num st' (''strike:'' @ key) = g_num st (''strike:'' @ key)"
  by (auto simp: isBanned_def Let_def g_simps split: if_splits)

text \<open>What a hit on an unbanned key does to that key.\<close>

lemma guard_hit_eq:
  fixes w :: num
  assumes "isBanned now key st = (False, st')"
  defines "c \<equiv> fst (next_win now key w st)" and "s \<equiv> snd (next_win now key w st)"
    and "strikes \<equiv> g_num st (''strike:'' @ key) + 1"
    and "st1 \<equiv> upsert (''rl:'' @ key) (GWin (fst (next_win now key w st)) (snd (next_win now key w st))) st'"
  shows "guard_hit now key l w st =
     (if \<not> c \<le> l then
        (if 3 \<le> strikes
         then (\<lparr>hr_allowed = False, hr_remaining = 0, hr_resetIn = 900, hr_banned = True\<rparr>,
               adel (''strike:'' @ key) (upsert (''ban:'' @ key) (GNum (now + 15 * 60 * 1000))
                 (upsert (''strike:'' @ key) (GNum strikes) st1)))
         else (\<lparr>hr_allowed = False, hr_remaining = max 0 (l - c),
                 hr_resetIn = of_int \<lceil>(s + w * 1000 - now) / 1000\<rceil>, hr_banned = False\<rparr>,
               upsert (''strike:'' @ key) (GNum strikes) st1))
      else (\<lparr>hr_allowed = True, hr_remaining = max 0 (l - c),
              hr_resetIn = of_int \<lceil>(s + w * 1000 - now) / 1000\<rceil>, hr_banned = False\<rparr>,
            adel (''strike:'' @ key) st1))"
proof (cases "g_win st (''rl:'' @ key)")
  case None
  then show ?thesis
    using assms(1) isBanned_frame [OF assms(1)]
    unfolding guard_hit_def Let_def c_def s_def strikes_def st1_def by (simp add: next_win_def g_simps)
next
  case (Some cs)
  obtain c0 s0 where cs: "cs = (c0, s0)" by (cases cs)
  show ?thesis
    using assms(1) isBanned_frame [OF assms(1)] Some cs
    unfolding guard_hit_def Let_def c_def s_def strikes_def st1_def
    by (cases "w * 1000 < now - s0") (simp_all add: next_win_def g_simps)
qed

lemma guard_hit_unbanned:
  assumes "isBanned now key st = (False, st')"
  shows "hr_allowed (fst (guard_hit now key l w st)) \<longleftrightarrow> fst (next_win now key w st) \<le> l"
    and "g_win (snd (guard_hit now key l w st)) (''rl:'' @ key) = Some (next_win now key w st)"
    and "g_num (snd (guard_hit now key l w st)) (''ban:'' @ key) =
      (if l < fst (next_win now key w st) \<and> 2 \<le> g_num st (''strike:'' @ key) then now + 900000
       else g_num st' (''ban:'' @ key))"
  unfolding guard_hit_eq [OF assms] by (auto simp: g_simps)

lemma isBanned_none: "g_num st (''ban:'' @ key) = 0 \<Longrightarrow> isBanned now key st = (False, st)"
  by (simp add: isBanned_def)

text \<open>A request with key \<open>k\<close> leaves the entries of every other key alone.\<close>

lemma guard_hit_other_key:
  assumes "k' \<noteq> key" and "p \<in> {''rl:'', ''ban:'', ''strike:''}"
  shows "map_of (snd (guard_hit now key l w st)) (p @ k') = map_of st (p @ k')"
proof (cases "isBanned now key st")
  case (Pair b st')
  have st': "map_of st' (p @ k') = map_of st (p @ k')"
    using Pair assms by (auto simp: isBanned_def Let_def map_of_adel split: if_splits)
  show ?thesis
  proof (cases b)
    case True
    then show ?thesis using Pair st' by (simp add: guard_hit_def)
  next
    case False
    then show ?thesis
      using guard_hit_eq [of now key st st' l w] Pair st' assms by (auto simp: map_of_upsert map_of_adel)
  qed
qed

subsection \<open>Rate limiting over a window\<close>

fun run_hits :: "string \<Rightarrow> num \<Rightarrow> num \<Rightarrow> num list \<Rightarrow> guard \<Rightarrow> hit_reply list \<times> guard" where
  "run_hits key limit w [] st = ([], st)"
| "run_hits key limit w (t # ts) st =
     (let (r, st1) = guard_hit t key limit w st; (rs, st2) = run_hits key limit w ts st1 in (r # rs, st2))"

text \<open>The storage after \<open>n\<close> hits inside a window that began at \<open>t0\<close>.\<close>

definition window_state :: "string \<Rightarrow> nat \<Rightarrow> num \<Rightarrow> nat \<Rightarrow> guard \<Rightarrow> bool" where
  "window_state key N t0 n st \<longleftrightarrow>
     (if n \<le> N then g_num st (''ban:'' @ key) = 0 \<and>
        g_win st (''rl:'' @ key) = (if n = 0 then None else Some (of_nat n, t0))
      else \<exists>c. of_nat N < c \<and> g_win st (''rl:'' @ key) = Some (c, t0))"

lemma window_step:
  assumes st: "window_state key N t0 n st" and t: "0 < n \<or> t = t0" "t0 \<le> t" "t \<le> t0 + w * 1000"
  shows "hr_allowed (fst (guard_hit t key (of_nat N) w st)) \<longleftrightarrow> n < N"
    and "window_state key N t0 (Suc n) (snd (guard_hit t key (of_nat N) w st))"
proof -
  let ?h = "guard_hit t key (of_nat N) w st"
  have "(hr_allowed (fst ?h) \<longleftrightarrow> n < N) \<and> window_state key N t0 (Suc n) (snd ?h)"
  proof (cases "n \<le> N")
    case True
    then have b: "isBanned t key st = (False, st)" and nb: "g_num st (''ban:'' @ key) = 0"
      using st by (simp_all add: window_state_def isBanned_none)
    have nw: "next_win t key w st = (of_nat (Suc n), t0)"
      using st t True by (auto simp: next_win_def window_state_def)
    show ?thesis
      using guard_hit_unbanned [OF b, of "of_nat N" w] nb True unfolding nw window_state_def
      by (auto simp del: of_nat_Suc)
  next
    case False
    then obtain c where c: "of_nat N < c" "g_win st (''rl:'' @ key) = Some (c, t0)"
      using st by (auto simp: window_state_def)
    then have nw: "next_win t key w st = (c + 1, t0)" using t by (auto simp: next_win_def)
    show ?thesis
    proof (cases "isBanned t key st")
      case (Pair b st')
      show ?thesis
      proof (cases b)
        case True
        then have "st' = st" using Pair by (auto simp: isBanned_def Let_def split: if_splits)
        then have "?h = (\<lparr>hr_allowed = False, hr_remaining = 0, hr_resetIn = 0, hr_banned = True\<rparr>, st)"
          using Pair True by (simp add: guard_hit_def)
        then show ?thesis using False c by (simp add: window_state_def)
      next
        case nb: False
        have "of_nat N < c + 1" using c by linarith
        then show ?thesis
          using guard_hit_unbanned [of t key st st' "of_nat N" w] Pair nb False unfolding nw window_state_def by auto
      qed
    qed
  qed
  then show "hr_allowed (fst ?h) \<longleftrightarrow> n < N" "window_state key N t0 (Suc n) (snd ?h)" by auto
qed

lemma run_hits_window:
  assumes "window_state key N t0 n st" "0 < n \<or> (ts \<noteq> [] \<longrightarrow> hd ts = t0)"
    and "\<forall>t\<in>set ts. t0 \<le> t \<and> t \<le> t0 + w * 1000"
  shows "map hr_allowed (fst (run_hits key (of_nat N) w ts st)) = map (\<lambda>i. i < N) [n..<n + length ts]"
  using assms
proof (induction ts arbitrary: n st)
  case (Cons t ts)
  let ?h = "guard_hit t key (of_nat N) w st"
  have t: "t0 \<le> t" "t \<le> t0 + w * 1000" "0 < n \<or> t = t0" using Cons.prems by auto
  have step: "hr_allowed (fst ?h) = (n < N)" "window_state key N t0 (Suc n) (snd ?h)"
    using window_step [OF Cons.prems(1) t(3,1,2)] by auto
  have "map hr_allowed (fst (run_hits key (of_nat N) w ts (snd ?h))) = map (\<lambda>i. i < N) [Suc n..<Suc n + length ts]"
    using Cons.IH [OF step(2)] Cons.prems(3) by simp
  moreover have "[n..<n + length (t # ts)] = n # [Suc n..<Suc n + length ts]" by (simp add: upt_rec)
  ultimately show ?case using step(1) by (simp add: Let_def case_prod_unfold)
qed simp

text \<open>
  The brute-force guard admits exactly the first \<open>N\<close> hits of a window. Whatever the hit times inside the
  window that the first hit opens, on a key without a window or a ban, the i-th hit is allowed
  if and only if i < N: strikes and bans never let one more through.
\<close>

theorem guard_admits_limit:
  assumes "g_num st (''ban:'' @ key) = 0" and "g_win st (''rl:'' @ key) = None"
    and "\<forall>t\<in>set (t0 # ts). t0 \<le> t \<and> t \<le> t0 + w * 1000"
  shows "map hr_allowed (fst (run_hits key (of_nat N) w (t0 # ts) st)) = map (\<lambda>i. i < N) [0..<Suc (length ts)]"
  using run_hits_window [of key N t0 0 st "t0 # ts" w] assms by (simp add: window_state_def)

theorem guard_admits_limit_witness:
  "map hr_allowed (fst (run_hits ''1.2.3.4'' (of_nat 2) 600 [5, 6, 7, 9] [])) = [True, True, False, False]"
  using guard_admits_limit [of "[]" "''1.2.3.4''" 5 "[6, 7, 9]" 600 2]
  by (simp add: g_num_def g_win_def)

subsection \<open>Bans\<close>

lemma banned_hit:
  "g_num st (''ban:'' @ key) = until \<Longrightarrow> until \<noteq> 0 \<Longrightarrow> now \<le> until \<Longrightarrow>
     guard_hit now key l w st = (\<lparr>hr_allowed = False, hr_remaining = 0, hr_resetIn = 0, hr_banned = True\<rparr>, st)"
  by (simp add: guard_hit_def isBanned_def)

text \<open>
  The third refusal in a row bans the key for fifteen minutes: every hit until then is refused as banned
  and changes nothing, a \<open>reset\<close> does not help, and an \<open>unban\<close> of that key makes the next hit
  allowed again (when the limit is at least one).
\<close>

theorem guard_ban_lifecycle:
  assumes "\<not> fst (isBanned now key st)" and "2 \<le> g_num st (''strike:'' @ key)"
    and "\<not> hr_allowed (fst (guard_hit now key l w st))" and "0 < now" and "1 \<le> l" and "key \<noteq> []"
    and "now \<le> t" and "t \<le> now + 900000"
  shows "let st1 = snd (guard_hit now key l w st); st2 = snd (Guard_fetch t (GReset (Some key)) st1);
             st3 = snd (Guard_fetch t (GUnban (Some key)) st1)
    in guard_hit t key l w st1 = (\<lparr>hr_allowed = False, hr_remaining = 0, hr_resetIn = 0, hr_banned = True\<rparr>, st1) \<and>
       hr_banned (fst (guard_hit t key l w st2)) \<and> hr_allowed (fst (guard_hit t key l w st3))"
proof -
  let ?st1 = "snd (guard_hit now key l w st)"
  obtain st' where b: "isBanned now key st = (False, st')" using assms(1) by (cases "isBanned now key st") auto
  have ban: "g_num ?st1 (''ban:'' @ key) = now + 900000"
    using guard_hit_unbanned [OF b, of l w] assms(2,3) by simp
  have nz: "now + 900000 \<noteq> 0" using assms(4) by linarith
  have "guard_hit t key l w ?st1 = (\<lparr>hr_allowed = False, hr_remaining = 0, hr_resetIn = 0, hr_banned = True\<rparr>, ?st1)"
    using banned_hit [OF ban nz assms(8)] .
  moreover have "g_num (snd (Guard_fetch t (GReset (Some key)) ?st1)) (''ban:'' @ key) = now + 900000"
    using assms(6) ban by (simp add: q_key_def g_simps)
  from banned_hit [OF this nz assms(8)]
  have "hr_banned (fst (guard_hit t key l w (snd (Guard_fetch t (GReset (Some key)) ?st1))))" by simp
  moreover have "hr_allowed (fst (guard_hit t key l w (snd (Guard_fetch t (GUnban (Some key)) ?st1))))"
    using assms(5,6) by (simp add: q_key_def guard_hit_def isBanned_def Let_def g_simps)
  ultimately show ?thesis by (simp add: Let_def)
qed

theorem guard_ban_lifecycle_witness:
  "hr_banned (fst (guard_hit 60 ''k'' 1 600 (snd (run_hits ''k'' 1 600 [10, 20, 30, 40] []))))"
proof -
  define st where "st = snd (run_hits ''k'' 1 600 [10, 20, 30] [])"
  have st: "st = [(''rl:k'', GWin 3 10), (''strike:k'', GNum 2)]"
    by (simp add: st_def guard_hit_def isBanned_def Let_def g_num_def g_win_def adel_def)
  have "snd (run_hits ''k'' 1 600 [10, 20, 30, 40] []) = snd (guard_hit 40 ''k'' 1 600 st)"
    by (simp add: st_def Let_def case_prod_unfold)
  then show ?thesis
    using guard_ban_lifecycle [of 40 "''k''" st 1 600 60]
    by (simp add: st isBanned_def guard_hit_def Let_def g_num_def g_win_def adel_def)
qed

end
