(* ===== verification/World.thy ===== *)
theory World
  imports Tunnel Config Auth_Session Auth_Guard
begin

text \<open>
  What a request to the worker runs against. \<open>world\<close> is the state that outlives a request: the D1 database, the two
  Durable Object classes, and the module-level variables of an isolate (signing-key cache, schema latch, usage
  cache). \<open>runtime\<close> is what one request gets from outside: the clock, random values, and the answers of the network.
  Handlers are stateful actions on \<open>world\<close>; a throw keeps the writes made before it.
\<close>

record world =
  w_db :: db
  w_key :: "string option"
  w_provisioned :: bool
  w_guards :: "string \<Rightarrow> guard"
  w_ledger :: ledger
  w_cf_cache :: "(jval \<times> num) option"

datatype cf_reply = CfThrow | CfStatus nat | CfJson jval

record runtime =
  rt_P :: platform
  rt_now :: num
  rt_en :: entropy
  rt_dial :: dialer
  rt_probe :: "string \<Rightarrow> jval \<Rightarrow> num option"
  rt_head :: "string \<Rightarrow> (num \<times> nat option) list"
  rt_cf :: "string \<Rightarrow> cf_reply"
  rt_colo :: jval
  rt_country :: jval
  rt_migrations :: "migration list"
  rt_ddl_ok :: "string \<Rightarrow> bool"
  rt_ledger_up :: bool
  rt_batch_fails :: "nat \<Rightarrow> bool"
  rt_asset :: "string \<Rightarrow> response"
  rt_ref :: string
  rt_url_host :: "string \<Rightarrow> string option"
  rt_probe_ms :: num

text \<open>
  \<open>rt_probe sni ip\<close> is the outcome of \<open>probeIp\<close>; \<open>rt_head target\<close> the three samples of \<open>ping\<close> (duration, status or
  error); \<open>rt_cf account\<close> Cloudflare's usage answer; \<open>rt_batch_fails\<close> which batches of a ledger flush D1 refuses;
  \<open>rt_url_host\<close> is \<open>new URL(t).hostname\<close>, \<open>None\<close> when the parser throws; \<open>rt_probe_ms\<close> the duration of a proxy probe.
\<close>

record rctx =
  cx_params :: "(string \<times> string) list"
  cx_session :: "session option"
  cx_ip :: string

type_synonym handler = "runtime \<Rightarrow> env \<Rightarrow> request \<Rightarrow> rctx \<Rightarrow> (world, response) act"

subsection \<open>Access to the parts\<close>

definition db_get :: "(db \<Rightarrow> 'a) \<Rightarrow> (world, 'a) act" where
  "db_get f = act_get (\<lambda>w. f (w_db w))"

definition db_upd :: "(db \<Rightarrow> db) \<Rightarrow> (world, unit) act" where
  "db_upd f = act_upd (\<lambda>w. w\<lparr>w_db := f (w_db w)\<rparr>)"

definition db_run :: "(db, 'a) act \<Rightarrow> (world, 'a) act" where
  "db_run m w = (case m (w_db w) of (r, d) \<Rightarrow> (r, w\<lparr>w_db := d\<rparr>))"

definition key_run :: "(key_state, 'a) act \<Rightarrow> (world, 'a) act" where
  "key_run m w = (case m (w_db w, w_key w) of (r, (d, k)) \<Rightarrow> (r, w\<lparr>w_db := d, w_key := k\<rparr>))"

definition schema_run :: "(migrate_state, 'a) act \<Rightarrow> (world, 'a) act" where
  "schema_run m w =
     (case m \<lparr>ms_provisioned = w_provisioned w, ms_db = w_db w\<rparr> of
        (r, s) \<Rightarrow> (r, w\<lparr>w_db := ms_db s, w_provisioned := ms_provisioned s\<rparr>))"

text \<open>A request to the Guard object with the given name, resp. to the Ledger object.\<close>

definition guard_call :: "runtime \<Rightarrow> string \<Rightarrow> guard_req \<Rightarrow> (world, guard_reply) act" where
  "guard_call rtm name rq w =
     (case Guard_fetch (rt_now rtm) rq (w_guards w name) of
        (r, g) \<Rightarrow> (Inr r, w\<lparr>w_guards := (w_guards w)(name := g)\<rparr>))"

definition ledger_call :: "runtime \<Rightarrow> env \<Rightarrow> ledger_req \<Rightarrow> (world, ledger_reply) act" where
  "ledger_call rtm E rq w =
     (case Ledger_fetch (e_db E) (rt_batch_fails rtm) (rt_now rtm) rq (w_ledger w, w_db w) of
        (r, (lg, d)) \<Rightarrow> (Inr r, w\<lparr>w_ledger := lg, w_db := d\<rparr>))"

definition read_setting :: "string \<Rightarrow> (world, string option) act" where
  "read_setting key = db_get (\<lambda>d. S_get d [] key None)"

definition write_settings :: "runtime \<Rightarrow> (string \<times> jval) list \<Rightarrow> (world, unit) act" where
  "write_settings rtm entries = db_upd (\<lambda>d. fst (S_set (rt_now rtm) entries (d, [])))"

definition audit_log :: "runtime \<Rightarrow> jval \<Rightarrow> string \<Rightarrow> string option \<Rightarrow> string option \<Rightarrow> jval \<Rightarrow> (world, unit) act" where
  "audit_log rtm actor action target ip detail =
     db_upd (audit (rt_P rtm) (rt_now rtm) actor action target ip detail)"

definition body_of :: "request \<Rightarrow> (world, jval) act" where
  "body_of r = act_bind (act_lift (readJson r)) (\<lambda>b. act_lift (need_obj b))"

definition subject_of :: "rctx \<Rightarrow> jval" where
  "subject_of cx = (case cx_session cx of None \<Rightarrow> JUndef | Some s \<Rightarrow> se_subject s)"

text \<open>\<open>(await S.get(k)) || d\<close>.\<close>

definition set_or :: "string option \<Rightarrow> string \<Rightarrow> string" where
  "set_or v d = (case v of None \<Rightarrow> d | Some s \<Rightarrow> if s = [] then d else s)"

definition is_set :: "string option \<Rightarrow> bool" where
  "is_set v \<longleftrightarrow> v \<noteq> None \<and> v \<noteq> Some []"

subsection \<open>Reasoning about actions\<close>

text \<open>
  An action \<open>keeps\<close> a predicate when it holds afterwards, whether it returns or throws, whenever it held before. The
  interface is used for the invariants of \<open>world\<close>; composition is proved once.
\<close>

definition keeps :: "('s \<Rightarrow> bool) \<Rightarrow> ('s, 'a) act \<Rightarrow> bool" where
  "keeps I m \<longleftrightarrow> (\<forall>s. I s \<longrightarrow> I (snd (m s)))"

named_theorems keeps_intros \<open>rules that show that an action keeps an invariant\<close>

lemma keeps_ret [keeps_intros]: "keeps I (act_ret x)"
  by (simp add: keeps_def act_ret_def)

lemma keeps_throw [keeps_intros]: "keeps I (act_throw e)"
  by (simp add: keeps_def act_throw_def)

lemma keeps_lift [keeps_intros]: "keeps I (act_lift r)"
  by (simp add: keeps_def act_lift_def)

lemma keeps_get [keeps_intros]: "keeps I (act_get f)"
  by (simp add: keeps_def act_get_def)

lemma keeps_db_get [keeps_intros]: "keeps I (db_get f)"
  by (simp add: db_get_def keeps_get)

lemma keeps_when [keeps_intros]: "keeps I (act_when b e)"
  by (simp add: keeps_def act_when_def)

lemma keeps_read_setting [keeps_intros]: "keeps I (read_setting k)"
  by (simp add: read_setting_def keeps_db_get)

lemma keeps_bind [keeps_intros]: "keeps I m \<Longrightarrow> (\<And>x. keeps I (k x)) \<Longrightarrow> keeps I (act_bind m k)"
  by (auto simp: keeps_def act_bind_def split: prod.splits sum.splits)

lemma keeps_seq [keeps_intros]: "keeps I m \<Longrightarrow> keeps I k \<Longrightarrow> keeps I (act_seq m k)"
  by (simp add: act_seq_def keeps_bind)

lemma keeps_if [keeps_intros]: "keeps I m \<Longrightarrow> keeps I k \<Longrightarrow> keeps I (if b then m else k)"
  by simp

lemma keeps_catch [keeps_intros]: "keeps I m \<Longrightarrow> (\<And>e. keeps I (h e)) \<Longrightarrow> keeps I (act_catch m h)"
  by (auto simp: keeps_def act_catch_def split: prod.splits sum.splits)

lemma keeps_body_of [keeps_intros]: "keeps I (body_of r)"
  by (simp add: body_of_def keeps_bind keeps_lift)

lemma keeps_case_option [keeps_intros]:
  "keeps I a \<Longrightarrow> (\<And>x. keeps I (f x)) \<Longrightarrow> keeps I (case o1 of None \<Rightarrow> a | Some x \<Rightarrow> f x)"
  by (cases o1) auto

lemma keepsD: "keeps I m \<Longrightarrow> I s \<Longrightarrow> m s = (r, s') \<Longrightarrow> I s'"
  by (metis keeps_def snd_conv)

text \<open>A fresh deployment and an unremarkable runtime, for the closed examples.\<close>

definition demo_world :: world where
  "demo_world = \<lparr>w_db = empty_db, w_key = None, w_provisioned = False, w_guards = (\<lambda>_. []), w_ledger = new_ledger,
     w_cf_cache = None\<rparr>"

definition demo_runtime :: runtime where
  "demo_runtime = \<lparr>rt_P = demo_platform, rt_now = 1000, rt_en = demo_entropy, rt_dial = (\<lambda>_ _. Inl (JsError ''refused'')),
     rt_probe = (\<lambda>_ _. Some 5), rt_head = (\<lambda>_. [(1, Some 200), (1, Some 200), (1, None)]), rt_cf = (\<lambda>_. CfThrow),
     rt_colo = JNull, rt_country = JNull, rt_migrations = [], rt_ddl_ok = (\<lambda>_. True), rt_ledger_up = True,
     rt_batch_fails = (\<lambda>_. False), rt_asset = (\<lambda>_. noContent), rt_ref = ''ref'',
     rt_url_host = (\<lambda>_. None), rt_probe_ms = 7\<rparr>"

definition demo_request :: "string \<Rightarrow> request" where
  "demo_request body = \<lparr>rq_method = ''POST'', rq_hostname = ''edge.io'', rq_path = ''/api/login'', rq_query = [],
     rq_headers = [], rq_body = body\<rparr>"

definition demo_ctx :: rctx where
  "demo_ctx = \<lparr>cx_params = [], cx_session = None, cx_ip = ''9.9.9.9''\<rparr>"

end
