(* ===== verification/Api_Auth.thy ===== *)
theory Api_Auth
  imports World
begin

text \<open>
  \<^verbatim>\<open>api/auth.js\<close> (first-run setup, login behind the brute-force guard, logout, password change, recovery, session
  administration) and the administration channel of \<^verbatim>\<open>api/agent.js\<close> that touches the same state (constant-time key
  check, password reset and issue). Human-readable \<open>message\<close> fields are not modelled.
\<close>

definition ADMIN_HASH_KEY :: string where
  "ADMIN_HASH_KEY = ''admin_hash''"

definition ADMIN_USER_KEY :: string where
  "ADMIN_USER_KEY = ''admin_user''"

definition CORE_VERSION :: string where
  "CORE_VERSION = ''0.1.0''"

definition ttl_sec :: "env \<Rightarrow> num" where
  "ttl_sec E = of_int \<lfloor>sessionTtlMs (e_config E) / 1000\<rfloor>"

definition text_field :: "jval \<Rightarrow> string \<Rightarrow> string \<Rightarrow> string" where
  "text_field body k d = to_str (js_or (fld body k) (JStr d))"

definition set_password :: "runtime \<Rightarrow> string \<Rightarrow> (string \<times> jval) list \<Rightarrow> (world, unit) act" where
  "set_password rtm password others =
     act_bind (act_lift (hashPassword (rt_P rtm) (en_salt (rt_en rtm)) password)) (\<lambda>h.
       write_settings rtm ((ADMIN_HASH_KEY, JStr h) # others))"

definition new_session :: "runtime \<Rightarrow> env \<Rightarrow> request \<Rightarrow> string \<Rightarrow> string \<Rightarrow> (world, session_out) act" where
  "new_session rtm E r subject ip =
     key_run (createSession (rt_P rtm) E (rt_now rtm) (rt_en rtm) subject ''owner'' (Some ip) (header_of r ''user-agent'')
       (sessionTtlMs (e_config E)))"

definition auth_setup :: handler where
  "auth_setup rtm E r cx =
     act_bind (read_setting ADMIN_HASH_KEY) (\<lambda>h.
     act_seq (act_when (is_set h) forbidden) (
     act_bind (body_of r) (\<lambda>body.
     let password = text_field body ''password'' []; username = take 32 (text_field body ''username'' ''admin'') in
     act_seq (act_when (length password < 10) (badRequest JUndef)) (
     act_seq (set_password rtm password
        [(ADMIN_USER_KEY, JStr username), (''installed_at'', JStr (show_num (rt_now rtm))), (''core_version'', JStr CORE_VERSION)]) (
     act_seq (audit_log rtm (JStr username) ''setup'' None (Some (cx_ip cx)) JNull) (
     act_bind (new_session rtm E r username (cx_ip cx)) (\<lambda>s.
       act_ret (with_header ''set-cookie'' (sessionCookie (so_token s) (ttl_sec E) True)
         (ok (JObj [(''username'', JStr username)]))))))))))"

definition login_guard :: "runtime \<Rightarrow> env \<Rightarrow> string \<Rightarrow> (world, unit) act" where
  "login_guard rtm E ip =
     (if doStub (e_guard E) ''login'' = None then act_ret ()
      else act_bind (guard_call rtm ''login''
             (GHit (Some ip) (Some (maxLoginAttempts (e_config E))) (Some (of_int \<lfloor>loginWindowMs (e_config E) / 1000\<rfloor>)))) (\<lambda>j.
        (case j of
           RHit h \<Rightarrow> act_when (\<not> hr_allowed h) (tooMany (if hr_resetIn h = 0 then 60 else hr_resetIn h))
         | _ \<Rightarrow> act_ret ())))"

definition login :: handler where
  "login rtm E r cx =
     act_bind (read_setting ADMIN_HASH_KEY) (\<lambda>stored.
     if \<not> is_set stored then act_ret (json (JObj [(''ok'', JBool False), (''code'', JStr ''not_installed'')]) 409 [])
     else
     act_seq (login_guard rtm E (cx_ip cx)) (
     act_bind (body_of r) (\<lambda>body.
     act_bind (read_setting ADMIN_USER_KEY) (\<lambda>au.
     let password = text_field body ''password'' []; subject = text_field body ''username'' (set_or au ''admin'') in
     act_bind (act_lift (verifyPassword (rt_P rtm) password stored)) (\<lambda>valid.
     if \<not> valid then
       act_seq (audit_log rtm (JStr subject) ''login_failed'' None (Some (cx_ip cx)) JNull) (act_throw unauthorized)
     else
     act_seq (if doStub (e_guard E) ''login'' = None then act_ret ()
              else act_seq (guard_call rtm ''login'' (GReset (Some (cx_ip cx)))) (act_ret ())) (
     act_bind (new_session rtm E r subject (cx_ip cx)) (\<lambda>s.
     act_seq (audit_log rtm (JStr subject) ''login'' None (Some (cx_ip cx)) JNull) (
       act_ret (with_header ''set-cookie'' (sessionCookie (so_token s) (ttl_sec E) True)
         (ok (JObj [(''username'', JStr subject), (''role'', JStr ''owner''), (''expiresAt'', JNum (Fin (so_expiresAt s)))])))))))))))"

definition logout :: handler where
  "logout rtm E r cx =
     act_seq (case cx_session cx of None \<Rightarrow> act_ret () | Some s \<Rightarrow> db_upd (destroySession (to_str (se_id s))))
       (act_ret (with_header ''set-cookie'' clearSessionCookie (ok (JObj []))))"

definition changePassword :: handler where
  "changePassword rtm E r cx =
     act_bind (body_of r) (\<lambda>body.
     let current = text_field body ''current'' []; next = text_field body ''next'' [] in
     act_seq (act_when (length next < 10) (badRequest JUndef)) (
     act_bind (read_setting ADMIN_HASH_KEY) (\<lambda>stored.
     act_bind (act_lift (verifyPassword (rt_P rtm) current stored)) (\<lambda>valid.
     act_seq (act_when (\<not> valid) unauthorized) (
     act_seq (set_password rtm next []) (
     act_seq (db_upd (destroyAllSessions None)) (
     act_seq (audit_log rtm (subject_of cx) ''change_password'' None (Some (cx_ip cx)) JNull) (
       act_ret (with_header ''set-cookie'' clearSessionCookie (ok (JObj [])))))))))))"

definition recover :: handler where
  "recover rtm E r cx =
     (let expected = fld (re_vars (e_raw E)) ''RECOVERY_CODE'' in
     act_seq (act_when (\<not> truthy expected) forbidden) (
     act_bind (body_of r) (\<lambda>body.
     if text_field body ''code'' [] \<noteq> to_str expected then
       act_seq (audit_log rtm (JStr ''unknown'') ''recover_failed'' None (Some (cx_ip cx)) JNull) (act_throw unauthorized)
     else let next = text_field body ''password'' [] in
     act_seq (act_when (length next < 10) (badRequest JUndef)) (
     act_seq (set_password rtm next []) (
     act_seq (db_upd (destroyAllSessions None)) (
     act_seq (audit_log rtm (JStr ''recovery'') ''recover'' None (Some (cx_ip cx)) JNull) (
       act_ret (ok (JObj [])))))))))"

definition whoami :: handler where
  "whoami rtm E r cx =
     act_bind (db_get (\<lambda>d. S_get d [] ''panel_name'' (Some (panelName (e_config E))))) (\<lambda>name.
     act_bind (read_setting ADMIN_HASH_KEY) (\<lambda>h.
       act_ret (ok (JObj
         [(''username'', js_coalesce (subject_of cx) JNull),
          (''role'', js_coalesce (case cx_session cx of None \<Rightarrow> JUndef | Some s \<Rightarrow> se_role s) JNull),
          (''panelName'', opt_str name), (''installed'', JBool (is_set h)), (''version'', JStr CORE_VERSION)]))))"

definition session_json :: "session_row \<Rightarrow> jval" where
  "session_json s = JObj
     [(''id'', JStr (ss_id s)), (''subject'', JStr (ss_subject s)), (''role'', JStr (ss_role s)),
      (''created_at'', JNum (Fin (ss_created_at s))), (''expires_at'', JNum (Fin (ss_expires_at s))),
      (''ip_hash'', opt_str (ss_ip_hash s)), (''ua_hash'', opt_str (ss_ua_hash s))]"

definition listSessions :: handler where
  "listSessions rtm E r cx =
     act_bind (db_get (\<lambda>d. take 50 (sort_by (\<lambda>a b. ss_created_at b \<le> ss_created_at a) (db_sessions d)))) (\<lambda>rows.
       act_ret (ok (JObj [(''sessions'', JArr (map session_json rows))])))"

definition revokeSession :: handler where
  "revokeSession rtm E r cx =
     act_bind (body_of r) (\<lambda>body.
     act_seq
       (if truthy (fld body ''all'')
        then act_seq (db_upd (destroyAllSessions (if nullish (subject_of cx) then None else Some (to_str (subject_of cx)))))
               (db_upd (purgeExpiredSessions (rt_now rtm)))
        else db_upd (destroySession (to_str (fld body ''id'')))) (
     act_seq (audit_log rtm (subject_of cx) ''revoke_session'' None (Some (cx_ip cx))
        (JObj [(''all'', JBool (truthy (fld body ''all'')))])) (
       act_ret (ok (JObj [])))))"

definition authenticate :: "runtime \<Rightarrow> env \<Rightarrow> request \<Rightarrow> (world, session option) act" where
  "authenticate rtm E r =
     (case header_of r ''cookie'' of
        None \<Rightarrow> act_ret None
      | Some c \<Rightarrow>
          if \<not> contains_str SESSION_COOKIE c then act_ret None
          else key_run (verifySession (rt_P rtm) E (rt_now rtm) (en_key (rt_en rtm)) (Some c)))"

subsection \<open>The agent channel\<close>

definition safeEqual :: "string \<Rightarrow> string \<Rightarrow> bool" where
  "safeEqual a b =
     (let x = utf8_encode a; y = utf8_encode b in if length x \<noteq> length y then False else ct_diff 0 x y = 0)"

text \<open>
  The guard of the agent routes: \<open>None\<close> when the caller may proceed. For a wrong key the code returns the HttpError
  itself as if it were a response; rebuilt by the security-header wrapper it has status 403 and no body.
\<close>

definition agent_guard :: "env \<Rightarrow> request \<Rightarrow> response option" where
  "agent_guard E r =
     (let key = js_coalesce (fld (re_vars (e_raw E)) ''AGENT_KEY'') JNull in
      if \<not> truthy key then Some (json (JObj [(''ok'', JBool False), (''code'', JStr ''agent_disabled'')]) 503 [])
      else if \<not> safeEqual (case header_of r ''x-kaveh-agent'' of None \<Rightarrow> [] | Some v \<Rightarrow> v) (to_str key)
      then Some \<lparr>rs_status = 403, rs_headers = [], rs_body = Empty\<rparr>
      else None)"

definition agentCtx :: "request \<Rightarrow> (string \<times> string) list \<Rightarrow> rctx" where
  "agentCtx r params =
     \<lparr>cx_params = params,
      cx_session = Some \<lparr>se_id = JUndef, se_subject = JStr ''agent'', se_role = JUndef\<rparr>,
      cx_ip = (case header_of r ''cf-connecting-ip'' of None \<Rightarrow> ''agent'' | Some v \<Rightarrow> if v = [] then ''agent'' else v)\<rparr>"

definition agent_only :: "handler \<Rightarrow> handler" where
  "agent_only h rtm E r cx =
     (case agent_guard E r of Some resp \<Rightarrow> act_ret resp | None \<Rightarrow> h rtm E r (agentCtx r (cx_params cx)))"

definition health :: handler where
  "health = agent_only (\<lambda>rtm E r cx.
     act_bind (db_get (\<lambda>d. length (db_users d))) (\<lambda>n.
     act_bind (read_setting ADMIN_HASH_KEY) (\<lambda>h.
       act_ret (json (JObj [(''ok'', JBool True), (''service'', JStr ''kaveh''), (''version'', JStr ''0.1.0''),
         (''installed'', JBool (is_set h)), (''users'', JInt (int n))]) 200 []))))"

definition adminReset :: handler where
  "adminReset = agent_only (\<lambda>rtm E r cx.
     act_seq (write_settings rtm [(ADMIN_HASH_KEY, JStr [])]) (
     act_seq (db_upd (\<lambda>d. d\<lparr>db_sessions := []\<rparr>)) (
       act_ret (json (JObj [(''ok'', JBool True), (''installed'', JBool False)]) 200 []))))"

definition adminPassword :: handler where
  "adminPassword = agent_only (\<lambda>rtm E r cx.
     act_bind (act_lift (readJson r)) (\<lambda>body.
     let password = to_str (js_coalesce (fld body ''password'') (JStr [])) in
     act_seq (act_when (length password < 10) (badRequest JUndef)) (
     act_seq (set_password rtm password [(''installed_at'', JStr (show_num (rt_now rtm)))]) (
     act_seq (db_upd (\<lambda>d. d\<lparr>db_sessions := []\<rparr>)) (
     act_seq (audit_log rtm (JStr ''agent'') ''admin.password.set'' None (Some []) JNull) (
       act_ret (json (JObj [(''ok'', JBool True), (''installed'', JBool True)]) 200 [])))))))"

definition readBody :: "request \<Rightarrow> jval res" where
  "readBody r = readJson r"

lemma utf8_encode_inj: "utf8_encode a = utf8_encode b \<longleftrightarrow> a = b"
  by (metis demo_decode_encode)

interpretation agk: constant_time_eq safeEqual
  by unfold_locales (auto simp: safeEqual_def Let_def ct_diff_zero utf8_encode_inj)

subsection \<open>Setup, login and revocation\<close>

lemma is_set_iff: "is_set v \<longleftrightarrow> (\<exists>s. v = Some s \<and> s \<noteq> [])"
  by (cases v) (auto simp: is_set_def)

text \<open>
  First-run setup is one-shot: as soon as an administrator hash is stored, \<open>setup\<close> answers 403 whatever the
  request and changes nothing. On a panel without one it refuses a password of fewer than ten characters with 400,
  again changing nothing.
\<close>

theorem setup_one_shot:
  "(is_set (S_get (w_db w) [] ADMIN_HASH_KEY None) \<longrightarrow> auth_setup rtm E r cx w = (Inl forbidden, w)) \<and>
   (\<not> is_set (S_get (w_db w) [] ADMIN_HASH_KEY None) \<and> readJson r = Inr body \<and> \<not> nullish body \<and>
    length (text_field body ''password'' []) < 10 \<longrightarrow> auth_setup rtm E r cx w = (Inl (badRequest JUndef), w))"
  by (auto simp: auth_setup_def act_unfold read_setting_def db_get_def body_of_def need_obj_def Let_def)

theorem setup_one_shot_witness:
  "auth_setup demo_runtime demo_env (demo_request []) demo_ctx
      (demo_world\<lparr>w_db := empty_db\<lparr>db_settings := [(''admin_hash'', ''x'', 0)]\<rparr>\<rparr>) =
     (Inl forbidden, demo_world\<lparr>w_db := empty_db\<lparr>db_settings := [(''admin_hash'', ''x'', 0)]\<rparr>\<rparr>)"
  using setup_one_shot [of "demo_world\<lparr>w_db := empty_db\<lparr>db_settings := [(''admin_hash'', ''x'', 0)]\<rparr>\<rparr>"
      demo_runtime demo_env "demo_request []" demo_ctx]
  by (simp add: is_set_def S_get_def S_all_def ADMIN_HASH_KEY_def empty_db_def)

lemma S_get_setting: "settings_ok d \<Longrightarrow> S_get d [] k None = setting d k"
  by (simp add: S_get_fresh settings_ok_def split: option.splits)

lemma authenticate_rows:
  assumes "authenticate rtm E r w = (Inr (Some se), w')"
  shows "db_sessions (w_db w) \<noteq> []"
proof -
  obtain c s' where "verifySession (rt_P rtm) E (rt_now rtm) (en_key (rt_en rtm)) (Some c) (w_db w, w_key w) = (Inr (Some se), s')"
    using assms by (auto simp: authenticate_def act_ret_def key_run_def split: option.splits if_splits prod.splits)
  from verifySession_rows [OF this] verifySession_frame [OF this] show ?thesis by auto
qed

lemma no_sessions_no_login:
  "db_sessions (w_db w) = [] \<Longrightarrow> fst (authenticate rtm E r w) = Inr s \<Longrightarrow> s = None"
  using authenticate_rows by (cases "authenticate rtm E r w"; cases s) fastforce+

lemma hash_verifies:
  assumes "hashPassword P salt pw = Inr h"
  shows "h \<noteq> [] \<and> verifyPassword P pw (Some h) = Inr True"
  using assms hashPassword_verifies [of P salt pw] by auto

text \<open>The key that PBKDF2 chains out of a password with the parameters of new hashes.\<close>

definition password_key :: "platform \<Rightarrow> byte list \<Rightarrow> string \<Rightarrow> byte list res" where
  "password_key P salt password = derive P password salt PBKDF2_ROUNDS PBKDF2_ITERATIONS"

lemma hash_verifies_only:
  assumes "hashPassword P salt pw = Inr h"
  shows "verifyPassword P x (Some h) = Inr (password_key P salt x = password_key P salt pw)"
  using assms hashPassword_verifies [of P salt pw]
  by (auto simp: password_key_def PBKDF2_ROUNDS_def PBKDF2_ITERATIONS_def PBKDF2_MAX_ITERATIONS_def)

lemma write_settings_lookup:
  assumes "settings_ok (w_db w)" and "write_settings rtm entries w = (x, w')"
  shows "settings_ok (w_db w') \<and> db_sessions (w_db w') = db_sessions (w_db w) \<and> db_users (w_db w') = db_users (w_db w) \<and>
    w_key w' = w_key w \<and> w_guards w' = w_guards w \<and>
    (\<forall>k. setting (w_db w') k =
       (case map_of (rev entries) k of Some v \<Rightarrow> Some (setting_text v) | None \<Rightarrow> setting (w_db w) k))"
proof -
  let ?kvs = "map (\<lambda>(k, v). (k, setting_text v)) entries"
  have w': "w' = w\<lparr>w_db := fold (\<lambda>(k, v). settings_put (rt_now rtm) k v) ?kvs (w_db w)\<rparr>"
    using assms(2) by (simp add: write_settings_def db_upd_def act_upd_def S_set_db)
  have m: "map_of (rev ?kvs) k = map_option setting_text (map_of (rev entries) k)" for k
    unfolding rev_map map_of_map by simp
  show ?thesis
    unfolding w' using assms(1) st.lookup_puts [of "rt_now rtm" ?kvs "w_db w"]
    by (auto simp: settings_ok_puts settings_fold_other m map_add_def split: option.splits)
qed

lemma set_password_spec:
  assumes "settings_ok (w_db w)"
  shows "\<exists>h w'. set_password rtm pw others w = (Inr (), w') \<and> hashPassword (rt_P rtm) (en_salt (rt_en rtm)) pw = Inr h \<and>
    settings_ok (w_db w') \<and> db_sessions (w_db w') = db_sessions (w_db w) \<and> w_key w' = w_key w \<and> w_guards w' = w_guards w \<and>
    (ADMIN_HASH_KEY \<notin> fst ` set others \<longrightarrow> setting (w_db w') ADMIN_HASH_KEY = Some h)"
proof -
  obtain h where h: "hashPassword (rt_P rtm) (en_salt (rt_en rtm)) pw = Inr h"
    using hashPassword_verifies [of "rt_P rtm" "en_salt (rt_en rtm)" pw] by auto
  obtain x w' where w': "write_settings rtm ((ADMIN_HASH_KEY, JStr h) # others) w = (x, w')" by fastforce
  have "x = Inr ()" using w' by (simp add: write_settings_def db_upd_def act_upd_def)
  moreover have "map_of (rev others) ADMIN_HASH_KEY = None" if "ADMIN_HASH_KEY \<notin> fst ` set others"
    using that by (simp add: map_of_eq_None_iff)
  ultimately show ?thesis
    using h w' write_settings_lookup [OF assms w']
    by (auto simp: set_password_def act_unfold map_add_def)
qed

text \<open>The common tail of the handlers that replace the password.\<close>

lemma replace_password_tail:
  assumes ok: "settings_ok (w_db w)"
    and tail: "act_seq (set_password rtm pw []) (act_seq (db_upd (destroyAllSessions None)) (act_seq (audit_log rtm a b c e f) (act_ret resp0))) w = (res, w')"
  shows "res = Inr resp0 \<and> db_sessions (w_db w') = [] \<and>
    (\<forall>x. verifyPassword (rt_P rtm) x (setting (w_db w') ADMIN_HASH_KEY) =
       Inr (password_key (rt_P rtm) (en_salt (rt_en rtm)) x = password_key (rt_P rtm) (en_salt (rt_en rtm)) pw))"
proof -
  obtain h w1 where s: "set_password rtm pw [] w = (Inr (), w1)" "hashPassword (rt_P rtm) (en_salt (rt_en rtm)) pw = Inr h"
    "setting (w_db w1) ADMIN_HASH_KEY = Some h"
    using set_password_spec [OF ok, of rtm pw "[]"] by auto
  have "setting (destroyAllSessions None d) k = setting d k" for d k by (simp add: destroyAllSessions_def setting_def)
  moreover have "setting (audit P n a b c e f d) k = setting d k" for P n d k by (simp add: setting_def)
  ultimately show ?thesis
    using tail s hash_verifies_only [OF s(2)]
    by (auto simp: act_unfold db_upd_def audit_log_def destroyAllSessions_def)
qed

lemma changePassword_cases:
  assumes "changePassword rtm E r cx w = (res, w')"
  shows "(\<exists>e. res = Inl e \<and> w' = w) \<or>
    (\<exists>body. readJson r = Inr body \<and>
      act_seq (set_password rtm (text_field body ''next'' []) []) (act_seq (db_upd (destroyAllSessions None))
        (act_seq (audit_log rtm (subject_of cx) ''change_password'' None (Some (cx_ip cx)) JNull)
          (act_ret (with_header ''set-cookie'' clearSessionCookie (ok (JObj [])))))) w = (res, w'))"
  using assms
  by (auto simp: changePassword_def act_bind_def act_seq_def act_lift_def act_when_def read_setting_def db_get_def act_get_def
      body_of_def Let_def need_obj_def split: sum.splits prod.splits if_splits)

lemma recover_cases:
  assumes "recover rtm E r cx w = (Inr resp, w')"
  shows "\<exists>body. readJson r = Inr body \<and>
      act_seq (set_password rtm (text_field body ''password'' []) []) (act_seq (db_upd (destroyAllSessions None))
        (act_seq (audit_log rtm (JStr ''recovery'') ''recover'' None (Some (cx_ip cx)) JNull)
          (act_ret (ok (JObj []))))) w = (Inr resp, w')"
  using assms
  by (auto simp: recover_def act_bind_def act_seq_def act_lift_def act_when_def act_throw_def
      body_of_def Let_def need_obj_def audit_log_def db_upd_def act_upd_def split: sum.splits prod.splits if_splits)

text \<open>
  C22. Changing the password is final: when \<open>changePassword\<close>, or recovery with the operator's code, succeeds, the
  stored hash verifies exactly the passwords that PBKDF2 maps to the key of the new one (so the new password, and
  the old one or any other only if their derived keys collide), no session is left, and no Cookie header authenticates
  afterwards, whatever it carries. When the password change answers with an error, the stored hash and the sessions are as
  before.
\<close>

theorem password_change_final:
  assumes "settings_ok (w_db w)"
  shows "(\<forall>resp w' body. changePassword rtm E r cx w = (Inr resp, w') \<and> readJson r = Inr body \<longrightarrow>
       (\<forall>x. verifyPassword (rt_P rtm) x (setting (w_db w') ADMIN_HASH_KEY) =
          Inr (password_key (rt_P rtm) (en_salt (rt_en rtm)) x =
               password_key (rt_P rtm) (en_salt (rt_en rtm)) (text_field body ''next'' []))) \<and>
       db_sessions (w_db w') = [] \<and> (\<forall>rtm2 E2 r2 s. fst (authenticate rtm2 E2 r2 w') = Inr s \<longrightarrow> s = None)) \<and>
     (\<forall>resp w' body. recover rtm E r cx w = (Inr resp, w') \<and> readJson r = Inr body \<longrightarrow>
       (\<forall>x. verifyPassword (rt_P rtm) x (setting (w_db w') ADMIN_HASH_KEY) =
          Inr (password_key (rt_P rtm) (en_salt (rt_en rtm)) x =
               password_key (rt_P rtm) (en_salt (rt_en rtm)) (text_field body ''password'' []))) \<and>
       db_sessions (w_db w') = [] \<and> (\<forall>rtm2 E2 r2 s. fst (authenticate rtm2 E2 r2 w') = Inr s \<longrightarrow> s = None)) \<and>
     (\<forall>e w'. changePassword rtm E r cx w = (Inl e, w') \<longrightarrow> w' = w)"
proof -
  note tail = replace_password_tail [OF assms]
  let ?only = "\<lambda>w' pw. db_sessions (w_db w') = [] \<and> (\<forall>x. verifyPassword (rt_P rtm) x (setting (w_db w') ADMIN_HASH_KEY) =
      Inr (password_key (rt_P rtm) (en_salt (rt_en rtm)) x = password_key (rt_P rtm) (en_salt (rt_en rtm)) pw))"
  have A: "?only w' (text_field body ''next'' [])"
    if "changePassword rtm E r cx w = (Inr resp, w')" "readJson r = Inr body" for resp w' body
    using changePassword_cases [OF that(1)] that(2) tail by fastforce
  have B: "?only w' (text_field body ''password'' [])"
    if "recover rtm E r cx w = (Inr resp, w')" "readJson r = Inr body" for resp w' body
    using recover_cases [OF that(1)] that(2) tail by fastforce
  have C: "w' = w" if "changePassword rtm E r cx w = (Inl e, w')" for e w'
    using changePassword_cases [OF that] tail by fastforce
  show ?thesis using A B C no_sessions_no_login by blast
qed

lemma readJson_stringify: "plain v \<Longrightarrow> readJson (r\<lparr>rq_body := json_stringify v\<rparr>) = Inr v"
proof -
  assume "plain v"
  then have p: "json_parse (json_stringify v) = Some v" by (rule json_parse_stringify)
  have "json_parse [] = None" by code_simp
  with p have "json_stringify v \<noteq> []" by auto
  with p show ?thesis by (simp add: readJson_def)
qed

definition demo_change :: jval where
  "demo_change = JObj [(''current'', JStr ''correct horse''), (''next'', JStr ''battery staple'')]"

theorem password_change_final_witness:
  "\<exists>w resp w'. changePassword demo_runtime demo_env ((demo_request [])\<lparr>rq_body := json_stringify demo_change\<rparr>) demo_ctx w =
     (Inr resp, w') \<and> verifyPassword demo_platform ''battery staple'' (setting (w_db w') ADMIN_HASH_KEY) = Inr True \<and>
     verifyPassword demo_platform ''correct horse'' (setting (w_db w') ADMIN_HASH_KEY) = Inr False \<and>
     db_sessions (w_db w') = []"
proof -
  let ?r = "(demo_request [])\<lparr>rq_body := json_stringify demo_change\<rparr>"
  obtain h where h: "h \<noteq> []" "verifyPassword demo_platform ''correct horse'' (Some h) = Inr True"
    using hashPassword_verifies [of demo_platform "[]" "''correct horse''"] by blast
  let ?w = "demo_world\<lparr>w_db := empty_db\<lparr>db_settings := [(ADMIN_HASH_KEY, h, 0)]\<rparr>\<rparr>"
  have so: "settings_ok (w_db ?w)" by (simp add: settings_ok_def)
  have b: "readJson ?r = Inr demo_change" by (rule readJson_stringify) (simp add: demo_change_def)
  have g: "S_get (w_db ?w) [] ADMIN_HASH_KEY None = Some h"
    by (simp add: S_get_def S_all_def)
  obtain res w' where c: "changePassword demo_runtime demo_env ?r demo_ctx ?w = (res, w')" by fastforce
  have nx: "text_field demo_change ''next'' [] = ''battery staple''" "text_field demo_change ''current'' [] = ''correct horse''"
    by (simp_all add: text_field_def demo_change_def js_or_def)
  have nn: "\<not> nullish demo_change" by (simp add: demo_change_def nullish_def)
  obtain w1 where s1: "set_password demo_runtime ''battery staple'' [] ?w = (Inr (), w1)"
    using set_password_spec [OF so, of demo_runtime "''battery staple''" "[]"] by blast
  have "\<exists>resp. res = Inr resp"
    using c h g b nx nn s1
    by (auto simp: changePassword_def act_unfold read_setting_def db_get_def body_of_def need_obj_def Let_def db_upd_def audit_log_def
        demo_runtime_def)
  then obtain resp where "res = Inr resp" by blast
  moreover have "password_key demo_platform salt ''correct horse'' \<noteq> password_key demo_platform salt ''battery staple''" for salt
    by (simp add: password_key_def derive_def PBKDF2_ROUNDS_def PBKDF2_ITERATIONS_def numeral_2_eq_2 pbkdf2_ok demo_platform_def utf8_encode_inj)
  ultimately show ?thesis
    using password_change_final [OF so, of demo_runtime demo_env ?r demo_ctx] c b nx
    by (intro exI [of _ ?w] exI [of _ resp] exI [of _ w']) (simp add: demo_runtime_def)
qed

subsection \<open>Login\<close>

lemma login_guard_frame: "login_guard rtm E ip w = (x, w') \<Longrightarrow> w_db w' = w_db w \<and> w_key w' = w_key w"
  by (auto simp: login_guard_def act_unfold guard_call_def split: if_splits prod.splits guard_reply.splits)

lemma authenticate_cookie:
  assumes "header_of r ''cookie'' = Some (SESSION_COOKIE @ ''='' @ tok)"
  shows "authenticate rtm E r w =
    key_run (verifySession (rt_P rtm) E (rt_now rtm) (en_key (rt_en rtm)) (Some (SESSION_COOKIE @ ''='' @ tok))) w"
proof -
  have "contains_str SESSION_COOKIE (SESSION_COOKIE @ ''='' @ tok)"
    unfolding includes_iff by (metis append_Nil)
  then show ?thesis by (simp add: authenticate_def assms)
qed

lemma new_session_spec:
  assumes "fst (signingKey E (rt_now rtm) (en_key (rt_en rtm)) (w_db w, w_key w)) = Inr k"
    and "en_uuid (rt_en rtm) \<notin> ss_id ` set (db_sessions (w_db w))"
  shows "\<exists>out s'. createSession (rt_P rtm) E (rt_now rtm) (rt_en rtm) subject ''owner'' (Some ip) (header_of r ''user-agent'')
       (sessionTtlMs (e_config E)) (w_db w, w_key w) = (Inr out, s') \<and>
     new_session rtm E r subject ip w = (Inr out, w\<lparr>w_db := fst s', w_key := snd s'\<rparr>) \<and> so_id out = en_uuid (rt_en rtm)"
proof -
  obtain d' c' where "signingKey E (rt_now rtm) (en_key (rt_en rtm)) (w_db w, w_key w) = (Inr k, (d', c'))"
    using assms(1) by (metis fst_conv surj_pair)
  from createSession_ok [OF this assms(2)] obtain out s' where
    c: "createSession (rt_P rtm) E (rt_now rtm) (rt_en rtm) subject ''owner'' (Some ip) (header_of r ''user-agent'')
       (sessionTtlMs (e_config E)) (w_db w, w_key w) = (Inr out, s')" by blast
  moreover from c have "so_id out = en_uuid (rt_en rtm)" by (rule createSession_Inr)
  ultimately show ?thesis by (cases s') (auto simp: new_session_def key_run_def)
qed

definition runtime_laws :: "platform \<Rightarrow> bool" where
  "runtime_laws P \<longleftrightarrow> (\<forall>t. p_decode P (utf8_encode t) = t) \<and> (\<forall>t. p_bind P (JStr t) = Some (JStr t)) \<and> (\<forall>k m. p_hmac P k m \<noteq> [])"

text \<open>
  C18. Login. On an installed panel, a request that the brute-force guard refuses is answered with its error and
  the database is untouched. One that it lets through is answered 401 and opens no session when the password does not
  verify; when it verifies (a signing key being available and the new session id unused), the answer is 200 with a
  cookie that authenticates every later request until the session expires, as the owner that logged in.
\<close>

theorem login_correct:
  assumes "settings_ok (w_db w)" and "setting (w_db w) ADMIN_HASH_KEY = Some h" and "h \<noteq> []"
    and "readJson r = Inr body" and "\<not> nullish body"
    and "verifyPassword (rt_P rtm) (text_field body ''password'' []) (Some h) = Inr valid"
    and "runtime_laws (rt_P rtm)" and "is_int (rt_now rtm)" and "is_int (sessionTtlMs (e_config E))"
  shows "(\<forall>e. fst (login_guard rtm E (cx_ip cx) w) = Inl e \<longrightarrow>
       fst (login rtm E r cx w) = Inl e \<and> w_db (snd (login rtm E r cx w)) = w_db w) \<and>
    (fst (login_guard rtm E (cx_ip cx) w) = Inr () \<and> \<not> valid \<longrightarrow>
       fst (login rtm E r cx w) = Inl unauthorized \<and> db_sessions (w_db (snd (login rtm E r cx w))) = db_sessions (w_db w)) \<and>
    (fst (login_guard rtm E (cx_ip cx) w) = Inr () \<and> valid \<and>
     fst (signingKey E (rt_now rtm) (en_key (rt_en rtm)) (w_db w, w_key w)) = Inr k \<and>
     en_uuid (rt_en rtm) \<notin> ss_id ` set (db_sessions (w_db w)) \<longrightarrow>
       (\<exists>resp w' tok subject. login rtm E r cx w = (Inr resp, w') \<and> rs_status resp = 200 \<and>
          map_of (rs_headers resp) ''set-cookie'' = Some (sessionCookie tok (ttl_sec E) True) \<and>
          (\<forall>rtm2 r2. rt_P rtm2 = rt_P rtm \<and> 0 \<le> rt_now rtm2 \<and> rt_now rtm2 < rt_now rtm + sessionTtlMs (e_config E) \<and>
             header_of r2 ''cookie'' = Some (SESSION_COOKIE @ ''='' @ tok) \<longrightarrow>
             fst (authenticate rtm2 E r2 w') =
               Inr (Some \<lparr>se_id = JStr (en_uuid (rt_en rtm)), se_subject = JStr subject, se_role = JStr ''owner''\<rparr>))))"
proof -
  have st: "read_setting ADMIN_HASH_KEY w = (Inr (Some h), w)"
    using assms(1,2) by (simp add: read_setting_def db_get_def act_get_def S_get_setting)
  have set: "is_set (Some h)" using assms(3) by (simp add: is_set_def)
  obtain g w1 where lg: "login_guard rtm E (cx_ip cx) w = (g, w1)" by fastforce
  have f1: "w_db w1 = w_db w" "w_key w1 = w_key w" using login_guard_frame [OF lg] by auto
  obtain au where au: "read_setting ADMIN_USER_KEY w1 = (Inr au, w1)"
    by (simp add: read_setting_def db_get_def act_get_def)
  define subject where "subject = text_field body ''username'' (set_or au ''admin'')"
  note ex = login_def act_bind_def act_seq_def act_lift_def act_throw_def act_ret_def body_of_def need_obj_def st set lg au Let_def
    subject_def [symmetric]
  have A: "fst (login rtm E r cx w) = Inl e \<and> w_db (snd (login rtm E r cx w)) = w_db w" if "g = Inl e" for e
    using that f1 by (simp add: ex)
  have B: "fst (login rtm E r cx w) = Inl unauthorized \<and> db_sessions (w_db (snd (login rtm E r cx w))) = db_sessions (w_db w)"
    if "g = Inr ()" "\<not> valid"
    using that f1 assms(4,5,6) by (simp add: ex audit_log_def db_upd_def act_upd_def)
  have C: "\<exists>resp w' tok subject. login rtm E r cx w = (Inr resp, w') \<and> rs_status resp = 200 \<and>
          map_of (rs_headers resp) ''set-cookie'' = Some (sessionCookie tok (ttl_sec E) True) \<and>
          (\<forall>rtm2 r2. rt_P rtm2 = rt_P rtm \<and> 0 \<le> rt_now rtm2 \<and> rt_now rtm2 < rt_now rtm + sessionTtlMs (e_config E) \<and>
             header_of r2 ''cookie'' = Some (SESSION_COOKIE @ ''='' @ tok) \<longrightarrow>
             fst (authenticate rtm2 E r2 w') =
               Inr (Some \<lparr>se_id = JStr (en_uuid (rt_en rtm)), se_subject = JStr subject, se_role = JStr ''owner''\<rparr>))"
    if g: "g = Inr ()" "valid" and key: "fst (signingKey E (rt_now rtm) (en_key (rt_en rtm)) (w_db w, w_key w)) = Inr k"
      and fresh: "en_uuid (rt_en rtm) \<notin> ss_id ` set (db_sessions (w_db w))"
  proof -
    let ?reset = "if doStub (e_guard E) ''login'' = None then act_ret ()
              else act_seq (guard_call rtm ''login'' (GReset (Some (cx_ip cx)))) (act_ret ())"
    obtain x w2 where r2: "?reset w1 = (x, w2)" by (cases "?reset w1")
    then have "x = Inr () \<and> w_db w2 = w_db w \<and> w_key w2 = w_key w"
      using f1 by (auto simp: act_unfold guard_call_def split: prod.splits if_splits)
    with r2 have w2: "?reset w1 = (Inr (), w2)" "w_db w2 = w_db w" "w_key w2 = w_key w" by auto
    obtain out s' where c: "createSession (rt_P rtm) E (rt_now rtm) (rt_en rtm) subject ''owner'' (Some (cx_ip cx))
        (header_of r ''user-agent'') (sessionTtlMs (e_config E)) (w_db w2, w_key w2) = (Inr out, s')"
      and n: "new_session rtm E r subject (cx_ip cx) w2 = (Inr out, w2\<lparr>w_db := fst s', w_key := snd s'\<rparr>)"
      and o: "so_id out = en_uuid (rt_en rtm)"
      using new_session_spec [of E rtm w2 k subject "cx_ip cx" r] key fresh w2 by auto
    let ?w = "w2\<lparr>w_db := audit (rt_P rtm) (rt_now rtm) (JStr subject) ''login'' None (Some (cx_ip cx)) JNull (fst s'), w_key := snd s'\<rparr>"
    let ?resp = "with_header ''set-cookie'' (sessionCookie (so_token out) (ttl_sec E) True)
         (ok (JObj [(''username'', JStr subject), (''role'', JStr ''owner''), (''expiresAt'', JNum (Fin (so_expiresAt out)))]))"
    have "login rtm E r cx w = (Inr ?resp, ?w)"
      using g assms(4,5,6) w2(1) n by (simp add: ex audit_log_def db_upd_def act_upd_def)
    moreover have "fst (authenticate rtm2 E r2 ?w) =
        Inr (Some \<lparr>se_id = JStr (en_uuid (rt_en rtm)), se_subject = JStr subject, se_role = JStr ''owner''\<rparr>)"
      if "rt_P rtm2 = rt_P rtm" "0 \<le> rt_now rtm2" "rt_now rtm2 < rt_now rtm + sessionTtlMs (e_config E)"
        "header_of r2 ''cookie'' = Some (SESSION_COOKIE @ ''='' @ so_token out)" for rtm2 r2
    proof -
      have "verifySession (rt_P rtm) E (rt_now rtm2) (en_key (rt_en rtm2)) (Some (SESSION_COOKIE @ ''='' @ so_token out))
          (w_db ?w, snd s') = (Inr (Some \<lparr>se_id = JStr (so_id out), se_subject = JStr subject, se_role = JStr ''owner''\<rparr>), (w_db ?w, snd s'))"
        using assms(7,8,9) that(2,3) by (intro createSession_verifies [OF c]) (auto simp: runtime_laws_def)
      then show ?thesis using that(1) o by (simp add: authenticate_cookie [OF that(4)] key_run_def)
    qed
    ultimately show ?thesis
      by (intro exI [of _ ?resp] exI [of _ ?w] exI [of _ "so_token out"] exI [of _ subject])
         (simp add: with_header_def map_of_set_header ok_def json_def)
  qed
  show ?thesis using A B C lg by simp
qed

lemma demo_laws: "runtime_laws demo_platform"
  by (simp add: runtime_laws_def demo_platform_def demo_decode_encode)

lemma demo_guard: "fst (login_guard demo_runtime demo_env ''9.9.9.9'' (demo_world\<lparr>w_db := d\<rparr>)) = Inr ()"
  by (simp add: login_guard_def doStub_def act_unfold guard_call_def guard_hit_def isBanned_def g_num_def g_win_def q_key_def q_num_def
      demo_world_def demo_runtime_def DEFAULTS_def Let_def)

theorem login_correct_witness:
  "\<exists>w resp w' tok. login demo_runtime demo_env ((demo_request [])\<lparr>rq_body := json_stringify (JObj [(''password'', JStr ''correct horse'')])\<rparr>)
       demo_ctx w = (Inr resp, w') \<and> rs_status resp = 200 \<and>
     map_of (rs_headers resp) ''set-cookie'' = Some (sessionCookie tok (ttl_sec demo_env) True)"
proof -
  let ?b = "JObj [(''password'', JStr ''correct horse'')]"
  let ?r = "(demo_request [])\<lparr>rq_body := json_stringify ?b\<rparr>"
  obtain h where h: "h \<noteq> []" "verifyPassword demo_platform ''correct horse'' (Some h) = Inr True"
    using hashPassword_verifies [of demo_platform "[]" "''correct horse''"] by blast
  let ?d = "empty_db\<lparr>db_settings := [(ADMIN_HASH_KEY, h, 0)]\<rparr>"
  let ?w = "demo_world\<lparr>w_db := ?d\<rparr>"
  have rt: "rt_P demo_runtime = demo_platform" "rt_now demo_runtime = 1000" "rt_en demo_runtime = demo_entropy"
    by (simp_all add: demo_runtime_def)
  have "fst (signingKey demo_env 1000 (en_key demo_entropy) (?d, None)) = Inr (newKey (en_key demo_entropy))"
    by (simp add: signingKey_def insert_or_ignore_def setting_def newKey_b64u b64u_encode_Nil_iff demo_entropy_def ADMIN_HASH_KEY_def Let_def)
  moreover have "readJson ?r = Inr ?b" by (rule readJson_stringify) simp
  moreover have "text_field ?b ''password'' [] = ''correct horse''" by (simp add: text_field_def js_or_def)
  ultimately show ?thesis
    using login_correct [of ?w h ?r ?b demo_runtime True demo_env demo_ctx "newKey (en_key demo_entropy)"] h demo_laws demo_guard [of ?d]
    by (auto simp: rt settings_ok_def setting_def nullish_def is_int_def DEFAULTS_def demo_ctx_def demo_world_def empty_db_def)
qed

end
