(* ===== verification/Api_Users.thy ===== *)
theory Api_Users
  imports Api_Auth
begin

text \<open>
  \<^verbatim>\<open>api/users.js\<close> (the user administration handlers and the client configurations of a user), \<^verbatim>\<open>api/sub.js\<close>
  (the subscription endpoint, first-use activation, the public status page) and the user part of \<^verbatim>\<open>api/agent.js\<close>.
  The status page is represented by the values interpolated into it, in order; its fixed markup and Persian texts
  are not modelled.
\<close>

subsection \<open>Client configurations\<close>

record configs =
  cf_host :: string
  cf_port :: jsnum
  cf_items :: "node_item list"
  cf_uris :: "string list"
  cf_singbox :: jval
  cf_clash :: string
  cf_base64 :: string
  cf_qr :: string

definition panelHost :: "request \<Rightarrow> db \<Rightarrow> string" where
  "panelHost r d = set_or (S_get d [] ''public_host'' None) (rq_hostname r)"

text \<open>\<open>v?.length\<close>, and its use as a condition.\<close>

fun js_length :: "jval \<Rightarrow> jval" where
  "js_length (JArr xs) = JInt (int (length xs))"
| "js_length (JStr s) = JInt (int (length s))"
| "js_length v = fld v ''length''"

text \<open>\<open>JSON.parse(s || "[]")\<close>.\<close>

definition parse_or_throw :: "string option \<Rightarrow> jval res" where
  "parse_or_throw v = (case json_parse (set_or v ''[]'') of Some x \<Rightarrow> Inr x | None \<Rightarrow> Inl (JsError ''SyntaxError''))"

text \<open>\<open>(ips.length ? ips : [host]).slice(0, 8).map(...)\<close>: only an array has both methods.\<close>

definition item_addresses :: "string \<Rightarrow> jval \<Rightarrow> jval list res" where
  "item_addresses host ips =
     (if nullish ips then Inl (JsError ''TypeError'')
      else if \<not> truthy (js_length ips) then Inr [JStr host]
      else case ips of JArr xs \<Rightarrow> Inr (take 8 xs) | _ \<Rightarrow> Inl (JsError ''TypeError''))"

definition config_items :: "user \<Rightarrow> string \<Rightarrow> jsnum \<Rightarrow> jval \<Rightarrow> string \<Rightarrow> jval \<Rightarrow> jval list \<Rightarrow> node_item list" where
  "config_items user host port fp remarkBase ips addrs =
     map (\<lambda>(i, ip). \<lparr>it_uuid = u_uuid user, it_host = host, it_address = ip, it_port = port,
            it_path = ''/'' @ to_str (u_uuid user), it_fingerprint = fp,
            it_remark = (if num_lt (Fin 1) (to_num (js_length ips)) then remarkBase @ ''#'' @ show_nat (Suc i) else remarkBase)\<rparr>)
       (enumerate 0 addrs)"

definition config_opts :: "fragment_preset option \<Rightarrow> jval \<Rightarrow> bool \<Rightarrow> jval" where
  "config_opts frag fp mux =
     JObj [(''fragment'', case frag of None \<Rightarrow> JNull | Some p \<Rightarrow> JObj (preset_json p)), (''fingerprint'', fp),
           (''mux'', if mux then JInt 8 else JInt 0)]"

definition item_uri :: "jval \<Rightarrow> node_item \<Rightarrow> string" where
  "item_uri opts it = vlessUri (to_str (it_uuid it)) (it_host it) (it_address it) (it_port it) (it_path it) opts"

definition setting_val :: "db \<Rightarrow> string \<Rightarrow> jval" where
  "setting_val d k = opt_str (S_get d [] k None)"

definition buildConfigs :: "env \<Rightarrow> user \<Rightarrow> request \<Rightarrow> db \<Rightarrow> configs res" where
  "buildConfigs E user r d =
     (let host = panelHost r d in
      res_bind (if truthy (js_length (h_ips user)) then Inr (h_ips user) else parse_or_throw (S_get d [] ''clean_ips'' None)) (\<lambda>ips.
      let port = to_num (js_or (setting_val d ''port'') (JInt 443));
          fp = js_or (u_fingerprint user) (js_or (setting_val d ''fingerprint'') (JStr []));
          frag = preset (to_str (js_or (u_fragment user) (js_or (setting_val d ''fragment_preset'') (JStr (fragmentPreset (e_config E))))));
          remarkBase = set_or (S_get d [] ''remark_prefix'' None) host in
      res_bind (item_addresses host ips) (\<lambda>addrs.
      let items = config_items user host port fp remarkBase ips addrs;
          opts = config_opts frag fp (S_get d [] ''mux_enabled'' None = Some ''1'');
          uris = map (item_uri opts) items in
      Inr \<lparr>cf_host = host, cf_port = port, cf_items = items, cf_uris = uris, cf_singbox = singBoxConfig items,
           cf_clash = clashYaml items, cf_base64 = base64Subscription uris,
           cf_qr = (case uris of [] \<Rightarrow> [] | u # _ \<Rightarrow> u)\<rparr>)))"

definition item_json :: "node_item \<Rightarrow> jval" where
  "item_json it = JObj
     [(''uuid'', it_uuid it), (''host'', JStr (it_host it)), (''address'', it_address it), (''port'', JNum (it_port it)),
      (''path'', JStr (it_path it)), (''fingerprint'', it_fingerprint it), (''remark'', JStr (it_remark it))]"

definition configs_json :: "configs \<Rightarrow> jval" where
  "configs_json c = JObj
     [(''host'', JStr (cf_host c)), (''port'', JNum (cf_port c)), (''items'', JArr (map item_json (cf_items c))),
      (''uris'', JArr (map JStr (cf_uris c))), (''vless'', JArr (map JStr (cf_uris c))), (''singbox'', cf_singbox c),
      (''clash'', JStr (cf_clash c)), (''base64'', JStr (cf_base64 c)), (''qr'', JStr (cf_qr c))]"

subsection \<open>Handlers\<close>

definition q_or :: "request \<Rightarrow> string \<Rightarrow> string \<Rightarrow> string" where
  "q_or r k d = set_or (query_of r k) d"

definition param :: "rctx \<Rightarrow> string \<Rightarrow> string" where
  "param cx k = (case map_of (cx_params cx) k of None \<Rightarrow> ''undefined'' | Some v \<Rightarrow> v)"

definition configs_of :: "env \<Rightarrow> request \<Rightarrow> user \<Rightarrow> (world, configs) act" where
  "configs_of E r u = act_bind (db_get (buildConfigs E u r)) act_lift"

definition user_reply :: "env \<Rightarrow> request \<Rightarrow> user \<Rightarrow> (world, response) act" where
  "user_reply E r u =
     act_bind (configs_of E r u) (\<lambda>c. act_ret (ok (JObj [(''user'', user_json u), (''configs'', configs_json c)])))"

definition users_list :: handler where
  "users_list rtm E r cx =
     (let page = js_max (Fin 1) (str_to_num (q_or r ''page'' ''1''));
          size = js_min (Fin 200) (js_max (Fin 1) (str_to_num (q_or r ''size'' ''50''))) in
      if \<not> is_finite page \<or> \<not> is_finite size then act_throw (JsError ''D1_TYPE_ERROR'')
      else act_bind (act_bind (db_get (listUsers (rt_now rtm)
              \<lparr>lq_q = q_or r ''q'' [], lq_status = q_or r ''status'' ''all'', lq_sort = q_or r ''sort'' ''created_at'',
               lq_dir = q_or r ''dir'' ''desc'', lq_page = fin_val page, lq_size = fin_val size\<rparr>)) act_lift) (\<lambda>(us, n).
        act_ret (ok (JObj [(''users'', JArr (map user_json us)), (''total'', JInt (int n)), (''page'', JNum page), (''size'', JNum size),
          (''pages'', JNum (Fin (of_int \<lceil>of_nat n / fin_val size\<rceil>)))]))))"

definition getOne :: handler where
  "getOne rtm E r cx =
     act_bind (act_bind (db_get (getUser (rt_now rtm) (param cx ''username''))) act_lift) (user_reply E r)"

definition users_create :: handler where
  "users_create rtm E r cx =
     act_bind (act_lift (readJson r)) (\<lambda>body.
     act_bind (act_lift (newUserInput E (rt_now rtm) (rt_en rtm) (JObj (upsert ''created_by'' (subject_of cx) (obj_fields body))))) (\<lambda>inp.
     act_bind (db_run (createUser (rt_P rtm) (rt_now rtm) inp)) (\<lambda>u.
     act_seq (audit_log rtm (subject_of cx) ''user.create'' (Some (u_username u)) (Some (cx_ip cx)) JNull) (
       user_reply E r u))))"

definition users_update :: handler where
  "users_update rtm E r cx =
     act_bind (body_of r) (\<lambda>body.
     act_bind (db_run (updateUser (rt_P rtm) (rt_now rtm) (param cx ''username'') body)) (\<lambda>u.
     act_seq (audit_log rtm (subject_of cx) ''user.update'' (Some (u_username u)) (Some (cx_ip cx))
        (JObj [(''keys'', JArr (map JStr (obj_keys body)))])) (
       user_reply E r u)))"

definition users_remove :: handler where
  "users_remove rtm E r cx =
     act_seq (db_run (deleteUser (param cx ''username''))) (
     act_seq (audit_log rtm (subject_of cx) ''user.delete'' (Some (param cx ''username'')) (Some (cx_ip cx)) JNull) (
       act_ret (ok (JObj []))))"

definition bulkOp :: handler where
  "bulkOp rtm E r cx =
     act_bind (body_of r) (\<lambda>body.
     act_bind (db_run (bulk (rt_P rtm) (rt_now rtm) (fld body ''usernames'') (fld body ''op'') (fld body ''value''))) (\<lambda>res.
     act_seq (audit_log rtm (subject_of cx) (''user.bulk.'' @ to_str (fld body ''op'')) None (Some (cx_ip cx))
        (JObj [(''n'', fld res ''affected'')])) (
       act_ret (ok res))))"

definition rotateToken :: handler where
  "rotateToken rtm E r cx =
     act_bind (db_run (rotateSubToken (rt_now rtm) (rt_en rtm) (param cx ''username''))) (\<lambda>t.
     act_seq (audit_log rtm (subject_of cx) ''user.rotate_sub'' (Some (param cx ''username'')) (Some (cx_ip cx)) JNull) (
       act_ret (ok (JObj [(''sub_token'', JStr t)]))))"

definition users_rotateUuid :: handler where
  "users_rotateUuid rtm E r cx =
     act_bind (db_run (rotateUuid (rt_now rtm) (rt_en rtm) (param cx ''username''))) (\<lambda>t.
     act_seq (audit_log rtm (subject_of cx) ''user.rotate_uuid'' (Some (param cx ''username'')) (Some (cx_ip cx)) JNull) (
       act_ret (ok (JObj [(''uuid'', JStr t)]))))"

text \<open>\<open>reset\<close>: the assignments the body asks for, on the named user if there is one.\<close>

definition reset_row :: "num \<Rightarrow> jval \<Rightarrow> jval \<Rightarrow> user_row \<Rightarrow> user_row" where
  "reset_row now body expires r0 =
     (let r1 = r0\<lparr>u_updated_at := now\<rparr>;
          r2 = (if fld body ''traffic'' \<noteq> JBool False then r1\<lparr>u_used_bytes := 0\<rparr> else r1);
          r3 = (if truthy (fld body ''requests'') then r2\<lparr>u_requests_used := 0\<rparr> else r2)
      in if truthy (fld body ''days'') then r3\<lparr>u_expires_at := num_col expires\<rparr> else r3)"

definition reset_users :: "platform \<Rightarrow> num \<Rightarrow> jval \<Rightarrow> string \<Rightarrow> (db, unit) act" where
  "reset_users P now body username d =
     (case p_bind P (JNum (num_shift now (num_scale 86400000 (to_num (fld body ''days''))))) of
        None \<Rightarrow> if truthy (fld body ''days'') then (Inl (JsError ''D1_TYPE_ERROR''), d)
                else (Inr (), d\<lparr>db_users := map (\<lambda>r. if u_username r = username then reset_row now body JNull r else r) (db_users d)\<rparr>)
      | Some v \<Rightarrow>
          (Inr (), d\<lparr>db_users := map (\<lambda>r. if u_username r = username then reset_row now body v r else r) (db_users d)\<rparr>))"

definition users_reset :: handler where
  "users_reset rtm E r cx =
     act_bind (body_of r) (\<lambda>body.
     act_seq (db_run (reset_users (rt_P rtm) (rt_now rtm) body (param cx ''username''))) (
     act_seq (audit_log rtm (subject_of cx) ''user.reset'' (Some (param cx ''username'')) (Some (cx_ip cx)) JNull) (
     act_bind (act_bind (db_get (getUser (rt_now rtm) (param cx ''username''))) act_lift) (\<lambda>u.
       act_ret (ok (JObj [(''user'', user_json u)]))))))"

subsection \<open>Agent routes over users\<close>

definition agent_users :: handler where
  "agent_users rtm E r cx = agent_only users_list rtm E r (cx\<lparr>cx_params := []\<rparr>)"

definition agent_createUser :: handler where
  "agent_createUser rtm E r cx = agent_only users_create rtm E r (cx\<lparr>cx_params := []\<rparr>)"

definition userConfigs :: handler where
  "userConfigs = agent_only getOne"

definition userReset :: handler where
  "userReset = agent_only users_reset"

definition agent_deleteUser :: handler where
  "agent_deleteUser = agent_only users_remove"

subsection \<open>api/sub.js\<close>

definition guessType :: "string \<Rightarrow> string" where
  "guessType ua =
     (if list_ex (\<lambda>s. contains_str s ua) [''sing-box'', ''happ'', ''streisand'', ''v2box''] then ''singbox''
      else if list_ex (\<lambda>s. contains_str s ua) [''clash'', ''stash'', ''mihomo''] then ''clash''
      else if contains_str ''karing'' ua then ''singbox''
      else ''base64'')"

definition activate_row :: "num \<Rightarrow> num \<Rightarrow> user_row \<Rightarrow> user_row" where
  "activate_row now days r =
     (if u_activated_at r = None then r\<lparr>u_activated_at := Some now, u_expires_at := Some (now + days * 86400000)\<rparr> else r)"

text \<open>
  The write is scheduled with \<open>waitUntil\<close> and its failure ignored: an \<open>expiry_days\<close> that is not a number is not bound.
\<close>

definition activateIfNeeded :: "num \<Rightarrow> user \<Rightarrow> db \<Rightarrow> db" where
  "activateIfNeeded now user d =
     (if \<not> h_first_connect user \<or> (u_activated_at user \<noteq> None \<and> u_activated_at user \<noteq> Some 0) then d
      else case to_num (u_expiry_days user) of
        Fin days \<Rightarrow> d\<lparr>db_users := map (\<lambda>r. if u_username r = u_username user then activate_row now days r else r) (db_users d)\<rparr>
      | _ \<Rightarrow> d)"

definition update_interval :: "user \<Rightarrow> string" where
  "update_interval user =
     (case to_num (js_or (u_expiry_days user) (JInt 30)) of
        Fin q \<Rightarrow> show_num (max 1 (of_int \<lfloor>q / 3\<rfloor>)) | PInf \<Rightarrow> ''Infinity'' | NInf \<Rightarrow> ''1'' | NaN \<Rightarrow> ''NaN'')"

definition sub_headers :: "user \<Rightarrow> string \<Rightarrow> (string \<times> string) list" where
  "sub_headers user ctype =
     [(''content-disposition'', ''attachment; filename='' @ [CHR 0x22] @ u_username user @ ''.txt'' @ [CHR 0x22]),
      (''profile-update-interval'', update_interval user),
      (''subscription-userinfo'', subscriptionInfoHeader (u_used_bytes user) (h_quota_bytes user) (u_expires_at user)),
      (''cache-control'', ''no-store''), (''content-type'', ctype)]"

definition sub_response :: "user \<Rightarrow> string \<Rightarrow> configs \<Rightarrow> response" where
  "sub_response user type cfg =
     (if type = ''singbox'' \<or> type = ''json'' then
        \<lparr>rs_status = 200, rs_headers = sub_headers user ''application/json; charset=utf-8'', rs_body = Json (cf_singbox cfg)\<rparr>
      else if type = ''clash'' \<or> type = ''yaml'' then
        \<lparr>rs_status = 200, rs_headers = sub_headers user ''text/yaml; charset=utf-8'', rs_body = Text (cf_clash cfg)\<rparr>
      else if type = ''raw'' then
        \<lparr>rs_status = 200, rs_headers = sub_headers user ''text/plain; charset=utf-8'',
         rs_body = Text (join_with [CHR 0x0A] (cf_uris cfg))\<rparr>
      else
        \<lparr>rs_status = 200, rs_headers = sub_headers user ''text/plain; charset=utf-8'',
         rs_body = Text (base64Subscription (cf_uris cfg))\<rparr>)"

definition subscription :: "runtime \<Rightarrow> env \<Rightarrow> request \<Rightarrow> string \<Rightarrow> (world, response) act" where
  "subscription rtm E r token =
     act_bind (db_get (getUserBySubToken (rt_now rtm) token)) (\<lambda>u.
     (case u of
        None \<Rightarrow> act_throw notFound
      | Some user \<Rightarrow>
          if \<not> h_is_active user then act_throw forbidden
          else
          act_seq (db_upd (activateIfNeeded (rt_now rtm) user)) (
          let ua = to_lower (case header_of r ''user-agent'' of None \<Rightarrow> [] | Some v \<Rightarrow> v);
              type = q_or r ''type'' (guessType ua) in
          act_bind (configs_of E r user) (\<lambda>cfg. act_ret (sub_response user type cfg)))))"

definition escapeHtml :: "string \<Rightarrow> string" where
  "escapeHtml s =
     concat (map (\<lambda>c. if c = CHR ''&'' then ''&amp;'' else if c = CHR ''<'' then ''&lt;''
        else if c = CHR ''>'' then ''&gt;'' else if c = CHR 0x22 then ''&quot;'' else [c]) s)"

text \<open>\<open>humanDuration\<close>: \<open>None\<close> for an elapsed duration, otherwise whole days and remaining hours.\<close>

definition humanDuration :: "num \<Rightarrow> (int \<times> int) option" where
  "humanDuration ms =
     (if ms \<le> 0 then None
      else let d = \<lfloor>ms / 86400000\<rfloor> in Some (d, \<lfloor>(ms - of_int d * 86400000) / 3600000\<rfloor>))"

definition to_fixed2 :: "num \<Rightarrow> string" where
  "to_fixed2 q =
     (let n = \<lfloor>\<bar>q\<bar> * 100 + 1 / 2\<rfloor>
      in (if q < 0 \<and> n \<noteq> 0 then ''-'' else []) @ show_int (n div 100) @ ''.'' @ pad0 2 (n mod 100))"

definition gb :: "jsnum \<Rightarrow> string" where
  "gb n = (case n of Fin q \<Rightarrow> to_fixed2 (q / 1024 ^ 3) | x \<Rightarrow> show_jsnum x)"

definition renderStatus :: "user \<Rightarrow> configs \<Rightarrow> string list" where
  "renderStatus user cfg =
     [u_username user, escapeHtml (u_username user), h_status user, show_num (h_used_pct user),
      gb (Fin (u_used_bytes user)), gb (h_quota_bytes user),
      (case h_ms_left user of
         None \<Rightarrow> [] | Some ms \<Rightarrow>
           (case humanDuration ms of None \<Rightarrow> ''0'' | Some (d, h) \<Rightarrow> (if 0 < d then show_int d @ ''d'' else []) @ show_int h @ ''h'')),
      to_str (u_device_limit user), escapeHtml (case cf_uris cfg of [] \<Rightarrow> [] | u # _ \<Rightarrow> u)]"

definition statusPage :: "runtime \<Rightarrow> env \<Rightarrow> request \<Rightarrow> string \<Rightarrow> (world, response) act" where
  "statusPage rtm E r sid =
     act_bind (db_get (\<lambda>d. case getUserBySubToken (rt_now rtm) sid d of Some u \<Rightarrow> Some u | None \<Rightarrow> getUserByUuid (rt_now rtm) sid d)) (\<lambda>u.
     (case u of
        None \<Rightarrow> act_throw notFound
      | Some user \<Rightarrow>
          act_bind (configs_of E r user) (\<lambda>cfg.
          act_bind (read_setting ''status_page_enabled'') (\<lambda>en.
          act_seq (act_when (en = Some ''0'') notFound) (
            act_ret \<lparr>rs_status = 200,
              rs_headers = [(''content-type'', ''text/html; charset=utf-8''), (''cache-control'', ''no-store'')],
              rs_body = Json (JArr (map JStr (renderStatus user cfg)))\<rparr>)))))"

end
