(* ===== verification/Api_Admin.thy ===== *)
theory Api_Admin
  imports Api_Users
begin

text \<open>
  \<^verbatim>\<open>api/stats.js\<close> (dashboard, settings, backup), \<^verbatim>\<open>api/diag.js\<close> (probes, audit log, unban) and
  \<^verbatim>\<open>core/maintenance.js\<close> (the periodic pass). Error message texts and Persian reasons are not modelled.
\<close>

subsection \<open>api/stats.js\<close>

text \<open>
  \<open>cfUsage\<close> reads the variables of the environment it is given and caches a successful answer for a minute.
\<close>

definition unavailable :: jval where
  "unavailable = JObj [(''available'', JBool False)]"

definition cf_value :: "jval \<Rightarrow> jval" where
  "cf_value j =
     (let res = fld j ''result''; daily = fld res ''daily'' in
      JObj [(''available'', JBool True), (''total'', js_coalesce (fld res ''total'') JNull), (''daily'', js_coalesce daily JNull),
            (''limit'', JInt 100000),
            (''pct'', if truthy daily
                      then (case to_num daily of Fin q \<Rightarrow> JNum (Fin (js_round (q / 100000 * 1000) / 10)) | x \<Rightarrow> JNum x)
                      else JNull)])"

definition cf_fetch :: "runtime \<Rightarrow> jval \<Rightarrow> (world, jval) act" where
  "cf_fetch rtm vars w =
     (if \<not> truthy (fld vars ''CF_ACCOUNT_ID'') \<or> \<not> truthy (fld vars ''CF_API_TOKEN'') then (Inr unavailable, w)
      else case rt_cf rtm (to_str (fld vars ''CF_ACCOUNT_ID'')) of
        CfJson j \<Rightarrow> (Inr (cf_value j), w\<lparr>w_cf_cache := Some (cf_value j, rt_now rtm + 60000)\<rparr>)
      | _ \<Rightarrow> (Inr unavailable, w))"

definition cfUsage :: "runtime \<Rightarrow> jval \<Rightarrow> (world, jval) act" where
  "cfUsage rtm vars w =
     (case w_cf_cache w of
        Some (v, expiry) \<Rightarrow> if rt_now rtm < expiry then (Inr v, w) else cf_fetch rtm vars w
      | None \<Rightarrow> cf_fetch rtm vars w)"

text \<open>
  As a route, \<open>cfUsage\<close> gets the request in the place of the environment (so no variables), and its plain-object result
  is rebuilt by the security-header wrapper into an empty response with status 200.
\<close>

definition cfUsage_route :: handler where
  "cfUsage_route rtm E r cx =
     act_bind (cfUsage rtm JUndef) (\<lambda>_. act_ret \<lparr>rs_status = 200, rs_headers = [], rs_body = Empty\<rparr>)"

definition since_day :: "num \<Rightarrow> jsnum \<Rightarrow> string res" where
  "since_day now days = iso_day_js (num_shift now (num_neg (num_scale 86400000 days)))"

definition series_day :: "usage_row list \<Rightarrow> string \<Rightarrow> jval" where
  "series_day us day =
     (let rows = filter (\<lambda>r. us_day r = day) us; up = sum_list (map us_up rows); down = sum_list (map us_down rows) in
      JObj [(''day'', JStr day), (''up'', JNum (Fin up)), (''down'', JNum (Fin down)), (''total'', JNum (Fin (up + down))),
            (''conns'', JNum (Fin (sum_list (map us_conns rows))))])"

definition usageSeries :: "num \<Rightarrow> jsnum \<Rightarrow> db \<Rightarrow> jval list res" where
  "usageSeries now days d =
     res_bind (since_day now days) (\<lambda>since.
       let us = filter (\<lambda>r. text_le since (us_day r)) (db_usage d)
       in Inr (map (series_day us) (sort_by text_le (uniq (map us_day us)))))"

definition topConsumers :: "nat \<Rightarrow> db \<Rightarrow> jval list" where
  "topConsumers limit d =
     map (\<lambda>r. JObj [(''username'', JStr (u_username r)), (''used_bytes'', JNum (Fin (u_used_bytes r))), (''quota_gb'', u_quota_gb r),
                    (''requests_used'', JNum (Fin (u_requests_used r)))])
       (take limit (sort_by (\<lambda>a b. u_used_bytes b \<le> u_used_bytes a) (db_users d)))"

definition stats_json :: "user_stats \<Rightarrow> jval" where
  "stats_json s = JObj [(''total'', JInt (int (st_total s))), (''active'', JNum (Fin (st_active s))), (''expired'', JInt (int (st_expired s))),
     (''used_bytes'', JNum (Fin (st_used_bytes s))), (''requests'', JNum (Fin (st_requests s)))]"

definition overview :: handler where
  "overview rtm E r cx =
     act_bind (db_get (userStats (rt_now rtm))) (\<lambda>stats.
     act_bind (cfUsage rtm (re_vars (e_raw E))) (\<lambda>usage.
     act_bind (act_bind (db_get (usageSeries (rt_now rtm) (str_to_num (q_or r ''days'' ''7'')))) act_lift) (\<lambda>daily.
     act_bind (db_get (topConsumers 8)) (\<lambda>top.
     act_bind (act_bind (db_get (\<lambda>d. parse_or_throw (S_get d [] ''clean_ips'' None))) act_lift) (\<lambda>cleanIps.
     act_bind (db_get (\<lambda>d. d)) (\<lambda>d.
       act_ret (ok (JObj
         [(''users'', stats_json stats), (''cloudflare'', usage), (''series'', JArr daily), (''top'', JArr top),
          (''settings'', JObj
            [(''panelName'', opt_str (S_get d [] ''panel_name'' (Some (panelName (e_config E))))),
             (''publicHost'', setting_val d ''public_host''),
             (''port'', JNum (to_num (js_or (setting_val d ''port'') (JInt 443)))),
             (''fragmentPreset'', opt_str (S_get d [] ''fragment_preset'' (Some (fragmentPreset (e_config E))))),
             (''cleanIps'', cleanIps), (''autoRotate'', JBool (S_get d [] ''auto_rotate'' None = Some ''1'')),
             (''rotateMinutes'', JNum (to_num (js_or (setting_val d ''rotate_minutes'') (JInt 30)))),
             (''muxEnabled'', JBool (S_get d [] ''mux_enabled'' None = Some ''1'')),
             (''blockNsfw'', JBool (S_get d [] ''block_nsfw'' None = Some ''1''))])]))))))))"

definition usage_json :: "usage_row \<Rightarrow> jval" where
  "usage_json u = JObj [(''day'', JStr (us_day u)), (''up_bytes'', JNum (Fin (us_up u))), (''down_bytes'', JNum (Fin (us_down u))),
     (''conns'', JNum (Fin (us_conns u)))]"

definition userUsage :: handler where
  "userUsage rtm E r cx =
     (let username = query_of r ''username''; days = str_to_num (q_or r ''days'' ''14'') in
     act_bind (act_lift (since_day (rt_now rtm) days)) (\<lambda>since.
     act_bind (db_get (\<lambda>d. sort_by (\<lambda>a b. text_le (us_day a) (us_day b))
         (filter (\<lambda>u. Some (us_username u) = username \<and> text_le since (us_day u)) (db_usage d)))) (\<lambda>rows.
       act_ret (ok (JObj [(''username'', opt_str username), (''days'', JNum days), (''series'', JArr (map usage_json rows))])))))"

definition getSettings :: handler where
  "getSettings rtm E r cx =
     act_bind (db_get (\<lambda>d. redactSettings (S_all d []))) (\<lambda>kvs.
       act_ret (ok (JObj [(''settings'', JObj (map (\<lambda>(k, v). (k, JStr v)) kvs))])))"

definition SETTABLE :: "string list" where
  "SETTABLE = [''panel_name'', ''public_host'', ''port'', ''fragment_preset'', ''fingerprint'', ''clean_ips'', ''auto_rotate'',
     ''rotate_minutes'', ''mux_enabled'', ''block_nsfw'', ''block_ads'', ''remark_prefix'', ''sub_prefix'', ''default_quota_gb'',
     ''default_expiry_days'', ''status_page_enabled'', ''maintenance'']"

definition settings_patch :: "jval \<Rightarrow> (string \<times> jval) list" where
  "settings_patch body =
     fold (\<lambda>(k, v). upsert k (JStr (setting_text v))) (filter (\<lambda>(k, v). k \<in> set SETTABLE) (obj_fields body)) []"

definition putSettings :: handler where
  "putSettings rtm E r cx =
     act_bind (body_of r) (\<lambda>body.
     let patch = settings_patch body in
     act_seq (write_settings rtm patch) (
     act_seq (audit_log rtm (subject_of cx) ''settings.update'' None (Some (cx_ip cx)) (JObj [(''keys'', JArr (map (JStr \<circ> fst) patch))])) (
       act_ret (ok (JObj [(''settings'', JObj patch)])))))"

definition row_json :: "user_row \<Rightarrow> jval" where
  "row_json u = JObj
     [(''id'', JInt (int (u_id u))), (''username'', JStr (u_username u)), (''uuid'', u_uuid u),
      (''sub_token'', u_sub_token u), (''quota_gb'', u_quota_gb u), (''used_bytes'', JNum (Fin (u_used_bytes u))),
      (''expiry_days'', u_expiry_days u), (''first_connect'', u_first_connect u),
      (''activated_at'', opt_num (u_activated_at u)), (''expires_at'', opt_num (u_expires_at u)),
      (''device_limit'', u_device_limit u), (''request_limit'', u_request_limit u),
      (''requests_used'', JNum (Fin (u_requests_used u))), (''ips'', JStr (u_ips u)), (''proxies'', JStr (u_proxies u)),
      (''connection'', u_connection u), (''tls'', u_tls u), (''fragment'', u_fragment u),
      (''fingerprint'', u_fingerprint u), (''block_list'', JStr (u_block_list u)), (''is_active'', JNum (Fin (u_is_active u))),
      (''created_by'', u_created_by u), (''note'', u_note u), (''created_at'', JNum (Fin (u_created_at u))),
      (''updated_at'', JNum (Fin (u_updated_at u)))]"

definition setting_json :: "string \<times> string \<times> num \<Rightarrow> jval" where
  "setting_json kv = (case kv of (k, v, t) \<Rightarrow> JObj [(''key'', JStr k), (''value'', JStr v), (''updated_at'', JNum (Fin t))])"

definition exported_settings :: "db \<Rightarrow> (string \<times> string \<times> num) list" where
  "exported_settings d = filter (\<lambda>kv. \<not> like ''%hash%'' (fst kv)) (db_settings d)"

definition exportBackup :: handler where
  "exportBackup rtm E r cx =
     act_bind (db_get (\<lambda>d. d)) (\<lambda>d.
     act_seq (audit_log rtm (subject_of cx) ''backup.export'' None (Some (cx_ip cx)) JNull) (
       act_ret \<lparr>rs_status = 200,
         rs_headers = [(''content-type'', ''application/json; charset=utf-8''),
           (''content-disposition'', ''attachment; filename='' @ [CHR 0x22] @ ''kaveh-backup-'' @ show_num (rt_now rtm) @ ''.json'' @ [CHR 0x22])],
         rs_body = Json (JObj [(''format'', JStr ''kaveh-backup''), (''version'', JInt 1), (''exported_at'', JStr (iso_string (rt_now rtm))),
           (''users'', JArr (map row_json (db_users d))), (''settings'', JArr (map setting_json (exported_settings d))),
           (''plans'', JArr (db_plans d)), (''nodes'', JArr (db_nodes d))])\<rparr>))"

text \<open>
  \<open>importBackup\<close>: the rows are bound with one object for \<open>@name\<close> parameters. D1 binds ordered values only: an object
  is rejected by \<open>bind\<close>, and were it accepted, one value for twenty-three parameters fails in the batch. An INSERT is
  therefore never executed; what is left are the guards, the deletion of replace mode, and the case without users.
\<close>

definition importBackup :: handler where
  "importBackup rtm E r cx =
     act_bind (body_of r) (\<lambda>body.
     act_seq (act_when (fld body ''format'' \<noteq> JStr ''kaveh-backup'') (JsError ''bad backup format'')) (
     let mode = (if fld body ''mode'' = JStr ''merge'' then ''merge'' else ''replace'') in
     act_seq (if mode = ''replace'' then db_upd (\<lambda>d. d\<lparr>db_users := [], db_usage := []\<rparr>) else act_ret ()) (
     (case js_or (fld body ''users'') (JArr []) of
        JArr us \<Rightarrow>
          if us \<noteq> [] then
            act_throw (JsError (if list_ex nullish us then ''TypeError''
              else if p_bind (rt_P rtm) (JObj []) = None then ''D1_TYPE_ERROR'' else ''Wrong number of parameter bindings''))
          else
          act_seq (audit_log rtm (subject_of cx) ''backup.import'' None (Some (cx_ip cx)) (JObj [(''mode'', JStr mode), (''n'', JInt 0)])) (
            act_ret (ok (JObj [(''imported'', JInt 0), (''mode'', JStr mode)])))
      | _ \<Rightarrow> act_throw (JsError ''TypeError'')))))"

subsection \<open>core/maintenance.js\<close>

definition due :: "num \<Rightarrow> user_row \<Rightarrow> bool" where
  "due now r \<longleftrightarrow> u_is_active r = 1 \<and> (case u_expires_at r of None \<Rightarrow> False | Some t \<Rightarrow> t < now)"

definition on_user :: "string \<Rightarrow> (user_row \<Rightarrow> user_row) \<Rightarrow> db \<Rightarrow> db" where
  "on_user name f d = d\<lparr>db_users := map (\<lambda>r. if u_username r = name then f r else r) (db_users d)\<rparr>"

text \<open>The statement for one due user; \<open>None\<close> when D1 refuses the bound value.\<close>

definition expiry_stmt :: "platform \<Rightarrow> num \<Rightarrow> string \<Rightarrow> user_row \<Rightarrow> db stmt option" where
  "expiry_stmt P now policy u =
     (if policy = ''renew'' then
        map_option (\<lambda>v. ok_stmt (on_user (u_username u) (\<lambda>r. r\<lparr>u_expires_at := num_col v, u_used_bytes := 0\<rparr>)))
          (p_bind P (JNum (num_shift now (num_scale 86400000 (to_num (u_expiry_days u))))))
      else if policy = ''delete'' then
        Some (ok_stmt (\<lambda>d. d\<lparr>db_users := filter (\<lambda>r. u_username r \<noteq> u_username u) (db_users d)\<rparr>))
      else Some (ok_stmt (on_user (u_username u) (\<lambda>r. r\<lparr>u_is_active := 0\<rparr>))))"

definition expire_users :: "platform \<Rightarrow> num \<Rightarrow> string \<Rightarrow> (db, nat) act" where
  "expire_users P now policy d =
     (case List.those (map (expiry_stmt P now policy) (filter (due now) (db_users d))) of
        None \<Rightarrow> (Inl (JsError ''D1_TYPE_ERROR''), d)
      | Some stmts \<Rightarrow> (case batch stmts d of (Inl e, d') \<Rightarrow> (Inl e, d') | (Inr _, d') \<Rightarrow> (Inr (length stmts), d')))"

definition rotate_ips :: "runtime \<Rightarrow> (world, nat) act" where
  "rotate_ips rtm =
     act_bind (db_get (\<lambda>d. d)) (\<lambda>d.
       (case (S_get d [] ''auto_rotate'' None = Some ''1'', S_getJson d [] ''ip_pool'' (JArr []), S_get d [] ''public_host'' None) of
          (True, JArr pool, Some host) \<Rightarrow>
            if pool = [] \<or> host = [] then act_ret 0
            else (case rankPool (rt_probe rtm host) (Fin 10) pool of
                    None \<Rightarrow> act_ret 0
                  | Some ranked \<Rightarrow>
                      if ranked = [] then act_ret 0
                      else act_seq (write_settings rtm [(''clean_ips'', JArr (take 8 ranked)), (''last_rotate'', JStr (show_num (rt_now rtm)))])
                             (act_ret (length ranked)))
        | _ \<Rightarrow> act_ret 0))"

definition housekeeping :: "num \<Rightarrow> db \<Rightarrow> db" where
  "housekeeping now d =
     (let d1 = purgeExpiredSessions now d;
          d2 = d1\<lparr>db_usage := filter (\<lambda>u. text_le (iso_day (now - 90 * 86400000)) (us_day u)) (db_usage d1)\<rparr>
      in d2\<lparr>db_audit := filter (\<lambda>a. \<not> au_at a < now - 90 * 86400000) (db_audit d2)\<rparr>)"

definition runMaintenance :: "runtime \<Rightarrow> env \<Rightarrow> jval \<Rightarrow> (world, jval) act" where
  "runMaintenance rtm E actor =
     act_seq (schema_run (ensureSchema (rt_migrations rtm) (rt_ddl_ok rtm) (e_db E) (rt_now rtm))) (
     act_bind (db_get (\<lambda>d. the (S_get d [] ''on_expiry'' (Some ''disable'')))) (\<lambda>policy.
     act_bind (db_run (expire_users (rt_P rtm) (rt_now rtm) policy)) (\<lambda>n.
     act_seq (if n = 0 then act_ret ()
              else audit_log rtm actor ''maintenance.expiry'' None None (JObj [(''n'', JInt (int n)), (''policy'', JStr policy)])) (
     act_bind (rotate_ips rtm) (\<lambda>rotated.
     act_seq (db_upd (housekeeping (rt_now rtm))) (
     act_seq (if e_ledger E \<and> rt_ledger_up rtm then act_seq (ledger_call rtm E LFlush) (act_ret ()) else act_ret ()) (
       act_ret (JObj [(''expired_handled'', JInt (int n)), (''policy'', JStr policy), (''ips_rotated'', JInt (int rotated)),
         (''sessions_purged'', JInt 0), (''ms'', JInt 0)]))))))))"

subsection \<open>api/diag.js\<close>

definition probeNode :: handler where
  "probeNode rtm E r cx =
     act_bind (body_of r) (\<lambda>body.
     let spec = text_field body ''proxy'' []; target = text_field body ''target'' ''https://cp.cloudflare.com'' in
     act_seq (act_when (parseProxy spec = None) (badRequest JUndef)) (
       act_ret (ok (JObj ((''spec'', JStr spec) # obj_fields
         (case rt_url_host rtm target of
            None \<Rightarrow> JObj [(''ok'', JBool False), (''latencyMs'', JNum (Fin (rt_probe_ms rtm)))]
          | Some host \<Rightarrow> probeProxy (rt_P rtm) (rt_dial rtm) (rt_now rtm) (rt_now rtm + rt_probe_ms rtm) spec host))))))"

text \<open>A ranking that never ends is an invocation the platform cuts off.\<close>

definition rankIps :: handler where
  "rankIps rtm E r cx =
     act_bind (body_of r) (\<lambda>body.
     let pool = take 200 (arr_items (fld body ''ips'')); host = text_field body ''host'' (panelName (e_config E)) in
     act_seq (act_when (pool = []) (badRequest JUndef)) (
     (case rankPool (rt_probe rtm host) (to_num (js_or (fld body ''concurrency'') (JInt 10))) pool of
        None \<Rightarrow> act_throw (JsError ''never settles'')
      | Some ranked \<Rightarrow>
          act_ret (ok (JObj [(''total'', JInt (int (length pool))), (''healthy'', JInt (int (length ranked))), (''ips'', JArr ranked)])))))"

definition sample_json :: "num \<times> nat option \<Rightarrow> jval" where
  "sample_json s = JObj ((''ms'', JNum (Fin (fst s))) # (case snd s of Some st \<Rightarrow> [(''status'', JInt (int st))] | None \<Rightarrow> [(''error'', JStr ''failed'')]))"

definition ping :: handler where
  "ping rtm E r cx =
     (let target = q_or r ''target'' ''https://cp.cloudflare.com'' in
      if \<not> (starts_with ''http://'' target \<or> starts_with ''https://'' target) then act_throw (badRequest JUndef)
      else let samples = take 3 (rt_head rtm target); good = map fst (filter (\<lambda>s. snd s \<noteq> None) samples) in
        act_ret (ok (JObj
          [(''target'', JStr target), (''samples'', JArr (map sample_json samples)), (''colo'', js_coalesce (rt_colo rtm) JNull),
           (''country'', js_coalesce (rt_country rtm) JNull),
           (''avg'', if good = [] then JNull else JNum (Fin (js_round (sum_list good / of_nat (length good))))),
           (''loss'', JStr (show_nat (length samples - length good) @ ''/'' @ show_nat (length samples)))])))"

definition audit_json :: "audit_row \<Rightarrow> jval" where
  "audit_json a = JObj [(''id'', JInt (int (au_id a))), (''at'', JNum (Fin (au_at a))), (''actor'', JStr (au_actor a)),
     (''action'', JStr (au_action a)), (''target'', opt_str (au_target a)), (''ip_hash'', opt_str (au_ip_hash a)), (''detail'', opt_str (au_detail a))]"

definition recentAudit :: handler where
  "recentAudit rtm E r cx =
     (case js_min (Fin 200) (str_to_num (q_or r ''limit'' ''50'')) of
        Fin limit \<Rightarrow>
          if \<not> is_int limit then act_throw (JsError ''datatype mismatch'')
          else act_bind (db_get (\<lambda>d. sql_page limit 0 (sort_by (\<lambda>a b. au_id b \<le> au_id a) (db_audit d)))) (\<lambda>rows.
            act_ret (ok (JObj [(''entries'', JArr (map audit_json rows))])))
      | _ \<Rightarrow> act_throw (JsError ''D1_TYPE_ERROR''))"

definition unban :: handler where
  "unban rtm E r cx =
     act_bind (act_lift (need_obj (case readJson r of Inr b \<Rightarrow> b | Inl _ \<Rightarrow> JObj []))) (\<lambda>body.
     let ip = trim (to_str (js_or (fld body ''ip'') (js_or (opt_str (query_of r ''ip'')) (JStr (cx_ip cx))))) in
     act_seq (act_when (ip = []) (badRequest JUndef)) (
     act_seq (act_when (doStub (e_guard E) ''guard'' = None) (JsError ''Guard Durable Object binding is missing'')) (
     act_seq (guard_call rtm ''guard'' (GUnban (Some (''login:'' @ ip)))) (
     act_seq (audit_log rtm (subject_of cx) ''guard.unban'' (Some ip) (Some (cx_ip cx)) JNull) (
       act_ret (ok (JObj [(''ip'', JStr ip), (''ok'', JBool True), (''unbanned'', JStr (''login:'' @ ip))])))))))"

definition maintenance :: handler where
  "maintenance rtm E r cx =
     act_bind (runMaintenance rtm E (js_or (subject_of cx) (JStr ''admin''))) (\<lambda>summary.
     act_seq (audit_log rtm (subject_of cx) ''maintenance.manual'' None (Some (cx_ip cx)) summary) (
       act_ret (ok summary)))"

definition fragments :: handler where
  "fragments rtm E r cx =
     act_ret (ok (JObj [(''presets'', JArr presetList), (''fingerprints'', JArr (map JStr fingerprintList)),
       (''tlsPorts'', JArr (map (\<lambda>n. JInt (int n)) CF_TLS_PORTS)), (''httpPorts'', JArr (map (\<lambda>n. JInt (int n)) CF_HTTP_PORTS))]))"

end
