(* ===== verification/Router.thy ===== *)
theory Router
  imports Core_Http
begin

text \<open>
  \<^verbatim>\<open>core/router.js\<close>: path patterns with \<open>:name\<close> parameters, one-pass method matching with a 405
  fallback. A pattern is compiled to tokens; the literal parts stand for themselves (no route of the
  program has a regular-expression metacharacter outside its parameters). Matching follows the
  greedy, backtracking search of \<open>([^/]+)\<close>.
\<close>

subsection \<open>Patterns\<close>

datatype tok = Lit char | Param

definition is_param_start :: "char \<Rightarrow> bool" where
  "is_param_start c \<longleftrightarrow> is_lower c \<or> is_upper c \<or> c = CHR ''_''"

definition is_param_char :: "char \<Rightarrow> bool" where
  "is_param_char c \<longleftrightarrow> is_alnum c \<or> c = CHR ''_''"

text \<open>\<open>path.replace(PARAM_RE, ...)\<close>: the tokens and the keys in order.\<close>

function compile :: "string \<Rightarrow> tok list \<times> string list" where
  "compile [] = ([], [])"
| "compile (c # cs) =
     (if c = CHR '':'' \<and> cs \<noteq> [] \<and> is_param_start (hd cs)
      then let k = takeWhile is_param_char cs; (ts, ks) = compile (dropWhile is_param_char cs)
           in (Param # ts, k # ks)
      else let (ts, ks) = compile cs in (Lit c # ts, ks))"
  by pat_completeness auto
termination
  by (relation "measure length") (auto simp: length_dropWhile_le le_imp_less_Suc)

fun try_caps :: "(string \<Rightarrow> string list option) \<Rightarrow> string \<Rightarrow> nat \<Rightarrow> string list option" where
  "try_caps f s 0 = None"
| "try_caps f s (Suc k) =
     (case f (drop (Suc k) s) of
        Some caps \<Rightarrow> Some (take (Suc k) s # caps)
      | None \<Rightarrow> try_caps f s k)"

definition seg_len :: "string \<Rightarrow> nat" where
  "seg_len s = length (takeWhile (\<lambda>c. c \<noteq> CHR ''/'') s)"

fun match_tok :: "tok \<Rightarrow> (string \<Rightarrow> string list option) \<Rightarrow> string \<Rightarrow> string list option" where
  "match_tok (Lit c) f s = (case s of [] \<Rightarrow> None | x # xs \<Rightarrow> if x = c then f xs else None)"
| "match_tok Param f s = try_caps f s (seg_len s)"

primrec rx_exec :: "tok list \<Rightarrow> string \<Rightarrow> string list option" where
  "rx_exec [] = (\<lambda>s. if s = [] then Some [] else None)"
| "rx_exec (t # ts) = match_tok t (rx_exec ts)"

subsection \<open>Routes\<close>

record 'h route =
  rt_method :: string
  rt_re :: "tok list"
  rt_keys :: "string list"
  rt_path :: string
  rt_auth :: "string option"
  rt_handler :: 'h

definition add_route ::
  "string \<Rightarrow> string \<Rightarrow> 'h \<Rightarrow> string option \<Rightarrow> 'h route list \<Rightarrow> 'h route list" where
  "add_route method path h auth rs =
     rs @ [\<lparr>rt_method = method, rt_re = fst (compile path), rt_keys = snd (compile path),
            rt_path = path, rt_auth = auth, rt_handler = h\<rparr>]"

datatype 'h hit = Miss | WrongMethod "string list" | Hit "'h route" "(string \<times> string) list"

text \<open>\<open>decodeURIComponent\<close> is a parameter: \<open>None\<close> is the URIError it throws.\<close>

definition safeDecode :: "(string \<Rightarrow> string option) \<Rightarrow> string \<Rightarrow> string" where
  "safeDecode decodeURI s = (case decodeURI s of Some t \<Rightarrow> t | None \<Rightarrow> s)"

fun match_from ::
  "(string \<Rightarrow> string option) \<Rightarrow> 'h route list \<Rightarrow> string list \<Rightarrow> string \<Rightarrow> string \<Rightarrow> 'h hit" where
  "match_from du [] allowed m p = (if allowed = [] then Miss else WrongMethod allowed)"
| "match_from du (r # rs) allowed m p =
     (case rx_exec (rt_re r) p of
        None \<Rightarrow> match_from du rs allowed m p
      | Some caps \<Rightarrow>
          if rt_method r \<noteq> m then match_from du rs (allowed @ [rt_method r]) m p
          else Hit r (zip (rt_keys r) (map (safeDecode du) caps)))"

definition route_match ::
  "(string \<Rightarrow> string option) \<Rightarrow> 'h route list \<Rightarrow> string \<Rightarrow> string \<Rightarrow> 'h hit" where
  "route_match du routes method pathname = match_from du routes [] method pathname"

definition pad_end :: "nat \<Rightarrow> string \<Rightarrow> string" where
  "pad_end n s = s @ replicate (n - length s) CHR '' ''"

definition route_list :: "'h route list \<Rightarrow> string list" where
  "route_list rs = map (\<lambda>r. pad_end 6 (rt_method r) @ '' '' @ rt_path r) rs"

fun requireMatch :: "'h hit \<Rightarrow> ('h route \<times> (string \<times> string) list) res" where
  "requireMatch Miss = Inl notFound"
| "requireMatch (WrongMethod allowed) = Inl (methodNotAllowed allowed)"
| "requireMatch (Hit r ps) = Inr (r, ps)"

subsection \<open>What a pattern matches\<close>

text \<open>The text a token list denotes once its parameters are filled in.\<close>

fun fill :: "tok list \<Rightarrow> string list \<Rightarrow> string option" where
  "fill [] [] = Some []"
| "fill (Lit c # ts) caps = map_option ((#) c) (fill ts caps)"
| "fill (Param # ts) (cap # caps) = map_option ((@) cap) (fill ts caps)"
| "fill ts caps = None"

definition good_cap :: "string \<Rightarrow> bool" where
  "good_cap s \<longleftrightarrow> s \<noteq> [] \<and> CHR ''/'' \<notin> set s"

lemma try_caps_SomeD:
  "try_caps f s n = Some caps \<Longrightarrow>
     \<exists>k rest. 0 < k \<and> k \<le> n \<and> f (drop k s) = Some rest \<and> caps = take k s # rest"
proof (induction n)
  case (Suc n)
  show ?case
  proof (cases "f (drop (Suc n) s)")
    case None
    with Suc.prems have "try_caps f s n = Some caps" by simp
    then obtain k rest where "0 < k \<and> k \<le> n \<and> f (drop k s) = Some rest \<and> caps = take k s # rest"
      using Suc.IH by blast
    then show ?thesis by (intro exI [of _ k] exI [of _ rest]) auto
  next
    case (Some rest)
    with Suc.prems show ?thesis by (intro exI [of _ "Suc n"] exI [of _ rest]) auto
  qed
qed simp

lemma try_caps_exists:
  "0 < k \<Longrightarrow> k \<le> n \<Longrightarrow> f (drop k s) \<noteq> None \<Longrightarrow> try_caps f s n \<noteq> None"
proof (induction n)
  case (Suc n)
  then show ?case by (cases "k = Suc n") (auto split: option.splits)
qed simp

lemma take_seg_good: "0 < k \<Longrightarrow> k \<le> seg_len s \<Longrightarrow> good_cap (take k s)"
proof -
  assume k: "0 < k" "k \<le> seg_len s"
  let ?w = "takeWhile (\<lambda>c. c \<noteq> CHR ''/'') s"
  have "take k (?w @ dropWhile (\<lambda>c. c \<noteq> CHR ''/'') s) = take k ?w"
    using k by (simp only: take_append seg_len_def) simp
  then have "take k s = take k ?w" by (simp only: takeWhile_dropWhile_id)
  moreover have "set (take k ?w) \<subseteq> set ?w" by (rule set_take_subset)
  moreover have "CHR ''/'' \<notin> set ?w" by (auto dest: set_takeWhileD)
  moreover have "?w \<noteq> []" using k by (auto simp: seg_len_def)
  ultimately show ?thesis using k by (auto simp: good_cap_def)
qed

theorem rx_exec_sound:
  "rx_exec ts s = Some caps \<Longrightarrow> fill ts caps = Some s \<and> list_all good_cap caps"
proof (induction ts arbitrary: s caps)
  case Nil
  then show ?case by (simp split: if_splits)
next
  case (Cons t ts)
  show ?case
  proof (cases t)
    case (Lit c)
    with Cons show ?thesis by (auto split: list.splits if_splits)
  next
    case Param
    with Cons.prems obtain k rest where k: "0 < k" "k \<le> seg_len s"
      and r: "rx_exec ts (drop k s) = Some rest" and caps: "caps = take k s # rest"
      by (auto dest: try_caps_SomeD)
    from Cons.IH [OF r] Param caps k show ?thesis by (auto simp: take_seg_good)
  qed
qed

theorem rx_exec_complete:
  "fill ts caps = Some s \<Longrightarrow> list_all good_cap caps \<Longrightarrow> rx_exec ts s \<noteq> None"
proof (induction ts caps arbitrary: s rule: fill.induct)
  case (3 ts cap caps)
  then obtain u where u: "fill ts caps = Some u" and s: "s = cap @ u" by auto
  from "3.prems" have g: "good_cap cap" and l: "list_all good_cap caps" by auto
  have "length cap \<le> seg_len s"
    using g by (auto simp: s seg_len_def good_cap_def takeWhile_append2 takeWhile_append)
  moreover have "rx_exec ts (drop (length cap) s) \<noteq> None" using "3.IH" [OF u l] by (simp add: s)
  moreover have "0 < length cap" using g by (simp add: good_cap_def)
  ultimately have "try_caps (rx_exec ts) s (seg_len s) \<noteq> None" by (intro try_caps_exists)
  then show ?case by simp
qed auto

subsection \<open>What the router answers\<close>

definition path_matches :: "'h route \<Rightarrow> string \<Rightarrow> bool" where
  "path_matches r p \<longleftrightarrow> rx_exec (rt_re r) p \<noteq> None"

lemma match_from_cases:
  "match_from du rs allowed m p =
     (case find (\<lambda>r. path_matches r p \<and> rt_method r = m) rs of
        Some r \<Rightarrow> Hit r (zip (rt_keys r) (map (safeDecode du) (the (rx_exec (rt_re r) p))))
      | None \<Rightarrow>
          (let a = allowed @ map rt_method (filter (\<lambda>r. path_matches r p) rs)
           in if a = [] then Miss else WrongMethod a))"
  by (induction du rs allowed m p rule: match_from.induct)
     (auto simp: path_matches_def Let_def split: option.splits)

lemma route_match_spec:
  "route_match du rs m p =
     (case find (\<lambda>r. path_matches r p \<and> rt_method r = m) rs of
        Some r \<Rightarrow> Hit r (zip (rt_keys r) (map (safeDecode du) (the (rx_exec (rt_re r) p))))
      | None \<Rightarrow>
          (let a = map rt_method (filter (\<lambda>r. path_matches r p) rs)
           in if a = [] then Miss else WrongMethod a))"
  unfolding route_match_def match_from_cases append_Nil ..

end
