(* ===== verification/Worker.thy ===== *)
theory Worker
  imports Api_Admin Router
begin

text \<open>
  \<^verbatim>\<open>src/index.js\<close>: the route table, the request pipeline (readiness, provisioning, tunnel upgrade, public pages, API
  behind session and CSRF checks, static assets), the error boundary around it and the scheduled handler.
\<close>

subsection \<open>The route table\<close>

definition public :: "string \<Rightarrow> string \<Rightarrow> handler \<Rightarrow> handler route list \<Rightarrow> handler route list" where
  "public method path h rs = add_route method path h (Some ''none'') rs"

definition admin :: "string \<Rightarrow> string \<Rightarrow> handler \<Rightarrow> handler route list \<Rightarrow> handler route list" where
  "admin method path h rs = add_route method path h None rs"

definition router :: "handler route list" where
  "router = fold (\<lambda>f. f)
     [public ''POST'' ''/api/setup'' auth_setup,
      public ''POST'' ''/api/login'' login,
      public ''POST'' ''/api/recover'' recover,
      public ''GET'' ''/api/whoami'' whoami,
      admin ''POST'' ''/api/logout'' logout,
      admin ''POST'' ''/api/password'' changePassword,
      admin ''GET'' ''/api/sessions'' listSessions,
      admin ''POST'' ''/api/sessions/revoke'' revokeSession,
      admin ''GET'' ''/api/overview'' overview,
      admin ''GET'' ''/api/stats/usage'' userUsage,
      admin ''GET'' ''/api/settings'' getSettings,
      admin ''PUT'' ''/api/settings'' putSettings,
      admin ''GET'' ''/api/backup'' exportBackup,
      admin ''POST'' ''/api/backup'' importBackup,
      admin ''GET'' ''/api/users'' users_list,
      admin ''POST'' ''/api/users'' users_create,
      admin ''POST'' ''/api/users/bulk'' bulkOp,
      admin ''GET'' ''/api/users/:username'' getOne,
      admin ''PATCH'' ''/api/users/:username'' users_update,
      admin ''DELETE'' ''/api/users/:username'' users_remove,
      admin ''POST'' ''/api/users/:username/reset'' users_reset,
      admin ''POST'' ''/api/users/:username/rotate-token'' rotateToken,
      admin ''POST'' ''/api/users/:username/rotate-uuid'' users_rotateUuid,
      admin ''GET'' ''/api/diag/cf-usage'' cfUsage_route,
      admin ''POST'' ''/api/diag/probe-node'' probeNode,
      admin ''POST'' ''/api/diag/rank-ips'' rankIps,
      admin ''GET'' ''/api/diag/ping'' ping,
      admin ''GET'' ''/api/diag/logs'' recentAudit,
      admin ''GET'' ''/api/fragments'' fragments,
      admin ''POST'' ''/api/diag/maintenance'' maintenance,
      admin ''POST'' ''/api/diag/unban'' unban,
      public ''GET'' ''/api/agent/health'' health,
      public ''GET'' ''/api/agent/users'' agent_users,
      public ''POST'' ''/api/agent/users'' agent_createUser,
      public ''GET'' ''/api/agent/users/:username'' userConfigs,
      public ''POST'' ''/api/agent/users/:username/reset'' userReset,
      public ''DELETE'' ''/api/agent/users/:username'' agent_deleteUser,
      public ''POST'' ''/api/agent/admin/reset'' adminReset,
      public ''POST'' ''/api/agent/admin/password'' adminPassword] []"

subsection \<open>The pipeline\<close>

definition mapAssetPath :: "string \<Rightarrow> string" where
  "mapAssetPath p =
     (if p = ''/'' \<or> p = ''/panel'' \<or> p = ''/login'' then ''/''
      else if p = ''/manifest.json'' then ''/manifest.webmanifest'' else p)"

definition add_missing :: "string \<times> string \<Rightarrow> (string \<times> string) list \<Rightarrow> (string \<times> string) list" where
  "add_missing kv hs = (if map_of hs (fst kv) = None then set_header (fst kv) (snd kv) hs else hs)"

definition withSecurity :: "bool \<Rightarrow> response \<Rightarrow> response" where
  "withSecurity isHtml res = res\<lparr>rs_headers := fold add_missing (securityHeaders isHtml) (rs_headers res)\<rparr>"

definition csrfOk :: "request \<Rightarrow> bool" where
  "csrfOk r \<longleftrightarrow> header_of r ''x-kaveh-csrf'' \<noteq> None \<or>
     contains_str ''application/json'' (case header_of r ''content-type'' of None \<Rightarrow> [] | Some t \<Rightarrow> t)"

definition refusal :: "nat \<Rightarrow> string \<Rightarrow> response" where
  "refusal status code = json (JObj [(''ok'', JBool False), (''code'', JStr code)]) status []"

text \<open>The tunnel path: the upgrade handler runs against the ledger object and the database.\<close>

definition upgrade :: "runtime \<Rightarrow> env \<Rightarrow> request \<Rightarrow> (world, response) act" where
  "upgrade rtm E r w =
     (case handleVlessWebSocket (rt_P rtm) E (rt_ledger_up rtm) (rt_now rtm) r (w_ledger w, w_db w) of
        ((resp, user), (lg, d)) \<Rightarrow> (Inr resp, w\<lparr>w_ledger := lg, w_db := d\<rparr>))"

definition api :: "runtime \<Rightarrow> env \<Rightarrow> request \<Rightarrow> (world, response) act" where
  "api rtm E r =
     act_bind (act_lift (requireMatch (route_match (p_decodeURI (rt_P rtm)) router (rq_method r) (rq_path r)))) (\<lambda>(route, params).
     act_bind (authenticate rtm E r) (\<lambda>session.
     let needsAuth = (rt_auth route \<noteq> Some ''none'') in
     if needsAuth \<and> session = None then act_ret (refusal 401 ''unauthorized'')
     else if needsAuth \<and> rq_method r \<noteq> ''GET'' \<and> \<not> csrfOk r then act_ret (refusal 403 ''csrf'')
     else act_bind (rt_handler route rtm E r \<lparr>cx_params = params, cx_session = session, cx_ip = clientIp r\<rparr>)
            (\<lambda>response. act_ret (withSecurity False response))))"

definition is_upgrade :: "request \<Rightarrow> bool" where
  "is_upgrade r \<longleftrightarrow> to_lower (case header_of r ''upgrade'' of None \<Rightarrow> [] | Some v \<Rightarrow> v) = ''websocket''"

definition sub_path :: "env \<Rightarrow> string" where
  "sub_path E = ''/'' @ subPrefix (e_config E) @ ''/''"

definition asset :: "runtime \<Rightarrow> env \<Rightarrow> request \<Rightarrow> response" where
  "asset rtm E r =
     (if uuidFromRequest r \<noteq> None then plain_response 404 ''Not Found'' []
      else if \<not> e_assets E then plain_response 404 ''Not Found'' []
      else withSecurity (rq_path r = ''/'' \<or> \<not> contains_str ''.'' (rq_path r)) (rt_asset rtm (mapAssetPath (rq_path r))))"

definition dispatch :: "runtime \<Rightarrow> env \<Rightarrow> request \<Rightarrow> (world, response) act" where
  "dispatch rtm E r =
     act_seq (act_lift (assertReady E)) (
     act_seq (schema_run (ensureSchema (rt_migrations rtm) (rt_ddl_ok rtm) (e_db E) (rt_now rtm))) (
     if is_upgrade r then upgrade rtm E r
     else if starts_with (sub_path E) (rq_path r) then
       act_bind (subscription rtm E r (drop (length (sub_path E)) (rq_path r))) (\<lambda>res. act_ret (withSecurity False res))
     else if starts_with ''/status/'' (rq_path r) then
       act_bind (statusPage rtm E r (drop (length ''/status/'') (rq_path r))) (\<lambda>res. act_ret (withSecurity True res))
     else if starts_with ''/api/'' (rq_path r) then api rtm E r
     else act_ret (asset rtm E r)))"

text \<open>The page for a missing database is represented by its status and type.\<close>

definition boot_page :: response where
  "boot_page = \<lparr>rs_status = 503, rs_headers = [(''content-type'', ''text/html; charset=utf-8'')], rs_body = Text []\<rparr>"

definition worker_fetch :: "runtime \<Rightarrow> raw_env \<Rightarrow> request \<Rightarrow> (world, response) act" where
  "worker_fetch rtm rawEnv r =
     (let E = resolveEnv rawEnv in
      act_catch (dispatch rtm E r) (\<lambda>err.
        act_ret (if err = BootError then boot_page else handleError err (debugErrors (e_config E)) (rt_ref rtm))))"

definition scheduled :: "runtime \<Rightarrow> raw_env \<Rightarrow> jval \<Rightarrow> (world, unit) act" where
  "scheduled rtm rawEnv cron =
     act_seq (runMaintenance rtm (resolveEnv rawEnv) (JStr (''cron:'' @ to_str (js_coalesce cron (JStr ''?''))))) (act_ret ())"

end
