(* ===== verification/Access.thy ===== *)
theory Access
  imports Worker
begin

text \<open>
  Who may do what through \<^verbatim>\<open>src/index.js\<close>: routing, sessions, the CSRF check and the agent key, over the whole route
  table.
\<close>

subsection \<open>What an unauthenticated request can touch\<close>

text \<open>Verifying a cookie may mint the signing key; it touches nothing else.\<close>

definition same_data :: "db \<Rightarrow> db \<Rightarrow> bool" where
  "same_data d d' \<longleftrightarrow> db_users d' = db_users d \<and> db_usage d' = db_usage d \<and> db_audit d' = db_audit d \<and>
     db_sessions d' = db_sessions d \<and> db_plans d' = db_plans d \<and> db_nodes d' = db_nodes d \<and>
     (\<forall>k. k \<noteq> ''signing_key'' \<longrightarrow> setting d' k = setting d k)"

lemma same_data_refl [simp]: "same_data d d"
  by (simp add: same_data_def)

lemma same_data_insert_key: "same_data d d' \<Longrightarrow> same_data d (insert_or_ignore now ''signing_key'' v d')"
  by (auto simp: same_data_def insert_or_ignore_def setting_def map_add_def split: option.splits)

lemma signingKey_same: "keeps (\<lambda>s. same_data d (fst s)) (signingKey E now bytes)"
  by (auto simp: keeps_def signingKey_def Let_def same_data_insert_key split: option.splits)

lemma verifySession_keeps: "keeps I (signingKey E now bytes) \<Longrightarrow> keeps I (verifySession P E now bytes h)"
  unfolding verifySession_def Let_def
  by (auto split: option.splits list.splits intro!: keeps_intros)

lemma authenticate_same: "same_data (w_db w) (w_db (snd (authenticate rtm E r w)))"
proof -
  have "same_data (w_db w) (fst (snd (verifySession (rt_P rtm) E (rt_now rtm) b c (w_db w, w_key w))))" for b c
    using verifySession_keeps [OF signingKey_same [of "w_db w"], of "rt_P rtm" E "rt_now rtm" b c] by (simp add: keeps_def)
  from this [of "en_key (rt_en rtm)"] show ?thesis
    by (auto simp: authenticate_def act_ret_def key_run_def split: option.splits prod.splits) (metis fst_conv snd_conv)
qed

lemma verifySession_throws: "fst (verifySession P E now kb c s) = Inl e \<Longrightarrow> \<exists>m. e = JsError m"
  by (auto simp: verifySession_def act_defs decode_or_throw_def live_row_def signingKey_def Let_def
      split: option.splits list.splits if_splits prod.splits sum.splits)

lemma authenticate_throws: "fst (authenticate rtm E r w) = Inl e \<Longrightarrow> \<exists>m. e = JsError m"
  using verifySession_throws
  by (auto simp: authenticate_def act_ret_def key_run_def split: option.splits if_splits prod.splits) (metis fst_conv)

subsection \<open>The route table\<close>

definition open_route :: "handler route \<Rightarrow> bool" where
  "open_route route \<longleftrightarrow> (rt_method route, rt_path route) \<in>
     {(''POST'', ''/api/setup''), (''POST'', ''/api/login''), (''POST'', ''/api/recover''), (''GET'', ''/api/whoami'')}"

definition agent_route :: "handler route \<Rightarrow> bool" where
  "agent_route route \<longleftrightarrow> starts_with ''/api/agent/'' (rt_path route)"

definition session_route :: "handler route \<Rightarrow> bool" where
  "session_route route \<longleftrightarrow> rt_auth route \<noteq> Some ''none''"

lemma router_classes: "list_all (\<lambda>route. session_route route \<or> open_route route \<or> agent_route route) router"
  unfolding router_def public_def admin_def add_route_def session_route_def open_route_def agent_route_def
  by (simp del: compile.simps)

lemma agent_routes_guarded:
  "list_all (\<lambda>route. agent_route route \<longrightarrow>
     (\<forall>E r resp rtm cx. agent_guard E r = Some resp \<longrightarrow> rt_handler route rtm E r cx = act_ret resp)) router"
  unfolding router_def public_def admin_def add_route_def agent_route_def
  by (simp add: health_def adminReset_def adminPassword_def agent_users_def agent_createUser_def userConfigs_def
      userReset_def agent_deleteUser_def agent_only_def del: compile.simps)

lemma agent_route_guarded:
  "route \<in> set router \<Longrightarrow> agent_route route \<Longrightarrow> agent_guard E r = Some resp \<Longrightarrow> rt_handler route rtm E r cx = act_ret resp"
  using agent_routes_guarded by (simp add: list_all_iff)

lemma match_in_router: "route_match du rs m p = Hit route ps \<Longrightarrow> route \<in> set rs"
  unfolding route_match_spec by (auto simp: find_Some_iff split: option.splits if_splits)

lemma agent_guard_status: "agent_guard E r = Some resp \<Longrightarrow> rs_status resp \<in> {403, 503}"
  by (auto simp: agent_guard_def json_def Let_def split: if_splits)

text \<open>A request that reaches the API part of the pipeline on a provisioned isolate.\<close>

definition api_request :: "env \<Rightarrow> request \<Rightarrow> bool" where
  "api_request E r \<longleftrightarrow> e_db E \<and> \<not> is_upgrade r \<and> \<not> starts_with (sub_path E) (rq_path r) \<and> starts_with ''/api/'' (rq_path r)"

lemma provisioned_same: "w_provisioned w \<Longrightarrow> w\<lparr>w_provisioned := True\<rparr> = w"
  by (cases w) simp

lemma dispatch_api:
  assumes "api_request E r" and "w_provisioned w"
  shows "dispatch rtm E r w = api rtm E r w"
proof -
  have "\<not> starts_with ''/status/'' (rq_path r)"
    using assms(1) by (auto simp: api_request_def starts_with_append)
  then show ?thesis
    using assms by (simp add: dispatch_def api_request_def act_unfold assertReady_def schema_run_def ensureSchema_def provisioned_same)
qed

text \<open>Whether the caller presents what the route asks for, in the state \<open>w\<close>.\<close>

definition authorised :: "runtime \<Rightarrow> env \<Rightarrow> request \<Rightarrow> world \<Rightarrow> handler route \<Rightarrow> bool" where
  "authorised rtm E r w route \<longleftrightarrow>
     (if session_route route
      then (\<exists>s. fst (authenticate rtm E r w) = Inr (Some s)) \<and> (rq_method r = ''GET'' \<or> csrfOk r)
      else if agent_route route then agent_guard E r = None
      else True)"

lemma unauthorised_refused:
  assumes "route \<in> set router" and "\<not> authorised rtm E r w route"
    and "route_match (p_decodeURI (rt_P rtm)) router (rq_method r) (rq_path r) = Hit route ps"
    and "api rtm E r w = (res, w')"
  shows "w' = snd (authenticate rtm E r w) \<and>
    (case res of Inl e \<Rightarrow> fst (authenticate rtm E r w) = Inl e | Inr resp \<Rightarrow> rs_status resp \<in> {401, 403, 503})"
proof (cases "authenticate rtm E r w")
  case (Pair a w1)
  have g: "agent_guard E r \<noteq> None" if "\<not> session_route route"
    using that assms(2) by (auto simp: authorised_def split: if_splits)
  show ?thesis
  proof (cases "session_route route")
    case True
    with assms(2,3,4) Pair show ?thesis
      by (auto simp: api_def act_unfold authorised_def session_route_def refusal_def json_def Let_def
          split: sum.splits if_splits)
  next
    case False
    then have "agent_route route" using assms(2) by (auto simp: authorised_def split: if_splits)
    with False g agent_route_guarded [OF assms(1)] obtain resp where
      "agent_guard E r = Some resp" "\<And>cx. rt_handler route rtm E r cx = act_ret resp" by blast
    with False assms(3,4) Pair agent_guard_status [of E r resp] show ?thesis
      by (auto simp: api_def act_unfold session_route_def withSecurity_def Let_def split: sum.splits if_splits)
  qed
qed

text \<open>
  C2. Access control of the whole API. On a provisioned isolate, a request to any route of the table other than
  setup, login, recover and whoami whose caller is not authorised - no live session, or a mutating method without the
  CSRF marker, or for an agent route no valid agent key - is answered 401, 403 or 503 (500 when the cookie itself does
  not decode), and leaves users, usage, sessions, audit log and every setting but a freshly minted signing key as they were.
\<close>

theorem unauthorised_changes_nothing:
  assumes "E = resolveEnv rawEnv" and "api_request E r" and "w_provisioned w"
    and "route_match (p_decodeURI (rt_P rtm)) router (rq_method r) (rq_path r) = Hit route ps"
    and "\<not> open_route route" and "\<not> authorised rtm E r w route"
  shows "\<exists>resp w'. worker_fetch rtm rawEnv r w = (Inr resp, w') \<and> rs_status resp \<in> {401, 403, 500, 503} \<and>
    same_data (w_db w) (w_db w')"
proof -
  obtain res w' where a: "api rtm E r w = (res, w')" by fastforce
  note u = unauthorised_refused [OF match_in_router [OF assms(4)] assms(6,4) a]
  have s: "same_data (w_db w) (w_db w')" using u authenticate_same [of w rtm E r] by simp
  show ?thesis
  proof (cases res)
    case (Inr resp)
    then show ?thesis using u s a dispatch_api [OF assms(2,3)] by (auto simp: worker_fetch_def assms(1) [symmetric] act_catch_def)
  next
    case (Inl x)
    then have "fst (authenticate rtm E r w) = Inl x" using u by simp
    then obtain m where "x = JsError m" using authenticate_throws by blast
    then show ?thesis
      using s a dispatch_api [OF assms(2,3)] Inl
      by (auto simp: worker_fetch_def assms(1) [symmetric] act_catch_def act_ret_def json_def)
  qed
qed

lemma logout_matched:
  "\<exists>route ps. route_match du router ''POST'' ''/api/logout'' = Hit route ps \<and> rt_path route = ''/api/logout'' \<and> rt_auth route = None"
  by (simp add: route_match_def router_def public_def admin_def add_route_def is_param_start_def js_defs)

theorem unauthorised_changes_nothing_witness:
  "\<exists>resp w'. worker_fetch demo_runtime \<lparr>re_bound = (\<lambda>_. True), re_vars = JObj []\<rparr> ((demo_request [])\<lparr>rq_path := ''/api/logout''\<rparr>)
       (demo_world\<lparr>w_provisioned := True\<rparr>) = (Inr resp, w') \<and>
     rs_status resp \<in> {401, 403, 500, 503} \<and> same_data empty_db (w_db w')"
proof -
  let ?r = "(demo_request [])\<lparr>rq_path := ''/api/logout''\<rparr>" and ?w = "demo_world\<lparr>w_provisioned := True\<rparr>"
  obtain route ps where m: "route_match (p_decodeURI (rt_P demo_runtime)) router (rq_method ?r) (rq_path ?r) = Hit route ps"
    and p: "rt_path route = ''/api/logout''" "rt_auth route = None"
    using logout_matched [of "p_decodeURI (rt_P demo_runtime)"] by (auto simp: demo_request_def)
  have "api_request demo_env ?r"
    by (simp add: api_request_def is_upgrade_def header_of_def demo_request_def sub_path_def DEFAULTS_def to_lower_def)
  moreover have "\<not> authorised demo_runtime demo_env ?r ?w route"
    using p by (simp add: authorised_def session_route_def authenticate_def header_of_def demo_request_def act_ret_def)
  moreover have "\<not> open_route route" using p by (simp add: open_route_def)
  ultimately show ?thesis
    using unauthorised_changes_nothing [OF demo_env_def _ _ m, where w = ?w] by (simp add: demo_world_def)
qed

subsection \<open>Routing\<close>

definition denotes :: "'h route \<Rightarrow> string \<Rightarrow> string list \<Rightarrow> bool" where
  "denotes route p caps \<longleftrightarrow> fill (rt_re route) caps = Some p \<and> list_all good_cap caps"

lemma path_matches_iff: "path_matches route p \<longleftrightarrow> (\<exists>caps. denotes route p caps)"
  unfolding path_matches_def denotes_def using rx_exec_sound rx_exec_complete by (metis not_None_eq)

text \<open>
  C17. The router implements its specification for every table. A path denotes a route with captures when filling
  the parameters of the route with the captures - nonempty and free of slashes - gives the path. A hit is the first
  route of the table with the method that the path denotes, with its decoded captures; a method mismatch reports the
  methods of exactly the routes the path denotes; a miss means that the path denotes none.
\<close>

theorem routing_correct:
  "case route_match du rs m p of
     Hit route ps \<Rightarrow>
       (\<exists>i caps. i < length rs \<and> rs ! i = route \<and> rt_method route = m \<and> denotes route p caps \<and>
          ps = zip (rt_keys route) (map (safeDecode du) caps) \<and>
          (\<forall>j < i. rt_method (rs ! j) \<noteq> m \<or> (\<forall>caps. \<not> denotes (rs ! j) p caps)))
   | WrongMethod allowed \<Rightarrow>
       allowed = map rt_method (filter (\<lambda>route. \<exists>caps. denotes route p caps) rs) \<and> allowed \<noteq> [] \<and> m \<notin> set allowed
   | Miss \<Rightarrow> (\<forall>route \<in> set rs. \<forall>caps. \<not> denotes route p caps)"
proof (cases "find (\<lambda>r. path_matches r p \<and> rt_method r = m) rs")
  case None
  then have "route_match du rs m p =
      (if filter (\<lambda>r. path_matches r p) rs = [] then Miss else WrongMethod (map rt_method (filter (\<lambda>r. path_matches r p) rs)))"
    by (simp add: route_match_spec)
  moreover have "m \<notin> rt_method ` set (filter (\<lambda>r. path_matches r p) rs)" using None by (auto simp: find_None_iff)
  ultimately show ?thesis by (simp add: path_matches_iff filter_empty_conv split: if_splits)
next
  case (Some route)
  then obtain i where i: "i < length rs" "rs ! i = route" "path_matches route p" "rt_method route = m"
    "\<And>j. j < i \<Longrightarrow> \<not> (path_matches (rs ! j) p \<and> rt_method (rs ! j) = m)"
    by (auto simp: find_Some_iff)
  then obtain caps where c: "rx_exec (rt_re route) p = Some caps" by (auto simp: path_matches_def)
  have "denotes route p caps" using rx_exec_sound [OF c] by (simp add: denotes_def)
  moreover have "rt_method (rs ! j) \<noteq> m \<or> (\<forall>caps. \<not> denotes (rs ! j) p caps)" if "j < i" for j
    using i(5) [OF that] by (auto simp: path_matches_iff)
  ultimately show ?thesis
    using i c Some by (simp add: route_match_spec) blast
qed

theorem routing_correct_witness:
  "\<exists>route ps. route_match Some router ''POST'' ''/api/logout'' = Hit route ps \<and> (\<exists>caps. denotes route ''/api/logout'' caps)"
proof -
  obtain route ps where m: "route_match Some router ''POST'' ''/api/logout'' = Hit route ps" using logout_matched by blast
  from routing_correct [where du = Some and rs = router and m = "''POST''" and p = "''/api/logout''"] m show ?thesis by auto
qed

end
