(* ===== verification/Panel_Invariant.thy ===== *)
theory Panel_Invariant
  imports Access
begin

text \<open>
  The invariant of the panel's database, kept by everything that writes to it: every route of the worker, the public
  pages, the tunnel upgrade, the scheduled pass and the Ledger object. Each handler is walked through once with the
  composition rules for \<open>keeps\<close>; the run relation at the end composes them.
\<close>

definition sessions_ok :: "db \<Rightarrow> bool" where
  "sessions_ok d \<longleftrightarrow> distinct (map ss_id (db_sessions d))"

definition db_ok :: "db \<Rightarrow> bool" where
  "db_ok d \<longleftrightarrow> users_ok d \<and> settings_ok d \<and> audit_ok d \<and> sessions_ok d"

definition panel_ok :: "world \<Rightarrow> bool" where
  "panel_ok w \<longleftrightarrow> db_ok (w_db w)"

subsection \<open>The writes to the database\<close>

lemma db_ok_usage [simp]: "db_ok (d\<lparr>db_usage := us\<rparr>) = db_ok d"
  by (simp add: db_ok_def users_ok_def settings_ok_def audit_ok_def sessions_ok_def)

lemma db_ok_users: "db_ok d \<Longrightarrow> users_ok (d\<lparr>db_users := us\<rparr>) \<Longrightarrow> db_ok (d\<lparr>db_users := us\<rparr>)"
  by (simp add: db_ok_def settings_ok_def audit_ok_def sessions_ok_def)

lemma db_ok_sessions_filter: "db_ok d \<Longrightarrow> db_ok (d\<lparr>db_sessions := filter p (db_sessions d)\<rparr>)"
  by (auto simp: db_ok_def users_ok_def settings_ok_def audit_ok_def sessions_ok_def distinct_map_filter)

lemma db_ok_audit: "db_ok d \<Longrightarrow> db_ok (audit P now a b c e f d)"
  using audit_ok_audit [of d] by (auto simp: db_ok_def users_ok_def settings_ok_def sessions_ok_def audit_def)

lemma db_ok_settings: "db_ok d \<Longrightarrow> db_ok (fst (S_set now entries (d, c)))"
proof -
  have frame: "db_users (fold (\<lambda>(k, v). settings_put now k v) kvs d) = db_users d \<and>
      db_user_seq (fold (\<lambda>(k, v). settings_put now k v) kvs d) = db_user_seq d \<and>
      db_audit (fold (\<lambda>(k, v). settings_put now k v) kvs d) = db_audit d \<and>
      db_audit_seq (fold (\<lambda>(k, v). settings_put now k v) kvs d) = db_audit_seq d \<and>
      db_sessions (fold (\<lambda>(k, v). settings_put now k v) kvs d) = db_sessions d" for kvs
    by (induction kvs arbitrary: d) (auto simp: settings_put_def)
  assume "db_ok d"
  then show ?thesis
    using settings_ok_puts [of d] frame by (simp add: db_ok_def S_set_db users_ok_def audit_ok_def sessions_ok_def)
qed

text \<open>The operations on the users table change nothing but that table.\<close>

definition users_only :: "db \<Rightarrow> db \<Rightarrow> bool" where
  "users_only d d' \<longleftrightarrow> db_settings d' = db_settings d \<and> db_audit d' = db_audit d \<and> db_audit_seq d' = db_audit_seq d \<and>
     db_sessions d' = db_sessions d"

lemma users_only_refl [simp]: "users_only d d"
  by (simp add: users_only_def)

lemma users_only_users [simp]: "users_only d (d\<lparr>db_users := us\<rparr>)" "users_only d (d\<lparr>db_users := us, db_user_seq := n\<rparr>)"
  by (simp_all add: users_only_def)

lemma users_only_ops:
  "users_only d (snd (createUser P now inp d))" "users_only d (snd (updateUser P now name patch d))"
  "users_only d (snd (deleteUser name d))" "users_only d (snd (bulk P now names op v d))"
  "users_only d (snd (rotateSubToken now en name d))" "users_only d (snd (rotateUuid now en name d))"
  by (auto simp: createUser_def updateUser_def deleteUser_def bulk_def rotateSubToken_def rotateUuid_def bulk_set_def Let_def
      split: option.splits sum.splits jval.splits list.splits)

lemma keeps_users_op:
  assumes "\<And>d. users_only d (snd (m d))" and "\<And>d. users_ok d \<Longrightarrow> users_ok (snd (m d))"
  shows "keeps db_ok m"
  using assms by (auto simp: keeps_def db_ok_def users_only_def settings_ok_def audit_ok_def sessions_ok_def)

lemma users_op_keeps [keeps_intros]:
  "keeps db_ok (createUser P now inp)" "keeps db_ok (updateUser P now name patch)" "keeps db_ok (deleteUser name)"
  "keeps db_ok (bulk P now names op v)" "keeps db_ok (rotateSubToken now en name)" "keeps db_ok (rotateUuid now en name)"
proof -
  show "keeps db_ok (createUser P now inp)" "keeps db_ok (updateUser P now name patch)" "keeps db_ok (bulk P now names op v)"
    by (rule keeps_users_op, rule users_only_ops, metis users_ok_createUser users_ok_updateUser users_ok_bulk surjective_pairing)+
  show "keeps db_ok (deleteUser name)"
    by (rule keeps_users_op, rule users_only_ops) (simp add: deleteUser_def users_ok_filter)
  show "keeps db_ok (rotateSubToken now en name)" "keeps db_ok (rotateUuid now en name)"
    by (rule keeps_users_op, rule users_only_ops, erule users_ok_rotate)+
qed

text \<open>Assignments to columns that do not identify a user.\<close>

lemma db_ok_users_ok: "db_ok d \<Longrightarrow> users_ok d"
  by (simp add: db_ok_def)

lemma db_ok_users_filter: "db_ok d \<Longrightarrow> db_ok (d\<lparr>db_users := filter p (db_users d)\<rparr>)"
  by (blast intro: db_ok_users users_ok_filter db_ok_users_ok)

context identity_keeping
begin

lemma db_ok_update: "db_ok d \<Longrightarrow> db_ok (d\<lparr>db_users := map (\<lambda>r. if p r then f r else r) (db_users d)\<rparr>)"
  by (blast intro: db_ok_users users_ok_update db_ok_users_ok)

end

interpretation reset_part: identity_keeping "reset_row now body v" for now body v
  by unfold_locales (simp_all add: reset_row_def Let_def)

interpretation activate: identity_keeping "activate_row now days" for now days
  by unfold_locales (simp_all add: activate_row_def)

interpretation renew: identity_keeping "\<lambda>r. r\<lparr>u_expires_at := e, u_used_bytes := 0\<rparr>" for e
  by unfold_locales simp_all

interpretation switch_off: identity_keeping "\<lambda>r. r\<lparr>u_is_active := 0\<rparr>"
  by unfold_locales simp_all

lemma reset_users_keeps [keeps_intros]: "keeps db_ok (reset_users P now body name)"
  by (auto simp: keeps_def reset_users_def reset_part.db_ok_update split: option.splits)

lemma activateIfNeeded_ok: "db_ok d \<Longrightarrow> db_ok (activateIfNeeded now u d)"
  by (auto simp: activateIfNeeded_def activate.db_ok_update split: jsnum.splits)

text \<open>A statement keeps the invariant when it succeeds; a batch then keeps it in any case.\<close>

definition stmt_ok :: "db stmt \<Rightarrow> bool" where
  "stmt_ok st \<longleftrightarrow> (\<forall>d d'. db_ok d \<and> st d = Inr d' \<longrightarrow> db_ok d')"

lemma stmt_ok_ok_stmt: "(\<And>d. db_ok d \<Longrightarrow> db_ok (f d)) \<Longrightarrow> stmt_ok (ok_stmt f)"
  by (auto simp: stmt_ok_def ok_stmt_def)

lemma d1_batch_ok: "list_all stmt_ok ss \<Longrightarrow> db_ok d \<Longrightarrow> db_ok (snd (d1_batch ss d))"
proof -
  have "run_stmts ss d = Inr d' \<Longrightarrow> list_all stmt_ok ss \<Longrightarrow> db_ok d \<Longrightarrow> db_ok d'" for d'
    by (induction ss arbitrary: d) (auto simp: stmt_ok_def split: sum.splits)
  then show "list_all stmt_ok ss \<Longrightarrow> db_ok d \<Longrightarrow> ?thesis" by (auto simp: d1_batch_def split: sum.splits)
qed

lemma batches_ok:
  assumes "list_all stmt_ok (concat bs)" and "db_ok d"
  shows "db_ok (snd (run_batches bs d))" and "db_ok (snd (flush_batches fails i bs d))"
  using assms
proof (induction bs arbitrary: d i)
  case (Cons b bs)
  {
    case 1
    with d1_batch_ok [of b d] Cons.IH(1) show ?case by (fastforce split: sum.splits prod.splits)
  next
    case 2
    with d1_batch_ok [of b d] Cons.IH(2) show ?case by (fastforce split: sum.splits prod.splits)
  }
qed simp_all

lemma expiry_stmt_ok: "expiry_stmt P now policy u = Some st \<Longrightarrow> stmt_ok st"
  by (auto simp: expiry_stmt_def on_user_def renew.db_ok_update switch_off.db_ok_update db_ok_users_filter
      split: if_splits intro!: stmt_ok_ok_stmt)

lemma those_all: "List.those (map f xs) = Some ys \<Longrightarrow> (\<And>x y. f x = Some y \<Longrightarrow> p y) \<Longrightarrow> list_all p ys"
  by (induction xs arbitrary: ys) (auto split: option.splits)

lemma expire_users_keeps [keeps_intros]: "keeps db_ok (expire_users P now policy)"
proof -
  have "db_ok (snd (expire_users P now policy d))" if "db_ok d" for d
  proof (cases "List.those (map (expiry_stmt P now policy) (filter (due now) (db_users d)))")
    case (Some ss)
    have "list_all stmt_ok ss" using those_all [OF Some, of stmt_ok] expiry_stmt_ok by blast
    then have "db_ok (snd (batch ss d))"
      unfolding batch_def using that by (intro batches_ok(1)) (auto simp: concat_chunks)
    then show ?thesis using Some by (auto simp: expire_users_def split: prod.splits sum.splits)
  qed (use that in \<open>simp add: expire_users_def\<close>)
  then show ?thesis by (simp add: keeps_def)
qed

lemma flush_ok: "db_ok (snd s) \<Longrightarrow> db_ok (snd (flush bound fails now s))"
proof -
  assume ok: "db_ok (snd s)"
  have "list_all stmt_ok (entry_stmts day uv)" for day uv
    by (auto simp: entry_stmts_def add_usage_user_def add_usage_daily_def usage.db_ok_update intro!: stmt_ok_ok_stmt)
  then have "db_ok (snd (flush_batches fails 0 (chunks 100 (concat (map (entry_stmts (iso_day now)) (lg_dirty (fst s))))) (snd s)))"
    using ok by (intro batches_ok(2)) (auto simp: concat_chunks list_all_iff)
  then show ?thesis using ok by (auto simp: flush_def Let_def split: prod.splits)
qed

lemma Ledger_fetch_ok: "db_ok (snd s) \<Longrightarrow> db_ok (snd (snd (Ledger_fetch bound fails now rq s)))"
  by (cases rq) (auto simp: scheduleFlush_def Let_def flush_ok)

subsection \<open>From the database to the world\<close>

lemma keeps_db_upd [keeps_intros]: "(\<And>d. db_ok d \<Longrightarrow> db_ok (f d)) \<Longrightarrow> keeps panel_ok (db_upd f)"
  by (simp add: keeps_def panel_ok_def db_upd_def act_upd_def)

lemma keeps_db_run [keeps_intros]: "keeps db_ok m \<Longrightarrow> keeps panel_ok (db_run m)"
  by (auto simp: keeps_def panel_ok_def db_run_def split: prod.splits)

lemma keeps_guard_call [keeps_intros]: "keeps panel_ok (guard_call rtm name rq)"
  by (auto simp: keeps_def panel_ok_def guard_call_def split: prod.splits)

lemma keeps_ledger_call [keeps_intros]: "keeps panel_ok (ledger_call rtm E rq)"
proof -
  have "panel_ok (snd (ledger_call rtm E rq w))" if "panel_ok w" for w
    using Ledger_fetch_ok [of "(w_ledger w, w_db w)" "e_db E" "rt_batch_fails rtm" "rt_now rtm" rq] that
    by (auto simp: panel_ok_def ledger_call_def split: prod.splits)
  then show ?thesis by (simp add: keeps_def)
qed

lemma keeps_write_settings [keeps_intros]: "keeps panel_ok (write_settings rtm entries)"
  unfolding write_settings_def by (intro keeps_db_upd db_ok_settings)

lemma keeps_audit_log [keeps_intros]: "keeps panel_ok (audit_log rtm a b c e f)"
  unfolding audit_log_def by (intro keeps_db_upd db_ok_audit)

lemma insert_or_ignore_ok: "db_ok d \<Longrightarrow> db_ok (insert_or_ignore now k v d)"
  by (auto simp: db_ok_def insert_or_ignore_def users_ok_def audit_ok_def sessions_ok_def settings_ok_def)

lemma signingKey_keeps: "keeps (\<lambda>s. db_ok (fst s)) (signingKey E now bytes)"
  by (auto simp: keeps_def signingKey_def Let_def insert_or_ignore_ok split: option.splits)

lemma keeps_key_run: "keeps (\<lambda>s. db_ok (fst s)) m \<Longrightarrow> keeps panel_ok (key_run m)"
  by (auto simp: keeps_def panel_ok_def key_run_def split: prod.splits) (metis fst_conv snd_conv)

lemma insert_session_ok: "insert_session row d = Inr d' \<Longrightarrow> db_ok d \<Longrightarrow> db_ok d'"
  by (auto simp: insert_session_def db_ok_def users_ok_def settings_ok_def audit_ok_def sessions_ok_def image_iff split: if_splits)

lemma createSession_keeps: "keeps (\<lambda>s. db_ok (fst s)) (createSession P E now en subject role ip ua ttl)"
  unfolding createSession_def Let_def
  by (intro keeps_bind signingKey_keeps) (auto simp: keeps_def intro: insert_session_ok split: sum.splits)

lemma keeps_authenticate [keeps_intros]: "keeps panel_ok (authenticate rtm E r)"
  unfolding authenticate_def by (intro keeps_intros keeps_key_run verifySession_keeps signingKey_keeps)

lemma keeps_new_session [keeps_intros]: "keeps panel_ok (new_session rtm E r subject ip)"
  unfolding new_session_def by (intro keeps_key_run createSession_keeps)

lemma keeps_set_password [keeps_intros]: "keeps panel_ok (set_password rtm pw others)"
  unfolding set_password_def by (intro keeps_intros)

subsection \<open>The handlers\<close>

lemma db_ok_session_writes:
  "db_ok d \<Longrightarrow> db_ok (destroySession sid d)" "db_ok d \<Longrightarrow> db_ok (destroyAllSessions subject d)"
  "db_ok d \<Longrightarrow> db_ok (purgeExpiredSessions now d)" "db_ok d \<Longrightarrow> db_ok (d\<lparr>db_sessions := []\<rparr>)"
  using db_ok_sessions_filter [of d "\<lambda>_. False"]
  by (auto simp: destroySession_def destroyAllSessions_def purgeExpiredSessions_def db_ok_sessions_filter split: option.splits)

lemma keeps_login_guard [keeps_intros]: "keeps panel_ok (login_guard rtm E ip)"
  unfolding login_guard_def by (auto intro!: keeps_intros split: guard_reply.splits)

lemma auth_handlers_keep [keeps_intros]:
  "keeps panel_ok (auth_setup rtm E r cx)" "keeps panel_ok (login rtm E r cx)" "keeps panel_ok (logout rtm E r cx)"
  "keeps panel_ok (changePassword rtm E r cx)" "keeps panel_ok (recover rtm E r cx)" "keeps panel_ok (whoami rtm E r cx)"
  "keeps panel_ok (listSessions rtm E r cx)" "keeps panel_ok (revokeSession rtm E r cx)"
  unfolding auth_setup_def login_def logout_def changePassword_def recover_def whoami_def listSessions_def revokeSession_def Let_def
  by (intro keeps_intros db_ok_session_writes; assumption)+

lemma keeps_agent_only: "(\<And>cx. keeps panel_ok (h rtm E r cx)) \<Longrightarrow> keeps panel_ok (agent_only h rtm E r cx)"
  unfolding agent_only_def by (intro keeps_intros)

lemma keeps_configs [keeps_intros]: "keeps panel_ok (user_reply E r u)" "keeps panel_ok (configs_of E r u)"
  unfolding user_reply_def configs_of_def by (intro keeps_intros)+

lemma keeps_users_list [keeps_intros]: "keeps panel_ok (users_list rtm E r cx)"
  unfolding users_list_def Let_def by (auto intro!: keeps_intros)

lemma user_handlers_keep [keeps_intros]:
  "keeps panel_ok (getOne rtm E r cx)" "keeps panel_ok (users_create rtm E r cx)" "keeps panel_ok (users_update rtm E r cx)"
  "keeps panel_ok (users_remove rtm E r cx)" "keeps panel_ok (bulkOp rtm E r cx)" "keeps panel_ok (rotateToken rtm E r cx)"
  "keeps panel_ok (users_rotateUuid rtm E r cx)" "keeps panel_ok (users_reset rtm E r cx)"
  unfolding getOne_def users_create_def users_update_def users_remove_def bulkOp_def rotateToken_def users_rotateUuid_def
    users_reset_def
  by (intro keeps_intros)+

lemma agent_handlers_keep [keeps_intros]:
  "keeps panel_ok (health rtm E r cx)" "keeps panel_ok (adminReset rtm E r cx)" "keeps panel_ok (adminPassword rtm E r cx)"
  "keeps panel_ok (agent_users rtm E r cx)" "keeps panel_ok (agent_createUser rtm E r cx)" "keeps panel_ok (userConfigs rtm E r cx)"
  "keeps panel_ok (userReset rtm E r cx)" "keeps panel_ok (agent_deleteUser rtm E r cx)"
  unfolding health_def adminReset_def adminPassword_def agent_users_def agent_createUser_def userConfigs_def userReset_def
    agent_deleteUser_def Let_def
  by (intro keeps_agent_only keeps_intros db_ok_session_writes; assumption?)+

lemma keeps_cfUsage [keeps_intros]: "keeps panel_ok (cfUsage rtm vars)"
  by (auto simp: keeps_def panel_ok_def cfUsage_def cf_fetch_def split: option.splits cf_reply.splits)

lemma stats_handlers_keep [keeps_intros]:
  "keeps panel_ok (cfUsage_route rtm E r cx)" "keeps panel_ok (overview rtm E r cx)" "keeps panel_ok (userUsage rtm E r cx)"
  "keeps panel_ok (getSettings rtm E r cx)" "keeps panel_ok (putSettings rtm E r cx)" "keeps panel_ok (exportBackup rtm E r cx)"
  unfolding cfUsage_route_def overview_def userUsage_def getSettings_def putSettings_def exportBackup_def Let_def
  by (intro keeps_intros)+

lemma keeps_importBackup [keeps_intros]: "keeps panel_ok (importBackup rtm E r cx)"
proof -
  have "db_ok (d\<lparr>db_users := [], db_usage := []\<rparr>)" if "db_ok d" for d
    using db_ok_users_filter [OF that, of "\<lambda>_. False"] by simp
  then show ?thesis
    unfolding importBackup_def Let_def by (auto intro!: keeps_intros split: jval.splits)
qed

lemma keeps_rotate_ips [keeps_intros]: "keeps panel_ok (rotate_ips rtm)"
  unfolding rotate_ips_def by (auto intro!: keeps_intros split: option.splits jval.splits bool.splits)

lemma housekeeping_ok: "db_ok d \<Longrightarrow> db_ok (housekeeping now d)"
proof -
  have "audit_ok (d\<lparr>db_audit := filter p (db_audit d)\<rparr>)" if "audit_ok d" for d p
    using that by (auto simp: audit_ok_def sorted_wrt_map sorted_wrt_filter list_all_iff)
  then have "db_ok (d\<lparr>db_audit := filter p (db_audit d)\<rparr>)" if "db_ok d" for d p
    using that by (simp add: db_ok_def users_ok_def settings_ok_def sessions_ok_def)
  from this [of "(purgeExpiredSessions now d)\<lparr>db_usage := us\<rparr>" for us] show "db_ok d \<Longrightarrow> ?thesis"
    by (simp add: housekeeping_def Let_def db_ok_session_writes)
qed

lemma apply_migrations_keeps: "keeps db_ok (apply_migrations accepts now ms)"
proof -
  have "stmt_ok (ddl_stmt accepts sql)" "stmt_ok (meta_stmt now m)" for sql m
    by (auto simp: stmt_ok_def ddl_stmt_def meta_stmt_def db_ok_def users_ok_def settings_ok_def audit_ok_def sessions_ok_def
        split: if_splits)
  then have st: "list_all stmt_ok (migration_stmts accepts now m)" for m
    by (auto simp: migration_stmts_def list_all_iff)
  have "db_ok (snd (apply_migrations accepts now ms d))" if "db_ok d" for d
    using that
  proof (induction ms arbitrary: d)
    case (Cons m ms)
    with d1_batch_ok [OF st, of d m] show ?case by (fastforce split: prod.splits sum.splits)
  qed simp
  then show ?thesis by (simp add: keeps_def)
qed

lemma keeps_schema [keeps_intros]: "keeps panel_ok (schema_run (ensureSchema migs accepts bound now))"
  using apply_migrations_keeps
  by (auto simp: keeps_def panel_ok_def schema_run_def ensureSchema_def Let_def split: prod.splits sum.splits) (metis snd_conv)+

lemma keeps_runMaintenance [keeps_intros]: "keeps panel_ok (runMaintenance rtm E actor)"
  unfolding runMaintenance_def by (intro keeps_intros housekeeping_ok; assumption?)

lemma diag_handlers_keep [keeps_intros]:
  "keeps panel_ok (probeNode rtm E r cx)" "keeps panel_ok (rankIps rtm E r cx)" "keeps panel_ok (unban rtm E r cx)"
  "keeps panel_ok (maintenance rtm E r cx)" "keeps panel_ok (fragments rtm E r cx)"
  unfolding probeNode_def rankIps_def unban_def maintenance_def fragments_def Let_def
  by (intro keeps_intros)+

lemma keeps_reports [keeps_intros]: "keeps panel_ok (ping rtm E r cx)" "keeps panel_ok (recentAudit rtm E r cx)"
  unfolding ping_def recentAudit_def Let_def by (auto intro!: keeps_intros split: jsnum.splits)

subsection \<open>The worker\<close>

lemma keeps_pages [keeps_intros]: "keeps panel_ok (subscription rtm E r token)" "keeps panel_ok (statusPage rtm E r sid)"
  unfolding subscription_def statusPage_def Let_def
  by (intro keeps_intros activateIfNeeded_ok; assumption?)+

lemma keeps_upgrade [keeps_intros]: "keeps panel_ok (upgrade rtm E r)"
proof -
  have ws: "db_ok (snd (snd (handleVlessWebSocket P E up now r s)))" if "db_ok (snd s)" for P up now s
    using that Ledger_fetch_ok [of s True "\<lambda>_. False" now]
    by (auto simp: handleVlessWebSocket_def Let_def split: option.splits prod.splits ledger_reply.splits)
  have "panel_ok (snd (upgrade rtm E r w))" if "panel_ok w" for w
    using ws [of "(w_ledger w, w_db w)" "rt_P rtm" "rt_ledger_up rtm" "rt_now rtm"] that
    by (auto simp: panel_ok_def upgrade_def split: prod.splits)
  then show ?thesis by (simp add: keeps_def)
qed

lemma router_keeps: "route \<in> set router \<Longrightarrow> keeps panel_ok (rt_handler route rtm E r cx)"
  unfolding router_def public_def admin_def add_route_def by (auto intro: keeps_intros simp del: compile.simps)

lemma act_bind_lift: "act_bind (act_lift (Inr x)) k = k x"
  by (simp add: act_bind_def act_lift_def fun_eq_iff)

lemma keeps_api [keeps_intros]: "keeps panel_ok (api rtm E r)"
proof (cases "route_match (p_decodeURI (rt_P rtm)) router (rq_method r) (rq_path r)")
  case (Hit route ps)
  show ?thesis
    unfolding api_def Hit Let_def requireMatch.simps act_bind_lift prod.case
    by (intro keeps_intros router_keeps [OF match_in_router [OF Hit]])
qed (simp_all add: api_def keeps_def act_unfold)

lemma keeps_dispatch [keeps_intros]: "keeps panel_ok (dispatch rtm E r)"
  unfolding dispatch_def by (intro keeps_intros)

lemma keeps_worker: "keeps panel_ok (worker_fetch rtm rawEnv r)" "keeps panel_ok (scheduled rtm rawEnv cron)"
  unfolding worker_fetch_def scheduled_def Let_def by (intro keeps_intros)+

text \<open>
  The life of a deployment: requests and cron ticks with any runtime and any environment, requests to the Ledger
  object (tunnels report through it), its alarms, and isolates that start with empty module variables.
\<close>

inductive reach :: "world \<Rightarrow> bool" where
  reach_fresh: "reach demo_world"
| reach_fetch: "reach w \<Longrightarrow> reach (snd (worker_fetch rtm rawEnv r w))"
| reach_cron: "reach w \<Longrightarrow> reach (snd (scheduled rtm rawEnv cron w))"
| reach_ledger: "reach w \<Longrightarrow> reach (snd (ledger_call rtm E rq w))"
| reach_alarm: "reach w \<Longrightarrow> ledger_alarm bound fails now (w_ledger w, w_db w) = (lg, d) \<Longrightarrow> reach (w\<lparr>w_ledger := lg, w_db := d\<rparr>)"
| reach_isolate: "reach w \<Longrightarrow> reach (w\<lparr>w_key := None, w_provisioned := False, w_cf_cache := None\<rparr>)"

lemma reach_panel_ok: "reach w \<Longrightarrow> panel_ok w"
proof (induction rule: reach.induct)
  case reach_fresh
  show ?case
    by (simp add: panel_ok_def db_ok_def demo_world_def empty_db_def users_ok_def settings_ok_def audit_ok_def sessions_ok_def)
next
  case (reach_alarm w bound fails now lg d)
  then show ?case using flush_ok [of "(w_ledger w, w_db w)" bound fails now] by (simp add: panel_ok_def ledger_alarm_def)
next
  case (reach_isolate w)
  then show ?case by (simp add: panel_ok_def)
qed (use keeps_worker keeps_ledger_call in \<open>auto simp: keeps_def\<close>)

text \<open>
  C1. In every state the deployment can reach, whatever requests arrive in whatever order, whatever fails and however
  often isolates restart, the database keeps its integrity: user names, tunnel UUIDs and subscription tokens identify at
  most one user, every setting has one row, session ids are unique, and audit entries have strictly increasing ids.
\<close>

theorem panel_integrity:
  assumes "reach w"
  shows "distinct (map u_username (db_users (w_db w))) \<and> distinct (map u_uuid (db_users (w_db w))) \<and>
    distinct (map u_sub_token (db_users (w_db w))) \<and> distinct (map fst (db_settings (w_db w))) \<and>
    distinct (map ss_id (db_sessions (w_db w))) \<and> sorted_wrt (<) (map au_id (db_audit (w_db w)))"
  using reach_panel_ok [OF assms]
  by (simp add: panel_ok_def db_ok_def users_ok_def settings_ok_def audit_ok_def sessions_ok_def)

theorem panel_integrity_witness:
  "distinct (map ss_id (db_sessions (w_db (snd (worker_fetch demo_runtime (e_raw demo_env) (demo_request ''{}'') demo_world)))))"
  using panel_integrity [OF reach_fetch [OF reach_fresh]] by blast

end
