(* ===== verification/Cp_Security.thy ===== *)
theory Cp_Security
  imports Db
begin

unbundle bit_operations_syntax

text \<open>
  The security layer of the V13 control plane (\<^verbatim>\<open>src/security.ts\<close>, \<^verbatim>\<open>src/validation.ts\<close>, the request
  checks of \<^verbatim>\<open>src/http.ts\<close>): token and envelope encodings, cookies, identifier and address checks, and the validation
  of deployment requests and agent reports. Instants that the program stores as ISO texts and compares as such or by
  \<open>Date.parse\<close> are numbers of milliseconds here. AES-GCM is a parameter (\<open>p_seal\<close>, \<open>p_open\<close>).
\<close>

subsection \<open>Platform services\<close>

record cp_platform = platform +
  p_seal :: "byte list \<Rightarrow> byte list \<Rightarrow> byte list \<Rightarrow> byte list \<Rightarrow> byte list"
  p_open :: "byte list \<Rightarrow> byte list \<Rightarrow> byte list \<Rightarrow> byte list \<Rightarrow> byte list option"

text \<open>\<open>p_seal key nonce aad plaintext\<close>; \<open>p_open\<close> is \<open>None\<close> when the tag does not verify.\<close>

definition invalid_input :: exn where
  "invalid_input = HttpError 400 ''invalid_input'' None None JUndef"

definition http_error :: "nat \<Rightarrow> string \<Rightarrow> exn" where
  "http_error status code = HttpError status code None None JUndef"

subsection \<open>security.ts: tokens and encodings\<close>

definition addSecondsIso :: "num \<Rightarrow> num \<Rightarrow> num" where
  "addSecondsIso now seconds = now + seconds * 1000"

text \<open>\<open>Number.parseInt(value, 10)\<close>: leading blanks, a sign, and the longest run of digits.\<close>

definition parseInt10 :: "string \<Rightarrow> num option" where
  "parseInt10 s0 =
     (let s = dropWhile is_ws s0;
          neg = starts_with ''-'' s;
          ds = takeWhile is_digit (if starts_with ''-'' s \<or> starts_with ''+'' s then tl s else s)
      in if ds = [] then None
         else Some (if neg then - of_nat (nat_of_digits 0 ds) else of_nat (nat_of_digits 0 ds)))"

definition parsePositiveInt :: "string \<Rightarrow> num \<Rightarrow> num \<Rightarrow> num" where
  "parsePositiveInt value fallback mx =
     (case parseInt10 value of Some n \<Rightarrow> if 0 < n \<and> n \<le> mx then n else fallback | None \<Rightarrow> fallback)"

definition bytesToBase64Url :: "byte list \<Rightarrow> string" where
  "bytesToBase64Url data = strip_eq (map url_safe (btoa data))"

definition base64UrlToBytes :: "string \<Rightarrow> byte list option" where
  "base64UrlToBytes value =
     (let normalized = map url_unsafe value
      in atob (normalized @ replicate ((4 - length normalized mod 4) mod 4) CHR ''=''))"

definition randomToken :: "byte list \<Rightarrow> string" where
  "randomToken random = bytesToBase64Url random"

definition cp_sha256 :: "('a platform_scheme) \<Rightarrow> string \<Rightarrow> string" where
  "cp_sha256 P value = bytesToBase64Url (p_sha256 P (utf8_encode value))"

definition constantTimeEqual :: "('a platform_scheme) \<Rightarrow> string \<Rightarrow> string \<Rightarrow> bool" where
  "constantTimeEqual P left right =
     (ct_diff 0 (p_sha256 P (utf8_encode left)) (p_sha256 P (utf8_encode right)) = 0)"

definition importEncryptionKey :: "string \<Rightarrow> byte list res" where
  "importEncryptionKey encodedKey =
     (case base64UrlToBytes encodedKey of
        None \<Rightarrow> Inl (JsError ''InvalidCharacterError'')
      | Some raw \<Rightarrow> if length raw \<noteq> 32 then Inl (JsError ''TOKEN_ENCRYPTION_KEY'') else Inr raw)"

text \<open>The random values of one envelope: data key and the two nonces.\<close>

record envelope_random =
  er_key :: "byte list"
  er_wrap :: "byte list"
  er_data :: "byte list"

definition encryptJson :: "cp_platform \<Rightarrow> envelope_random \<Rightarrow> jval \<Rightarrow> string \<Rightarrow> string \<Rightarrow> string res" where
  "encryptJson P rnd value encodedKey aad =
     res_bind (importEncryptionKey encodedKey) (\<lambda>kek.
       let wrapped = p_seal P kek (er_wrap rnd) (utf8_encode (aad @ ''|dek'')) (er_key rnd);
           ciphertext = p_seal P (er_key rnd) (er_data rnd) (utf8_encode (aad @ ''|data'')) (utf8_encode (json_stringify value))
       in Inr (join_with ''.'' [''v2'', bytesToBase64Url (er_wrap rnd), bytesToBase64Url wrapped,
                 bytesToBase64Url (er_data rnd), bytesToBase64Url ciphertext]))"

definition bytes_or_throw :: "string \<Rightarrow> byte list res" where
  "bytes_or_throw s = (case base64UrlToBytes s of None \<Rightarrow> Inl (JsError ''InvalidCharacterError'') | Some b \<Rightarrow> Inr b)"

definition open_or_throw :: "cp_platform \<Rightarrow> byte list \<Rightarrow> string \<Rightarrow> string \<Rightarrow> string \<Rightarrow> byte list res" where
  "open_or_throw P key nonce aad ciphertext =
     res_bind (bytes_or_throw nonce) (\<lambda>iv. res_bind (bytes_or_throw ciphertext) (\<lambda>c.
       case p_open P key iv (utf8_encode aad) c of None \<Rightarrow> Inl (JsError ''OperationError'') | Some m \<Rightarrow> Inr m))"

definition parse_plaintext :: "cp_platform \<Rightarrow> byte list \<Rightarrow> jval res" where
  "parse_plaintext P m = (case json_parse (p_decode P m) of None \<Rightarrow> Inl (JsError ''SyntaxError'') | Some v \<Rightarrow> Inr v)"

definition decryptJson :: "cp_platform \<Rightarrow> string \<Rightarrow> string \<Rightarrow> string \<Rightarrow> jval res" where
  "decryptJson P envelope encodedKey aad =
     (let parts = split_on CHR ''.'' envelope in
      res_bind (importEncryptionKey encodedKey) (\<lambda>kek.
        case parts of
          [v, a, b] \<Rightarrow>
            if v = ''v1'' \<and> a \<noteq> [] \<and> b \<noteq> [] then res_bind (open_or_throw P kek a aad b) (parse_plaintext P)
            else Inl (JsError ''Unsupported encrypted envelope'')
        | [v, a, b, c, d] \<Rightarrow>
            if v \<noteq> ''v2'' \<or> a = [] \<or> b = [] \<or> c = [] \<or> d = [] then Inl (JsError ''Unsupported encrypted envelope'')
            else res_bind (open_or_throw P kek a (aad @ ''|dek'') b) (\<lambda>dek.
                 res_bind (open_or_throw P dek c (aad @ ''|data'') d) (parse_plaintext P))
        | _ \<Rightarrow> Inl (JsError ''Unsupported encrypted envelope'')))"

fun find_cookie :: "('a platform_scheme) \<Rightarrow> string \<Rightarrow> string list \<Rightarrow> string option res" where
  "find_cookie P name [] = Inr None"
| "find_cookie P name (part # parts) =
     (if CHR ''='' \<notin> set part then find_cookie P name parts
      else let key = trim (takeWhile (\<lambda>c. c \<noteq> CHR ''='') part); v = trim (tl (dropWhile (\<lambda>c. c \<noteq> CHR ''='') part)) in
        if key = name then (case p_decodeURI P v of Some t \<Rightarrow> Inr (Some t) | None \<Rightarrow> Inl (JsError ''URIError''))
        else find_cookie P name parts)"

definition getCookie :: "('a platform_scheme) \<Rightarrow> request \<Rightarrow> string \<Rightarrow> string option res" where
  "getCookie P r name = find_cookie P name (split_on CHR '';'' (case header_of r ''cookie'' of None \<Rightarrow> [] | Some h \<Rightarrow> h))"

definition cp_sessionCookie :: "string \<Rightarrow> num \<Rightarrow> string" where
  "cp_sessionCookie rawToken maxAge =
     ''v13_session='' @ encodeURIComponent rawToken @ ''; Path=/; HttpOnly; Secure; SameSite=Lax; Max-Age='' @ show_num maxAge"

definition cp_clearSessionCookie :: string where
  "cp_clearSessionCookie = ''v13_session=; Path=/; HttpOnly; Secure; SameSite=Lax; Max-Age=0''"

text \<open>The replacements run one after another; each looks for one character, and none produces a later one's but \<open>&\<close>.\<close>

definition cp_escapeHtml :: "string \<Rightarrow> string" where
  "cp_escapeHtml value =
     replace_char (CHR 0x27) ''&#039;'' (replace_char (CHR 0x22) ''&quot;'' (replace_char (CHR ''>'') ''&gt;''
       (replace_char (CHR ''<'') ''&lt;'' (replace_char (CHR ''&'') ''&amp;'' value))))"

subsection \<open>security.ts: identifiers and addresses\<close>

definition is_hex_lower :: "char \<Rightarrow> bool" where
  "is_hex_lower c \<longleftrightarrow> is_digit c \<or> (let n = (of_char c :: nat) in 97 \<le> n \<and> n \<le> 102)"

definition host_char :: "char \<Rightarrow> bool" where
  "host_char c \<longleftrightarrow> is_lower c \<or> is_digit c"

text \<open>\<open>/^[a-z0-9](?:[a-z0-9-]*[a-z0-9])?$/\<close>.\<close>

definition label_ok :: "string \<Rightarrow> bool" where
  "label_ok l \<longleftrightarrow> l \<noteq> [] \<and> length l \<le> 63 \<and> host_char (hd l) \<and> host_char (last l) \<and>
     list_all (\<lambda>c. host_char c \<or> c = CHR ''-'') l"

definition isValidHostname :: "string \<Rightarrow> bool" where
  "isValidHostname value \<longleftrightarrow>
     length value \<le> 253 \<and> CHR ''.'' \<in> set value \<and> list_all label_ok (split_on CHR ''.'' value)"

definition octet_ok :: "string \<Rightarrow> bool" where
  "octet_ok part \<longleftrightarrow> part \<noteq> [] \<and> length part \<le> 3 \<and> list_all is_digit part \<and>
     (let n = nat_of_digits 0 part in n \<le> 255 \<and> show_nat n = part)"

definition isValidIpv4 :: "string \<Rightarrow> bool" where
  "isValidIpv4 value \<longleftrightarrow> (let parts = split_on CHR ''.'' value in length parts = 4 \<and> list_all octet_ok parts)"

definition isPublicIpv4 :: "string \<Rightarrow> bool" where
  "isPublicIpv4 value \<longleftrightarrow>
     isValidIpv4 value \<and>
     (case map (nat_of_digits 0) (split_on CHR ''.'' value) of
        a # b # c # _ \<Rightarrow>
          if a = 0 \<or> a = 10 \<or> a = 127 \<or> a \<ge> 224 then False
          else if a = 100 \<and> b \<ge> 64 \<and> b \<le> 127 then False
          else if a = 169 \<and> b = 254 then False
          else if a = 172 \<and> b \<ge> 16 \<and> b \<le> 31 then False
          else if a = 192 \<and> b = 168 then False
          else if a = 198 \<and> (b = 18 \<or> b = 19) then False
          else if a = 192 \<and> b = 0 \<and> c = 0 then False
          else if a = 192 \<and> b = 0 \<and> c = 2 then False
          else if a = 198 \<and> b = 51 \<and> c = 100 then False
          else if a = 203 \<and> b = 0 \<and> c = 113 then False
          else True
      | _ \<Rightarrow> False)"

text \<open>\<open>/^[^\s@]+@[^\s@]+\.[^\s@]+$/\<close>: one \<open>@\<close>, no blanks, and a dot with text on both sides after it.\<close>

definition isValidEmail :: "string \<Rightarrow> bool" where
  "isValidEmail value \<longleftrightarrow>
     length value \<le> 254 \<and> list_all (\<lambda>c. \<not> is_ws c) value \<and>
     (case split_on CHR ''@'' value of
        [user, domain] \<Rightarrow> user \<noteq> [] \<and> CHR ''.'' \<in> set (butlast (tl domain))
      | _ \<Rightarrow> False)"

definition isValidCloudflareId :: "string \<Rightarrow> bool" where
  "isValidCloudflareId value \<longleftrightarrow> length value = 32 \<and> list_all is_hex_lower value"

text \<open>\<open>/^[a-z][a-z0-9-]{1,62}[a-z0-9]$/\<close>.\<close>

definition isValidWorkerName :: "string \<Rightarrow> bool" where
  "isValidWorkerName value \<longleftrightarrow>
     3 \<le> length value \<and> length value \<le> 64 \<and> is_lower (hd value) \<and> host_char (last value) \<and>
     list_all (\<lambda>c. host_char c \<or> c = CHR ''-'') value"

subsection \<open>http.ts: request checks\<close>

definition cp_readJson :: "request \<Rightarrow> num \<Rightarrow> jval res" where
  "cp_readJson r maxBytes =
     (let contentType = map_option (\<lambda>t. trim (hd (split_on CHR '';'' t))) (header_of r ''content-type'');
          declared = str_to_num (case header_of r ''content-length'' of None \<Rightarrow> ''0'' | Some v \<Rightarrow> v) in
      if contentType \<noteq> Some ''application/json'' then Inl (http_error 415 ''unsupported_media_type'')
      else if num_lt (Fin maxBytes) declared then Inl (http_error 413 ''payload_too_large'')
      else if maxBytes < of_nat (length (utf8_encode (rq_body r))) then Inl (http_error 413 ''payload_too_large'')
      else case json_parse (rq_body r) of None \<Rightarrow> Inl (http_error 400 ''invalid_json'') | Some v \<Rightarrow> Inr v)"

text \<open>\<open>expected\<close> is the normalised \<open>PUBLIC_BASE_URL\<close>.\<close>

definition requireSameOrigin :: "string \<Rightarrow> request \<Rightarrow> unit res" where
  "requireSameOrigin expected r =
     (if header_of r ''origin'' \<noteq> Some expected then Inl (http_error 403 ''csrf_rejected'')
      else case header_of r ''sec-fetch-site'' of
        Some site \<Rightarrow> if site \<noteq> [] \<and> site \<noteq> ''same-origin'' then Inl (http_error 403 ''csrf_rejected'') else Inr ()
      | None \<Rightarrow> Inr ())"

definition bearerToken :: "request \<Rightarrow> string option" where
  "bearerToken r =
     (let authorization = (case header_of r ''authorization'' of None \<Rightarrow> [] | Some v \<Rightarrow> v)
      in if starts_with ''Bearer '' authorization then Some (trim (drop 7 authorization)) else None)"

subsection \<open>validation.ts\<close>

fun is_object :: "jval \<Rightarrow> bool" where
  "is_object (JObj kvs) = True"
| "is_object v = False"

fun requiredString :: "nat \<Rightarrow> jval \<Rightarrow> string res" where
  "requiredString mx (JStr s) = (if s = [] \<or> mx < length s then Inl invalid_input else Inr (to_lower (trim s)))"
| "requiredString mx v = Inl invalid_input"

record deployment_input =
  di_connectionId :: string
  di_accountId :: string
  di_zoneId :: string
  di_workerName :: string
  di_workerHostname :: string
  di_nodeHostname :: string
  di_vpsIpv4 :: string
  di_acmeEmail :: string
  di_realityServerName :: string
  di_enableUfw :: bool

definition id36 :: "string \<Rightarrow> bool" where
  "id36 s \<longleftrightarrow> length s = 36 \<and> list_all (\<lambda>c. is_hex_lower c \<or> c = CHR ''-'') s"

definition check :: "bool \<Rightarrow> unit res" where
  "check b = (if b then Inr () else Inl invalid_input)"

definition input_checks :: "deployment_input \<Rightarrow> unit res" where
  "input_checks i =
     res_bind (check (id36 (di_connectionId i))) (\<lambda>_.
     res_bind (check (isValidCloudflareId (di_accountId i) \<and> isValidCloudflareId (di_zoneId i))) (\<lambda>_.
     res_bind (check (isValidWorkerName (di_workerName i))) (\<lambda>_.
     res_bind (check (isValidHostname (di_workerHostname i) \<and> isValidHostname (di_nodeHostname i) \<and>
       isValidHostname (di_realityServerName i))) (\<lambda>_.
     res_bind (check (di_workerHostname i \<noteq> di_nodeHostname i)) (\<lambda>_.
     res_bind (check (isPublicIpv4 (di_vpsIpv4 i))) (\<lambda>_.
     check (isValidEmail (di_acmeEmail i))))))))"

definition validateCreateDeployment :: "jval \<Rightarrow> deployment_input res" where
  "validateCreateDeployment body =
     res_bind (check (is_object body)) (\<lambda>_.
     res_bind (requiredString 36 (js_coalesce (fld body ''connectionId'') (fld body ''oauthConnectionId''))) (\<lambda>connectionId.
     res_bind (requiredString 32 (fld body ''accountId'')) (\<lambda>accountId.
     res_bind (requiredString 32 (fld body ''zoneId'')) (\<lambda>zoneId.
     res_bind (requiredString 64 (fld body ''workerName'')) (\<lambda>workerName.
     res_bind (requiredString 253 (fld body ''workerHostname'')) (\<lambda>workerHostname.
     res_bind (requiredString 253 (fld body ''nodeHostname'')) (\<lambda>nodeHostname.
     res_bind (requiredString 15 (fld body ''vpsIpv4'')) (\<lambda>vpsIpv4.
     res_bind (requiredString 254 (fld body ''acmeEmail'')) (\<lambda>acmeEmail.
     res_bind (requiredString 253 (fld body ''realityServerName'')) (\<lambda>realityServerName.
     let i = \<lparr>di_connectionId = connectionId, di_accountId = accountId, di_zoneId = zoneId, di_workerName = workerName,
              di_workerHostname = workerHostname, di_nodeHostname = nodeHostname, di_vpsIpv4 = vpsIpv4,
              di_acmeEmail = acmeEmail, di_realityServerName = realityServerName,
              di_enableUfw = (fld body ''enableUfw'' = JBool True)\<rparr>
     in res_bind (input_checks i) (\<lambda>_. Inr i)))))))))))"

text \<open>The patterns of \<open>assertAgentCompletePayload\<close>.\<close>

definition token_char :: "char \<Rightarrow> bool" where
  "token_char c \<longleftrightarrow> is_alnum c \<or> c = CHR ''_'' \<or> c = CHR ''-''"

definition token_text :: "nat \<Rightarrow> nat \<Rightarrow> string \<Rightarrow> bool" where
  "token_text lo hi s \<longleftrightarrow> lo \<le> length s \<and> length s \<le> hi \<and> list_all token_char s"

definition hex_text :: "nat \<Rightarrow> string \<Rightarrow> bool" where
  "hex_text n s \<longleftrightarrow> length s = n \<and> list_all is_hex_lower s"

definition spki_text :: "string \<Rightarrow> bool" where
  "spki_text s \<longleftrightarrow> length s = 44 \<and> last s = CHR ''='' \<and>
     list_all (\<lambda>c. is_alnum c \<or> c = CHR ''+'' \<or> c = CHR ''/'') (butlast s)"

definition uuid_text :: "string \<Rightarrow> bool" where
  "uuid_text s \<longleftrightarrow>
     (case split_on CHR ''-'' s of
        [a, b, c, d, e] \<Rightarrow> hex_text 8 a \<and> hex_text 4 b \<and> hex_text 4 c \<and> hd c \<in> set ''12345'' \<and>
          hex_text 4 d \<and> hd d \<in> set ''89ab'' \<and> hex_text 12 e
      | _ \<Rightarrow> False)"

definition agent_patterns :: "(string \<times> (string \<Rightarrow> bool)) list" where
  "agent_patterns =
     [(''deploymentId'', id36), (''agentToken'', token_text 43 128), (''singBoxVersion'', \<lambda>s. s = ''1.14.0''),
      (''vlessUuid'', uuid_text), (''realityPublicKey'', token_text 43 43), (''realityShortId'', hex_text 16),
      (''hysteria2Password'', token_text 32 128), (''hysteria2CertSha256'', hex_text 64), (''hysteria2SpkiSha256'', spki_text),
      (''configSha256'', hex_text 64)]"

definition optional_patterns :: "(string \<times> (string \<Rightarrow> bool)) list" where
  "optional_patterns = [(''dnsttPublicKey'', hex_text 64), (''slipstreamSpkiSha256'', spki_text)]"

fun str_field :: "(string \<Rightarrow> bool) \<Rightarrow> jval \<Rightarrow> bool" where
  "str_field p (JStr s) = p s"
| "str_field p v = False"

definition assertAgentCompletePayload :: "jval \<Rightarrow> unit res" where
  "assertAgentCompletePayload body =
     res_bind (check (is_object body)) (\<lambda>_.
     res_bind (check (list_all (\<lambda>(f, p). str_field p (fld body f)) agent_patterns)) (\<lambda>_.
     res_bind (check (fld body ''vlessPort'' \<in> {JInt 443, JInt 8443})) (\<lambda>_.
     check (list_all (\<lambda>(f, p). fld body f = JUndef \<or> str_field p (fld body f)) optional_patterns))))"

record report_extras =
  rx_mtuBytes :: "num option"
  rx_tunnelTxtRttMs :: "num option"
  rx_tunnelStatus :: "string option"

fun num_of :: "jval \<Rightarrow> num option" where
  "num_of (JNum (Fin q)) = Some q"
| "num_of v = None"

definition clamp_ms :: "num \<Rightarrow> num \<Rightarrow> num" where
  "clamp_ms hi q = min hi (max 0 (js_round q))"

definition extractAgentReportExtras :: "jval \<Rightarrow> report_extras" where
  "extractAgentReportExtras inp =
     \<lparr>rx_mtuBytes = (case num_of (fld inp ''mtuBytes'') of
        Some q \<Rightarrow> if is_int q \<and> 512 \<le> q \<and> q \<le> 1400 then Some q else None | None \<Rightarrow> None),
      rx_tunnelTxtRttMs = map_option (clamp_ms 10000) (num_of (fld inp ''tunnelTxtRttMs'')),
      rx_tunnelStatus = (case fld inp ''tunnelStatus'' of
        JStr s \<Rightarrow> if s \<in> {''active'', ''inactive'', ''not-installed''} then Some s else None | _ \<Rightarrow> None)\<rparr>"

subsection \<open>The envelope\<close>

lemma base64UrlToBytes_encode: "base64UrlToBytes (bytesToBase64Url data) = Some data"
proof -
  have "b64u_decode v = base64UrlToBytes v" for v
  proof -
    have "(4 - length v mod 4) mod 4 = (if length v mod 4 = 0 then 0 else 4 - length v mod 4)"
      by (cases "length v mod 4 = 0") simp_all
    then show ?thesis by (simp add: b64u_decode_def base64UrlToBytes_def b64_pad_def Let_def)
  qed
  then show ?thesis using b64u_decode_encode [of data] by (simp add: bytesToBase64Url_def b64u_encode_def)
qed

interpretation cp64: codec bytesToBase64Url base64UrlToBytes "\<lambda>_. True"
  by unfold_locales (simp add: base64UrlToBytes_encode)

lemma bytesToBase64Url_chars: "CHR ''.'' \<notin> set (bytesToBase64Url data)"
  using b64u_encode_no_sep [of "CHR ''.''" data]
  by (auto simp: bytesToBase64Url_def b64u_encode_def is_alnum_def is_digit_def is_lower_def is_upper_def)

lemma bytesToBase64Url_Nil: "bytesToBase64Url data = [] \<longleftrightarrow> data = []"
  using b64u_encode_Nil_iff [of data] by (simp add: bytesToBase64Url_def b64u_encode_def)

text \<open>What AES-GCM promises: opening what was sealed with the same key, nonce and additional data, failing for other data.\<close>

definition aead_laws :: "cp_platform \<Rightarrow> bool" where
  "aead_laws P \<longleftrightarrow>
     (\<forall>k n a m. p_open P k n a (p_seal P k n a m) = Some m) \<and> (\<forall>k n a m. p_seal P k n a m \<noteq> []) \<and>
     (\<forall>k n a a' m. a' \<noteq> a \<longrightarrow> p_open P k n a' (p_seal P k n a m) = None) \<and> (\<forall>t. p_decode P (utf8_encode t) = t)"

lemma open_or_throw_seal:
  assumes "aead_laws P"
  shows "open_or_throw P k (bytesToBase64Url n) a (bytesToBase64Url (p_seal P k n (utf8_encode b) m)) =
    (if utf8_encode a = utf8_encode b then Inr m else Inl (JsError ''OperationError''))"
  using assms by (auto simp: open_or_throw_def bytes_or_throw_def base64UrlToBytes_encode aead_laws_def)

lemma envelope_parts:
  "split_on CHR ''.'' (join_with ''.'' [''v2'', bytesToBase64Url a, bytesToBase64Url b, bytesToBase64Url c, bytesToBase64Url d]) =
     [''v2'', bytesToBase64Url a, bytesToBase64Url b, bytesToBase64Url c, bytesToBase64Url d]"
  by (rule split_on_join) (auto simp: bytesToBase64Url_chars)

lemma utf8_encode_eq: "p_decode P (utf8_encode a) = a \<Longrightarrow> p_decode P (utf8_encode b) = b \<Longrightarrow> utf8_encode a = utf8_encode b \<longleftrightarrow> a = b"
  by metis

lemma encryptJson_eq:
  "importEncryptionKey key = Inr kek \<Longrightarrow> encryptJson P rnd v key aad = Inr (join_with ''.'' [''v2'', bytesToBase64Url (er_wrap rnd),
     bytesToBase64Url (p_seal P kek (er_wrap rnd) (utf8_encode (aad @ ''|dek'')) (er_key rnd)), bytesToBase64Url (er_data rnd),
     bytesToBase64Url (p_seal P (er_key rnd) (er_data rnd) (utf8_encode (aad @ ''|data'')) (utf8_encode (json_stringify v)))])"
  by (simp only: encryptJson_def res_bind.simps Let_def)

lemma sealed_opens:
  assumes "aead_laws P" and "importEncryptionKey key = Inr kek" and "plain v" and "er_wrap rnd \<noteq> []" and "er_data rnd \<noteq> []"
    and "encryptJson P rnd v key aad = Inr env"
  shows "decryptJson P env key aad = Inr v"
proof -
  have ne: "p_seal P k n a m \<noteq> []" for k n a m using assms(1) by (simp add: aead_laws_def)
  have dec: "p_decode P (utf8_encode t) = t" for t using assms(1) by (simp add: aead_laws_def)
  have env: "env = join_with ''.'' [''v2'', bytesToBase64Url (er_wrap rnd),
     bytesToBase64Url (p_seal P kek (er_wrap rnd) (utf8_encode (aad @ ''|dek'')) (er_key rnd)), bytesToBase64Url (er_data rnd),
     bytesToBase64Url (p_seal P (er_key rnd) (er_data rnd) (utf8_encode (aad @ ''|data'')) (utf8_encode (json_stringify v)))]"
    using assms(6) by (simp only: encryptJson_eq [OF assms(2)] sum.inject)
  show ?thesis
    unfolding env decryptJson_def envelope_parts Let_def assms(2)
    using assms ne by (simp add: open_or_throw_seal bytesToBase64Url_Nil parse_plaintext_def dec json_parse_stringify)
qed

text \<open>
  C23. Sealed records open to what was sealed, and only in their own context: given AES-GCM's guarantees and a 32-byte
  key, decrypting an envelope with the additional data it was made with returns the value, and with any other additional
  data (another deployment's or connection's) it throws.
\<close>

theorem envelope_roundtrip:
  assumes "aead_laws P" and "importEncryptionKey key = Inr kek" and "plain v" and "er_wrap rnd \<noteq> []" and "er_data rnd \<noteq> []"
  shows "\<exists>env. encryptJson P rnd v key aad = Inr env \<and> decryptJson P env key aad = Inr v \<and>
    (\<forall>aad'. aad' \<noteq> aad \<longrightarrow> (\<exists>e. decryptJson P env key aad' = Inl e))"
proof -
  note env = encryptJson_eq [OF assms(2), of P rnd v aad]
  have ne: "p_seal P k n a m \<noteq> []" for k n a m using assms(1) by (simp add: aead_laws_def)
  have dec: "p_decode P (utf8_encode t) = t" for t using assms(1) by (simp add: aead_laws_def)
  have "\<exists>e. decryptJson P (join_with ''.'' [''v2'', bytesToBase64Url (er_wrap rnd),
     bytesToBase64Url (p_seal P kek (er_wrap rnd) (utf8_encode (aad @ ''|dek'')) (er_key rnd)), bytesToBase64Url (er_data rnd),
     bytesToBase64Url (p_seal P (er_key rnd) (er_data rnd) (utf8_encode (aad @ ''|data'')) (utf8_encode (json_stringify v)))]) key aad' = Inl e"
    if "aad' \<noteq> aad" for aad'
    unfolding decryptJson_def envelope_parts Let_def assms(2)
    using assms ne that utf8_encode_eq [OF dec dec]
    by (simp add: open_or_throw_seal bytesToBase64Url_Nil)
  with env sealed_opens [OF assms env] show ?thesis by blast
qed

text \<open>A sealing scheme that satisfies the laws: the additional data as a self-delimiting prefix of the message.\<close>

definition frame_aad :: "byte list \<Rightarrow> byte list" where
  "frame_aad a = concat (map (\<lambda>b. [1, b]) a) @ [0]"

definition demo_cp :: cp_platform where
  "demo_cp = platform.extend demo_platform
     \<lparr>p_seal = (\<lambda>k n a m. frame_aad a @ m),
      p_open = (\<lambda>k n a c. if take (length (frame_aad a)) c = frame_aad a then Some (drop (length (frame_aad a)) c) else None)\<rparr>"

lemma frame_aad_prefix: "take (length (frame_aad a')) (frame_aad a @ m) = frame_aad a' \<Longrightarrow> a' = a"
proof (induction a arbitrary: a')
  case Nil
  then show ?case by (cases a') (auto simp: frame_aad_def)
next
  case (Cons b a)
  then show ?case by (cases a') (auto simp: frame_aad_def)
qed

lemma demo_cp_laws: "aead_laws demo_cp"
proof -
  have "frame_aad a \<noteq> []" "take (length (frame_aad a)) (frame_aad a @ m) = frame_aad a" for a m by (simp_all add: frame_aad_def)
  then show ?thesis
    by (auto simp: aead_laws_def demo_cp_def platform.defs demo_platform_def demo_decode_encode simp del: take_append
        dest: frame_aad_prefix)
qed

lemma demo_key: "importEncryptionKey (bytesToBase64Url (replicate 32 0)) = Inr (replicate 32 0)"
  by (simp add: importEncryptionKey_def base64UrlToBytes_encode)

theorem envelope_roundtrip_witness:
  "\<exists>env. encryptJson demo_cp \<lparr>er_key = [5], er_wrap = [1], er_data = [2]\<rparr> (JStr ''token'') (bytesToBase64Url (replicate 32 0))
       ''deployment:1'' = Inr env \<and>
     decryptJson demo_cp env (bytesToBase64Url (replicate 32 0)) ''deployment:1'' = Inr (JStr ''token'') \<and>
     (\<exists>e. decryptJson demo_cp env (bytesToBase64Url (replicate 32 0)) ''deployment:2'' = Inl e)"
proof -
  from envelope_roundtrip [OF demo_cp_laws demo_key, of "JStr ''token''" "\<lparr>er_key = [5], er_wrap = [1], er_data = [2]\<rparr>" "''deployment:1''"]
  obtain env where "encryptJson demo_cp \<lparr>er_key = [5], er_wrap = [1], er_data = [2]\<rparr> (JStr ''token'')
      (bytesToBase64Url (replicate 32 0)) ''deployment:1'' = Inr env"
    "decryptJson demo_cp env (bytesToBase64Url (replicate 32 0)) ''deployment:1'' = Inr (JStr ''token'')"
    "\<And>aad'. aad' \<noteq> ''deployment:1'' \<Longrightarrow> \<exists>e. decryptJson demo_cp env (bytesToBase64Url (replicate 32 0)) aad' = Inl e"
    by auto
  then show ?thesis by (intro exI [of _ env]) simp
qed

subsection \<open>Validated input\<close>

lemma check_Inr [simp]: "check b = Inr x \<longleftrightarrow> b"
  by (simp add: check_def)

lemma lower_char_idem: "lower_char (lower_char c) = lower_char c"
  by (auto simp: lower_char_def Let_def)

text \<open>Characters that \<open>trim().toLowerCase()\<close> leaves alone.\<close>

definition normal_char :: "char \<Rightarrow> bool" where
  "normal_char c \<longleftrightarrow> \<not> is_ws c \<and> lower_char c = c"

lemma normal_text:
  assumes "list_all normal_char s"
  shows "to_lower (trim s) = s"
proof -
  have "trim s = s" using assms by (intro trim_no_ws) (auto simp: list_all_iff normal_char_def)
  then show ?thesis using assms by (simp add: to_lower_def list_all_iff map_idI normal_char_def)
qed

lemma normal_char_classes:
  "is_digit c \<Longrightarrow> normal_char c" "is_lower c \<Longrightarrow> normal_char c" "is_hex_lower c \<Longrightarrow> normal_char c" "host_char c \<Longrightarrow> normal_char c"
  by (auto simp: normal_char_def is_digit_def is_lower_def is_hex_lower_def host_char_def is_ws_def lower_char_def Let_def)

lemma normal_char_marks [simp]: "normal_char CHR ''-''" "normal_char CHR ''.''"
  by (simp_all add: normal_char_def is_ws_def lower_char_def)

lemma all_mono: "list_all p s \<Longrightarrow> (\<And>c. p c \<Longrightarrow> q c) \<Longrightarrow> list_all q s"
  by (simp add: list_all_iff)

lemma parts_all:
  assumes "\<And>x. x \<in> set (split_on c s) \<Longrightarrow> list_all p x" and "p c"
  shows "list_all p s"
proof -
  have "list_all p (join_with [c] xs)" if "list_all (list_all p) xs" for xs
    using that assms(2) by (induction "[c]" xs rule: join_with.induct) auto
  moreover have "list_all (list_all p) (split_on c s)" using assms(1) by (simp add: list_all_iff)
  ultimately show ?thesis by (metis join_split_on)
qed

lemma normal_fields:
  "id36 s \<Longrightarrow> to_lower (trim s) = s" "isValidCloudflareId s \<Longrightarrow> to_lower (trim s) = s"
  "isValidWorkerName s \<Longrightarrow> to_lower (trim s) = s"
proof -
  have n: "list_all (\<lambda>c. q c \<or> c = CHR ''-'') s \<Longrightarrow> to_lower (trim s) = s" if "\<And>c. q c \<Longrightarrow> normal_char c" for q
    using that by (intro normal_text) (auto simp: list_all_iff)
  show "id36 s \<Longrightarrow> to_lower (trim s) = s" "isValidCloudflareId s \<Longrightarrow> to_lower (trim s) = s"
    using n [of is_hex_lower] normal_char_classes by (auto simp: id36_def isValidCloudflareId_def list_all_iff)
  show "isValidWorkerName s \<Longrightarrow> to_lower (trim s) = s"
    using n [of host_char] normal_char_classes by (auto simp: isValidWorkerName_def)
qed

lemma normal_hostname: "isValidHostname s \<Longrightarrow> to_lower (trim s) = s"
proof (rule normal_text, rule parts_all [where c = "CHR ''.''"])
  fix x assume "isValidHostname s" "x \<in> set (split_on CHR ''.'' s)"
  then have "list_all (\<lambda>c. host_char c \<or> c = CHR ''-'') x" by (simp add: isValidHostname_def label_ok_def list_all_iff)
  then show "list_all normal_char x" by (rule all_mono) (auto intro: normal_char_classes)
qed simp

lemma normal_ipv4: "isValidIpv4 s \<Longrightarrow> to_lower (trim s) = s"
proof (rule normal_text, rule parts_all [where c = "CHR ''.''"])
  fix x assume "isValidIpv4 s" "x \<in> set (split_on CHR ''.'' s)"
  then have "list_all is_digit x" by (simp add: isValidIpv4_def octet_ok_def list_all_iff Let_def)
  then show "list_all normal_char x" by (rule all_mono) (rule normal_char_classes)
qed simp

lemma ipv4_length: "isValidIpv4 s \<Longrightarrow> s \<noteq> [] \<and> length s \<le> 15"
proof -
  assume "isValidIpv4 s"
  then obtain a b c d where p: "split_on CHR ''.'' s = [a, b, c, d]" and o: "list_all octet_ok [a, b, c, d]"
    by (auto simp: isValidIpv4_def Let_def length_Suc_conv numeral_eq_Suc)
  have "s = a @ ''.'' @ b @ ''.'' @ c @ ''.'' @ d" using join_split_on [of "CHR ''.''" s] p by simp
  with o show ?thesis by (auto simp: octet_ok_def)
qed

text \<open>A validated request as the JSON the interface describes.\<close>

definition input_json :: "deployment_input \<Rightarrow> jval" where
  "input_json i = JObj
     [(''connectionId'', JStr (di_connectionId i)), (''accountId'', JStr (di_accountId i)), (''zoneId'', JStr (di_zoneId i)),
      (''workerName'', JStr (di_workerName i)), (''workerHostname'', JStr (di_workerHostname i)),
      (''nodeHostname'', JStr (di_nodeHostname i)), (''vpsIpv4'', JStr (di_vpsIpv4 i)), (''acmeEmail'', JStr (di_acmeEmail i)),
      (''realityServerName'', JStr (di_realityServerName i)), (''enableUfw'', JBool (di_enableUfw i))]"

definition input_ok :: "deployment_input \<Rightarrow> bool" where
  "input_ok i \<longleftrightarrow> id36 (di_connectionId i) \<and> isValidCloudflareId (di_accountId i) \<and> isValidCloudflareId (di_zoneId i) \<and>
     isValidWorkerName (di_workerName i) \<and> isValidHostname (di_workerHostname i) \<and> isValidHostname (di_nodeHostname i) \<and>
     isValidHostname (di_realityServerName i) \<and> di_workerHostname i \<noteq> di_nodeHostname i \<and>
     isPublicIpv4 (di_vpsIpv4 i) \<and> isValidEmail (di_acmeEmail i)"

lemma input_checks_iff: "input_checks i = Inr x \<longleftrightarrow> input_ok i"
  by (auto simp: input_checks_def input_ok_def check_def)

lemma validate_Inr:
  assumes "validateCreateDeployment body = Inr i"
  shows "input_ok i \<and> (\<exists>v. requiredString 254 v = Inr (di_acmeEmail i))"
  using assms unfolding validateCreateDeployment_def Let_def res_bind_Inr input_checks_iff by auto

text \<open>A computation whose only error is 400.\<close>

definition only_400 :: "'a res \<Rightarrow> bool" where
  "only_400 m \<longleftrightarrow> (\<forall>e. m = Inl e \<longrightarrow> e = invalid_input)"

lemma only_400_intros:
  "only_400 (Inr x)" "only_400 (check b)" "only_400 m \<Longrightarrow> (\<And>x. only_400 (f x)) \<Longrightarrow> only_400 (res_bind m f)"
  by (auto simp: only_400_def check_def) (cases m; auto)

lemma only_400_requiredString: "only_400 (requiredString n v)"
  by (cases v) (auto simp: only_400_def)

lemma email_chars: "isValidEmail (to_lower t) \<Longrightarrow> list_all normal_char (to_lower t)"
  by (auto simp: isValidEmail_def normal_char_def to_lower_def list_all_iff lower_char_idem)

lemma required_lower: "requiredString n v = Inr s \<Longrightarrow> \<exists>t. s = to_lower t"
  by (cases v) (auto split: if_splits)

lemma normal_required:
  "id36 s \<Longrightarrow> requiredString 36 (JStr s) = Inr s" "isValidCloudflareId s \<Longrightarrow> requiredString 32 (JStr s) = Inr s"
  "isValidWorkerName s \<Longrightarrow> requiredString 64 (JStr s) = Inr s" "isValidHostname s \<Longrightarrow> requiredString 253 (JStr s) = Inr s"
  "isPublicIpv4 s \<Longrightarrow> requiredString 15 (JStr s) = Inr s"
  using normal_fields [of s] normal_hostname [of s] normal_ipv4 [of s] ipv4_length [of s]
  by (auto simp: id36_def isValidCloudflareId_def isValidWorkerName_def isValidHostname_def isPublicIpv4_def not_less)

lemma validate_input_json:
  assumes "input_ok i" and "list_all normal_char (di_acmeEmail i)"
  shows "validateCreateDeployment (input_json i) = Inr i"
proof -
  have "input_checks i = Inr ()" using assms(1) by (simp add: input_checks_iff)
  moreover have "requiredString 254 (JStr (di_acmeEmail i)) = Inr (di_acmeEmail i)"
    using assms by (auto simp: input_ok_def isValidEmail_def normal_text)
  moreover have eta: "\<lparr>di_connectionId = di_connectionId i, di_accountId = di_accountId i, di_zoneId = di_zoneId i,
      di_workerName = di_workerName i, di_workerHostname = di_workerHostname i, di_nodeHostname = di_nodeHostname i,
      di_vpsIpv4 = di_vpsIpv4 i, di_acmeEmail = di_acmeEmail i, di_realityServerName = di_realityServerName i,
      di_enableUfw = di_enableUfw i\<rparr> = i" by simp
  ultimately show ?thesis
    using assms(1) normal_required
    by (simp add: validateCreateDeployment_def input_json_def input_ok_def js_coalesce_def nullish_def Let_def check_def eta
        del: requiredString.simps)
qed

text \<open>
  What \<open>validateCreateDeployment\<close> lets through is well-formed - identifiers, a worker name, three host names of
  which two differ, a public IPv4 address, an e-mail address - and in normal form: validating it again returns it unchanged.
  Everything else is refused with 400.
\<close>

theorem validate_sound_normal:
  "(case validateCreateDeployment body of
      Inr i \<Rightarrow> input_ok i \<and> validateCreateDeployment (input_json i) = Inr i
    | Inl e \<Rightarrow> e = invalid_input)"
proof (cases "validateCreateDeployment body")
  case (Inl e)
  have "only_400 (validateCreateDeployment body)"
    unfolding validateCreateDeployment_def input_checks_def Let_def by (intro only_400_intros only_400_requiredString)
  with Inl show ?thesis by (simp add: only_400_def)
next
  case (Inr i)
  from validate_Inr [OF Inr] obtain v where ok: "input_ok i" and v: "requiredString 254 v = Inr (di_acmeEmail i)" by blast
  then have "validateCreateDeployment (input_json i) = Inr i"
    using required_lower [OF v] by (intro validate_input_json) (auto simp: input_ok_def email_chars)
  with Inr ok show ?thesis by simp
qed

subsection \<open>Public addresses\<close>

text \<open>The special-purpose IPv4 blocks, as networks and prefix lengths, and membership on 32-bit addresses.\<close>

definition ip_nat :: "nat \<Rightarrow> nat \<Rightarrow> nat \<Rightarrow> nat \<Rightarrow> nat" where
  "ip_nat a b c d = ((a * 256 + b) * 256 + c) * 256 + d"

definition ip32 :: "nat \<Rightarrow> nat \<Rightarrow> nat \<Rightarrow> nat \<Rightarrow> 32 word" where
  "ip32 a b c d = of_nat (ip_nat a b c d)"

definition in_block :: "32 word \<Rightarrow> 32 word \<times> nat \<Rightarrow> bool" where
  "in_block w blk \<longleftrightarrow> drop_bit (32 - snd blk) w = drop_bit (32 - snd blk) (fst blk)"

definition special_blocks :: "(32 word \<times> nat) list" where
  "special_blocks =
     [(ip32 0 0 0 0, 8), (ip32 10 0 0 0, 8), (ip32 127 0 0 0, 8), (ip32 224 0 0 0, 3), (ip32 100 64 0 0, 10),
      (ip32 169 254 0 0, 16), (ip32 172 16 0 0, 12), (ip32 192 168 0 0, 16), (ip32 198 18 0 0, 15), (ip32 192 0 0 0, 24),
      (ip32 192 0 2 0, 24), (ip32 198 51 100 0, 24), (ip32 203 0 113 0, 24)]"

lemma in_block_nat:
  assumes "n < 2 ^ 32" "m < 2 ^ 32"
  shows "in_block (of_nat n) (of_nat m, k) \<longleftrightarrow> n div 2 ^ (32 - k) = m div 2 ^ (32 - k)"
proof -
  have u: "unat (drop_bit j (of_nat x :: 32 word)) = x div 2 ^ j" if "x < 2 ^ 32" for x j
    using that by (simp only: unat_drop_bit_eq) (simp add: drop_bit_eq_div unsigned_of_nat take_bit_nat_eq_self)
  show ?thesis unfolding in_block_def word_unat_eq_iff fst_conv snd_conv u [OF assms(1)] u [OF assms(2)] ..
qed

lemma ip_digits:
  fixes a b c d :: nat
  assumes "b < 256" "c < 256" "d < 256"
  defines "n \<equiv> ip_nat a b c d"
  shows "n div 256 = (a * 256 + b) * 256 + c" "n div 65536 = a * 256 + b" "n div 16777216 = a"
    "n div 4194304 = a * 4 + b div 64" "n div 1048576 = a * 16 + b div 16" "n div 131072 = a * 128 + b div 2"
    "n div 536870912 = a div 32"
proof -
  show 1: "n div 256 = (a * 256 + b) * 256 + c" using assms by (simp add: ip_nat_def)
  have "n div 65536 = n div 256 div 256" by (simp add: div_mult2_eq [symmetric])
  then show 2: "n div 65536 = a * 256 + b" using 1 assms by simp
  have "n div 16777216 = n div 65536 div 256" by (simp add: div_mult2_eq [symmetric])
  then show 3: "n div 16777216 = a" using 2 assms by simp
  have "n div 4194304 = n div 65536 div 64" "n div 1048576 = n div 65536 div 16" "n div 131072 = n div 65536 div 2"
    by (simp_all add: div_mult2_eq [symmetric])
  moreover have "(a * 256 + b) div 64 = a * 4 + b div 64" "(a * 256 + b) div 16 = a * 16 + b div 16" "(a * 256 + b) div 2 = a * 128 + b div 2"
    by presburger+
  ultimately show "n div 4194304 = a * 4 + b div 64" "n div 1048576 = a * 16 + b div 16" "n div 131072 = a * 128 + b div 2"
    using 2 by simp_all
  have "n div 536870912 = n div 16777216 div 32" by (simp add: div_mult2_eq [symmetric])
  then show "n div 536870912 = a div 32" using 3 by simp
qed

definition dotted_quad :: "nat \<Rightarrow> nat \<Rightarrow> nat \<Rightarrow> nat \<Rightarrow> string" where
  "dotted_quad a b c d = join_with ''.'' (map show_nat [a, b, c, d])"

lemma split_dotted_quad: "split_on CHR ''.'' (dotted_quad a b c d) = map show_nat [a, b, c, d]"
proof -
  have "CHR ''.'' \<notin> set (show_nat n)" for n
    using show_nat_digits [of n] by (auto simp: list_all_iff is_digit_def)
  then show ?thesis unfolding dotted_quad_def by (intro split_on_join) auto
qed

lemma valid_ipv4_iff: "isValidIpv4 s \<longleftrightarrow> (\<exists>a b c d. a < 256 \<and> b < 256 \<and> c < 256 \<and> d < 256 \<and> s = dotted_quad a b c d)"
  (is "_ = ?R")
proof
  assume "isValidIpv4 s"
  then obtain p q r t where p: "split_on CHR ''.'' s = [p, q, r, t]" and o: "list_all octet_ok [p, q, r, t]"
    by (auto simp: isValidIpv4_def Let_def length_Suc_conv numeral_eq_Suc)
  let ?n = "nat_of_digits 0"
  have "s = join_with ''.'' [p, q, r, t]" using join_split_on [of "CHR ''.''" s] p by simp
  then have "s = dotted_quad (?n p) (?n q) (?n r) (?n t)" using o by (simp add: octet_ok_def dotted_quad_def Let_def)
  moreover have "?n p < 256 \<and> ?n q < 256 \<and> ?n r < 256 \<and> ?n t < 256" using o by (auto simp: octet_ok_def Let_def)
  ultimately show ?R by blast
next
  have len: "length (show_nat n) \<le> 3" if "n < 256" for n
    using that by (subst show_nat.simps, auto, subst show_nat.simps, auto, subst show_nat.simps, auto)
  assume ?R
  then show "isValidIpv4 s"
    using len show_nat_digits by (auto simp: isValidIpv4_def split_dotted_quad octet_ok_def nat_of_digits_show_nat)
qed

lemma dotted_quad_inj: "dotted_quad a b c d = dotted_quad a' b' c' d' \<Longrightarrow> a = a' \<and> b = b' \<and> c = c' \<and> d = d'"
  using split_dotted_quad [of a b c d] split_dotted_quad [of a' b' c' d'] by (auto dest: show_nat_inj)

lemma base_digits: "b < n \<Longrightarrow> a * n + b = k \<longleftrightarrow> a = k div n \<and> b = k mod (n :: nat)"
  by (metis div_mult_mod_eq div_mult_self3 mod_mult_self3 mod_less div_less add_0 gr_implies_not_zero add.right_neutral)

lemma div_digit: "0 < n \<Longrightarrow> b div n = q \<longleftrightarrow> n * q \<le> b \<and> b < n * Suc (q :: nat)"
  using div_nat_eqI [of n q b] by (auto simp: dividend_less_times_div)

lemma special_iff:
  assumes "a < 256" "b < 256" "c < 256" "d < 256"
  shows "list_ex (in_block (ip32 a b c d)) special_blocks \<longleftrightarrow>
    a = 0 \<or> a = 10 \<or> a = 127 \<or> 224 \<le> a \<or> (a = 100 \<and> 64 \<le> b \<and> b \<le> 127) \<or> (a = 169 \<and> b = 254) \<or>
    (a = 172 \<and> 16 \<le> b \<and> b \<le> 31) \<or> (a = 192 \<and> b = 168) \<or> (a = 198 \<and> (b = 18 \<or> b = 19)) \<or>
    (a = 192 \<and> b = 0 \<and> c = 0) \<or> (a = 192 \<and> b = 0 \<and> c = 2) \<or> (a = 198 \<and> b = 51 \<and> c = 100) \<or> (a = 203 \<and> b = 0 \<and> c = 113)"
proof -
  have blk: "in_block (ip32 a b c d) (ip32 p q r t, k) \<longleftrightarrow> ip_nat a b c d div 2 ^ (32 - k) = ip_nat p q r t div 2 ^ (32 - k)"
    if "p < 256" "q < 256" "r < 256" "t < 256" for p q r t k
    unfolding ip32_def using assms that by (intro in_block_nat) (auto simp: ip_nat_def)
  have "list_ex (in_block (ip32 a b c d)) special_blocks \<longleftrightarrow>
      a = 0 \<or> a = 10 \<or> a = 127 \<or> a div 32 = 7 \<or> a * 4 + b div 64 = 401 \<or> a * 256 + b = 43518 \<or> a * 16 + b div 16 = 2753 \<or>
      a * 256 + b = 49320 \<or> a * 128 + b div 2 = 25353 \<or> (a * 256 + b) * 256 + c = 12582912 \<or>
      (a * 256 + b) * 256 + c = 12582914 \<or> (a * 256 + b) * 256 + c = 12989284 \<or> (a * 256 + b) * 256 + c = 13303921"
    unfolding special_blocks_def by (simp add: blk ip_digits [OF assms(2-4)] ip_digits)
  also have "\<dots> \<longleftrightarrow> a = 0 \<or> a = 10 \<or> a = 127 \<or> 224 \<le> a \<or> (a = 100 \<and> 64 \<le> b \<and> b \<le> 127) \<or> (a = 169 \<and> b = 254) \<or>
    (a = 172 \<and> 16 \<le> b \<and> b \<le> 31) \<or> (a = 192 \<and> b = 168) \<or> (a = 198 \<and> (b = 18 \<or> b = 19)) \<or>
    (a = 192 \<and> b = 0 \<and> c = 0) \<or> (a = 192 \<and> b = 0 \<and> c = 2) \<or> (a = 198 \<and> b = 51 \<and> c = 100) \<or> (a = 203 \<and> b = 0 \<and> c = 113)"
  proof -
    have "b div 64 < 4" "b div 16 < 16" "b div 2 < 128" using assms(2) by auto
    then have "a * 4 + b div 64 = 401 \<longleftrightarrow> a = 100 \<and> b div 64 = 1" "a * 16 + b div 16 = 2753 \<longleftrightarrow> a = 172 \<and> b div 16 = 1"
      "a * 128 + b div 2 = 25353 \<longleftrightarrow> a = 198 \<and> b div 2 = 9"
      by (simp_all add: base_digits)
    moreover have "b div 64 = 1 \<longleftrightarrow> 64 \<le> b \<and> b \<le> 127" "b div 16 = 1 \<longleftrightarrow> 16 \<le> b \<and> b \<le> 31" "b div 2 = 9 \<longleftrightarrow> b = 18 \<or> b = 19"
      by (auto simp: div_digit)
    moreover have "a div 32 = 7 \<longleftrightarrow> 224 \<le> a" using assms(1) by (auto simp: div_digit)
    moreover have "a * 256 + b = k \<longleftrightarrow> a = k div 256 \<and> b = k mod 256"
      "(a * 256 + b) * 256 + c = k \<longleftrightarrow> a = k div 256 div 256 \<and> b = k div 256 mod 256 \<and> c = k mod 256" for k
      unfolding base_digits [OF assms(3)] base_digits [OF assms(2)] by simp_all
    ultimately show ?thesis by simp
  qed
  finally show ?thesis .
qed

text \<open>
  The octet tests of \<open>isPublicIpv4\<close> agree with the address registry: a text is accepted exactly when it is the
  canonical dotted form of a 32-bit address that lies in none of the thirteen special-purpose blocks.
\<close>

theorem isPublicIpv4_blocks:
  "isPublicIpv4 s \<longleftrightarrow> (\<exists>a b c d. a < 256 \<and> b < 256 \<and> c < 256 \<and> d < 256 \<and> s = dotted_quad a b c d \<and>
     \<not> list_ex (in_block (ip32 a b c d)) special_blocks)"
proof (cases "isValidIpv4 s")
  case True
  then obtain a b c d where q: "a < 256" "b < 256" "c < 256" "d < 256" "s = dotted_quad a b c d" by (auto simp: valid_ipv4_iff)
  have "isPublicIpv4 s \<longleftrightarrow> \<not> list_ex (in_block (ip32 a b c d)) special_blocks"
    using q True by (auto simp: isPublicIpv4_def split_dotted_quad nat_of_digits_show_nat special_iff)
  then show ?thesis using q by (metis dotted_quad_inj)
next
  case False
  then have "\<not> (\<exists>a b c d. a < 256 \<and> b < 256 \<and> c < 256 \<and> d < 256 \<and> s = dotted_quad a b c d)" by (simp only: valid_ipv4_iff not_False_eq_True)
  with False show ?thesis unfolding isPublicIpv4_def by blast
qed

end
