(* ===== verification/Cp_Db.thy ===== *)
theory Cp_Db
  imports Cp_Security
begin

text \<open>
  The database of the V13 control plane and its access layer: \<^verbatim>\<open>src/types.ts\<close> (rows), \<^verbatim>\<open>src/db.ts\<close> (audit trail,
  fixed-window rate limiting, sessions), \<^verbatim>\<open>src/auth.ts\<close> (one-time login links) and the connection part of
  \<^verbatim>\<open>src/cloudflare-api.ts\<close> (lookup, credential validity, erasure). The fixed security headers that every response carries are left out of the responses here.
\<close>

subsection \<open>Rows\<close>

datatype dep_status =
  Queued | Preparing | Awaiting_agent | Agent_ready | Finalizing | Ready | Revoking | Failed_status | Revoked

record deployment =
  d_id :: string
  d_tenant :: string
  d_connection :: string
  d_account :: string
  d_zone :: string
  d_worker_name :: string
  d_worker_hostname :: string
  d_node_hostname :: string
  d_vps :: string
  d_email :: string
  d_reality :: string
  d_ufw :: bool
  d_status :: dep_status
  d_detail :: "string option"
  d_workflow :: "string option"
  d_sub_hash :: string
  d_agent_hash :: "string option"
  d_last_seen :: "num option"
  d_created :: num
  d_updated :: num
  d_role :: string
  d_tunnel_enabled :: bool
  d_tunnel_hostname :: "string option"
  d_dnstt_key :: "string option"
  d_slip_spki :: "string option"
  d_tunnel_mtu :: "num option"
  d_anchor :: "num option"
  d_consented :: "num option"
  d_beacon :: "num option"

record connection =
  c_id :: string
  c_tenant :: string
  c_auth_type :: string
  c_token_enc :: string
  c_refresh_enc :: "string option"
  c_expires :: "num option"
  c_scopes :: "string option"
  c_cf_user :: "string option"
  c_cf_email :: "string option"
  c_account :: "string option"
  c_account_name :: "string option"
  c_zone :: "string option"
  c_zone_name :: "string option"
  c_revoked :: "num option"
  c_created :: num
  c_updated :: num

record tenant =
  t_id :: string
  t_telegram :: string
  t_name :: string
  t_status :: string

record login_link =
  l_hash :: string
  l_tenant :: string
  l_expires :: num
  l_consumed :: "num option"

record cp_session =
  z_hash :: string
  z_tenant :: string
  z_expires :: num
  z_created :: num
  z_seen :: num
  z_ua :: string

record boot_token =
  b_hash :: string
  b_dep :: string
  b_expires :: num
  b_consumed :: "num option"
  b_created :: num

record agent_report =
  ar_dep :: string
  ar_status :: string
  ar_version :: string
  ar_active :: bool
  ar_config :: string
  ar_extras :: report_extras
  ar_at :: num

record cp_event =
  ev_tenant :: "string option"
  ev_actor_type :: string
  ev_actor :: "string option"
  ev_action :: string
  ev_resource :: "string option"
  ev_outcome :: string
  ev_ip :: "string option"
  ev_metadata :: "string option"
  ev_at :: num

record sleeper_command =
  sc_id :: string
  sc_dep :: string
  sc_command :: string
  sc_queued :: num
  sc_consumed :: "num option"

record cp_db =
  cp_tenants :: "tenant list"
  cp_links :: "login_link list"
  cp_sessions :: "cp_session list"
  cp_rates :: "(string \<times> num \<times> nat) list"
  cp_conns :: "connection list"
  cp_deps :: "deployment list"
  cp_secrets :: "(string \<times> string \<times> nat) list"
  cp_boot :: "boot_token list"
  cp_reports :: "agent_report list"
  cp_events :: "cp_event list"
  cp_commands :: "sleeper_command list"

text \<open>
  What one call gets from outside: services, clock, random values and the variables of \<open>Env\<close> (\<open>cr_base\<close> is the origin of
  \<open>PUBLIC_BASE_URL\<close>), and \<open>Date.parse\<close>; then the answers of the Cloudflare API, and whether the workflow engine takes a new instance and Telegram
  a message.
\<close>

record api_call =
  ac_token :: string
  ac_method :: string
  ac_path :: string
  ac_body :: string

record api_reply =
  ay_ok :: bool
  ay_status :: nat
  ay_json :: "jval option"

record cp_runtime =
  cr_P :: cp_platform
  cr_now :: num
  cr_uuid :: string
  cr_random :: "byte list"
  cr_random2 :: "byte list"
  cr_envelope :: envelope_random
  cr_key :: string
  cr_base :: string
  cr_session_ttl :: string
  cr_boot_ttl :: string
  cr_token_ttl :: "string option"
  cr_version :: string
  cr_admins :: string
  cr_date_parse :: "string \<Rightarrow> num option"
  cr_fetch :: "api_call \<Rightarrow> api_reply res"
  cr_workflow :: "unit res"
  cr_telegram :: "unit res"

record principal =
  pr_tenant :: string
  pr_telegram :: string
  pr_name :: string
  pr_admin :: bool
  pr_session :: string

subsection \<open>db.ts\<close>

definition cp_audit ::
  "cp_runtime \<Rightarrow> string option \<Rightarrow> string \<Rightarrow> string option \<Rightarrow> string \<Rightarrow> string option \<Rightarrow> string \<Rightarrow> request option \<Rightarrow> jval \<Rightarrow>
     cp_db \<Rightarrow> cp_db" where
  "cp_audit rtm tenant actorType actor action resource outcome r metadata d =
     (let ip = (case r of None \<Rightarrow> None | Some q \<Rightarrow> header_of q ''cf-connecting-ip'');
          ipHash = (case ip of None \<Rightarrow> None | Some v \<Rightarrow>
             if v = [] then None else Some (cp_sha256 (cr_P rtm) (iso_day (cr_now rtm) @ ''|'' @ v)))
      in d\<lparr>cp_events := cp_events d @
        [\<lparr>ev_tenant = tenant, ev_actor_type = actorType, ev_actor = actor, ev_action = action, ev_resource = resource,
          ev_outcome = outcome, ev_ip = ipHash, ev_metadata = (if truthy metadata then Some (json_stringify metadata) else None),
          ev_at = cr_now rtm\<rparr>]\<rparr>)"

definition rate_window :: "num \<Rightarrow> nat \<Rightarrow> num" where
  "rate_window now windowSeconds = (let s = \<lfloor>now / 1000\<rfloor> in of_int (s - s mod int windowSeconds))"

text \<open>The upsert: hits of the current window are counted, a new window starts at one.\<close>

definition rate_hit :: "string \<Rightarrow> num \<Rightarrow> (string \<times> num \<times> nat) list \<Rightarrow> (string \<times> num \<times> nat) list" where
  "rate_hit key win rates =
     (case map_of rates key of
        None \<Rightarrow> upsert key (win, 1) rates
      | Some (started, hits) \<Rightarrow> upsert key (if started = win then (started, Suc hits) else (win, 1)) rates)"

definition rateLimit :: "cp_runtime \<Rightarrow> string \<Rightarrow> nat \<Rightarrow> nat \<Rightarrow> (cp_db, bool) act" where
  "rateLimit rtm key limit windowSeconds d =
     (let win = rate_window (cr_now rtm) windowSeconds;
          d' = d\<lparr>cp_rates := rate_hit key win (cp_rates d)\<rparr>
      in (Inr (case map_of (cp_rates d') key of None \<Rightarrow> False | Some (started, hits) \<Rightarrow> started = win \<and> hits \<le> limit), d'))"

text \<open>\<open>/(?:^|;\s*)v13_session=([^;]+)/\<close>: the first part of the header that has the name and a value.\<close>

definition session_value :: "string \<Rightarrow> string option" where
  "session_value cookie =
     (let parts = split_on CHR '';'' cookie;
          hits = filter (\<lambda>p. starts_with ''v13_session='' p \<and> drop 12 p \<noteq> []) (hd parts # map (dropWhile is_ws) (tl parts))
      in case hits of [] \<Rightarrow> None | p # _ \<Rightarrow> Some (drop 12 p))"

definition admin_ids :: "string \<Rightarrow> string list" where
  "admin_ids s = filter (\<lambda>v. v \<noteq> []) (map trim (split_on CHR '','' s))"

definition requireSession :: "cp_runtime \<Rightarrow> request \<Rightarrow> (cp_db, principal option) act" where
  "requireSession rtm r d =
     (case session_value (case header_of r ''cookie'' of None \<Rightarrow> [] | Some c \<Rightarrow> c) of
        None \<Rightarrow> (Inr None, d)
      | Some v \<Rightarrow>
          (case p_decodeURI (cr_P rtm) v of
             None \<Rightarrow> (Inl (JsError ''URIError''), d)
           | Some raw \<Rightarrow>
               if length raw < 32 \<or> 128 < length raw then (Inr None, d)
               else let h = cp_sha256 (cr_P rtm) raw in
                 (case find (\<lambda>z. z_hash z = h) (cp_sessions d) of
                    None \<Rightarrow> (Inr None, d)
                  | Some z \<Rightarrow>
                      (case find (\<lambda>t. t_id t = z_tenant z) (cp_tenants d) of
                         None \<Rightarrow> (Inr None, d)
                       | Some t \<Rightarrow>
                           if t_status t \<noteq> ''active'' \<or> z_expires z \<le> cr_now rtm then (Inr None, d)
                           else (Inr (Some \<lparr>pr_tenant = z_tenant z, pr_telegram = t_telegram t, pr_name = t_name t,
                                            pr_admin = t_telegram t \<in> set (admin_ids (cr_admins rtm)), pr_session = z_hash z\<rparr>),
                                 d\<lparr>cp_sessions := map (\<lambda>y. if z_hash y = h then y\<lparr>z_seen := cr_now rtm\<rparr> else y) (cp_sessions d)\<rparr>)))))"

subsection \<open>auth.ts\<close>

definition invalid_link :: exn where
  "invalid_link = http_error 400 ''invalid_login_link''"

text \<open>\<open>link.consumed_at\<close> is an instant text and so truthy when present.\<close>

definition loginFromOneTimeLink :: "cp_runtime \<Rightarrow> request \<Rightarrow> (cp_db, response) act" where
  "loginFromOneTimeLink rtm r d =
     (let token = (case query_of r ''t'' of None \<Rightarrow> [] | Some t \<Rightarrow> t); h = cp_sha256 (cr_P rtm) token in
      if length token < 32 \<or> 128 < length token then (Inl invalid_link, d)
      else case find (\<lambda>l. l_hash l = h) (cp_links d) of
        None \<Rightarrow> (Inl invalid_link, d)
      | Some link \<Rightarrow>
          if l_consumed link \<noteq> None \<or> l_expires link \<le> cr_now rtm then (Inl invalid_link, d)
          else
            let d1 = d\<lparr>cp_links := map (\<lambda>l. if l_hash l = h \<and> l_consumed l = None then l\<lparr>l_consumed := Some (cr_now rtm)\<rparr> else l) (cp_links d)\<rparr>;
                changes = length (filter (\<lambda>l. l_hash l = h \<and> l_consumed l = None) (cp_links d)) in
            if changes \<noteq> 1 then (Inl (http_error 409 ''login_link_used''), d1)
            else
              let raw = randomToken (cr_random rtm); zh = cp_sha256 (cr_P rtm) raw;
                  ttl = parsePositiveInt (cr_session_ttl rtm) 2592000 7776000;
                  ua = cp_sha256 (cr_P rtm) (case header_of r ''user-agent'' of None \<Rightarrow> ''unknown'' | Some v \<Rightarrow> v) in
              if zh \<in> z_hash ` set (cp_sessions d1) then (Inl (JsError ''UNIQUE constraint failed''), d1)
              else
                let d2 = d1\<lparr>cp_sessions := cp_sessions d1 @ [\<lparr>z_hash = zh, z_tenant = l_tenant link,
                       z_expires = addSecondsIso (cr_now rtm) ttl, z_created = cr_now rtm, z_seen = cr_now rtm, z_ua = ua\<rparr>]\<rparr>;
                    d3 = cp_audit rtm (Some (l_tenant link)) ''user'' (Some (l_tenant link)) ''session.create'' None ''success'' (Some r) JUndef d2
                in (Inr \<lparr>rs_status = 303, rs_headers = [(''location'', ''/app''), (''set-cookie'', cp_sessionCookie raw ttl)], rs_body = Empty\<rparr>, d3))"

definition cp_logout :: "cp_runtime \<Rightarrow> request \<Rightarrow> principal \<Rightarrow> (cp_db, response) act" where
  "cp_logout rtm r p d =
     (Inr \<lparr>rs_status = 303, rs_headers = [(''location'', ''/''), (''set-cookie'', cp_clearSessionCookie)], rs_body = Empty\<rparr>,
      cp_audit rtm (Some (pr_tenant p)) ''user'' (Some (pr_telegram p)) ''session.revoke'' None ''success'' (Some r) JUndef
        (d\<lparr>cp_sessions := filter (\<lambda>z. z_hash z \<noteq> pr_session p) (cp_sessions d)\<rparr>))"

definition authenticated :: "cp_runtime \<Rightarrow> request \<Rightarrow> (cp_db, principal) act" where
  "authenticated rtm r =
     act_bind (requireSession rtm r) (\<lambda>p. case p of None \<Rightarrow> act_throw (http_error 401 ''authentication_required'') | Some q \<Rightarrow> act_ret q)"

definition loginRateLimit :: "cp_runtime \<Rightarrow> request \<Rightarrow> (cp_db, unit) act" where
  "loginRateLimit rtm r =
     (let ip = (case header_of r ''cf-connecting-ip'' of None \<Rightarrow> ''unknown'' | Some v \<Rightarrow> v) in
      act_bind (rateLimit rtm (''login:'' @ cp_sha256 (cr_P rtm) ip) 20 60) (\<lambda>allowed.
        act_when (\<not> allowed) (http_error 429 ''rate_limited'')))"

subsection \<open>cloudflare-api.ts: connections\<close>

definition getConnection :: "string \<Rightarrow> string option \<Rightarrow> cp_db \<Rightarrow> connection res" where
  "getConnection cid tenant d =
     (case find (\<lambda>c. c_id c = cid \<and> (case tenant of None \<Rightarrow> True | Some t \<Rightarrow> t = [] \<or> c_tenant c = t) \<and> c_revoked c = None) (cp_conns d) of
        None \<Rightarrow> Inl (http_error 409 ''cloudflare_reconnect_required'') | Some c \<Rightarrow> Inr c)"

definition getValidCloudflareAuth :: "cp_runtime \<Rightarrow> connection \<Rightarrow> string res" where
  "getValidCloudflareAuth rtm c =
     (if c_revoked c \<noteq> None then Inl (JsError ''Cloudflare connection is revoked'')
      else if c_auth_type c \<noteq> ''api_token'' then Inl (JsError ''OAuth connections are not supported'')
      else if (case c_expires c of None \<Rightarrow> False | Some t \<Rightarrow> t \<le> cr_now rtm) then Inl (JsError ''Temporary Cloudflare API token expired'')
      else res_bind (decryptJson (cr_P rtm) (c_token_enc c) (cr_key rtm) (''cloudflare:'' @ c_id c @ '':api-token''))
             (\<lambda>v. Inr (to_str v)))"

definition scrub_row :: "string \<Rightarrow> num \<Rightarrow> connection \<Rightarrow> connection" where
  "scrub_row mark now c = c\<lparr>c_token_enc := mark, c_refresh_enc := None, c_expires := None, c_revoked := Some now, c_updated := now\<rparr>"

definition scrubConnection :: "num \<Rightarrow> string \<Rightarrow> cp_db \<Rightarrow> cp_db" where
  "scrubConnection now cid d =
     d\<lparr>cp_conns := map (\<lambda>c. if c_id c = cid \<and> c_revoked c = None then scrub_row ''erased'' now c else c) (cp_conns d)\<rparr>"

definition revokeConnectionGrant :: "num \<Rightarrow> connection \<Rightarrow> cp_db \<Rightarrow> cp_db" where
  "revokeConnectionGrant now c d = (if c_revoked c \<noteq> None then d else scrubConnection now (c_id c) d)"

definition working :: "dep_status \<Rightarrow> bool" where
  "working s \<longleftrightarrow> s \<in> {Queued, Preparing, Awaiting_agent, Agent_ready, Finalizing, Revoking}"

definition disconnectConnectionIfIdle :: "num \<Rightarrow> string \<Rightarrow> string \<Rightarrow> cp_db \<Rightarrow> bool \<times> cp_db" where
  "disconnectConnectionIfIdle now cid excluding d =
     (if list_ex (\<lambda>x. d_connection x = cid \<and> d_id x \<noteq> excluding \<and> working (d_status x)) (cp_deps d) then (False, d)
      else case find (\<lambda>c. c_id c = cid \<and> c_revoked c = None) (cp_conns d) of
        None \<Rightarrow> (False, d)
      | Some c \<Rightarrow> (True, revokeConnectionGrant now c d))"

definition eraseExpiredApiTokens :: "num \<Rightarrow> cp_db \<Rightarrow> nat \<times> cp_db" where
  "eraseExpiredApiTokens now d =
     (let due = (\<lambda>c. c_auth_type c = ''api_token'' \<and> c_revoked c = None \<and> (case c_expires c of None \<Rightarrow> False | Some t \<Rightarrow> t \<le> now))
      in (length (filter due (cp_conns d)), d\<lparr>cp_conns := map (\<lambda>c. if due c then scrub_row ''expired'' now c else c) (cp_conns d)\<rparr>))"

subsection \<open>Rate limiting\<close>

fun rate_run :: "cp_runtime list \<Rightarrow> string \<Rightarrow> nat \<Rightarrow> nat \<Rightarrow> cp_db \<Rightarrow> bool list" where
  "rate_run [] key limit secs d = []"
| "rate_run (t # ts) key limit secs d =
     (case rateLimit t key limit secs d of (r, d') \<Rightarrow> (r = Inr True) # rate_run ts key limit secs d')"

lemma rateLimit_counts:
  assumes "rate_window (cr_now t) secs = win"
  shows "rateLimit t key limit secs d =
    (let n = (case map_of (cp_rates d) key of Some (s, h) \<Rightarrow> if s = win then Suc h else 1 | None \<Rightarrow> 1);
         d' = d\<lparr>cp_rates := upsert key (win, n) (cp_rates d)\<rparr>
     in (Inr (n \<le> limit), d'))"
  using assms by (auto simp: rateLimit_def rate_hit_def Let_def map_of_upsert split: option.splits prod.splits)

lemma rate_run_from:
  assumes "list_all (\<lambda>t. rate_window (cr_now t) secs = win) ts" and "map_of (cp_rates d) key = Some (win, n)"
  shows "rate_run ts key limit secs d = map (\<lambda>i. n + i < limit) [0..<length ts]"
  using assms
proof (induction ts arbitrary: d n)
  case (Cons t ts)
  let ?d = "d\<lparr>cp_rates := upsert key (win, Suc n) (cp_rates d)\<rparr>"
  have "rateLimit t key limit secs d = (Inr (Suc n \<le> limit), ?d)"
    using Cons.prems by (simp add: rateLimit_counts [of t secs win])
  moreover have "rate_run ts key limit secs ?d = map (\<lambda>i. Suc n + i < limit) [0..<length ts]"
    using Cons by (simp add: map_of_upsert)
  ultimately show ?case by (simp add: upt_conv_Cons map_Suc_upt [symmetric] del: upt_Suc) (simp add: Suc_le_eq)
qed simp

text \<open>
  C24. The fixed-window limiter of the control plane admits exactly the first \<open>limit\<close> calls of a window: for any number of
  calls whose times fall in one window that the bucket has not seen before, the i-th call is allowed if and only if fewer
  than \<open>limit\<close> calls came before it.
\<close>

theorem rateLimit_exact:
  assumes "list_all (\<lambda>t. rate_window (cr_now t) secs = win) ts"
    and "\<forall>h. map_of (cp_rates d) key \<noteq> Some (win, h)"
  shows "rate_run ts key limit secs d = map (\<lambda>i. i < limit) [0..<length ts]"
proof (cases ts)
  case (Cons t us)
  let ?d = "d\<lparr>cp_rates := upsert key (win, 1) (cp_rates d)\<rparr>"
  have "rateLimit t key limit secs d = (Inr (1 \<le> limit), ?d)"
    using assms Cons by (auto simp: rateLimit_counts [of t secs win] Let_def split: option.splits prod.splits)
  moreover have "rate_run us key limit secs ?d = map (\<lambda>i. 1 + i < limit) [0..<length us]"
    using assms(1) Cons by (intro rate_run_from) (auto simp: map_of_upsert)
  ultimately show ?thesis using Cons by (simp add: upt_conv_Cons map_Suc_upt [symmetric] del: upt_Suc) (simp add: Suc_le_eq)
qed simp

definition empty_cp :: cp_db where
  "empty_cp = \<lparr>cp_tenants = [], cp_links = [], cp_sessions = [], cp_rates = [], cp_conns = [], cp_deps = [], cp_secrets = [],
     cp_boot = [], cp_reports = [], cp_events = [], cp_commands = []\<rparr>"

definition demo_cr :: cp_runtime where
  "demo_cr = \<lparr>cr_P = demo_cp, cr_now = 5000, cr_uuid = ''7d444840-9dc0-11d1-b245-5ffdce74fad2'', cr_random = replicate 32 1,
     cr_random2 = replicate 32 2, cr_envelope = \<lparr>er_key = [5], er_wrap = [1], er_data = [2]\<rparr>,
     cr_key = bytesToBase64Url (replicate 32 0), cr_base = ''https://v13.io'', cr_session_ttl = ''3600'', cr_boot_ttl = ''3600'',
     cr_token_ttl = None, cr_version = ''1.14.0'', cr_admins = [], cr_date_parse = (\<lambda>_. None),
     cr_fetch = (\<lambda>_. Inr \<lparr>ay_ok = True, ay_status = 200, ay_json = Some (JObj [(''success'', JBool True), (''result'', JNull)])\<rparr>),
     cr_workflow = Inr (), cr_telegram = Inr ()\<rparr>"

theorem rateLimit_exact_witness:
  "rate_run (replicate 3 demo_cr) ''login:x'' 2 60 empty_cp = [True, True, False]"
proof -
  have "rate_run (replicate 3 demo_cr) ''login:x'' 2 60 empty_cp = map (\<lambda>i. i < 2) [0..<length (replicate 3 demo_cr)]"
    by (rule rateLimit_exact [of 60 "rate_window 5000 60"]) (simp_all add: empty_cp_def demo_cr_def numeral_3_eq_3)
  then show ?thesis by (simp add: upt_rec)
qed

subsection \<open>Login links\<close>

text \<open>What \<open>decodeURIComponent\<close> does to text without escapes.\<close>

definition uri_plain :: "('a platform_scheme) \<Rightarrow> bool" where
  "uri_plain P \<longleftrightarrow> (\<forall>t. list_all token_char t \<longrightarrow> p_decodeURI P t = Some t)"

lemma randomToken_chars: "list_all token_char (randomToken bs)"
  using b64u_encode_no_sep [of _ bs]
  by (auto simp: randomToken_def bytesToBase64Url_def b64u_encode_def list_all_iff token_char_def)

lemma length_randomToken: "length (randomToken bs) = length (sextets bs)"
  using b64u_encode_sextets [of bs] by (simp add: randomToken_def bytesToBase64Url_def b64u_encode_def)

lemma length_sextets: "length (sextets bs) = (4 * length bs + 2) div 3"
  by (induction bs rule: sextets.induct) auto

lemma session_value_cookie: "list_all token_char t \<Longrightarrow> t \<noteq> [] \<Longrightarrow> session_value (''v13_session='' @ t) = Some t"
proof -
  assume t: "list_all token_char t" "t \<noteq> []"
  have "CHR '';'' \<notin> set (''v13_session='' @ t)"
    using t by (auto simp: list_all_iff token_char_def is_alnum_def is_digit_def is_lower_def is_upper_def)
  then have "split_on CHR '';'' (''v13_session='' @ t) = [''v13_session='' @ t]" by (rule split_on_no_sep)
  with t show ?thesis by (simp add: session_value_def)
qed

lemma find_snoc: "(\<And>y. y \<in> set xs \<Longrightarrow> \<not> q y) \<Longrightarrow> q z \<Longrightarrow> find q (xs @ [z]) = Some z"
  by (induction xs) auto

lemma sum_changes: "distinct (map l_hash ls) \<Longrightarrow> find (\<lambda>l. l_hash l = h) ls = Some k \<Longrightarrow> l_consumed k = None \<Longrightarrow>
  length (filter (\<lambda>l. l_hash l = h \<and> l_consumed l = None) ls) = 1"
proof (induction ls)
  case (Cons l ls)
  have "filter (\<lambda>l. l_hash l = h \<and> l_consumed l = None) ls = []" if "l_hash l = h"
    using Cons.prems(1) that by (auto simp: filter_empty_conv image_iff)
  with Cons show ?case by (auto split: if_splits)
qed simp

text \<open>
  C25. A login link works once. Given distinct link hashes, a token whose link is unused and not expired, and a fresh
  session hash, opening the link answers 303 with a session cookie; a request that carries this cookie is the link's tenant
  (if the tenant is active) until the session ends; and the same link is refused with 400 ever after.
\<close>

theorem login_link_once:
  assumes "query_of r ''t'' = Some token" and "32 \<le> length token" and "length token \<le> 128"
    and "distinct (map l_hash (cp_links d))" and "find (\<lambda>l. l_hash l = cp_sha256 (cr_P rtm) token) (cp_links d) = Some link"
    and "l_consumed link = None" and "cr_now rtm < l_expires link" and "length (cr_random rtm) = 32" and "uri_plain (cr_P rtm)"
    and "cp_sha256 (cr_P rtm) (randomToken (cr_random rtm)) \<notin> z_hash ` set (cp_sessions d)"
    and "find (\<lambda>t. t_id t = l_tenant link) (cp_tenants d) = Some ten" and "t_status ten = ''active''"
  shows "\<exists>resp d'. loginFromOneTimeLink rtm r d = (Inr resp, d') \<and> rs_status resp = 303 \<and>
    (\<forall>rtm2 r2. cr_P rtm2 = cr_P rtm \<and>
       cr_now rtm2 < cr_now rtm + parsePositiveInt (cr_session_ttl rtm) 2592000 7776000 * 1000 \<and>
       header_of r2 ''cookie'' = Some (''v13_session='' @ randomToken (cr_random rtm)) \<longrightarrow>
       (\<exists>p. fst (requireSession rtm2 r2 d') = Inr (Some p) \<and> pr_tenant p = l_tenant link)) \<and>
    (\<forall>rtm2 r2. cr_P rtm2 = cr_P rtm \<and> query_of r2 ''t'' = Some token \<longrightarrow> loginFromOneTimeLink rtm2 r2 d' = (Inl invalid_link, d'))"
proof -
  let ?h = "cp_sha256 (cr_P rtm) token" and ?raw = "randomToken (cr_random rtm)"
  let ?ttl = "parsePositiveInt (cr_session_ttl rtm) 2592000 7776000"
  let ?use = "\<lambda>l. if l_hash l = ?h \<and> l_consumed l = None then l\<lparr>l_consumed := Some (cr_now rtm)\<rparr> else l"
  define z where "z = \<lparr>z_hash = cp_sha256 (cr_P rtm) ?raw, z_tenant = l_tenant link, z_expires = addSecondsIso (cr_now rtm) ?ttl,
      z_created = cr_now rtm, z_seen = cr_now rtm,
      z_ua = cp_sha256 (cr_P rtm) (case header_of r ''user-agent'' of None \<Rightarrow> ''unknown'' | Some v \<Rightarrow> v)\<rparr>"
  define d' where "d' = cp_audit rtm (Some (l_tenant link)) ''user'' (Some (l_tenant link)) ''session.create'' None ''success'' (Some r) JUndef
      (d\<lparr>cp_links := map ?use (cp_links d), cp_sessions := cp_sessions d @ [z]\<rparr>)"
  have ch: "length (filter (\<lambda>l. l_hash l = ?h \<and> l_consumed l = None) (cp_links d)) = 1" using assms by (intro sum_changes) auto
  have login: "loginFromOneTimeLink rtm r d = (Inr \<lparr>rs_status = 303, rs_headers = [(''location'', ''/app''),
      (''set-cookie'', cp_sessionCookie ?raw ?ttl)], rs_body = Empty\<rparr>, d')"
    using assms ch by (simp add: loginFromOneTimeLink_def Let_def d'_def z_def)
  have frame: "cp_sessions d' = cp_sessions d @ [z]" "cp_tenants d' = cp_tenants d" "cp_links d' = map ?use (cp_links d)"
    by (simp_all add: d'_def cp_audit_def Let_def)
  have raw: "list_all token_char ?raw" "length ?raw = 43"
    using randomToken_chars assms(8) by (simp_all add: length_randomToken length_sextets)
  have fz: "find (\<lambda>y. z_hash y = cp_sha256 (cr_P rtm) ?raw) (cp_sessions d @ [z]) = Some z"
    using assms(10) by (intro find_snoc) (auto simp: z_def image_iff)
  have "\<exists>p. fst (requireSession rtm2 r2 d') = Inr (Some p) \<and> pr_tenant p = l_tenant link"
    if "cr_P rtm2 = cr_P rtm" "cr_now rtm2 < cr_now rtm + ?ttl * 1000" "header_of r2 ''cookie'' = Some (''v13_session='' @ ?raw)" for rtm2 r2
  proof -
    have sv: "session_value (''v13_session='' @ ?raw) = Some ?raw" using raw by (intro session_value_cookie) auto
    have "p_decodeURI (cr_P rtm) ?raw = Some ?raw" using assms(9) raw by (simp add: uri_plain_def)
    then show ?thesis
      using that sv raw fz assms(11,12) by (simp add: requireSession_def frame Let_def z_def addSecondsIso_def)
  qed
  moreover have "loginFromOneTimeLink rtm2 r2 d' = (Inl invalid_link, d')"
    if "cr_P rtm2 = cr_P rtm" "query_of r2 ''t'' = Some token" for rtm2 r2
  proof -
    have "find (\<lambda>l. l_hash l = ?h) (map ?use ls) = map_option ?use (find (\<lambda>l. l_hash l = ?h) ls)" for ls
      by (induction ls) auto
    then have "find (\<lambda>l. l_hash l = ?h) (cp_links d') = Some (link\<lparr>l_consumed := Some (cr_now rtm)\<rparr>)"
      using assms(5,6) by (auto simp: frame(3) find_Some_iff)
    then show ?thesis using that assms(2,3) by (simp add: loginFromOneTimeLink_def Let_def)
  qed
  ultimately show ?thesis using login by fastforce
qed

definition demo_link :: login_link where
  "demo_link = \<lparr>l_hash = cp_sha256 demo_cp (replicate 40 CHR ''x''), l_tenant = ''t1'', l_expires = 9000, l_consumed = None\<rparr>"

definition demo_cp_db :: cp_db where
  "demo_cp_db = empty_cp\<lparr>cp_tenants := [\<lparr>t_id = ''t1'', t_telegram = ''42'', t_name = ''Ann'', t_status = ''active''\<rparr>], cp_links := [demo_link]\<rparr>"

definition demo_cp_request :: "(string \<times> string) list \<Rightarrow> request" where
  "demo_cp_request query = \<lparr>rq_method = ''GET'', rq_hostname = ''v13.io'', rq_path = ''/login'', rq_query = query, rq_headers = [], rq_body = []\<rparr>"

theorem login_link_once_witness:
  "\<exists>resp d'. loginFromOneTimeLink demo_cr (demo_cp_request [(''t'', replicate 40 CHR ''x'')]) demo_cp_db = (Inr resp, d') \<and>
     rs_status resp = 303 \<and>
     loginFromOneTimeLink demo_cr (demo_cp_request [(''t'', replicate 40 CHR ''x'')]) d' = (Inl invalid_link, d')"
proof -
  let ?r = "demo_cp_request [(''t'', replicate 40 CHR ''x'')]"
  have q: "query_of ?r ''t'' = Some (replicate 40 CHR ''x'')" by (simp add: demo_cp_request_def query_of_def)
  have rt: "cr_P demo_cr = demo_cp" "cr_now demo_cr = 5000" "cr_random demo_cr = replicate 32 1" by (simp_all add: demo_cr_def)
  have u: "uri_plain demo_cp" by (simp add: uri_plain_def demo_cp_def platform.defs demo_platform_def)
  have f: "find (\<lambda>l. l_hash l = cp_sha256 demo_cp (replicate 40 CHR ''x'')) (cp_links demo_cp_db) = Some demo_link"
    by (simp add: demo_cp_db_def demo_link_def)
  from login_link_once [OF q _ _ _ f [folded rt(1)], of "\<lparr>t_id = ''t1'', t_telegram = ''42'', t_name = ''Ann'', t_status = ''active''\<rparr>"] u q
  show ?thesis by (fastforce simp: rt demo_cp_db_def empty_cp_def demo_link_def)
qed

end
