(* ===== verification/Cp_Profiles.thy ===== *)
theory Cp_Profiles
  imports Cp_Db
begin

text \<open>
  \<^verbatim>\<open>src/profiles.ts\<close>: the client profiles a deployment publishes - share URIs, sing-box documents with their DNS and
  routing policy, and the Clash document. Secrets are the JSON bundle of a deployment. The Persian names of the profile
  variants are represented by the tags \<open>sniff-off\<close> and \<open>fakedns-on\<close>.
\<close>

definition CF_EDGE_PIN_IPV4 :: string where
  "CF_EDGE_PIN_IPV4 = ''104.16.0.1''"

definition NATIONAL_RESOLVER_IPV4 :: string where
  "NATIONAL_RESOLVER_IPV4 = ''178.22.122.100''"

definition buildPendingBundle :: "num \<Rightarrow> deployment \<Rightarrow> jval" where
  "buildPendingBundle now d = JObj
     [(''schemaVersion'', JInt 1), (''status'', JStr ''pending''), (''label'', JStr (d_worker_name d)), (''uris'', JArr []),
      (''profiles'', JObj [(''vless'', JNull), (''hysteria2'', JNull)]), (''profileVariants'', JObj []), (''clashYaml'', JNull),
      (''generatedAt'', JStr (iso_string now)), (''singBoxVersion'', JStr ''1.14.0'')]"

definition doh_url :: "deployment \<Rightarrow> string \<Rightarrow> string" where
  "doh_url d token = ''https://'' @ d_worker_hostname d @ ''/dns-query?k='' @ token"

definition dns_servers :: "deployment \<Rightarrow> string \<Rightarrow> jval list" where
  "dns_servers d token =
     [JObj [(''tag'', JStr ''doh-own''), (''address'', JStr (doh_url d token)), (''address_resolver'', JStr ''clean-pin''), (''detour'', JStr ''proxy'')],
      JObj [(''tag'', JStr ''clean-pin''), (''address'', JStr ''tcp://1.1.1.1''), (''detour'', JStr ''direct'')],
      JObj [(''tag'', JStr ''ir-direct''), (''address'', JStr (''tcp://'' @ NATIONAL_RESOLVER_IPV4)), (''detour'', JStr ''direct'')]]"

definition dns_rules :: "deployment \<Rightarrow> jval list" where
  "dns_rules d =
     [JObj [(''rule_set'', JStr ''geoip-ir''), (''server'', JStr ''ir-direct'')],
      JObj [(''domain_suffix'', JStr ''.ir''), (''server'', JStr ''ir-direct'')],
      JObj [(''domain'', JStr (d_worker_hostname d)), (''server'', JStr ''clean-pin'')],
      JObj [(''outbound'', JStr ''any''), (''server'', JStr ''ir-direct'')]]"

text \<open>The DNS section, with the two entries that fakedns adds (one at the end, one at the front).\<close>

definition dnsSection :: "deployment \<Rightarrow> string \<Rightarrow> bool \<Rightarrow> jval" where
  "dnsSection d token fakedns = JObj
     [(''servers'', JArr (dns_servers d token @ (if fakedns then [JObj [(''tag'', JStr ''fakeip''), (''address'', JStr ''fakeip'')]] else []))),
      (''rules'', JArr ((if fakedns then [JObj [(''query_type'', JArr [JStr ''A'', JStr ''AAAA'']), (''server'', JStr ''fakeip'')]] else []) @ dns_rules d)),
      (''final'', JStr ''doh-own'')]"

definition route_rules :: "deployment \<Rightarrow> jval list" where
  "route_rules d =
     [JObj [(''ip_is_private'', JBool True), (''outbound'', JStr ''direct'')],
      JObj [(''rule_set'', JStr ''geoip-ir''), (''outbound'', JStr ''direct'')],
      JObj [(''rule_set'', JStr ''race-direct''), (''outbound'', JStr ''direct'')],
      JObj [(''domain_suffix'', JStr ''.ir''), (''outbound'', JStr ''direct'')],
      JObj [(''domain'', JStr (d_worker_hostname d)), (''action'', JStr ''route''), (''override_address'', JStr CF_EDGE_PIN_IPV4),
            (''override_port'', JInt 443), (''outbound'', JStr ''direct'')]]"

definition remote_rule_set :: "string \<Rightarrow> string \<Rightarrow> jval" where
  "remote_rule_set tag url = JObj [(''tag'', JStr tag), (''type'', JStr ''remote''), (''url'', JStr url), (''download_detour'', JStr ''proxy'')]"

definition routeSection :: "deployment \<Rightarrow> string \<Rightarrow> (string \<times> jval) list" where
  "routeSection d controlOrigin =
     [(''rules'', JArr (route_rules d)),
      (''rule_set'', JArr [remote_rule_set ''geoip-ir'' (controlOrigin @ ''/api/v1/geoip-ir.json''),
                        remote_rule_set ''race-direct'' (controlOrigin @ ''/api/v1/race-direct.json'')]),
      (''final'', JStr ''proxy'')]"

definition baseClientConfig :: "deployment \<Rightarrow> jval \<Rightarrow> string \<Rightarrow> string \<Rightarrow> bool \<Rightarrow> bool \<Rightarrow> jval" where
  "baseClientConfig d outbound token controlOrigin sniff fakedns = JObj
     [(''log'', JObj [(''level'', JStr ''warn''), (''timestamp'', JBool True)]),
      (''inbounds'', JArr [JObj [(''type'', JStr ''mixed''), (''tag'', JStr ''mixed-in''), (''listen'', JStr ''127.0.0.1''), (''listen_port'', JInt 2080)]]),
      (''dns'', dnsSection d token fakedns),
      (''outbounds'', JArr [outbound, JObj [(''type'', JStr ''direct''), (''tag'', JStr ''direct'')]]),
      (''route'', JObj (routeSection d controlOrigin @ [(''sniff'', JBool sniff)]))]"

subsection \<open>The ready bundle\<close>

definition sec :: "jval \<Rightarrow> string \<Rightarrow> string" where
  "sec secrets k = to_str (fld secrets k)"

definition credentials_complete :: "jval \<Rightarrow> bool" where
  "credentials_complete secrets \<longleftrightarrow>
     list_all (\<lambda>k. truthy (fld secrets k))
       [''vlessUuid'', ''realityPublicKey'', ''realityShortId'', ''hysteria2Password'', ''hysteria2CertSha256'', ''hysteria2SpkiSha256'']"

definition vless_port :: "jval \<Rightarrow> jval" where
  "vless_port secrets = js_coalesce (fld secrets ''vlessPort'') (JInt 443)"

definition reality_uri :: "deployment \<Rightarrow> jval \<Rightarrow> string" where
  "reality_uri d secrets =
     ''vless://'' @ sec secrets ''vlessUuid'' @ ''@'' @ d_node_hostname d @ '':'' @ to_str (vless_port secrets) @ ''?'' @
     query_string [(''encryption'', ''none''), (''flow'', ''xtls-rprx-vision''), (''security'', ''reality''), (''sni'', d_reality d),
       (''fp'', ''chrome''), (''pbk'', sec secrets ''realityPublicKey''), (''sid'', sec secrets ''realityShortId''), (''type'', ''tcp'')] @
     ''#'' @ encodeURIComponent (d_worker_name d @ ''-reality'')"

definition hy2_uri :: "deployment \<Rightarrow> jval \<Rightarrow> string" where
  "hy2_uri d secrets =
     ''hysteria2://'' @ encodeURIComponent (sec secrets ''hysteria2Password'') @ ''@'' @ d_node_hostname d @ '':443/?'' @
     query_string [(''sni'', d_node_hostname d), (''insecure'', ''1''), (''pinSHA256'', sec secrets ''hysteria2CertSha256'')] @
     ''#'' @ encodeURIComponent (d_worker_name d @ ''-hy2'')"

definition vless_outbound :: "deployment \<Rightarrow> jval \<Rightarrow> jval" where
  "vless_outbound d secrets = JObj
     [(''type'', JStr ''vless''), (''tag'', JStr ''proxy''), (''server'', JStr (d_node_hostname d)), (''server_port'', vless_port secrets),
      (''uuid'', fld secrets ''vlessUuid''), (''flow'', JStr ''xtls-rprx-vision''), (''network'', JStr ''tcp''),
      (''tls'', JObj [(''enabled'', JBool True), (''server_name'', JStr (d_reality d)),
        (''utls'', JObj [(''enabled'', JBool True), (''fingerprint'', JStr ''chrome'')]),
        (''reality'', JObj [(''enabled'', JBool True), (''public_key'', fld secrets ''realityPublicKey''), (''short_id'', fld secrets ''realityShortId'')])])]"

definition hysteria2_outbound :: "deployment \<Rightarrow> jval \<Rightarrow> jval" where
  "hysteria2_outbound d secrets = JObj
     [(''type'', JStr ''hysteria2''), (''tag'', JStr ''proxy''), (''server'', JStr (d_node_hostname d)), (''server_port'', JInt 443),
      (''password'', fld secrets ''hysteria2Password''),
      (''tls'', JObj [(''enabled'', JBool True), (''server_name'', JStr (d_node_hostname d)), (''insecure'', JBool True),
        (''certificate_public_key_sha256'', JArr [fld secrets ''hysteria2SpkiSha256''])]),
      (''bbr_profile'', JStr ''standard'')]"

definition clash_lines :: "deployment \<Rightarrow> jval \<Rightarrow> string \<Rightarrow> string list" where
  "clash_lines d secrets token =
     (let opt = (\<lambda>k. to_str (js_coalesce (fld secrets k) (JStr []))) in
     [''mixed-port: 2080'', ''allow-lan: false'', ''mode: rule'', ''hosts:'',
      ''  '' @ d_worker_hostname d @ '': '' @ CF_EDGE_PIN_IPV4, ''dns:'', ''  enable: true'', ''  default-nameserver: [1.1.1.1]'',
      ''  nameserver: ['' @ sq (doh_url d token @ ''#PROXY'') @ '']'', ''proxies:'',
      ''  - name: '' @ d_worker_name d @ ''-reality'', ''    type: vless'', ''    server: '' @ d_node_hostname d,
      ''    port: '' @ to_str (vless_port secrets), ''    uuid: '' @ opt ''vlessUuid'', ''    flow: xtls-rprx-vision'', ''    tls: true'',
      ''    servername: '' @ d_reality d, ''    client-fingerprint: chrome'', ''    reality-opts:'',
      ''      public-key: '' @ opt ''realityPublicKey'', ''      short-id: '' @ opt ''realityShortId'',
      ''  - name: '' @ d_worker_name d @ ''-hy2'', ''    type: hysteria2'', ''    server: '' @ d_node_hostname d, ''    port: 443'',
      ''    password: '' @ opt ''hysteria2Password'', ''    sni: '' @ d_node_hostname d, ''    skip-cert-verify: true'',
      ''proxy-groups:'', ''  - name: PROXY'', ''    type: select'', ''    proxies:'',
      ''      - '' @ d_worker_name d @ ''-reality'', ''      - '' @ d_worker_name d @ ''-hy2'', ''rules:'',
      ''  - DOMAIN,'' @ d_worker_hostname d @ '',DIRECT'', ''  - DOMAIN-SUFFIX,ir,DIRECT'', ''  - GEOIP,IR,DIRECT'', ''  - MATCH,PROXY''])"

definition buildClashYaml :: "deployment \<Rightarrow> jval \<Rightarrow> string \<Rightarrow> string" where
  "buildClashYaml d secrets token = join_with [CHR 0x0A] (clash_lines d secrets token) @ [CHR 0x0A]"

definition buildReadyBundle :: "num \<Rightarrow> deployment \<Rightarrow> jval \<Rightarrow> string \<Rightarrow> string \<Rightarrow> jval res" where
  "buildReadyBundle now d secrets token controlOrigin =
     (if \<not> credentials_complete secrets then Inl (JsError ''Agent credentials are incomplete'')
      else
        let conf = (\<lambda>ob. baseClientConfig d ob token controlOrigin); v = vless_outbound d secrets; h = hysteria2_outbound d secrets in
        Inr (JObj
          [(''schemaVersion'', JInt 1), (''status'', JStr ''ready''), (''label'', JStr (d_worker_name d)),
           (''uris'', JArr [JStr (reality_uri d secrets), JStr (hy2_uri d secrets)]),
           (''profiles'', JObj [(''vless'', conf v True False), (''hysteria2'', conf h True False)]),
           (''profileVariants'', JObj
             [(''vless sniff-off'', conf v False False), (''vless fakedns-on'', conf v True True),
              (''hysteria2 sniff-off'', conf h False False), (''hysteria2 fakedns-on'', conf h True True)]),
           (''clashYaml'', JStr (buildClashYaml d secrets token)), (''generatedAt'', JStr (iso_string now)),
           (''singBoxVersion'', JStr ''1.14.0'')]))"

subsection \<open>What a profile promises\<close>

text \<open>The server entries a DNS rule may name, and the outbounds a routing rule may name.\<close>

definition str_fields :: "string \<Rightarrow> jval list \<Rightarrow> string list" where
  "str_fields k vs = concat (map (\<lambda>v. case fld v k of JStr s \<Rightarrow> [s] | _ \<Rightarrow> []) vs)"

definition closed_config :: "jval \<Rightarrow> bool" where
  "closed_config c \<longleftrightarrow>
     (let dns = fld c ''dns''; route = fld c ''route'';
          servers = (case fld dns ''servers'' of JArr xs \<Rightarrow> xs | _ \<Rightarrow> []); dr = (case fld dns ''rules'' of JArr xs \<Rightarrow> xs | _ \<Rightarrow> []);
          outs = (case fld c ''outbounds'' of JArr xs \<Rightarrow> xs | _ \<Rightarrow> []); rr = (case fld route ''rules'' of JArr xs \<Rightarrow> xs | _ \<Rightarrow> []);
          sets = (case fld route ''rule_set'' of JArr xs \<Rightarrow> xs | _ \<Rightarrow> [])
      in set (str_fields ''server'' dr) \<union> set (str_fields ''final'' [dns]) \<subseteq> set (str_fields ''tag'' servers) \<and>
         set (str_fields ''outbound'' rr) \<union> set (str_fields ''final'' [route]) \<union> set (str_fields ''detour'' servers) \<subseteq> set (str_fields ''tag'' outs) \<and>
         set (str_fields ''rule_set'' (dr @ rr)) \<subseteq> set (str_fields ''tag'' sets) \<and>
         distinct (str_fields ''tag'' servers) \<and> distinct (str_fields ''tag'' outs))"

lemma str_fields_Nil [simp]: "str_fields k [] = []"
  by (simp add: str_fields_def)

lemma str_fields_Cons: "str_fields k (v # vs) = (case fld v k of JStr s \<Rightarrow> s # str_fields k vs | _ \<Rightarrow> str_fields k vs)"
  by (simp add: str_fields_def split: jval.splits)

lemma str_fields_append: "str_fields k (vs @ ws) = str_fields k vs @ str_fields k ws"
  by (simp add: str_fields_def)

lemma dns_server_names:
  "str_fields ''tag'' (dns_servers d token) = [''doh-own'', ''clean-pin'', ''ir-direct'']"
  "str_fields ''detour'' (dns_servers d token) = [''proxy'', ''direct'', ''direct'']"
  by (simp_all add: dns_servers_def str_fields_Cons)

lemma dns_rule_names:
  "str_fields ''server'' (dns_rules d) = [''ir-direct'', ''ir-direct'', ''clean-pin'', ''ir-direct'']"
  "str_fields ''rule_set'' (dns_rules d) = [''geoip-ir'']"
  by (simp_all add: dns_rules_def str_fields_Cons)

lemma route_rule_names:
  "str_fields ''outbound'' (route_rules d) = replicate 5 ''direct''"
  "str_fields ''rule_set'' (route_rules d) = [''geoip-ir'', ''race-direct'']"
  by (simp_all add: route_rules_def str_fields_Cons numeral_eq_Suc)

lemma fakeip_names:
  "str_fields ''tag'' [JObj [(''tag'', JStr ''fakeip''), (''address'', JStr ''fakeip'')]] = [''fakeip'']"
  "str_fields ''detour'' [JObj [(''tag'', JStr ''fakeip''), (''address'', JStr ''fakeip'')]] = []"
  "str_fields ''server'' (JObj [(''query_type'', JArr xs), (''server'', JStr ''fakeip'')] # vs) = ''fakeip'' # str_fields ''server'' vs"
  "str_fields ''rule_set'' (JObj [(''query_type'', JArr xs), (''server'', JStr ''fakeip'')] # vs) = str_fields ''rule_set'' vs"
  by (simp_all add: str_fields_Cons)

lemma base_parts:
  "fld (baseClientConfig d ob token origin sniff fakedns) ''dns'' = dnsSection d token fakedns"
  "fld (baseClientConfig d ob token origin sniff fakedns) ''outbounds'' = JArr [ob, JObj [(''type'', JStr ''direct''), (''tag'', JStr ''direct'')]]"
  "fld (fld (baseClientConfig d ob token origin sniff fakedns) ''route'') ''rules'' = JArr (route_rules d)"
  "fld (fld (baseClientConfig d ob token origin sniff fakedns) ''route'') ''rule_set'' =
     JArr [remote_rule_set ''geoip-ir'' (origin @ ''/api/v1/geoip-ir.json''), remote_rule_set ''race-direct'' (origin @ ''/api/v1/race-direct.json'')]"
  "str_fields ''final'' [fld (baseClientConfig d ob token origin sniff fakedns) ''route''] = [''proxy'']"
  "str_fields ''final'' [dnsSection d token fakedns] = [''doh-own'']"
  by (simp_all add: baseClientConfig_def routeSection_def dnsSection_def str_fields_Cons)

lemma rule_set_names: "str_fields ''tag'' [remote_rule_set a u, remote_rule_set b v] = [a, b]"
  by (simp add: remote_rule_set_def str_fields_Cons)

lemma outbound_names:
  assumes "str_fields ''tag'' [ob] = [''proxy'']"
  shows "str_fields ''tag'' [ob, JObj [(''type'', JStr ''direct''), (''tag'', JStr ''direct'')]] = [''proxy'', ''direct'']"
  using assms str_fields_append [of "''tag''" "[ob]" "[JObj [(''type'', JStr ''direct''), (''tag'', JStr ''direct'')]]"]
  by (simp add: str_fields_Cons)

lemma dns_parts:
  "fld (dnsSection d token fakedns) ''servers'' =
     JArr (dns_servers d token @ (if fakedns then [JObj [(''tag'', JStr ''fakeip''), (''address'', JStr ''fakeip'')]] else []))"
  "fld (dnsSection d token fakedns) ''rules'' =
     JArr ((if fakedns then [JObj [(''query_type'', JArr [JStr ''A'', JStr ''AAAA'']), (''server'', JStr ''fakeip'')]] else []) @ dns_rules d)"
  by (simp_all add: dnsSection_def)

lemmas profile_names = dns_server_names dns_rule_names route_rule_names fakeip_names rule_set_names outbound_names

lemma closed_base:
  assumes "str_fields ''tag'' [ob] = [''proxy'']"
  shows "closed_config (baseClientConfig d ob token origin sniff fakedns)"
proof (cases fakedns)
  case True
  then show ?thesis unfolding closed_config_def Let_def base_parts dns_parts
    by (simp add: profile_names assms str_fields_append)
next
  case False
  then show ?thesis unfolding closed_config_def Let_def base_parts dns_parts
    by (simp add: profile_names assms str_fields_append)
qed


definition demo_secrets :: jval where
  "demo_secrets = JObj (map (\<lambda>k. (k, JStr ''s'')) [''subscriptionToken'', ''vlessUuid'', ''realityPublicKey'', ''realityShortId'', ''hysteria2Password'',
     ''hysteria2CertSha256'', ''hysteria2SpkiSha256''])"

definition demo_dep :: deployment where
  "demo_dep = \<lparr>d_id = ''dep1'', d_tenant = ''t1'', d_connection = ''c1'', d_account = replicate 32 CHR ''a'', d_zone = replicate 32 CHR ''b'',
     d_worker_name = ''edge'', d_worker_hostname = ''edge.example.org'', d_node_hostname = ''node.example.org'', d_vps = ''5.6.7.8'',
     d_email = ''a@b.io'', d_reality = ''www.apple.com'', d_ufw = False, d_status = Awaiting_agent, d_detail = None, d_workflow = None,
     d_sub_hash = ''h'', d_agent_hash = None, d_last_seen = None, d_created = 0, d_updated = 0, d_role = ''standard'', d_tunnel_enabled = False,
     d_tunnel_hostname = None, d_dnstt_key = None, d_slip_spki = None, d_tunnel_mtu = None, d_anchor = None, d_consented = None,
     d_beacon = None\<rparr>"


end
