(* ===== verification/Cp_Cloud.thy ===== *)
theory Cp_Cloud
  imports Cp_Profiles World
begin

text \<open>
  The Cloudflare API client of the control plane (\<^verbatim>\<open>src/cloudflare-api.ts\<close>) and the state that its calls change: the
  scripts, domains and DNS records of the tenants' accounts as the program has written them, next to the database and the
  running workflow instances. \<open>fetch\<close> is the parameter \<open>cr_fetch\<close>; error messages are not modelled.
\<close>

subsection \<open>The world of the control plane\<close>

datatype flow_action = Prepare | Finalize | Revoke

datatype flow_pc =
    Load_deployment
  | Mark_preparing | Configure_dns | Deploy_pending | Mark_awaiting
  | Mark_finalizing | Publish_profiles | Mark_ready | Erase_access | Notify_erased | Report_erase_failure
  | New_hash | Disable_data_plane | Mark_revoked | Erase_revoked | Report_revoke_erase_failure
  | Returned string | Thrown

record flow =
  fw_id :: string
  fw_action :: flow_action
  fw_dep :: string
  fw_pc :: flow_pc
  fw_tries :: nat
  fw_loaded :: "deployment option"
  fw_hash :: string
  fw_disconnected :: bool

record script =
  sp_token_hash :: string
  sp_bundle :: string

record cp_world =
  cw_db :: cp_db
  cw_scripts :: "((string \<times> string) \<times> script) list"
  cw_domains :: "(string \<times> string \<times> string) list"
  cw_dns :: "((string \<times> string \<times> string) \<times> string) list"
  cw_flows :: "flow list"

definition cdb_get :: "(cp_db \<Rightarrow> 'a) \<Rightarrow> (cp_world, 'a) act" where
  "cdb_get f = act_get (\<lambda>w. f (cw_db w))"

definition cdb_res :: "(cp_db \<Rightarrow> 'a res) \<Rightarrow> (cp_world, 'a) act" where
  "cdb_res f w = (f (cw_db w), w)"

definition cdb_upd :: "(cp_db \<Rightarrow> cp_db) \<Rightarrow> (cp_world, unit) act" where
  "cdb_upd f = act_upd (\<lambda>w. w\<lparr>cw_db := f (cw_db w)\<rparr>)"

definition cdb_run :: "(cp_db, 'a) act \<Rightarrow> (cp_world, 'a) act" where
  "cdb_run m w = (case m (cw_db w) of (r, d) \<Rightarrow> (r, w\<lparr>cw_db := d\<rparr>))"

subsection \<open>cloudflareApi\<close>

definition cloudflareApi :: "cp_runtime \<Rightarrow> string \<Rightarrow> string \<Rightarrow> string \<Rightarrow> string \<Rightarrow> jval res" where
  "cloudflareApi rtm token meth path body =
     res_bind (cr_fetch rtm \<lparr>ac_token = token, ac_method = meth, ac_path = path, ac_body = body\<rparr>) (\<lambda>response.
       case ay_json response of
         None \<Rightarrow> Inl (JsError ''Cloudflare API returned a non-JSON body'')
       | Some v \<Rightarrow> res_bind (need_obj v) (\<lambda>envelope.
           if \<not> ay_ok response \<or> \<not> truthy (fld envelope ''success'') then Inl (http_error 502 ''cloudflare_api_error'')
           else Inr (fld envelope ''result'')))"

definition upload_metadata :: "(string \<times> string) list \<Rightarrow> jval" where
  "upload_metadata secretBindings = JObj
     [(''main_module'', JStr ''worker.mjs''), (''compatibility_date'', JStr ''2026-09-09''), (''compatibility_flags'', JArr []),
      (''bindings'', JArr (map (\<lambda>(name, text). JObj [(''type'', JStr ''secret_text''), (''name'', JStr name), (''text'', JStr text)]) secretBindings))]"

text \<open>The module text that is uploaded beside the metadata is the constant of \<^verbatim>\<open>data-plane-source.ts\<close> for every script here.\<close>

definition uploadWorkerScript :: "cp_runtime \<Rightarrow> string \<Rightarrow> string \<Rightarrow> string \<Rightarrow> script \<Rightarrow> (cp_world, unit) act" where
  "uploadWorkerScript rtm token accountId scriptName s =
     act_bind (act_lift (cloudflareApi rtm token ''PUT'' (''/accounts/'' @ accountId @ ''/workers/scripts/'' @ encodeURIComponent scriptName)
         (json_stringify (upload_metadata [(''SUB_TOKEN_HASH'', sp_token_hash s), (''CONFIG_BUNDLE'', sp_bundle s)]))))
       (\<lambda>_. act_upd (\<lambda>w. w\<lparr>cw_scripts := upsert (accountId, scriptName) s (cw_scripts w)\<rparr>))"

definition attachWorkerDomain :: "cp_runtime \<Rightarrow> string \<Rightarrow> string \<Rightarrow> string \<Rightarrow> string \<Rightarrow> string \<Rightarrow> (cp_world, unit) act" where
  "attachWorkerDomain rtm token accountId zoneId hostname scriptName =
     act_bind (act_lift (cloudflareApi rtm token ''PUT'' (''/accounts/'' @ accountId @ ''/workers/domains'')
         (json_stringify (JObj [(''hostname'', JStr hostname), (''service'', JStr scriptName), (''zone_id'', JStr zoneId)]))))
       (\<lambda>_. act_upd (\<lambda>w. w\<lparr>cw_domains := upsert hostname (accountId, scriptName) (cw_domains w)\<rparr>))"

text \<open>\<open>records[0]\<close>: indexing null throws, an empty or absent list gives undefined.\<close>

fun first_of :: "jval \<Rightarrow> jval res" where
  "first_of JUndef = Inl (JsError ''TypeError'')"
| "first_of JNull = Inl (JsError ''TypeError'')"
| "first_of (JArr (x # xs)) = Inr x"
| "first_of v = Inr JUndef"

text \<open>
  The scheme that the upsert functions share: look the record up by type and name, replace the first hit or create one, and
  return its identifier.
\<close>

definition upsert_record :: "cp_runtime \<Rightarrow> string \<Rightarrow> string \<Rightarrow> string \<Rightarrow> string \<Rightarrow> string \<Rightarrow> num \<Rightarrow> (cp_world, string) act" where
  "upsert_record rtm token zoneId kind name content ttl =
     (let base = ''/zones/'' @ zoneId @ ''/dns_records'';
          payload = json_stringify (JObj [(''type'', JStr kind), (''name'', JStr name), (''content'', JStr content),
                       (''ttl'', JNum (Fin ttl)), (''proxied'', JBool False)]) in
      act_bind (act_lift (res_bind (cloudflareApi rtm token ''GET''
          (base @ ''?type='' @ encodeURIComponent kind @ ''&name='' @ encodeURIComponent name @ ''&per_page=10'') []) first_of)) (\<lambda>existing.
      act_bind (act_lift (if truthy existing then cloudflareApi rtm token ''PUT'' (base @ ''/'' @ to_str (fld existing ''id'')) payload
                          else cloudflareApi rtm token ''POST'' base payload)) (\<lambda>written.
      act_seq (act_upd (\<lambda>w. w\<lparr>cw_dns := upsert (zoneId, kind, name) content (cw_dns w)\<rparr>))
        (act_lift (res_bind (need_obj written) (\<lambda>r. Inr (to_str (fld r ''id'')))))))) "

definition upsertARecord :: "cp_runtime \<Rightarrow> string \<Rightarrow> string \<Rightarrow> string \<Rightarrow> string \<Rightarrow> (cp_world, string) act" where
  "upsertARecord rtm token zoneId hostname ipv4 = upsert_record rtm token zoneId ''A'' hostname ipv4 300"

definition upsertNsRecord :: "cp_runtime \<Rightarrow> string \<Rightarrow> string \<Rightarrow> string \<Rightarrow> string list \<Rightarrow> (cp_world, string) act" where
  "upsertNsRecord rtm token zoneId name targets =
     upsert_record rtm token zoneId ''NS'' name (case targets of [] \<Rightarrow> [] | t # _ \<Rightarrow> t) 300"

definition upsertTxtRecord :: "cp_runtime \<Rightarrow> string \<Rightarrow> string \<Rightarrow> string \<Rightarrow> string \<Rightarrow> num \<Rightarrow> (cp_world, string) act" where
  "upsertTxtRecord rtm token zoneId name value ttl = upsert_record rtm token zoneId ''TXT'' name (take 4500 value) ttl"

definition upsertDnsRecord :: "cp_runtime \<Rightarrow> string \<Rightarrow> string \<Rightarrow> string \<Rightarrow> string \<Rightarrow> string \<Rightarrow> num \<Rightarrow> (cp_world, string) act" where
  "upsertDnsRecord rtm token zoneId kind name content ttl = upsert_record rtm token zoneId kind name content ttl"

definition verifyZoneOwnership :: "cp_runtime \<Rightarrow> string \<Rightarrow> string \<Rightarrow> string \<Rightarrow> unit res" where
  "verifyZoneOwnership rtm token zoneId accountId =
     res_bind (cloudflareApi rtm token ''GET'' (''/zones/'' @ zoneId) []) (\<lambda>v.
     res_bind (need_obj v) (\<lambda>z.
     res_bind (need_obj (fld z ''account'')) (\<lambda>account.
       if fld account ''id'' \<noteq> JStr accountId \<or> fld z ''status'' \<noteq> JStr ''active'' then Inl (JsError ''Selected zone is not active'')
       else Inr ())))"

subsection \<open>Reasoning about actions on the database\<close>

lemma keeps_cdb_get [keeps_intros]: "keeps I (cdb_get f)"
  by (simp add: cdb_get_def keeps_get)

lemma keeps_cdb_res [keeps_intros]: "keeps I (cdb_res f)"
  by (simp add: keeps_def cdb_res_def)

lemma keeps_case_sum [keeps_intros]:
  "(\<And>x. keeps I (f x)) \<Longrightarrow> (\<And>x. keeps I (g x)) \<Longrightarrow> keeps I (case r of Inl x \<Rightarrow> f x | Inr x \<Rightarrow> g x)"
  by (cases r) auto

lemma cdb_upd_eq: "cdb_upd f w = (Inr (), w\<lparr>cw_db := f (cw_db w)\<rparr>)"
  by (simp add: cdb_upd_def act_upd_def)

end
