(* ===== verification/Cp_Deploy.thy ===== *)
theory Cp_Deploy
  imports Cp_Cloud
begin

text \<open>
  Deployments (\<^verbatim>\<open>src/deployments.ts\<close>) and Cloudflare connections (\<^verbatim>\<open>src/oauth.ts\<close>): the handlers of the
  control plane over \<open>cp_world\<close>. A handler is one transition; each D1 batch is a transaction, and a constraint that it violates
  leaves the database as it was. Message texts are not modelled.
\<close>

subsection \<open>Shared parts\<close>

definition set_dep :: "string \<Rightarrow> (deployment \<Rightarrow> deployment) \<Rightarrow> cp_db \<Rightarrow> cp_db" where
  "set_dep i f d = d\<lparr>cp_deps := map (\<lambda>x. if d_id x = i then f x else x) (cp_deps d)\<rparr>"

fun status_name :: "dep_status \<Rightarrow> string" where
  "status_name Queued = ''queued''"
| "status_name Preparing = ''preparing''"
| "status_name Awaiting_agent = ''awaiting_agent''"
| "status_name Agent_ready = ''agent_ready''"
| "status_name Finalizing = ''finalizing''"
| "status_name Ready = ''ready''"
| "status_name Revoking = ''revoking''"
| "status_name Failed_status = ''failed''"
| "status_name Revoked = ''revoked''"

fun action_name :: "flow_action \<Rightarrow> string" where
  "action_name Prepare = ''prepare''"
| "action_name Finalize = ''finalize''"
| "action_name Revoke = ''revoke''"

definition dep_status_is :: "num \<Rightarrow> string \<Rightarrow> dep_status \<Rightarrow> string option \<Rightarrow> cp_db \<Rightarrow> cp_db" where
  "dep_status_is now i s detail = set_dep i (\<lambda>x. x\<lparr>d_status := s, d_detail := detail, d_updated := now\<rparr>)"

definition user_audit :: "cp_runtime \<Rightarrow> request option \<Rightarrow> principal \<Rightarrow> string \<Rightarrow> string \<Rightarrow> jval \<Rightarrow> (cp_world, unit) act" where
  "user_audit rtm r p action resource metadata =
     cdb_upd (cp_audit rtm (Some (pr_tenant p)) ''user'' (Some (pr_telegram p)) action (Some resource) ''success'' r metadata)"

definition dep_aad :: "string \<Rightarrow> string" where
  "dep_aad i = ''deployment:'' @ i"

definition assertConnectionResourceBoundary :: "connection \<Rightarrow> string \<Rightarrow> string \<Rightarrow> unit res" where
  "assertConnectionResourceBoundary c accountId zoneId =
     (if c_auth_type c \<noteq> ''api_token'' then Inr ()
      else if c_account c \<noteq> Some accountId \<or> c_zone c \<noteq> Some zoneId then Inl (http_error 403 ''cloudflare_resource_mismatch'')
      else Inr ())"

definition new_flow :: "flow_action \<Rightarrow> string \<Rightarrow> num \<Rightarrow> flow" where
  "new_flow action i now =
     \<lparr>fw_id = action_name action @ ''-'' @ i @ ''-'' @ show_num now, fw_action = action, fw_dep = i, fw_pc = Load_deployment,
      fw_tries = 0, fw_loaded = None, fw_hash = [], fw_disconnected = False\<rparr>"

definition create_instance :: "cp_runtime \<Rightarrow> flow_action \<Rightarrow> string \<Rightarrow> (cp_world, string) act" where
  "create_instance rtm action i =
     act_bind (act_lift (cr_workflow rtm)) (\<lambda>_.
       let f = new_flow action i (cr_now rtm)
       in act_seq (act_upd (\<lambda>w. w\<lparr>cw_flows := cw_flows w @ [f]\<rparr>)) (act_ret (fw_id f)))"

definition startWorkflow :: "cp_runtime \<Rightarrow> flow_action \<Rightarrow> string \<Rightarrow> (cp_world, string) act" where
  "startWorkflow rtm action i =
     act_bind (create_instance rtm action i) (\<lambda>wid.
     act_seq (cdb_upd (set_dep i (\<lambda>x. x\<lparr>d_workflow := Some wid, d_updated := cr_now rtm\<rparr>)))
       (act_ret wid))"

definition bootstrapInstructions :: "cp_runtime \<Rightarrow> string \<Rightarrow> string \<Rightarrow> jval" where
  "bootstrapInstructions rtm token i =
     (let endpoint = cr_base rtm @ ''/api/v1/agent/bootstrap''; file = sq (''v13-bootstrap-'' @ i @ ''.sh'');
          redact = [CHR 0x22] @ ''s/^(BOOTSTRAP_TOKEN=).*/'' @ [CHR 0x5C] @ ''1'' @ sq ''<redacted>'' @ ''/'' @ [CHR 0x22] in JObj
     [(''expiresInSeconds'', JNum (Fin (parsePositiveInt (cr_boot_ttl rtm) 3600 86400))),
      (''token'', JStr token),
      (''downloadCommand'', JStr (''curl --fail --show-error --silent --proto '' @ sq ''=https'' @ '' --tlsv1.2 -H '' @
         sq (''Authorization: Bearer '' @ token) @ '' '' @ sq endpoint @ '' -o '' @ file)),
      (''inspectCommand'', JStr (''if command -v less >/dev/null 2>&1; then sed -E '' @ redact @ '' '' @ file @ '' | less; else sed -E '' @
         redact @ '' '' @ file @ '' | sed -n '' @ sq ''1,360p'' @ ''; fi'')),
      (''executeCommand'', JStr (''sudo bash '' @ file)),
      (''eraseCommand'', JStr (''shred -u '' @ file @ '' || rm -f '' @ file))])"

definition zone_active :: "jval \<Rightarrow> string \<Rightarrow> bool res" where
  "zone_active zone accountId =
     res_bind (need_obj zone) (\<lambda>z.
       if fld z ''status'' \<noteq> JStr ''active'' then Inr False
       else res_bind (need_obj (fld z ''account'')) (\<lambda>a. Inr (fld a ''id'' = JStr accountId)))"

fun lower_name :: "jval \<Rightarrow> string res" where
  "lower_name (JStr s) = Inr (to_lower s)"
| "lower_name v = Inl (JsError ''TypeError'')"

subsection \<open>Creating a deployment\<close>

definition resource_conflict :: "deployment_input \<Rightarrow> cp_db \<Rightarrow> deployment option" where
  "resource_conflict i d =
     find (\<lambda>x. d_account x = di_accountId i \<and> d_worker_name x = di_workerName i \<or> d_worker_hostname x = di_workerHostname i \<or>
               d_node_hostname x = di_nodeHostname i) (cp_deps d)"

definition new_deployment :: "cp_runtime \<Rightarrow> principal \<Rightarrow> connection \<Rightarrow> deployment_input \<Rightarrow> string \<Rightarrow> deployment" where
  "new_deployment rtm p c i token =
     \<lparr>d_id = cr_uuid rtm, d_tenant = pr_tenant p, d_connection = c_id c, d_account = di_accountId i, d_zone = di_zoneId i,
      d_worker_name = di_workerName i, d_worker_hostname = di_workerHostname i, d_node_hostname = di_nodeHostname i,
      d_vps = di_vpsIpv4 i, d_email = di_acmeEmail i, d_reality = di_realityServerName i, d_ufw = di_enableUfw i,
      d_status = Queued, d_detail = None, d_workflow = None, d_sub_hash = cp_sha256 (cr_P rtm) token, d_agent_hash = None,
      d_last_seen = None, d_created = cr_now rtm, d_updated = cr_now rtm, d_role = ''standard'', d_tunnel_enabled = False,
      d_tunnel_hostname = None, d_dnstt_key = None, d_slip_spki = None, d_tunnel_mtu = None, d_anchor = None, d_consented = None,
      d_beacon = None\<rparr>"

text \<open>The batch of three inserts, with the primary keys and UNIQUE constraints of \<^verbatim>\<open>migrations/0001_init.sql\<close>.\<close>

definition insert_deployment :: "deployment \<Rightarrow> string \<Rightarrow> boot_token \<Rightarrow> (cp_db, unit) act" where
  "insert_deployment x enc b d =
     (if list_ex (\<lambda>y. d_id y = d_id x \<or> d_account y = d_account x \<and> d_worker_name y = d_worker_name x \<or>
           d_worker_hostname y = d_worker_hostname x \<or> d_node_hostname y = d_node_hostname x) (cp_deps d) \<or>
         d_id x \<in> set (map fst (cp_secrets d)) \<or>
         list_ex (\<lambda>c. b_hash c = b_hash b \<or> b_dep c = b_dep b) (cp_boot d)
      then (Inl (JsError ''UNIQUE constraint failed''), d)
      else (Inr (), d\<lparr>cp_deps := cp_deps d @ [x], cp_secrets := cp_secrets d @ [(d_id x, enc, 1)], cp_boot := cp_boot d @ [b]\<rparr>))"

definition check_zone :: "deployment_input \<Rightarrow> jval \<Rightarrow> unit res" where
  "check_zone i zone =
     res_bind (zone_active zone (di_accountId i)) (\<lambda>active.
     if \<not> active then Inl (http_error 400 ''zone_mismatch'')
     else res_bind (lower_name (fld zone ''name'')) (\<lambda>name.
       let suffix = ''.'' @ name in
       if \<not> ends_with suffix (di_workerHostname i) \<or> \<not> ends_with suffix (di_nodeHostname i) then Inl (http_error 400 ''hostname_zone_mismatch'')
       else if di_realityServerName i = di_nodeHostname i then Inl (http_error 400 ''invalid_reality_target'')
       else Inr ()))"

text \<open>Starting the workflow; when that fails the deployment is marked and the exception goes on.\<close>

definition start_prepare :: "cp_runtime \<Rightarrow> string \<Rightarrow> string \<Rightarrow> (cp_world, string) act" where
  "start_prepare rtm cid i =
     act_catch (startWorkflow rtm Prepare i) (\<lambda>e.
       act_seq (cdb_upd (dep_status_is (cr_now rtm) i Failed_status (Some ''workflow_start_failed'')))
       (act_seq (cdb_upd (\<lambda>d. snd (disconnectConnectionIfIdle (cr_now rtm) cid i d)))
         (act_throw e)))"

definition createDeployment :: "cp_runtime \<Rightarrow> request \<Rightarrow> principal \<Rightarrow> (cp_world, response) act" where
  "createDeployment rtm r p =
     act_bind (act_lift (res_bind (cp_readJson r 32768) validateCreateDeployment)) (\<lambda>inp.
     act_bind (cdb_res (getConnection (di_connectionId inp) (Some (pr_tenant p)))) (\<lambda>conn.
     act_seq (act_lift (assertConnectionResourceBoundary conn (di_accountId inp) (di_zoneId inp)))
     (act_bind (act_lift (getValidCloudflareAuth rtm conn)) (\<lambda>auth.
     act_bind (act_lift (cloudflareApi rtm auth ''GET'' (''/zones/'' @ di_zoneId inp) [])) (\<lambda>zone.
     act_seq (act_lift (check_zone inp zone))
     (act_bind (cdb_get (resource_conflict inp)) (\<lambda>conflict.
     act_seq (act_when (conflict \<noteq> None) (http_error 409 ''deployment_resource_conflict''))
     (let i = cr_uuid rtm; subscriptionToken = randomToken (cr_random rtm); bootstrapToken = randomToken (cr_random2 rtm);
          x = new_deployment rtm p conn inp subscriptionToken;
          b = \<lparr>b_hash = cp_sha256 (cr_P rtm) bootstrapToken, b_dep = i,
               b_expires = addSecondsIso (cr_now rtm) (parsePositiveInt (cr_boot_ttl rtm) 3600 86400), b_consumed = None,
               b_created = cr_now rtm\<rparr> in
     act_bind (act_lift (encryptJson (cr_P rtm) (cr_envelope rtm) (JObj [(''subscriptionToken'', JStr subscriptionToken)]) (cr_key rtm) (dep_aad i))) (\<lambda>enc.
     act_seq (cdb_run (insert_deployment x enc b))
     (act_bind (start_prepare rtm (c_id conn) i) (\<lambda>wid.
     act_seq (user_audit rtm (Some r) p ''deployment.create'' i
         (JObj [(''workerHostname'', JStr (di_workerHostname inp)), (''nodeHostname'', JStr (di_nodeHostname inp))]))
     (act_ret (json (JObj [(''deploymentId'', JStr i), (''workflowInstanceId'', JStr wid), (''status'', JStr ''queued''),
         (''bootstrap'', bootstrapInstructions rtm bootstrapToken i)]) 202 [])))))))))))))"

subsection \<open>Reading\<close>

definition dep_row :: "deployment \<Rightarrow> jval" where
  "dep_row x = JObj [(''id'', JStr (d_id x)), (''worker_name'', JStr (d_worker_name x)), (''worker_hostname'', JStr (d_worker_hostname x)),
     (''node_hostname'', JStr (d_node_hostname x)), (''vps_ipv4'', JStr (d_vps x)), (''status'', JStr (status_name (d_status x))),
     (''status_detail'', opt_str (d_detail x)), (''last_seen_at'', opt_str (map_option iso_string (d_last_seen x))),
     (''created_at'', JStr (iso_string (d_created x))), (''updated_at'', JStr (iso_string (d_updated x)))]"

definition listDeployments :: "principal \<Rightarrow> (cp_world, response) act" where
  "listDeployments p =
     cdb_get (\<lambda>d. json (JObj [(''deployments'', JArr (map dep_row (take 100
       (sort_by (\<lambda>a b. d_created b \<le> d_created a) (filter (\<lambda>x. d_tenant x = pr_tenant p) (cp_deps d))))))]) 200 [])"

definition ownedDeployment :: "principal \<Rightarrow> string \<Rightarrow> cp_db \<Rightarrow> deployment res" where
  "ownedDeployment p i d =
     (case find (\<lambda>x. d_id x = i \<and> d_tenant x = pr_tenant p) (cp_deps d) of
        None \<Rightarrow> Inl (http_error 404 ''deployment_not_found'') | Some x \<Rightarrow> Inr x)"

definition requestedConnectionId :: "request \<Rightarrow> string option res" where
  "requestedConnectionId r =
     res_bind (cp_readJson r 32768) (\<lambda>v.
     res_bind (need_obj v) (\<lambda>body.
       let c = js_coalesce (fld body ''connectionId'') (fld body ''oauthConnectionId'') in
       if c = JUndef \<or> c = JStr [] then Inr None
       else case c of JStr s \<Rightarrow> if id36 s then Inr (Some s) else Inl (http_error 400 ''invalid_connection'')
            | _ \<Rightarrow> Inl (http_error 400 ''invalid_connection'')))"

definition ensureActiveDeploymentConnection :: "cp_runtime \<Rightarrow> principal \<Rightarrow> deployment \<Rightarrow> string option \<Rightarrow> (cp_world, unit) act" where
  "ensureActiveDeploymentConnection rtm p x replacementId =
     act_bind (cdb_get (getConnection (d_connection x) (Some (pr_tenant p)))) (\<lambda>current.
     case current of Inr c \<Rightarrow> act_ret ()
     | Inl _ \<Rightarrow>
       (case replacementId of
          None \<Rightarrow> act_throw (http_error 409 ''cloudflare_reconnect_required'')
        | Some rid \<Rightarrow>
            act_bind (cdb_get (getConnection rid (Some (pr_tenant p)))) (\<lambda>found.
            case found of
              Inl _ \<Rightarrow> act_throw (http_error 400 ''invalid_connection'')
            | Inr replacement \<Rightarrow>
                act_seq (act_lift (assertConnectionResourceBoundary replacement (d_account x) (d_zone x)))
                (act_bind (act_lift (getValidCloudflareAuth rtm replacement)) (\<lambda>auth.
                act_bind (act_lift (cloudflareApi rtm auth ''GET'' (''/zones/'' @ d_zone x) [])) (\<lambda>zone.
                act_bind (act_lift (zone_active zone (d_account x))) (\<lambda>active.
                act_seq (act_when (\<not> active) (http_error 403 ''cloudflare_resource_mismatch''))
                  (cdb_upd (\<lambda>d. d\<lparr>cp_deps := map (\<lambda>y. if d_id y = d_id x \<and> d_tenant y = pr_tenant p
                      then y\<lparr>d_connection := c_id replacement, d_updated := cr_now rtm\<rparr> else y) (cp_deps d)\<rparr>)))))))))"

definition subscriptionUrls :: "deployment \<Rightarrow> string \<Rightarrow> jval" where
  "subscriptionUrls x token =
     (let base = ''https://'' @ d_worker_hostname x @ ''/sub/'' @ encodeURIComponent token in JObj
       [(''uri'', JStr base), (''singBoxVless'', JStr (base @ ''?format=sing-box&profile=vless'')),
        (''singBoxHysteria2'', JStr (base @ ''?format=sing-box&profile=hysteria2''))])"

definition secret_of :: "string \<Rightarrow> cp_db \<Rightarrow> string option" where
  "secret_of i d = map_option fst (map_of (cp_secrets d) i)"

definition dep_summary :: "deployment \<Rightarrow> jval" where
  "dep_summary x = JObj [(''id'', JStr (d_id x)), (''workerName'', JStr (d_worker_name x)), (''workerHostname'', JStr (d_worker_hostname x)),
     (''nodeHostname'', JStr (d_node_hostname x)), (''vpsIpv4'', JStr (d_vps x)), (''status'', JStr (status_name (d_status x))),
     (''statusDetail'', opt_str (d_detail x)), (''lastSeenAt'', opt_str (map_option iso_string (d_last_seen x))),
     (''createdAt'', JStr (iso_string (d_created x))), (''updatedAt'', JStr (iso_string (d_updated x)))]"

definition getDeployment :: "cp_runtime \<Rightarrow> principal \<Rightarrow> string \<Rightarrow> (cp_world, response) act" where
  "getDeployment rtm p i =
     act_bind (cdb_res (ownedDeployment p i)) (\<lambda>x.
     act_bind (cdb_get (secret_of (d_id x))) (\<lambda>row.
     act_bind (act_lift (if d_status x \<noteq> Ready then Inr JNull else case row of None \<Rightarrow> Inr JNull
       | Some enc \<Rightarrow> res_bind (decryptJson (cr_P rtm) enc (cr_key rtm) (dep_aad (d_id x))) (\<lambda>secrets.
           res_bind (need_obj secrets) (\<lambda>s. Inr (subscriptionUrls x (to_str (fld s ''subscriptionToken''))))))) (\<lambda>subscriptions.
     act_ret (json (JObj [(''deployment'', dep_summary x), (''subscriptions'', subscriptions)]) 200 []))))"

subsection \<open>Changing\<close>

definition rotate_boot :: "boot_token \<Rightarrow> (cp_db, unit) act" where
  "rotate_boot b d =
     (if list_ex (\<lambda>c. b_hash c = b_hash b \<and> b_dep c \<noteq> b_dep b) (cp_boot d) then (Inl (JsError ''UNIQUE constraint failed''), d)
      else (Inr (), d\<lparr>cp_boot := (if list_ex (\<lambda>c. b_dep c = b_dep b) (cp_boot d)
                                then map (\<lambda>c. if b_dep c = b_dep b then b else c) (cp_boot d) else cp_boot d @ [b])\<rparr>))"

definition rotateBootstrapToken :: "cp_runtime \<Rightarrow> request \<Rightarrow> principal \<Rightarrow> string \<Rightarrow> (cp_world, response) act" where
  "rotateBootstrapToken rtm r p i =
     act_bind (cdb_res (ownedDeployment p i)) (\<lambda>x.
     act_seq (act_when (d_status x \<notin> {Queued, Preparing, Awaiting_agent, Failed_status}) (http_error 409 ''invalid_deployment_state''))
     (let raw = randomToken (cr_random rtm);
          b = \<lparr>b_hash = cp_sha256 (cr_P rtm) raw, b_dep = d_id x,
               b_expires = addSecondsIso (cr_now rtm) (parsePositiveInt (cr_boot_ttl rtm) 3600 86400), b_consumed = None,
               b_created = cr_now rtm\<rparr> in
     act_seq (cdb_run (rotate_boot b))
     (act_seq (user_audit rtm (Some r) p ''bootstrap.rotate'' (d_id x) JUndef)
     (act_ret (json (JObj [(''bootstrap'', bootstrapInstructions rtm raw (d_id x))]) 200 [])))))"

text \<open>The two updates of the rotation batch.\<close>

definition store_rotated :: "num \<Rightarrow> string \<Rightarrow> string \<Rightarrow> string \<Rightarrow> cp_db \<Rightarrow> cp_db" where
  "store_rotated now i enc h d =
     set_dep i (\<lambda>x. x\<lparr>d_sub_hash := h, d_updated := now\<rparr>)
       (d\<lparr>cp_secrets := map (\<lambda>(k, v, n). if k = i then (k, enc, Suc n) else (k, v, n)) (cp_secrets d)\<rparr>)"

definition rotateSubscriptionToken :: "cp_runtime \<Rightarrow> request \<Rightarrow> principal \<Rightarrow> string \<Rightarrow> (cp_world, response) act" where
  "rotateSubscriptionToken rtm r p i =
     act_bind (cdb_res (ownedDeployment p i)) (\<lambda>x.
     act_seq (act_when (d_status x \<noteq> Ready \<or> d_agent_hash x = None \<or> d_agent_hash x = Some []) (http_error 409 ''invalid_deployment_state''))
     (act_bind (act_lift (requestedConnectionId r)) (\<lambda>rid.
     act_seq (ensureActiveDeploymentConnection rtm p x rid)
     (act_bind (cdb_res (ownedDeployment p i)) (\<lambda>current.
     act_bind (cdb_get (secret_of (d_id current))) (\<lambda>row.
     act_bind (act_lift (case row of None \<Rightarrow> Inl (JsError ''Deployment secret bundle is missing'') | Some e \<Rightarrow> Inr e)) (\<lambda>enc.
     act_bind (act_lift (decryptJson (cr_P rtm) enc (cr_key rtm) (dep_aad (d_id current)))) (\<lambda>secrets.
     let subscriptionToken = randomToken (cr_random rtm); h = cp_sha256 (cr_P rtm) subscriptionToken;
         rotated = JObj (upsert ''subscriptionToken'' (JStr subscriptionToken) (obj_fields secrets)) in
     act_bind (act_lift (encryptJson (cr_P rtm) (cr_envelope rtm) rotated (cr_key rtm) (dep_aad (d_id current)))) (\<lambda>rotatedEnc.
     act_bind (cdb_res (getConnection (d_connection current) (Some (pr_tenant p)))) (\<lambda>conn.
     act_bind (act_lift (getValidCloudflareAuth rtm conn)) (\<lambda>auth.
     act_bind (act_lift (buildReadyBundle (cr_now rtm) current rotated subscriptionToken (cr_base rtm))) (\<lambda>bundle.
     act_seq (uploadWorkerScript rtm auth (d_account current) (d_worker_name current) \<lparr>sp_token_hash = h, sp_bundle = json_stringify bundle\<rparr>)
     (act_seq (cdb_upd (store_rotated (cr_now rtm) (d_id current) rotatedEnc h))
     (act_seq (user_audit rtm (Some r) p ''subscription.rotate'' (d_id current) JUndef)
     (act_seq (cdb_upd (\<lambda>d. snd (disconnectConnectionIfIdle (cr_now rtm) (d_connection current) (d_id current) d)))
     (act_ret (json (JObj [(''ok'', JBool True), (''subscriptions'', subscriptionUrls current subscriptionToken)]) 200 [])))))))))))))))))"

definition retryDeployment :: "cp_runtime \<Rightarrow> request \<Rightarrow> principal \<Rightarrow> string \<Rightarrow> (cp_world, response) act" where
  "retryDeployment rtm r p i =
     act_bind (cdb_res (ownedDeployment p i)) (\<lambda>x.
     act_seq (act_when (d_status x \<notin> {Agent_ready, Failed_status}) (http_error 409 ''invalid_deployment_state''))
     (act_bind (act_lift (requestedConnectionId r)) (\<lambda>rid.
     act_seq (ensureActiveDeploymentConnection rtm p x rid)
     (let action = (if d_agent_hash x \<noteq> None \<and> d_agent_hash x \<noteq> Some [] then Finalize else Prepare) in
     act_bind (startWorkflow rtm action (d_id x)) (\<lambda>wid.
     act_seq (user_audit rtm (Some r) p (''deployment.'' @ action_name action @ ''.retry'') (d_id x) JUndef)
     (act_ret (json (JObj [(''ok'', JBool True), (''action'', JStr (action_name action)), (''workflowInstanceId'', JStr wid)]) 202 [])))))))"

definition deletable :: "dep_status \<Rightarrow> bool" where
  "deletable s \<longleftrightarrow> s \<in> {Failed_status, Revoked}"

text \<open>The four deletes; the last one cascades to the queued sleeper commands.\<close>

definition erase_deployment :: "string \<Rightarrow> string \<Rightarrow> cp_db \<Rightarrow> cp_db" where
  "erase_deployment i tenant d = d\<lparr>cp_reports := filter (\<lambda>a. ar_dep a \<noteq> i) (cp_reports d),
     cp_boot := filter (\<lambda>b. b_dep b \<noteq> i) (cp_boot d), cp_secrets := filter (\<lambda>s. fst s \<noteq> i) (cp_secrets d),
     cp_deps := filter (\<lambda>x. \<not> (d_id x = i \<and> d_tenant x = tenant)) (cp_deps d),
     cp_commands := (if list_ex (\<lambda>x. d_id x = i \<and> d_tenant x = tenant) (cp_deps d) then filter (\<lambda>c. sc_dep c \<noteq> i) (cp_commands d) else cp_commands d)\<rparr>"

definition deleteDeployment :: "cp_runtime \<Rightarrow> principal \<Rightarrow> string \<Rightarrow> (cp_world, response) act" where
  "deleteDeployment rtm p i =
     act_bind (cdb_res (ownedDeployment p i)) (\<lambda>x.
     act_seq (act_when (\<not> deletable (d_status x)) (http_error 409 ''deployment_not_deletable''))
     (act_seq (cdb_upd (erase_deployment (d_id x) (pr_tenant p)))
     (act_seq (user_audit rtm None p ''deployment.delete'' (d_id x) JUndef)
     (act_ret (json (JObj [(''ok'', JBool True), (''deleted'', JStr (d_id x))]) 200 [])))))"

definition revokeDeployment :: "cp_runtime \<Rightarrow> request \<Rightarrow> principal \<Rightarrow> string \<Rightarrow> (cp_world, response) act" where
  "revokeDeployment rtm r p i =
     act_bind (cdb_res (ownedDeployment p i)) (\<lambda>x.
     if d_status x = Revoked then act_ret (json (JObj [(''ok'', JBool True), (''status'', JStr ''revoked'')]) 200 [])
     else act_seq (act_when (d_status x = Revoking) (http_error 409 ''invalid_deployment_state''))
     (act_bind (act_lift (requestedConnectionId r)) (\<lambda>rid.
     act_seq (ensureActiveDeploymentConnection rtm p x rid)
     (act_seq (cdb_upd (dep_status_is (cr_now rtm) (d_id x) Revoking None))
     (act_bind (act_catch (startWorkflow rtm Revoke (d_id x)) (\<lambda>e.
         act_seq (cdb_upd (dep_status_is (cr_now rtm) (d_id x) (d_status x) (Some ''revoke_workflow_start_failed''))) (act_throw e))) (\<lambda>wid.
     act_seq (user_audit rtm (Some r) p ''deployment.revoke.request'' (d_id x) JUndef)
     (act_ret (json (JObj [(''ok'', JBool True), (''status'', JStr ''revoking''), (''workflowInstanceId'', JStr wid)]) 202 []))))))))"

subsection \<open>Connections: oauth.ts\<close>

definition conn_row :: "connection \<Rightarrow> jval" where
  "conn_row c = JObj [(''id'', JStr (c_id c)), (''auth_type'', JStr (c_auth_type c)), (''scopes'', opt_str (c_scopes c)),
     (''expires_at'', opt_str (map_option iso_string (c_expires c))), (''resource_account_id'', opt_str (c_account c)),
     (''resource_account_name'', opt_str (c_account_name c)), (''resource_zone_id'', opt_str (c_zone c)),
     (''resource_zone_name'', opt_str (c_zone_name c)), (''created_at'', JStr (iso_string (c_created c))),
     (''updated_at'', JStr (iso_string (c_updated c)))]"

definition listed :: "num \<Rightarrow> string \<Rightarrow> connection \<Rightarrow> bool" where
  "listed now tenant c \<longleftrightarrow> c_tenant c = tenant \<and> c_revoked c = None \<and>
     (c_auth_type c \<noteq> ''api_token'' \<or> (case c_expires c of None \<Rightarrow> False | Some t \<Rightarrow> now < t))"

definition listCloudflareConnections :: "cp_runtime \<Rightarrow> principal \<Rightarrow> (cp_world, response) act" where
  "listCloudflareConnections rtm p =
     cdb_get (\<lambda>d. json (JObj [(''connections'', JArr (map conn_row (sort_by (\<lambda>a b. c_created b \<le> c_created a)
       (filter (listed (cr_now rtm) (pr_tenant p)) (cp_conns d)))))]) 200 [])"

definition disconnectCloudflareConnection :: "cp_runtime \<Rightarrow> request \<Rightarrow> principal \<Rightarrow> string \<Rightarrow> (cp_world, response) act" where
  "disconnectCloudflareConnection rtm r p cid =
     act_bind (cdb_get (\<lambda>d. list_ex (\<lambda>x. d_connection x = cid \<and> working (d_status x)) (cp_deps d))) (\<lambda>busy.
     act_seq (act_when busy (http_error 409 ''cloudflare_connection_busy''))
     (act_bind (cdb_res (getConnection cid (Some (pr_tenant p)))) (\<lambda>c.
     act_seq (cdb_upd (revokeConnectionGrant (cr_now rtm) c))
     (act_seq (user_audit rtm (Some r) p ''cloudflare.connection.disconnect'' cid JUndef)
     (act_ret (json (JObj [(''ok'', JBool True), (''status'', JStr ''disconnected'')]) 200 []))))))"

definition bound_pair :: "string option \<Rightarrow> string option \<Rightarrow> (string \<times> string) res" where
  "bound_pair a b = (case (a, b) of (Some x, Some y) \<Rightarrow> if x = [] \<or> y = [] then Inl (http_error 500 ''connection_resource_missing'') else Inr (x, y)
     | _ \<Rightarrow> Inl (http_error 500 ''connection_resource_missing''))"

definition listCloudflareAccounts :: "principal \<Rightarrow> string \<Rightarrow> (cp_world, response) act" where
  "listCloudflareAccounts p cid =
     act_bind (cdb_res (getConnection cid (Some (pr_tenant p)))) (\<lambda>c.
     act_seq (act_when (c_auth_type c \<noteq> ''api_token'') (http_error 410 ''oauth_connection_unsupported''))
     (act_bind (act_lift (bound_pair (c_account c) (c_account_name c))) (\<lambda>(i, name).
     act_ret (json (JObj [(''accounts'', JArr [JObj [(''id'', JStr i), (''name'', JStr name)]])]) 200 []))))"

definition listCloudflareZones :: "principal \<Rightarrow> string \<Rightarrow> string \<Rightarrow> (cp_world, response) act" where
  "listCloudflareZones p cid accountId =
     act_bind (cdb_res (getConnection cid (Some (pr_tenant p)))) (\<lambda>c.
     act_seq (act_when (c_auth_type c \<noteq> ''api_token'') (http_error 410 ''oauth_connection_unsupported''))
     (act_seq (act_when (c_account c \<noteq> Some accountId) (http_error 403 ''cloudflare_resource_mismatch''))
     (act_bind (act_lift (bound_pair (c_zone c) (c_zone_name c))) (\<lambda>(i, name).
     act_ret (json (JObj [(''zones'', JArr [JObj [(''id'', JStr i), (''name'', JStr name), (''status'', JStr ''active'')]])]) 200 [])))))"

end
