(* ===== verification/Cp_Agent.thy ===== *)
theory Cp_Agent
  imports Cp_Deploy
begin

text \<open>
  The endpoints that a node calls (\<^verbatim>\<open>src/agent.ts\<close>, the part after the script template) and the two ways to connect a
  Cloudflare API token (\<^verbatim>\<open>src/api-token.ts\<close>). The text of the bootstrap script is the parameter \<open>render\<close>.
\<close>

subsection \<open>agent.ts\<close>

definition bearer_or_empty :: "request \<Rightarrow> string" where
  "bearer_or_empty r = (case bearerToken r of None \<Rightarrow> [] | Some t \<Rightarrow> t)"

definition boot_record :: "cp_runtime \<Rightarrow> string \<Rightarrow> cp_db \<Rightarrow> deployment option" where
  "boot_record rtm h d =
     (case find (\<lambda>b. b_hash b = h \<and> b_consumed b = None \<and> cr_now rtm < b_expires b) (cp_boot d) of
        None \<Rightarrow> None | Some b \<Rightarrow> find (\<lambda>x. d_id x = b_dep b) (cp_deps d))"

definition getBootstrapRecord :: "cp_runtime \<Rightarrow> request \<Rightarrow> cp_db \<Rightarrow> (deployment \<times> string) res" where
  "getBootstrapRecord rtm r d =
     (let token = bearer_or_empty r in
      if length token < 43 \<or> 128 < length token then Inl (http_error 401 ''invalid_bootstrap_token'')
      else case boot_record rtm (cp_sha256 (cr_P rtm) token) d of
        None \<Rightarrow> Inl (http_error 401 ''invalid_bootstrap_token'') | Some x \<Rightarrow> Inr (x, token))"

definition agent_audit :: "cp_runtime \<Rightarrow> request \<Rightarrow> deployment \<Rightarrow> string \<Rightarrow> jval \<Rightarrow> (cp_world, unit) act" where
  "agent_audit rtm r x action metadata =
     cdb_upd (cp_audit rtm (Some (d_tenant x)) ''agent'' (Some (d_id x)) action (Some (d_id x)) ''success'' (Some r) metadata)"

definition serveBootstrap :: "(deployment \<Rightarrow> string \<Rightarrow> string) \<Rightarrow> cp_runtime \<Rightarrow> request \<Rightarrow> (cp_world, response) act" where
  "serveBootstrap render rtm r =
     act_bind (cdb_res (getBootstrapRecord rtm r)) (\<lambda>(x, token).
     act_bind (cdb_run (rateLimit rtm (''bootstrap:'' @ d_id x) 10 300)) (\<lambda>allowed.
     act_seq (act_when (\<not> allowed) (http_error 429 ''rate_limited''))
     (act_seq (agent_audit rtm r x ''bootstrap.download'' JUndef)
     (act_ret \<lparr>rs_status = 200, rs_headers = [(''content-type'', ''text/x-shellscript; charset=utf-8''),
         (''content-disposition'', ''attachment; filename='' @ [CHR 0x22] @ ''v13-bootstrap-'' @ d_id x @ ''.sh'' @ [CHR 0x22])],
       rs_body = Text (render x token)\<rparr>))))"

definition merge_secrets :: "jval \<Rightarrow> jval \<Rightarrow> jval" where
  "merge_secrets bundle payload =
     JObj (fold (\<lambda>(k, f). upsert k (fld payload f))
       [(''vlessPort'', ''vlessPort''), (''vlessUuid'', ''vlessUuid''), (''realityPublicKey'', ''realityPublicKey''),
        (''realityShortId'', ''realityShortId''), (''hysteria2Password'', ''hysteria2Password''),
        (''hysteria2CertSha256'', ''hysteria2CertSha256''), (''hysteria2SpkiSha256'', ''hysteria2SpkiSha256''),
        (''nodeConfigSha256'', ''configSha256'')] (obj_fields bundle))"

definition consume_boot :: "num \<Rightarrow> string \<Rightarrow> (cp_db, nat) act" where
  "consume_boot now h d =
     (let hit = (\<lambda>b. b_hash b = h \<and> b_consumed b = None) in
      (Inr (length (filter hit (cp_boot d))), d\<lparr>cp_boot := map (\<lambda>b. if hit b then b\<lparr>b_consumed := Some now\<rparr> else b) (cp_boot d)\<rparr>))"

definition store_agent :: "num \<Rightarrow> string \<Rightarrow> string \<Rightarrow> string \<Rightarrow> cp_db \<Rightarrow> cp_db" where
  "store_agent now i enc h d =
     set_dep i (\<lambda>x. x\<lparr>d_agent_hash := Some h, d_status := Agent_ready, d_detail := None, d_updated := now\<rparr>)
       (d\<lparr>cp_secrets := map (\<lambda>(k, v, n). if k = i then (k, enc, Suc n) else (k, v, n)) (cp_secrets d)\<rparr>)"

definition completeBootstrap :: "cp_runtime \<Rightarrow> request \<Rightarrow> (cp_world, response) act" where
  "completeBootstrap rtm r =
     act_bind (cdb_res (getBootstrapRecord rtm r)) (\<lambda>(x, token).
     act_bind (act_lift (cp_readJson r 16384)) (\<lambda>payload.
     act_seq (act_lift (assertAgentCompletePayload payload))
     (act_seq (act_when (fld payload ''deploymentId'' \<noteq> JStr (d_id x) \<or> fld payload ''singBoxVersion'' \<noteq> JStr (cr_version rtm))
         (http_error 400 ''deployment_mismatch''))
     (act_bind (cdb_get (secret_of (d_id x))) (\<lambda>row.
     act_bind (act_lift (case row of None \<Rightarrow> Inl (JsError ''Deployment secret bundle is missing'') | Some e \<Rightarrow> Inr e)) (\<lambda>enc.
     act_bind (act_lift (decryptJson (cr_P rtm) enc (cr_key rtm) (dep_aad (d_id x)))) (\<lambda>bundle.
     act_bind (act_lift (encryptJson (cr_P rtm) (cr_envelope rtm) (merge_secrets bundle payload) (cr_key rtm) (dep_aad (d_id x)))) (\<lambda>encrypted.
     act_bind (cdb_run (consume_boot (cr_now rtm) (cp_sha256 (cr_P rtm) token))) (\<lambda>changes.
     act_seq (act_when (changes \<noteq> 1) (http_error 409 ''bootstrap_used''))
     (act_seq (cdb_upd (store_agent (cr_now rtm) (d_id x) encrypted (cp_sha256 (cr_P rtm) (to_str (fld payload ''agentToken'')))))
     (act_bind (startWorkflow rtm Finalize (d_id x)) (\<lambda>_.
     act_seq (agent_audit rtm r x ''bootstrap.complete'' (JObj [(''singBoxVersion'', fld payload ''singBoxVersion'')]))
     (act_ret (json (JObj [(''ok'', JBool True), (''status'', JStr ''finalizing'')]) 200 []))))))))))))))"

definition report_ok :: "jval \<Rightarrow> bool" where
  "report_ok b \<longleftrightarrow> str_field id36 (fld b ''deploymentId'') \<and>
     fld b ''status'' \<in> {JStr ''healthy'', JStr ''degraded'', JStr ''failed''} \<and> fld b ''serviceActive'' \<in> {JBool True, JBool False} \<and>
     str_field (\<lambda>s. length s \<le> 32) (fld b ''singBoxVersion'') \<and> str_field (hex_text 64) (fld b ''configSha256'')"

definition opt_field :: "(string \<Rightarrow> bool) \<Rightarrow> jval \<Rightarrow> string option" where
  "opt_field q v = (case v of JStr s \<Rightarrow> if q s then Some s else None | _ \<Rightarrow> None)"

definition or_else :: "'a option \<Rightarrow> 'a option \<Rightarrow> 'a option" where
  "or_else a b = (case a of None \<Rightarrow> b | Some x \<Rightarrow> Some x)"

definition store_report :: "num \<Rightarrow> string \<Rightarrow> jval \<Rightarrow> report_extras \<Rightarrow> cp_db \<Rightarrow> cp_db" where
  "store_report now i b extras d =
     set_dep i (\<lambda>x. x\<lparr>d_last_seen := Some now, d_updated := now, d_tunnel_mtu := or_else (rx_mtuBytes extras) (d_tunnel_mtu x),
         d_dnstt_key := or_else (opt_field (hex_text 64) (fld b ''dnsttPublicKey'')) (d_dnstt_key x),
         d_slip_spki := or_else (opt_field spki_text (fld b ''slipstreamSpkiSha256'')) (d_slip_spki x)\<rparr>)
       (d\<lparr>cp_reports := cp_reports d @ [\<lparr>ar_dep = i, ar_status = to_str (fld b ''status''), ar_version = to_str (fld b ''singBoxVersion''),
          ar_active = truthy (fld b ''serviceActive''), ar_config = to_str (fld b ''configSha256''), ar_extras = extras, ar_at = now\<rparr>]\<rparr>)"

definition receiveAgentReport :: "cp_runtime \<Rightarrow> request \<Rightarrow> (cp_world, response) act" where
  "receiveAgentReport rtm r =
     (let token = bearer_or_empty r in
     act_seq (act_when (length token < 43 \<or> 128 < length token) (http_error 401 ''invalid_agent_token''))
     (act_bind (act_lift (res_bind (cp_readJson r 8192) need_obj)) (\<lambda>b.
     act_seq (act_when (\<not> report_ok b) (http_error 400 ''invalid_report''))
     (act_bind (cdb_get (\<lambda>d. find (\<lambda>x. d_id x = to_str (fld b ''deploymentId'')) (cp_deps d))) (\<lambda>found.
     case found of None \<Rightarrow> act_throw (http_error 401 ''invalid_agent_token'')
     | Some x \<Rightarrow>
     act_seq (act_when (d_agent_hash x = Some [] \<or> d_agent_hash x \<noteq> Some (cp_sha256 (cr_P rtm) token)) (http_error 401 ''invalid_agent_token''))
     (act_bind (cdb_run (rateLimit rtm (''agent-report:'' @ d_id x) 12 60)) (\<lambda>allowed.
     act_seq (act_when (\<not> allowed) (http_error 429 ''rate_limited''))
     (act_seq (cdb_upd (store_report (cr_now rtm) (d_id x) b (extractAgentReportExtras b)))
     (act_ret (json (JObj [(''ok'', JBool True)]) 200 []))))))))))"

subsection \<open>api-token.ts\<close>

definition token_error :: "string \<Rightarrow> exn" where
  "token_error code = http_error 401 code"

fun validateApiToken :: "jval \<Rightarrow> string res" where
  "validateApiToken (JStr s) = (let token = trim s in if token_text 20 256 token then Inr token else Inl (http_error 400 ''invalid_api_token''))"
| "validateApiToken v = Inl (http_error 400 ''invalid_api_token'')"

definition effectiveExpiry :: "cp_runtime \<Rightarrow> jval \<Rightarrow> num res" where
  "effectiveExpiry rtm remoteExpiry =
     (let ttl = parsePositiveInt (case cr_token_ttl rtm of None \<Rightarrow> ''7200'' | Some t \<Rightarrow> t) 7200 86400;
          localExpiry = addSecondsIso (cr_now rtm) ttl in
      if \<not> truthy remoteExpiry then Inr localExpiry
      else case cr_date_parse rtm (to_str remoteExpiry) of
        None \<Rightarrow> Inl (token_error ''cloudflare_token_expired'')
      | Some remote \<Rightarrow> if remote \<le> cr_now rtm then Inl (token_error ''cloudflare_token_expired'') else Inr (min localExpiry remote))"

text \<open>A \<open>try\<close> around one API call that turns every failure into one error.\<close>

definition or_error :: "exn \<Rightarrow> 'a res \<Rightarrow> 'a res" where
  "or_error e m = (case m of Inl _ \<Rightarrow> Inl e | Inr x \<Rightarrow> Inr x)"

fun arr_of :: "jval \<Rightarrow> jval list res" where
  "arr_of (JArr xs) = Inr xs"
| "arr_of v = Inl (JsError ''TypeError'')"

fun dns_editable :: "jval \<Rightarrow> bool res" where
  "dns_editable (JArr ps) = Inr (JStr ''#dns_records:edit'' \<in> set ps)"
| "dns_editable (JStr s) = Inr (contains_str ''#dns_records:edit'' s)"
| "dns_editable v = (if nullish v then Inr False else Inl (JsError ''TypeError''))"

fun is_array :: "jval \<Rightarrow> bool" where
  "is_array (JArr xs) = True"
| "is_array v = False"

fun filter_editable :: "jval list \<Rightarrow> jval list res" where
  "filter_editable [] = Inr []"
| "filter_editable (z # zs) =
     res_bind (dns_editable (fld z ''permissions'')) (\<lambda>b. res_bind (filter_editable zs) (\<lambda>r. Inr (if b then z # r else r)))"

definition text_between :: "nat \<Rightarrow> jval \<Rightarrow> bool" where
  "text_between n v = str_field (\<lambda>s. s \<noteq> [] \<and> length s \<le> n) v"

text \<open>The one zone that the token may edit, from the listing.\<close>

definition single_zone :: "jval \<Rightarrow> jval res" where
  "single_zone listing =
     res_bind (arr_of listing) (\<lambda>zones.
     if zones = [] then Inl (http_error 403 ''cloudflare_zone_unavailable'')
     else if list_ex nullish zones then Inl (JsError ''TypeError'')
     else res_bind (if list_ex (\<lambda>z. is_array (fld z ''permissions'')) zones then filter_editable zones else Inr zones) (\<lambda>manageable.
       case manageable of
         [zone] \<Rightarrow>
           if fld zone ''status'' \<noteq> JStr ''active'' then Inl (http_error 403 ''cloudflare_zone_inactive'')
           else if \<not> isValidCloudflareId (to_str (fld zone ''id'')) \<or>
                   \<not> isValidCloudflareId (to_str (js_coalesce (fld (fld zone ''account'') ''id'') (JStr []))) \<or>
                   \<not> text_between 253 (fld zone ''name'') \<or> \<not> text_between 200 (fld (fld zone ''account'') ''name'')
           then Inl (http_error 502 ''cloudflare_resource_invalid'')
           else Inr zone
       | _ \<Rightarrow> Inl (http_error 403 ''cloudflare_token_scope_too_broad'')))"

definition live_tokens :: "num \<Rightarrow> string \<Rightarrow> cp_db \<Rightarrow> nat" where
  "live_tokens now tenant d =
     length (filter (\<lambda>c. c_tenant c = tenant \<and> c_auth_type c = ''api_token'' \<and> c_revoked c = None \<and>
       (case c_expires c of None \<Rightarrow> False | Some t \<Rightarrow> now < t)) (cp_conns d))"

fun cf_user_of :: "jval \<Rightarrow> string option res" where
  "cf_user_of (JStr s) = Inr (Some (take 128 s))"
| "cf_user_of v = (if nullish v then Inr None else Inl (JsError ''TypeError''))"

definition insert_connection :: "connection \<Rightarrow> (cp_db, unit) act" where
  "insert_connection c d =
     (if c_id c \<in> c_id ` set (cp_conns d) then (Inl (JsError ''UNIQUE constraint failed''), d)
      else (Inr (), d\<lparr>cp_conns := cp_conns d @ [c]\<rparr>))"

definition token_connection :: "cp_runtime \<Rightarrow> string \<Rightarrow> string \<Rightarrow> num \<Rightarrow> string \<Rightarrow> string option \<Rightarrow> string \<Rightarrow> string \<Rightarrow> string option \<Rightarrow> string option \<Rightarrow> connection" where
  "token_connection rtm tenant enc expires scopes user account accountName zone zoneName =
     \<lparr>c_id = cr_uuid rtm, c_tenant = tenant, c_auth_type = ''api_token'', c_token_enc = enc, c_refresh_enc = None,
      c_expires = Some expires, c_scopes = Some scopes, c_cf_user = user, c_cf_email = None, c_account = Some account,
      c_account_name = Some accountName, c_zone = zone, c_zone_name = zoneName, c_revoked = None,
      c_created = cr_now rtm, c_updated = cr_now rtm\<rparr>"

definition token_aad :: "string \<Rightarrow> string" where
  "token_aad i = ''cloudflare:'' @ i @ '':api-token''"

definition verify_token :: "cp_runtime \<Rightarrow> string \<Rightarrow> jval res" where
  "verify_token rtm token =
     res_bind (or_error (token_error ''cloudflare_token_rejected'') (cloudflareApi rtm token ''GET'' ''/user/tokens/verify'' [])) (\<lambda>v.
     res_bind (need_obj v) (\<lambda>verification.
       if fld verification ''status'' \<noteq> JStr ''active'' then Inl (token_error ''cloudflare_token_inactive'') else Inr verification))"

definition connect_limit :: "cp_runtime \<Rightarrow> string \<Rightarrow> (cp_world, unit) act" where
  "connect_limit rtm key =
     act_bind (cdb_run (rateLimit rtm key 10 600)) (\<lambda>allowed.
     act_seq (act_when (\<not> allowed) (http_error 429 ''rate_limited''))
       (cdb_upd (\<lambda>d. snd (eraseExpiredApiTokens (cr_now rtm) d))))"

definition createTemporaryApiTokenConnection :: "cp_runtime \<Rightarrow> request \<Rightarrow> principal \<Rightarrow> (cp_world, response) act" where
  "createTemporaryApiTokenConnection rtm r p =
     act_seq (connect_limit rtm (''api-token-connect:'' @ pr_tenant p))
     (act_bind (act_lift (res_bind (cp_readJson r 4096) need_obj)) (\<lambda>body.
     act_bind (act_lift (validateApiToken (fld body ''apiToken''))) (\<lambda>token.
     act_bind (act_lift (verify_token rtm token)) (\<lambda>verification.
     act_seq (act_when (truthy (fld verification ''not_before'') \<and>
         (case cr_date_parse rtm (to_str (fld verification ''not_before'')) of None \<Rightarrow> False | Some t \<Rightarrow> cr_now rtm < t))
       (token_error ''cloudflare_token_not_active_yet''))
     (act_bind (act_lift (effectiveExpiry rtm (fld verification ''expires_on''))) (\<lambda>expires.
     act_bind (act_lift (res_bind (or_error (http_error 403 ''cloudflare_zone_read_missing'')
         (cloudflareApi rtm token ''GET'' ''/zones?per_page=50'' [])) single_zone)) (\<lambda>zone.
     let zid = to_str (fld zone ''id''); zname = to_str (fld zone ''name''); aid = to_str (fld (fld zone ''account'') ''id'');
         aname = to_str (fld (fld zone ''account'') ''name'') in
     act_bind (act_lift (or_error (http_error 403 ''cloudflare_dns_permission_missing'')
         (cloudflareApi rtm token ''GET'' (''/zones/'' @ zid @ ''/dns_records?per_page=1'') []))) (\<lambda>_.
     act_bind (act_lift (or_error (http_error 403 ''cloudflare_workers_permission_missing'')
         (cloudflareApi rtm token ''GET'' (''/accounts/'' @ aid @ ''/workers/scripts?per_page=1'') []))) (\<lambda>_.
     act_bind (cdb_get (live_tokens (cr_now rtm) (pr_tenant p))) (\<lambda>existing.
     act_seq (act_when (3 \<le> existing) (http_error 409 ''too_many_connections''))
     (let i = cr_uuid rtm in
     act_bind (act_lift (encryptJson (cr_P rtm) (cr_envelope rtm) (JStr token) (cr_key rtm) (token_aad i))) (\<lambda>enc.
     act_bind (act_lift (cf_user_of (fld verification ''id''))) (\<lambda>user.
     act_seq (cdb_run (insert_connection (token_connection rtm (pr_tenant p) enc expires ''scoped-api-token'' user aid (take 200 aname)
         (Some zid) (Some (take 253 zname)))))
     (act_seq (user_audit rtm (Some r) p ''cloudflare.api_token.connect'' i
         (JObj [(''expiresAt'', JStr (iso_string expires)), (''accountId'', JStr aid), (''zoneId'', JStr zid)]))
     (act_ret (json (JObj [(''connection'', JObj [(''id'', JStr i), (''authType'', JStr ''api_token''), (''expiresAt'', JStr (iso_string expires)),
         (''account'', JObj [(''id'', JStr aid), (''name'', JStr aname)]), (''zone'', JObj [(''id'', JStr zid), (''name'', JStr zname)])])]) 201 []))))))))))))))))"

text \<open>
  The account of a panel token: that of the first zone, or the first account. In the source a zone or account name that is not
  a text throws where it is cut to length; so it does here.
\<close>

definition first_zone :: "cp_runtime \<Rightarrow> string \<Rightarrow> jval" where
  "first_zone rtm token =
     (case res_bind (cloudflareApi rtm token ''GET'' ''/zones?per_page=50'' []) first_of of Inl _ \<Rightarrow> JUndef | Inr z \<Rightarrow> z)"

definition panel_account :: "cp_runtime \<Rightarrow> string \<Rightarrow> (jval \<times> jval \<times> jval \<times> jval) res" where
  "panel_account rtm token =
     (let z = first_zone rtm token in
      if truthy (fld (fld z ''account'') ''id'')
      then Inr (fld (fld z ''account'') ''id'', fld (fld z ''account'') ''name'', fld z ''id'', fld z ''name'')
      else res_bind (or_error (http_error 403 ''cloudflare_scope_missing'')
             (res_bind (cloudflareApi rtm token ''GET'' ''/accounts?per_page=1'' []) first_of)) (\<lambda>a.
           if truthy (fld a ''id'') then Inr (fld a ''id'', js_coalesce (fld a ''name'') (JStr []), JNull, JNull)
           else Inl (http_error 403 ''cloudflare_scope_missing'')))"

fun cut_text :: "nat \<Rightarrow> jval \<Rightarrow> string res" where
  "cut_text n (JStr s) = Inr (take n s)"
| "cut_text n v = Inl (JsError ''TypeError'')"

definition opt_cut :: "nat \<Rightarrow> jval \<Rightarrow> string option res" where
  "opt_cut n v = (if truthy v then res_bind (cut_text n v) (\<lambda>s. Inr (Some s)) else Inr None)"

definition connectPanelTokenFromChat :: "cp_runtime \<Rightarrow> string \<Rightarrow> string \<Rightarrow> string \<Rightarrow> (cp_world, string) act" where
  "connectPanelTokenFromChat rtm tenant telegram apiToken =
     act_seq (connect_limit rtm (''panel-token-connect:'' @ tenant))
     (act_bind (act_lift (validateApiToken (JStr apiToken))) (\<lambda>token.
     act_bind (act_lift (verify_token rtm token)) (\<lambda>verification.
     act_bind (act_lift (panel_account rtm token)) (\<lambda>(aid, aname, zid, zname).
     act_bind (act_lift (or_error (http_error 403 ''cloudflare_workers_permission_missing'')
         (cloudflareApi rtm token ''GET'' (''/accounts/'' @ to_str aid @ ''/workers/scripts?per_page=1'') []))) (\<lambda>_.
     act_bind (cdb_get (live_tokens (cr_now rtm) tenant)) (\<lambda>existing.
     act_seq (act_when (3 \<le> existing) (http_error 409 ''too_many_connections''))
     (let i = cr_uuid rtm in
     act_bind (act_lift (effectiveExpiry rtm (fld verification ''expires_on''))) (\<lambda>expires.
     act_bind (act_lift (encryptJson (cr_P rtm) (cr_envelope rtm) (JStr token) (cr_key rtm) (token_aad i))) (\<lambda>enc.
     act_bind (act_lift (cf_user_of (fld verification ''id''))) (\<lambda>user.
     act_bind (act_lift (cut_text 200 aname)) (\<lambda>accountName.
     act_bind (act_lift (opt_cut 253 zname)) (\<lambda>zoneName.
     act_seq (cdb_run (insert_connection (token_connection rtm tenant enc expires ''panel-api-token'' user (to_str aid) accountName
         (if nullish zid then None else Some (to_str zid)) zoneName)))
     (act_seq (cdb_upd (cp_audit rtm (Some tenant) ''user'' (Some telegram) ''cloudflare.panel_token.connect'' (Some i) ''success'' None
         (JObj [(''expiresAt'', JStr (iso_string expires)), (''accountId'', aid), (''zoneId'', zid)])))
     (act_ret i))))))))))))))"

end
