(* ===== verification/Cp_Workflow.thy ===== *)
theory Cp_Workflow
  imports Cp_Agent
begin

text \<open>
  The provisioning workflow (\<^verbatim>\<open>src/workflow.ts\<close>). An instance is a \<open>flow\<close>: a program counter over the durable steps of
  its action, with what earlier steps have returned. \<open>flow_step\<close> is one attempt of the current step (or the code between two
  steps): an attempt that throws is repeated until the sixth, then the exception reaches \<open>run\<close>. What a failed attempt wrote stays written.
  Attempts of different instances and requests interleave.
\<close>

subsection \<open>Helpers of the workflow\<close>

definition loadDeployment :: "string \<Rightarrow> cp_db \<Rightarrow> deployment res" where
  "loadDeployment i d =
     (case find (\<lambda>x. d_id x = i) (cp_deps d) of None \<Rightarrow> Inl (JsError ''Deployment not found'') | Some x \<Rightarrow> Inr x)"

definition updateStatus :: "cp_runtime \<Rightarrow> string \<Rightarrow> dep_status \<Rightarrow> string option \<Rightarrow> (cp_world, unit) act" where
  "updateStatus rtm i s detail = cdb_upd (dep_status_is (cr_now rtm) i s detail)"

definition telegramUserId :: "string \<Rightarrow> cp_db \<Rightarrow> string option" where
  "telegramUserId tenant d = map_option t_telegram (find (\<lambda>t. t_id t = tenant) (cp_tenants d))"

definition notify :: "cp_runtime \<Rightarrow> deployment \<Rightarrow> (cp_world, unit) act" where
  "notify rtm x =
     act_bind (cdb_get (telegramUserId (d_tenant x))) (\<lambda>u.
       if u = None \<or> u = Some [] then act_ret () else act_lift (cr_telegram rtm))"

definition flow_audit :: "cp_runtime \<Rightarrow> deployment \<Rightarrow> string \<Rightarrow> string \<Rightarrow> string \<Rightarrow> jval \<Rightarrow> (cp_world, unit) act" where
  "flow_audit rtm x action resource outcome metadata =
     cdb_upd (cp_audit rtm (Some (d_tenant x)) ''workflow'' None action (Some resource) outcome None metadata)"

definition error_type :: "exn \<Rightarrow> jval" where
  "error_type e = JObj [(''errorType'', JStr (case e of HttpError _ _ _ _ _ \<Rightarrow> ''HttpError'' | _ \<Rightarrow> ''Error''))]"

definition connection_auth :: "cp_runtime \<Rightarrow> string \<Rightarrow> (cp_world, string) act" where
  "connection_auth rtm cid =
     act_bind (cdb_res (getConnection cid None)) (\<lambda>conn. act_lift (getValidCloudflareAuth rtm conn))"

subsection \<open>The steps\<close>

definition configure_dns :: "cp_runtime \<Rightarrow> deployment \<Rightarrow> (cp_world, unit) act" where
  "configure_dns rtm x =
     act_bind (connection_auth rtm (d_connection x)) (\<lambda>auth.
     act_seq (act_lift (verifyZoneOwnership rtm auth (d_zone x) (d_account x)))
     (act_bind (upsertARecord rtm auth (d_zone x) (d_node_hostname x) (d_vps x)) (\<lambda>_. act_ret ())))"

definition deploy_pending :: "cp_runtime \<Rightarrow> deployment \<Rightarrow> (cp_world, unit) act" where
  "deploy_pending rtm x =
     act_bind (connection_auth rtm (d_connection x)) (\<lambda>auth.
     act_seq (uploadWorkerScript rtm auth (d_account x) (d_worker_name x)
         \<lparr>sp_token_hash = d_sub_hash x, sp_bundle = json_stringify (buildPendingBundle (cr_now rtm) x)\<rparr>)
       (attachWorkerDomain rtm auth (d_account x) (d_zone x) (d_worker_hostname x) (d_worker_name x)))"

definition mark_awaiting :: "cp_runtime \<Rightarrow> deployment \<Rightarrow> (cp_world, unit) act" where
  "mark_awaiting rtm x =
     act_seq (updateStatus rtm (d_id x) Awaiting_agent None)
     (act_seq (flow_audit rtm x ''deployment.prepare'' (d_id x) ''success'' JUndef) (notify rtm x))"

definition publish_profiles :: "cp_runtime \<Rightarrow> deployment \<Rightarrow> (cp_world, unit) act" where
  "publish_profiles rtm x =
     act_bind (cdb_res (loadDeployment (d_id x))) (\<lambda>current.
     act_seq (act_when (d_agent_hash current = None \<or> d_agent_hash current = Some []) (JsError ''Agent bootstrap has not completed''))
     (act_bind (cdb_get (secret_of (d_id current))) (\<lambda>row.
     act_bind (act_lift (case row of None \<Rightarrow> Inl (JsError ''Deployment secrets not found'') | Some e \<Rightarrow> Inr e)) (\<lambda>enc.
     act_bind (act_lift (res_bind (decryptJson (cr_P rtm) enc (cr_key rtm) (dep_aad (d_id current))) need_obj)) (\<lambda>secrets.
     act_bind (connection_auth rtm (d_connection current)) (\<lambda>auth.
     act_bind (act_lift (buildReadyBundle (cr_now rtm) current secrets
         (to_str (js_coalesce (fld secrets ''subscriptionToken'') (JStr []))) (cr_base rtm))) (\<lambda>bundle.
     uploadWorkerScript rtm auth (d_account current) (d_worker_name current)
       \<lparr>sp_token_hash = d_sub_hash current, sp_bundle = json_stringify bundle\<rparr>)))))))"

definition mark_ready :: "cp_runtime \<Rightarrow> deployment \<Rightarrow> (cp_world, unit) act" where
  "mark_ready rtm x =
     act_seq (updateStatus rtm (d_id x) Ready None)
     (act_seq (flow_audit rtm x ''deployment.finalize'' (d_id x) ''success'' JUndef) (notify rtm x))"

definition erase_access :: "cp_runtime \<Rightarrow> deployment \<Rightarrow> (cp_world, bool) act" where
  "erase_access rtm x = cdb_run (\<lambda>d. case disconnectConnectionIfIdle (cr_now rtm) (d_connection x) (d_id x) d of (b, d') \<Rightarrow> (Inr b, d'))"

definition disable_data_plane :: "cp_runtime \<Rightarrow> deployment \<Rightarrow> string \<Rightarrow> (cp_world, unit) act" where
  "disable_data_plane rtm x replacementHash =
     act_bind (connection_auth rtm (d_connection x)) (\<lambda>auth.
     uploadWorkerScript rtm auth (d_account x) (d_worker_name x)
       \<lparr>sp_token_hash = replacementHash, sp_bundle = json_stringify (buildPendingBundle (cr_now rtm) x)\<rparr>)"

definition mark_revoked :: "cp_runtime \<Rightarrow> deployment \<Rightarrow> string \<Rightarrow> (cp_world, unit) act" where
  "mark_revoked rtm x replacementHash =
     act_seq (cdb_upd (\<lambda>d. (set_dep (d_id x) (\<lambda>y. y\<lparr>d_status := Revoked, d_detail := None, d_sub_hash := replacementHash,
         d_agent_hash := None, d_updated := cr_now rtm\<rparr>) d)))
     (act_seq (cdb_upd (\<lambda>d. d\<lparr>cp_boot := filter (\<lambda>b. b_dep b \<noteq> d_id x) (cp_boot d)\<rparr>))
     (act_seq (flow_audit rtm x ''deployment.revoke'' (d_id x) ''success'' JUndef) (notify rtm x)))"

definition erase_failure :: "cp_runtime \<Rightarrow> deployment \<Rightarrow> (cp_world, unit) act" where
  "erase_failure rtm x =
     flow_audit rtm x ''cloudflare.connection.auto_disconnect'' (d_connection x) ''failure'' (error_type (JsError []))"

subsection \<open>An attempt\<close>

definition goto :: "flow_pc \<Rightarrow> flow \<Rightarrow> flow" where
  "goto pc f = f\<lparr>fw_pc := pc, fw_tries := 0\<rparr>"

definition then_goto :: "(cp_world, 'a) act \<Rightarrow> flow_pc \<Rightarrow> flow \<Rightarrow> (cp_world, flow) act" where
  "then_goto m pc f = act_bind m (\<lambda>_. act_ret (goto pc f))"

fun first_pc :: "flow_action \<Rightarrow> flow_pc" where
  "first_pc Prepare = Mark_preparing"
| "first_pc Finalize = Mark_finalizing"
| "first_pc Revoke = New_hash"

definition flow_dep :: "flow \<Rightarrow> (deployment \<Rightarrow> (cp_world, flow) act) \<Rightarrow> (cp_world, flow) act" where
  "flow_dep f k = (case fw_loaded f of None \<Rightarrow> act_ret f | Some x \<Rightarrow> k x)"

definition flow_body :: "cp_runtime \<Rightarrow> flow \<Rightarrow> (cp_world, flow) act" where
  "flow_body rtm f =
     (case fw_pc f of
        Load_deployment \<Rightarrow> act_bind (cdb_res (loadDeployment (fw_dep f))) (\<lambda>x. act_ret (goto (first_pc (fw_action f)) (f\<lparr>fw_loaded := Some x\<rparr>)))
      | Mark_preparing \<Rightarrow> flow_dep f (\<lambda>x. then_goto (updateStatus rtm (d_id x) Preparing None) Configure_dns f)
      | Configure_dns \<Rightarrow> flow_dep f (\<lambda>x. then_goto (configure_dns rtm x) Deploy_pending f)
      | Deploy_pending \<Rightarrow> flow_dep f (\<lambda>x. then_goto (deploy_pending rtm x) Mark_awaiting f)
      | Mark_awaiting \<Rightarrow> flow_dep f (\<lambda>x. then_goto (mark_awaiting rtm x) (Returned ''awaiting_agent'') f)
      | Mark_finalizing \<Rightarrow> flow_dep f (\<lambda>x. then_goto (updateStatus rtm (d_id x) Finalizing None) Publish_profiles f)
      | Publish_profiles \<Rightarrow> flow_dep f (\<lambda>x. then_goto (publish_profiles rtm x) Mark_ready f)
      | Mark_ready \<Rightarrow> flow_dep f (\<lambda>x. then_goto (mark_ready rtm x) Erase_access f)
      | Erase_access \<Rightarrow> flow_dep f (\<lambda>x. act_bind (erase_access rtm x) (\<lambda>b. act_ret (goto Notify_erased (f\<lparr>fw_disconnected := b\<rparr>))))
      | Notify_erased \<Rightarrow> flow_dep f (\<lambda>x. then_goto (if fw_disconnected f then notify rtm x else act_ret ()) (Returned ''ready'') f)
      | Report_erase_failure \<Rightarrow> flow_dep f (\<lambda>x. then_goto (act_seq (erase_failure rtm x) (notify rtm x)) (Returned ''ready'') f)
      | New_hash \<Rightarrow> act_ret (goto Disable_data_plane (f\<lparr>fw_hash := cp_sha256 (cr_P rtm) (randomToken (cr_random rtm))\<rparr>))
      | Disable_data_plane \<Rightarrow> flow_dep f (\<lambda>x. then_goto (disable_data_plane rtm x (fw_hash f)) Mark_revoked f)
      | Mark_revoked \<Rightarrow> flow_dep f (\<lambda>x. then_goto (mark_revoked rtm x (fw_hash f)) Erase_revoked f)
      | Erase_revoked \<Rightarrow> flow_dep f (\<lambda>x. then_goto (erase_access rtm x) (Returned ''revoked'') f)
      | Report_revoke_erase_failure \<Rightarrow> flow_dep f (\<lambda>x. then_goto (erase_failure rtm x) (Returned ''revoked'') f)
      | Returned s \<Rightarrow> act_ret f
      | Thrown \<Rightarrow> act_ret f)"

text \<open>The two places that are code between the steps, and so are not retried.\<close>

definition durable :: "flow_pc \<Rightarrow> bool" where
  "durable pc \<longleftrightarrow> pc \<notin> {Notify_erased, Report_erase_failure, Report_revoke_erase_failure}"

definition retry_limit :: nat where
  "retry_limit = 5"

definition flow_catch :: "cp_runtime \<Rightarrow> flow \<Rightarrow> exn \<Rightarrow> cp_world \<Rightarrow> flow \<times> cp_world" where
  "flow_catch rtm f e w =
     (goto Thrown f,
      snd (act_seq (updateStatus rtm (fw_dep f) Failed_status (Some (''workflow_'' @ action_name (fw_action f) @ ''_failed'')))
        (act_seq (cdb_upd (cp_audit rtm (map_option d_tenant (fw_loaded f)) ''workflow'' (Some (fw_id f))
            (''deployment.'' @ action_name (fw_action f)) (Some (fw_dep f)) ''failure'' None (error_type e)))
        (case fw_loaded f of None \<Rightarrow> act_ret ()
         | Some x \<Rightarrow> act_seq (erase_access rtm x) (act_catch (notify rtm x) (\<lambda>_. act_ret ())))) w))"

definition flow_step :: "cp_runtime \<Rightarrow> flow \<Rightarrow> cp_world \<Rightarrow> flow \<times> cp_world" where
  "flow_step rtm f w =
     (case flow_body rtm f w of
        (Inr f', w') \<Rightarrow> (f', w')
      | (Inl e, w') \<Rightarrow>
          if durable (fw_pc f) \<and> fw_tries f < retry_limit then (f\<lparr>fw_tries := Suc (fw_tries f)\<rparr>, w')
          else if fw_pc f \<in> {Erase_access, Notify_erased} then (goto Report_erase_failure f, w')
          else if fw_pc f = Erase_revoked then (goto Report_revoke_erase_failure f, w')
          else flow_catch rtm f e w')"

fun ended :: "flow_pc \<Rightarrow> bool" where
  "ended (Returned s) = True"
| "ended Thrown = True"
| "ended pc = False"

end
