(* ===== verification/Cp_Node.thy ===== *)
theory Cp_Node
  imports Cp_Deploy "HOL-Library.Signed_Division"
begin

text \<open>
  The owner's actions on a running node: the sleeper role, its beacon and queued commands (\<^verbatim>\<open>src/sleeper.ts\<close>), and the delegation
  of the DNS tunnel (\<^verbatim>\<open>src/dns-tunnel.ts\<close>), with the request parsing that \<^verbatim>\<open>src/index.ts\<close> does for them.
\<close>

unbundle bit_operations_syntax

subsection \<open>The daily window\<close>

definition fnv1a :: "string \<Rightarrow> 32 word" where
  "fnv1a value = foldl (\<lambda>hash c. (hash XOR word_of_nat (of_char c)) * 0x01000193) 0x811C9DC5 value"

record sleeper_window =
  sw_start :: int
  sw_end :: int
  sw_jitter :: int

definition sleeperWindowFor :: "string \<Rightarrow> int \<Rightarrow> string \<Rightarrow> sleeper_window" where
  "sleeperWindowFor deploymentId anchorHour day =
     (let jitter = int (unat (fnv1a (deploymentId @ ''|'' @ day)) mod 19) - 9;
          raw = anchorHour * 60 + jitter;
          startMinute = (raw smod 1440 + 1440) smod 1440
      in \<lparr>sw_start = startMinute, sw_end = (startMinute + 60) smod 1440, sw_jitter = jitter\<rparr>)"

definition minuteLabel :: "int \<Rightarrow> string" where
  "minuteLabel minute = pad0 2 (minute div 60 mod 24) @ '':'' @ pad0 2 (minute mod 60)"

definition beaconRecordName :: "deployment \<Rightarrow> string" where
  "beaconRecordName x = ''_v13beacon.'' @ (case d_tunnel_hostname x of None \<Rightarrow> d_worker_hostname x | Some h \<Rightarrow> h)"

definition beaconContent :: "sleeper_window \<Rightarrow> string \<Rightarrow> string" where
  "beaconContent win command = ''v13b1 '' @ show_int (sw_start win) @ '' '' @ show_int (sw_end win) @ '' '' @ command"

subsection \<open>Roles and commands\<close>

definition pendingSleeperCommand :: "string \<Rightarrow> cp_db \<Rightarrow> string option" where
  "pendingSleeperCommand dep d =
     (case sort_by (\<lambda>a b. sc_queued b \<le> sc_queued a) (filter (\<lambda>c. sc_dep c = dep \<and> sc_consumed c = None) (cp_commands d)) of
        [] \<Rightarrow> None | c # _ \<Rightarrow> Some (sc_command c))"

definition loadOwnedDeployment :: "principal \<Rightarrow> string \<Rightarrow> cp_db \<Rightarrow> deployment res" where
  "loadOwnedDeployment p i d =
     (case find (\<lambda>x. d_id x = i \<and> d_tenant x = pr_tenant p) (cp_deps d) of
        None \<Rightarrow> Inl (http_error 404 ''deployment_not_found'') | Some x \<Rightarrow> Inr x)"

definition anchor_of :: "deployment \<Rightarrow> num" where
  "anchor_of x = (case d_anchor x of None \<Rightarrow> 3 | Some h \<Rightarrow> h)"

definition setDeploymentRole :: "cp_runtime \<Rightarrow> principal \<Rightarrow> string \<Rightarrow> string \<Rightarrow> bool \<Rightarrow> (cp_world, deployment) act" where
  "setDeploymentRole rtm p i role consent =
     act_bind (cdb_res (loadOwnedDeployment p i)) (\<lambda>x.
     act_seq (act_when (role = ''sleeper'' \<and> \<not> consent) (http_error 400 ''consent_required''))
     (act_seq (cdb_upd (set_dep i (\<lambda>y. y\<lparr>d_role := role, d_anchor := Some (anchor_of x),
         d_consented := (if role = ''sleeper'' then Some (cr_now rtm) else None), d_updated := cr_now rtm\<rparr>)))
     (act_seq (user_audit rtm None p (''deployment.role.'' @ role) i JUndef)
     (act_ret (x\<lparr>d_role := role, d_anchor := Some (anchor_of x)\<rparr>)))))"

text \<open>The tenant's newest connection for the zone.\<close>

definition fallback_connection :: "string \<Rightarrow> string \<Rightarrow> cp_db \<Rightarrow> connection option" where
  "fallback_connection tenant zone d =
     (case sort_by (\<lambda>a b. c_created b \<le> c_created a)
        (filter (\<lambda>c. c_tenant c = tenant \<and> c_zone c = Some zone \<and> c_revoked c = None) (cp_conns d)) of [] \<Rightarrow> None | c # _ \<Rightarrow> Some c)"

definition beacon_connection :: "cp_runtime \<Rightarrow> principal \<Rightarrow> deployment \<Rightarrow> (cp_world, connection) act" where
  "beacon_connection rtm p x =
     act_catch (cdb_res (getConnection (d_connection x) (Some (pr_tenant p)))) (\<lambda>e.
       act_bind (cdb_get (fallback_connection (pr_tenant p) (d_zone x))) (\<lambda>fallback.
       case fallback of
         None \<Rightarrow> act_throw e
       | Some c \<Rightarrow>
           act_seq (cdb_upd (set_dep (d_id x) (\<lambda>y. y\<lparr>d_connection := c_id c, d_updated := cr_now rtm\<rparr>)))
           (act_seq (cdb_upd (cp_audit rtm (Some (pr_tenant p)) ''system'' None ''deployment.connection.rebind'' (Some (d_id x)) ''success'' None JUndef))
             (cdb_res (getConnection (c_id c) (Some (pr_tenant p)))))))"

definition consume_commands :: "num \<Rightarrow> string \<Rightarrow> cp_db \<Rightarrow> cp_db" where
  "consume_commands now i d =
     d\<lparr>cp_commands := map (\<lambda>c. if sc_dep c = i \<and> sc_consumed c = None then c\<lparr>sc_consumed := Some now\<rparr> else c) (cp_commands d)\<rparr>"

definition publishSleeperBeacon :: "cp_runtime \<Rightarrow> principal \<Rightarrow> string \<Rightarrow> (cp_world, string) act" where
  "publishSleeperBeacon rtm p i =
     act_bind (cdb_res (loadOwnedDeployment p i)) (\<lambda>x.
     act_bind (beacon_connection rtm p x) (\<lambda>conn.
     act_seq (act_when (c_zone conn \<noteq> Some (d_zone x)) (http_error 409 ''cloudflare_reconnect_required''))
     (act_bind (act_lift (getValidCloudflareAuth rtm conn)) (\<lambda>auth.
     let win = sleeperWindowFor (d_id x) \<lfloor>anchor_of x\<rfloor> (iso_day (cr_now rtm)); name = beaconRecordName x in
     act_bind (cdb_get (pendingSleeperCommand (d_id x))) (\<lambda>pending.
     let command = (case pending of None \<Rightarrow> ''none'' | Some c \<Rightarrow> c) in
     act_bind (upsertTxtRecord rtm auth (d_zone x) name (beaconContent win command) 120) (\<lambda>_.
     act_seq (if pending = None then act_ret () else cdb_upd (consume_commands (cr_now rtm) i))
     (act_seq (cdb_upd (set_dep i (\<lambda>y. y\<lparr>d_beacon := Some (cr_now rtm), d_updated := cr_now rtm\<rparr>)))
     (act_seq (user_audit rtm None p ''sleeper.beacon.publish'' i (JObj [(''command'', JStr command)]))
     (act_ret name)))))))))"

definition insert_command :: "sleeper_command \<Rightarrow> (cp_db, unit) act" where
  "insert_command c d =
     (if sc_id c \<in> sc_id ` set (cp_commands d) then (Inl (JsError ''UNIQUE constraint failed''), d)
      else (Inr (), d\<lparr>cp_commands := cp_commands d @ [c]\<rparr>))"

definition queueSleeperCommand :: "cp_runtime \<Rightarrow> principal \<Rightarrow> string \<Rightarrow> string \<Rightarrow> (cp_world, unit) act" where
  "queueSleeperCommand rtm p i command =
     act_bind (cdb_res (loadOwnedDeployment p i)) (\<lambda>x.
     act_seq (act_when (d_role x \<noteq> ''sleeper'') (http_error 409 ''invalid_deployment_state''))
     (act_seq (cdb_run (insert_command \<lparr>sc_id = cr_uuid rtm, sc_dep = i, sc_command = command, sc_queued = cr_now rtm, sc_consumed = None\<rparr>))
     (act_bind (publishSleeperBeacon rtm p i) (\<lambda>_. act_ret ()))))"

subsection \<open>The DNS tunnel\<close>

definition tunnelHostnameFor :: "string \<Rightarrow> string" where
  "tunnelHostnameFor zoneName = ''t.'' @ to_lower zoneName"

definition enableDnsTunnel :: "cp_runtime \<Rightarrow> principal \<Rightarrow> string \<Rightarrow> (cp_world, response) act" where
  "enableDnsTunnel rtm p i =
     (let result = (\<lambda>h n g. json (JObj [(''tunnelHostname'', JStr h), (''nsRecordId'', JStr n), (''glueRecordId'', JStr g)]) 200 []) in
     act_bind (cdb_res (loadOwnedDeployment p i)) (\<lambda>x.
     act_seq (act_when (d_status x \<noteq> Ready) (http_error 409 ''invalid_deployment_state''))
     (if d_tunnel_enabled x \<and> d_tunnel_hostname x \<noteq> None \<and> d_tunnel_hostname x \<noteq> Some []
      then act_ret (result (the (d_tunnel_hostname x)) ''existing'' ''existing'')
      else
        act_bind (cdb_res (getConnection (d_connection x) (Some (pr_tenant p)))) (\<lambda>conn.
        act_bind (act_lift (case c_zone_name conn of
            Some z \<Rightarrow> if z = [] \<or> c_zone conn \<noteq> Some (d_zone x) then Inl (http_error 409 ''cloudflare_reconnect_required'') else Inr z
          | None \<Rightarrow> Inl (http_error 409 ''cloudflare_reconnect_required''))) (\<lambda>zoneName.
        act_bind (act_lift (getValidCloudflareAuth rtm conn)) (\<lambda>auth.
        let tunnel = tunnelHostnameFor zoneName; glueName = ''ns1.'' @ tunnel in
        act_bind (upsertNsRecord rtm auth (d_zone x) tunnel [glueName]) (\<lambda>nsRecordId.
        act_bind (upsertARecord rtm auth (d_zone x) glueName (d_vps x)) (\<lambda>glueRecordId.
        act_seq (cdb_upd (set_dep i (\<lambda>y. y\<lparr>d_tunnel_enabled := True, d_tunnel_hostname := Some tunnel, d_updated := cr_now rtm\<rparr>)))
        (act_seq (user_audit rtm None p ''dns_tunnel.enable'' i (JObj [(''tunnelHostname'', JStr tunnel)]))
        (act_ret (result tunnel nsRecordId glueRecordId)))))))))))"

definition slipnetUri :: "string \<Rightarrow> string option \<Rightarrow> string" where
  "slipnetUri tunnelHostname publicKey =
     ''slipnet://'' @ btoa (map (\<lambda>c. word_of_nat (of_char c))
       (''16|dnstt|'' @ tunnelHostname @ ''|'' @ tunnelHostname @ ''|8.8.8.8:53:0|0|5000|bbr|1080|127.0.0.1|0|'' @
        (case publicKey of None \<Rightarrow> [] | Some k \<Rightarrow> k) @ ''|||0|||22|0|127.0.0.1|0||udp|password|||0|0|443|||0||0|0|''))"

subsection \<open>The three routes\<close>

definition role_action :: "cp_runtime \<Rightarrow> request \<Rightarrow> principal \<Rightarrow> string \<Rightarrow> (cp_world, response) act" where
  "role_action rtm r p i =
     act_bind (act_lift (res_bind (cp_readJson r 2048) need_obj)) (\<lambda>body.
     act_bind (act_lift (if fld body ''role'' = JStr ''sleeper'' then Inr ''sleeper''
        else if fld body ''role'' = JStr ''standard'' then Inr ''standard'' else Inl invalid_input)) (\<lambda>role.
     act_bind (setDeploymentRole rtm p i role (fld body ''consent'' = JBool True)) (\<lambda>updated.
     act_ret (json (JObj [(''ok'', JBool True), (''role'', JStr (d_role updated))]) 200 []))))"

definition beacon_action :: "cp_runtime \<Rightarrow> principal \<Rightarrow> string \<Rightarrow> (cp_world, response) act" where
  "beacon_action rtm p i =
     act_bind (publishSleeperBeacon rtm p i) (\<lambda>name. act_ret (json (JObj [(''ok'', JBool True), (''record'', JStr name)]) 200 []))"

definition command_action :: "cp_runtime \<Rightarrow> request \<Rightarrow> principal \<Rightarrow> string \<Rightarrow> (cp_world, response) act" where
  "command_action rtm r p i =
     act_bind (act_lift (res_bind (cp_readJson r 1024) need_obj)) (\<lambda>body.
     act_bind (act_lift (if fld body ''command'' = JStr ''wake'' then Inr ''wake''
        else if fld body ''command'' = JStr ''report-now'' then Inr ''report-now'' else Inl invalid_input)) (\<lambda>command.
     act_bind (queueSleeperCommand rtm p i command) (\<lambda>_. act_ret (json (JObj [(''ok'', JBool True)]) 200 []))))"

subsection \<open>The window\<close>

lemma smod_nonneg: "0 \<le> x \<Longrightarrow> x smod 1440 = x mod (1440 :: int)"
  by (cases "x = 0") (simp_all add: smod_int_alt_def)

lemma js_wrap: "(a smod 1440 + 1440) smod 1440 = a mod (1440 :: int)"
proof (cases "0 \<le> a")
  case False
  then have s: "a smod 1440 = - ((- a) mod 1440)" by (simp add: smod_int_alt_def)
  have "0 \<le> 1440 - (- a) mod (1440 :: int)" using pos_mod_bound [of 1440 "- a"] by simp
  moreover have "(1440 - (- a) mod 1440) mod 1440 = a mod (1440 :: int)" by (subst mod_diff_right_eq) simp
  ultimately show ?thesis using s smod_nonneg by simp
qed (simp add: smod_nonneg)

text \<open>
  The wake-up window of a sleeping node is a fixed function of the deployment and the day: it starts at most nine minutes
  before or after the anchor hour, wraps at midnight, lasts sixty minutes, and both of its ends are minutes of the day.
\<close>

theorem sleeper_window_bounds:
  "let win = sleeperWindowFor i anchor day in
     \<bar>sw_jitter win\<bar> \<le> 9 \<and> sw_start win = (anchor * 60 + sw_jitter win) mod 1440 \<and> sw_end win = (sw_start win + 60) mod 1440 \<and>
     sw_start win \<in> {0..<1440} \<and> sw_end win \<in> {0..<1440}"
proof -
  have "unat (fnv1a (i @ ''|'' @ day)) mod 19 < 19" by simp
  then have "\<bar>int (unat (fnv1a (i @ ''|'' @ day)) mod 19) - 9\<bar> \<le> 9" by linarith
  moreover have "(x mod 1440 + 60) smod 1440 = (x mod 1440 + 60) mod 1440" for x :: int
    by (rule smod_nonneg) simp
  ultimately show ?thesis by (simp add: sleeperWindowFor_def Let_def js_wrap)
qed

end
