(* ===== verification/Cp_Lifecycle.thy ===== *)
theory Cp_Lifecycle
  imports Cp_Workflow Cp_Node
begin

text \<open>
  Invariants of the control plane: the integrity of its tables in every state that requests, node calls, cron and workflow
  attempts can reach, and what the handlers of one tenant leave alone.
\<close>

subsection \<open>Actions at a state\<close>

text \<open>
  \<open>after I m w\<close>: the action \<open>m\<close>, run in \<open>w\<close>, leads to a state with \<open>I\<close>. The rules walk through a handler from its first
  call and keep what each call has returned.
\<close>

definition after :: "('s \<Rightarrow> bool) \<Rightarrow> ('s, 'a) act \<Rightarrow> 's \<Rightarrow> bool" where
  "after I m w \<longleftrightarrow> I (snd (m w))"

named_theorems after_intros \<open>rules for the state after an action\<close>

lemma after_bind_lift [after_intros]: "I w \<Longrightarrow> (\<And>x. r = Inr x \<Longrightarrow> after I (k x) w) \<Longrightarrow> after I (act_bind (act_lift r) k) w"
  by (auto simp: after_def act_bind_def act_lift_def split: sum.splits)

lemma after_bind_res [after_intros]: "I w \<Longrightarrow> (\<And>x. f (cw_db w) = Inr x \<Longrightarrow> after I (k x) w) \<Longrightarrow> after I (act_bind (cdb_res f) k) w"
  by (auto simp: after_def act_bind_def cdb_res_def split: sum.splits)

lemma after_bind_get [after_intros]: "after I (k (f (cw_db w))) w \<Longrightarrow> after I (act_bind (cdb_get f) k) w"
  by (simp add: after_def act_bind_def cdb_get_def act_get_def)

lemma after_seq_lift [after_intros]: "I w \<Longrightarrow> (\<And>x. r = Inr x \<Longrightarrow> after I k w) \<Longrightarrow> after I (act_seq (act_lift r) k) w"
  by (auto simp: after_def act_seq_def act_bind_def act_lift_def split: sum.splits)

lemma after_seq_when [after_intros]: "I w \<Longrightarrow> (\<not> b \<Longrightarrow> after I k w) \<Longrightarrow> after I (act_seq (act_when b e) k) w"
  by (auto simp: after_def act_seq_def act_bind_def act_when_def split: sum.splits)

lemma after_seq_upd [after_intros]: "after I k (w\<lparr>cw_db := f (cw_db w)\<rparr>) \<Longrightarrow> after I (act_seq (cdb_upd f) k) w"
  by (simp add: after_def act_seq_def act_bind_def cdb_upd_eq)

lemma after_bind_run [after_intros]:
  "\<lbrakk>\<And>r d. m (cw_db w) = (r, d) \<Longrightarrow> I (w\<lparr>cw_db := d\<rparr>); \<And>x d. m (cw_db w) = (Inr x, d) \<Longrightarrow> after I (k x) (w\<lparr>cw_db := d\<rparr>)\<rbrakk> \<Longrightarrow>
   after I (act_bind (cdb_run m) k) w"
  by (cases "m (cw_db w)") (auto simp: after_def act_bind_def cdb_run_def split: sum.splits)

lemma after_seq_run [after_intros]:
  "\<lbrakk>\<And>r d. m (cw_db w) = (r, d) \<Longrightarrow> I (w\<lparr>cw_db := d\<rparr>); \<And>x d. m (cw_db w) = (Inr x, d) \<Longrightarrow> after I k (w\<lparr>cw_db := d\<rparr>)\<rbrakk> \<Longrightarrow>
   after I (act_seq (cdb_run m) k) w"
  unfolding act_seq_def by (rule after_bind_run)

lemma after_ret [after_intros]: "I w \<Longrightarrow> after I (act_ret x) w"
  by (simp add: after_def act_ret_def)

lemma after_throw [after_intros]: "I w \<Longrightarrow> after I (act_throw e) w"
  by (simp add: after_def act_throw_def)

lemma after_get [after_intros]: "I w \<Longrightarrow> after I (cdb_get f) w"
  by (simp add: after_def cdb_get_def act_get_def)

lemma after_lift [after_intros]: "I w \<Longrightarrow> after I (act_lift r) w"
  by (simp add: after_def act_lift_def)

lemma after_upd: "I (w\<lparr>cw_db := f (cw_db w)\<rparr>) \<Longrightarrow> after I (cdb_upd f) w"
  by (simp add: after_def cdb_upd_eq)

lemma after_seq: "after I m w \<Longrightarrow> (\<And>w'. I w' \<Longrightarrow> after I k w') \<Longrightarrow> after I (act_seq m k) w"
  by (auto simp: after_def act_seq_def act_bind_def split: prod.splits sum.splits)

lemma after_bind: "after I m w \<Longrightarrow> (\<And>x w'. I w' \<Longrightarrow> after I (k x) w') \<Longrightarrow> after I (act_bind m k) w"
  by (auto simp: after_def act_bind_def split: prod.splits sum.splits)

lemma after_catch: "after I m w \<Longrightarrow> (\<And>e w'. I w' \<Longrightarrow> after I (h e) w') \<Longrightarrow> after I (act_catch m h) w"
  by (auto simp: after_def act_catch_def split: prod.splits sum.splits)

lemma after_keeps: "keeps I m \<Longrightarrow> I w \<Longrightarrow> after I m w"
  by (simp add: after_def keeps_def)

subsection \<open>Integrity of the tables\<close>

definition dep_keys :: "deployment \<Rightarrow> string \<times> string \<times> string \<times> string \<times> string \<times> string \<times> string" where
  "dep_keys x = (d_id x, d_tenant x, d_connection x, d_account x, d_worker_name x, d_worker_hostname x, d_node_hostname x)"

definition deps_ok :: "deployment list \<Rightarrow> bool" where
  "deps_ok xs \<longleftrightarrow> distinct (map d_id xs) \<and> distinct (map (\<lambda>x. (d_account x, d_worker_name x)) xs) \<and>
     distinct (map d_worker_hostname xs) \<and> distinct (map d_node_hostname xs)"

definition erased :: "connection \<Rightarrow> bool" where
  "erased c \<longleftrightarrow> c_token_enc c \<in> {''erased'', ''expired''} \<and> c_refresh_enc c = None \<and> c_expires c = None"

definition conns_ok :: "connection list \<Rightarrow> bool" where
  "conns_ok cs \<longleftrightarrow> distinct (map c_id cs) \<and> (\<forall>c \<in> set cs. c_revoked c \<noteq> None \<longrightarrow> erased c)"

definition bound_ok :: "deployment list \<Rightarrow> connection list \<Rightarrow> bool" where
  "bound_ok xs cs \<longleftrightarrow> (\<forall>x \<in> set xs. (d_connection x, d_tenant x) \<in> (\<lambda>c. (c_id c, c_tenant c)) ` set cs)"

definition children_ok :: "string set \<Rightarrow> (string \<times> string \<times> nat) list \<Rightarrow> boot_token list \<Rightarrow> agent_report list \<Rightarrow> bool" where
  "children_ok ids secrets boot reports \<longleftrightarrow> distinct (map fst secrets) \<and> fst ` set secrets = ids \<and>
     distinct (map b_hash boot) \<and> distinct (map b_dep boot) \<and> b_dep ` set boot \<subseteq> ids \<and> ar_dep ` set reports \<subseteq> ids"

definition cp_ok :: "cp_db \<Rightarrow> bool" where
  "cp_ok d \<longleftrightarrow> deps_ok (cp_deps d) \<and> conns_ok (cp_conns d) \<and> bound_ok (cp_deps d) (cp_conns d) \<and>
     children_ok (d_id ` set (cp_deps d)) (cp_secrets d) (cp_boot d) (cp_reports d)"

lemma deps_ok_keys: "map dep_keys xs = map dep_keys ys \<Longrightarrow> deps_ok xs = deps_ok ys"
proof -
  assume a: "map dep_keys xs = map dep_keys ys"
  have "map (g \<circ> dep_keys) xs = map (g \<circ> dep_keys) ys" for g :: "_ \<Rightarrow> 'b"
    using arg_cong [OF a, of "map g"] by simp
  from this [of "\<lambda>(i, _). i"] this [of "\<lambda>(i, t, c, a, n, _). (a, n)"] this [of "\<lambda>(i, t, c, a, n, h, _). h"]
    this [of "\<lambda>(i, t, c, a, n, h, m). m"]
  show ?thesis by (simp add: deps_ok_def dep_keys_def comp_def)
qed

lemma keys_set: "map dep_keys xs = map dep_keys ys \<Longrightarrow> dep_keys ` set xs = dep_keys ` set ys"
  by (metis list.set_map)

definition conn_keys :: "connection \<Rightarrow> string \<times> string" where
  "conn_keys c = (c_id c, c_tenant c)"

definition boot_keys :: "boot_token \<Rightarrow> string \<times> string" where
  "boot_keys b = (b_hash b, b_dep b)"

lemma map_fst_eq: "map f xs = map f ys \<Longrightarrow> map (g \<circ> f) xs = map (g \<circ> f) ys"
  by (metis list.map_comp)

lemma bound_ok_alt: "bound_ok xs cs \<longleftrightarrow> (\<lambda>(i, t, c, _). (c, t)) ` dep_keys ` set xs \<subseteq> conn_keys ` set cs"
  by (simp add: bound_ok_def dep_keys_def conn_keys_def image_subset_iff image_image)

lemma ids_alt: "d_id ` set xs = fst ` dep_keys ` set xs"
  by (force simp: dep_keys_def image_iff)

lemma conn_ids: "map c_id cs = map fst (map conn_keys cs)"
  by (simp add: conn_keys_def)

lemma boot_ids: "map b_hash bs = map fst (map boot_keys bs)" "map b_dep bs = map snd (map boot_keys bs)"
  by (simp_all add: boot_keys_def)

text \<open>An update that leaves every key of every table as it was.\<close>

lemma cp_ok_frame:
  assumes "cp_ok d" and "map dep_keys (cp_deps d') = map dep_keys (cp_deps d)" and "map conn_keys (cp_conns d') = map conn_keys (cp_conns d)"
    and "\<And>c. c \<in> set (cp_conns d') \<Longrightarrow> c_revoked c \<noteq> None \<Longrightarrow> erased c" and "map fst (cp_secrets d') = map fst (cp_secrets d)"
    and "map boot_keys (cp_boot d') = map boot_keys (cp_boot d)" and "ar_dep ` set (cp_reports d') \<subseteq> d_id ` set (cp_deps d)"
  shows "cp_ok d'"
proof -
  have ids: "d_id ` set (cp_deps d') = d_id ` set (cp_deps d)" by (simp only: ids_alt keys_set [OF assms(2)])
  have "conns_ok (cp_conns d')" using assms(1,3,4) by (simp add: cp_ok_def conns_ok_def conn_ids del: map_map)
  moreover have "bound_ok (cp_deps d') (cp_conns d')"
  proof -
    have "conn_keys ` set (cp_conns d') = conn_keys ` set (cp_conns d)" using assms(3) by (metis list.set_map)
    then show ?thesis using assms(1) by (simp only: bound_ok_alt keys_set [OF assms(2)] cp_ok_def)
  qed
  moreover have "b_dep ` set (cp_boot d') = b_dep ` set (cp_boot d)" "fst ` set (cp_secrets d') = fst ` set (cp_secrets d)"
    using arg_cong [OF assms(6), of "set \<circ> map snd"] arg_cong [OF assms(5), of set] by (simp_all add: image_image boot_keys_def)
  ultimately show ?thesis using assms(1,7) deps_ok_keys [OF assms(2)] assms(5,6)
    by (simp add: cp_ok_def children_ok_def ids boot_ids del: map_map)
qed

definition same_keys :: "(deployment \<Rightarrow> deployment) \<Rightarrow> bool" where
  "same_keys f \<longleftrightarrow> (\<forall>x. dep_keys (f x) = dep_keys x)"

lemma set_dep_frame [simp]:
  "cp_conns (set_dep i f d) = cp_conns d" "cp_secrets (set_dep i f d) = cp_secrets d" "cp_boot (set_dep i f d) = cp_boot d"
  "cp_reports (set_dep i f d) = cp_reports d" "cp_tenants (set_dep i f d) = cp_tenants d" "cp_rates (set_dep i f d) = cp_rates d"
  by (simp_all add: set_dep_def)

lemma set_dep_keys: "same_keys f \<Longrightarrow> map dep_keys (cp_deps (set_dep i f d)) = map dep_keys (cp_deps d)"
  by (simp add: set_dep_def same_keys_def)

lemma keys_ids: "map dep_keys xs = map dep_keys ys \<Longrightarrow> d_id ` set xs = d_id ` set ys"
  using keys_set [of xs ys] by (simp only: ids_alt)

lemma cp_ok_set_dep: "cp_ok d \<Longrightarrow> same_keys f \<Longrightarrow> cp_ok (set_dep i f d)"
  by (rule cp_ok_frame [of d]) (auto simp: set_dep_keys cp_ok_def conns_ok_def children_ok_def)

lemma cp_ok_other:
  "cp_ok d \<Longrightarrow> cp_deps d' = cp_deps d \<Longrightarrow> cp_conns d' = cp_conns d \<Longrightarrow> cp_secrets d' = cp_secrets d \<Longrightarrow> cp_boot d' = cp_boot d \<Longrightarrow>
   cp_reports d' = cp_reports d \<Longrightarrow> cp_ok d'"
  by (simp add: cp_ok_def)

lemma audit_frame_cp [simp]:
  "cp_deps (cp_audit rtm t a b c e f r m d) = cp_deps d" "cp_conns (cp_audit rtm t a b c e f r m d) = cp_conns d"
  "cp_secrets (cp_audit rtm t a b c e f r m d) = cp_secrets d" "cp_boot (cp_audit rtm t a b c e f r m d) = cp_boot d"
  "cp_reports (cp_audit rtm t a b c e f r m d) = cp_reports d" "cp_tenants (cp_audit rtm t a b c e f r m d) = cp_tenants d"
  by (simp_all add: cp_audit_def Let_def)

lemma scrub_conns:
  assumes "conns_ok cs" and "mark \<in> {''erased'', ''expired''}"
  shows "map conn_keys (map (\<lambda>c. if P c then scrub_row mark now c else c) cs) = map conn_keys cs"
    and "c \<in> set (map (\<lambda>c. if P c then scrub_row mark now c else c) cs) \<Longrightarrow> c_revoked c \<noteq> None \<Longrightarrow> erased c"
  using assms by (auto simp: conn_keys_def scrub_row_def conns_ok_def erased_def split: if_splits)

lemma disconnect_frame [simp]:
  "cp_deps (snd (disconnectConnectionIfIdle now cid ex d)) = cp_deps d" "cp_secrets (snd (disconnectConnectionIfIdle now cid ex d)) = cp_secrets d"
  "cp_boot (snd (disconnectConnectionIfIdle now cid ex d)) = cp_boot d" "cp_reports (snd (disconnectConnectionIfIdle now cid ex d)) = cp_reports d"
  "cp_tenants (snd (disconnectConnectionIfIdle now cid ex d)) = cp_tenants d"
  by (simp_all add: disconnectConnectionIfIdle_def revokeConnectionGrant_def scrubConnection_def split: option.splits)

lemma cp_ok_scrub: "cp_ok d \<Longrightarrow> cp_ok (scrubConnection now cid d)"
  by (rule cp_ok_frame [of d]) (auto simp: scrubConnection_def cp_ok_def children_ok_def conn_keys_def scrub_row_def conns_ok_def erased_def split: if_splits)

lemma cp_ok_grant: "cp_ok d \<Longrightarrow> cp_ok (revokeConnectionGrant now c d)"
  by (simp add: revokeConnectionGrant_def cp_ok_scrub)

lemma cp_ok_disconnect: "cp_ok d \<Longrightarrow> cp_ok (snd (disconnectConnectionIfIdle now cid ex d))"
  by (simp add: disconnectConnectionIfIdle_def cp_ok_grant split: option.splits)

lemma cp_ok_erase_expired: "cp_ok d \<Longrightarrow> cp_ok (snd (eraseExpiredApiTokens now d))"
  by (rule cp_ok_frame [of d])
    (auto simp: eraseExpiredApiTokens_def Let_def cp_ok_def children_ok_def conn_keys_def scrub_row_def conns_ok_def erased_def split: if_splits)

lemma map_secrets_keys: "map fst (map (\<lambda>(k, v, n). if k = i then (k, e, Suc n) else (k, v, n)) xs) = map fst xs"
  by (induction xs) auto

lemma cp_ok_secrets:
  assumes "cp_ok d"
  shows "cp_ok (d\<lparr>cp_secrets := map (\<lambda>(k, v, n). if k = i then (k, e, Suc n) else (k, v, n)) (cp_secrets d)\<rparr>)" (is "cp_ok (d\<lparr>cp_secrets := ?s\<rparr>)")
proof -
  have "map fst ?s = map fst (cp_secrets d)" by (rule map_secrets_keys)
  moreover from this have "fst ` set ?s = fst ` set (cp_secrets d)" by (metis list.set_map)
  ultimately show ?thesis using assms by (simp add: cp_ok_def children_ok_def del: map_map set_map list.set_map)
qed

lemma cp_ok_store_rotated: "cp_ok d \<Longrightarrow> cp_ok (store_rotated now i e h d)"
  unfolding store_rotated_def by (intro cp_ok_set_dep cp_ok_secrets) (simp_all add: same_keys_def dep_keys_def)

lemma cp_ok_store_agent: "cp_ok d \<Longrightarrow> cp_ok (store_agent now i e h d)"
  unfolding store_agent_def by (intro cp_ok_set_dep cp_ok_secrets) (simp_all add: same_keys_def dep_keys_def)

lemma cp_ok_consume: "cp_ok d \<Longrightarrow> consume_boot now h d = (r, d') \<Longrightarrow> cp_ok d'"
  by (rule cp_ok_frame [of d]) (auto simp: consume_boot_def Let_def boot_keys_def cp_ok_def children_ok_def conns_ok_def)

lemma cp_ok_store_report: "cp_ok d \<Longrightarrow> i \<in> d_id ` set (cp_deps d) \<Longrightarrow> cp_ok (store_report now i b x d)"
  unfolding store_report_def
  by (rule cp_ok_set_dep, rule cp_ok_frame [of d]) (auto simp: same_keys_def dep_keys_def cp_ok_def children_ok_def conns_ok_def)

lemma cp_ok_filter_boot: "cp_ok d \<Longrightarrow> cp_ok (d\<lparr>cp_boot := filter P (cp_boot d)\<rparr>)"
  by (auto simp: cp_ok_def children_ok_def distinct_map_filter)

lemma deps_ok_snoc:
  "deps_ok xs \<Longrightarrow> \<not> list_ex (\<lambda>y. d_id y = d_id x \<or> d_account y = d_account x \<and> d_worker_name y = d_worker_name x \<or>
     d_worker_hostname y = d_worker_hostname x \<or> d_node_hostname y = d_node_hostname x) xs \<Longrightarrow> deps_ok (xs @ [x])"
  by (auto simp: deps_ok_def list_ex_iff)

lemma bound_ok_snoc: "bound_ok xs cs \<Longrightarrow> (d_connection x, d_tenant x) \<in> conn_keys ` set cs \<Longrightarrow> bound_ok (xs @ [x]) cs"
  by (simp add: bound_ok_def conn_keys_def)

lemma cp_ok_insert:
  assumes "cp_ok d" and "insert_deployment x e b d = (r, d')" and "b_dep b = d_id x"
    and "(d_connection x, d_tenant x) \<in> conn_keys ` set (cp_conns d)"
  shows "cp_ok d'"
proof (cases r)
  case (Inl e)
  then show ?thesis using assms(1,2) by (auto simp: insert_deployment_def split: if_splits)
next
  case (Inr u)
  then have d': "d' = d\<lparr>cp_deps := cp_deps d @ [x], cp_secrets := cp_secrets d @ [(d_id x, e, 1)], cp_boot := cp_boot d @ [b]\<rparr>"
    and fresh: "\<not> list_ex (\<lambda>y. d_id y = d_id x \<or> d_account y = d_account x \<and> d_worker_name y = d_worker_name x \<or>
       d_worker_hostname y = d_worker_hostname x \<or> d_node_hostname y = d_node_hostname x) (cp_deps d)"
      "d_id x \<notin> set (map fst (cp_secrets d))" "\<not> list_ex (\<lambda>c. b_hash c = b_hash b \<or> b_dep c = b_dep b) (cp_boot d)"
    using assms(2) by (auto simp: insert_deployment_def split: if_splits)
  have "children_ok (d_id ` set (cp_deps d @ [x])) (cp_secrets d @ [(d_id x, e, 1)]) (cp_boot d @ [b]) (cp_reports d)"
    using assms(1,3) fresh(2,3) by (auto simp: cp_ok_def children_ok_def list_ex_iff)
  with assms(1,4) deps_ok_snoc [OF _ fresh(1)] show ?thesis by (simp add: d' cp_ok_def bound_ok_snoc)
qed

lemma replace_boot_distinct:
  assumes "distinct (map b_hash bs)" and "distinct (map b_dep bs)" and "\<And>c. c \<in> set bs \<Longrightarrow> b_hash c = b_hash b \<Longrightarrow> b_dep c = b_dep b"
  shows "distinct (map b_hash (map (\<lambda>c. if b_dep c = b_dep b then b else c) bs))"
  using assms
proof (induction bs)
  case (Cons a bs)
  have same: "map (\<lambda>c. if b_dep c = b_dep b then b else c) bs = bs" if "b_dep a = b_dep b"
    using Cons.prems(2) that by (intro map_idI) (auto simp: image_iff)
  show ?case
  proof (cases "b_dep a = b_dep b")
    case True
    then have "b_hash b \<notin> b_hash ` set bs" using Cons.prems(2,3) by (force simp: image_iff)
    with True same Cons.prems(1) show ?thesis by simp
  next
    case False
    then have "b_hash a \<noteq> b_hash b" using Cons.prems(3) by auto
    with False Cons show ?thesis by (auto simp: image_iff split: if_splits)
  qed
qed simp

lemma cp_ok_rotate_boot:
  assumes "cp_ok d" and "rotate_boot b d = (r, d')" and "b_dep b \<in> d_id ` set (cp_deps d)"
  shows "cp_ok d'"
proof (cases "r = Inr () \<and> list_ex (\<lambda>c. b_dep c = b_dep b) (cp_boot d)")
  case True
  let ?bs = "map (\<lambda>c. if b_dep c = b_dep b then b else c) (cp_boot d)"
  have d': "d' = d\<lparr>cp_boot := ?bs\<rparr>" and fresh: "\<And>c. c \<in> set (cp_boot d) \<Longrightarrow> b_hash c = b_hash b \<Longrightarrow> b_dep c = b_dep b"
    using True assms(2) by (auto simp: rotate_boot_def list_ex_iff split: if_splits)
  have k: "distinct (map b_hash (cp_boot d))" "distinct (map b_dep (cp_boot d))" "b_dep ` set (cp_boot d) \<subseteq> d_id ` set (cp_deps d)"
    using assms(1) by (simp_all add: cp_ok_def children_ok_def)
  have "map b_dep ?bs = map b_dep (cp_boot d)" by simp
  then have "distinct (map b_dep ?bs)" "b_dep ` set ?bs \<subseteq> d_id ` set (cp_deps d)" using k by (metis, metis list.set_map)
  with replace_boot_distinct [OF k(1,2) fresh] assms(1) show ?thesis by (simp add: d' cp_ok_def children_ok_def del: map_map)
next
  case False
  show ?thesis
  proof (cases r)
    case (Inr u)
    with False assms(2) have d': "d' = d\<lparr>cp_boot := cp_boot d @ [b]\<rparr>"
      and fresh: "b_hash b \<notin> b_hash ` set (cp_boot d)" "b_dep b \<notin> b_dep ` set (cp_boot d)"
      by (auto simp: rotate_boot_def list_ex_iff split: if_splits)
    have "children_ok (d_id ` set (cp_deps d)) (cp_secrets d) (cp_boot d @ [b]) (cp_reports d)"
      using assms(1,3) fresh by (simp add: cp_ok_def children_ok_def)
    with assms(1) show ?thesis by (simp add: d' cp_ok_def)
  qed (use assms in \<open>auto simp: rotate_boot_def split: if_splits\<close>)
qed

lemma cp_ok_erase:
  assumes "cp_ok d" and "\<And>x. x \<in> set (cp_deps d) \<Longrightarrow> d_id x = i \<Longrightarrow> d_tenant x = t"
  shows "cp_ok (erase_deployment i t d)"
proof -
  have "filter (\<lambda>x. \<not> (d_id x = i \<and> d_tenant x = t)) (cp_deps d) = filter (\<lambda>x. d_id x \<noteq> i) (cp_deps d)"
    using assms(2) by (intro filter_cong) auto
  then show ?thesis using assms(1)
    by (auto simp: erase_deployment_def cp_ok_def deps_ok_def bound_ok_def children_ok_def distinct_map_filter image_iff)
qed

lemma cp_ok_insert_connection: "cp_ok d \<Longrightarrow> c_revoked c = None \<Longrightarrow> insert_connection c d = (r, d') \<Longrightarrow> cp_ok d'"
  by (auto simp: insert_connection_def cp_ok_def conns_ok_def bound_ok_def split: if_splits)

subsection \<open>What a tenant owns\<close>

definition tenant_view ::
  "string \<Rightarrow> cp_world \<Rightarrow> deployment list \<times> connection list \<times> (string \<times> string \<times> nat) list \<times> boot_token list \<times> script option list" where
  "tenant_view t w =
     (let D = filter (\<lambda>x. d_tenant x = t) (cp_deps (cw_db w)); ids = d_id ` set D in
      (D, filter (\<lambda>c. c_tenant c = t) (cp_conns (cw_db w)), filter (\<lambda>s. fst s \<in> ids) (cp_secrets (cw_db w)),
       filter (\<lambda>b. b_dep b \<in> ids) (cp_boot (cw_db w)), map (\<lambda>x. map_of (cw_scripts w) (d_account x, d_worker_name x)) D))"

text \<open>
  The invariant that a handler of tenant \<open>u\<close> keeps while it works on the deployment \<open>i\<close>: the tables are sound, the view of
  another tenant \<open>t\<close> is still \<open>v\<close>, and \<open>i\<close> - with \<open>safe\<close> also the connection \<open>k\<close> - is nobody else's.
\<close>

definition apart where
  "apart t u i v w \<longleftrightarrow> t \<noteq> u \<and> cp_ok (cw_db w) \<and> tenant_view t w = v \<and> (\<forall>x \<in> set (cp_deps (cw_db w)). d_id x = i \<longrightarrow> d_tenant x = u)"

definition safe where
  "safe t u i k v w \<longleftrightarrow> apart t u i v w \<and> (\<forall>c \<in> set (cp_conns (cw_db w)). c_id c = k \<longrightarrow> c_tenant c = u)"

lemma safe_apart: "safe t u i k v w \<Longrightarrow> apart t u i v w"
  by (simp add: safe_def)

lemma after_conseq: "after J m w \<Longrightarrow> (\<And>w. J w \<Longrightarrow> I w) \<Longrightarrow> after I m w"
  by (simp add: after_def)

lemma filter_map_other: "(\<And>x. x \<in> set xs \<Longrightarrow> P (f x) = P x \<and> (P x \<longrightarrow> f x = x)) \<Longrightarrow> filter P (map f xs) = filter P xs"
  by (induction xs) auto

lemma view_db:
  assumes "filter (\<lambda>x. d_tenant x = t) (cp_deps d') = filter (\<lambda>x. d_tenant x = t) (cp_deps (cw_db w))"
    and "filter (\<lambda>c. c_tenant c = t) (cp_conns d') = filter (\<lambda>c. c_tenant c = t) (cp_conns (cw_db w))"
    and "filter (\<lambda>s. fst s \<in> d_id ` {x \<in> set (cp_deps (cw_db w)). d_tenant x = t}) (cp_secrets d') =
         filter (\<lambda>s. fst s \<in> d_id ` {x \<in> set (cp_deps (cw_db w)). d_tenant x = t}) (cp_secrets (cw_db w))"
    and "filter (\<lambda>b. b_dep b \<in> d_id ` {x \<in> set (cp_deps (cw_db w)). d_tenant x = t}) (cp_boot d') =
         filter (\<lambda>b. b_dep b \<in> d_id ` {x \<in> set (cp_deps (cw_db w)). d_tenant x = t}) (cp_boot (cw_db w))"
  shows "tenant_view t (w\<lparr>cw_db := d'\<rparr>) = tenant_view t w"
proof -
  have "{x \<in> set (cp_deps d'). d_tenant x = t} = {x \<in> set (cp_deps (cw_db w)). d_tenant x = t}"
    using arg_cong [OF assms(1), of set] by (simp add: set_filter)
  with assms show ?thesis by (simp add: tenant_view_def Let_def)
qed

lemma safe_db:
  assumes "safe t u i k v w" and "cp_ok d'"
    and "filter (\<lambda>x. d_tenant x = t) (cp_deps d') = filter (\<lambda>x. d_tenant x = t) (cp_deps (cw_db w))"
    and "filter (\<lambda>c. c_tenant c = t) (cp_conns d') = filter (\<lambda>c. c_tenant c = t) (cp_conns (cw_db w))"
    and "filter (\<lambda>s. fst s \<noteq> i) (cp_secrets d') = filter (\<lambda>s. fst s \<noteq> i) (cp_secrets (cw_db w))"
    and "filter (\<lambda>b. b_dep b \<noteq> i) (cp_boot d') = filter (\<lambda>b. b_dep b \<noteq> i) (cp_boot (cw_db w))"
    and "\<And>x. x \<in> set (cp_deps d') \<Longrightarrow> d_id x = i \<Longrightarrow> d_tenant x = u"
    and "\<And>c. c \<in> set (cp_conns d') \<Longrightarrow> c_id c = k \<Longrightarrow> c_tenant c = u"
  shows "safe t u i k v (w\<lparr>cw_db := d'\<rparr>)"
proof -
  let ?ids = "d_id ` {x \<in> set (cp_deps (cw_db w)). d_tenant x = t}"
  have i: "i \<notin> ?ids" using assms(1) by (auto simp: safe_def apart_def)
  have sub: "filter (\<lambda>s. f s \<in> ?ids) xs = filter (\<lambda>s. f s \<in> ?ids) (filter (\<lambda>s. f s \<noteq> i) xs)" for f :: "'x \<Rightarrow> string" and xs
    using i by (auto intro!: filter_cong simp: filter_filter)
  have "tenant_view t (w\<lparr>cw_db := d'\<rparr>) = tenant_view t w"
  proof (rule view_db [OF assms(3,4)])
    show "filter (\<lambda>s. fst s \<in> ?ids) (cp_secrets d') = filter (\<lambda>s. fst s \<in> ?ids) (cp_secrets (cw_db w))"
      by (subst (1 2) sub) (simp only: assms(5))
    show "filter (\<lambda>b. b_dep b \<in> ?ids) (cp_boot d') = filter (\<lambda>b. b_dep b \<in> ?ids) (cp_boot (cw_db w))"
      by (subst (1 2) sub) (simp only: assms(6))
  qed
  with assms show ?thesis by (simp add: safe_def apart_def)
qed

lemma safe_set_dep:
  assumes "safe t u i k v w" and "same_keys f"
  shows "safe t u i k v (w\<lparr>cw_db := set_dep i f (cw_db w)\<rparr>)"
proof (rule safe_db [OF assms(1)])
  show "cp_ok (set_dep i f (cw_db w))" using assms by (simp add: safe_def apart_def cp_ok_set_dep)
  have tf: "d_tenant (f x) = d_tenant x" for x using assms(2) by (simp add: same_keys_def dep_keys_def)
  show "filter (\<lambda>x. d_tenant x = t) (cp_deps (set_dep i f (cw_db w))) = filter (\<lambda>x. d_tenant x = t) (cp_deps (cw_db w))"
    unfolding set_dep_def using assms(1) by (simp, intro filter_map_other) (auto simp: tf safe_def apart_def)
  show "\<And>x. x \<in> set (cp_deps (set_dep i f (cw_db w))) \<Longrightarrow> d_id x = i \<Longrightarrow> d_tenant x = u"
    using assms(1) tf by (auto simp: set_dep_def safe_def apart_def split: if_splits)
qed (use assms(1) in \<open>simp_all add: safe_def\<close>)

lemma safe_status: "safe t u i k v w \<Longrightarrow> safe t u i k v (w\<lparr>cw_db := dep_status_is now i s detail (cw_db w)\<rparr>)"
  unfolding dep_status_is_def by (rule safe_set_dep) (simp_all add: same_keys_def dep_keys_def)

lemma safe_other:
  assumes "safe t u i k v w" and "cp_deps d' = cp_deps (cw_db w)" and "cp_conns d' = cp_conns (cw_db w)"
    and "cp_secrets d' = cp_secrets (cw_db w)" and "cp_boot d' = cp_boot (cw_db w)" and "cp_reports d' = cp_reports (cw_db w)"
  shows "safe t u i k v (w\<lparr>cw_db := d'\<rparr>)"
  by (rule safe_db [OF assms(1)])
    (use assms in \<open>auto simp: safe_def apart_def cp_ok_other [OF _ assms(2,3,4,5,6)]\<close>)

lemma safe_audit: "safe t u i k v w \<Longrightarrow> safe t u i k v (w\<lparr>cw_db := cp_audit rtm a b c e f g r m (cw_db w)\<rparr>)"
  by (rule safe_other) simp_all

lemma safe_flows: "safe t u i k v w \<Longrightarrow> safe t u i k v (w\<lparr>cw_flows := fs\<rparr>)"
  by (simp add: safe_def apart_def tenant_view_def)

lemma scrub_row_keys [simp]: "c_id (scrub_row m now c) = c_id c" "c_tenant (scrub_row m now c) = c_tenant c"
  by (simp_all add: scrub_row_def)

lemma grant_frame [simp]:
  "cp_deps (revokeConnectionGrant now c d) = cp_deps d" "cp_secrets (revokeConnectionGrant now c d) = cp_secrets d"
  "cp_boot (revokeConnectionGrant now c d) = cp_boot d" "cp_reports (revokeConnectionGrant now c d) = cp_reports d"
  by (simp_all add: revokeConnectionGrant_def scrubConnection_def)

lemma safe_grant:
  assumes "safe t u i k v w" and "c_id c = k"
  shows "safe t u i k v (w\<lparr>cw_db := revokeConnectionGrant now c (cw_db w)\<rparr>)"
proof (rule safe_db [OF assms(1)])
  have kt: "\<And>x. x \<in> set (cp_conns (cw_db w)) \<Longrightarrow> c_id x = k \<Longrightarrow> c_tenant x = u" and tu: "t \<noteq> u" and "cp_ok (cw_db w)"
    using assms(1) by (simp_all add: safe_def apart_def)
  then show "cp_ok (revokeConnectionGrant now c (cw_db w))" by (simp add: cp_ok_grant)
  have "filter (\<lambda>c. c_tenant c = t) (map (\<lambda>y. if c_id y = k \<and> c_revoked y = None then scrub_row ''erased'' now y else y) (cp_conns (cw_db w)))
      = filter (\<lambda>c. c_tenant c = t) (cp_conns (cw_db w))"
    by (rule filter_map_other) (use kt tu in auto)
  then show "filter (\<lambda>c. c_tenant c = t) (cp_conns (revokeConnectionGrant now c (cw_db w))) = filter (\<lambda>c. c_tenant c = t) (cp_conns (cw_db w))"
    by (simp add: revokeConnectionGrant_def scrubConnection_def assms(2))
  show "c_tenant x = u" if x: "x \<in> set (cp_conns (revokeConnectionGrant now c (cw_db w)))" "c_id x = k" for x
  proof -
    have "\<exists>y \<in> set (cp_conns (cw_db w)). c_id y = c_id x \<and> c_tenant y = c_tenant x"
      using x(1) by (auto simp: revokeConnectionGrant_def scrubConnection_def split: if_splits)
    with kt x(2) show ?thesis by metis
  qed
qed (use assms(1) in \<open>simp_all add: safe_def apart_def\<close>)

lemma safe_disconnect:
  assumes "safe t u i k v w"
  shows "safe t u i k v (w\<lparr>cw_db := snd (disconnectConnectionIfIdle now k ex (cw_db w))\<rparr>)"
proof (cases "list_ex (\<lambda>x. d_connection x = k \<and> d_id x \<noteq> ex \<and> working (d_status x)) (cp_deps (cw_db w)) \<or>
    find (\<lambda>c. c_id c = k \<and> c_revoked c = None) (cp_conns (cw_db w)) = None")
  case True
  then have "snd (disconnectConnectionIfIdle now k ex (cw_db w)) = cw_db w" by (auto simp: disconnectConnectionIfIdle_def)
  with assms show ?thesis by simp
next
  case False
  then obtain c where c: "find (\<lambda>c. c_id c = k \<and> c_revoked c = None) (cp_conns (cw_db w)) = Some c" by auto
  with False have "snd (disconnectConnectionIfIdle now k ex (cw_db w)) = revokeConnectionGrant now c (cw_db w)"
    by (simp add: disconnectConnectionIfIdle_def)
  with safe_grant [OF assms] find_SomeD [OF c] show ?thesis by simp
qed

lemma safe_store_rotated:
  assumes "safe t u i k v w"
  shows "safe t u i k v (w\<lparr>cw_db := store_rotated now i e h (cw_db w)\<rparr>)"
proof -
  let ?d = "(cw_db w)\<lparr>cp_secrets := map (\<lambda>(k, x, n). if k = i then (k, e, Suc n) else (k, x, n)) (cp_secrets (cw_db w))\<rparr>"
  have "safe t u i k v (w\<lparr>cw_db := ?d\<rparr>)"
  proof (rule safe_db [OF assms])
    show "cp_ok ?d" using assms unfolding safe_def apart_def by (intro cp_ok_secrets) simp
    have "filter (\<lambda>s. fst s \<noteq> i) (map (\<lambda>(k, x, n). if k = i then (k, e, Suc n) else (k, x, n)) xs) = filter (\<lambda>s. fst s \<noteq> i) xs"
      for xs :: "(string \<times> string \<times> nat) list" by (induction xs) (auto split: if_splits)
    then show "filter (\<lambda>s. fst s \<noteq> i) (cp_secrets ?d) = filter (\<lambda>s. fst s \<noteq> i) (cp_secrets (cw_db w))" by simp
  qed (use assms in \<open>simp_all add: safe_def apart_def\<close>)
  from safe_set_dep [OF this, of "\<lambda>x. x\<lparr>d_sub_hash := h, d_updated := now\<rparr>"] show ?thesis
    by (simp add: store_rotated_def same_keys_def dep_keys_def)
qed

lemma safe_rotate_boot:
  assumes "safe t u i k v w" and "rotate_boot b (cw_db w) = (r, d')" and "b_dep b = i" and "i \<in> d_id ` set (cp_deps (cw_db w))"
  shows "safe t u i k v (w\<lparr>cw_db := d'\<rparr>)"
proof (rule safe_db [OF assms(1)])
  show "cp_ok d'" using assms cp_ok_rotate_boot by (auto simp: safe_def apart_def)
  have "filter (\<lambda>c. b_dep c \<noteq> i) (map (\<lambda>c. if b_dep c = b_dep b then b else c) bs) = filter (\<lambda>c. b_dep c \<noteq> i) bs" for bs
    using assms(3) by (induction bs) auto
  then show "filter (\<lambda>b. b_dep b \<noteq> i) (cp_boot d') = filter (\<lambda>b. b_dep b \<noteq> i) (cp_boot (cw_db w))"
    using assms(2,3) by (auto simp: rotate_boot_def split: if_splits)
qed (use assms in \<open>auto simp: rotate_boot_def safe_def apart_def split: if_splits\<close>)

lemma safe_erase:
  assumes "safe t u i k v w"
  shows "safe t u i k v (w\<lparr>cw_db := erase_deployment i u (cw_db w)\<rparr>)"
proof (rule safe_db [OF assms])
  show "cp_ok (erase_deployment i u (cw_db w))" using assms by (intro cp_ok_erase) (auto simp: safe_def apart_def)
  show "filter (\<lambda>x. d_tenant x = t) (cp_deps (erase_deployment i u (cw_db w))) = filter (\<lambda>x. d_tenant x = t) (cp_deps (cw_db w))"
    using assms by (auto simp: erase_deployment_def safe_def apart_def filter_filter intro: filter_cong)
qed (use assms in \<open>auto simp: erase_deployment_def safe_def apart_def filter_filter\<close>)

lemma safe_upload:
  assumes "safe t u i k v w" and "x \<in> set (cp_deps (cw_db w))" and "d_id x = i"
  shows "safe t u i k v (w\<lparr>cw_scripts := upsert (d_account x, d_worker_name x) s (cw_scripts w)\<rparr>)"
proof -
  have "(d_account y, d_worker_name y) \<noteq> (d_account x, d_worker_name x)" if "y \<in> set (cp_deps (cw_db w))" "d_tenant y = t" for y
  proof
    assume "(d_account y, d_worker_name y) = (d_account x, d_worker_name x)"
    moreover have "inj_on (\<lambda>x. (d_account x, d_worker_name x)) (set (cp_deps (cw_db w)))"
      using assms(1) by (auto simp: safe_def apart_def cp_ok_def deps_ok_def distinct_map)
    ultimately have "y = x" using that(1) assms(2) by (auto dest: inj_onD)
    then show False using that(2) assms by (auto simp: safe_def apart_def)
  qed
  then show ?thesis using assms(1) by (auto simp: safe_def apart_def tenant_view_def Let_def map_of_upsert)
qed

subsection \<open>The handlers of a tenant\<close>

definition quiet :: "string \<Rightarrow> deployment list \<times> connection list \<times> (string \<times> string \<times> nat) list \<times> boot_token list \<times> script option list \<Rightarrow> cp_world \<Rightarrow> bool" where
  "quiet t v w \<longleftrightarrow> cp_ok (cw_db w) \<and> tenant_view t w = v"

lemma apart_quiet: "apart t u i v w \<Longrightarrow> quiet t v w"
  by (simp add: apart_def quiet_def)

lemma safe_quiet: "safe t u i k v w \<Longrightarrow> quiet t v w"
  by (blast intro: apart_quiet safe_apart)

lemma same_id_same_tenant: "cp_ok d \<Longrightarrow> x \<in> set (cp_deps d) \<Longrightarrow> y \<in> set (cp_deps d) \<Longrightarrow> d_id y = d_id x \<Longrightarrow> y = x"
  by (auto simp: cp_ok_def deps_ok_def distinct_map dest: inj_onD)

lemma same_conn: "cp_ok d \<Longrightarrow> b \<in> set (cp_conns d) \<Longrightarrow> c \<in> set (cp_conns d) \<Longrightarrow> c_id b = c_id c \<Longrightarrow> b = c"
  by (auto simp: cp_ok_def conns_ok_def distinct_map dest: inj_onD)

lemma connection_tenant:
  assumes "cp_ok d" and "x \<in> set (cp_deps d)" and "c \<in> set (cp_conns d)" and "c_id c = d_connection x"
  shows "c_tenant c = d_tenant x"
proof -
  obtain b where "b \<in> set (cp_conns d)" "c_id b = d_connection x" "c_tenant b = d_tenant x"
    using assms(1,2) by (auto simp: cp_ok_def bound_ok_def)
  with assms same_conn show ?thesis by metis
qed

lemma ownedD: "ownedDeployment p i d = Inr x \<Longrightarrow> x \<in> set (cp_deps d) \<and> d_id x = i \<and> d_tenant x = pr_tenant p"
  by (auto simp: ownedDeployment_def dest: find_SomeD split: option.splits)

lemma owned_safe:
  assumes "quiet t v w" and "t \<noteq> pr_tenant p" and "ownedDeployment p i (cw_db w) = Inr x"
  shows "safe t (pr_tenant p) (d_id x) (d_connection x) v w"
proof -
  note x = ownedD [OF assms(3)]
  have ok: "cp_ok (cw_db w)" using assms(1) by (simp add: quiet_def)
  have "d_tenant y = pr_tenant p" if "y \<in> set (cp_deps (cw_db w))" "d_id y = d_id x" for y
    using same_id_same_tenant [OF ok, of x y] x that by simp
  moreover have "c_tenant c = pr_tenant p" if "c \<in> set (cp_conns (cw_db w))" "c_id c = d_connection x" for c
    using connection_tenant [OF ok, of x c] x that by simp
  ultimately show ?thesis using assms by (simp add: safe_def apart_def quiet_def)
qed

lemma getConnectionD:
  "getConnection cid (Some u) d = Inr c \<Longrightarrow> u \<noteq> [] \<Longrightarrow> c \<in> set (cp_conns d) \<and> c_id c = cid \<and> c_tenant c = u \<and> c_revoked c = None"
  by (auto simp: getConnection_def dest!: find_SomeD split: option.splits)

lemma safe_conn:
  assumes "apart t u i v w" and "c \<in> set (cp_conns (cw_db w))" and "c_tenant c = u"
  shows "safe t u i (c_id c) v w"
  using assms same_conn [of "cw_db w" _ c] by (auto simp: safe_def apart_def)

lemma after_startWorkflow: "safe t u i k v w \<Longrightarrow> after (safe t u i k v) (startWorkflow rtm a i) w"
  unfolding startWorkflow_def create_instance_def
  by (auto simp: after_def act_bind_def act_seq_def act_lift_def act_upd_def act_ret_def cdb_upd_def Let_def
      intro!: safe_set_dep safe_flows [of t u i k v w, THEN safe_set_dep, simplified]
      simp: same_keys_def dep_keys_def split: sum.splits)

lemma after_upload:
  assumes "safe t u i k v w" and "x \<in> set (cp_deps (cw_db w))" and "d_id x = i"
  shows "after (safe t u i k v) (uploadWorkerScript rtm auth (d_account x) (d_worker_name x) s) w"
  using assms safe_upload [OF assms]
  by (auto simp: after_def uploadWorkerScript_def act_bind_def act_lift_def act_upd_def split: sum.splits)

lemma cp_ok_reconnect:
  assumes "cp_ok d" and "c \<in> set (cp_conns d)" and "c_tenant c = u"
  shows "cp_ok (d\<lparr>cp_deps := map (\<lambda>y. if d_id y = i \<and> d_tenant y = u then y\<lparr>d_connection := c_id c, d_updated := now\<rparr> else y) (cp_deps d)\<rparr>)"
    (is "cp_ok (d\<lparr>cp_deps := map ?f (cp_deps d)\<rparr>)")
proof -
  have "map d_id (map ?f (cp_deps d)) = map d_id (cp_deps d)"
    "map (\<lambda>x. (d_account x, d_worker_name x)) (map ?f (cp_deps d)) = map (\<lambda>x. (d_account x, d_worker_name x)) (cp_deps d)"
    "map d_worker_hostname (map ?f (cp_deps d)) = map d_worker_hostname (cp_deps d)"
    "map d_node_hostname (map ?f (cp_deps d)) = map d_node_hostname (cp_deps d)" by simp_all
  note same = this
  then have "deps_ok (map ?f (cp_deps d))" using assms(1) by (simp only: cp_ok_def deps_ok_def)
  moreover have "bound_ok (map ?f (cp_deps d)) (cp_conns d)"
    using assms by (auto simp: cp_ok_def bound_ok_def image_iff)
  moreover have "d_id ` set (map ?f (cp_deps d)) = d_id ` set (cp_deps d)" using same(1) by (metis list.set_map)
  ultimately show ?thesis using assms(1) by (simp add: cp_ok_def del: set_map list.set_map)
qed

lemma safe_reconnect:
  assumes "apart t u i v w" and "c \<in> set (cp_conns (cw_db w))" and "c_tenant c = u"
  shows "apart t u i v (w\<lparr>cw_db := (cw_db w)\<lparr>cp_deps := map (\<lambda>y. if d_id y = i \<and> d_tenant y = u
     then y\<lparr>d_connection := c_id c, d_updated := now\<rparr> else y) (cp_deps (cw_db w))\<rparr>\<rparr>)"
    (is "apart t u i v (w\<lparr>cw_db := ?d\<rparr>)")
proof -
  have f: "t \<noteq> u" "cp_ok (cw_db w)" "\<And>x. x \<in> set (cp_deps (cw_db w)) \<Longrightarrow> d_id x = i \<Longrightarrow> d_tenant x = u"
    using assms(1) by (simp_all add: apart_def)
  have sf: "safe t u i (c_id c) v w" using safe_conn [OF assms] .
  have "safe t u i (c_id c) v (w\<lparr>cw_db := ?d\<rparr>)"
  proof (rule safe_db [OF sf])
    show "cp_ok ?d" using assms(2,3) f(2) by (intro cp_ok_reconnect) simp_all
    have "filter (\<lambda>x. d_tenant x = t) (map (\<lambda>y. if d_id y = i \<and> d_tenant y = u then y\<lparr>d_connection := c_id c, d_updated := now\<rparr> else y)
        (cp_deps (cw_db w))) = filter (\<lambda>x. d_tenant x = t) (cp_deps (cw_db w))"
      by (rule filter_map_other) (use f(1) in auto)
    then show "filter (\<lambda>x. d_tenant x = t) (cp_deps ?d) = filter (\<lambda>x. d_tenant x = t) (cp_deps (cw_db w))" by simp
    show "d_tenant x = u" if x: "x \<in> set (cp_deps ?d)" "d_id x = i" for x
    proof -
      have "\<exists>y \<in> set (cp_deps (cw_db w)). d_id y = d_id x \<and> d_tenant y = d_tenant x" using x(1) by (auto split: if_splits)
      with f(3) x(2) show ?thesis by metis
    qed
    show "\<And>x. x \<in> set (cp_conns ?d) \<Longrightarrow> c_id x = c_id c \<Longrightarrow> c_tenant x = u" using sf by (simp add: safe_def)
  qed simp_all
  then show ?thesis by (rule safe_apart)
qed

lemma after_ensure:
  assumes "apart t (pr_tenant p) (d_id x) v w" and "pr_tenant p \<noteq> []"
  shows "after (apart t (pr_tenant p) (d_id x) v) (ensureActiveDeploymentConnection rtm p x rid) w"
  unfolding ensureActiveDeploymentConnection_def
  using assms
  by (auto intro!: after_intros after_upd safe_reconnect dest!: getConnectionD split: sum.split option.split)

end
