(* ===== verification/Cp_Isolation.thy ===== *)
theory Cp_Isolation
  imports Cp_Lifecycle
begin

text \<open>
  The handlers of one tenant leave every other tenant's deployments, connections, secrets, bootstrap tokens and published
  scripts as they are, and all requests, node calls, cron runs and workflow attempts keep the tables sound.
\<close>

subsection \<open>The deployment handlers\<close>

lemma after_user_audit: "safe t u i k v w \<Longrightarrow> after (safe t u i k v) (user_audit rtm r p a b m) w"
  unfolding user_audit_def by (intro after_upd safe_audit)

lemma after_audited: "safe t u i k v w \<Longrightarrow> after (safe t u i k v) (act_seq (user_audit rtm r p a b m) (act_ret x)) w"
  by (intro after_seq after_user_audit after_ret)

lemma after_start_prepare: "safe t u i k v w \<Longrightarrow> after (safe t u i k v) (start_prepare rtm k i) w"
  unfolding start_prepare_def
  by (intro after_catch after_startWorkflow after_seq_upd after_throw safe_disconnect safe_status)

lemma insert_err: "insert_deployment x e b d = (Inl err, d') \<Longrightarrow> d' = d"
  by (auto simp: insert_deployment_def split: if_splits)

lemma insert_safe:
  assumes "quiet t v w" and "t \<noteq> u" and "c \<in> set (cp_conns (cw_db w))" and "c_tenant c = u"
    and "insert_deployment x e b (cw_db w) = (Inr y, d)" and "b_dep b = d_id x" and "d_connection x = c_id c" and "d_tenant x = u"
  shows "safe t u (d_id x) (c_id c) v (w\<lparr>cw_db := d\<rparr>)"
proof -
  have ok: "cp_ok (cw_db w)" and v: "tenant_view t w = v" using assms(1) by (simp_all add: quiet_def)
  have d: "d = (cw_db w)\<lparr>cp_deps := cp_deps (cw_db w) @ [x], cp_secrets := cp_secrets (cw_db w) @ [(d_id x, e, 1)],
      cp_boot := cp_boot (cw_db w) @ [b]\<rparr>" and fresh: "\<forall>y \<in> set (cp_deps (cw_db w)). d_id y \<noteq> d_id x"
    using assms(5) by (auto simp: insert_deployment_def list_ex_iff split: if_splits)
  have "cp_ok d" using ok assms by (intro cp_ok_insert [OF ok assms(5,6)]) (auto simp: conn_keys_def)
  moreover have "tenant_view t (w\<lparr>cw_db := d\<rparr>) = tenant_view t w"
    by (rule view_db) (use d assms(2,6,8) fresh in \<open>auto simp: image_iff\<close>)
  moreover have "\<forall>c' \<in> set (cp_conns d). c_id c' = c_id c \<longrightarrow> c_tenant c' = u" using same_conn [OF ok _ assms(3)] assms(4) d by auto
  ultimately show ?thesis using v fresh assms(2,8) d by (auto simp: safe_def apart_def)
qed

text \<open>A tail that works on the deployment \<open>i\<close> over the connection \<open>k\<close>.\<close>

lemma after_quiet: "after (safe t u i k v) m w \<Longrightarrow> after (quiet t v) m w"
  by (rule after_conseq [of "safe t u i k v"]) (assumption, rule safe_quiet)

lemma quiet_create:
  assumes "quiet t v w" and "t \<noteq> pr_tenant p" and "pr_tenant p \<noteq> []"
  shows "after (quiet t v) (createDeployment rtm r p) w"
  unfolding createDeployment_def Let_def
proof (intro after_intros assms(1), goal_cases)
  case (1 inp conn xb auth zone xe enc res d)
  note c = getConnectionD [OF 1(2) assms(3)]
  show ?case
  proof (cases res)
    case (Inl e)
    with 1(9) insert_err have "d = cw_db w" by blast
    with assms(1) show ?thesis by simp
  next
    case (Inr y)
    from insert_safe [where c = conn, OF assms(1,2) _ _ 1(9) [unfolded Inr]] c
    have "safe t (pr_tenant p) (cr_uuid rtm) (c_id conn) v (w\<lparr>cw_db := d\<rparr>)" by (simp add: new_deployment_def)
    then show ?thesis by (rule safe_quiet)
  qed
next
  case (2 inp conn xb auth zone xe enc y d)
  note c = getConnectionD [OF 2(2) assms(3)]
  from insert_safe [where c = conn, OF assms(1,2) _ _ 2(9)] c have "safe t (pr_tenant p) (cr_uuid rtm) (c_id conn) v (w\<lparr>cw_db := d\<rparr>)"
    by (simp add: new_deployment_def)
  then show ?case
    by (intro after_quiet [of t "pr_tenant p" "cr_uuid rtm" "c_id conn"] after_bind after_start_prepare after_audited)
qed

lemma owned_quiet:
  assumes "quiet t v w" and "t \<noteq> pr_tenant p"
    and "\<And>x. x \<in> set (cp_deps (cw_db w)) \<Longrightarrow> d_id x = i \<Longrightarrow> d_tenant x = pr_tenant p \<Longrightarrow> safe t (pr_tenant p) i (d_connection x) v w \<Longrightarrow>
      after (quiet t v) (k x) w"
  shows "after (quiet t v) (act_bind (cdb_res (ownedDeployment p i)) k) w"
  using assms(1)
proof (rule after_bind_res)
  fix x assume "ownedDeployment p i (cw_db w) = Inr x"
  with ownedD [OF this] owned_safe [OF assms(1,2)] assms(3) show "after (quiet t v) (k x) w" by auto
qed

lemma quiet_reads:
  assumes "quiet t v w"
  shows "after (quiet t v) (listDeployments p) w" "after (quiet t v) (getDeployment rtm p i) w"
    "after (quiet t v) (listCloudflareConnections rtm p) w" "after (quiet t v) (listCloudflareAccounts p cid) w"
    "after (quiet t v) (listCloudflareZones p cid accountId) w"
  unfolding listDeployments_def getDeployment_def listCloudflareConnections_def listCloudflareAccounts_def listCloudflareZones_def
    case_prod_beta
  by (intro after_intros assms)+

lemma quiet_rotate_boot:
  assumes "quiet t v w" and "t \<noteq> pr_tenant p"
  shows "after (quiet t v) (rotateBootstrapToken rtm r p i) w"
  unfolding rotateBootstrapToken_def Let_def
proof (rule owned_quiet [OF assms], goal_cases)
  case (1 x)
  note sf = 1(4)
  have rot: "safe t (pr_tenant p) i (d_connection x) v (w\<lparr>cw_db := d\<rparr>)" if "rotate_boot b (cw_db w) = (res, d)" "b_dep b = d_id x" for b res d
    using 1 by (intro safe_rotate_boot [OF sf that(1)]) (auto simp: that)
  show ?case
    by (intro after_quiet [of t "pr_tenant p" i "d_connection x"] after_seq_when sf after_seq_run after_audited) (erule rot, simp)+
qed

lemma quiet_delete:
  assumes "quiet t v w" and "t \<noteq> pr_tenant p"
  shows "after (quiet t v) (deleteDeployment rtm p i) w"
  unfolding deleteDeployment_def
proof (rule owned_quiet [OF assms], goal_cases)
  case (1 x)
  note sf = 1(4)
  show ?case unfolding 1(2)
    by (intro after_quiet [of t "pr_tenant p" i "d_connection x"] after_seq_when sf after_seq_upd after_audited safe_erase)
qed

text \<open>After the connection check the deployment may be bound to another connection of the same tenant.\<close>

lemma apart_safe:
  assumes "apart t u i v w"
  shows "\<exists>k. safe t u i k v w"
proof -
  obtain k where "k \<notin> c_id ` set (cp_conns (cw_db w))"
    using ex_new_if_finite [of "c_id ` set (cp_conns (cw_db w))"] by (auto simp: infinite_UNIV_listI)
  then have "\<forall>c \<in> set (cp_conns (cw_db w)). c_id c = k \<longrightarrow> c_tenant c = u" by auto
  with assms show ?thesis unfolding safe_def by blast
qed

lemma quiet_ensure:
  assumes "safe t (pr_tenant p) i k v w" and "d_id x = i" and "pr_tenant p \<noteq> []"
    and "\<And>w' k. safe t (pr_tenant p) i k v w' \<Longrightarrow> after (quiet t v) m w'"
  shows "after (quiet t v) (act_seq (ensureActiveDeploymentConnection rtm p x rid) m) w"
proof -
  obtain r w' where e: "ensureActiveDeploymentConnection rtm p x rid w = (r, w')" by (metis surj_pair)
  have "after (apart t (pr_tenant p) (d_id x) v) (ensureActiveDeploymentConnection rtm p x rid) w"
    using safe_apart [OF assms(1)] assms(2,3) by (intro after_ensure) simp_all
  with e assms(2) have "apart t (pr_tenant p) i v w'" by (simp add: after_def)
  with apart_safe obtain k' where k': "safe t (pr_tenant p) i k' v w'" by blast
  from assms(4) [OF this] safe_quiet [OF k'] e show ?thesis
    by (cases r) (simp_all add: after_def act_seq_def act_bind_def)
qed

lemma quiet_retry:
  assumes "quiet t v w" and "t \<noteq> pr_tenant p" and "pr_tenant p \<noteq> []"
  shows "after (quiet t v) (retryDeployment rtm r p i) w"
  unfolding retryDeployment_def Let_def
proof (rule owned_quiet [OF assms(1,2)], goal_cases)
  case (1 x)
  show ?case
  proof (intro after_seq_when after_bind_lift assms(1) quiet_ensure [OF 1(4,2) assms(3)], goal_cases)
    case (1 rid w' k)
    then show ?case unfolding \<open>d_id x = i\<close>
      by (intro after_quiet [of t "pr_tenant p" i k] after_bind after_startWorkflow after_audited)
  qed
qed

lemma after_start_revoke:
  "safe t u i k v w \<Longrightarrow>
   after (safe t u i k v) (act_catch (startWorkflow rtm Revoke i) (\<lambda>e. act_seq (cdb_upd (dep_status_is now i s detail)) (act_throw e))) w"
  by (intro after_catch after_startWorkflow after_seq_upd after_throw safe_status)

lemma quiet_revoke:
  assumes "quiet t v w" and "t \<noteq> pr_tenant p" and "pr_tenant p \<noteq> []"
  shows "after (quiet t v) (revokeDeployment rtm r p i) w"
  unfolding revokeDeployment_def
proof (rule owned_quiet [OF assms(1,2)], goal_cases)
  case (1 x)
  have "after (quiet t v) (act_seq (act_when (d_status x = Revoking) (http_error 409 ''invalid_deployment_state'')) m) w"
    if "after (quiet t v) m w" for m :: "(cp_world, response) act"
    using that by (intro after_seq_when assms(1))
  show ?case
  proof (cases "d_status x = Revoked")
    case True
    then show ?thesis by (simp add: after_ret assms(1))
  next
    case False
    then show ?thesis unfolding if_not_P [OF False]
    proof (intro after_seq_when after_bind_lift assms(1) quiet_ensure [OF 1(4,2) assms(3)], goal_cases)
      case (1 rid w' k)
      then show ?case unfolding \<open>d_id x = i\<close>
        by (intro after_quiet [of t "pr_tenant p" i k] after_seq_upd after_bind after_start_revoke after_audited safe_status)
    qed
  qed
qed

lemma quiet_disconnect:
  assumes "quiet t v w" and "t \<noteq> pr_tenant p" and "pr_tenant p \<noteq> []"
  shows "after (quiet t v) (disconnectCloudflareConnection rtm r p cid) w"
  unfolding disconnectCloudflareConnection_def
proof (intro after_bind_get after_seq_when after_bind_res assms(1), goal_cases)
  case (1 c)
  note c = getConnectionD [OF 1(2) assms(3)]
  have "\<exists>i. i \<notin> d_id ` set (cp_deps (cw_db w))"
    using ex_new_if_finite [of "d_id ` set (cp_deps (cw_db w))"] by (auto simp: infinite_UNIV_listI)
  then obtain i where "i \<notin> d_id ` set (cp_deps (cw_db w))" by blast
  then have "\<forall>x \<in> set (cp_deps (cw_db w)). d_id x = i \<longrightarrow> d_tenant x = pr_tenant p" by auto
  with assms have "apart t (pr_tenant p) i v w" by (simp add: apart_def quiet_def)
  from safe_conn [OF this] c have "safe t (pr_tenant p) i (c_id c) v w" by blast
  then show ?case
    by (intro after_quiet [of t "pr_tenant p" i "c_id c"] after_seq_upd after_audited safe_grant refl)
qed

lemma quiet_rotate_subscription:
  assumes "quiet t v w" and "t \<noteq> pr_tenant p" and "pr_tenant p \<noteq> []"
  shows "after (quiet t v) (rotateSubscriptionToken rtm r p i) w"
  unfolding rotateSubscriptionToken_def
proof (rule owned_quiet [OF assms(1,2)], goal_cases)
  case (1 x)
  show ?case
  proof (intro after_seq_when after_bind_lift assms(1) quiet_ensure [OF 1(4,2) assms(3)], goal_cases)
    case (1 rid w' k)
    show ?case
    proof (rule owned_quiet [OF safe_quiet [OF 1(3)] assms(2)], goal_cases)
      case (1 y)
      note sf = 1(4) and q = safe_quiet [OF 1(4)]
      show ?case unfolding Let_def 1(2)
        by (intro after_bind_get after_bind_lift after_bind_res q after_quiet [of t "pr_tenant p" i "d_connection y"] after_seq
            after_upload [OF sf 1(1,2)] after_audited after_user_audit after_upd after_ret safe_store_rotated safe_disconnect)
    qed
  qed
qed

subsection \<open>The handlers of a running node\<close>

lemma load_owned: "loadOwnedDeployment = ownedDeployment"
  by (intro ext) (simp add: loadOwnedDeployment_def ownedDeployment_def)

lemma after_apart:
  assumes "apart t u i v w" and "\<And>k. safe t u i k v w \<Longrightarrow> after (safe t u i k v) m w"
  shows "after (apart t u i v) m w"
proof -
  from apart_safe [OF assms(1)] obtain k where "safe t u i k v w" by blast
  from assms(2) [OF this] show ?thesis by (rule after_conseq) (rule safe_apart)
qed

lemma after_record: "safe t u i k v w \<Longrightarrow> after (safe t u i k v) (upsert_record rtm auth z kind n c ttl) w"
  unfolding upsert_record_def Let_def
proof (intro after_bind_lift after_seq after_lift, goal_cases)
  case (3 existing written)
  then show ?case by (simp add: after_def act_upd_def safe_def apart_def tenant_view_def)
qed

lemma quiet_role:
  assumes "quiet t v w" and "t \<noteq> pr_tenant p"
  shows "after (quiet t v) (role_action rtm r p i) w"
proof -
  have role: "after (quiet t v) (setDeploymentRole rtm p i role c) w" for role c
    unfolding setDeploymentRole_def load_owned
  proof (rule owned_quiet [OF assms], goal_cases)
    case (1 x)
    show ?case
      by (intro after_quiet [of t "pr_tenant p" i "d_connection x"] after_seq_when 1(4) after_seq_upd after_audited)
        (rule safe_set_dep [OF 1(4)], simp add: same_keys_def dep_keys_def)
  qed
  show ?thesis unfolding role_action_def
    by (rule after_bind_lift, rule assms(1), rule after_bind_lift, rule assms(1), rule after_bind, rule role, rule after_ret)
qed

lemma fallbackD: "fallback_connection u z d = Some c \<Longrightarrow> c \<in> set (cp_conns d) \<and> c_tenant c = u"
proof -
  let ?xs = "sort_by (\<lambda>a b. c_created b \<le> c_created a) (filter (\<lambda>c. c_tenant c = u \<and> c_zone c = Some z \<and> c_revoked c = None) (cp_conns d))"
  assume "fallback_connection u z d = Some c"
  then obtain r where "?xs = c # r" by (auto simp: fallback_connection_def split: list.splits)
  then have "c \<in> set ?xs" by (metis list.set_intros(1))
  then show ?thesis by simp
qed

lemma apart_rebind:
  assumes "apart t u i v w" and "c \<in> set (cp_conns (cw_db w))" and "c_tenant c = u"
  shows "apart t u i v (w\<lparr>cw_db := set_dep i (\<lambda>y. y\<lparr>d_connection := c_id c, d_updated := now\<rparr>) (cw_db w)\<rparr>)"
proof -
  have "set_dep i (\<lambda>y. y\<lparr>d_connection := c_id c, d_updated := now\<rparr>) (cw_db w) =
      (cw_db w)\<lparr>cp_deps := map (\<lambda>y. if d_id y = i \<and> d_tenant y = u then y\<lparr>d_connection := c_id c, d_updated := now\<rparr> else y) (cp_deps (cw_db w))\<rparr>"
    using assms(1) by (auto simp: set_dep_def apart_def)
  with safe_reconnect [OF assms] show ?thesis by simp
qed

lemma after_beacon_connection:
  assumes "apart t (pr_tenant p) (d_id x) v w"
  shows "after (apart t (pr_tenant p) (d_id x) v) (beacon_connection rtm p x) w"
  unfolding beacon_connection_def
proof (intro after_catch, goal_cases)
  case 1
  then show ?case using assms by (simp add: after_def cdb_res_def)
next
  case (2 e w')
  show ?case
  proof (rule after_bind_get, cases "fallback_connection (pr_tenant p) (d_zone x) (cw_db w')")
    case None
    with 2 show "after (apart t (pr_tenant p) (d_id x) v) (case fallback_connection (pr_tenant p) (d_zone x) (cw_db w') of None \<Rightarrow> act_throw e
       | Some c \<Rightarrow> act_seq (cdb_upd (set_dep (d_id x) (\<lambda>y. y\<lparr>d_connection := c_id c, d_updated := cr_now rtm\<rparr>)))
           (act_seq (cdb_upd (cp_audit rtm (Some (pr_tenant p)) ''system'' None ''deployment.connection.rebind'' (Some (d_id x)) ''success'' None JUndef))
             (cdb_res (getConnection (c_id c) (Some (pr_tenant p)))))) w'"
      by (simp add: after_throw)
  next
    case (Some c)
    from apart_rebind [OF 2] fallbackD [OF Some]
    have "apart t (pr_tenant p) (d_id x) v (w'\<lparr>cw_db := set_dep (d_id x) (\<lambda>y. y\<lparr>d_connection := c_id c, d_updated := cr_now rtm\<rparr>) (cw_db w')\<rparr>)"
      by simp
    with Some show "after (apart t (pr_tenant p) (d_id x) v) (case fallback_connection (pr_tenant p) (d_zone x) (cw_db w') of None \<Rightarrow> act_throw e
       | Some c \<Rightarrow> act_seq (cdb_upd (set_dep (d_id x) (\<lambda>y. y\<lparr>d_connection := c_id c, d_updated := cr_now rtm\<rparr>)))
           (act_seq (cdb_upd (cp_audit rtm (Some (pr_tenant p)) ''system'' None ''deployment.connection.rebind'' (Some (d_id x)) ''success'' None JUndef))
             (cdb_res (getConnection (c_id c) (Some (pr_tenant p)))))) w'"
      unfolding Some option.case
      by (intro after_seq_upd after_seq after_apart after_upd safe_audit) (simp_all add: after_def cdb_res_def)
  qed
qed

lemma apart_via_safe: "apart t u i v w \<Longrightarrow> (\<And>k. safe t u i k v w \<Longrightarrow> safe t u i k v w') \<Longrightarrow> apart t u i v w'"
  using apart_safe safe_apart by blast

lemma safe_commands: "safe t u i k v w \<Longrightarrow> safe t u i k v (w\<lparr>cw_db := (cw_db w)\<lparr>cp_commands := cs\<rparr>\<rparr>)"
  by (rule safe_other) simp_all

lemma apart_updates:
  assumes "apart t u i v w"
  shows "same_keys f \<Longrightarrow> apart t u i v (w\<lparr>cw_db := set_dep i f (cw_db w)\<rparr>)"
    and "apart t u i v (w\<lparr>cw_db := consume_commands now j (cw_db w)\<rparr>)"
    and "after (apart t u i v) (user_audit rtm r p a b m) w"
    and "after (apart t u i v) (upsert_record rtm auth z kind n c ttl) w"
  using assms
  by (auto simp: consume_commands_def intro: apart_via_safe [OF _ safe_set_dep] apart_via_safe [OF _ safe_commands] after_apart after_user_audit
      after_record)

lemma after_beacon_stored:
  assumes "apart t u i v w"
  shows "after (apart t u i v)
    (act_seq (if pending = None then act_ret () else cdb_upd (consume_commands now i))
      (act_seq (cdb_upd (set_dep i (\<lambda>y. y\<lparr>d_beacon := Some now, d_updated := now\<rparr>)))
        (act_seq (user_audit rtm None p a j m) (act_ret x)))) w"
proof (rule after_seq)
  show "after (apart t u i v) (if pending = None then act_ret () else cdb_upd (consume_commands now i)) w"
    using assms by (simp add: after_ret after_upd apart_updates(2))
  fix w' assume w': "apart t u i v w'"
  have "same_keys (\<lambda>y. y\<lparr>d_beacon := Some now, d_updated := now\<rparr>)" by (simp add: same_keys_def dep_keys_def)
  from apart_updates(1) [OF w' this] show "after (apart t u i v)
      (act_seq (cdb_upd (set_dep i (\<lambda>y. y\<lparr>d_beacon := Some now, d_updated := now\<rparr>))) (act_seq (user_audit rtm None p a j m) (act_ret x))) w'"
    by (intro after_seq_upd after_seq [OF apart_updates(3)] after_ret)
qed

lemma quiet_publish:
  assumes "quiet t v w" and "t \<noteq> pr_tenant p"
  shows "after (quiet t v) (publishSleeperBeacon rtm p i) w"
  unfolding publishSleeperBeacon_def load_owned upsertTxtRecord_def Let_def
proof (rule owned_quiet [OF assms], goal_cases)
  case (1 x)
  have a: "apart t (pr_tenant p) (d_id x) v w" using safe_apart [OF 1(4)] 1(2) by simp
  note beacon = after_beacon_connection [OF a, of rtm, unfolded 1(2)]
  show ?case
    by (rule after_conseq [OF _ apart_quiet [of t "pr_tenant p" i v]], rule after_bind [OF beacon],
        intro after_seq_when after_bind_lift after_bind_get after_bind [OF apart_updates(4)] after_beacon_stored)
qed

lemma quiet_queue:
  assumes "quiet t v w" and "t \<noteq> pr_tenant p"
  shows "after (quiet t v) (queueSleeperCommand rtm p i c) w"
  unfolding queueSleeperCommand_def load_owned
proof (rule owned_quiet [OF assms], goal_cases)
  case (1 x)
  have q: "quiet t v (w\<lparr>cw_db := d\<rparr>)" if "insert_command cmd (cw_db w) = (r, d)" for cmd r d
    using that assms(1) safe_quiet [OF safe_commands [OF 1(4)]] by (auto simp: insert_command_def split: if_splits)
  show ?case by (intro after_seq_when after_seq_run after_bind [OF quiet_publish] after_ret assms q)
qed

lemma quiet_node:
  assumes "quiet t v w" and "t \<noteq> pr_tenant p"
  shows "after (quiet t v) (beacon_action rtm p i) w" "after (quiet t v) (command_action rtm r p i) w"
proof -
  show "after (quiet t v) (beacon_action rtm p i) w"
    unfolding beacon_action_def by (rule after_bind [OF quiet_publish [OF assms]], rule after_ret)
  show "after (quiet t v) (command_action rtm r p i) w"
    unfolding command_action_def
    by (rule after_bind_lift, rule assms(1), rule after_bind_lift, rule assms(1), rule after_bind, rule quiet_queue [OF assms], rule after_ret)
qed

lemma quiet_tunnel:
  assumes "quiet t v w" and "t \<noteq> pr_tenant p"
  shows "after (quiet t v) (enableDnsTunnel rtm p i) w"
  unfolding enableDnsTunnel_def load_owned upsertNsRecord_def upsertARecord_def Let_def
proof (rule owned_quiet [OF assms], goal_cases)
  case (1 x)
  show ?case
    by (intro after_quiet [of t "pr_tenant p" i "d_connection x"] after_seq_when 1(4))
      (auto simp: same_keys_def dep_keys_def intro!: after_ret after_bind_res after_bind_lift after_bind [OF after_record] after_seq_upd after_audited
        safe_set_dep 1(4))
qed

subsection \<open>Isolation\<close>

text \<open>The handlers that a signed-in user reaches, other than connecting a token.\<close>

inductive user_handler :: "cp_runtime \<Rightarrow> principal \<Rightarrow> (cp_world, response) act \<Rightarrow> bool" for rtm p where
  uh_create: "user_handler rtm p (createDeployment rtm r p)"
| uh_list: "user_handler rtm p (listDeployments p)"
| uh_get: "user_handler rtm p (getDeployment rtm p i)"
| uh_boot: "user_handler rtm p (rotateBootstrapToken rtm r p i)"
| uh_sub: "user_handler rtm p (rotateSubscriptionToken rtm r p i)"
| uh_retry: "user_handler rtm p (retryDeployment rtm r p i)"
| uh_delete: "user_handler rtm p (deleteDeployment rtm p i)"
| uh_revoke: "user_handler rtm p (revokeDeployment rtm r p i)"
| uh_role: "user_handler rtm p (role_action rtm r p i)"
| uh_beacon: "user_handler rtm p (beacon_action rtm p i)"
| uh_command: "user_handler rtm p (command_action rtm r p i)"
| uh_tunnel: "user_handler rtm p (enableDnsTunnel rtm p i)"
| uh_conns: "user_handler rtm p (listCloudflareConnections rtm p)"
| uh_disconnect: "user_handler rtm p (disconnectCloudflareConnection rtm r p cid)"
| uh_accounts: "user_handler rtm p (listCloudflareAccounts p cid)"
| uh_zones: "user_handler rtm p (listCloudflareZones p cid accountId)"

lemmas quiet_handlers = quiet_create quiet_reads quiet_rotate_boot quiet_rotate_subscription quiet_retry quiet_delete quiet_revoke quiet_disconnect
  quiet_role quiet_node quiet_tunnel

lemma user_handler_quiet:
  assumes "user_handler rtm p h" and "quiet t v w" and "t \<noteq> pr_tenant p" and "pr_tenant p \<noteq> []"
  shows "quiet t v (snd (h w))"
  using assms(1) quiet_handlers [OF assms(2)] assms(3,4) by cases (simp_all add: after_def)

text \<open>
  C3. Tenants are isolated. Whatever request a signed-in user sends to the deployment, node and connection handlers, and whatever
  Cloudflare, the workflow engine and the random source answer, every other tenant's deployments, connections, encrypted
  secrets, bootstrap tokens and published scripts are exactly what they were, on success and on every error path alike, and
  the tables stay sound.
\<close>

theorem tenant_isolation:
  assumes "user_handler rtm p h" and "cp_ok (cw_db w)" and "t \<noteq> pr_tenant p" and "pr_tenant p \<noteq> []"
  shows "tenant_view t (snd (h w)) = tenant_view t w \<and> cp_ok (cw_db (snd (h w)))"
  using user_handler_quiet [OF assms(1) _ assms(3,4), of "tenant_view t w" w] assms(2) by (simp add: quiet_def)

definition demo_conn :: "string \<Rightarrow> connection" where
  "demo_conn enc = \<lparr>c_id = ''c1'', c_tenant = ''t1'', c_auth_type = ''api_token'', c_token_enc = enc, c_refresh_enc = None, c_expires = None,
     c_scopes = None, c_cf_user = None, c_cf_email = None, c_account = Some (replicate 32 CHR ''a''), c_account_name = Some ''acc'',
     c_zone = Some (replicate 32 CHR ''b''), c_zone_name = Some ''example.org'', c_revoked = None, c_created = 0, c_updated = 0\<rparr>"

definition demo_cp_world :: "string \<Rightarrow> cp_world" where
  "demo_cp_world enc = \<lparr>cw_db = empty_cp\<lparr>cp_conns := [demo_conn enc], cp_deps := [demo_dep], cp_secrets := [(''dep1'', ''sealed'', 1)]\<rparr>,
     cw_scripts = [], cw_domains = [], cw_dns = [], cw_flows = []\<rparr>"

definition demo_stranger :: principal where
  "demo_stranger = \<lparr>pr_tenant = ''t2'', pr_telegram = ''43'', pr_name = ''Eve'', pr_admin = False, pr_session = ''s2''\<rparr>"

theorem tenant_isolation_witness:
  "tenant_view ''t1'' (snd (deleteDeployment demo_cr demo_stranger ''dep1'' (demo_cp_world ''sealed''))) = tenant_view ''t1'' (demo_cp_world ''sealed'') \<and>
     cp_ok (cw_db (snd (deleteDeployment demo_cr demo_stranger ''dep1'' (demo_cp_world ''sealed''))))"
  by (rule tenant_isolation [OF uh_delete])
    (simp_all add: demo_stranger_def demo_cp_world_def demo_conn_def demo_dep_def empty_cp_def cp_ok_def deps_ok_def conns_ok_def bound_ok_def children_ok_def)

end
