(* ===== verification/Cp_Reach.thy ===== *)
theory Cp_Reach
  imports Cp_Isolation
begin

text \<open>
  The control plane as a transition system: requests of users and nodes, connecting a token, signing in and out, the cron
  run, and one workflow attempt at a time, in any order. Tenants and login links are written by the Telegram bot, which is
  not modelled: their tables may change at any time.
\<close>

subsection \<open>Everything else keeps the tables sound\<close>

definition sound :: "cp_world \<Rightarrow> bool" where
  "sound w \<longleftrightarrow> cp_ok (cw_db w)"

named_theorems cp_ok_intros \<open>operations that keep the tables sound\<close>

declare cp_ok_set_dep [cp_ok_intros] cp_ok_disconnect [cp_ok_intros] cp_ok_grant [cp_ok_intros] cp_ok_erase_expired [cp_ok_intros]
  cp_ok_store_agent [cp_ok_intros] cp_ok_filter_boot [cp_ok_intros]

lemma cp_ok_audit [cp_ok_intros]: "cp_ok d \<Longrightarrow> cp_ok (cp_audit rtm t a b c e f r m d)"
  by (rule cp_ok_other) simp_all

lemma cp_ok_status [cp_ok_intros]: "cp_ok d \<Longrightarrow> cp_ok (dep_status_is now i s detail d)"
  unfolding dep_status_is_def by (rule cp_ok_set_dep) (simp_all add: same_keys_def dep_keys_def)

lemma cp_ok_tables [cp_ok_intros]:
  "cp_ok d \<Longrightarrow> cp_ok (d\<lparr>cp_rates := a\<rparr>)" "cp_ok d \<Longrightarrow> cp_ok (d\<lparr>cp_sessions := b\<rparr>)" "cp_ok d \<Longrightarrow> cp_ok (d\<lparr>cp_links := l\<rparr>)"
  "cp_ok d \<Longrightarrow> cp_ok (d\<lparr>cp_tenants := ts\<rparr>)"
  by (simp_all add: cp_ok_def)

lemma keeps_upd [keeps_intros]: "(\<And>d. cp_ok d \<Longrightarrow> cp_ok (f d)) \<Longrightarrow> keeps sound (cdb_upd f)"
  by (simp add: keeps_def sound_def cdb_upd_eq)

lemma keeps_run: "(\<And>d r d'. cp_ok d \<Longrightarrow> m d = (r, d') \<Longrightarrow> cp_ok d') \<Longrightarrow> keeps sound (cdb_run m)"
  by (auto simp: keeps_def sound_def cdb_run_def split: prod.splits)

lemma keeps_rate [keeps_intros]: "keeps sound (cdb_run (rateLimit rtm key limit secs))"
  by (rule keeps_run) (auto simp: rateLimit_def Let_def intro: cp_ok_intros)

lemma keeps_cloud [keeps_intros]:
  "keeps sound (uploadWorkerScript rtm auth a n s)" "keeps sound (attachWorkerDomain rtm auth a z h n)"
  "keeps sound (upsert_record rtm auth z k n c ttl)"
  unfolding uploadWorkerScript_def attachWorkerDomain_def upsert_record_def Let_def
  by (intro keeps_intros; simp add: keeps_def sound_def act_upd_def)+

lemma keeps_start [keeps_intros]: "keeps sound (startWorkflow rtm a i)"
  unfolding startWorkflow_def create_instance_def Let_def
  by (intro keeps_intros cp_ok_intros; simp add: keeps_def sound_def act_upd_def same_keys_def dep_keys_def)

lemma agent_keeps:
  "keeps sound (serveBootstrap render rtm r)" "keeps sound (completeBootstrap rtm r)" "keeps sound (receiveAgentReport rtm r)"
proof -
  show "keeps sound (serveBootstrap render rtm r)"
    unfolding serveBootstrap_def agent_audit_def case_prod_beta by (intro keeps_intros cp_ok_intros)
  have "keeps sound (cdb_run (consume_boot now h))" for now h by (rule keeps_run) (rule cp_ok_consume)
  then show "keeps sound (completeBootstrap rtm r)"
    unfolding completeBootstrap_def agent_audit_def case_prod_beta by (intro keeps_intros cp_ok_intros)
  show "keeps sound (receiveAgentReport rtm r)"
    unfolding keeps_def
  proof (intro allI impI)
    fix w assume w: "sound w"
    have "after sound (receiveAgentReport rtm r) w"
      unfolding receiveAgentReport_def Let_def
    proof (intro after_seq_when after_bind_lift after_bind_get w, goal_cases)
      case (1 b)
      show ?case
      proof (cases "find (\<lambda>x. d_id x = to_str (fld b ''deploymentId'')) (cp_deps (cw_db w))")
        case None
        then show ?thesis by (simp add: after_throw w)
      next
        case (Some x)
        have x: "x \<in> set (cp_deps (cw_db w))" using find_SomeD [OF Some] by simp
        have rl: "sound (w\<lparr>cw_db := d\<rparr>) \<and> cp_deps d = cp_deps (cw_db w)" if "rateLimit rtm key n secs (cw_db w) = (res, d)" for key n secs res d
          using that w by (auto simp: rateLimit_def Let_def sound_def intro: cp_ok_intros)
        show ?thesis unfolding Some option.case
        proof (intro after_seq_when after_bind_run w, goal_cases)
          case (1 res d)
          with rl show ?case by blast
        next
          case (2 allowed d)
          with rl show ?case by blast
        next
          case (3 allowed d)
          note d = rl [OF 3(2)]
          show ?case
            by (rule after_seq_upd, rule after_ret) (use d x in \<open>simp add: sound_def cp_ok_store_report\<close>)
        qed
      qed
    qed
    then show "sound (snd (receiveAgentReport rtm r w))" by (simp add: after_def)
  qed
qed

lemma keeps_connect_limit [keeps_intros]: "keeps sound (connect_limit rtm key)"
  unfolding connect_limit_def by (intro keeps_intros cp_ok_intros)

lemma keeps_insert_connection [keeps_intros]: "keeps sound (cdb_run (insert_connection (token_connection rtm t e x s u a n z m)))"
  by (rule keeps_run) (erule cp_ok_insert_connection [rotated 2], simp_all add: token_connection_def)

lemma connect_keeps: "keeps sound (createTemporaryApiTokenConnection rtm r p)"
  unfolding createTemporaryApiTokenConnection_def user_audit_def Let_def by (intro keeps_intros cp_ok_intros)

lemma connect_panel_keeps: "keeps sound (connectPanelTokenFromChat rtm tenant tg tok)"
  unfolding connectPanelTokenFromChat_def Let_def case_prod_beta
  by (intro keeps_intros cp_ok_intros)

lemma login_keeps:
  "keeps sound (cdb_run (loginFromOneTimeLink rtm r))" "keeps sound (cdb_run (cp_logout rtm r p))"
  "keeps sound (cdb_run (requireSession rtm r))" "keeps sound (cdb_run (loginRateLimit rtm r))"
proof -
  show "keeps sound (cdb_run (loginFromOneTimeLink rtm r))"
    by (rule keeps_run) (auto simp: loginFromOneTimeLink_def Let_def intro!: cp_ok_intros split: if_splits option.splits)
  show "keeps sound (cdb_run (cp_logout rtm r p))"
    by (rule keeps_run) (auto simp: cp_logout_def intro!: cp_ok_intros)
  show "keeps sound (cdb_run (requireSession rtm r))"
    by (rule keeps_run) (auto simp: requireSession_def Let_def intro!: cp_ok_intros split: if_splits option.splits)
  show "keeps sound (cdb_run (loginRateLimit rtm r))"
    by (rule keeps_run) (auto simp: loginRateLimit_def rateLimit_def Let_def act_bind_def act_when_def intro!: cp_ok_intros split: if_splits)
qed

subsection \<open>Workflow attempts\<close>

lemma keeps_case_pc_dep [keeps_intros]: "(\<And>x. keeps I (k x)) \<Longrightarrow> keeps I (flow_dep f k)"
  unfolding flow_dep_def by (intro keeps_intros)

lemma keeps_then_goto [keeps_intros]: "keeps I m \<Longrightarrow> keeps I (then_goto m pc f)"
  unfolding then_goto_def by (intro keeps_intros)

lemma keeps_erase [keeps_intros]: "keeps sound (erase_access rtm x)"
  unfolding erase_access_def
  by (rule keeps_run) (auto split: prod.splits, metis cp_ok_disconnect snd_conv)

lemma step_keeps [keeps_intros]:
  "keeps sound (updateStatus rtm i s detail)" "keeps sound (flow_audit rtm x a b c m)" "keeps sound (notify rtm x)"
  "keeps sound (connection_auth rtm cid)"
  unfolding updateStatus_def flow_audit_def notify_def connection_auth_def by (intro keeps_intros cp_ok_intros | assumption)+

lemma steps_keep [keeps_intros]:
  "keeps sound (configure_dns rtm x)" "keeps sound (deploy_pending rtm x)" "keeps sound (mark_awaiting rtm x)"
  "keeps sound (publish_profiles rtm x)" "keeps sound (mark_ready rtm x)" "keeps sound (disable_data_plane rtm x h)"
  "keeps sound (erase_failure rtm x)"
  unfolding configure_dns_def deploy_pending_def mark_awaiting_def publish_profiles_def mark_ready_def disable_data_plane_def
    erase_failure_def upsertARecord_def
  by (intro keeps_intros)+

lemma keeps_mark_revoked [keeps_intros]: "keeps sound (mark_revoked rtm x h)"
  unfolding mark_revoked_def
  by (intro keeps_intros cp_ok_intros) (simp_all add: same_keys_def dep_keys_def)

lemma flow_body_keeps: "keeps sound (flow_body rtm f)"
  unfolding flow_body_def by (cases "fw_pc f"; simp only: flow_pc.case; intro keeps_intros)

lemma flow_catch_keeps: "sound w \<Longrightarrow> sound (snd (flow_catch rtm f e w))"
proof -
  have "keeps sound (act_seq (updateStatus rtm i s dt) (act_seq (cdb_upd (cp_audit rtm t a b c g r m q)) (case y of None \<Rightarrow> act_ret ()
         | Some x \<Rightarrow> act_seq (erase_access rtm x) (act_catch (notify rtm x) (\<lambda>_. act_ret ())))))" for i s dt t a b c g r m q y
    by (intro keeps_intros cp_ok_intros)
  then show "sound w \<Longrightarrow> sound (snd (flow_catch rtm f e w))" by (simp add: flow_catch_def keeps_def)
qed

lemma flow_step_sound:
  assumes "sound w" and "flow_step rtm f w = (f', w')"
  shows "sound w'"
proof -
  obtain r v where b: "flow_body rtm f w = (r, v)" by (metis surj_pair)
  have v: "sound v" using keepsD [OF flow_body_keeps assms(1) b] .
  have "flow_catch rtm f e v = (f', w') \<Longrightarrow> sound w'" for e using flow_catch_keeps [OF v, of rtm f e] by simp
  with assms(2) b v show ?thesis by (cases r) (auto simp: flow_step_def split: if_splits)
qed

subsection \<open>The transition system\<close>

text \<open>One attempt of the \<open>n\<close>-th instance.\<close>

definition run_flow :: "cp_runtime \<Rightarrow> nat \<Rightarrow> cp_world \<Rightarrow> cp_world" where
  "run_flow rtm n w =
     (case flow_step rtm (cw_flows w ! n) w of (f, w') \<Rightarrow> w'\<lparr>cw_flows := (cw_flows w')[n := f]\<rparr>)"

inductive cp_step :: "cp_world \<Rightarrow> cp_world \<Rightarrow> bool" where
  user: "user_handler rtm p h \<Longrightarrow> pr_tenant p \<noteq> [] \<Longrightarrow> cp_step w (snd (h w))"
| connect: "cp_step w (snd (createTemporaryApiTokenConnection rtm r p w))"
| connect_panel: "cp_step w (snd (connectPanelTokenFromChat rtm tenant tg tok w))"
| download: "cp_step w (snd (serveBootstrap render rtm r w))"
| complete: "cp_step w (snd (completeBootstrap rtm r w))"
| report: "cp_step w (snd (receiveAgentReport rtm r w))"
| login: "cp_step w (snd (cdb_run (loginFromOneTimeLink rtm r) w))"
| login_limit: "cp_step w (snd (cdb_run (loginRateLimit rtm r) w))"
| session: "cp_step w (snd (cdb_run (requireSession rtm r) w))"
| logout: "cp_step w (snd (cdb_run (cp_logout rtm r p) w))"
| cron: "cp_step w (snd (cdb_upd (\<lambda>d. snd (eraseExpiredApiTokens now d)) w))"
| bot: "cp_step w (w\<lparr>cw_db := (cw_db w)\<lparr>cp_tenants := ts, cp_links := ls\<rparr>\<rparr>)"
| attempt: "n < length (cw_flows w) \<Longrightarrow> cp_step w (run_flow rtm n w)"

definition cp_start :: cp_world where
  "cp_start = \<lparr>cw_db = empty_cp, cw_scripts = [], cw_domains = [], cw_dns = [], cw_flows = []\<rparr>"

inductive cp_reach :: "cp_world \<Rightarrow> bool" where
  cp_reach_start: "cp_reach cp_start"
| cp_reach_step: "cp_reach w \<Longrightarrow> cp_step w w' \<Longrightarrow> cp_reach w'"

lemma user_keeps:
  assumes "user_handler rtm p h" and "pr_tenant p \<noteq> []" and "sound w"
  shows "sound (snd (h w))"
  using user_handler_quiet [OF assms(1) _ _ assms(2), of "pr_tenant p @ ''x''" "tenant_view (pr_tenant p @ ''x'') w" w] assms(3)
  by (simp add: quiet_def sound_def)

lemma cp_step_sound:
  assumes "cp_step w w'" and "sound w"
  shows "sound w'"
  using assms(1)
proof cases
  case (user rtm p h)
  then show ?thesis using user_keeps assms(2) by blast
next
  case (attempt n rtm)
  then show ?thesis using flow_step_sound [OF assms(2)] by (auto simp: run_flow_def sound_def split: prod.splits)
next
  case (cron now)
  have "keeps sound (cdb_upd (\<lambda>d. snd (eraseExpiredApiTokens now d)))" by (intro keeps_intros cp_ok_intros)
  with cron assms(2) show ?thesis by (simp add: keeps_def)
next
  case (bot ts ls)
  with assms(2) show ?thesis by (simp add: sound_def cp_ok_def)
qed (use assms(2) connect_keeps connect_panel_keeps agent_keeps login_keeps in \<open>simp_all add: keeps_def\<close>)

text \<open>
  C5. Integrity of the control plane. In every state that any interleaving of requests, node calls, cron runs and workflow
  attempts (with retries and failures) can reach from an empty database: deployment ids, worker names per account, worker
  and node hostnames are unique; every deployment has exactly one secret bundle and at most one bootstrap token, and uses a
  connection of its own tenant; no bundle, token or health report outlives its deployment; and a revoked connection holds
  no credential.
\<close>

theorem control_plane_integrity:
  assumes "cp_reach w"
  shows "cp_ok (cw_db w)"
  using assms
proof induction
  case cp_reach_start
  then show ?case
    by (simp add: cp_start_def empty_cp_def cp_ok_def deps_ok_def conns_ok_def bound_ok_def children_ok_def)
next
  case (cp_reach_step w w')
  then show ?case using cp_step_sound by (simp add: sound_def)
qed

theorem control_plane_integrity_witness:
  "cp_ok (cw_db (snd (cdb_run (loginFromOneTimeLink demo_cr (demo_cp_request [(''t'', replicate 40 CHR ''x'')]))
     (cp_start\<lparr>cw_db := demo_cp_db\<rparr>))))"
proof (rule control_plane_integrity [OF cp_reach_step [OF _ login]])
  have "cp_start\<lparr>cw_db := demo_cp_db\<rparr> =
    cp_start\<lparr>cw_db := (cw_db cp_start)\<lparr>cp_tenants := cp_tenants demo_cp_db, cp_links := cp_links demo_cp_db\<rparr>\<rparr>"
    by (simp add: cp_start_def demo_cp_db_def empty_cp_def)
  then show "cp_reach (cp_start\<lparr>cw_db := demo_cp_db\<rparr>)" using cp_reach_step [OF cp_reach_start bot] by simp
qed

end
