(* ===== verification/Cp_Flow.thy ===== *)
theory Cp_Flow
  imports Cp_Reach
begin

text \<open>
  What a provisioning workflow guarantees: every instance ends within a fixed number of attempts, whatever the world answers;
  and a preparation ends in success when no six attempts in a row meet an outage.
\<close>

subsection \<open>Termination\<close>

text \<open>The attempts that are left at most: six for each durable step still to come and one for each piece of code between steps.\<close>

fun steps_left :: "flow_pc \<Rightarrow> nat" where
  "steps_left Load_deployment = 32"
| "steps_left Mark_preparing = 24"
| "steps_left Configure_dns = 18"
| "steps_left Deploy_pending = 12"
| "steps_left Mark_awaiting = 6"
| "steps_left Mark_finalizing = 26"
| "steps_left Publish_profiles = 20"
| "steps_left Mark_ready = 14"
| "steps_left Erase_access = 8"
| "steps_left Notify_erased = 2"
| "steps_left Report_erase_failure = 1"
| "steps_left New_hash = 25"
| "steps_left Disable_data_plane = 19"
| "steps_left Mark_revoked = 13"
| "steps_left Erase_revoked = 7"
| "steps_left Report_revoke_erase_failure = 1"
| "steps_left (Returned s) = 0"
| "steps_left Thrown = 0"

definition attempts_left :: "flow \<Rightarrow> nat" where
  "attempts_left f = steps_left (fw_pc f) - fw_tries f"

text \<open>What every instance satisfies: the retries are counted up to five, and only the first step runs without the deployment.\<close>

definition flow_ok :: "flow \<Rightarrow> bool" where
  "flow_ok f \<longleftrightarrow> fw_tries f \<le> retry_limit \<and> (\<not> durable (fw_pc f) \<longrightarrow> fw_tries f = 0) \<and>
     (fw_loaded f = None \<longrightarrow> fw_pc f = Load_deployment \<or> fw_pc f = Thrown)"

fun next_pcs :: "flow_pc \<Rightarrow> flow_pc list" where
  "next_pcs Load_deployment = [Mark_preparing, Mark_finalizing, New_hash]"
| "next_pcs Mark_preparing = [Configure_dns]"
| "next_pcs Configure_dns = [Deploy_pending]"
| "next_pcs Deploy_pending = [Mark_awaiting]"
| "next_pcs Mark_awaiting = [Returned ''awaiting_agent'']"
| "next_pcs Mark_finalizing = [Publish_profiles]"
| "next_pcs Publish_profiles = [Mark_ready]"
| "next_pcs Mark_ready = [Erase_access]"
| "next_pcs Erase_access = [Notify_erased]"
| "next_pcs Notify_erased = [Returned ''ready'']"
| "next_pcs Report_erase_failure = [Returned ''ready'']"
| "next_pcs New_hash = [Disable_data_plane]"
| "next_pcs Disable_data_plane = [Mark_revoked]"
| "next_pcs Mark_revoked = [Erase_revoked]"
| "next_pcs Erase_revoked = [Returned ''revoked'']"
| "next_pcs Report_revoke_erase_failure = [Returned ''revoked'']"
| "next_pcs (Returned s) = []"
| "next_pcs Thrown = []"

lemma then_goto_Inr: "then_goto m pc f w = (Inr f', w') \<Longrightarrow> f' = goto pc f"
  by (auto simp: then_goto_def act_bind_def act_ret_def split: prod.splits sum.splits)

lemma goto_simps [simp]: "fw_pc (goto pc f) = pc" "fw_tries (goto pc f) = 0" "fw_loaded (goto pc f) = fw_loaded f"
  "fw_dep (goto pc f) = fw_dep f" "fw_action (goto pc f) = fw_action f"
  by (simp_all add: goto_def)

lemma erase_next: "act_bind m (\<lambda>b. act_ret (goto pc (f\<lparr>fw_disconnected := b\<rparr>))) w = (Inr f', w') \<Longrightarrow>
  fw_pc f' = pc \<and> fw_tries f' = 0 \<and> fw_loaded f' = fw_loaded f"
  by (auto simp: act_bind_def act_ret_def split: prod.splits sum.splits)

lemma flow_body_next:
  assumes "flow_body rtm f w = (Inr f', w')" and "flow_ok f" and "\<not> ended (fw_pc f)"
  shows "fw_pc f' \<in> set (next_pcs (fw_pc f)) \<and> fw_tries f' = 0 \<and> fw_loaded f' \<noteq> None"
proof (cases "fw_loaded f")
  case None
  with assms(2,3) have "fw_pc f = Load_deployment" by (auto simp: flow_ok_def)
  with assms(1) show ?thesis
    by (cases "fw_action f") (auto simp: flow_body_def act_bind_def cdb_res_def act_ret_def split: sum.splits)
next
  case (Some x)
  show ?thesis
  proof (cases "fw_pc f")
    case Load_deployment
    with assms(1) show ?thesis
      by (cases "fw_action f") (auto simp: flow_body_def act_bind_def cdb_res_def act_ret_def split: sum.splits)
  next
    case Erase_access
    with assms(1) Some show ?thesis by (auto simp: flow_body_def flow_dep_def dest: erase_next)
  next
    case New_hash
    with assms(1) Some show ?thesis by (auto simp: flow_body_def act_ret_def)
  qed (use assms(1,3) Some in \<open>auto simp: flow_body_def flow_dep_def dest: then_goto_Inr\<close>)
qed

lemma next_left: "pc' \<in> set (next_pcs pc) \<Longrightarrow> steps_left pc' + (if durable pc then 6 else 1) \<le> steps_left pc"
  by (cases pc) (auto simp: durable_def)

lemma flow_step_decreases:
  assumes "flow_ok f" and "\<not> ended (fw_pc f)" and "flow_step rtm f w = (f', w')"
  shows "flow_ok f' \<and> attempts_left f' < attempts_left f"
proof -
  obtain r v where b: "flow_body rtm f w = (r, v)" by (metis surj_pair)
  have d: "durable (fw_pc f) \<Longrightarrow> 6 \<le> steps_left (fw_pc f)" "0 < steps_left (fw_pc f)"
    using assms(2) by (cases "fw_pc f"; simp add: durable_def)+
  have t: "fw_tries f \<le> 5" "\<not> durable (fw_pc f) \<Longrightarrow> fw_tries f = 0" using assms(1) by (auto simp: flow_ok_def retry_limit_def)
  show ?thesis
  proof (cases r)
    case (Inr g)
    with b assms(3) have g: "f' = g" by (simp add: flow_step_def)
    note n = flow_body_next [OF b [unfolded Inr] assms(1,2)]
    have "steps_left (fw_pc g) < steps_left (fw_pc f) - fw_tries f" using next_left [of "fw_pc g" "fw_pc f"] n t by (auto split: if_splits)
    with n show ?thesis by (auto simp: g attempts_left_def flow_ok_def)
  next
    case (Inl e)
    with b assms(3) have f': "(f', w') = (if durable (fw_pc f) \<and> fw_tries f < retry_limit then (f\<lparr>fw_tries := Suc (fw_tries f)\<rparr>, v)
          else if fw_pc f \<in> {Erase_access, Notify_erased} then (goto Report_erase_failure f, v)
          else if fw_pc f = Erase_revoked then (goto Report_revoke_erase_failure f, v)
          else flow_catch rtm f e v)" by (simp add: flow_step_def)
    then consider "durable (fw_pc f)" "fw_tries f < 5" "f' = f\<lparr>fw_tries := Suc (fw_tries f)\<rparr>"
      | "fw_pc f \<in> {Erase_access, Notify_erased}" "f' = goto Report_erase_failure f"
      | "fw_pc f = Erase_revoked" "f' = goto Report_revoke_erase_failure f"
      | "f' = goto Thrown f"
      by (auto simp: retry_limit_def flow_catch_def split: if_splits)
    then show ?thesis
    proof cases
      case 1
      then show ?thesis using d assms(1) by (auto simp: attempts_left_def flow_ok_def retry_limit_def)
    next
      case 2
      then show ?thesis using t assms(1) by (auto simp: attempts_left_def flow_ok_def durable_def)
    next
      case 3
      then show ?thesis using t assms(1) by (auto simp: attempts_left_def flow_ok_def durable_def)
    next
      case 4
      have "fw_tries f < steps_left (fw_pc f)" using d t by (cases "durable (fw_pc f)") auto
      with 4 show ?thesis using assms(1) by (auto simp: attempts_left_def flow_ok_def)
    qed
  qed
qed

text \<open>A run of one instance: each attempt meets its own environment and whatever the world has become in between.\<close>

fun attempts :: "(cp_runtime \<times> cp_world) list \<Rightarrow> flow \<Rightarrow> flow" where
  "attempts [] f = f"
| "attempts ((rtm, w) # ts) f = attempts ts (if ended (fw_pc f) then f else fst (flow_step rtm f w))"

lemma attempts_end:
  "flow_ok f \<Longrightarrow> attempts_left f \<le> length ts \<Longrightarrow> ended (fw_pc (attempts ts f))"
proof (induction ts arbitrary: f)
  case Nil
  then have "steps_left (fw_pc f) \<le> fw_tries f" "fw_tries f \<le> 5" "\<not> durable (fw_pc f) \<longrightarrow> fw_tries f = 0"
    by (auto simp: attempts_left_def flow_ok_def retry_limit_def)
  then show ?case by (cases "fw_pc f") (auto simp: durable_def)
next
  case (Cons a ts)
  obtain rtm w where a: "a = (rtm, w)" by force
  show ?case
  proof (cases "ended (fw_pc f)")
    case True
    have "attempts us f = f" for us using True by (induction us) auto
    with True show ?thesis by (simp add: a)
  next
    case False
    obtain g v where g: "flow_step rtm f w = (g, v)" by (metis surj_pair)
    from flow_step_decreases [OF Cons.prems(1) False g] Cons.prems(2) Cons.IH [of g] False g show ?thesis by (simp add: a)
  qed
qed

text \<open>
  C7. Every workflow instance ends. Whatever each attempt meets - outages of Cloudflare or Telegram, deleted rows, expired or
  erased credentials, any change to the database by requests and other instances in between - a preparation, finalisation or
  revocation has returned or thrown after at most 32 attempts.
\<close>

theorem workflow_terminates:
  assumes "32 \<le> length ts"
  shows "ended (fw_pc (attempts ts (new_flow action i now)))"
  by (rule attempts_end) (use assms in \<open>simp_all add: flow_ok_def attempts_left_def new_flow_def\<close>)

theorem workflow_terminates_witness:
  "ended (fw_pc (attempts (replicate 40 (demo_cr, cp_start)) (new_flow Finalize ''dep1'' 5000)))"
  by (rule workflow_terminates) simp

subsection \<open>Preparation succeeds\<close>

text \<open>
  An environment without outage for the deployment \<open>x\<close> over the connection \<open>c\<close>: the credential can be opened and has not
  expired, the zone is active in the account, Cloudflare answers writes with an object, and Telegram takes messages.
\<close>

definition healthy :: "deployment \<Rightarrow> connection \<Rightarrow> cp_runtime \<Rightarrow> bool" where
  "healthy x c rtm \<longleftrightarrow> cr_telegram rtm = Inr () \<and>
     (\<exists>tok. getValidCloudflareAuth rtm c = Inr tok \<and> verifyZoneOwnership rtm tok (d_zone x) (d_account x) = Inr () \<and>
        (\<forall>path body. \<exists>fs gs. cloudflareApi rtm tok ''PUT'' path body = Inr (JObj fs) \<and> cloudflareApi rtm tok ''POST'' path body = Inr (JObj gs)) \<and>
        (\<exists>rs. cloudflareApi rtm tok ''GET'' (''/zones/'' @ d_zone x @ ''/dns_records?type='' @ encodeURIComponent ''A'' @ ''&name='' @
           encodeURIComponent (d_node_hostname x) @ ''&per_page=10'') [] = Inr (JArr rs)))"

text \<open>No six attempts in a row meet an outage, given that the last \<open>k\<close> did.\<close>

fun calm :: "('a \<Rightarrow> bool) \<Rightarrow> nat \<Rightarrow> 'a list \<Rightarrow> bool" where
  "calm P k [] = True"
| "calm P k (t # ts) = (if P t then calm P 0 ts else k < retry_limit \<and> calm P (Suc k) ts)"

fun run_alone :: "cp_runtime list \<Rightarrow> flow \<times> cp_world \<Rightarrow> flow \<times> cp_world" where
  "run_alone [] s = s"
| "run_alone (rtm # ts) (f, w) = run_alone ts (if ended (fw_pc f) then (f, w) else flow_step rtm f w)"

definition has_dns :: "deployment \<Rightarrow> cp_world \<Rightarrow> bool" where
  "has_dns x w \<longleftrightarrow> map_of (cw_dns w) (d_zone x, ''A'', d_node_hostname x) = Some (d_vps x)"

definition has_pending :: "deployment \<Rightarrow> cp_world \<Rightarrow> bool" where
  "has_pending x w \<longleftrightarrow> (\<exists>now. map_of (cw_scripts w) (d_account x, d_worker_name x) =
       Some \<lparr>sp_token_hash = d_sub_hash x, sp_bundle = json_stringify (buildPendingBundle now x)\<rparr>) \<and>
     map_of (cw_domains w) (d_worker_hostname x) = Some (d_account x, d_worker_name x)"

definition status_everywhere :: "string \<Rightarrow> dep_status \<Rightarrow> cp_world \<Rightarrow> bool" where
  "status_everywhere i s w \<longleftrightarrow> (\<forall>y \<in> set (cp_deps (cw_db w)). d_id y = i \<longrightarrow> d_status y = s)"

fun prepare_rank :: "flow_pc \<Rightarrow> nat" where
  "prepare_rank Mark_preparing = 4"
| "prepare_rank Configure_dns = 3"
| "prepare_rank Deploy_pending = 2"
| "prepare_rank Mark_awaiting = 1"
| "prepare_rank pc = 0"

definition prepare_inv :: "deployment \<Rightarrow> connection \<Rightarrow> flow \<Rightarrow> cp_world \<Rightarrow> bool" where
  "prepare_inv x c f w \<longleftrightarrow> fw_loaded f = Some x \<and> getConnection (d_connection x) None (cw_db w) = Inr c \<and>
     fw_pc f \<in> {Mark_preparing, Configure_dns, Deploy_pending, Mark_awaiting, Returned ''awaiting_agent''} \<and>
     (prepare_rank (fw_pc f) < 3 \<longrightarrow> has_dns x w) \<and> (prepare_rank (fw_pc f) < 2 \<longrightarrow> has_pending x w) \<and>
     (prepare_rank (fw_pc f) = 0 \<longrightarrow> status_everywhere (d_id x) Awaiting_agent w)"

lemma getConnection_conns: "cp_conns d' = cp_conns d \<Longrightarrow> getConnection cid t d' = getConnection cid t d"
  by (simp add: getConnection_def)

lemma conns_status [simp]: "cp_conns (dep_status_is now i s dt d) = cp_conns d"
  by (simp add: dep_status_is_def)

lemma upload_eq:
  "uploadWorkerScript rtm tok a n s w =
    (case cloudflareApi rtm tok ''PUT'' (''/accounts/'' @ a @ ''/workers/scripts/'' @ encodeURIComponent n)
       (json_stringify (upload_metadata [(''SUB_TOKEN_HASH'', sp_token_hash s), (''CONFIG_BUNDLE'', sp_bundle s)])) of
       Inl e \<Rightarrow> (Inl e, w) | Inr v \<Rightarrow> (Inr (), w\<lparr>cw_scripts := upsert (a, n) s (cw_scripts w)\<rparr>))"
  by (simp add: uploadWorkerScript_def act_unfold split: sum.splits)

lemma attach_eq:
  "attachWorkerDomain rtm tok a z h n w =
    (case cloudflareApi rtm tok ''PUT'' (''/accounts/'' @ a @ ''/workers/domains'')
       (json_stringify (JObj [(''hostname'', JStr h), (''service'', JStr n), (''zone_id'', JStr z)])) of
       Inl e \<Rightarrow> (Inl e, w) | Inr v \<Rightarrow> (Inr (), w\<lparr>cw_domains := upsert h (a, n) (cw_domains w)\<rparr>))"
  by (simp add: attachWorkerDomain_def act_unfold split: sum.splits)

lemma auth_eq:
  "getConnection (d_connection x) None (cw_db w) = Inr c \<Longrightarrow>
   connection_auth rtm (d_connection x) w = (getValidCloudflareAuth rtm c, w)"
  by (simp add: connection_auth_def cdb_res_def act_unfold)

lemma upsert_record_cases:
  assumes "upsert_record rtm tok z k n content ttl w = (r, w')"
  shows "w' = w \<and> (\<exists>e. r = Inl e) \<or> w' = w\<lparr>cw_dns := upsert (z, k, n) content (cw_dns w)\<rparr>"
  using assms by (auto simp: upsert_record_def Let_def act_unfold split: sum.splits if_splits)

lemma upsert_record_healthy:
  assumes "cloudflareApi rtm tok ''GET'' (''/zones/'' @ z @ ''/dns_records?type='' @ encodeURIComponent k @ ''&name='' @
           encodeURIComponent n @ ''&per_page=10'') [] = Inr (JArr rs)"
    and "\<And>path body. \<exists>fs gs. cloudflareApi rtm tok ''PUT'' path body = Inr (JObj fs) \<and> cloudflareApi rtm tok ''POST'' path body = Inr (JObj gs)"
  shows "\<exists>i. upsert_record rtm tok z k n content ttl w = (Inr i, w\<lparr>cw_dns := upsert (z, k, n) content (cw_dns w)\<rparr>)"
proof -
  have f: "\<exists>v. first_of (JArr rs) = Inr v" by (cases rs) auto
  then obtain v where v: "first_of (JArr rs) = Inr v" by blast
  define payload where "payload = json_stringify (JObj [(''type'', JStr k), (''name'', JStr n), (''content'', JStr content),
                       (''ttl'', JNum (Fin ttl)), (''proxied'', JBool False)])"
  have "\<exists>fs. (if truthy v then cloudflareApi rtm tok ''PUT'' (''/zones/'' @ z @ ''/dns_records'' @ ''/'' @ to_str (fld v ''id'')) payload
              else cloudflareApi rtm tok ''POST'' (''/zones/'' @ z @ ''/dns_records'') payload) = Inr (JObj fs)"
    using assms(2) by auto
  then show ?thesis using assms(1) v
    by (auto simp: upsert_record_def Let_def act_unfold payload_def need_obj_def nullish_def simp del: json_stringify.simps)
qed

text \<open>One attempt: it moves on, or it met an outage; what it needs and what is already done stay.\<close>

definition advances :: "deployment \<Rightarrow> connection \<Rightarrow> cp_runtime \<Rightarrow> flow \<Rightarrow> flow res \<Rightarrow> cp_world \<Rightarrow> bool" where
  "advances x c rtm f r w' \<longleftrightarrow>
     (case r of Inr f' \<Rightarrow> prepare_inv x c f' w' \<and> Suc (prepare_rank (fw_pc f')) = prepare_rank (fw_pc f) \<and> fw_tries f' = 0
      | Inl e \<Rightarrow> prepare_inv x c f w' \<and> \<not> healthy x c rtm)"

lemma advance_mark:
  assumes "prepare_inv x c f w" and "fw_pc f = Mark_preparing" and "flow_body rtm f w = (r, w')"
  shows "advances x c rtm f r w'"
  using assms
  by (auto simp: flow_body_def flow_dep_def prepare_inv_def then_goto_def updateStatus_def cdb_upd_def act_unfold advances_def
      getConnection_conns [OF conns_status])

lemma healthyD:
  assumes "healthy x c rtm" and "getValidCloudflareAuth rtm c = Inr tok"
  shows "verifyZoneOwnership rtm tok (d_zone x) (d_account x) = Inr ()"
    and "\<exists>fs gs. cloudflareApi rtm tok ''PUT'' path body = Inr (JObj fs) \<and> cloudflareApi rtm tok ''POST'' path body = Inr (JObj gs)"
    and "\<exists>rs. cloudflareApi rtm tok ''GET'' (''/zones/'' @ d_zone x @ ''/dns_records?type='' @ encodeURIComponent ''A'' @ ''&name='' @
           encodeURIComponent (d_node_hostname x) @ ''&per_page=10'') [] = Inr (JArr rs)"
  using assms by (auto simp: healthy_def)

lemma advance_dns:
  assumes inv: "prepare_inv x c f w" and pc: "fw_pc f = Configure_dns" and body: "flow_body rtm f w = (r, w')"
  shows "advances x c rtm f r w'"
proof -
  have l: "fw_loaded f = Some x" and conn: "getConnection (d_connection x) None (cw_db w) = Inr c" using inv by (simp_all add: prepare_inv_def)
  have stay: "advances x c rtm f (Inl e) w" if "\<not> healthy x c rtm" for e using that inv by (simp add: advances_def)
  have b: "then_goto (configure_dns rtm x) Deploy_pending f w = (r, w')" using body pc l by (simp add: flow_body_def flow_dep_def)
  show ?thesis
  proof (cases "getValidCloudflareAuth rtm c")
    case (Inl e)
    with b stay show ?thesis
      by (auto simp: then_goto_def configure_dns_def auth_eq [OF conn] act_bind_def healthy_def)
  next
    case (Inr tok)
    show ?thesis
    proof (cases "verifyZoneOwnership rtm tok (d_zone x) (d_account x)")
      case Inl
      with b stay Inr show ?thesis
        by (auto simp: then_goto_def configure_dns_def auth_eq [OF conn] act_bind_def act_seq_def act_lift_def healthy_def)
    next
      case (Inr u)
      obtain q v where up: "upsert_record rtm tok (d_zone x) ''A'' (d_node_hostname x) (d_vps x) 300 w = (q, v)" by (metis surj_pair)
      have v: "cw_db v = cw_db w" using upsert_record_cases [OF up] by auto
      have keep: "prepare_inv x c f v" using inv pc v by (simp add: prepare_inv_def)
      show ?thesis
      proof (cases q)
        case (Inl e)
        have "\<not> healthy x c rtm"
        proof
          assume h: "healthy x c rtm"
          note hd = healthyD [OF h \<open>getValidCloudflareAuth rtm c = Inr tok\<close>]
          obtain rs where "cloudflareApi rtm tok ''GET'' (''/zones/'' @ d_zone x @ ''/dns_records?type='' @ encodeURIComponent ''A'' @ ''&name='' @
             encodeURIComponent (d_node_hostname x) @ ''&per_page=10'') [] = Inr (JArr rs)" using hd(3) by blast
          from upsert_record_healthy [OF this hd(2), of "d_vps x" 300 w] up Inl show False by simp
        qed
        with b Inl \<open>getValidCloudflareAuth rtm c = Inr tok\<close> \<open>verifyZoneOwnership rtm tok (d_zone x) (d_account x) = Inr u\<close> up keep show ?thesis
          by (auto simp: then_goto_def configure_dns_def act_bind_def act_seq_def act_lift_def auth_eq [OF conn] upsertARecord_def advances_def)
      next
        case (Inr i)
        have "has_dns x v" using upsert_record_cases [OF up] Inr by (auto simp: has_dns_def map_of_upsert)
        with b Inr \<open>getValidCloudflareAuth rtm c = Inr tok\<close> \<open>verifyZoneOwnership rtm tok (d_zone x) (d_account x) = Inr u\<close> up keep l conn pc show ?thesis
          by (auto simp: then_goto_def configure_dns_def act_bind_def act_seq_def act_lift_def act_ret_def auth_eq [OF conn]
              upsertARecord_def advances_def prepare_inv_def)
      qed
    qed
  qed
qed

lemma advance_deploy:
  assumes inv: "prepare_inv x c f w" and pc: "fw_pc f = Deploy_pending" and body: "flow_body rtm f w = (r, w')"
  shows "advances x c rtm f r w'"
proof -
  have l: "fw_loaded f = Some x" and conn: "getConnection (d_connection x) None (cw_db w) = Inr c" and dns: "has_dns x w"
    using inv pc by (simp_all add: prepare_inv_def)
  have b: "then_goto (deploy_pending rtm x) Mark_awaiting f w = (r, w')" using body pc l by (simp add: flow_body_def flow_dep_def)
  let ?s = "\<lparr>sp_token_hash = d_sub_hash x, sp_bundle = json_stringify (buildPendingBundle (cr_now rtm) x)\<rparr>"
  have stay: "prepare_inv x c f (w\<lparr>cw_scripts := s, cw_domains := t\<rparr>)" for s t
    using inv pc by (simp add: prepare_inv_def has_dns_def)
  show ?thesis
  proof (cases "getValidCloudflareAuth rtm c")
    case (Inl e)
    with b stay [where s = "cw_scripts w" and t = "cw_domains w"] show ?thesis
      by (auto simp: then_goto_def deploy_pending_def auth_eq [OF conn] act_bind_def healthy_def advances_def)
  next
    case (Inr tok)
    define put1 where "put1 = cloudflareApi rtm tok ''PUT'' (''/accounts/'' @ d_account x @ ''/workers/scripts/'' @ encodeURIComponent (d_worker_name x))
       (json_stringify (upload_metadata [(''SUB_TOKEN_HASH'', sp_token_hash ?s), (''CONFIG_BUNDLE'', sp_bundle ?s)]))"
    define put2 where "put2 = cloudflareApi rtm tok ''PUT'' (''/accounts/'' @ d_account x @ ''/workers/domains'')
       (json_stringify (JObj [(''hostname'', JStr (d_worker_hostname x)), (''service'', JStr (d_worker_name x)), (''zone_id'', JStr (d_zone x))]))"
    have up: "uploadWorkerScript rtm tok (d_account x) (d_worker_name x) ?s w =
        (case put1 of Inl e \<Rightarrow> (Inl e, w) | Inr v \<Rightarrow> (Inr (), w\<lparr>cw_scripts := upsert (d_account x, d_worker_name x) ?s (cw_scripts w)\<rparr>))"
      unfolding put1_def by (rule upload_eq)
    have at: "attachWorkerDomain rtm tok (d_account x) (d_zone x) (d_worker_hostname x) (d_worker_name x) v =
        (case put2 of Inl e \<Rightarrow> (Inl e, v) | Inr _ \<Rightarrow> (Inr (), v\<lparr>cw_domains := upsert (d_worker_hostname x) (d_account x, d_worker_name x) (cw_domains v)\<rparr>))"
      for v unfolding put2_def by (rule attach_eq)
    have ok: "healthy x c rtm \<Longrightarrow> (\<exists>v. put1 = Inr v) \<and> (\<exists>v. put2 = Inr v)"
      using healthyD(2) [OF _ Inr] unfolding put1_def put2_def by blast
    have d: "deploy_pending rtm x w = (case put1 of Inl e \<Rightarrow> (Inl e, w) | Inr _ \<Rightarrow>
        (case put2 of Inl e \<Rightarrow> (Inl e, w\<lparr>cw_scripts := upsert (d_account x, d_worker_name x) ?s (cw_scripts w)\<rparr>)
         | Inr _ \<Rightarrow> (Inr (), w\<lparr>cw_scripts := upsert (d_account x, d_worker_name x) ?s (cw_scripts w),
              cw_domains := upsert (d_worker_hostname x) (d_account x, d_worker_name x) (cw_domains w)\<rparr>)))"
      by (simp add: deploy_pending_def auth_eq [OF conn] act_bind_def act_seq_def Inr up at split: sum.split)
    show ?thesis
    proof (cases "\<exists>v u. put1 = Inr v \<and> put2 = Inr u")
      case True
      then have "deploy_pending rtm x w = (Inr (), w\<lparr>cw_scripts := upsert (d_account x, d_worker_name x) ?s (cw_scripts w),
              cw_domains := upsert (d_worker_hostname x) (d_account x, d_worker_name x) (cw_domains w)\<rparr>)" (is "_ = (_, ?v)") using d by auto
      then have r: "r = Inr (goto Mark_awaiting f)" "w' = ?v" using b by (simp_all add: then_goto_def act_bind_def act_ret_def)
      have "has_pending x ?v" by (auto simp: has_pending_def map_of_upsert)
      then show ?thesis using dns conn l pc by (simp add: r advances_def prepare_inv_def has_dns_def)
    next
      case False
      then have "\<not> healthy x c rtm" using ok by blast
      moreover have "\<exists>e s. deploy_pending rtm x w = (Inl e, w\<lparr>cw_scripts := s, cw_domains := cw_domains w\<rparr>)"
      proof (cases put1)
        case (Inl e)
        with d have "deploy_pending rtm x w = (Inl e, w\<lparr>cw_scripts := cw_scripts w, cw_domains := cw_domains w\<rparr>)" by simp
        then show ?thesis by blast
      next
        case (Inr v)
        with False obtain e where "put2 = Inl e" by (cases put2) auto
        with Inr d have "deploy_pending rtm x w =
            (Inl e, w\<lparr>cw_scripts := upsert (d_account x, d_worker_name x) ?s (cw_scripts w), cw_domains := cw_domains w\<rparr>)" by simp
        then show ?thesis by blast
      qed
      moreover have "prepare_inv x c f (w\<lparr>cw_scripts := s\<rparr>)" for s using stay [where s = s and t = "cw_domains w"] by simp
      ultimately show ?thesis using b by (auto simp: then_goto_def act_bind_def advances_def)
    qed
  qed
qed

lemma advance_awaiting:
  assumes inv: "prepare_inv x c f w" and pc: "fw_pc f = Mark_awaiting" and body: "flow_body rtm f w = (r, w')"
  shows "advances x c rtm f r w'"
proof -
  have l: "fw_loaded f = Some x" and conn: "getConnection (d_connection x) None (cw_db w) = Inr c" and has: "has_dns x w" "has_pending x w"
    using inv pc by (simp_all add: prepare_inv_def)
  let ?d = "cp_audit rtm (Some (d_tenant x)) ''workflow'' None ''deployment.prepare'' (Some (d_id x)) ''success'' None JUndef
      (dep_status_is (cr_now rtm) (d_id x) Awaiting_agent None (cw_db w))"
  have b: "then_goto (mark_awaiting rtm x) (Returned ''awaiting_agent'') f w = (r, w')" using body pc l by (simp add: flow_body_def flow_dep_def)
  have n: "\<exists>q. mark_awaiting rtm x w = (q, w\<lparr>cw_db := ?d\<rparr>) \<and> (cr_telegram rtm = Inr () \<longrightarrow> q = Inr ())"
    by (auto simp: mark_awaiting_def updateStatus_def flow_audit_def notify_def cdb_upd_def cdb_get_def act_unfold split: sum.splits)
  then obtain q where q: "mark_awaiting rtm x w = (q, w\<lparr>cw_db := ?d\<rparr>)" "cr_telegram rtm = Inr () \<longrightarrow> q = Inr ()" by blast
  have st: "status_everywhere (d_id x) Awaiting_agent (w\<lparr>cw_db := ?d\<rparr>)"
    by (auto simp: status_everywhere_def dep_status_is_def set_dep_def)
  have keep: "getConnection (d_connection x) None ?d = Inr c" using conn by (subst getConnection_conns [of _ "cw_db w"]) simp_all
  have hs: "has_dns x (w\<lparr>cw_db := ?d\<rparr>)" "has_pending x (w\<lparr>cw_db := ?d\<rparr>)" using has by (simp_all add: has_dns_def has_pending_def)
  show ?thesis
  proof (cases q)
    case (Inl e)
    with q b have "r = Inl e" "w' = w\<lparr>cw_db := ?d\<rparr>" by (simp_all add: then_goto_def act_bind_def)
    with q Inl l keep hs pc show ?thesis by (auto simp: advances_def prepare_inv_def healthy_def)
  next
    case (Inr u)
    with q b have "r = Inr (goto (Returned ''awaiting_agent'') f)" "w' = w\<lparr>cw_db := ?d\<rparr>" by (simp_all add: then_goto_def act_bind_def act_ret_def)
    with l keep hs st pc show ?thesis by (simp add: advances_def prepare_inv_def)
  qed
qed

lemma prepare_advances:
  assumes "prepare_inv x c f w" and "\<not> ended (fw_pc f)" and "flow_body rtm f w = (r, w')"
  shows "advances x c rtm f r w'"
proof -
  consider "fw_pc f = Mark_preparing" | "fw_pc f = Configure_dns" | "fw_pc f = Deploy_pending" | "fw_pc f = Mark_awaiting"
    using assms(1,2) by (auto simp: prepare_inv_def)
  then show ?thesis
    by cases (rule advance_mark advance_dns advance_deploy advance_awaiting, (rule assms | assumption)+)+
qed

lemma prepare_runs:
  assumes "prepare_inv x c f w" and "fw_tries f \<le> k" and "calm (healthy x c) k ts" and "prepare_rank (fw_pc f) \<le> length (filter (healthy x c) ts)"
    and "k \<le> retry_limit"
  shows "case run_alone ts (f, w) of (f', w') \<Rightarrow> prepare_inv x c f' w' \<and> prepare_rank (fw_pc f') = 0"
  using assms
proof (induction ts arbitrary: f w k)
  case (Cons rtm ts)
  show ?case
  proof (cases "ended (fw_pc f)")
    case True
    have "run_alone us (f, w) = (f, w)" for us using True by (induction us) auto
    moreover have "prepare_rank (fw_pc f) = 0" using True by (cases "fw_pc f") auto
    ultimately show ?thesis using Cons.prems(1) by simp
  next
    case False
    obtain r v where b: "flow_body rtm f w = (r, v)" by (metis surj_pair)
    note adv = prepare_advances [OF Cons.prems(1) False b, unfolded advances_def]
    show ?thesis
    proof (cases r)
      case (Inr g)
      with adv have g: "prepare_inv x c g v" "Suc (prepare_rank (fw_pc g)) = prepare_rank (fw_pc f)" "fw_tries g = 0" by auto
      define k' where "k' = (if healthy x c rtm then 0 else Suc k)"
      have c: "calm (healthy x c) k' ts" "k' \<le> retry_limit" using Cons.prems(3) by (auto simp: k'_def split: if_splits)
      have n: "prepare_rank (fw_pc g) \<le> length (filter (healthy x c) ts)" using g(2) Cons.prems(4) by (simp split: if_splits)
      have "case run_alone ts (g, v) of (f', w') \<Rightarrow> prepare_inv x c f' w' \<and> prepare_rank (fw_pc f') = 0"
        by (rule Cons.IH [OF g(1) _ c(1) n c(2)]) (simp add: g(3))
      with b Inr False show ?thesis by (simp add: flow_step_def)
    next
      case (Inl e)
      with adv have h: "\<not> healthy x c rtm" and inv: "prepare_inv x c f v" by auto
      with Cons.prems have k: "k < retry_limit" "calm (healthy x c) (Suc k) ts" by auto
      have "durable (fw_pc f)" using inv by (auto simp: prepare_inv_def durable_def)
      with b Inl k Cons.prems(2) have s: "flow_step rtm f w = (f\<lparr>fw_tries := Suc (fw_tries f)\<rparr>, v)" by (simp add: flow_step_def)
      have "prepare_inv x c (f\<lparr>fw_tries := Suc (fw_tries f)\<rparr>) v" using inv by (simp add: prepare_inv_def)
      then have "case run_alone ts (f\<lparr>fw_tries := Suc (fw_tries f)\<rparr>, v) of (f', w') \<Rightarrow> prepare_inv x c f' w' \<and> prepare_rank (fw_pc f') = 0"
        by (rule Cons.IH [OF _ _ k(2)]) (use Cons.prems(2,4) h k(1) in simp_all)
      moreover have "run_alone (rtm # ts) (f, w) = run_alone ts (f\<lparr>fw_tries := Suc (fw_tries f)\<rparr>, v)" using False by (simp add: s)
      ultimately show ?thesis by simp
    qed
  qed
qed (auto simp: prepare_inv_def)

text \<open>
  C8. Preparation succeeds. If the deployment exists, its connection is usable, and outages never hit six attempts in a row,
  then a preparation whose attempts include five without outage returns \<open>awaiting_agent\<close>: the row says so, the node's A
  record is set, and the pending data plane is published under the deployment's subscription hash and attached to its
  hostname. Five failing attempts in a row of every step are survived.
\<close>

theorem prepare_completes:
  assumes "loadDeployment i (cw_db w) = Inr x" and "getConnection (d_connection x) None (cw_db w) = Inr c"
    and "calm (healthy x c) 0 ts" and "5 \<le> length (filter (healthy x c) ts)"
  shows "case run_alone ts (new_flow Prepare i now, w) of (f', w') \<Rightarrow>
     fw_pc f' = Returned ''awaiting_agent'' \<and> status_everywhere i Awaiting_agent w' \<and> has_dns x w' \<and> has_pending x w'"
proof (cases ts)
  case (Cons rtm us)
  let ?f = "goto Mark_preparing ((new_flow Prepare i now)\<lparr>fw_loaded := Some x\<rparr>)"
  have i: "d_id x = i" using assms(1) by (auto simp: loadDeployment_def dest: find_SomeD split: option.splits)
  have s: "flow_step rtm (new_flow Prepare i now) w = (?f, w)"
    using assms(1) by (simp add: flow_step_def flow_body_def new_flow_def cdb_res_def act_unfold)
  have inv: "prepare_inv x c ?f w" using assms(2) by (simp add: prepare_inv_def)
  have c: "calm (healthy x c) (if healthy x c rtm then 0 else 1) us" using assms(3) Cons by (auto split: if_splits)
  have "4 \<le> length (filter (healthy x c) us)" using assms(4) Cons by (auto split: if_splits)
  with prepare_runs [OF inv _ c] have "case run_alone us (?f, w) of (f', w') \<Rightarrow> prepare_inv x c f' w' \<and> prepare_rank (fw_pc f') = 0"
    by (simp add: retry_limit_def)
  moreover have "run_alone ts (new_flow Prepare i now, w) = run_alone us (?f, w)"
    by (simp only: Cons run_alone.simps s) (simp add: new_flow_def)
  ultimately show ?thesis by (auto simp: prepare_inv_def i)
qed (use assms(4) in simp)

definition demo_flow_cr :: cp_runtime where
  "demo_flow_cr = demo_cr\<lparr>cr_fetch := (\<lambda>c. Inr \<lparr>ay_ok = True, ay_status = 200, ay_json = Some (JObj [(''success'', JBool True),
     (''result'', if ac_method c \<noteq> ''GET'' then JObj [(''id'', JStr ''r1'')]
        else if ac_path c = ''/zones/'' @ d_zone demo_dep
        then JObj [(''status'', JStr ''active''), (''account'', JObj [(''id'', JStr (d_account demo_dep))])] else JArr [])])\<rparr>)\<rparr>"

lemma demo_api: "cloudflareApi demo_flow_cr tok m path body = Inr (if m \<noteq> ''GET'' then JObj [(''id'', JStr ''r1'')]
        else if path = ''/zones/'' @ d_zone demo_dep
        then JObj [(''status'', JStr ''active''), (''account'', JObj [(''id'', JStr (d_account demo_dep))])] else JArr [])"
  by (simp add: cloudflareApi_def demo_flow_cr_def need_obj_def nullish_def)

lemma demo_healthy:
  assumes "encryptJson demo_cp \<lparr>er_key = [5], er_wrap = [1], er_data = [2]\<rparr> (JStr ''tok'') (bytesToBase64Url (replicate 32 0))
      ''cloudflare:c1:api-token'' = Inr enc"
  shows "healthy demo_dep (demo_conn enc) demo_flow_cr"
proof -
  have "decryptJson demo_cp enc (bytesToBase64Url (replicate 32 0)) ''cloudflare:c1:api-token'' = Inr (JStr ''tok'')"
    by (rule sealed_opens [OF demo_cp_laws demo_key _ _ _ assms]) simp_all
  then have "getValidCloudflareAuth demo_flow_cr (demo_conn enc) = Inr ''tok''"
    by (simp add: getValidCloudflareAuth_def demo_conn_def demo_flow_cr_def demo_cr_def)
  moreover have "verifyZoneOwnership demo_flow_cr ''tok'' (d_zone demo_dep) (d_account demo_dep) = Inr ()"
    by (simp add: verifyZoneOwnership_def demo_api need_obj_def nullish_def)
  moreover have "cr_telegram demo_flow_cr = Inr ()" by (simp add: demo_flow_cr_def demo_cr_def)
  ultimately show ?thesis by (auto simp: healthy_def demo_api)
qed

theorem prepare_completes_witness:
  "\<exists>enc. case run_alone (replicate 5 demo_flow_cr) (new_flow Prepare ''dep1'' 5000, demo_cp_world enc) of (f', w') \<Rightarrow>
     fw_pc f' = Returned ''awaiting_agent'' \<and> status_everywhere ''dep1'' Awaiting_agent w' \<and> has_dns demo_dep w' \<and> has_pending demo_dep w'"
proof -
  obtain enc where enc: "encryptJson demo_cp \<lparr>er_key = [5], er_wrap = [1], er_data = [2]\<rparr> (JStr ''tok'') (bytesToBase64Url (replicate 32 0))
      ''cloudflare:c1:api-token'' = Inr enc" using encryptJson_eq [OF demo_key] by blast
  note h = demo_healthy [OF enc]
  have l: "loadDeployment ''dep1'' (cw_db (demo_cp_world enc)) = Inr demo_dep"
    by (simp add: loadDeployment_def demo_cp_world_def demo_dep_def)
  have c: "getConnection (d_connection demo_dep) None (cw_db (demo_cp_world enc)) = Inr (demo_conn enc)"
    by (simp add: getConnection_def demo_cp_world_def demo_dep_def demo_conn_def)
  have "calm (healthy demo_dep (demo_conn enc)) 0 (replicate 5 demo_flow_cr)"
    "5 \<le> length (filter (healthy demo_dep (demo_conn enc)) (replicate 5 demo_flow_cr))" using h by (simp_all add: numeral_eq_Suc)
  from prepare_completes [OF l c this] show ?thesis by (rule exI)
qed

end
