(* ===== verification/Data_Plane.thy ===== *)
theory Data_Plane
  imports Cp_Flow
begin

text \<open>
  The worker that the control plane uploads into a tenant's account (the module text of \<^verbatim>\<open>src/data-plane-source.ts\<close>): the
  subscription endpoint and the DNS-over-HTTPS endpoint. Its two secret bindings are the \<open>script\<close> that \<open>uploadWorkerScript\<close>
  stores. The edge cache and the socket that a DNS query opens are explicit; an exception that leaves \<open>fetch\<close> is a value
  \<open>Inl\<close> (the platform then answers 500). Binary bodies are byte lists.
\<close>

subsection \<open>Encodings\<close>

definition dp_b64url :: "byte list \<Rightarrow> string" where
  "dp_b64url bytes = strip_eq (map url_safe (btoa bytes))"

definition dp_unsafe :: "char \<Rightarrow> char" where
  "dp_unsafe c = (if c = CHR ''-'' then CHR ''+'' else if c = CHR ''/'' then CHR ''_'' else c)"

definition dp_b64urlDecode :: "string \<Rightarrow> byte list res" where
  "dp_b64urlDecode value =
     (case atob (map dp_unsafe value @ drop ((length value + 3) mod 4) ''==='') of
        None \<Rightarrow> Inl (JsError ''InvalidCharacterError'') | Some bytes \<Rightarrow> Inr bytes)"

definition dp_sha256 :: "('a platform_scheme) \<Rightarrow> string \<Rightarrow> string" where
  "dp_sha256 P value = dp_b64url (p_sha256 P (utf8_encode value))"

definition equalHash :: "string \<Rightarrow> string \<Rightarrow> bool" where
  "equalHash left right =
     (let a = utf8_encode left; b = utf8_encode right in length a = length b \<and> ct_diff 0 a b = 0)"

definition dp_headers :: "string \<Rightarrow> (string \<times> string) list" where
  "dp_headers contentType =
     [(''Content-Type'', contentType), (''Cache-Control'', ''no-store''),
      (''Content-Security-Policy'', ''default-src '' @ sq ''none'' @ ''; frame-ancestors '' @ sq ''none'' @ ''; base-uri '' @ sq ''none''),
      (''Cross-Origin-Resource-Policy'', ''same-origin''), (''Referrer-Policy'', ''no-referrer''),
      (''Strict-Transport-Security'', ''max-age=63072000; includeSubDomains; preload''),
      (''X-Content-Type-Options'', ''nosniff''), (''X-Frame-Options'', ''DENY'')]"

datatype dp_body = Dp_text string | Dp_wire "byte list" | Dp_json jval

record dp_response =
  dr_status :: nat
  dr_headers :: "(string \<times> string) list"
  dr_body :: dp_body

abbreviation plain_type :: string where "plain_type \<equiv> ''text/plain; charset=utf-8''"
abbreviation json_type :: string where "json_type \<equiv> ''application/json; charset=utf-8''"
abbreviation dns_type :: string where "dns_type \<equiv> ''application/dns-message''"

definition dp_text :: "nat \<Rightarrow> string \<Rightarrow> string \<Rightarrow> dp_response" where
  "dp_text status contentType body = \<lparr>dr_status = status, dr_headers = dp_headers contentType, dr_body = Dp_text body\<rparr>"

definition dp_json :: "nat \<Rightarrow> jval \<Rightarrow> dp_response" where
  "dp_json status body = \<lparr>dr_status = status, dr_headers = dp_headers json_type, dr_body = Dp_json body\<rparr>"

definition dp_dns :: "byte list \<Rightarrow> dp_response" where
  "dp_dns wire = \<lparr>dr_status = 200, dr_headers = dp_headers dns_type, dr_body = Dp_wire wire\<rparr>"

subsection \<open>DNS messages\<close>

text \<open>The labels of the question, from the rest of the message: \<open>None\<close> for a label that is too long or cut off.\<close>

function dns_labels :: "byte list \<Rightarrow> (string list \<times> byte list) option" where
  "dns_labels rest =
     (if rest = [] \<or> hd rest = 0 then Some ([], rest)
      else let n = unat (hd rest) in
        if 63 < n \<or> length rest < 1 + n then None
        else map_option (\<lambda>(ls, r). (map (\<lambda>b. char_of (unat b)) (take n (tl rest)) # ls, r)) (dns_labels (drop (1 + n) rest)))"
  by auto
termination by (relation "measure length") (auto simp: length_greater_0_conv [symmetric] simp del: length_greater_0_conv)

declare dns_labels.simps [simp del]

definition parseQuestion :: "byte list \<Rightarrow> (string \<times> nat) option" where
  "parseQuestion wire =
     (case dns_labels (drop 12 wire) of
        None \<Rightarrow> None
      | Some (ls, rest) \<Rightarrow>
          if length rest < 5 then None
          else Some (to_lower (join_with ''.'' ls), unat (rest ! 1) * 256 + unat (rest ! 2)))"

definition refusedResponse :: "byte list \<Rightarrow> byte list" where
  "refusedResponse wire = ((take 12 wire @ replicate (12 - length wire) 0)[2 := 0x81])[3 := 0x05]"

text \<open>
  A socket of \<^verbatim>\<open>cloudflare:sockets\<close>: which of the two properties the code uses it has, the chunks its reader delivers
  before the end, and the exception that comes instead of the end, if any. A read error escapes; a close error does not.
\<close>

record dns_socket =
  ds_output :: bool
  ds_input :: bool
  ds_chunks :: "byte list list"
  ds_error :: "exn option"

definition dns_answer :: "byte list \<Rightarrow> byte list option" where
  "dns_answer buffer =
     (if length buffer < 2 then None
      else let expected = unat (buffer ! 0) * 256 + unat (buffer ! 1) in
        if expected + 2 \<le> length buffer then Some (take expected (drop 2 buffer)) else None)"

fun dns_read :: "exn option \<Rightarrow> byte list \<Rightarrow> byte list list \<Rightarrow> byte list option res" where
  "dns_read err buffer [] = (case err of None \<Rightarrow> Inr None | Some e \<Rightarrow> Inl e)"
| "dns_read err buffer (c # cs) =
     (case dns_answer (buffer @ c) of Some a \<Rightarrow> Inr (Some a) | None \<Rightarrow> dns_read err (buffer @ c) cs)"

definition dns_frame :: "byte list \<Rightarrow> byte list" where
  "dns_frame wire = word_of_nat (length wire div 256) # word_of_nat (length wire) # wire"

text \<open>
  What the worker touches outside itself: the edge cache, with its answers and hourly counters by key, each with the instant
  it expires (the two kinds of keys differ in length, so they are kept apart), and the addresses of the sockets opened so far.
\<close>

record dp_edge =
  dc_answers :: "(string \<times> byte list \<times> num) list"
  dc_caps :: "(string \<times> nat \<times> num) list"
  dc_dials :: "string list"

text \<open>\<open>connect host frame\<close> is the socket as it behaves once the frame has been written.\<close>

definition tcpDnsQuery ::
  "(string \<Rightarrow> byte list \<Rightarrow> dns_socket res) \<Rightarrow> string \<Rightarrow> byte list \<Rightarrow> (dp_edge, byte list option) act" where
  "tcpDnsQuery connect host wire c =
     (res_bind (connect (host @ '':53'') (dns_frame wire)) (\<lambda>socket.
        if \<not> ds_output socket \<or> \<not> ds_input socket then Inl (JsError ''TypeError'')
        else dns_read (ds_error socket) [] (ds_chunks socket)),
      c\<lparr>dc_dials := dc_dials c @ [host @ '':53'']\<rparr>)"

subsection \<open>The DoH endpoint\<close>

definition DOH_ALLOWED_QTYPES :: "nat list" where
  "DOH_ALLOWED_QTYPES = [1, 28, 16]"

definition DOH_DOMESTIC_SUFFIXES :: "string list" where
  "DOH_DOMESTIC_SUFFIXES = [''.ir'', ''.aparat.com'', ''.digikala.com'', ''.snapp.'', ''.bale.ai'', ''.namava.ir'']"

definition DOH_HOURLY_CAP :: nat where
  "DOH_HOURLY_CAP = 5000"

definition domestic_name :: "string \<Rightarrow> bool" where
  "domestic_name name \<longleftrightarrow> list_ex (\<lambda>suffix. name = tl suffix \<or> ends_with suffix name) DOH_DOMESTIC_SUFFIXES"

definition doh_upstream :: "string \<Rightarrow> string" where
  "doh_upstream name = (if domestic_name name then ''178.22.122.100'' else ''1.1.1.1'')"

text \<open>
  The environment of one request: the platform, the clock, the sockets, and for which keys \<open>cache.match\<close> and \<open>cache.put\<close>
  succeed; the code takes a failed lookup for a miss and ignores a failed \<open>put\<close>.
\<close>

record dp_env =
  de_P :: cp_platform
  de_now :: num
  de_connect :: "string \<Rightarrow> byte list \<Rightarrow> dns_socket res"
  de_reads :: "string \<Rightarrow> bool"
  de_writes :: "string \<Rightarrow> bool"

definition cache_match :: "dp_env \<Rightarrow> string \<Rightarrow> (string \<times> 'v \<times> num) list \<Rightarrow> 'v option" where
  "cache_match E k entries =
     (if \<not> de_reads E k then None
      else case map_of entries k of None \<Rightarrow> None | Some (v, until) \<Rightarrow> if de_now E < until then Some v else None)"

definition cache_put :: "dp_env \<Rightarrow> string \<Rightarrow> 'v \<Rightarrow> num \<Rightarrow> (string \<times> 'v \<times> num) list \<Rightarrow> (string \<times> 'v \<times> num) list" where
  "cache_put E k v max_age entries = (if de_writes E k then upsert k (v, de_now E + max_age * 1000) entries else entries)"

definition doh_cap_key :: "dp_env \<Rightarrow> string \<Rightarrow> string" where
  "doh_cap_key E key = ''https://doh.internal/cap-'' @ dp_sha256 (de_P E) key @ ''-'' @ show_int \<lfloor>de_now E / 3600000\<rfloor>"

definition doh_answer_key :: "dp_env \<Rightarrow> string \<Rightarrow> string \<Rightarrow> nat \<Rightarrow> string" where
  "doh_answer_key E key name qtype = ''https://doh.internal/'' @ dp_sha256 (de_P E) (key @ ''|'' @ name @ ''|'' @ show_nat qtype)"

text \<open>The second half of \<open>handleDoh\<close>: a well-formed question of the key's owner.\<close>

definition doh_resolve :: "dp_env \<Rightarrow> string \<Rightarrow> byte list \<Rightarrow> string \<Rightarrow> nat \<Rightarrow> dp_edge \<Rightarrow> dp_response \<times> dp_edge" where
  "doh_resolve E key wire name qtype c =
     (if qtype \<notin> set DOH_ALLOWED_QTYPES then (dp_dns (refusedResponse wire), c)
      else case cache_match E (doh_answer_key E key name qtype) (dc_answers c) of
        Some cached \<Rightarrow> (dp_dns cached, c)
      | None \<Rightarrow>
          let capCount = (case cache_match E (doh_cap_key E key) (dc_caps c) of None \<Rightarrow> 0 | Some n \<Rightarrow> n) in
          if DOH_HOURLY_CAP \<le> capCount then (dp_dns (refusedResponse wire), c)
          else
            let c1 = c\<lparr>dc_caps := cache_put E (doh_cap_key E key) (Suc capCount) 3600 (dc_caps c)\<rparr> in
            case tcpDnsQuery (de_connect E) (doh_upstream name) wire c1 of
              (Inr (Some answer), c2) \<Rightarrow>
                (\<lparr>dr_status = 200, dr_headers = set_header ''Cache-Control'' ''max-age=300'' (dp_headers dns_type), dr_body = Dp_wire answer\<rparr>,
                 c2\<lparr>dc_answers := cache_put E (doh_answer_key E key name qtype) answer 300 (dc_answers c2)\<rparr>)
            | (_, c2) \<Rightarrow> (dp_dns (refusedResponse wire), c2))"

text \<open>The message of a GET comes in \<open>dns\<close>, that of a POST in the body; an absent or empty parameter leaves none.\<close>

definition doh_wire :: "request \<Rightarrow> (dp_response + byte list option) res" where
  "doh_wire r =
     (if rq_method r = ''GET''
      then case query_of r ''dns'' of
             None \<Rightarrow> Inr (Inr None)
           | Some param \<Rightarrow> if param = [] then Inr (Inr None) else res_bind (dp_b64urlDecode param) (\<lambda>w. Inr (Inr (Some w)))
      else if \<not> contains_str dns_type (case header_of r ''content-type'' of None \<Rightarrow> [] | Some t \<Rightarrow> t)
      then Inr (Inl (dp_text 415 plain_type ''bad_content_type''))
      else Inr (Inr (Some (map (\<lambda>ch. word_of_nat (of_char ch)) (rq_body r)))))"

definition handleDoh :: "dp_env \<Rightarrow> script \<Rightarrow> request \<Rightarrow> (dp_edge, dp_response) act" where
  "handleDoh E s r =
     (if rq_method r \<noteq> ''GET'' \<and> rq_method r \<noteq> ''POST'' then act_ret (dp_text 405 plain_type ''method_not_allowed'')
      else
        let key = (case query_of r ''k'' of None \<Rightarrow> [] | Some k \<Rightarrow> k) in
        if length key < 43 \<or> 128 < length key \<or> \<not> equalHash (dp_sha256 (de_P E) key) (sp_token_hash s)
        then act_ret (dp_text 401 plain_type ''unauthorized'')
        else act_bind (act_lift (doh_wire r)) (\<lambda>w.
          case w of
            Inl refusal \<Rightarrow> act_ret refusal
          | Inr None \<Rightarrow> act_ret (dp_text 400 plain_type ''bad_query'')
          | Inr (Some wire) \<Rightarrow>
              if length wire < 12 \<or> 1200 < length wire then act_ret (dp_text 400 plain_type ''bad_query'')
              else (case parseQuestion wire of
                None \<Rightarrow> act_ret (dp_text 400 plain_type ''bad_query'')
              | Some (name, qtype) \<Rightarrow> (\<lambda>c. case doh_resolve E key wire name qtype c of (resp, c') \<Rightarrow> (Inr resp, c')))))"

subsection \<open>The subscription endpoint\<close>

text \<open>\<open>JSON.stringify(value, null, 2)\<close>.\<close>

fun json_pretty :: "nat \<Rightarrow> jval \<Rightarrow> string" where
  "json_pretty n (JArr xs) =
     (if xs = [] then ''[]''
      else ''['' @ [CHR 0x0A] @ replicate (n + 2) CHR '' '' @ join_with ('','' @ [CHR 0x0A] @ replicate (n + 2) CHR '' '') (map (json_pretty (n + 2)) xs) @
           [CHR 0x0A] @ replicate n CHR '' '' @ '']'')"
| "json_pretty n (JObj kvs) =
     (let ms = map (\<lambda>(k, v). quote k @ '': '' @ json_pretty (n + 2) v) (filter (\<lambda>(k, v). v \<noteq> JUndef) kvs) in
      if ms = [] then ''{}''
      else ''{'' @ [CHR 0x0A] @ replicate (n + 2) CHR '' '' @ join_with ('','' @ [CHR 0x0A] @ replicate (n + 2) CHR '' '') ms @
           [CHR 0x0A] @ replicate n CHR '' '' @ ''}'')"
| "json_pretty n v = json_stringify v"

text \<open>
  \<open>bundle.profiles[profile] || variants[profile]\<close> also finds what every object inherits: the functions of
  \<open>Object.prototype\<close>, which print as \<open>undefined\<close>, and the prototype itself, which prints as an empty object.
\<close>

definition inherited_functions :: "string list" where
  "inherited_functions = [''constructor'', ''hasOwnProperty'', ''isPrototypeOf'', ''propertyIsEnumerable'', ''toLocaleString'', ''toString'',
     ''valueOf'', ''__defineGetter__'', ''__defineSetter__'', ''__lookupGetter__'', ''__lookupSetter__'']"

definition profile_text :: "jval \<Rightarrow> jval \<Rightarrow> string \<Rightarrow> string option" where
  "profile_text profiles variants name =
     (if truthy (fld profiles name) then Some (json_pretty 0 (fld profiles name))
      else if name \<notin> fst ` set (obj_fields profiles) \<and> name \<in> set inherited_functions then Some ''undefined''
      else if name \<notin> fst ` set (obj_fields profiles) \<and> name = ''__proto__'' then Some ''{}''
      else if truthy (fld variants name) then Some (json_pretty 0 (fld variants name))
      else if name \<notin> fst ` set (obj_fields variants) \<and> name \<in> set inherited_functions then Some ''undefined''
      else if name \<notin> fst ` set (obj_fields variants) \<and> name = ''__proto__'' then Some ''{}''
      else None)"

text \<open>\<open>bundle.uris.join\<close>: null and undefined elements print as nothing.\<close>

fun join_lines :: "jval \<Rightarrow> string res" where
  "join_lines (JArr xs) = Inr (join_with [CHR 0x0A] (map (\<lambda>x. if nullish x then [] else to_str x) xs))"
| "join_lines v = Inl (JsError ''TypeError'')"

definition dp_format :: "dp_env \<Rightarrow> jval \<Rightarrow> request \<Rightarrow> dp_response res" where
  "dp_format E bundle r =
     (let format = (case query_of r ''format'' of None \<Rightarrow> ''uri'' | Some f \<Rightarrow> if f = [] then ''uri'' else f) in
      if format = ''uri'' then res_bind (join_lines (fld bundle ''uris'')) (\<lambda>t. Inr (dp_text 200 plain_type (t @ [CHR 0x0A])))
      else if format = ''clash''
      then if \<not> truthy (fld bundle ''clashYaml'') then Inr (dp_json 400 (JObj [(''error'', JStr ''invalid_format'')]))
           else Inr (dp_text 200 ''text/yaml; charset=utf-8'' (to_str (fld bundle ''clashYaml'')))
      else if format = ''sing-box''
      then case p_decodeURI (de_P E) (case query_of r ''profile'' of None \<Rightarrow> ''vless'' | Some p \<Rightarrow> if p = [] then ''vless'' else p) of
             None \<Rightarrow> Inl (JsError ''URIError'')
           | Some profile \<Rightarrow>
               res_bind (need_obj (fld bundle ''profiles'')) (\<lambda>profiles.
                 case profile_text profiles (js_or (fld bundle ''profileVariants'') (JObj [])) profile of
                   None \<Rightarrow> Inr (dp_json 400 (JObj [(''error'', JStr ''invalid_profile'')]))
                 | Some source \<Rightarrow> Inr (dp_text 200 json_type (source @ [CHR 0x5C, CHR ''n''])))
      else Inr (dp_json 400 (JObj [(''error'', JStr ''invalid_format'')])))"

definition token_class :: "char \<Rightarrow> bool" where
  "token_class ch \<longleftrightarrow> is_alnum ch \<or> ch = CHR ''_'' \<or> ch = CHR ''-''"

definition sub_token :: "string \<Rightarrow> string option" where
  "sub_token path =
     (let t = drop 5 path in
      if starts_with ''/sub/'' path \<and> 43 \<le> length t \<and> length t \<le> 128 \<and> list_all token_class t then Some t else None)"

definition dp_subscription :: "dp_env \<Rightarrow> script \<Rightarrow> request \<Rightarrow> dp_response res" where
  "dp_subscription E s r =
     (case sub_token (rq_path r) of
        None \<Rightarrow> Inr (dp_text 404 plain_type ''Not found'')
      | Some token \<Rightarrow>
          if \<not> equalHash (dp_sha256 (de_P E) token) (sp_token_hash s) then Inr (dp_text 404 plain_type ''Not found'')
          else case json_parse (sp_bundle s) of
            None \<Rightarrow> Inr (dp_text 503 plain_type ''Configuration unavailable'')
          | Some v \<Rightarrow> res_bind (need_obj v) (\<lambda>bundle.
              if fld bundle ''status'' \<noteq> JStr ''ready'' then Inr (dp_text 503 plain_type ''Provisioning is still in progress'')
              else dp_format E bundle r))"

definition dp_fetch :: "dp_env \<Rightarrow> script \<Rightarrow> request \<Rightarrow> (dp_edge, dp_response) act" where
  "dp_fetch E s r =
     (if rq_path r = ''/dns-query'' then handleDoh E s r
      else if rq_method r \<noteq> ''GET'' then act_ret (dp_json 405 (JObj [(''error'', JStr ''method_not_allowed'')]))
      else if rq_path r = ''/healthz''
      then act_ret (dp_json 200 (JObj [(''ok'', JBool True), (''service'', JStr ''v13-data-plane'')]))
      else act_lift (dp_subscription E s r))"

subsection \<open>Hashes and encodings\<close>

lemma dp_sha256_eq: "dp_sha256 P v = cp_sha256 P v"
  by (simp add: dp_sha256_def cp_sha256_def dp_b64url_def bytesToBase64Url_def)

lemma equalHash_refl [simp]: "equalHash a a"
  by (simp add: equalHash_def ct_diff_zero)

lemma equalHash_iff: "equalHash a b \<longleftrightarrow> utf8_encode a = utf8_encode b"
  by (auto simp: equalHash_def Let_def ct_diff_zero)

lemma pad_slice: "drop ((n + 3) mod 4) ''==='' = b64_pad n"
proof -
  have "n mod 4 = 0 \<and> (n + 3) mod 4 = 3 \<or> n mod 4 = 1 \<and> (n + 3) mod 4 = 0 \<or> n mod 4 = 2 \<and> (n + 3) mod 4 = 1 \<or>
    n mod 4 = 3 \<and> (n + 3) mod 4 = 2" by presburger
  moreover have "replicate 3 CHR ''='' = ''===''" "replicate 2 CHR ''='' = ''==''" by (simp_all add: numeral_eq_Suc)
  ultimately show ?thesis by (elim disjE) (simp_all add: b64_pad_def)
qed

lemma those_None: "None \<in> set xs \<Longrightarrow> those xs = None"
  by (induction xs) (auto split: option.splits)

lemma atob_underscore:
  assumes "CHR ''_'' \<in> set s"
  shows "atob s = None"
proof -
  let ?t = "filter (\<lambda>c. \<not> ascii_ws c) s"
  have t: "CHR ''_'' \<in> set ?t" using assms by (simp add: ascii_ws_def)
  have d: "CHR ''_'' \<in> set u \<Longrightarrow> CHR ''_'' \<in> set (drop_last_eq u)" for u
    by (cases u rule: rev_cases) (auto simp: drop_last_eq_def)
  have "CHR ''_'' \<in> set (if length ?t mod 4 = 0 then strip_pad2 ?t else ?t)"
    using t by (auto simp: strip_pad2_def intro!: d simp del: set_filter)
  then have "those (map b64_val (if length ?t mod 4 = 0 then strip_pad2 ?t else ?t)) = None"
    by (intro those_None) (force simp: b64_val_def simp del: set_filter)
  then show ?thesis by (simp add: atob_def Let_def)
qed

text \<open>
  The decoder of the DoH endpoint maps \<open>/\<close> to \<open>_\<close>, where base64url needs the opposite: an encoded message is read back
  exactly when its text has no \<open>_\<close>, and makes the endpoint throw otherwise.
\<close>

lemma dp_b64urlDecode_encode:
  "dp_b64urlDecode (b64u_encode bs) =
     (if CHR ''_'' \<in> set (b64u_encode bs) then Inl (JsError ''InvalidCharacterError'') else Inr bs)"
proof (cases "CHR ''_'' \<in> set (b64u_encode bs)")
  case True
  then have "CHR ''_'' \<in> dp_unsafe ` set (b64u_encode bs)" by (force simp: dp_unsafe_def)
  then show ?thesis using True by (simp add: dp_b64urlDecode_def atob_underscore)
next
  case False
  have "c \<noteq> CHR ''/''" if "c \<in> set (b64u_encode bs)" for c
    using b64u_encode_no_sep [OF that] by (auto simp: is_alnum_def is_digit_def is_lower_def is_upper_def)
  then have m: "map dp_unsafe (b64u_encode bs) = map url_unsafe (b64u_encode bs)"
    using False by (auto simp: dp_unsafe_def url_unsafe_def)
  have "atob (map dp_unsafe (b64u_encode bs) @ b64_pad (length (b64u_encode bs))) = Some bs"
    using b64u_decode_encode [of bs] unfolding m by (simp only: b64u_decode_def)
  then show ?thesis using False by (simp add: dp_b64urlDecode_def pad_slice)
qed

subsection \<open>Questions\<close>

definition dns_question :: "byte list list \<Rightarrow> nat \<Rightarrow> byte list" where
  "dns_question labels qtype =
     concat (map (\<lambda>l. word_of_nat (length l) # l) labels) @ [0, word_of_nat (qtype div 256), word_of_nat (qtype mod 256)]"

lemma dns_labels_encode:
  assumes "\<forall>l \<in> set labels. l \<noteq> [] \<and> length l \<le> 63"
  shows "dns_labels (concat (map (\<lambda>l. word_of_nat (length l) # l) labels) @ 0 # r) =
    Some (map (map (\<lambda>b. char_of (unat b))) labels, 0 # r)"
  using assms
proof (induction labels)
  case Nil
  then show ?case by (simp add: dns_labels.simps)
next
  case (Cons l ls)
  have n: "unat (word_of_nat (length l) :: byte) = length l"
    using Cons.prems by (auto simp: unat_of_nat)
  then have "(word_of_nat (length l) :: byte) \<noteq> 0" using Cons.prems by (metis length_0_conv list.set_intros(1) unat_0)
  with Cons n show ?case by (subst dns_labels.simps) (simp add: Let_def)
qed

text \<open>Parsing a well-formed question of any length gives its name and type back.\<close>

lemma parseQuestion_encode:
  assumes "length header = 12" and "\<forall>l \<in> set labels. l \<noteq> [] \<and> length l \<le> 63" and "qtype < 65536" and "2 \<le> length r"
  shows "parseQuestion (header @ dns_question labels qtype @ r) =
    Some (to_lower (join_with ''.'' (map (map (\<lambda>b. char_of (unat b))) labels)), qtype)"
proof -
  have "qtype div 256 < 256" using assms(3) by linarith
  then have q: "unat (word_of_nat (qtype div 256) :: byte) * 256 + unat (word_of_nat (qtype mod 256) :: byte) = qtype"
    by (simp add: unat_of_nat)
  show ?thesis
    using assms(1,4) q dns_labels_encode [OF assms(2), of "word_of_nat (qtype div 256) # word_of_nat (qtype mod 256) # r"]
    by (simp add: parseQuestion_def dns_question_def)
qed

text \<open>The texts here are Latin-1, so their UTF-8 form has one or two bytes a character and can be read back.\<close>

fun latin1_decode :: "byte list \<Rightarrow> string" where
  "latin1_decode [] = []"
| "latin1_decode (b # r) =
     (if unat b < 128 then char_of (unat b) # latin1_decode r
      else case r of [] \<Rightarrow> [] | c # r' \<Rightarrow> char_of ((unat b - 192) * 64 + (unat c - 128)) # latin1_decode r')"

lemma latin1_decode_char: "latin1_decode (utf8_char c @ r) = c # latin1_decode r"
proof -
  have n: "of_char c < (256 :: nat)" by (rule nat_of_char_less_256)
  show ?thesis
  proof (cases "of_char c < (128 :: nat)")
    case True
    then show ?thesis by (simp add: utf8_char_def unat_of_nat)
  next
    case False
    define m where "m = (of_char c :: nat)"
    have m: "128 \<le> m" "m < 256" using False n by (simp_all add: m_def)
    have "m div 64 < 4" "m mod 64 < 64" using m by auto
    have k: "unat (word_of_nat k :: byte) = k" if "k < 256" for k using that by (simp add: unat_of_nat)
    have "unat (word_of_nat (192 + m div 64) :: byte) = 192 + m div 64" by (rule k) (use \<open>m div 64 < 4\<close> in linarith)
    moreover have "unat (word_of_nat (128 + m mod 64) :: byte) = 128 + m mod 64" by (rule k) (use \<open>m mod 64 < 64\<close> in linarith)
    ultimately have "unat (word_of_nat (192 + m div 64) :: byte) = 192 + m div 64" "unat (word_of_nat (128 + m mod 64) :: byte) = 128 + m mod 64"
      by blast+
    with m have "latin1_decode (utf8_char c @ r) = char_of (m div 64 * 64 + m mod 64) # latin1_decode r"
      using False by (simp add: utf8_char_def m_def [symmetric] Let_def)
    then show ?thesis by (simp only: div_mult_mod_eq) (simp add: m_def)
  qed
qed

lemma latin1_decode_encode: "latin1_decode (utf8_encode s) = s"
  by (induction s) (simp_all add: utf8_encode_def latin1_decode_char)

lemma dp_utf8_encode_inj: "utf8_encode a = utf8_encode b \<Longrightarrow> a = b"
  by (metis latin1_decode_encode)

lemma equalHash_eq: "equalHash a b \<longleftrightarrow> a = b"
  using dp_utf8_encode_inj by (auto simp: equalHash_iff)

subsection \<open>The hourly cap\<close>

text \<open>
  Every question that reaches the resolver half carries the one key whose hash is bound to the script, so all of them share
  the counter of the hour.
\<close>

definition hour_key :: "script \<Rightarrow> int \<Rightarrow> string" where
  "hour_key s h = ''https://doh.internal/cap-'' @ sp_token_hash s @ ''-'' @ show_int h"

text \<open>
  One hour \<open>h\<close> of a deployed worker at one data centre: any requests, one after the other, and evictions of any cache entries.
  The number counts how often the counter of the hour was not kept: evicted, unreadable, or its \<open>put\<close> refused.
\<close>

inductive worker_hour :: "cp_platform \<Rightarrow> script \<Rightarrow> int \<Rightarrow> dp_edge \<Rightarrow> nat \<Rightarrow> dp_edge \<Rightarrow> bool" for P s h c0 where
  hour_start: "worker_hour P s h c0 0 c0"
| hour_request: "worker_hour P s h c0 n c \<Longrightarrow> de_P E = P \<Longrightarrow> \<lfloor>de_now E / 3600000\<rfloor> = h \<Longrightarrow> dp_fetch E s r c = (reply, c') \<Longrightarrow>
    worker_hour P s h c0 (n + (if de_reads E (hour_key s h) \<and> de_writes E (hour_key s h) then 0 else 1)) c'"
| hour_evict: "worker_hour P s h c0 n c \<Longrightarrow>
    worker_hour P s h c0 (n + (if keep (hour_key s h) then 0 else 1))
      (c\<lparr>dc_answers := filter (\<lambda>e. keep (fst e)) (dc_answers c), dc_caps := filter (\<lambda>e. keep (fst e)) (dc_caps c)\<rparr>)"

definition dns_resolvers :: "string set" where
  "dns_resolvers = {''178.22.122.100:53'', ''1.1.1.1:53''}"

text \<open>
  What one question does to the edge: nothing is dialled and the counters stay, or the counter was below the cap, one resolver
  is dialled and the counter is written one higher.
\<close>

lemma doh_resolve_edge:
  assumes "doh_resolve E key wire name qtype c = (resp, c')"
  shows "dc_dials c' = dc_dials c \<and> dc_caps c' = dc_caps c \<or>
    (\<exists>n host. n < DOH_HOURLY_CAP \<and> n = (case cache_match E (doh_cap_key E key) (dc_caps c) of None \<Rightarrow> 0 | Some n \<Rightarrow> n) \<and>
       host \<in> dns_resolvers \<and> dc_dials c' = dc_dials c @ [host] \<and>
       dc_caps c' = cache_put E (doh_cap_key E key) (Suc n) 3600 (dc_caps c))"
proof -
  define k where "k = (case cache_match E (doh_cap_key E key) (dc_caps c) of None \<Rightarrow> 0 | Some n \<Rightarrow> n)"
  obtain r where r: "tcpDnsQuery (de_connect E) (doh_upstream name) wire c1 =
      (r, c1\<lparr>dc_dials := dc_dials c1 @ [doh_upstream name @ '':53'']\<rparr>)" for c1
    by (simp add: tcpDnsQuery_def)
  have host: "doh_upstream name @ '':53'' \<in> dns_resolvers" by (simp add: dns_resolvers_def doh_upstream_def)
  show ?thesis
  proof (cases "qtype \<notin> set DOH_ALLOWED_QTYPES \<or> cache_match E (doh_answer_key E key name qtype) (dc_answers c) \<noteq> None \<or> DOH_HOURLY_CAP \<le> k")
    case True
    then have "c' = c" using assms unfolding doh_resolve_def Let_def k_def [symmetric] by (auto split: if_splits option.splits)
    then show ?thesis by simp
  next
    case False
    then have "dc_dials c' = dc_dials c @ [doh_upstream name @ '':53''] \<and>
        dc_caps c' = cache_put E (doh_cap_key E key) (Suc k) 3600 (dc_caps c)"
      using assms unfolding doh_resolve_def Let_def k_def [symmetric] r
      by (cases r) (auto split: option.splits)
    with False host show ?thesis unfolding k_def by (metis not_le)
  qed
qed

lemma handleDoh_resolves:
  assumes "handleDoh E s r c = (reply, c')"
  shows "c' = c \<or> (\<exists>key wire name qtype resp. equalHash (dp_sha256 (de_P E) key) (sp_token_hash s) \<and>
    doh_resolve E key wire name qtype c = (resp, c'))"
proof -
  define key where "key = (case query_of r ''k'' of None \<Rightarrow> [] | Some k \<Rightarrow> k)"
  show ?thesis
  proof (cases "equalHash (dp_sha256 (de_P E) key) (sp_token_hash s)")
    case True
    have "c' = c \<or> (\<exists>wire name qtype resp. doh_resolve E key wire name qtype c = (resp, c'))"
      using assms unfolding handleDoh_def Let_def key_def [symmetric] act_bind_def act_lift_def act_ret_def
      by (cases "doh_wire r") (auto split: if_splits sum.splits option.splits prod.splits)
    with True show ?thesis by blast
  next
    case False
    then show ?thesis
      using assms unfolding handleDoh_def Let_def key_def [symmetric] act_ret_def by (simp split: if_splits)
  qed
qed

lemma dp_fetch_edge:
  assumes "dp_fetch E s r c = (reply, c')"
  shows "dc_dials c' = dc_dials c \<and> dc_caps c' = dc_caps c \<or>
    (\<exists>n host. n < DOH_HOURLY_CAP \<and>
       n = (case cache_match E (hour_key s \<lfloor>de_now E / 3600000\<rfloor>) (dc_caps c) of None \<Rightarrow> 0 | Some n \<Rightarrow> n) \<and>
       host \<in> dns_resolvers \<and> dc_dials c' = dc_dials c @ [host] \<and>
       dc_caps c' = cache_put E (hour_key s \<lfloor>de_now E / 3600000\<rfloor>) (Suc n) 3600 (dc_caps c))"
proof (cases "c' = c")
  case False
  have h: "handleDoh E s r c = (reply, c')"
    using assms False by (auto simp: dp_fetch_def act_unfold split: if_splits)
  then obtain key wire name qtype resp where k: "equalHash (dp_sha256 (de_P E) key) (sp_token_hash s)"
    and r: "doh_resolve E key wire name qtype c = (resp, c')"
    using handleDoh_resolves [OF h] False by blast
  have "doh_cap_key E key = hour_key s \<lfloor>de_now E / 3600000\<rfloor>"
    using k by (simp add: doh_cap_key_def hour_key_def equalHash_eq)
  with doh_resolve_edge [OF r] show ?thesis by simp
qed simp

lemma hour_fresh:
  fixes a b :: num
  assumes "\<lfloor>a / 3600000\<rfloor> = h" and "\<lfloor>b / 3600000\<rfloor> = h"
  shows "b < a + 3600 * 1000"
proof -
  have "of_int h \<le> a / 3600000" "b / 3600000 < of_int h + 1"
    using assms by (auto simp: floor_eq_iff)
  then show ?thesis by simp
qed

text \<open>
  The books of the hour: the dials beyond 5000 for each time the counter was not kept are on the counter, and the counter does
  not expire within the hour.
\<close>

definition dials_counted :: "script \<Rightarrow> int \<Rightarrow> nat \<Rightarrow> nat \<Rightarrow> dp_edge \<Rightarrow> bool" where
  "dials_counted s h d0 n c \<longleftrightarrow>
     length (dc_dials c) \<le> d0 + DOH_HOURLY_CAP * n \<or>
     (\<exists>m until. map_of (dc_caps c) (hour_key s h) = Some (m, until) \<and> (\<forall>t. \<lfloor>t / 3600000\<rfloor> = h \<longrightarrow> t < until) \<and>
        m \<le> DOH_HOURLY_CAP \<and> length (dc_dials c) \<le> d0 + DOH_HOURLY_CAP * n + m)"

lemma dials_counted_bound: "dials_counted s h d0 n c \<Longrightarrow> length (dc_dials c) \<le> d0 + DOH_HOURLY_CAP * (n + 1)"
  by (auto simp: dials_counted_def algebra_simps)

lemma dials_counted_fault: "dials_counted s h d0 n c \<Longrightarrow> length (dc_dials c') = length (dc_dials c) \<Longrightarrow> dials_counted s h d0 (Suc n) c'"
  using dials_counted_bound [of s h d0 n c] by (simp add: dials_counted_def)

lemma dials_counted_request:
  assumes "dials_counted s h d0 n c" and "\<lfloor>de_now E / 3600000\<rfloor> = h" and "dp_fetch E s r c = (reply, c')"
    and "n' = n + (if de_reads E (hour_key s h) \<and> de_writes E (hour_key s h) then 0 else 1)"
  shows "dials_counted s h d0 n' c'"
  using dp_fetch_edge [OF assms(3)]
proof
  assume same: "dc_dials c' = dc_dials c \<and> dc_caps c' = dc_caps c"
  then have "dials_counted s h d0 n c'" using assms(1) by (simp add: dials_counted_def)
  then show ?thesis using dials_counted_fault [of s h d0 n c' c'] assms(4) by simp
next
  let ?K = "hour_key s h"
  assume "\<exists>n host. n < DOH_HOURLY_CAP \<and>
       n = (case cache_match E (hour_key s \<lfloor>de_now E / 3600000\<rfloor>) (dc_caps c) of None \<Rightarrow> 0 | Some n \<Rightarrow> n) \<and>
       host \<in> dns_resolvers \<and> dc_dials c' = dc_dials c @ [host] \<and>
       dc_caps c' = cache_put E (hour_key s \<lfloor>de_now E / 3600000\<rfloor>) (Suc n) 3600 (dc_caps c)"
  then obtain k where k: "k < DOH_HOURLY_CAP" "k = (case cache_match E ?K (dc_caps c) of None \<Rightarrow> 0 | Some n \<Rightarrow> n)"
    "length (dc_dials c') = Suc (length (dc_dials c))" "dc_caps c' = cache_put E ?K (Suc k) 3600 (dc_caps c)"
    using assms(2) by auto
  show ?thesis
  proof (cases "de_reads E ?K \<and> de_writes E ?K")
    case True
    have fresh: "\<forall>t. \<lfloor>t / 3600000\<rfloor> = h \<longrightarrow> t < de_now E + 3600 * 1000" using hour_fresh assms(2) by blast
    have put: "map_of (dc_caps c') ?K = Some (Suc k, de_now E + 3600 * 1000)"
      using True k(4) by (simp add: cache_put_def map_of_upsert)
    have "length (dc_dials c) \<le> d0 + DOH_HOURLY_CAP * n + k"
      using assms(1,2) True k(2) by (auto simp: dials_counted_def cache_match_def)
    with True k put fresh assms(4) show ?thesis
      unfolding dials_counted_def by (intro disjI2 exI [of _ "Suc k"]) auto
  next
    case False
    then have "n' = Suc n" using assms(4) by auto
    moreover have "map_of (dc_caps c') ?K = map_of (dc_caps c) ?K \<or>
        map_of (dc_caps c') ?K = Some (Suc k, de_now E + 3600 * 1000)"
      using k(4) by (simp add: cache_put_def map_of_upsert)
    ultimately consider (kept) "n' = Suc n" "map_of (dc_caps c') ?K = map_of (dc_caps c) ?K"
      | (put) "n' = Suc n" "map_of (dc_caps c') ?K = Some (Suc k, de_now E + 3600 * 1000)" by blast
    then show ?thesis
    proof cases
      case kept
      have "0 < DOH_HOURLY_CAP" by (simp add: DOH_HOURLY_CAP_def)
      with assms(1) kept k(3) show ?thesis unfolding dials_counted_def by (auto simp del: of_nat_Suc)
    next
      case put
      show ?thesis using dials_counted_bound [OF assms(1)] put k hour_fresh assms(2)
        unfolding dials_counted_def by (intro disjI2 exI [of _ "Suc k"]) auto
    qed
  qed
qed

lemma map_of_keep: "map_of (filter (\<lambda>e. keep (fst e)) xs) k = (if keep k then map_of xs k else None)"
  by (induction xs) auto

lemma worker_hour_counted: "worker_hour P s h c0 n c \<Longrightarrow> dials_counted s h (length (dc_dials c0)) n c"
proof (induction rule: worker_hour.induct)
  case hour_start
  then show ?case by (simp add: dials_counted_def)
next
  case (hour_request n c E r reply c')
  then show ?case by (auto intro: dials_counted_request)
next
  case (hour_evict n c keep)
  then show ?case
    by (cases "keep (hour_key s h)") (auto simp: dials_counted_def map_of_keep intro: dials_counted_fault [simplified])
qed


definition demo_dp_env :: dp_env where
  "demo_dp_env = \<lparr>de_P = demo_cp, de_now = 7200000,
     de_connect = (\<lambda>h f. Inr \<lparr>ds_output = True, ds_input = True, ds_chunks = [[0], [3, 1, 2, 3]], ds_error = None\<rparr>),
     de_reads = (\<lambda>k. True), de_writes = (\<lambda>k. True)\<rparr>"

text \<open>The question for the address of \<open>a.ir\<close>.\<close>

definition demo_question :: "byte list" where
  "demo_question = [0, 1, 1, 0, 0, 1, 0, 0, 0, 0, 0, 0, 1, 97, 2, 105, 114, 0, 0, 1, 0, 1]"

definition demo_doh_request :: request where
  "demo_doh_request = \<lparr>rq_method = ''POST'', rq_hostname = ''panel.example.org'', rq_path = ''/dns-query'', rq_query = [(''k'', replicate 43 CHR ''k'')],
     rq_headers = [(''content-type'', dns_type)], rq_body = map (\<lambda>b. char_of (unat b)) demo_question\<rparr>"

definition demo_doh_script :: script where
  "demo_doh_script = \<lparr>sp_token_hash = dp_sha256 demo_cp (replicate 43 CHR ''k''), sp_bundle = []\<rparr>"

definition empty_edge :: dp_edge where
  "empty_edge = \<lparr>dc_answers = [], dc_caps = [], dc_dials = []\<rparr>"

lemma demo_doh_dials:
  "\<exists>reply c. dp_fetch demo_dp_env demo_doh_script demo_doh_request empty_edge = (reply, c) \<and> dc_dials c = [''178.22.122.100:53'']"
proof -
  have w: "doh_wire demo_doh_request = Inr (Inr (Some demo_question))"
    by (simp add: doh_wire_def demo_doh_request_def demo_question_def header_of_def comp_def unat_of_nat)
  have q: "parseQuestion demo_question = Some (''a.ir'', 1)"
    by (simp add: parseQuestion_def demo_question_def dns_labels.simps to_lower_def lower_char_def char_of_def bit_simps; code_simp)
  have k: "query_of demo_doh_request ''k'' = Some (replicate 43 CHR ''k'')"
    by (simp add: query_of_def demo_doh_request_def)
  have d: "doh_upstream ''a.ir'' = ''178.22.122.100''"
    by (simp add: doh_upstream_def domestic_name_def DOH_DOMESTIC_SUFFIXES_def ends_with_def)
  have "dp_fetch demo_dp_env demo_doh_script demo_doh_request empty_edge =
      (case doh_resolve demo_dp_env (replicate 43 CHR ''k'') demo_question ''a.ir'' 1 empty_edge of (resp, c) \<Rightarrow> (Inr resp, c))"
    using w q k
    by (simp add: dp_fetch_def handleDoh_def act_bind_def act_lift_def demo_doh_script_def demo_dp_env_def)
      (simp add: demo_doh_request_def demo_question_def)
  moreover have "dc_dials (snd (doh_resolve demo_dp_env (replicate 43 CHR ''k'') demo_question ''a.ir'' 1 empty_edge)) = [''178.22.122.100:53'']"
    by (auto simp: Let_def doh_resolve_def tcpDnsQuery_def d cache_match_def empty_edge_def DOH_ALLOWED_QTYPES_def DOH_HOURLY_CAP_def
        split: prod.splits sum.splits option.splits)
  ultimately show ?thesis by (simp split: prod.splits)
qed


text \<open>
  The sockets of the platform have the properties \<open>readable\<close> and \<open>writable\<close>, not the \<open>output\<close> and \<open>input\<close> that the code
  reads: no question is ever answered by a resolver, and nothing enters the cache.
\<close>

lemma doh_never_resolves:
  assumes "\<And>h f s. de_connect E h f = Inr s \<Longrightarrow> \<not> ds_output s"
    and "doh_resolve E key wire name qtype c = (resp, c')"
  shows "dc_answers c' = dc_answers c"
    and "cache_match E (doh_answer_key E key name qtype) (dc_answers c) = None \<Longrightarrow> resp = dp_dns (refusedResponse wire)"
proof -
  have "(\<forall>a. reply \<noteq> Inr (Some a)) \<and> dc_answers c2 = dc_answers c1"
    if "tcpDnsQuery (de_connect E) host wire c1 = (reply, c2)" for host c1 reply c2
    using assms(1) that by (auto simp: tcpDnsQuery_def res_bind_Inr)
  then show "dc_answers c' = dc_answers c"
    "cache_match E (doh_answer_key E key name qtype) (dc_answers c) = None \<Longrightarrow> resp = dp_dns (refusedResponse wire)"
    using assms(2) by (auto simp: doh_resolve_def Let_def split: if_splits option.splits sum.splits prod.splits dest!: spec)
qed

subsection \<open>What is published\<close>

lemma plain_fld: "plain v \<Longrightarrow> fld v k = JUndef \<or> plain (fld v k)"
  by (cases v) (auto simp: list_all_iff dest: map_of_SomeD split: option.splits)

lemma truthy_plain: "plain v \<Longrightarrow> truthy (fld v k) \<Longrightarrow> plain (fld v k)"
  using plain_fld [of v k] by auto

lemma plain_pending: "plain (buildPendingBundle now d)"
  by (simp add: buildPendingBundle_def is_int_def)

lemma plain_config:
  assumes "plain ob"
  shows "plain (baseClientConfig d ob token controlOrigin sniff fakedns)"
  using assms
  by (simp add: baseClientConfig_def dnsSection_def dns_servers_def dns_rules_def routeSection_def route_rules_def remote_rule_set_def
      is_int_def)

lemma plain_ready:
  assumes "buildReadyBundle now d secrets token origin = Inr b" and "plain secrets"
  shows "plain b"
proof -
  have c: "credentials_complete secrets" using assms(1) by (auto simp: buildReadyBundle_def split: if_splits)
  then have "plain (fld secrets k)" if "k \<in> {''vlessUuid'', ''realityPublicKey'', ''realityShortId'', ''hysteria2Password'', ''hysteria2SpkiSha256''}" for k
    using that truthy_plain [OF assms(2)] by (auto simp: credentials_complete_def)
  moreover have "plain (vless_port secrets)"
    using plain_fld [OF assms(2), of "''vlessPort''"] by (auto simp: vless_port_def js_coalesce_def nullish_def is_int_def)
  ultimately have "plain (vless_outbound d secrets)" "plain (hysteria2_outbound d secrets)"
    by (simp_all add: vless_outbound_def hysteria2_outbound_def is_int_def)
  with c assms(1) show ?thesis by (auto simp: buildReadyBundle_def Let_def plain_config is_int_def)
qed

lemma dp_fetch_sub:
  "rq_method r = ''GET'' \<Longrightarrow> rq_path r = ''/sub/'' @ t \<Longrightarrow> dp_fetch E s r c = (dp_subscription E s r, c)"
  by (simp add: dp_fetch_def act_lift_def)

lemma publishes:
  assumes "publish_profiles rtm x w = (Inr (), w')" and "loadDeployment (d_id x) (cw_db w) = Inr cur"
    and "secret_of (d_id cur) (cw_db w) = Some enc"
    and "decryptJson (cr_P rtm) enc (cr_key rtm) (dep_aad (d_id cur)) = Inr secrets"
  shows "\<exists>b. buildReadyBundle (cr_now rtm) cur secrets (to_str (js_coalesce (fld secrets ''subscriptionToken'') (JStr []))) (cr_base rtm) = Inr b \<and>
    map_of (cw_scripts w') (d_account cur, d_worker_name cur) = Some \<lparr>sp_token_hash = d_sub_hash cur, sp_bundle = json_stringify b\<rparr>"
  using assms
  by (auto simp: publish_profiles_def act_unfold cdb_res_def cdb_get_def need_obj_def uploadWorkerScript_def connection_auth_def map_of_upsert
      split: sum.splits prod.splits if_splits option.splits)

text \<open>
  C27. What a subscriber receives. After the workflow has published a deployment's profiles, the tenant's worker answers a GET of
  \<open>/sub/\<close> followed by the deployment's subscription token with the two client URIs of exactly that deployment, and answers
  404 to every path under \<open>/sub/\<close> whose token has another hash.
\<close>

theorem published_subscription:
  assumes "publish_profiles rtm x w = (Inr (), w')" and "loadDeployment (d_id x) (cw_db w) = Inr cur"
    and "secret_of (d_id cur) (cw_db w) = Some enc"
    and "decryptJson (cr_P rtm) enc (cr_key rtm) (dep_aad (d_id cur)) = Inr secrets" and "plain secrets"
    and "d_sub_hash cur = cp_sha256 (cr_P rtm) token" and "sub_token (''/sub/'' @ token) = Some token" and "de_P E = cr_P rtm"
  shows "\<exists>s. map_of (cw_scripts w') (d_account cur, d_worker_name cur) = Some s \<and>
    (\<forall>r c. rq_method r = ''GET'' \<longrightarrow> rq_path r = ''/sub/'' @ token \<longrightarrow> query_of r ''format'' = None \<longrightarrow>
       dp_fetch E s r c = (Inr (dp_text 200 plain_type
         (reality_uri cur secrets @ [CHR 0x0A] @ hy2_uri cur secrets @ [CHR 0x0A])), c)) \<and>
    (\<forall>r c t. rq_method r = ''GET'' \<longrightarrow> rq_path r = ''/sub/'' @ t \<longrightarrow> cp_sha256 (cr_P rtm) t \<noteq> d_sub_hash cur \<longrightarrow>
       dp_fetch E s r c = (Inr (dp_text 404 plain_type ''Not found''), c))"
proof -
  obtain b where b: "buildReadyBundle (cr_now rtm) cur secrets (to_str (js_coalesce (fld secrets ''subscriptionToken'') (JStr []))) (cr_base rtm) = Inr b"
    and m: "map_of (cw_scripts w') (d_account cur, d_worker_name cur) = Some \<lparr>sp_token_hash = d_sub_hash cur, sp_bundle = json_stringify b\<rparr>"
    using publishes [OF assms(1-4)] by blast
  have p: "json_parse (json_stringify b) = Some b" using plain_ready [OF b assms(5)] by (rule json_parse_stringify)
  have f: "fld b ''status'' = JStr ''ready''" "fld b ''uris'' = JArr [JStr (reality_uri cur secrets), JStr (hy2_uri cur secrets)]" "need_obj b = Inr b"
    using b by (auto simp: buildReadyBundle_def Let_def need_obj_def nullish_def split: if_splits)
  show ?thesis
    by (intro exI conjI, rule m)
      (use assms(6-8) p f in \<open>auto simp: dp_fetch_sub dp_subscription_def dp_sha256_eq equalHash_eq dp_format_def nullish_def sub_token_def
         split: option.splits\<close>)
qed

text \<open>
  C28. A disabled data plane serves nothing. Once the revocation workflow (or the first preparation) has uploaded the pending
  bundle, no request to the subscription endpoint is answered with a configuration: the answer is 404, or 503 to
  the holder of the new token.
\<close>

theorem disabled_serves_nothing:
  assumes "disable_data_plane rtm x h w = (Inr (), w')"
  shows "\<exists>s. map_of (cw_scripts w') (d_account x, d_worker_name x) = Some s \<and>
    (\<forall>E r c t. rq_method r = ''GET'' \<longrightarrow> rq_path r = ''/sub/'' @ t \<longrightarrow>
       (\<exists>resp. dp_fetch E s r c = (Inr resp, c) \<and> dr_status resp \<in> {404, 503}))"
proof -
  have m: "map_of (cw_scripts w') (d_account x, d_worker_name x) =
      Some \<lparr>sp_token_hash = h, sp_bundle = json_stringify (buildPendingBundle (cr_now rtm) x)\<rparr>"
    using assms
    by (auto simp: disable_data_plane_def act_unfold uploadWorkerScript_def connection_auth_def map_of_upsert split: sum.splits prod.splits)
  have p: "json_parse (json_stringify (buildPendingBundle (cr_now rtm) x)) = Some (buildPendingBundle (cr_now rtm) x)"
    using plain_pending by (rule json_parse_stringify)
  have f: "fld (buildPendingBundle (cr_now rtm) x) ''status'' \<noteq> JStr ''ready''"
      "need_obj (buildPendingBundle (cr_now rtm) x) = Inr (buildPendingBundle (cr_now rtm) x)"
    by (simp_all add: buildPendingBundle_def need_obj_def nullish_def)
  show ?thesis
    by (intro exI conjI, rule m) (use p f in \<open>auto simp: dp_fetch_sub dp_subscription_def dp_text_def split: option.splits\<close>)
qed

subsection \<open>Concrete runs\<close>

definition demo_published :: deployment where
  "demo_published = demo_dep\<lparr>d_agent_hash := Some ''a'', d_sub_hash := cp_sha256 demo_cp (replicate 43 CHR ''s'')\<rparr>"

definition demo_pub_secrets :: jval where
  "demo_pub_secrets = JObj (upsert ''subscriptionToken'' (JStr (replicate 43 CHR ''s'')) (obj_fields demo_secrets))"

definition demo_pub_world :: "string \<Rightarrow> string \<Rightarrow> cp_world" where
  "demo_pub_world tokenEnc enc =
     (demo_cp_world tokenEnc)\<lparr>cw_db := empty_cp\<lparr>cp_conns := [demo_conn tokenEnc], cp_deps := [demo_published], cp_secrets := [(''dep1'', enc, 2)]\<rparr>\<rparr>"

lemma demo_auth:
  "\<exists>enc. getValidCloudflareAuth demo_flow_cr (demo_conn enc) = Inr ''tok''"
proof -
  obtain enc where enc: "encryptJson demo_cp \<lparr>er_key = [5], er_wrap = [1], er_data = [2]\<rparr> (JStr ''tok'') (bytesToBase64Url (replicate 32 0))
      ''cloudflare:c1:api-token'' = Inr enc" using encryptJson_eq [OF demo_key] by blast
  have "decryptJson demo_cp enc (bytesToBase64Url (replicate 32 0)) ''cloudflare:c1:api-token'' = Inr (JStr ''tok'')"
    by (rule sealed_opens [OF demo_cp_laws demo_key _ _ _ enc]) simp_all
  then have "getValidCloudflareAuth demo_flow_cr (demo_conn enc) = Inr ''tok''"
    by (simp add: getValidCloudflareAuth_def demo_conn_def demo_flow_cr_def demo_cr_def)
  then show ?thesis by blast
qed

lemma demo_upload: "\<exists>v. uploadWorkerScript demo_flow_cr tok a n s w = (Inr (), w\<lparr>cw_scripts := upsert (a, n) s (cw_scripts w)\<rparr>)"
  by (simp add: uploadWorkerScript_def demo_api act_unfold)

theorem disabled_serves_nothing_witness:
  "\<exists>enc w' s. disable_data_plane demo_flow_cr demo_dep ''h'' (demo_cp_world enc) = (Inr (), w') \<and>
    map_of (cw_scripts w') (d_account demo_dep, d_worker_name demo_dep) = Some s \<and>
    (\<forall>E r c t. rq_method r = ''GET'' \<longrightarrow> rq_path r = ''/sub/'' @ t \<longrightarrow>
       (\<exists>resp. dp_fetch E s r c = (Inr resp, c) \<and> dr_status resp \<in> {404, 503}))"
proof -
  obtain enc where a: "getValidCloudflareAuth demo_flow_cr (demo_conn enc) = Inr ''tok''" using demo_auth by blast
  have c: "getConnection (d_connection demo_dep) None (cw_db (demo_cp_world enc)) = Inr (demo_conn enc)"
    by (simp add: getConnection_def demo_cp_world_def demo_dep_def demo_conn_def)
  obtain w' where w: "disable_data_plane demo_flow_cr demo_dep ''h'' (demo_cp_world enc) = (Inr (), w')"
    by (simp add: disable_data_plane_def act_bind_def auth_eq [OF c] a uploadWorkerScript_def demo_api act_lift_def act_upd_def)
  from disabled_serves_nothing [OF this] w show ?thesis by blast
qed

theorem published_subscription_witness:
  "\<exists>tokenEnc enc w' s. publish_profiles demo_flow_cr demo_published (demo_pub_world tokenEnc enc) = (Inr (), w') \<and>
    map_of (cw_scripts w') (d_account demo_published, d_worker_name demo_published) = Some s \<and>
    (\<forall>r c. rq_method r = ''GET'' \<longrightarrow> rq_path r = ''/sub/'' @ replicate 43 CHR ''s'' \<longrightarrow> query_of r ''format'' = None \<longrightarrow>
       dp_fetch demo_dp_env s r c = (Inr (dp_text 200 plain_type
         (reality_uri demo_published demo_pub_secrets @ [CHR 0x0A] @ hy2_uri demo_published demo_pub_secrets @ [CHR 0x0A])), c))"
proof -
  obtain tokenEnc where a: "getValidCloudflareAuth demo_flow_cr (demo_conn tokenEnc) = Inr ''tok''" using demo_auth by blast
  obtain enc where enc: "encryptJson demo_cp \<lparr>er_key = [5], er_wrap = [1], er_data = [2]\<rparr> demo_pub_secrets (bytesToBase64Url (replicate 32 0))
      (dep_aad ''dep1'') = Inr enc" using encryptJson_eq [OF demo_key] by blast
  have pl: "plain demo_pub_secrets" by (simp add: demo_pub_secrets_def demo_secrets_def)
  have "decryptJson demo_cp enc (bytesToBase64Url (replicate 32 0)) (dep_aad ''dep1'') = Inr demo_pub_secrets"
    by (rule sealed_opens [OF demo_cp_laws demo_key pl _ _ enc]) simp_all
  then have dec: "decryptJson (cr_P demo_flow_cr) enc (cr_key demo_flow_cr) (dep_aad (d_id demo_published)) = Inr demo_pub_secrets"
    by (simp add: demo_flow_cr_def demo_cr_def demo_published_def demo_dep_def)
  let ?w = "demo_pub_world tokenEnc enc"
  have c: "getConnection (d_connection demo_published) None (cw_db ?w) = Inr (demo_conn tokenEnc)"
    by (simp add: getConnection_def demo_pub_world_def demo_published_def demo_dep_def demo_conn_def)
  have l: "loadDeployment (d_id demo_published) (cw_db ?w) = Inr demo_published"
    by (simp add: loadDeployment_def demo_pub_world_def)
  have sc: "secret_of (d_id demo_published) (cw_db ?w) = Some enc"
    by (simp add: secret_of_def demo_pub_world_def demo_published_def demo_dep_def)
  have cc: "credentials_complete demo_pub_secrets" by (simp add: credentials_complete_def demo_pub_secrets_def demo_secrets_def)
  have ag: "d_agent_hash demo_published = Some ''a''" by (simp add: demo_published_def)
  have no: "need_obj demo_pub_secrets = Inr demo_pub_secrets" by (simp add: need_obj_def nullish_def demo_pub_secrets_def)
  obtain b where b: "buildReadyBundle (cr_now demo_flow_cr) demo_published demo_pub_secrets
      (to_str (js_coalesce (fld demo_pub_secrets ''subscriptionToken'') (JStr []))) (cr_base demo_flow_cr) = Inr b"
    using cc by (simp add: buildReadyBundle_def Let_def)
  have "\<exists>w'. publish_profiles demo_flow_cr demo_published ?w = (Inr (), w')"
    by (simp add: publish_profiles_def act_bind_def act_seq_def act_when_def act_lift_def act_ret_def cdb_res_def cdb_get_def act_get_def
        l sc dec no ag auth_eq [OF c] a b uploadWorkerScript_def demo_api act_upd_def)
  then obtain w' where w: "publish_profiles demo_flow_cr demo_published ?w = (Inr (), w')" by blast
  have h: "d_sub_hash demo_published = cp_sha256 (cr_P demo_flow_cr) (replicate 43 CHR ''s'')" "de_P demo_dp_env = cr_P demo_flow_cr"
    by (simp_all add: demo_published_def demo_flow_cr_def demo_cr_def demo_dp_env_def)
  have tk: "sub_token (''/sub/'' @ replicate 43 CHR ''s'') = Some (replicate 43 CHR ''s'')"
    by (simp add: sub_token_def list_all_iff token_class_def is_alnum_def is_lower_def)
  from published_subscription [OF w l sc dec pl h(1) tk h(2)] w show ?thesis by blast
qed

end
