(* ===== verification/Cp_Net.thy ===== *)
theory Cp_Net
  imports Cp_Db "HOL-Library.List_Lexorder" "HOL-Library.Char_ord"
begin

text \<open>
  What the control plane measures about networks: the national address ranges (\<^verbatim>\<open>src/geoip-ir.ts\<close>), the race between
  direct and tunnelled paths (\<^verbatim>\<open>src/domestic-race.ts\<close>), DNS poisoning and MTU reports (\<^verbatim>\<open>src/dns-poison.ts\<close>), and the
  network mode of a deployment (\<^verbatim>\<open>src/net-mode.ts\<close>). Their tables are \<open>net_db\<close>; a row's primary key is a field. Days are numbers
  of days. Doubles are rationals, so \<open>Math.log2\<close> of a whole number is exact. Persian constants, which the Latin-1 texts
  here cannot hold, are the parameter \<open>net_text\<close>.
\<close>

subsection \<open>Tables\<close>

record ip_range =
  ir_cidr :: string
  ir_family :: string

record rir_snapshot =
  rs_id :: string
  rs_day :: int
  rs_sha256 :: string
  rs_range_count :: nat
  rs_added :: nat
  rs_removed :: nat
  rs_fetched :: num

record race_row =
  rr_domain :: string
  rr_direct :: "num option"
  rr_tunnel :: "num option"
  rr_winner :: string
  rr_samples :: nat
  rr_updated :: num
  rr_expires :: num

record mtu_row =
  mt_isp :: string
  mt_city :: string
  mt_mtu :: int
  mt_samples :: nat
  mt_updated :: num
  mt_expires :: num

record poison_row =
  po_isp :: string
  po_city :: string
  po_fake :: nat
  po_total :: nat
  po_detail :: string
  po_created :: num
  po_expires :: num

record edge_row =
  eg_dep :: string
  eg_ok :: bool
  eg_status :: "nat option"
  eg_latency :: "num option"
  eg_probed :: num
  eg_expires :: num

record net_db =
  nd_ranges :: "(ip_range \<times> int) list"
  nd_snaps :: "rir_snapshot list"
  nd_race :: "race_row list"
  nd_mtu :: "mtu_row list"
  nd_poison :: "poison_row list"
  nd_edge :: "edge_row list"

record net_text =
  nt_isps :: "string list"
  nt_other_isp :: string
  nt_unknown_city :: string

definition day_of :: "num \<Rightarrow> int" where
  "day_of now = \<lfloor>now / 86400000\<rfloor>"

subsection \<open>geoip-ir.ts\<close>

text \<open>\<open>ToInt32\<close> of a finite number, as the bits of a 32-bit word.\<close>

definition int32_bits :: "num \<Rightarrow> 32 word" where
  "int32_bits q = word_of_int (if 0 \<le> q then \<lfloor>q\<rfloor> else \<lceil>q\<rceil>)"

definition exact_log2 :: "num \<Rightarrow> nat option" where
  "exact_log2 q = find (\<lambda>k. q = 2 ^ k) [0..<33]"

definition ipv4_prefix :: "string \<Rightarrow> nat option" where
  "ipv4_prefix lengthRaw =
     (case str_to_num lengthRaw of
        Fin hosts \<Rightarrow>
          if hosts \<le> 0 \<or> int32_bits hosts AND int32_bits (hosts - 1) \<noteq> 0 then None
          else map_option (\<lambda>k. 32 - k) (exact_log2 hosts)
      | _ \<Rightarrow> None)"

definition ipv6_prefix :: "string \<Rightarrow> nat option" where
  "ipv6_prefix lengthRaw =
     (case str_to_num lengthRaw of
        Fin p \<Rightarrow> if is_int p \<and> 0 \<le> p \<and> p \<le> 128 then Some (nat \<lfloor>p\<rfloor>) else None
      | _ \<Rightarrow> None)"

definition range_of_line :: "string \<Rightarrow> ip_range option" where
  "range_of_line line =
     (if starts_with ''#'' line \<or> trim line = [] then None
      else case split_on CHR ''|'' line of
        _ # cc # type # start # lengthRaw # _ \<Rightarrow>
          if cc \<noteq> ''IR'' \<or> start = [] \<or> lengthRaw = [] then None
          else if type = ''ipv4'' then map_option (\<lambda>p. \<lparr>ir_cidr = start @ ''/'' @ show_nat p, ir_family = ''ipv4''\<rparr>) (ipv4_prefix lengthRaw)
          else if type = ''ipv6'' then map_option (\<lambda>p. \<lparr>ir_cidr = start @ ''/'' @ show_nat p, ir_family = ''ipv6''\<rparr>) (ipv6_prefix lengthRaw)
          else None
      | _ \<Rightarrow> None)"

definition parseDelegatedIrnic :: "string \<Rightarrow> ip_range list" where
  "parseDelegatedIrnic text = List.map_filter range_of_line (split_on CHR 0x0A text)"

definition diffRanges :: "string list \<Rightarrow> string list \<Rightarrow> string list \<times> string list" where
  "diffRanges previous next_set =
     (filter (\<lambda>c. c \<notin> set previous) next_set, filter (\<lambda>c. c \<notin> set next_set) previous)"

text \<open>A \<open>Set\<close> keeps the first occurrence of each element.\<close>

fun js_set :: "'a list \<Rightarrow> 'a list" where
  "js_set [] = []"
| "js_set (x # xs) = x # filter (\<lambda>y. y \<noteq> x) (js_set xs)"

definition latestRirSnapshot :: "net_db \<Rightarrow> rir_snapshot option" where
  "latestRirSnapshot d = (case sort_by (\<lambda>a b. rs_day b \<le> rs_day a) (nd_snaps d) of [] \<Rightarrow> None | s # _ \<Rightarrow> Some s)"

definition currentIrRanges :: "net_db \<Rightarrow> string list" where
  "currentIrRanges d = sort_by (\<lambda>a b. a \<le> b) (map (ir_cidr \<circ> fst) (nd_ranges d))"

record rir_result =
  rf_updated :: bool
  rf_sha256 :: "string option"
  rf_added :: nat
  rf_removed :: nat
  rf_count :: nat

definition family_of :: "ip_range list \<Rightarrow> string \<Rightarrow> string" where
  "family_of ranges c = (case find (\<lambda>r. ir_cidr r = c) (rev ranges) of
     None \<Rightarrow> ''ipv4'' | Some r \<Rightarrow> if ir_family r = ''ipv6'' then ''ipv6'' else ''ipv4'')"

text \<open>The batch: delete all, insert in statements of thirty rows, insert the snapshot (\<open>id\<close> and \<open>day\<close> are unique).\<close>

definition replace_ranges :: "rir_snapshot \<Rightarrow> ip_range list \<Rightarrow> string list \<Rightarrow> (net_db, unit) act" where
  "replace_ranges s ranges cidrs d =
     (if list_ex (\<lambda>t. rs_id t = rs_id s \<or> rs_day t = rs_day s) (nd_snaps d) then (Inl (JsError ''UNIQUE constraint failed''), d)
      else (Inr (), d\<lparr>nd_ranges := concat (map (map (\<lambda>c. (\<lparr>ir_cidr = c, ir_family = family_of ranges c\<rparr>, rs_day s))) (chunks 30 cidrs)),
                     nd_snaps := nd_snaps d @ [s]\<rparr>))"

text \<open>\<open>fetched\<close> is the text of the registry file; \<open>None\<close> when fetching fails or answers an error status.\<close>

definition refreshGeoipIr :: "cp_runtime \<Rightarrow> string option \<Rightarrow> (net_db, rir_result) act" where
  "refreshGeoipIr rtm fetched =
     act_bind (act_get (\<lambda>d. find (\<lambda>s. rs_day s = day_of (cr_now rtm)) (nd_snaps d))) (\<lambda>existing.
     case existing of
       Some s \<Rightarrow> act_get (\<lambda>d. \<lparr>rf_updated = False, rf_sha256 = Some (rs_sha256 s), rf_added = 0, rf_removed = 0, rf_count = length (nd_ranges d)\<rparr>)
     | None \<Rightarrow>
         (case fetched of
            None \<Rightarrow> act_ret \<lparr>rf_updated = False, rf_sha256 = None, rf_added = 0, rf_removed = 0, rf_count = 0\<rparr>
          | Some text \<Rightarrow>
              let digest = cp_sha256 (cr_P rtm) text; ranges = parseDelegatedIrnic text in
              if ranges = [] then act_ret \<lparr>rf_updated = False, rf_sha256 = Some digest, rf_added = 0, rf_removed = 0, rf_count = 0\<rparr>
              else
                act_bind (act_get (\<lambda>d. js_set (currentIrRanges d))) (\<lambda>previous.
                let cidrs = js_set (map ir_cidr ranges); (added, removed) = diffRanges previous cidrs in
                act_seq (replace_ranges \<lparr>rs_id = cr_uuid rtm, rs_day = day_of (cr_now rtm), rs_sha256 = digest, rs_range_count = length cidrs,
                    rs_added = length added, rs_removed = length removed, rs_fetched = cr_now rtm\<rparr> ranges cidrs)
                (act_ret \<lparr>rf_updated = True, rf_sha256 = Some digest, rf_added = length added, rf_removed = length removed,
                    rf_count = length cidrs\<rparr>))))"

definition buildRuleSet :: "string list \<Rightarrow> jval" where
  "buildRuleSet cidrs = JObj [(''version'', JInt 2), (''rules'', JArr [JObj [(''ip_cidr'', JArr (map JStr cidrs))]])]"

definition purgeOldRirSnapshots :: "num \<Rightarrow> net_db \<Rightarrow> nat \<times> net_db" where
  "purgeOldRirSnapshots now d =
     (let cutoff = day_of (now - 14 * 86400000) in
      (length (filter (\<lambda>s. rs_day s < cutoff) (nd_snaps d)), d\<lparr>nd_snaps := filter (\<lambda>s. \<not> rs_day s < cutoff) (nd_snaps d)\<rparr>))"

subsection \<open>domestic-race.ts\<close>

record race_report =
  rp_domain :: string
  rp_direct :: "num option"
  rp_tunnel :: "num option"

definition race_char :: "char \<Rightarrow> bool" where
  "race_char ch \<longleftrightarrow> is_lower ch \<or> is_digit ch \<or> ch = CHR ''.'' \<or> ch = CHR ''-''"

fun race_ms :: "jval \<Rightarrow> num option" where
  "race_ms (JNum (Fin q)) = Some (min 30000 (max 0 (js_round q)))"
| "race_ms v = None"

fun str_or_empty :: "jval \<Rightarrow> string" where
  "str_or_empty (JStr s) = s"
| "str_or_empty v = []"

definition parseRaceReport :: "jval \<Rightarrow> race_report res" where
  "parseRaceReport inp =
     (if \<not> is_object inp then Inl invalid_input
      else
        let domain = take 120 (filter race_char (to_lower (str_or_empty (fld inp ''domain''))));
            d = race_ms (fld inp ''directMs''); t = race_ms (fld inp ''tunnelMs'') in
        if length domain < 4 then Inl invalid_input
        else if d = None \<and> t = None then Inl invalid_input
        else Inr \<lparr>rp_domain = domain, rp_direct = d, rp_tunnel = t\<rparr>)"

definition raceWinner :: "num option \<Rightarrow> num option \<Rightarrow> string" where
  "raceWinner d t =
     (case (d, t) of (Some a, Some b) \<Rightarrow> if a = b then ''tie'' else if a < b then ''direct'' else ''tunnel'' | _ \<Rightarrow> ''tie'')"

definition merge_race :: "num \<Rightarrow> race_report \<Rightarrow> race_row \<Rightarrow> race_row" where
  "merge_race now r x =
     x\<lparr>rr_direct := (if rp_direct r = None then rr_direct x else rp_direct r),
       rr_tunnel := (if rp_tunnel r = None then rr_tunnel x else rp_tunnel r),
       rr_winner := raceWinner (rp_direct r) (rp_tunnel r), rr_samples := Suc (rr_samples x), rr_updated := now,
       rr_expires := now + 7 * 86400000\<rparr>"

definition recordRaceReport :: "num \<Rightarrow> race_report \<Rightarrow> net_db \<Rightarrow> net_db" where
  "recordRaceReport now r d =
     d\<lparr>nd_race := (if list_ex (\<lambda>x. rr_domain x = rp_domain r) (nd_race d)
                 then map (\<lambda>x. if rr_domain x = rp_domain r then merge_race now r x else x) (nd_race d)
                 else nd_race d @ [\<lparr>rr_domain = rp_domain r, rr_direct = rp_direct r, rr_tunnel = rp_tunnel r,
                        rr_winner = raceWinner (rp_direct r) (rp_tunnel r), rr_samples = 1, rr_updated = now, rr_expires = now + 7 * 86400000\<rparr>])\<rparr>"

definition listRaceWinners :: "num \<Rightarrow> net_db \<Rightarrow> race_row list" where
  "listRaceWinners now d =
     take 50 (sort_by (\<lambda>a b. rr_samples b < rr_samples a \<or> rr_samples a = rr_samples b \<and> rr_updated b \<le> rr_updated a)
       (filter (\<lambda>x. now < rr_expires x) (nd_race d)))"

definition directRaceDomains :: "num \<Rightarrow> net_db \<Rightarrow> string list" where
  "directRaceDomains now d =
     map rr_domain (filter (\<lambda>x. rr_domain x \<noteq> [] \<and> rr_winner x = ''direct'' \<and> 2 \<le> rr_samples x) (listRaceWinners now d))"

definition buildDomainRuleSet :: "string list \<Rightarrow> jval" where
  "buildDomainRuleSet domains =
     JObj [(''version'', JInt 2), (''rules'', JArr [JObj [(''domain'', JArr (map JStr (if domains = [] then [''invalid.local''] else domains)))]])]"

definition purgeExpiredRaceReports :: "num \<Rightarrow> net_db \<Rightarrow> nat \<times> net_db" where
  "purgeExpiredRaceReports now d =
     (length (filter (\<lambda>x. rr_expires x \<le> now) (nd_race d)), d\<lparr>nd_race := filter (\<lambda>x. \<not> rr_expires x \<le> now) (nd_race d)\<rparr>)"

subsection \<open>dns-poison.ts\<close>

record poison_entry =
  pe_resolver :: string
  pe_canary :: string
  pe_answers :: "string list"

record poison_verdict =
  pv_total :: nat
  pv_fake :: nat
  pv_per :: "(string \<times> nat \<times> nat) list"

definition isBlackholeAnswer :: "string \<Rightarrow> bool" where
  "isBlackholeAnswer answer =
     (let v = to_lower (trim answer) in starts_with ''127.'' v \<or> v \<in> {''0.0.0.0'', ''10.10.34.34''})"

text \<open>One answer of a resolver: the totals and the resolver's bucket (\<open>total\<close>, \<open>fake\<close>).\<close>

definition count_answer :: "string \<Rightarrow> nat \<times> nat \<times> nat \<times> nat \<Rightarrow> nat \<times> nat \<times> nat \<times> nat" where
  "count_answer answer = (\<lambda>(t, f, bt, bf).
     if isBlackholeAnswer answer then (Suc t, Suc f, Suc bt, Suc bf) else (Suc t, f, Suc bt, bf))"

definition count_entry :: "poison_entry \<Rightarrow> poison_verdict \<Rightarrow> poison_verdict" where
  "count_entry e v =
     (let (bt, bf) = (case map_of (pv_per v) (pe_resolver e) of None \<Rightarrow> (0, 0) | Some b \<Rightarrow> b);
          (t, f, bt', bf') = fold count_answer (pe_answers e) (pv_total v, pv_fake v, bt, bf)
      in \<lparr>pv_total = t, pv_fake = f, pv_per = upsert (pe_resolver e) (bt', bf') (pv_per v)\<rparr>)"

definition evaluatePoisonTest :: "poison_entry list \<Rightarrow> poison_verdict" where
  "evaluatePoisonTest entries = fold count_entry entries \<lparr>pv_total = 0, pv_fake = 0, pv_per = []\<rparr>"

text \<open>\<open>sanitizeCity\<close>, shared with the censorship map: tags, HTML characters, runs of blanks, both ends.\<close>

function strip_tags :: "string \<Rightarrow> string" where
  "strip_tags [] = []"
| "strip_tags (c # cs) =
     (if c = CHR ''<'' \<and> CHR ''>'' \<in> set cs then CHR '' '' # strip_tags (tl (dropWhile (\<lambda>x. x \<noteq> CHR ''>'') cs))
      else c # strip_tags cs)"
  by pat_completeness auto
termination by (relation "measure length") (auto simp: le_imp_less_Suc less_Suc_eq_le intro: le_trans [OF diff_le_self length_dropWhile_le])

fun collapse_ws :: "string \<Rightarrow> string" where
  "collapse_ws (a # b # cs) =
     (if is_ws a then (if is_ws b then collapse_ws (b # cs) else CHR '' '' # collapse_ws (b # cs)) else a # collapse_ws (b # cs))"
| "collapse_ws [a] = (if is_ws a then '' '' else [a])"
| "collapse_ws [] = []"

definition markup_chars :: string where
  "markup_chars = ''<>&'' @ [CHR 0x22, CHR 0x27, CHR 0x5C]"

definition sanitizeCity :: "net_text \<Rightarrow> jval \<Rightarrow> string" where
  "sanitizeCity N v =
     (let cleaned = take 40 (trim (collapse_ws (filter (\<lambda>ch. ch \<notin> set markup_chars) (strip_tags (take 60 (str_or_empty v))))))
      in if cleaned = [] then nt_unknown_city N else cleaned)"

definition isp_of :: "net_text \<Rightarrow> jval \<Rightarrow> string" where
  "isp_of N v = (case v of JStr s \<Rightarrow> if s \<in> set (nt_isps N) then s else nt_other_isp N | _ \<Rightarrow> nt_other_isp N)"

definition POISON_RESOLVERS :: "string list" where
  "POISON_RESOLVERS = [''system'', ''cf-1111'', ''cf-doh'', ''shecan'', ''melli'', ''403online'', ''radar'']"

definition POISON_CANARIES :: "string list" where
  "POISON_CANARIES = [''dns.google'', ''cloudflare.com'', ''www.wikipedia.org'']"

record poison_report =
  pn_isp :: string
  pn_city :: string
  pn_entries :: "poison_entry list"

fun arr_items :: "jval \<Rightarrow> jval list" where
  "arr_items (JArr xs) = xs"
| "arr_items v = []"

definition poison_entry_of :: "jval \<Rightarrow> poison_entry option" where
  "poison_entry_of raw =
     (let resolver = str_or_empty (fld raw ''resolver''); canary = to_lower (str_or_empty (fld raw ''canary'')) in
      if \<not> is_object raw \<or> resolver \<notin> set POISON_RESOLVERS \<or> canary \<notin> set POISON_CANARIES then None
      else Some \<lparr>pe_resolver = resolver, pe_canary = canary,
        pe_answers = take 16 (List.map_filter (\<lambda>a. case a of JStr s \<Rightarrow> Some (take 64 s) | _ \<Rightarrow> None) (arr_items (fld raw ''answers'')))\<rparr>)"

definition parsePoisonReport :: "net_text \<Rightarrow> jval \<Rightarrow> poison_report res" where
  "parsePoisonReport N inp =
     (if \<not> is_object inp then Inl invalid_input
      else case js_coalesce (fld inp ''entries'') (fld inp ''results'') of
        JArr raws \<Rightarrow>
          if raws = [] \<or> 64 < length raws then Inl invalid_input
          else let entries = List.map_filter poison_entry_of raws in
            if entries = [] then Inl invalid_input
            else Inr \<lparr>pn_isp = isp_of N (fld inp ''isp''), pn_city = sanitizeCity N (fld inp ''city''), pn_entries = entries\<rparr>
      | _ \<Rightarrow> Inl invalid_input)"

definition per_json :: "(string \<times> nat \<times> nat) list \<Rightarrow> jval" where
  "per_json xs = JArr (map (\<lambda>(r, t, f). JObj [(''resolver'', JStr r), (''total'', JInt (of_nat t)), (''fake'', JInt (of_nat f))]) xs)"

definition recordPoisonReport :: "num \<Rightarrow> poison_report \<Rightarrow> (net_db, poison_verdict) act" where
  "recordPoisonReport now r =
     (let v = evaluatePoisonTest (pn_entries r) in
      act_seq (act_upd (\<lambda>d. d\<lparr>nd_poison := nd_poison d @ [\<lparr>po_isp = pn_isp r, po_city = pn_city r, po_fake = pv_fake v, po_total = pv_total v,
          po_detail = json_stringify (per_json (pv_per v)), po_created = now, po_expires = now + 24 * 3600000\<rparr>]\<rparr>))
        (act_ret v))"

definition purgeExpiredPoisonReports :: "num \<Rightarrow> net_db \<Rightarrow> nat \<times> net_db" where
  "purgeExpiredPoisonReports now d =
     (length (filter (\<lambda>x. po_expires x \<le> now) (nd_poison d)), d\<lparr>nd_poison := filter (\<lambda>x. \<not> po_expires x \<le> now) (nd_poison d)\<rparr>)"

text \<open>MTU reports.\<close>

record mtu_report =
  mp_isp :: string
  mp_city :: string
  mp_mtu :: int

definition parseMtuReport :: "net_text \<Rightarrow> jval \<Rightarrow> mtu_report res" where
  "parseMtuReport N inp =
     (if \<not> is_object inp then Inl invalid_input
      else case fld inp ''mtu'' of
        JNum (Fin q) \<Rightarrow>
          if \<not> is_int q \<or> q < 512 \<or> 1400 < q then Inl invalid_input
          else Inr \<lparr>mp_isp = isp_of N (fld inp ''isp''), mp_city = sanitizeCity N (fld inp ''city''), mp_mtu = \<lfloor>q\<rfloor>\<rparr>
      | _ \<Rightarrow> Inl invalid_input)"

definition mtu_cell :: "string \<Rightarrow> string \<Rightarrow> mtu_row \<Rightarrow> bool" where
  "mtu_cell isp city x \<longleftrightarrow> mt_isp x = isp \<and> mt_city x = city"

definition recordMtuReport :: "num \<Rightarrow> mtu_report \<Rightarrow> net_db \<Rightarrow> net_db" where
  "recordMtuReport now r d =
     d\<lparr>nd_mtu := (if list_ex (mtu_cell (mp_isp r) (mp_city r)) (nd_mtu d)
        then map (\<lambda>x. if mtu_cell (mp_isp r) (mp_city r) x
               then x\<lparr>mt_mtu := (if mt_mtu x < mp_mtu r then mp_mtu r else mt_mtu x), mt_samples := Suc (mt_samples x), mt_updated := now,
                     mt_expires := now + 24 * 3600000\<rparr> else x) (nd_mtu d)
        else nd_mtu d @ [\<lparr>mt_isp = mp_isp r, mt_city = mp_city r, mt_mtu = mp_mtu r, mt_samples = 1, mt_updated = now,
               mt_expires = now + 24 * 3600000\<rparr>])\<rparr>"

definition purgeExpiredMtuReports :: "num \<Rightarrow> net_db \<Rightarrow> nat \<times> net_db" where
  "purgeExpiredMtuReports now d =
     (length (filter (\<lambda>x. mt_expires x \<le> now) (nd_mtu d)), d\<lparr>nd_mtu := filter (\<lambda>x. \<not> mt_expires x \<le> now) (nd_mtu d)\<rparr>)"

definition mtuSuggestion :: "num \<Rightarrow> (string \<times> string) option \<Rightarrow> net_db \<Rightarrow> mtu_row option" where
  "mtuSuggestion now cell d =
     (case cell of
        Some (isp, city) \<Rightarrow> find (\<lambda>x. mtu_cell isp city x \<and> now < mt_expires x) (nd_mtu d)
      | None \<Rightarrow> (case sort_by (\<lambda>a b. mt_samples b \<le> mt_samples a) (filter (\<lambda>x. now < mt_expires x) (nd_mtu d)) of
                  [] \<Rightarrow> None | x # _ \<Rightarrow> Some x))"

subsection \<open>net-mode.ts\<close>

datatype net_mode = Open | Throttled | National_only | Blackout | Nodata

record edge_stats =
  es_samples :: nat
  es_ratio :: num
  es_median :: "num option"

record inner_stats =
  is_alive :: bool
  is_degraded :: bool

definition classifyNetMode :: "edge_stats option \<Rightarrow> inner_stats option \<Rightarrow> net_mode" where
  "classifyNetMode edge inner =
     (case (edge, inner) of
        (Some e, Some i) \<Rightarrow>
          if es_samples e = 0 then Nodata
          else
            let edgeOk = (8 / 10 \<le> es_ratio e \<and> (case es_median e of None \<Rightarrow> True | Some m \<Rightarrow> m \<le> 900)); edgeDead = (es_ratio e < 4 / 10) in
            if is_alive i then (if edgeDead then National_only else if \<not> edgeOk \<or> is_degraded i then Throttled else Open)
            else if edgeDead then Blackout else Throttled
      | _ \<Rightarrow> Nodata)"

text \<open>A probe is what the fetch of \<open>/healthz\<close> gives: status and latency, or nothing when it throws.\<close>

definition probeDeploymentEdge :: "(string \<Rightarrow> (nat \<times> num) option) \<Rightarrow> string \<Rightarrow> bool \<times> nat option \<times> num option" where
  "probeDeploymentEdge fetch hostname =
     (case fetch hostname of None \<Rightarrow> (False, None, None) | Some (status, latency) \<Rightarrow> (200 \<le> status \<and> status < 300, Some status, Some latency))"

definition recordEdgeProbe :: "num \<Rightarrow> string \<Rightarrow> bool \<times> nat option \<times> num option \<Rightarrow> net_db \<Rightarrow> net_db" where
  "recordEdgeProbe now dep = (\<lambda>(k, status, latency) d. d\<lparr>nd_edge := nd_edge d @
     [\<lparr>eg_dep = dep, eg_ok = k, eg_status = status, eg_latency = latency, eg_probed = now, eg_expires = now + 24 * 3600000\<rparr>]\<rparr>)"

definition probe_targets :: "cp_db \<Rightarrow> deployment list" where
  "probe_targets c = take 20 (sort_by (\<lambda>a b. d_updated b \<le> d_updated a) (filter (\<lambda>x. d_status x = Ready) (cp_deps c)))"

definition runEdgeProbes :: "num \<Rightarrow> (string \<Rightarrow> (nat \<times> num) option) \<Rightarrow> cp_db \<Rightarrow> net_db \<Rightarrow> nat \<times> net_db" where
  "runEdgeProbes now fetch c d =
     (length (probe_targets c),
      fold (\<lambda>x. recordEdgeProbe now (d_id x) (probeDeploymentEdge fetch (d_worker_hostname x))) (probe_targets c) d)"

definition edge_window :: "num \<Rightarrow> string \<Rightarrow> net_db \<Rightarrow> edge_row list" where
  "edge_window now dep d =
     sort_by (\<lambda>a b. eg_probed b \<le> eg_probed a) (filter (\<lambda>x. eg_dep x = dep \<and> now - 6 * 3600000 < eg_probed x) (nd_edge d))"

definition median_of :: "num list \<Rightarrow> num option" where
  "median_of latencies = (let xs = sort_by (\<lambda>a b. a \<le> b) latencies in if xs = [] then None else Some (xs ! (length xs div 2)))"

definition edgeStats :: "num \<Rightarrow> string \<Rightarrow> net_db \<Rightarrow> edge_stats option" where
  "edgeStats now dep d =
     (let results = edge_window now dep d in
      if results = [] then None
      else Some \<lparr>es_samples = length results, es_ratio = of_nat (length (filter eg_ok results)) / of_nat (length results),
                 es_median = median_of (List.map_filter eg_latency results)\<rparr>)"

definition latest_report :: "string \<Rightarrow> cp_db \<Rightarrow> agent_report option" where
  "latest_report dep c =
     (case sort_by (\<lambda>a b. ar_at b \<le> ar_at a) (filter (\<lambda>a. ar_dep a = dep) (cp_reports c)) of [] \<Rightarrow> None | a # _ \<Rightarrow> Some a)"

definition innerStats :: "num \<Rightarrow> string \<Rightarrow> cp_db \<Rightarrow> inner_stats option" where
  "innerStats now dep c =
     (case find (\<lambda>x. d_id x = dep) (cp_deps c) of
        None \<Rightarrow> None
      | Some x \<Rightarrow>
          if d_status x \<noteq> Ready then None
          else
            let r = latest_report dep c;
                seen = (case r of Some a \<Rightarrow> Some (ar_at a) | None \<Rightarrow> d_last_seen x);
                fresh = (case seen of None \<Rightarrow> False | Some t \<Rightarrow> now - 6 * 3600000 \<le> t);
                status = map_option ar_status r
            in Some \<lparr>is_alive = (fresh \<and> status \<noteq> Some ''failed''), is_degraded = (status = Some ''degraded'')\<rparr>)"

definition netModeForDeployment :: "num \<Rightarrow> string \<Rightarrow> cp_db \<Rightarrow> net_db \<Rightarrow> net_mode" where
  "netModeForDeployment now dep c d = classifyNetMode (edgeStats now dep d) (innerStats now dep c)"

definition purgeExpiredEdgeProbes :: "num \<Rightarrow> net_db \<Rightarrow> nat \<times> net_db" where
  "purgeExpiredEdgeProbes now d =
     (length (filter (\<lambda>x. eg_expires x \<le> now) (nd_edge d)), d\<lparr>nd_edge := filter (\<lambda>x. \<not> eg_expires x \<le> now) (nd_edge d)\<rparr>)"

subsection \<open>The address ranges refine a set\<close>

lemma set_js_set [simp]: "set (js_set xs) = set xs"
  by (induction xs) auto

lemma distinct_js_set [simp]: "distinct (js_set xs)"
  by (induction xs) auto

lemma js_set_distinct: "distinct xs \<Longrightarrow> js_set xs = xs"
  by (induction xs) (auto simp: filter_id_conv)

definition ranges_ok :: "net_db \<Rightarrow> bool" where
  "ranges_ok d \<longleftrightarrow> distinct (map (ir_cidr \<circ> fst) (nd_ranges d))"

definition abs_ranges :: "net_db \<Rightarrow> int set \<times> string set" where
  "abs_ranges d = (rs_day ` set (nd_snaps d), (ir_cidr \<circ> fst) ` set (nd_ranges d))"

text \<open>The specification: the first usable file of a day replaces the set.\<close>

definition refresh_spec :: "int \<Rightarrow> string set \<Rightarrow> int set \<times> string set \<Rightarrow> int set \<times> string set" where
  "refresh_spec day new = (\<lambda>(days, old). if day \<in> days \<or> new = {} then (days, old) else (insert day days, new))"

definition file_set :: "string option \<Rightarrow> string set" where
  "file_set fetched = (case fetched of None \<Rightarrow> {} | Some text \<Rightarrow> ir_cidr ` set (parseDelegatedIrnic text))"

lemma replaced_cidrs: "map (ir_cidr \<circ> fst) (concat (map (map (\<lambda>c. (\<lparr>ir_cidr = c, ir_family = f c\<rparr>, day))) (chunks 30 cs))) = cs"
proof -
  have "map (ir_cidr \<circ> fst) (concat (map (map (\<lambda>c. (\<lparr>ir_cidr = c, ir_family = f c\<rparr>, day))) xss)) = concat xss" for xss :: "string list list"
    by (induction xss) (simp_all add: comp_def)
  then show ?thesis by (simp add: concat_chunks)
qed

lemma distinct_currentIrRanges: "ranges_ok d \<Longrightarrow> distinct (currentIrRanges d)"
  by (simp add: currentIrRanges_def ranges_ok_def distinct_sort_by)

lemma diff_cards:
  assumes "distinct p" and "distinct n"
  shows "length (fst (diffRanges p n)) = card (set n - set p)" and "length (snd (diffRanges p n)) = card (set p - set n)"
proof -
  have "length (filter (\<lambda>c. c \<notin> A) xs) = card (set xs - A)" if "distinct xs" for A and xs :: "string list"
    using distinct_card [OF distinct_filter [OF that]] by (metis (no_types, lifting) set_diff_eq set_filter Collect_cong)
  with assms show "length (fst (diffRanges p n)) = card (set n - set p)" "length (snd (diffRanges p n)) = card (set p - set n)"
    by (simp_all add: diffRanges_def)
qed

text \<open>
  C30. The daily refresh of the national ranges refines its specification over sets: the first file of a day with a usable row
  replaces the whole set and records the day, and a second run, a failed fetch or an unusable file changes nothing. The
  snapshot's counts are the sizes of the set differences, so the old size plus what was added is the new size plus what was
  removed; and no range is stored twice.
\<close>

theorem refreshGeoipIr_refines:
  assumes "ranges_ok d" and "refreshGeoipIr rtm fetched d = (Inr r, d')"
  shows "abs_ranges d' = refresh_spec (day_of (cr_now rtm)) (file_set fetched) (abs_ranges d) \<and> ranges_ok d' \<and>
    (rf_updated r \<longrightarrow>
       rf_added r = card (snd (abs_ranges d') - snd (abs_ranges d)) \<and> rf_removed r = card (snd (abs_ranges d) - snd (abs_ranges d')) \<and>
       rf_count r = card (snd (abs_ranges d')) \<and> card (snd (abs_ranges d)) + rf_added r = rf_count r + rf_removed r)"
proof (cases "find (\<lambda>s. rs_day s = day_of (cr_now rtm)) (nd_snaps d)")
  case (Some s)
  then have "day_of (cr_now rtm) \<in> rs_day ` set (nd_snaps d)" by (auto dest!: find_SomeD intro: rev_image_eqI)
  with assms Some show ?thesis by (auto simp: refreshGeoipIr_def act_unfold refresh_spec_def abs_ranges_def)
next
  case None
  then have day: "day_of (cr_now rtm) \<notin> rs_day ` set (nd_snaps d)" by (auto simp: find_None_iff)
  show ?thesis
  proof (cases "file_set fetched = {}")
    case True
    with None assms show ?thesis
      by (auto simp: refreshGeoipIr_def act_unfold refresh_spec_def abs_ranges_def file_set_def split: option.splits)
  next
    case False
    then obtain body where f: "fetched = Some body" and ne: "parseDelegatedIrnic body \<noteq> []" by (auto simp: file_set_def split: option.splits)
    define cidrs where "cidrs = js_set (map ir_cidr (parseDelegatedIrnic body))"
    define prev where "prev = currentIrRanges d"
    have p: "distinct prev" "set prev = snd (abs_ranges d)"
      using distinct_currentIrRanges [OF assms(1)] by (simp_all add: prev_def currentIrRanges_def abs_ranges_def)
    have c: "distinct cidrs" "set cidrs = file_set fetched" by (simp_all add: cidrs_def file_set_def f)
    have d': "map (ir_cidr \<circ> fst) (nd_ranges d') = cidrs" and n': "rs_day ` set (nd_snaps d') = insert (day_of (cr_now rtm)) (rs_day ` set (nd_snaps d))"
      and r: "rf_added r = length (fst (diffRanges prev cidrs))" "rf_removed r = length (snd (diffRanges prev cidrs))" "rf_count r = length cidrs"
      using assms(2) f ne None p(1)
      by (auto simp: refreshGeoipIr_def act_unfold replace_ranges_def Let_def js_set_distinct prev_def [symmetric] cidrs_def [symmetric] replaced_cidrs
          split: prod.splits if_splits)
    have s': "snd (abs_ranges d') = set cidrs" using d' by (metis abs_ranges_def set_map snd_conv)
    have spec: "abs_ranges d' = refresh_spec (day_of (cr_now rtm)) (file_set fetched) (abs_ranges d)"
      using day False s' n' c(2) by (simp add: refresh_spec_def abs_ranges_def prod_eq_iff)
    have ok: "ranges_ok d'" using d' c(1) by (simp add: ranges_ok_def)
    have "card (set prev) + card (set cidrs - set prev) = card (set cidrs) + card (set prev - set cidrs)"
      using card_Un_disjoint [of "set prev" "set cidrs - set prev"] card_Un_disjoint [of "set cidrs" "set prev - set cidrs"]
      by (simp add: Un_commute Int_Diff)
    then have "rf_added r = card (snd (abs_ranges d') - snd (abs_ranges d)) \<and> rf_removed r = card (snd (abs_ranges d) - snd (abs_ranges d')) \<and>
       rf_count r = card (snd (abs_ranges d')) \<and> card (snd (abs_ranges d)) + rf_added r = rf_count r + rf_removed r"
      using diff_cards [OF p(1) c(1)] distinct_card [OF c(1)] by (simp add: r s' p(2) [symmetric])
    with spec ok show ?thesis by blast
  qed
qed

definition demo_net :: net_db where
  "demo_net = \<lparr>nd_ranges = [(\<lparr>ir_cidr = ''1.1.1.0/24'', ir_family = ''ipv4''\<rparr>, 0)], nd_snaps = [], nd_race = [], nd_mtu = [], nd_poison = [], nd_edge = []\<rparr>"

definition demo_rir :: string where
  "demo_rir = ''apnic|IR|ipv4|2.144.0.0|65536|20100101|allocated'' @ [CHR 0x0A] @ ''apnic|IR|ipv6|2a01::|32|20100101|allocated'' @ [CHR 0x0A] @
     ''apnic|IR|ipv4|5.22.0.0|768|20100101|allocated''"

theorem refreshGeoipIr_refines_witness:
  "\<exists>r d'. refreshGeoipIr demo_cr (Some demo_rir) demo_net = (Inr r, d') \<and> rf_added r = 2 \<and> rf_removed r = 1 \<and>
    abs_ranges d' = refresh_spec (day_of (cr_now demo_cr)) (file_set (Some demo_rir)) (abs_ranges demo_net)"
proof -
  have lines: "split_on CHR 0x0A demo_rir = [''apnic|IR|ipv4|2.144.0.0|65536|20100101|allocated'',
      ''apnic|IR|ipv6|2a01::|32|20100101|allocated'', ''apnic|IR|ipv4|5.22.0.0|768|20100101|allocated'']" by (simp add: demo_rir_def)
  have nums: "str_to_num ''65536'' = Fin 65536" "str_to_num ''768'' = Fin 768" "str_to_num ''32'' = Fin 32" by (simp_all add: js_defs)
  have pre: "ipv4_prefix ''65536'' = Some 16" "ipv4_prefix ''768'' = None" "ipv6_prefix ''32'' = Some 32"
    by (simp_all add: ipv4_prefix_def ipv6_prefix_def nums int32_bits_def exact_log2_def upt_rec is_int_def)
  have p: "parseDelegatedIrnic demo_rir =
      [\<lparr>ir_cidr = ''2.144.0.0/16'', ir_family = ''ipv4''\<rparr>, \<lparr>ir_cidr = ''2a01::/32'', ir_family = ''ipv6''\<rparr>]"
    by (simp add: parseDelegatedIrnic_def lines range_of_line_def pre js_defs show_nat.simps digit_char_def char_of_def bit_0 List.map_filter_def)
  have ok: "ranges_ok demo_net" by (simp add: ranges_ok_def demo_net_def)
  obtain r d' where r: "refreshGeoipIr demo_cr (Some demo_rir) demo_net = (Inr r, d')" "rf_added r = 2" "rf_removed r = 1"
    by (auto simp: refreshGeoipIr_def act_unfold p demo_net_def replace_ranges_def diffRanges_def currentIrRanges_def sort_by_def Let_def)
  from refreshGeoipIr_refines [OF ok r(1)] r show ?thesis by blast
qed

subsection \<open>The poison verdict is a count\<close>

definition answers_of :: "string \<Rightarrow> poison_entry list \<Rightarrow> string list" where
  "answers_of r entries = concat (map pe_answers (filter (\<lambda>e. pe_resolver e = r) entries))"

definition fakes :: "string list \<Rightarrow> nat" where
  "fakes xs = length (filter isBlackholeAnswer xs)"

lemma fakes_append: "fakes (xs @ ys) = fakes xs + fakes ys"
  by (simp add: fakes_def)

lemma count_answers:
  "fold count_answer xs (t, f, bt, bf) = (t + length xs, f + fakes xs, bt + length xs, bf + fakes xs)"
  by (induction xs arbitrary: t f bt bf) (auto simp: count_answer_def fakes_def)

lemma js_set_snoc: "js_set (xs @ [x]) = (if x \<in> set xs then js_set xs else js_set xs @ [x])"
  by (induction xs) auto

lemma upsert_map:
  "upsert k v (map (\<lambda>r. (r, g r)) rs) = map (\<lambda>r. (r, (g(k := v)) r)) (if k \<in> set rs then rs else rs @ [k])" if "distinct rs"
  using that by (induction rs) (auto intro!: map_cong)

text \<open>
  The verdict on a poisoning test is the count of what was submitted: all answers and those in the documented
  blackhole addresses, in total and for each resolver in order of first appearance - whatever the order and repetition of the
  entries.
\<close>

theorem evaluatePoisonTest_counts:
  "evaluatePoisonTest es =
     \<lparr>pv_total = length (concat (map pe_answers es)), pv_fake = fakes (concat (map pe_answers es)),
      pv_per = map (\<lambda>r. (r, length (answers_of r es), fakes (answers_of r es))) (js_set (map pe_resolver es))\<rparr>"
proof (induction es rule: rev_induct)
  case Nil
  then show ?case by (simp add: evaluatePoisonTest_def fakes_def)
next
  case (snoc e es)
  have m: "map_of (map (\<lambda>r. (r, g r)) rs) k = (if k \<in> set rs then Some (g k) else None)" for g :: "string \<Rightarrow> nat \<times> nat" and rs k
    by (induction rs) auto
  have "answers_of (pe_resolver e) es = []" if "pe_resolver e \<notin> pe_resolver ` set es"
  proof -
    have "filter (\<lambda>x. pe_resolver x = pe_resolver e) es = []" using that by (auto simp: filter_empty_conv image_iff)
    then show ?thesis by (simp add: answers_of_def)
  qed
  then show ?case
    using snoc
    by (auto simp: evaluatePoisonTest_def count_entry_def m count_answers upsert_map js_set_snoc fakes_append answers_of_def fakes_def intro!: map_cong)
qed

subsection \<open>Sanitised cities\<close>

lemma set_collapse: "set (collapse_ws s) \<subseteq> insert CHR '' '' (set s)"
  by (induction s rule: collapse_ws.induct) auto

lemma set_trim: "set (trim s) \<subseteq> set s"
  unfolding trim_def by (metis set_dropWhileD set_rev subsetI)

text \<open>A city as it is stored cannot open a tag, an entity or an attribute where it is rendered, and has at most 40 characters.\<close>

lemma sanitizeCity_safe:
  assumes "set (nt_unknown_city N) \<inter> set markup_chars = {}" and "length (nt_unknown_city N) \<le> 40"
  shows "set (sanitizeCity N v) \<inter> set markup_chars = {} \<and> length (sanitizeCity N v) \<le> 40"
proof -
  have "set (take 40 (trim (collapse_ws (filter (\<lambda>ch. ch \<notin> set markup_chars) u)))) \<subseteq> insert CHR '' '' (- set markup_chars)" for u
    using set_collapse set_trim set_take_subset by fastforce
  moreover have "CHR '' '' \<notin> set markup_chars" by (simp add: markup_chars_def)
  ultimately show ?thesis using assms by (auto simp: sanitizeCity_def Let_def)
qed

text \<open>
  A partial report makes the race a tie although both measurements of the row stay, so the domain leaves the rule set.
\<close>

lemma partial_report_ties:
  "rr_winner (merge_race now \<lparr>rp_domain = d, rp_direct = Some a, rp_tunnel = None\<rparr> x) = ''tie''"
  "rr_tunnel (merge_race now \<lparr>rp_domain = d, rp_direct = Some a, rp_tunnel = None\<rparr> x) = rr_tunnel x"
  by (simp_all add: merge_race_def raceWinner_def)

end
