(* ===== verification/Cp_Dns.thy ===== *)
theory Cp_Dns
  imports Data_Plane
begin

text \<open>
  The DNS centre (\<^verbatim>\<open>src/dns-center.ts\<close> and the tick chain of \<^verbatim>\<open>src/telegram.ts\<close>): address ranges, the DNS wire format, one probe
  over TCP, and scans that advance in bounded ticks. The sockets and the elapsed time of a probe are a parameter
  (\<open>probe_env\<close>); how many waves of sixteen probes fit into the time budget of a tick is an argument. A result row's own id is
  never read and left out.
\<close>

unbundle bit_operations_syntax

subsection \<open>Ranges\<close>

definition DNS_SCAN_MIN_PREFIX :: nat where
  "DNS_SCAN_MIN_PREFIX = 24"

definition octet_digits :: "string \<Rightarrow> bool" where
  "octet_digits s \<longleftrightarrow> 1 \<le> length s \<and> length s \<le> 3 \<and> list_all is_digit s"

text \<open>The regular expression: four groups of digits and an optional prefix of at most two.\<close>

definition cidr_match :: "string \<Rightarrow> (nat list \<times> nat) option" where
  "cidr_match raw =
     (let (host, prefix) = (case split_on CHR ''/'' raw of
            [h] \<Rightarrow> (h, Some 32)
          | [h, p] \<Rightarrow> (h, if 1 \<le> length p \<and> length p \<le> 2 \<and> list_all is_digit p then Some (nat_of_digits 0 p) else None)
          | _ \<Rightarrow> ([], None));
          parts = split_on CHR ''.'' host
      in case prefix of
           None \<Rightarrow> None
         | Some p \<Rightarrow> if length parts = 4 \<and> list_all octet_digits parts then Some (map (nat_of_digits 0) parts, p) else None)"

definition ip_text :: "32 word \<Rightarrow> string" where
  "ip_text v = show_nat (unat (drop_bit 24 v AND 255)) @ ''.'' @ show_nat (unat (drop_bit 16 v AND 255)) @ ''.'' @
     show_nat (unat (drop_bit 8 v AND 255)) @ ''.'' @ show_nat (unat (v AND 255))"

definition range_base :: "nat list \<Rightarrow> nat \<Rightarrow> 32 word" where
  "range_base octets prefix =
     (let base = push_bit 24 (word_of_nat (octets ! 0)) OR push_bit 16 (word_of_nat (octets ! 1)) OR
                 push_bit 8 (word_of_nat (octets ! 2)) OR word_of_nat (octets ! 3)
      in push_bit (32 - prefix) (drop_bit (32 - prefix) base))"

definition parseCidr :: "string \<Rightarrow> (string \<times> string list) option" where
  "parseCidr inp =
     (case cidr_match (trim inp) of
        None \<Rightarrow> None
      | Some (octets, prefix) \<Rightarrow>
          if list_ex (\<lambda>n. 255 < n) octets then None
          else if prefix < DNS_SCAN_MIN_PREFIX \<or> 32 < prefix then None
          else
            let aligned = range_base octets prefix;
                ips = map (\<lambda>index. ip_text (aligned + word_of_nat index)) [0..<2 ^ (32 - prefix)]
            in Some (ips ! 0 @ ''/'' @ show_nat prefix, ips))"

subsection \<open>Wire format\<close>

definition char_byte :: "char \<Rightarrow> byte" where
  "char_byte c = word_of_nat (of_char c)"

definition word16 :: "nat \<Rightarrow> byte list" where
  "word16 n = [word_of_nat (n div 256), word_of_nat n]"

definition get16 :: "nat \<Rightarrow> byte list \<Rightarrow> nat" where
  "get16 i bs = unat (bs ! i) * 256 + unat (bs ! Suc i)"

definition label_bytes :: "string \<Rightarrow> byte list" where
  "label_bytes l = word_of_nat (length l) # map char_byte l"

definition encodeDnsQuery :: "string \<Rightarrow> nat \<Rightarrow> byte list" where
  "encodeDnsQuery name qtype =
     word16 0x1356 @ word16 0x0100 @ word16 1 @ replicate 6 0 @
     concat (map label_bytes (filter (\<lambda>l. l \<noteq> []) (split_on CHR ''.'' name))) @ [0] @ word16 qtype @ word16 1"

text \<open>The name loops: both run on the bytes that are left; an offset past the end is the empty list.\<close>

function skip_question_name :: "byte list \<Rightarrow> byte list" where
  "skip_question_name [] = []"
| "skip_question_name (n # rest) =
     (if n = 0 then rest else if n AND 0xC0 = 0xC0 then drop 1 rest else skip_question_name (drop (unat n) rest))"
  by pat_completeness auto
termination by (relation "measure length") auto

function skip_answer_labels :: "byte list \<Rightarrow> byte list" where
  "skip_answer_labels [] = []"
| "skip_answer_labels (n # rest) = (if n = 0 then rest else skip_answer_labels (drop (unat n) rest))"
  by pat_completeness auto
termination by (relation "measure length") auto

definition skip_question :: "byte list \<Rightarrow> byte list" where
  "skip_question rest = drop 4 (skip_question_name rest)"

definition skip_answer_name :: "byte list \<Rightarrow> byte list" where
  "skip_answer_name rest = (if hd rest AND 0xC0 \<noteq> 0 then drop 2 rest else skip_answer_labels rest)"

definition quad_text :: "byte list \<Rightarrow> string" where
  "quad_text bs = join_with ''.'' (map (\<lambda>b. show_nat (unat b)) bs)"

fun read_answers :: "nat \<Rightarrow> byte list \<Rightarrow> string list" where
  "read_answers 0 rest = []"
| "read_answers (Suc n) rest =
     (if length rest < 12 then []
      else let r = skip_answer_name rest in
        if length r < 10 then []
        else let data = drop 10 r; len = get16 8 r in
          (if get16 0 r = 1 \<and> len = 4 \<and> 4 \<le> length data then [quad_text (take 4 data)] else []) @ read_answers n (drop len data))"

definition parseDnsResponse :: "byte list \<Rightarrow> nat \<times> string list" where
  "parseDnsResponse buf =
     (if length buf < 12 then (99, [])
      else (unat (buf ! 3 AND 0x0F), read_answers (get16 6 buf) ((skip_question ^^ get16 4 buf) (drop 12 buf))))"

subsection \<open>Probes\<close>

datatype dns_verdict = Healthy | Fake | Wrong | Unreachable

definition BLACKHOLE :: "string list" where
  "BLACKHOLE = [''127.0.0.1'', ''0.0.0.0'', ''10.10.34.34'', ''10.202.10.202'']"

definition DNS_CANARIES :: "(string \<times> string list) list" where
  "DNS_CANARIES = [(''cloudflare-dns.com'', [''1.1.1.1'', ''1.0.0.1'']), (''dns.google'', [''8.8.8.8'', ''8.8.4.4''])]"

definition classifyAnswers :: "string list \<Rightarrow> string list \<Rightarrow> dns_verdict" where
  "classifyAnswers answers wanted =
     (if list_ex (\<lambda>a. a \<in> set BLACKHOLE) answers then Fake
      else if list_ex (\<lambda>a. a \<in> set wanted) answers then Healthy
      else if answers \<noteq> [] then Wrong else Unreachable)"

record probe_env =
  pb_connect :: "string \<Rightarrow> byte list \<Rightarrow> dns_socket res"
  pb_elapsed :: "string \<Rightarrow> num"

text \<open>The body behind the two length bytes of the first chunk, cut to that length when the chunk holds all of it.\<close>

definition probe_body :: "byte list \<Rightarrow> byte list" where
  "probe_body header =
     (if length header < 2 then []
      else let len = get16 0 header in if len \<le> length header - 2 then take len (drop 2 header) else drop 2 header)"

definition probeResolver :: "probe_env \<Rightarrow> string \<Rightarrow> dns_verdict \<times> num option" where
  "probeResolver E ip =
     (let canary = DNS_CANARIES ! 0 in
      case pb_connect E (ip @ '':53'') (dns_frame (encodeDnsQuery (fst canary) 1)) of
        Inl _ \<Rightarrow> (Unreachable, None)
      | Inr socket \<Rightarrow>
          if \<not> ds_output socket \<or> \<not> ds_input socket then (Unreachable, None)
          else (case ds_chunks socket of
             [] \<Rightarrow> (Unreachable, None)
           | header # _ \<Rightarrow>
               let (rcode, answers) = parseDnsResponse (probe_body header) in
               (if rcode \<noteq> 0 then Wrong else classifyAnswers answers (snd canary), Some (pb_elapsed E ip))))"

subsection \<open>Scans\<close>

record scan_range =
  sg_id :: string
  sg_tenant :: string
  sg_cidr :: string
  sg_total :: nat
  sg_cursor :: nat
  sg_created :: num
  sg_last :: "num option"
  sg_finished :: "num option"
  sg_live :: "(string \<times> int) option"

record scan_result =
  sr_range :: string
  sr_ip :: string
  sr_verdict :: dns_verdict
  sr_rtt :: "num option"
  sr_at :: num

record scan_db =
  sd_ranges :: "scan_range list"
  sd_results :: "scan_result list"

definition set_range :: "string \<Rightarrow> (scan_range \<Rightarrow> scan_range) \<Rightarrow> scan_db \<Rightarrow> scan_db" where
  "set_range i f d = d\<lparr>sd_ranges := map (\<lambda>g. if sg_id g = i then f g else g) (sd_ranges d)\<rparr>"

definition results_of :: "string \<Rightarrow> scan_db \<Rightarrow> scan_result list" where
  "results_of i d = filter (\<lambda>r. sr_range r = i) (sd_results d)"

definition drop_results :: "string \<Rightarrow> scan_db \<Rightarrow> scan_db" where
  "drop_results i d = d\<lparr>sd_results := filter (\<lambda>r. sr_range r \<noteq> i) (sd_results d)\<rparr>"

definition drop_range :: "string \<Rightarrow> scan_db \<Rightarrow> scan_db" where
  "drop_range i d = (drop_results i d)\<lparr>sd_ranges := filter (\<lambda>g. sg_id g \<noteq> i) (sd_ranges d)\<rparr>"

text \<open>The chat and message of a live scan are set by the bot once it has sent the card; a new range has none.\<close>

definition new_range :: "cp_runtime \<Rightarrow> string \<Rightarrow> string \<Rightarrow> nat \<Rightarrow> scan_range" where
  "new_range rtm tenant cidr n =
     \<lparr>sg_id = cr_uuid rtm, sg_tenant = tenant, sg_cidr = cidr, sg_total = n, sg_cursor = 0, sg_created = cr_now rtm,
      sg_last = None, sg_finished = None, sg_live = None\<rparr>"

definition replaceScanRange :: "cp_runtime \<Rightarrow> string \<Rightarrow> string \<Rightarrow> (scan_db, string \<times> string list \<times> string) act" where
  "replaceScanRange rtm tenant cidr =
     (case parseCidr cidr of
        None \<Rightarrow> act_throw invalid_input
      | Some (c, ips) \<Rightarrow>
          act_bind (act_get (\<lambda>d. map sg_id (filter (\<lambda>g. sg_tenant g = tenant) (sd_ranges d)))) (\<lambda>old.
          act_seq (act_upd (fold drop_range old))
          (act_bind (act_get (\<lambda>d. cr_uuid rtm \<in> sg_id ` set (sd_ranges d))) (\<lambda>dup.
          act_seq (act_when dup (JsError ''UNIQUE constraint failed''))
          (act_seq (act_upd (\<lambda>d. d\<lparr>sd_ranges := sd_ranges d @ [new_range rtm tenant c (length ips)]\<rparr>))
            (act_ret (c, ips, cr_uuid rtm)))))))"

record scan_progress =
  sp_scanned :: nat
  sp_total :: nat
  sp_healthy :: nat
  sp_fake :: nat
  sp_wrong :: nat
  sp_unreachable :: nat

fun bump :: "dns_verdict \<Rightarrow> scan_progress \<Rightarrow> scan_progress" where
  "bump Healthy p = p\<lparr>sp_healthy := Suc (sp_healthy p)\<rparr>"
| "bump Fake p = p\<lparr>sp_fake := Suc (sp_fake p)\<rparr>"
| "bump Wrong p = p\<lparr>sp_wrong := Suc (sp_wrong p)\<rparr>"
| "bump Unreachable p = p\<lparr>sp_unreachable := Suc (sp_unreachable p)\<rparr>"

definition verdicts :: "dns_verdict \<Rightarrow> scan_result list \<Rightarrow> nat" where
  "verdicts v rs = length (filter (\<lambda>r. sr_verdict r = v) rs)"

definition stored_progress :: "nat \<Rightarrow> nat \<Rightarrow> scan_result list \<Rightarrow> scan_progress" where
  "stored_progress scanned n rs =
     \<lparr>sp_scanned = scanned, sp_total = n, sp_healthy = verdicts Healthy rs, sp_fake = verdicts Fake rs, sp_wrong = verdicts Wrong rs,
      sp_unreachable = verdicts Unreachable rs\<rparr>"

definition probe_row :: "cp_runtime \<Rightarrow> probe_env \<Rightarrow> string \<Rightarrow> string \<Rightarrow> scan_result" where
  "probe_row rtm E rangeId ip =
     \<lparr>sr_range = rangeId, sr_ip = ip, sr_verdict = fst (probeResolver E ip), sr_rtt = snd (probeResolver E ip), sr_at = cr_now rtm\<rparr>"

definition count_row :: "scan_result \<Rightarrow> scan_progress \<Rightarrow> scan_progress" where
  "count_row r p = (let q = bump (sr_verdict r) p in q\<lparr>sp_scanned := Suc (sp_scanned q)\<rparr>)"

definition add_results :: "scan_result list \<Rightarrow> scan_db \<Rightarrow> scan_db" where
  "add_results rows d = d\<lparr>sd_results := sd_results d @ rows\<rparr>"

text \<open>One wave: sixteen probes, one batch of rows, the new cursor.\<close>

definition scan_wave :: "cp_runtime \<Rightarrow> probe_env \<Rightarrow> string \<Rightarrow> string list \<Rightarrow> nat \<Rightarrow> scan_progress \<Rightarrow> scan_db \<Rightarrow> nat \<times> scan_progress \<times> scan_db" where
  "scan_wave rtm E rangeId ips cursor p d =
     (let rows = map (probe_row rtm E rangeId) (take 16 (drop cursor ips)); cursor' = cursor + length rows in
      (cursor', fold count_row rows p,
       set_range rangeId (\<lambda>g. g\<lparr>sg_cursor := cursor', sg_last := Some (cr_now rtm)\<rparr>) (add_results rows d)))"

fun scan_waves :: "nat \<Rightarrow> cp_runtime \<Rightarrow> probe_env \<Rightarrow> string \<Rightarrow> string list \<Rightarrow> nat \<Rightarrow> scan_progress \<Rightarrow> scan_db \<Rightarrow> nat \<times> scan_progress \<times> scan_db" where
  "scan_waves 0 rtm E rangeId ips cursor p d = (cursor, p, d)"
| "scan_waves (Suc n) rtm E rangeId ips cursor p d =
     (if cursor < length ips
      then (case scan_wave rtm E rangeId ips cursor p d of (c, q, e) \<Rightarrow> scan_waves n rtm E rangeId ips c q e)
      else (cursor, p, d))"

definition runScanTick :: "cp_runtime \<Rightarrow> probe_env \<Rightarrow> nat \<Rightarrow> string \<Rightarrow> (scan_db, bool \<times> scan_progress) act" where
  "runScanTick rtm E waves rangeId =
     act_bind (act_get (\<lambda>d. find (\<lambda>g. sg_id g = rangeId) (sd_ranges d))) (\<lambda>row.
     case row of
       None \<Rightarrow> act_throw (http_error 404 ''not_found'')
     | Some g \<Rightarrow>
         (case parseCidr (sg_cidr g) of
            None \<Rightarrow> act_throw invalid_input
          | Some (_, ips) \<Rightarrow>
              act_seq (if sg_cursor g = 0 then act_upd (drop_results rangeId) else act_ret ())
              (act_bind (act_get (\<lambda>d. stored_progress (sg_cursor g) (length ips) (results_of rangeId d))) (\<lambda>start.
              act_bind (\<lambda>d. (case scan_waves waves rtm E rangeId ips (sg_cursor g) start d of (c, p, e) \<Rightarrow> (Inr (c, p), e))) (\<lambda>(cursor, progress).
              if length ips \<le> cursor
              then act_seq (act_upd (set_range rangeId (\<lambda>g. g\<lparr>sg_cursor := 0, sg_finished := Some (cr_now rtm), sg_last := Some (cr_now rtm)\<rparr>)))
                     (act_ret (True, progress))
              else act_ret (False, progress))))))"

record scan_summary =
  su_cidr :: string
  su_total :: nat
  su_healthy :: nat
  su_fake :: nat
  su_wrong :: nat
  su_unreachable :: nat
  su_top :: "(string \<times> num option) list"

definition rtt_or :: "num \<Rightarrow> num option \<Rightarrow> num" where
  "rtt_or fallback v = (case v of None \<Rightarrow> fallback | Some q \<Rightarrow> q)"

definition rangeRoundSummary :: "string \<Rightarrow> scan_db \<Rightarrow> scan_summary" where
  "rangeRoundSummary rangeId d =
     (let rs = results_of rangeId d in
      \<lparr>su_cidr = (case find (\<lambda>g. sg_id g = rangeId) (sd_ranges d) of None \<Rightarrow> [] | Some g \<Rightarrow> sg_cidr g), su_total = length rs,
       su_healthy = verdicts Healthy rs, su_fake = verdicts Fake rs, su_wrong = verdicts Wrong rs, su_unreachable = verdicts Unreachable rs,
       su_top = take 8 (sort_by (\<lambda>a b. rtt_or 9999 (snd a) \<le> rtt_or 9999 (snd b))
         (map (\<lambda>r. (sr_ip r, sr_rtt r)) (filter (\<lambda>r. sr_verdict r = Healthy) rs)))\<rparr>)"

text \<open>The cron's scan: ranges without a live card that are due, 128 addresses each.\<close>

definition range_due :: "num \<Rightarrow> scan_range \<Rightarrow> bool" where
  "range_due now g \<longleftrightarrow> sg_live g = None \<and>
     (sg_finished g = None \<or> (case sg_last g of None \<Rightarrow> True | Some t \<Rightarrow> t < now - 30 * 60000))"

definition scan_due_range :: "cp_runtime \<Rightarrow> probe_env \<Rightarrow> scan_range \<Rightarrow> nat \<times> scan_db \<Rightarrow> nat \<times> scan_db" where
  "scan_due_range rtm E g = (\<lambda>(probed, d).
     case parseCidr (sg_cidr g) of
       None \<Rightarrow> (probed, d)
     | Some (_, ips) \<Rightarrow>
         let rows = map (probe_row rtm E (sg_id g)) (take 128 (drop (sg_cursor g) ips)); c = sg_cursor g + length rows in
         (probed + length rows,
          set_range (sg_id g) (\<lambda>x. if sg_total g \<le> c then x\<lparr>sg_cursor := 0, sg_last := Some (cr_now rtm), sg_finished := Some (cr_now rtm)\<rparr>
            else x\<lparr>sg_cursor := c\<rparr>) (add_results rows d)))"

definition scanDueRanges :: "cp_runtime \<Rightarrow> probe_env \<Rightarrow> scan_db \<Rightarrow> nat \<times> scan_db" where
  "scanDueRanges rtm E d =
     fold (scan_due_range rtm E) (take 4 (sort_by (\<lambda>a b. sg_created a \<le> sg_created b) (filter (range_due (cr_now rtm)) (sd_ranges d)))) (0, d)"

definition stalledLiveScanRangeIds :: "num \<Rightarrow> scan_db \<Rightarrow> string list" where
  "stalledLiveScanRangeIds now d =
     map sg_id (take 3 (sort_by (\<lambda>a b. sg_created a \<le> sg_created b)
       (filter (\<lambda>g. sg_live g \<noteq> None \<and> sg_finished g = None \<and> sg_cursor g < sg_total g \<and> rtt_or (sg_created g) (sg_last g) < now - 120000) (sd_ranges d))))"

definition healthyResolvers :: "num \<Rightarrow> string \<Rightarrow> scan_db \<Rightarrow> (string \<times> num option \<times> num) list" where
  "healthyResolvers now tenant d =
     take 20 (sort_by (\<lambda>a b. rtt_or (-1) (fst (snd a)) \<le> rtt_or (-1) (fst (snd b)))
       (map (\<lambda>r. (sr_ip r, sr_rtt r, sr_at r))
         (filter (\<lambda>r. sr_verdict r = Healthy \<and> now - 60 * 60000 \<le> sr_at r \<and>
            list_ex (\<lambda>g. sg_id g = sr_range r \<and> sg_tenant g = tenant) (sd_ranges d)) (sd_results d))))"

definition scanRangeStatus :: "string \<Rightarrow> scan_db \<Rightarrow> (string \<times> nat \<times> nat \<times> num option) list" where
  "scanRangeStatus tenant d =
     map (\<lambda>g. (sg_cidr g, sg_total g, sg_cursor g, sg_last g))
       (sort_by (\<lambda>a b. sg_created b \<le> sg_created a) (filter (\<lambda>g. sg_tenant g = tenant) (sd_ranges d)))"

definition purgeOldDnsScans :: "num \<Rightarrow> scan_db \<Rightarrow> nat \<times> scan_db" where
  "purgeOldDnsScans now d =
     (length (filter (\<lambda>r. sr_at r < now - 24 * 3600000) (sd_results d)),
      d\<lparr>sd_results := filter (\<lambda>r. \<not> sr_at r < now - 24 * 3600000) (sd_results d)\<rparr>)"

definition masterDnsSvcbContent :: "string \<Rightarrow> string" where
  "masterDnsSvcbContent workerHostname = ''1 '' @ workerHostname @ ''. alpn=h2 port=443''"

subsection \<open>The live scan\<close>

text \<open>
  One invocation of \<open>advanceLiveScan\<close> runs a tick; the next one follows through the worker's own request, or directly. Its
  error is shown in the chat and swallowed. A \<open>tick\<close> is the runtime, the network and the number of waves of one invocation.
\<close>

type_synonym tick = "cp_runtime \<times> probe_env \<times> nat"

datatype live_outcome = Chained | Finished scan_summary | Stopped exn

definition live_tick :: "string \<Rightarrow> tick \<Rightarrow> scan_db \<Rightarrow> live_outcome \<times> scan_db" where
  "live_tick rangeId = (\<lambda>(rtm, E, waves) d.
     case runScanTick rtm E waves rangeId d of
        (Inl e, d') \<Rightarrow> (Stopped e, d')
      | (Inr (fin, _), d') \<Rightarrow> (if fin then Finished (rangeRoundSummary rangeId d') else Chained, d'))"

fun advanceLiveScan :: "string \<Rightarrow> tick list \<Rightarrow> scan_db \<Rightarrow> live_outcome \<times> scan_db" where
  "advanceLiveScan rangeId [] d = (Chained, d)"
| "advanceLiveScan rangeId (t # later) d =
     (case live_tick rangeId t d of
        (Chained, d') \<Rightarrow> advanceLiveScan rangeId later d'
      | (out, d') \<Rightarrow> (out, d'))"

definition scanTickSecret :: "('a platform_scheme) \<Rightarrow> string \<Rightarrow> string" where
  "scanTickSecret P webhookSecret = cp_sha256 P (webhookSecret @ '':scan-tick'')"

definition handleScanTick :: "cp_runtime \<Rightarrow> string \<Rightarrow> tick list \<Rightarrow> request \<Rightarrow> (scan_db, response) act" where
  "handleScanTick rtm webhookSecret ticks r =
     act_seq (act_when (\<not> constantTimeEqual (cr_P rtm) (case header_of r ''x-scan-tick'' of None \<Rightarrow> [] | Some v \<Rightarrow> v)
         (scanTickSecret (cr_P rtm) webhookSecret)) (http_error 401 ''invalid_scan_tick''))
     (act_bind (act_lift (res_bind (cp_readJson r 4096) need_obj)) (\<lambda>body.
      case fld body ''rangeId'' of
        JStr rangeId \<Rightarrow>
          if rangeId = [] then act_throw invalid_input
          else act_seq (act_upd (\<lambda>d. snd (advanceLiveScan rangeId ticks d))) (act_ret (json (JObj [(''ok'', JBool True)]) 200 []))
      | _ \<Rightarrow> act_throw invalid_input))"

subsection \<open>A range is a block\<close>

lemma or_as_sum: "y < 2 ^ n \<Longrightarrow> push_bit n x OR y = x * 2 ^ n + (y :: nat)"
proof -
  assume y: "y < 2 ^ n"
  then have t: "take_bit n y = y" by (simp add: take_bit_nat_eq_self)
  have "push_bit n x AND take_bit n y = 0" by (rule bit_eqI) (auto simp: bit_simps)
  then have "push_bit n x OR y = push_bit n x + y" using disjunctive_add_eq_or [of "push_bit n x" y] t by simp
  then show ?thesis by (simp add: push_bit_eq_mult)
qed

lemma base_word:
  assumes "a < 256" "b < 256" "c < 256" "d < 256"
  shows "push_bit 24 (word_of_nat a) OR push_bit 16 (word_of_nat b) OR push_bit 8 (word_of_nat c) OR word_of_nat d = ip32 a b c d"
proof -
  have "push_bit 8 c OR d = c * 2 ^ 8 + d" using assms by (intro or_as_sum) simp
  moreover have "push_bit 16 b OR (c * 2 ^ 8 + d) = b * 2 ^ 16 + (c * 2 ^ 8 + d)" using assms by (intro or_as_sum) simp
  moreover have "push_bit 24 a OR (b * 2 ^ 16 + (c * 2 ^ 8 + d)) = a * 2 ^ 24 + (b * 2 ^ 16 + (c * 2 ^ 8 + d))"
    using assms by (intro or_as_sum) simp
  moreover have "ip_nat a b c d = a * 2 ^ 24 + (b * 2 ^ 16 + (c * 2 ^ 8 + d))" by (simp add: ip_nat_def)
  ultimately have "ip32 a b c d = of_nat (push_bit 24 a OR (push_bit 16 b OR (push_bit 8 c OR d)))" by (simp add: ip32_def)
  then show ?thesis by (simp only: of_nat_or_eq push_bit_of_nat or.assoc)
qed

lemma unat_field: "n < 2 ^ 32 \<Longrightarrow> unat (drop_bit k (word_of_nat n :: 32 word) AND 255) = n div 2 ^ k mod 256"
proof -
  assume n: "n < 2 ^ 32"
  have m: "(255 :: 32 word) = mask 8" by (simp add: mask_eq_exp_minus_1)
  show ?thesis unfolding m take_bit_eq_mask [symmetric]
    by (simp only: unsigned_take_bit_eq unat_drop_bit_eq)
      (use n in \<open>simp add: drop_bit_eq_div take_bit_eq_mod unsigned_of_nat take_bit_nat_eq_self\<close>)
qed

lemma ip_text_of:
  assumes "a < 256" "b < 256" "c < 256" "d < 256"
  shows "ip_text (word_of_nat (ip_nat a b c d)) = dotted_quad a b c d"
proof -
  let ?n = "ip_nat a b c d"
  have n: "?n < 2 ^ 32" using assms by (simp add: ip_nat_def)
  note d = ip_digits [OF assms(2-4), of a]
  have "?n mod 256 = d" using assms(4) by (simp only: ip_nat_def mod_mult_self3 mod_less)
  moreover have "?n div 256 mod 256 = c" "?n div 65536 mod 256 = b" "?n div 16777216 mod 256 = a"
    using assms(1-3) by (simp_all only: d(1-3) mod_mult_self3 mod_less)
  ultimately show ?thesis
    using unat_field [OF n, of 24] unat_field [OF n, of 16] unat_field [OF n, of 8] unat_field [OF n, of 0]
    by (simp add: ip_text_def dotted_quad_def)
qed

lemma aligned_word:
  assumes "a < 256" "b < 256" "c < 256" "d < 256" and p: "24 \<le> p" "p \<le> 32" and k: "k < 2 ^ (32 - p)"
  shows "range_base [a, b, c, d] p + word_of_nat k = word_of_nat (ip_nat a b c (d div 2 ^ (32 - p) * 2 ^ (32 - p) + k))"
    and "d div 2 ^ (32 - p) * 2 ^ (32 - p) + k < 256"
proof -
  define s where "s = 32 - p"
  let ?q = "2 ^ s :: nat"
  have s: "s \<le> 8" using p by (simp add: s_def)
  have e: "(256 :: nat) = 2 ^ (8 - s) * ?q" using s by (simp add: power_add [symmetric])
  let ?m = "(a * 256 + b) * 256 + c"
  have n: "ip_nat a b c d div ?q = ?m * 2 ^ (8 - s) + d div ?q"
  proof -
    have "ip_nat a b c d = d + ?m * 2 ^ (8 - s) * ?q" using e by (simp add: ip_nat_def mult.assoc)
    then show ?thesis by simp
  qed
  have q: "ip_nat a b c d div ?q * ?q + k = ip_nat a b c (d div ?q * ?q + k)"
  proof -
    have "(?m * 2 ^ (8 - s) + d div ?q) * ?q + k = ?m * (2 ^ (8 - s) * ?q) + (d div ?q * ?q + k)"
      by (simp only: distrib_right mult.assoc add.assoc)
    then show ?thesis using n e by (simp only: ip_nat_def)
  qed
  have "range_base [a, b, c, d] p = push_bit s (drop_bit s (ip32 a b c d))"
    using base_word [OF assms(1-4)] by (simp add: range_base_def s_def numeral_eq_Suc)
  also have "\<dots> = word_of_nat (ip_nat a b c d div ?q * ?q)"
  proof -
    have "ip_nat a b c d < 2 ^ 32" using assms by (simp add: ip_nat_def)
    then have "drop_bit s (ip32 a b c d) = word_of_nat (ip_nat a b c d div ?q)"
      unfolding word_unat_eq_iff unat_drop_bit_eq
      by (simp add: ip32_def drop_bit_eq_div unsigned_of_nat take_bit_nat_eq_self le_less_trans [OF div_le_dividend])
    then show ?thesis by (simp add: push_bit_of_nat push_bit_eq_mult)
  qed
  finally show "range_base [a, b, c, d] p + word_of_nat k = word_of_nat (ip_nat a b c (d div 2 ^ (32 - p) * 2 ^ (32 - p) + k))"
    using q unfolding s_def [symmetric] by (metis of_nat_add)
  have "d div ?q < 2 ^ (8 - s)" using assms(4) e by (metis less_mult_imp_div_less)
  then have "Suc (d div ?q) * ?q \<le> 2 ^ (8 - s) * ?q" by (intro mult_right_mono) simp_all
  then show "d div 2 ^ (32 - p) * 2 ^ (32 - p) + k < 256" using e k unfolding s_def [symmetric] by simp
qed

lemma cidr_match_parts:
  assumes "cidr_match raw = Some (os, p)"
  obtains a b c d where "os = [a, b, c, d]"
  using assms by (auto simp: cidr_match_def Let_def length_Suc_conv numeral_eq_Suc split: prod.splits option.splits if_splits)

definition block_from :: "nat \<Rightarrow> nat \<Rightarrow> nat \<Rightarrow> nat \<Rightarrow> nat \<Rightarrow> string list" where
  "block_from a b c d n = map (\<lambda>k. dotted_quad a b c (d + k)) [0..<n]"

lemma parseCidr_blocks:
  assumes "parseCidr s = Some (cidr, ips)"
  obtains a b c d p where "a < 256" "b < 256" "c < 256" "d < 256" "24 \<le> p" "p \<le> 32"
    "cidr_match (trim s) = Some ([a, b, c, d], p)"
    "ips = block_from a b c (d div 2 ^ (32 - p) * 2 ^ (32 - p)) (2 ^ (32 - p))" "cidr = hd ips @ ''/'' @ show_nat p"
proof -
  from assms obtain os p where m: "cidr_match (trim s) = Some (os, p)" and le: "\<not> list_ex (\<lambda>n. 255 < n) os" and p: "24 \<le> p" "p \<le> 32"
    and ips: "ips = map (\<lambda>k. ip_text (range_base os p + word_of_nat k)) [0..<2 ^ (32 - p)]" and cidr: "cidr = ips ! 0 @ ''/'' @ show_nat p"
    by (auto simp: parseCidr_def Let_def DNS_SCAN_MIN_PREFIX_def not_less split: option.splits prod.splits if_splits)
  from cidr_match_parts [OF m] obtain a b c d where os: "os = [a, b, c, d]" .
  have lt: "a < 256" "b < 256" "c < 256" "d < 256" using le os by auto
  have "ips = block_from a b c (d div 2 ^ (32 - p) * 2 ^ (32 - p)) (2 ^ (32 - p))"
    unfolding ips block_from_def os
    by (rule map_cong [OF refl]) (use aligned_word [OF lt p] ip_text_of lt in auto)
  moreover have "ips \<noteq> []" by (simp add: ips)
  ultimately show thesis using that [OF lt p] m os cidr by (simp add: hd_conv_nth)
qed

lemma split_slash: "CHR ''/'' \<notin> set h \<Longrightarrow> CHR ''/'' \<notin> set p \<Longrightarrow> split_on CHR ''/'' (h @ CHR ''/'' # p) = [h, p]"
  using split_on_append [of "CHR ''/''" h p] by (simp add: split_on_no_sep)

lemma set_show_nat: "c \<in> set (show_nat n) \<Longrightarrow> is_digit c"
  using show_nat_digits [of n] by (auto simp: list_all_iff)

lemma octet_digits_show: "n < 256 \<Longrightarrow> octet_digits (show_nat n)"
proof -
  assume n: "n < 256"
  have "length (show_nat n) \<le> 3"
    using n by (subst show_nat.simps, auto, subst show_nat.simps, auto, subst show_nat.simps, auto)
  moreover have "1 \<le> length (show_nat n)" using show_nat_not_Nil [of n] by (cases "show_nat n") (simp_all del: show_nat_not_Nil)
  ultimately show ?thesis using show_nat_digits by (simp add: octet_digits_def)
qed

lemma set_dotted_quad: "x \<in> set (dotted_quad a b c d) \<Longrightarrow> is_digit x \<or> x = CHR ''.''"
  by (auto simp: dotted_quad_def dest: set_show_nat)

lemma parse_written_range:
  assumes "a < 256" "b < 256" "c < 256" "d < 256" "24 \<le> p" "p \<le> 32"
  shows "parseCidr (dotted_quad a b c d @ ''/'' @ show_nat p) =
    (let ips = block_from a b c (d div 2 ^ (32 - p) * 2 ^ (32 - p)) (2 ^ (32 - p)) in Some (hd ips @ ''/'' @ show_nat p, ips))"
proof -
  let ?s = "dotted_quad a b c d @ ''/'' @ show_nat p"
  have "list_all (\<lambda>x. \<not> is_ws x) ?s"
    by (auto simp: list_all_iff is_ws_def is_digit_def Let_def dest!: set_dotted_quad set_show_nat)
  then have "trim ?s = ?s" by (rule trim_no_ws)
  moreover have "CHR ''/'' \<notin> set (dotted_quad a b c d)" "CHR ''/'' \<notin> set (show_nat p)"
    by (auto simp: is_digit_def dest!: set_dotted_quad set_show_nat)
  moreover have "length (show_nat p) \<le> 2" "1 \<le> length (show_nat p)" "list_all is_digit (show_nat p)"
    using assms(5-6) show_nat_digits [of p] by (subst show_nat.simps, auto, subst show_nat.simps, auto, subst show_nat.simps, auto)
  ultimately have m: "cidr_match (trim ?s) = Some ([a, b, c, d], p)"
    using assms by (simp add: cidr_match_def split_slash split_dotted_quad octet_digits_show nat_of_digits_show_nat)
  have "parseCidr ?s \<noteq> None" using m assms by (simp add: parseCidr_def Let_def DNS_SCAN_MIN_PREFIX_def)
  then obtain cidr ips where e: "parseCidr ?s = Some (cidr, ips)" by force
  from parseCidr_blocks [OF e] m e show ?thesis by (smt (verit) Let_def list.inject option.inject prod.inject)
qed

text \<open>
  Ranges. An accepted range is the aligned block of at most 256 addresses around the written one: it starts with the
  host bits cleared, runs without gap or repetition, and contains the written address. The canonical text that is stored
  parses to exactly the same addresses, so every later tick of a scan works on the list the first one had.
\<close>

theorem parseCidr_block:
  assumes "parseCidr s = Some (cidr, ips)"
  shows "parseCidr cidr = Some (cidr, ips) \<and> distinct ips \<and>
    (\<exists>a b c d p. a < 256 \<and> b < 256 \<and> c < 256 \<and> d < 256 \<and> 24 \<le> p \<and> p \<le> 32 \<and> length ips = 2 ^ (32 - p) \<and>
       cidr_match (trim s) = Some ([a, b, c, d], p) \<and> dotted_quad a b c d \<in> set ips \<and>
       (\<forall>k < length ips. ips ! k = dotted_quad a b c (d div 2 ^ (32 - p) * 2 ^ (32 - p) + k)))"
proof -
  from parseCidr_blocks [OF assms] obtain a b c d p where
    lt: "a < 256" "b < 256" "c < 256" "d < 256" and p: "24 \<le> p" "p \<le> 32" and m: "cidr_match (trim s) = Some ([a, b, c, d], p)"
    and ips: "ips = block_from a b c (d div 2 ^ (32 - p) * 2 ^ (32 - p)) (2 ^ (32 - p))" and cidr: "cidr = hd ips @ ''/'' @ show_nat p" .
  let ?q = "2 ^ (32 - p) :: nat"
  have h: "hd ips = dotted_quad a b c (d div ?q * ?q)" by (simp add: ips block_from_def hd_map upt_rec)
  have "d div ?q * ?q < 256" using lt(4) by (meson div_times_less_eq_dividend le_less_trans)
  from parse_written_range [OF lt(1-3) this p] have re: "parseCidr cidr = Some (cidr, ips)"
    unfolding cidr h by (simp add: Let_def ips [symmetric] h [unfolded ips] flip: h)
  have "d div ?q * ?q + d mod ?q = d" by (rule div_mult_mod_eq)
  then have "dotted_quad a b c d = ips ! (d mod ?q)" by (simp add: ips block_from_def)
  then have "dotted_quad a b c d \<in> set ips" by (simp add: ips block_from_def)
  moreover have "distinct ips" by (auto simp: ips block_from_def distinct_map inj_on_def dest!: dotted_quad_inj)
  moreover have "length ips = ?q" "\<forall>k < length ips. ips ! k = dotted_quad a b c (d div ?q * ?q + k)" by (simp_all add: ips block_from_def)
  ultimately show ?thesis using re lt p m by blast
qed

theorem parseCidr_block_witness:
  "\<exists>ips. parseCidr '' 178.22.122.9/30'' = Some (''178.22.122.8/30'', ips) \<and> parseCidr ''178.22.122.8/30'' = Some (''178.22.122.8/30'', ips) \<and>
     length ips = 4 \<and> ips ! 3 = ''178.22.122.11''"
proof -
  have "parseCidr '' 178.22.122.9/30'' = Some (''178.22.122.8/30'', [''178.22.122.8'', ''178.22.122.9'', ''178.22.122.10'', ''178.22.122.11''])"
    by code_simp
  from parseCidr_block [OF this] this show ?thesis by auto
qed

subsection \<open>Responses are read\<close>

definition rr_bytes :: "nat \<times> byte list \<Rightarrow> byte list" where
  "rr_bytes = (\<lambda>(rtype, data). [0xC0, 0x0C] @ word16 rtype @ word16 1 @ replicate 4 0 @ word16 (length data) @ data)"

text \<open>A server's answer to the query: its first twelve bytes and question, and records that point back to the question.\<close>

definition dns_response :: "string \<Rightarrow> nat \<Rightarrow> nat \<Rightarrow> (nat \<times> byte list) list \<Rightarrow> byte list" where
  "dns_response name qtype rcode rrs =
     word16 0x1356 @ [0x81, word_of_nat rcode] @ word16 1 @ word16 (length rrs) @ replicate 4 0 @
     drop 12 (encodeDnsQuery name qtype) @ concat (map rr_bytes rrs)"

lemma get16_word16: "n < 65536 \<Longrightarrow> length xs = i \<Longrightarrow> get16 i (xs @ word16 n @ ys) = n"
  by (simp add: get16_def word16_def nth_append unsigned_of_nat take_bit_nat_def)

lemma length_word16 [simp]: "length (word16 n) = 2"
  by (simp add: word16_def)

definition plain_name :: "string \<Rightarrow> bool" where
  "plain_name name \<longleftrightarrow> (\<forall>l \<in> set (split_on CHR ''.'' name). length l < 64)"

lemma small_label: "n < 64 \<Longrightarrow> 0 < n \<Longrightarrow> (word_of_nat n :: byte) \<noteq> 0 \<and> (word_of_nat n :: byte) AND 0xC0 \<noteq> 0xC0 \<and> unat (word_of_nat n :: byte) = n"
proof -
  assume n: "n < 64" "0 < n"
  then have u: "unat (word_of_nat n :: byte) = n" by (simp add: unsigned_of_nat take_bit_nat_eq_self)
  then have "(word_of_nat n :: byte) \<noteq> 0" using n(2) by (metis unat_0 less_irrefl)
  moreover have "\<not> bit (word_of_nat n :: byte) 7"
  proof -
    have "n div 2 ^ 7 = 0" using n by simp
    then have "\<not> bit (unat (word_of_nat n :: byte)) 7" unfolding u by (simp add: bit_iff_odd)
    then show ?thesis by (simp add: bit_unsigned_iff)
  qed
  moreover have "bit (0xC0 :: byte) 7" by (simp add: bit_numeral_rec)
  ultimately show ?thesis using u by (metis bit_and_iff)
qed

lemma skip_labels:
  "list_all (\<lambda>l. l \<noteq> [] \<and> length l < 64) ls \<Longrightarrow> skip_question_name (concat (map label_bytes ls) @ 0 # rest) = rest"
proof (induction ls)
  case (Cons l ls)
  then have "skip_question_name (concat (map label_bytes (l # ls)) @ 0 # rest) =
      skip_question_name (drop (length l) (map char_byte l @ concat (map label_bytes ls) @ 0 # rest))"
    using small_label [of "length l"] by (simp add: label_bytes_def)
  with Cons show ?case by simp
qed simp

definition address_data :: "nat \<times> byte list \<Rightarrow> bool" where
  "address_data = (\<lambda>(rtype, data). rtype = 1 \<and> length data = 4)"

lemma pointer_high: "(0xC0 :: byte) AND 0xC0 \<noteq> 0"
  by simp

lemma read_record:
  assumes "rtype < 65536" "length data < 65536"
  shows "read_answers (Suc n) (rr_bytes (rtype, data) @ rest) =
    (if address_data (rtype, data) then [quad_text data] else []) @ read_answers n rest"
proof -
  define r where "r = word16 rtype @ word16 1 @ replicate 4 0 @ word16 (length data) @ data @ rest"
  have e: "rr_bytes (rtype, data) @ rest = 0xC0 # 0x0C # r" by (simp add: rr_bytes_def r_def)
  have "length r = 10 + length data + length rest" by (simp add: r_def)
  moreover have "get16 0 r = rtype" using get16_word16 [OF assms(1), of "[]" 0] by (simp add: r_def)
  moreover have "get16 8 r = length data"
    using get16_word16 [OF assms(2), of "word16 rtype @ word16 1 @ replicate 4 0" 8] by (simp add: r_def)
  moreover have "drop 10 r = data @ rest" by (simp add: r_def)
  ultimately show ?thesis by (simp add: e skip_answer_name_def Let_def address_data_def)
qed

lemma read_records:
  "list_all (\<lambda>(rtype, data). rtype < 65536 \<and> length data < 65536) rrs \<Longrightarrow>
   read_answers (length rrs) (concat (map rr_bytes rrs)) = map (quad_text \<circ> snd) (filter address_data rrs)"
  by (induction rrs) (auto simp: read_record simp del: read_answers.simps(2))

text \<open>
  Reading a response. For every name whose labels have at most 63 characters, every code, question type and
  sequence of records - addresses or any other type, in any order - the parser returns the code and exactly the addresses of the
  A records, in the order of the response.
\<close>

theorem parseDnsResponse_reads:
  assumes "plain_name name" and "rcode < 16" and "length rrs < 65536"
    and "list_all (\<lambda>(rtype, data). rtype < 65536 \<and> length data < 65536) rrs"
  shows "parseDnsResponse (dns_response name qtype rcode rrs) = (rcode, map (quad_text \<circ> snd) (filter address_data rrs))"
proof -
  define ls where "ls = filter (\<lambda>l. l \<noteq> []) (split_on CHR ''.'' name)"
  define tail where "tail = concat (map rr_bytes rrs)"
  have body: "drop 12 (encodeDnsQuery name qtype) = concat (map label_bytes ls) @ 0 # word16 qtype @ word16 1"
    by (simp add: encodeDnsQuery_def ls_def)
  define head where "head = word16 0x1356 @ [0x81, word_of_nat rcode] @ word16 1 @ word16 (length rrs) @ replicate 4 0"
  have e: "dns_response name qtype rcode rrs = head @ concat (map label_bytes ls) @ 0 # word16 qtype @ word16 1 @ tail"
    by (simp add: dns_response_def body head_def tail_def)
  let ?w = "dns_response name qtype rcode rrs"
  have "list_all (\<lambda>l. l \<noteq> [] \<and> length l < 64) ls" using assms(1) by (auto simp: plain_name_def ls_def list_all_iff)
  then have q: "skip_question (drop 12 ?w) = tail" by (simp add: e skip_question_def skip_labels head_def)
  have "get16 4 ?w = 1" using get16_word16 [of 1 "word16 0x1356 @ [0x81, word_of_nat rcode]" 4] by (simp add: e head_def)
  moreover have "get16 6 ?w = length rrs"
    using get16_word16 [OF assms(3), of "word16 0x1356 @ [0x81, word_of_nat rcode] @ word16 1" 6] by (simp add: e head_def)
  moreover have "?w ! 3 = word_of_nat rcode" by (simp add: e head_def word16_def)
  moreover have "unat (word_of_nat rcode AND 0x0F :: byte) = rcode"
  proof -
    have "(0x0F :: byte) = mask 4" by (simp add: mask_eq_exp_minus_1)
    then show ?thesis using assms(2)
      by (simp only: take_bit_eq_mask [symmetric] unsigned_take_bit_eq unsigned_of_nat) (simp add: take_bit_nat_eq_self)
  qed
  moreover have "12 \<le> length ?w" by (simp add: e head_def)
  moreover have "read_answers (length rrs) tail = map (quad_text \<circ> snd) (filter address_data rrs)"
    using read_records [OF assms(4)] by (simp add: tail_def)
  ultimately show ?thesis using q by (simp add: parseDnsResponse_def)
qed

theorem parseDnsResponse_reads_witness:
  "parseDnsResponse (dns_response ''cloudflare-dns.com'' 1 0 [(5, [1, 97, 0]), (1, [1, 1, 1, 1]), (1, [1, 0, 0, 1])]) =
     (0, [''1.1.1.1'', ''1.0.0.1''])"
  by (subst parseDnsResponse_reads)
    (simp_all add: plain_name_def address_data_def quad_text_def show_nat.simps digit_char_def char_of_def bit_0)

subsection \<open>A live scan finishes\<close>

definition probed :: "string \<Rightarrow> tick set \<Rightarrow> string list \<Rightarrow> scan_result list \<Rightarrow> bool" where
  "probed rangeId T ips rs \<longleftrightarrow> map sr_ip rs = ips \<and> (\<forall>r \<in> set rs. \<exists>(rtm, E, w) \<in> T. r = probe_row rtm E rangeId (sr_ip r))"

definition apart_from :: "string \<Rightarrow> scan_db \<Rightarrow> scan_range list \<times> scan_result list" where
  "apart_from i d = (filter (\<lambda>g. sg_id g \<noteq> i) (sd_ranges d), filter (\<lambda>r. sr_range r \<noteq> i) (sd_results d))"

definition range_at :: "string \<Rightarrow> scan_db \<Rightarrow> scan_range option" where
  "range_at i d = find (\<lambda>g. sg_id g = i) (sd_ranges d)"

lemma range_at_set: "(\<And>g. sg_id (f g) = sg_id g) \<Longrightarrow> range_at i (set_range i f d) = map_option f (range_at i d)"
proof -
  assume f: "\<And>g. sg_id (f g) = sg_id g"
  have "find (\<lambda>g. sg_id g = i) (map (\<lambda>g. if sg_id g = i then f g else g) gs) = map_option f (find (\<lambda>g. sg_id g = i) gs)" for gs
    by (induction gs) (auto simp: f)
  then show ?thesis by (simp add: range_at_def set_range_def)
qed

lemma apart_set [simp]: "(\<And>g. sg_id (f g) = sg_id g) \<Longrightarrow> apart_from i (set_range i f d) = apart_from i d"
  by (auto simp: apart_from_def set_range_def filter_map comp_def intro!: map_idI)

lemma results_add [simp]: "results_of i (add_results rs d) = results_of i d @ filter (\<lambda>r. sr_range r = i) rs"
  by (simp add: results_of_def add_results_def)

lemma results_set [simp]: "results_of i (set_range j f d) = results_of i d"
  by (simp add: results_of_def set_range_def)

lemma range_at_add [simp]: "range_at i (add_results rs d) = range_at i d"
  by (simp add: range_at_def add_results_def)

lemma apart_add [simp]: "list_all (\<lambda>r. sr_range r = i) rs \<Longrightarrow> apart_from i (add_results rs d) = apart_from i d"
  by (auto simp: apart_from_def add_results_def list_all_iff filter_empty_conv)

lemma count_row_stored:
  "count_row r (stored_progress c n rs) = stored_progress (Suc c) n (rs @ [r])"
  by (cases "sr_verdict r") (simp_all add: count_row_def stored_progress_def verdicts_def Let_def)

lemma count_rows_stored: "fold count_row qs (stored_progress c n rs) = stored_progress (c + length qs) n (rs @ qs)"
  by (induction qs arbitrary: c rs) (simp_all add: count_row_stored)

lemma verdicts_sum: "verdicts Healthy rs + verdicts Fake rs + verdicts Wrong rs + verdicts Unreachable rs = length rs"
proof (induction rs)
  case (Cons r rs)
  then show ?case by (cases "sr_verdict r") (simp_all add: verdicts_def)
qed (simp add: verdicts_def)

lemma scan_waves_probes:
  assumes "probed i T (take c ips) (results_of i d)" and "c \<le> length ips" and "(rtm, E, w) \<in> T"
    and "range_at i d = Some g" and "sg_cursor g = c"
    and "scan_waves n rtm E i ips c (stored_progress c (length ips) (results_of i d)) d = (c', p', d')"
  shows "c' = min (length ips) (c + 16 * n) \<and> probed i T (take c' ips) (results_of i d') \<and> apart_from i d' = apart_from i d \<and>
    p' = stored_progress c' (length ips) (results_of i d') \<and>
    (\<exists>g'. range_at i d' = Some g' \<and> sg_cursor g' = c' \<and> sg_cidr g' = sg_cidr g)"
  using assms
proof (induction n arbitrary: c d g)
  case (Suc n)
  show ?case
  proof (cases "c < length ips")
    case False
    with Suc.prems show ?thesis by auto
  next
    case True
    define rows where "rows = map (probe_row rtm E i) (take 16 (drop c ips))"
    define c1 where "c1 = c + length rows"
    define d1 where "d1 = set_range i (\<lambda>g. g\<lparr>sg_cursor := c1, sg_last := Some (cr_now rtm)\<rparr>) (add_results rows d)"
    have own: "filter (\<lambda>r. sr_range r = i) rows = rows" "list_all (\<lambda>r. sr_range r = i) rows"
      by (simp_all add: rows_def probe_row_def list_all_iff)
    have r1: "results_of i d1 = results_of i d @ rows" by (simp add: d1_def own)
    have "length rows = min (length ips - c) 16" by (simp add: rows_def min.commute)
    with True have c1: "c1 = min (length ips) (c + 16)" unfolding c1_def by linarith
    have "take c ips @ map sr_ip rows = take c1 ips"
    proof -
      have "map sr_ip rows = take 16 (drop c ips)" by (simp add: rows_def comp_def probe_row_def)
      then show ?thesis using c1 by (metis take_add min.commute take_take take_all_iff min_def nle_le)
    qed
    moreover have "\<forall>r \<in> set rows. \<exists>(rtm, E, w) \<in> T. r = probe_row rtm E i (sr_ip r)"
      unfolding rows_def using Suc.prems(3) by (auto simp: probe_row_def intro!: bexI [of _ "(rtm, E, w)"])
    ultimately have "probed i T (take c1 ips) (results_of i d1)"
      using Suc.prems(1) unfolding r1 probed_def by (simp add: ball_Un)
    note probed1 = this
    have range1: "range_at i d1 = Some (g\<lparr>sg_cursor := c1, sg_last := Some (cr_now rtm)\<rparr>)"
      using Suc.prems(4) by (simp add: d1_def range_at_set)
    have run1: "scan_waves n rtm E i ips c1 (stored_progress c1 (length ips) (results_of i d1)) d1 = (c', p', d')"
      using Suc.prems(6) True
      by (simp add: scan_wave_def Let_def rows_def [symmetric] c1_def [symmetric] d1_def [symmetric] count_rows_stored r1)
    have "c1 \<le> length ips" using c1 by simp
    define g1 where "g1 = g\<lparr>sg_cursor := c1, sg_last := Some (cr_now rtm)\<rparr>"
    have g1: "sg_cursor g1 = c1" "sg_cidr g1 = sg_cidr g" by (simp_all add: g1_def)
    have ih: "c' = min (length ips) (c1 + 16 * n) \<and> probed i T (take c' ips) (results_of i d') \<and> apart_from i d' = apart_from i d1 \<and>
      p' = stored_progress c' (length ips) (results_of i d') \<and>
      (\<exists>g'. range_at i d' = Some g' \<and> sg_cursor g' = c' \<and> sg_cidr g' = sg_cidr g)"
      using Suc.IH [OF probed1 \<open>c1 \<le> length ips\<close> Suc.prems(3) range1 [folded g1_def] g1(1) run1] unfolding g1(2) .
    have a1: "apart_from i d1 = apart_from i d" by (simp add: d1_def own)
    have m: "min (length ips) (c1 + 16 * n) = min (length ips) (c + 16 * Suc n)"
      unfolding c1 by (cases "length ips \<le> c + 16") (auto simp: min_def)
    show ?thesis using ih unfolding a1 m .
  qed
qed auto

lemma live_tick_step:
  assumes "range_at i d = Some g" and "parseCidr (sg_cidr g) = Some (c, ips)" and "sg_cursor g < length ips"
    and "sg_cursor g \<noteq> 0 \<Longrightarrow> probed i T (take (sg_cursor g) ips) (results_of i d)"
    and "(rtm, E, w) \<in> T" and "0 < w"
  shows "\<exists>d' k. probed i T (take k ips) (results_of i d') \<and> apart_from i d' = apart_from i d \<and>
    (if k = length ips
     then live_tick i (rtm, E, w) d = (Finished (rangeRoundSummary i d'), d') \<and>
       (\<exists>g'. range_at i d' = Some g' \<and> sg_cursor g' = 0 \<and> sg_finished g' = Some (cr_now rtm))
     else live_tick i (rtm, E, w) d = (Chained, d') \<and> sg_cursor g + 16 \<le> k \<and> k < length ips \<and>
       (\<exists>g'. range_at i d' = Some g' \<and> sg_cursor g' = k \<and> sg_cidr g' = sg_cidr g))"
proof -
  let ?c = "sg_cursor g"
  define e where "e = (if ?c = 0 then drop_results i d else d)"
  have e: "probed i T (take ?c ips) (results_of i e)"
    using assms(4) by (auto simp: e_def probed_def results_of_def drop_results_def filter_empty_conv)
  have re: "range_at i e = Some g" using assms(1) by (auto simp: e_def range_at_def drop_results_def)
  have ae: "apart_from i e = apart_from i d" by (auto simp: e_def apart_from_def drop_results_def)
  obtain k p d1 where run: "scan_waves w rtm E i ips ?c (stored_progress ?c (length ips) (results_of i e)) e = (k, p, d1)"
    by (metis prod_cases3)
  from scan_waves_probes [OF e less_imp_le [OF assms(3)] assms(5) re refl run]
  have k: "k = min (length ips) (?c + 16 * w)" and p1: "probed i T (take k ips) (results_of i d1)" and a1: "apart_from i d1 = apart_from i d"
    and g1: "\<exists>g'. range_at i d1 = Some g' \<and> sg_cursor g' = k \<and> sg_cidr g' = sg_cidr g" using ae by auto
  have tick: "runScanTick rtm E w i d =
    (if length ips \<le> k
     then (Inr (True, p), set_range i (\<lambda>g. g\<lparr>sg_cursor := 0, sg_finished := Some (cr_now rtm), sg_last := Some (cr_now rtm)\<rparr>) d1)
     else (Inr (False, p), d1))"
    using assms(1-2) run by (simp add: runScanTick_def act_unfold range_at_def e_def split: if_splits)
  show ?thesis
  proof (cases "k = length ips")
    case True
    define d2 where "d2 = set_range i (\<lambda>g. g\<lparr>sg_cursor := 0, sg_finished := Some (cr_now rtm), sg_last := Some (cr_now rtm)\<rparr>) d1"
    have "probed i T (take k ips) (results_of i d2)" "apart_from i d2 = apart_from i d" using p1 a1 by (simp_all add: d2_def)
    moreover have "\<exists>g'. range_at i d2 = Some g' \<and> sg_cursor g' = 0 \<and> sg_finished g' = Some (cr_now rtm)"
      using g1 by (auto simp: d2_def range_at_set)
    moreover have "live_tick i (rtm, E, w) d = (Finished (rangeRoundSummary i d2), d2)" using tick True by (simp add: live_tick_def d2_def)
    ultimately show ?thesis using True by (intro exI [of _ d2] exI [of _ k]) simp
  next
    case False
    then have "live_tick i (rtm, E, w) d = (Chained, d1)" "?c + 16 \<le> k" "k < length ips"
      using tick k assms(6) by (auto simp: live_tick_def)
    then show ?thesis using p1 a1 g1 False by (intro exI [of _ d1] exI [of _ k]) simp
  qed
qed

lemma advance_from:
  assumes "range_at i d = Some g" and "parseCidr (sg_cidr g) = Some (c, ips)" and "sg_cursor g < length ips"
    and "sg_cursor g \<noteq> 0 \<Longrightarrow> probed i T (take (sg_cursor g) ips) (results_of i d)"
    and "set ticks \<subseteq> T" and "\<forall>(rtm, E, w) \<in> set ticks. 0 < w" and "length ips \<le> sg_cursor g + 16 * length ticks"
  shows "\<exists>d'. advanceLiveScan i ticks d = (Finished (rangeRoundSummary i d'), d') \<and> probed i T ips (results_of i d') \<and>
    apart_from i d' = apart_from i d \<and> (\<exists>g'. range_at i d' = Some g' \<and> sg_cursor g' = 0 \<and> sg_finished g' \<noteq> None)"
  using assms
proof (induction ticks arbitrary: d g)
  case (Cons t ticks)
  obtain rtm E w where t: "t = (rtm, E, w)" by (cases t)
  have T: "(rtm, E, w) \<in> T" "0 < w" using Cons.prems(5,6) by (auto simp: t)
  from live_tick_step [OF Cons.prems(1-4) T] obtain d' k where
    d': "probed i T (take k ips) (results_of i d')" "apart_from i d' = apart_from i d" and
    step: "if k = length ips
     then live_tick i (rtm, E, w) d = (Finished (rangeRoundSummary i d'), d') \<and>
       (\<exists>g'. range_at i d' = Some g' \<and> sg_cursor g' = 0 \<and> sg_finished g' = Some (cr_now rtm))
     else live_tick i (rtm, E, w) d = (Chained, d') \<and> sg_cursor g + 16 \<le> k \<and> k < length ips \<and>
       (\<exists>g'. range_at i d' = Some g' \<and> sg_cursor g' = k \<and> sg_cidr g' = sg_cidr g)" by blast
  show ?case
  proof (cases "k = length ips")
    case True
    with d' step show ?thesis by (auto simp: t)
  next
    case False
    with step obtain g' where g': "range_at i d' = Some g'" "sg_cursor g' = k" "sg_cidr g' = sg_cidr g"
      and tick: "live_tick i (rtm, E, w) d = (Chained, d')" and k: "sg_cursor g + 16 \<le> k" "k < length ips" by auto
    have "\<exists>d''. advanceLiveScan i ticks d' = (Finished (rangeRoundSummary i d''), d'') \<and> probed i T ips (results_of i d'') \<and>
      apart_from i d'' = apart_from i d' \<and> (\<exists>g''. range_at i d'' = Some g'' \<and> sg_cursor g'' = 0 \<and> sg_finished g'' \<noteq> None)"
      using Cons.prems(2,5-7) d'(1) g' k by (intro Cons.IH [of d' g']) auto
    then show ?thesis using d'(2) tick by (simp add: t)
  qed
qed simp

text \<open>
  C31. A live scan finishes. From a range whose cursor is at the start, ticks that each fit at least one wave reach the
  end of the range, whatever sockets and clocks the ticks meet and whatever an earlier round had stored: the stored round has one row
  per address, in order, each the verdict of a real probe of that address; the four counts of the final card add up to the size
  of the range; the cursor is back at the start; and other ranges and their results are as before.
\<close>

theorem live_scan_finishes:
  assumes "find (\<lambda>g. sg_id g = i) (sd_ranges d) = Some g" and "parseCidr (sg_cidr g) = Some (c, ips)" and "sg_cursor g = 0"
    and "\<forall>(rtm, E, w) \<in> set ticks. 0 < w" and "length ips \<le> 16 * length ticks"
  shows "\<exists>s d'. advanceLiveScan i ticks d = (Finished s, d') \<and> map sr_ip (results_of i d') = ips \<and>
    (\<forall>r \<in> set (results_of i d'). \<exists>(rtm, E, w) \<in> set ticks. r = probe_row rtm E i (sr_ip r)) \<and>
    su_total s = length ips \<and> su_healthy s + su_fake s + su_wrong s + su_unreachable s = length ips \<and>
    (\<exists>g'. find (\<lambda>g. sg_id g = i) (sd_ranges d') = Some g' \<and> sg_cursor g' = 0 \<and> sg_finished g' \<noteq> None) \<and>
    filter (\<lambda>g. sg_id g \<noteq> i) (sd_ranges d') = filter (\<lambda>g. sg_id g \<noteq> i) (sd_ranges d) \<and>
    filter (\<lambda>r. sr_range r \<noteq> i) (sd_results d') = filter (\<lambda>r. sr_range r \<noteq> i) (sd_results d)"
proof -
  have "0 < length ips" by (rule parseCidr_blocks [OF assms(2)]) (simp add: block_from_def)
  then have "\<exists>d'. advanceLiveScan i ticks d = (Finished (rangeRoundSummary i d'), d') \<and> probed i (set ticks) ips (results_of i d') \<and>
    apart_from i d' = apart_from i d \<and> (\<exists>g'. range_at i d' = Some g' \<and> sg_cursor g' = 0 \<and> sg_finished g' \<noteq> None)"
    using assms by (intro advance_from [of i d g c ips "set ticks" ticks]) (auto simp: range_at_def)
  then obtain d' where run: "advanceLiveScan i ticks d = (Finished (rangeRoundSummary i d'), d')" and p: "probed i (set ticks) ips (results_of i d')"
    and a: "apart_from i d' = apart_from i d" and g': "\<exists>g'. range_at i d' = Some g' \<and> sg_cursor g' = 0 \<and> sg_finished g' \<noteq> None" by blast
  from p have n: "length (results_of i d') = length ips" by (metis length_map probed_def)
  define s where "s = rangeRoundSummary i d'"
  have "su_total s = length ips" "su_healthy s + su_fake s + su_wrong s + su_unreachable s = length ips"
    using verdicts_sum [of "results_of i d'"] n by (simp_all only: s_def rangeRoundSummary_def Let_def scan_summary.select_convs)
  moreover have "filter (\<lambda>g. sg_id g \<noteq> i) (sd_ranges d') = filter (\<lambda>g. sg_id g \<noteq> i) (sd_ranges d)"
    "filter (\<lambda>r. sr_range r \<noteq> i) (sd_results d') = filter (\<lambda>r. sr_range r \<noteq> i) (sd_results d)"
    using a by (simp_all add: apart_from_def)
  moreover note run [folded s_def] p [unfolded probed_def, THEN conjunct1] p [unfolded probed_def, THEN conjunct2] g' [unfolded range_at_def]
  ultimately show ?thesis by (intro exI [of _ s] exI [of _ d'] conjI)
qed

definition demo_probe :: probe_env where
  "demo_probe = \<lparr>pb_connect = (\<lambda>_ _. Inr \<lparr>ds_output = True, ds_input = True,
      ds_chunks = [word16 64 @ dns_response ''cloudflare-dns.com'' 1 0 [(1, [1, 1, 1, 1])]], ds_error = None\<rparr>), pb_elapsed = (\<lambda>_. 40)\<rparr>"

definition demo_scan :: scan_db where
  "demo_scan = \<lparr>sd_ranges = [\<lparr>sg_id = ''r1'', sg_tenant = ''t1'', sg_cidr = ''178.22.122.8/30'', sg_total = 4, sg_cursor = 0, sg_created = 0,
      sg_last = None, sg_finished = None, sg_live = Some (''5'', 9)\<rparr>], sd_results = []\<rparr>"

definition demo_ips :: "string list" where
  "demo_ips = [''178.22.122.8'', ''178.22.122.9'', ''178.22.122.10'', ''178.22.122.11'']"

theorem live_scan_finishes_witness:
  "\<exists>s d'. advanceLiveScan ''r1'' [(demo_cr, demo_probe, 1)] demo_scan = (Finished s, d') \<and>
     su_healthy s + su_fake s + su_wrong s + su_unreachable s = 4 \<and> map sr_ip (results_of ''r1'' d') = demo_ips"
proof -
  have "parseCidr ''178.22.122.8/30'' = Some (''178.22.122.8/30'', demo_ips)" unfolding demo_ips_def by code_simp
  then have g: "find (\<lambda>g. sg_id g = ''r1'') (sd_ranges demo_scan) = Some (hd (sd_ranges demo_scan))"
    and p: "parseCidr (sg_cidr (hd (sd_ranges demo_scan))) = Some (''178.22.122.8/30'', demo_ips)"
    and z: "sg_cursor (hd (sd_ranges demo_scan)) = 0" by (simp_all add: demo_scan_def)
  let ?ticks = "[(demo_cr, demo_probe, 1 :: nat)]"
  have n: "length demo_ips = 4" by (simp add: demo_ips_def)
  then have fin: "length demo_ips \<le> 16 * length ?ticks" by simp
  have w: "\<forall>(rtm, E, w) \<in> set ?ticks. 0 < w" by simp
  from live_scan_finishes [OF g p z w fin] n show ?thesis by metis
qed

text \<open>
  The platform's sockets have \<^verbatim>\<open>readable\<close> and \<^verbatim>\<open>writable\<close>, not the \<^verbatim>\<open>output\<close> and \<^verbatim>\<open>input\<close> that the code uses: with them every probe is
  \<open>Unreachable\<close>, so no scan ever finds a resolver.
\<close>

lemma probe_without_output:
  assumes "\<forall>h f s. pb_connect E h f = Inr s \<longrightarrow> \<not> ds_output s"
  shows "probeResolver E ip = (Unreachable, None)"
  using assms by (auto simp: probeResolver_def Let_def split: sum.splits)

subsection \<open>Tenants\<close>

lemma drop_ranges:
  "sd_ranges (fold drop_range ks d) = filter (\<lambda>g. sg_id g \<notin> set ks) (sd_ranges d)"
  "sd_results (fold drop_range ks d) = filter (\<lambda>r. sr_range r \<notin> set ks) (sd_results d)"
  by (induction ks arbitrary: d) (auto simp: drop_range_def drop_results_def intro!: filter_cong)

definition foreign :: "string \<Rightarrow> scan_db \<Rightarrow> scan_range list" where
  "foreign tenant d = filter (\<lambda>g. sg_tenant g \<noteq> tenant) (sd_ranges d)"

text \<open>Ids are unique, as the primary key has it.\<close>

definition ids_unique :: "scan_db \<Rightarrow> bool" where
  "ids_unique d \<longleftrightarrow> distinct (map sg_id (sd_ranges d))"

lemma replace_ranges_tenant:
  assumes "ids_unique d" and "replaceScanRange rtm t cidr d = (Inr (c, ips, i), d')"
  shows "foreign t d' = foreign t d \<and> filter (\<lambda>g. sg_tenant g = t) (sd_ranges d') = [new_range rtm t c (length ips)] \<and> ids_unique d' \<and>
    (\<forall>r \<in> set (sd_results d). (\<exists>g \<in> set (foreign t d). sg_id g = sr_range r) \<longrightarrow> r \<in> set (sd_results d'))"
proof -
  let ?old = "map sg_id (filter (\<lambda>g. sg_tenant g = t) (sd_ranges d))"
  define e where "e = fold drop_range ?old d"
  have d': "d' = e\<lparr>sd_ranges := sd_ranges e @ [new_range rtm t c (length ips)]\<rparr>" and new: "cr_uuid rtm \<notin> sg_id ` set (sd_ranges e)"
    using assms(2) by (auto simp: replaceScanRange_def act_unfold e_def split: option.splits if_splits)
  have inj: "inj_on sg_id (set (sd_ranges d))" using assms(1) by (simp add: ids_unique_def distinct_map)
  have "sd_ranges e = foreign t d"
    unfolding e_def drop_ranges foreign_def by (rule filter_cong [OF refl]) (use inj in \<open>auto simp: inj_on_def\<close>)
  moreover have "r \<in> set (sd_results e)" if "r \<in> set (sd_results d)" "g \<in> set (foreign t d)" "sg_id g = sr_range r" for r g
  proof -
    have "sg_id h \<noteq> sg_id g" if "h \<in> set (sd_ranges d)" "sg_tenant h = t" for h
      using that \<open>g \<in> set (foreign t d)\<close> inj_onD [OF inj, of h g] by (auto simp: foreign_def)
    with that show ?thesis unfolding e_def drop_ranges by force
  qed
  moreover have "distinct (map sg_id (foreign t d))" using assms(1) by (simp add: ids_unique_def foreign_def distinct_map_filter)
  ultimately show ?thesis using new by (auto simp: d' foreign_def new_range_def ids_unique_def filter_empty_conv)
qed

end
