(* ===== verification/Cp_Connect.thy ===== *)
theory Cp_Connect
  imports Cp_Agent
begin

text \<open>
  The connect form behind a one-time link (\<^verbatim>\<open>src/dns-connect.ts\<close>) and the bot's principal (\<^verbatim>\<open>src/bot-actions.ts\<close>). A page is
  named by what it says, with the error it shows; the HTML around it is fixed text. \<open>connect_title\<close>, the Persian display name, is an argument.
\<close>

subsection \<open>Form bodies\<close>

text \<open>\<open>URLSearchParams\<close>: pairs between \<open>&\<close>, plus signs, percent escapes, UTF-8.\<close>

fun percent_bytes :: "string \<Rightarrow> byte list" where
  "percent_bytes [] = []"
| "percent_bytes (c # cs) =
     (if c = CHR ''+'' then 0x20 # percent_bytes cs
      else case (c = CHR ''%'', cs) of
        (True, a # b # rest) \<Rightarrow>
          (case (hex_val a, hex_val b) of
             (Some x, Some y) \<Rightarrow> word_of_nat (16 * x + y) # percent_bytes rest
           | _ \<Rightarrow> utf8_encode [c] @ percent_bytes cs)
      | _ \<Rightarrow> utf8_encode [c] @ percent_bytes cs)"

definition form_pair :: "('a platform_scheme) \<Rightarrow> string \<Rightarrow> string \<times> string" where
  "form_pair P s =
     (let k = takeWhile (\<lambda>c. c \<noteq> CHR ''='') s; v = tl (dropWhile (\<lambda>c. c \<noteq> CHR ''='') s)
      in (p_decode P (percent_bytes k), p_decode P (percent_bytes v)))"

definition form_get :: "('a platform_scheme) \<Rightarrow> string \<Rightarrow> string \<Rightarrow> string" where
  "form_get P body key =
     (let s = (if starts_with ''?'' body then tl body else body) in
      case map_of (map (form_pair P) (filter (\<lambda>x. x \<noteq> []) (split_on CHR ''&'' s))) key of None \<Rightarrow> [] | Some v \<Rightarrow> v)"

subsection \<open>Links\<close>

definition botPrincipal :: "string \<Rightarrow> string \<Rightarrow> string \<Rightarrow> principal" where
  "botPrincipal tenantId telegramUserId displayName =
     \<lparr>pr_tenant = tenantId, pr_telegram = telegramUserId, pr_name = displayName, pr_admin = False, pr_session = ''telegram-bot''\<rparr>"

definition peekLoginLink :: "cp_runtime \<Rightarrow> string \<Rightarrow> cp_db \<Rightarrow> login_link option" where
  "peekLoginLink rtm token d =
     (if length token < 32 \<or> 128 < length token then None
      else case find (\<lambda>l. l_hash l = cp_sha256 (cr_P rtm) token) (cp_links d) of
        None \<Rightarrow> None
      | Some link \<Rightarrow> if l_consumed link \<noteq> None \<or> l_expires link \<le> cr_now rtm then None else Some link)"

definition consumeLoginLink :: "cp_runtime \<Rightarrow> string \<Rightarrow> (cp_db, bool) act" where
  "consumeLoginLink rtm token d =
     (let h = cp_sha256 (cr_P rtm) token; mine = (\<lambda>l. l_hash l = h \<and> l_consumed l = None) in
      (Inr (length (filter mine (cp_links d)) = 1),
       d\<lparr>cp_links := map (\<lambda>l. if mine l then l\<lparr>l_consumed := Some (cr_now rtm)\<rparr> else l) (cp_links d)\<rparr>))"

datatype connect_next = To_dns | To_panel

fun next_name :: "connect_next \<Rightarrow> string" where
  "next_name To_dns = ''dns''"
| "next_name To_panel = ''panel''"

definition next_of :: "string option \<Rightarrow> connect_next" where
  "next_of v = (if v = Some ''panel'' then To_panel else To_dns)"

text \<open>The raw token comes back inside the URL; the token's letters need no escape.\<close>

definition issueConnectLink :: "cp_runtime \<Rightarrow> string \<Rightarrow> connect_next \<Rightarrow> (cp_db, string \<times> nat) act" where
  "issueConnectLink rtm tenantId nxt d =
     (let raw = randomToken (cr_random rtm); h = cp_sha256 (cr_P rtm) raw; ttlSeconds = 900 in
      if h \<in> l_hash ` set (cp_links d) then (Inl (JsError ''UNIQUE constraint failed''), d)
      else (Inr (cr_base rtm @ ''/connect?t='' @ raw @ ''&next='' @ next_name nxt, ttlSeconds div 60),
            d\<lparr>cp_links := cp_links d @ [\<lparr>l_hash = h, l_tenant = tenantId, l_expires = addSecondsIso (cr_now rtm) (of_nat ttlSeconds),
                 l_consumed = None\<rparr>]\<rparr>))"

datatype connect_page = Link_invalid | Connect_form "exn option" string connect_next | Connected connect_next

definition dnsConnectGet :: "cp_runtime \<Rightarrow> request \<Rightarrow> (cp_world, connect_page) act" where
  "dnsConnectGet rtm r =
     (let token = (case query_of r ''t'' of None \<Rightarrow> [] | Some t \<Rightarrow> t) in
      act_bind (cdb_get (peekLoginLink rtm token)) (\<lambda>link.
        act_ret (case link of None \<Rightarrow> Link_invalid | Some _ \<Rightarrow> Connect_form None token (next_of (query_of r ''next'')))))"

definition token_request :: "request \<Rightarrow> string \<Rightarrow> request" where
  "token_request r apiToken =
     \<lparr>rq_method = ''POST'', rq_hostname = rq_hostname r, rq_path = ''/api/v1/cloudflare/api-token'', rq_query = [],
      rq_headers = [(''content-type'', ''application/json'')], rq_body = json_stringify (JObj [(''apiToken'', JStr apiToken)])\<rparr>"

definition connect_key :: "request \<Rightarrow> string" where
  "connect_key r = ''dns-connect:'' @ (case header_of r ''cf-connecting-ip'' of None \<Rightarrow> ''unknown'' | Some v \<Rightarrow> v)"

definition response_ok :: "response \<Rightarrow> bool" where
  "response_ok resp \<longleftrightarrow> 200 \<le> rs_status resp \<and> rs_status resp < 300"

definition dnsConnectPost :: "cp_runtime \<Rightarrow> string \<Rightarrow> request \<Rightarrow> (cp_world, connect_page) act" where
  "dnsConnectPost rtm connect_title r =
     act_bind (cdb_run (rateLimit rtm (connect_key r) 10 600)) (\<lambda>allowed.
     act_seq (act_when (\<not> allowed) (http_error 429 ''rate_limited''))
     (let token = form_get (cr_P rtm) (rq_body r) ''t''; apiToken = form_get (cr_P rtm) (rq_body r) ''apiToken'';
          nxt = next_of (Some (form_get (cr_P rtm) (rq_body r) ''next'')) in
     act_bind (cdb_get (peekLoginLink rtm token)) (\<lambda>link.
     case link of
       None \<Rightarrow> act_ret Link_invalid
     | Some l \<Rightarrow>
         act_bind (act_catch
           (act_bind (createTemporaryApiTokenConnection rtm (token_request r apiToken) (botPrincipal (l_tenant l) ''dns-connect-form'' connect_title))
             (\<lambda>resp. act_ret (if response_ok resp then None else Some (Connect_form (Some (JsError ''rejected'')) token nxt))))
           (\<lambda>e. act_ret (Some (Connect_form (Some e) token nxt)))) (\<lambda>page.
         case page of
           Some p \<Rightarrow> act_ret p
         | None \<Rightarrow>
             act_bind (cdb_run (consumeLoginLink rtm token)) (\<lambda>_.
             act_seq (cdb_upd (cp_audit rtm (Some (l_tenant l)) ''user'' (Some ''dns-connect-form'') ''dnscenter.connection.create'' None ''success'' (Some r) JUndef))
               (act_ret (Connected nxt)))))))"

subsection \<open>A link connects once\<close>

lemma keeps_db_update: "(\<And>d. J d \<Longrightarrow> J (f d)) \<Longrightarrow> keeps (\<lambda>w. J (cw_db w)) (cdb_upd f)"
  by (simp add: keeps_def cdb_upd_eq)

lemma keeps_db_action: "(\<And>d r d'. J d \<Longrightarrow> m d = (r, d') \<Longrightarrow> J d') \<Longrightarrow> keeps (\<lambda>w. J (cw_db w)) (cdb_run m)"
  by (auto simp: keeps_def cdb_run_def split: prod.splits)

text \<open>The tables that a connection of tenant \<open>t\<close> leaves alone: links, sessions and tenants, and who owns the connections.\<close>

definition only_connects :: "string \<Rightarrow> string set \<Rightarrow> cp_db \<Rightarrow> cp_db \<Rightarrow> bool" where
  "only_connects t ids d0 d \<longleftrightarrow> cp_links d = cp_links d0 \<and> cp_sessions d = cp_sessions d0 \<and> cp_tenants d = cp_tenants d0 \<and>
     cp_deps d = cp_deps d0 \<and> (\<forall>c \<in> set (cp_conns d). c_id c \<in> ids \<or> c_tenant c = t)"

lemma only_connects_erase: "only_connects t ids d0 d \<Longrightarrow> only_connects t ids d0 (snd (eraseExpiredApiTokens now d))"
  by (auto simp: only_connects_def eraseExpiredApiTokens_def scrub_row_def Let_def)

lemma only_connects_audit: "only_connects t ids d0 d \<Longrightarrow> only_connects t ids d0 (cp_audit rtm a b c e f g r m d)"
  by (simp add: only_connects_def cp_audit_def Let_def)

lemma only_connects_rate: "only_connects t ids d0 d \<Longrightarrow> rateLimit rtm key n secs d = (r, d') \<Longrightarrow> only_connects t ids d0 d'"
  by (auto simp: only_connects_def rateLimit_def Let_def)

lemma only_connects_insert:
  "only_connects t ids d0 d \<Longrightarrow> insert_connection c d = (r, d') \<Longrightarrow> c_tenant c = t \<Longrightarrow> only_connects t ids d0 d'"
  by (auto simp: only_connects_def insert_connection_def split: if_splits)

lemma token_connection_tenant: "c_tenant (token_connection rtm t enc x s u a n z m) = t"
  by (simp add: token_connection_def)

lemma create_only_connects:
  "keeps (\<lambda>w. only_connects (pr_tenant p) ids d0 (cw_db w)) (createTemporaryApiTokenConnection rtm r p)"
  unfolding createTemporaryApiTokenConnection_def connect_limit_def user_audit_def Let_def
  by (intro keeps_intros keeps_db_update keeps_db_action;
    blast intro: only_connects_erase only_connects_audit only_connects_rate only_connects_insert token_connection_tenant)

lemma peek_links: "cp_links d' = cp_links d \<Longrightarrow> peekLoginLink rtm token d' = peekLoginLink rtm token d"
  by (simp add: peekLoginLink_def)

lemma peek_rate: "rateLimit rtm key n secs d = (r, d') \<Longrightarrow> peekLoginLink rtm2 token d' = peekLoginLink rtm2 token d"
  by (auto simp: rateLimit_def Let_def peekLoginLink_def)

lemma connected_inv:
  assumes "dnsConnectPost rtm title r w = (Inr (Connected n), w')"
  defines "token \<equiv> form_get (cr_P rtm) (rq_body r) ''t''"
  obtains l d1 resp w2 where "rateLimit rtm (connect_key r) 10 600 (cw_db w) = (Inr True, d1)" "peekLoginLink rtm token (cw_db w) = Some l"
    "createTemporaryApiTokenConnection rtm (token_request r (form_get (cr_P rtm) (rq_body r) ''apiToken''))
       (botPrincipal (l_tenant l) ''dns-connect-form'' title) (w\<lparr>cw_db := d1\<rparr>) = (Inr resp, w2)"
    "w' = w2\<lparr>cw_db := cp_audit rtm (Some (l_tenant l)) ''user'' (Some ''dns-connect-form'') ''dnscenter.connection.create'' None ''success'' (Some r) JUndef
       (snd (consumeLoginLink rtm token (cw_db w2)))\<rparr>"
proof -
  obtain b d1 where rl: "rateLimit rtm (connect_key r) 10 600 (cw_db w) = (Inr b, d1)" by (auto simp: rateLimit_def Let_def)
  with assms(1) have b: "b" by (cases b) (auto simp: dnsConnectPost_def act_unfold cdb_run_def)
  obtain l where l: "peekLoginLink rtm token (cw_db w) = Some l"
    using assms(1) rl b peek_rate [OF rl, of rtm token]
    by (cases "peekLoginLink rtm token (cw_db w)") (auto simp: dnsConnectPost_def act_unfold cdb_run_def cdb_get_def token_def Let_def)
  obtain x w2 where c: "createTemporaryApiTokenConnection rtm (token_request r (form_get (cr_P rtm) (rq_body r) ''apiToken''))
       (botPrincipal (l_tenant l) ''dns-connect-form'' title) (w\<lparr>cw_db := d1\<rparr>) = (x, w2)" by (metis surj_pair)
  have p1: "peekLoginLink rtm token d1 = Some l" using l peek_rate [OF rl] by simp
  obtain resp where x: "x = Inr resp" using assms(1) rl b p1 c
    by (cases x) (auto simp: dnsConnectPost_def act_unfold cdb_run_def cdb_get_def token_def Let_def)
  have "w' = w2\<lparr>cw_db := cp_audit rtm (Some (l_tenant l)) ''user'' (Some ''dns-connect-form'') ''dnscenter.connection.create'' None ''success'' (Some r) JUndef
       (snd (consumeLoginLink rtm token (cw_db w2)))\<rparr>"
    using assms(1) rl b p1 c x
    by (cases "response_ok resp")
      (auto simp: dnsConnectPost_def act_unfold cdb_run_def cdb_get_def cdb_upd_def token_def Let_def consumeLoginLink_def)
  with that rl b l c x show ?thesis by metis
qed

lemma consumed_peek: "cp_links d' = cp_links (snd (consumeLoginLink rtm token d)) \<Longrightarrow> peekLoginLink rtm token d = Some l \<Longrightarrow>
    cr_P rtm2 = cr_P rtm \<Longrightarrow> peekLoginLink rtm2 token d' = None"
proof -
  assume a: "cp_links d' = cp_links (snd (consumeLoginLink rtm token d))" "peekLoginLink rtm token d = Some l" "cr_P rtm2 = cr_P rtm"
  let ?h = "cp_sha256 (cr_P rtm) token"
  let ?use = "\<lambda>l. if l_hash l = ?h \<and> l_consumed l = None then l\<lparr>l_consumed := Some (cr_now rtm)\<rparr> else l"
  have "find (\<lambda>l. l_hash l = ?h) (map ?use ls) = map_option ?use (find (\<lambda>l. l_hash l = ?h) ls)" for ls by (induction ls) auto
  then have "find (\<lambda>l. l_hash l = ?h) (cp_links d') = map_option ?use (find (\<lambda>l. l_hash l = ?h) (cp_links d))"
    by (simp add: a(1) consumeLoginLink_def Let_def)
  with a(2,3) show ?thesis by (auto simp: peekLoginLink_def Let_def split: option.splits if_splits dest: find_SomeD)
qed


text \<open>
  A link that the bot issues for the form is a row of the table of login links, and the panel's sign-in accepts it: whoever holds it can
  open a session of the tenant with it instead.
\<close>

lemma connect_link_signs_in:
  assumes "issueConnectLink rtm t nxt d = (Inr u, d')" and "length (cr_random rtm) = 32" and "distinct (map l_hash (cp_links d))"
    and "cr_P rtm2 = cr_P rtm" and "cr_now rtm2 < cr_now rtm + 900000" and "query_of r ''t'' = Some (randomToken (cr_random rtm))"
    and "cp_sha256 (cr_P rtm) (randomToken (cr_random rtm2)) \<notin> z_hash ` set (cp_sessions d)"
  shows "\<exists>resp d''. loginFromOneTimeLink rtm2 r d' = (Inr resp, d'') \<and> rs_status resp = 303 \<and>
    (\<exists>z \<in> set (cp_sessions d''). z \<notin> set (cp_sessions d') \<and> z_tenant z = t)"
proof -
  let ?h = "cp_sha256 (cr_P rtm) (randomToken (cr_random rtm))"
  define l where "l = \<lparr>l_hash = ?h, l_tenant = t, l_expires = addSecondsIso (cr_now rtm) 900, l_consumed = None\<rparr>"
  have d': "d' = d\<lparr>cp_links := cp_links d @ [l]\<rparr>" and new: "?h \<notin> l_hash ` set (cp_links d)"
    using assms(1) by (auto simp: issueConnectLink_def Let_def l_def split: if_splits)
  have f: "find (\<lambda>x. l_hash x = ?h) (cp_links d') = Some l" unfolding d' using new by (auto simp: l_def image_iff intro!: find_snoc)
  have "distinct (map l_hash (cp_links d'))" using assms(3) new by (auto simp: d' l_def)
  then have n: "length (filter (\<lambda>x. l_hash x = ?h \<and> l_consumed x = None) (cp_links d')) = 1"
    using f by (intro sum_changes) (auto simp: l_def)
  have len: "length (randomToken (cr_random rtm)) = 43" using assms(2) by (simp add: length_randomToken length_sextets)
  have "cr_now rtm2 < l_expires l" "cp_sessions d' = cp_sessions d" using assms(5) by (simp_all add: l_def addSecondsIso_def d')
  with assms(4,6,7) f n len show ?thesis
    by (auto simp: loginFromOneTimeLink_def Let_def cp_audit_def l_def image_iff)
qed

definition demo_zone :: jval where
  "demo_zone = JObj [(''id'', JStr (replicate 32 CHR ''a'')), (''name'', JStr ''a.com''), (''status'', JStr ''active''),
     (''account'', JObj [(''id'', JStr (replicate 32 CHR ''b'')), (''name'', JStr ''acme'')])]"

definition demo_connect_cr :: cp_runtime where
  "demo_connect_cr = demo_cr\<lparr>cr_fetch := (\<lambda>c. Inr \<lparr>ay_ok = True, ay_status = 200, ay_json = Some (JObj [(''success'', JBool True),
      (''result'', if ac_path c = ''/user/tokens/verify'' then JObj [(''status'', JStr ''active'')]
         else if ac_path c = ''/zones?per_page=50'' then JArr [demo_zone] else JNull)])\<rparr>)\<rparr>"

definition demo_form :: request where
  "demo_form = \<lparr>rq_method = ''POST'', rq_hostname = ''v13.io'', rq_path = ''/connect'', rq_query = [], rq_headers = [],
     rq_body = ''t='' @ replicate 40 CHR ''x'' @ ''&apiToken='' @ replicate 24 CHR ''k'' @ ''&next=dns''\<rparr>"

lemma percent_plain: "list_all is_alnum s \<Longrightarrow> percent_bytes s = utf8_encode s"
proof (induction s)
  case (Cons c cs)
  then have "c \<noteq> CHR ''+''" "c \<noteq> CHR ''%''" by (auto simp: is_alnum_def is_digit_def is_lower_def is_upper_def)
  then have "percent_bytes (c # cs) = utf8_encode [c] @ percent_bytes cs" by simp
  with Cons show ?case by (simp add: utf8_encode_def)
qed (simp add: utf8_encode_def)

lemma demo_form_fields:
  "form_get demo_cp (rq_body demo_form) ''t'' = replicate 40 CHR ''x''"
  "form_get demo_cp (rq_body demo_form) ''apiToken'' = replicate 24 CHR ''k''"
  "form_get demo_cp (rq_body demo_form) ''next'' = ''dns''"
proof -
  have dec: "p_decode demo_cp (utf8_encode t) = t" for t using demo_cp_laws by (simp add: aead_laws_def)
  have "split_on CHR ''&'' (rq_body demo_form) = [''t='' @ replicate 40 CHR ''x'', ''apiToken='' @ replicate 24 CHR ''k'', ''next=dns'']"
    unfolding demo_form_def by code_simp
  moreover have "percent_bytes ''t'' = utf8_encode ''t''" "percent_bytes ''apiToken'' = utf8_encode ''apiToken''"
    "percent_bytes ''next'' = utf8_encode ''next''" "percent_bytes ''dns'' = utf8_encode ''dns''"
    "percent_bytes (replicate 40 CHR ''x'') = utf8_encode (replicate 40 CHR ''x'')"
    "percent_bytes (replicate 24 CHR ''k'') = utf8_encode (replicate 24 CHR ''k'')"
    by (rule percent_plain, code_simp)+
  moreover have "hd (rq_body demo_form) = CHR ''t''" by (simp add: demo_form_def)
  ultimately show "form_get demo_cp (rq_body demo_form) ''t'' = replicate 40 CHR ''x''"
    "form_get demo_cp (rq_body demo_form) ''apiToken'' = replicate 24 CHR ''k''"
    "form_get demo_cp (rq_body demo_form) ''next'' = ''dns''"
    by (simp_all add: form_get_def form_pair_def Let_def dec demo_form_def del: replicate.simps)
qed

definition demo_connect_world :: cp_world where
  "demo_connect_world = \<lparr>cw_db = demo_cp_db, cw_scripts = [], cw_domains = [], cw_dns = [], cw_flows = []\<rparr>"

lemma demo_connects:
  "\<exists>w'. dnsConnectPost demo_connect_cr [] demo_form demo_connect_world = (Inr (Connected To_dns), w') \<and>
     map c_tenant (cp_conns (cw_db w')) = [''t1'']"
proof -
  let ?c = demo_connect_cr
  have rt: "cr_P ?c = demo_cp" "cr_now ?c = 5000" "cr_token_ttl ?c = None"
    "cr_envelope ?c = \<lparr>er_key = [5], er_wrap = [1], er_data = [2]\<rparr>" "cr_key ?c = bytesToBase64Url (replicate 32 0)"
    by (simp_all add: demo_connect_cr_def demo_cr_def)
  define tok where "tok = replicate 24 CHR ''k''"
  have api: "cloudflareApi ?c tok ''GET'' p [] = Inr (if p = ''/user/tokens/verify'' then JObj [(''status'', JStr ''active'')]
      else if p = ''/zones?per_page=50'' then JArr [demo_zone] else JNull)" for p
    by (simp add: cloudflareApi_def demo_connect_cr_def need_obj_def nullish_def)
  have v: "verify_token ?c tok = Inr (JObj [(''status'', JStr ''active'')])" by (simp add: verify_token_def api or_error_def need_obj_def nullish_def)
  have ids: "isValidCloudflareId (replicate 32 CHR ''a'')" "isValidCloudflareId (replicate 32 CHR ''b'')" by code_simp+
  have z: "single_zone (JArr [demo_zone]) = Inr demo_zone"
    using ids by (simp add: single_zone_def demo_zone_def nullish_def js_coalesce_def text_between_def del: replicate.simps)
  obtain enc where e: "encryptJson demo_cp (cr_envelope ?c) (JStr tok) (cr_key ?c) (token_aad (cr_uuid ?c)) = Inr enc"
    using encryptJson_eq demo_key by (metis rt(5))
  have pl: "plain (JObj [(''apiToken'', JStr tok)])" by simp
  have "length (utf8_encode (json_stringify (JObj [(''apiToken'', JStr (replicate 24 CHR ''k''))]))) = 39" by code_simp
  then have rj: "cp_readJson (token_request demo_form tok) 4096 = Inr (JObj [(''apiToken'', JStr tok)])"
    using json_parse_stringify [OF pl]
    by (simp add: cp_readJson_def token_request_def header_of_def tok_def [symmetric] str_to_num_def js_defs del: replicate.simps)
  have va: "validateApiToken (JStr tok) = Inr tok" unfolding tok_def by code_simp
  have "parsePositiveInt ''7200'' 7200 86400 = 7200" by (simp add: parsePositiveInt_def parseInt10_def js_defs Let_def)
  then have x: "effectiveExpiry ?c JUndef = Inr 7205000" by (simp add: effectiveExpiry_def rt addSecondsIso_def)
  have created: "\<exists>resp w2. createTemporaryApiTokenConnection ?c (token_request demo_form tok) (botPrincipal ''t1'' ''dns-connect-form'' [])
      (demo_connect_world\<lparr>cw_db := demo_cp_db\<lparr>cp_rates := rates\<rparr>\<rparr>) = (Inr resp, w2) \<and> response_ok resp \<and>
      map c_tenant (cp_conns (cw_db w2)) = [''t1''] \<and> cp_links (cw_db w2) = [demo_link]"
    if rates: "rates = [(connect_key demo_form, 0, 1)]" for rates
  proof -
    have l: "connect_limit ?c ''api-token-connect:t1'' (demo_connect_world\<lparr>cw_db := demo_cp_db\<lparr>cp_rates := rates\<rparr>\<rparr>) =
      (Inr (), demo_connect_world\<lparr>cw_db := demo_cp_db\<lparr>cp_rates := rates @ [(''api-token-connect:t1'', 0, 1)]\<rparr>\<rparr>)"
      by (simp add: connect_limit_def act_unfold cdb_run_def cdb_upd_def rateLimit_def rate_hit_def rate_window_def rates connect_key_def
          demo_form_def header_of_def rt eraseExpiredApiTokens_def demo_cp_db_def empty_cp_def Let_def)
    define w1 where "w1 = demo_connect_world\<lparr>cw_db := demo_cp_db\<lparr>cp_rates := rates\<rparr>\<rparr>"
    define w2 where "w2 = demo_connect_world\<lparr>cw_db := demo_cp_db\<lparr>cp_rates := rates @ [(''api-token-connect:t1'', 0, 1)]\<rparr>\<rparr>"
    have w2: "cp_conns (cw_db w2) = []" "cp_links (cw_db w2) = [demo_link]" by (simp_all add: w2_def demo_cp_db_def empty_cp_def)
    have f: "fld demo_zone ''id'' = JStr (replicate 32 CHR ''a'')" "fld (fld demo_zone ''account'') ''id'' = JStr (replicate 32 CHR ''b'')"
      "fld demo_zone ''name'' = JStr ''a.com''" "fld (fld demo_zone ''account'') ''name'' = JStr ''acme''" by (simp_all add: demo_zone_def)
    show ?thesis unfolding w1_def [symmetric]
      by (simp add: createTemporaryApiTokenConnection_def act_unfold botPrincipal_def l [folded w1_def w2_def] rj va v x api z e [unfolded rt] rt f w2
          need_obj_def nullish_def or_error_def cdb_get_def cdb_run_def cdb_upd_def user_audit_def live_tokens_def insert_connection_def
          token_connection_def response_ok_def json_def cp_audit_def Let_def del: replicate.simps validateApiToken.simps)
  qed
  define rates where "rates = [(connect_key demo_form, 0 :: num, 1 :: nat)]"
  have rl: "rateLimit ?c (connect_key demo_form) 10 600 demo_cp_db = (Inr True, demo_cp_db\<lparr>cp_rates := rates\<rparr>)"
    by (simp add: rateLimit_def rate_hit_def rate_window_def rates_def rt demo_cp_db_def empty_cp_def Let_def)
  have p: "peekLoginLink ?c (replicate 40 CHR ''x'') (demo_cp_db\<lparr>cp_rates := rates\<rparr>) = Some demo_link"
    by (simp add: peekLoginLink_def demo_cp_db_def demo_link_def rt del: replicate.simps)
  obtain resp w2 where c: "createTemporaryApiTokenConnection ?c (token_request demo_form tok) (botPrincipal ''t1'' ''dns-connect-form'' [])
      (demo_connect_world\<lparr>cw_db := demo_cp_db\<lparr>cp_rates := rates\<rparr>\<rparr>) = (Inr resp, w2)" "response_ok resp"
      "map c_tenant (cp_conns (cw_db w2)) = [''t1'']" using created [OF rates_def] by metis
  have w: "cw_db demo_connect_world = demo_cp_db" by (simp add: demo_connect_world_def)
  have l: "l_tenant demo_link = ''t1''" by (simp add: demo_link_def)
  have "\<exists>w'. dnsConnectPost ?c [] demo_form demo_connect_world = (Inr (Connected To_dns), w') \<and> cp_conns (cw_db w') = cp_conns (cw_db w2)"
    by (simp add: dnsConnectPost_def act_unfold cdb_run_def cdb_get_def cdb_upd_def rl w rt(1) demo_form_fields tok_def [symmetric] p l c
        next_of_def consumeLoginLink_def cp_audit_def Let_def del: replicate.simps)
  with c(3) show ?thesis by metis
qed


end
