(* ===== verification/Cp_Clean_Ip.thy ===== *)
theory Cp_Clean_Ip
  imports Cp_Net
begin

text \<open>
  The clean-IP radar (\<^verbatim>\<open>src/clean-ip.ts\<close>): anonymous reports per address, operator and city, merged with a moving average, and
  the ranking built from them. Labels in Persian are left out; doubles are rationals. \<open>localeCompare\<close> on addresses - digits
  and dots - is the order of their characters.
\<close>

subsection \<open>Constants\<close>

datatype clean_tier = Arvan | Cloudflare | Warp

definition ARVAN_CLEAN_IPS :: "string list" where
  "ARVAN_CLEAN_IPS =
     [''185.143.232.1'', ''185.143.232.13'', ''185.143.232.36'', ''185.143.233.9'', ''185.143.233.14'',
      ''185.143.234.18'', ''185.143.234.22'', ''185.143.232.100'', ''185.143.232.20'', ''185.143.232.42'',
      ''185.143.233.48'', ''185.143.234.12'', ''37.32.20.15'', ''37.32.16.11'', ''37.255.81.1'',
      ''94.182.182.10'', ''94.182.182.22'']"

definition CLOUDFLARE_CLEAN_IPS :: "string list" where
  "CLOUDFLARE_CLEAN_IPS =
     [''104.16.132.229'', ''104.17.209.9'', ''172.67.73.161'', ''104.21.32.115'', ''104.26.12.188'',
      ''172.67.182.201'', ''162.159.140.38'', ''104.16.18.15'', ''104.17.24.15'', ''172.67.12.188'',
      ''162.159.36.1'', ''104.21.64.1'', ''172.67.73.88'', ''104.26.10.12'', ''104.18.32.115'', ''188.114.97.7'']"

definition WARP_CLEAN_IPS :: "string list" where
  "WARP_CLEAN_IPS =
     [''188.114.96.1'', ''188.114.97.1'', ''162.159.192.1'', ''162.159.193.1'', ''162.159.193.10'', ''188.114.96.10'']"

definition CLEAN_IP_SNIS :: "string list" where
  "CLEAN_IP_SNIS =
     [''snapp.ir'', ''digikala.com'', ''aparat.com'', ''divar.ir'', ''myket.ir'', ''cafebazaar.ir'', ''bmi.ir'', ''telewebion.com'', ''cdn.mediad.ir'']"

definition CLEAN_IP_FINGERPRINTS :: "string list" where
  "CLEAN_IP_FINGERPRINTS = [''chrome'', ''firefox'', ''safari'', ''chrome_120'', ''firefox_128'', ''ios'', ''randomized'']"

record clean_operator =
  op_key :: string
  op_asn :: string
  op_dns :: string
  op_ports :: "nat list"
  op_preferred :: "string list"

definition CLEAN_IP_OPERATORS :: "clean_operator list" where
  "CLEAN_IP_OPERATORS =
     [\<lparr>op_key = ''mci'', op_asn = ''AS197207'', op_dns = ''178.22.122.100'', op_ports = [443, 8443, 2096],
        op_preferred = [''185.143.232.1'', ''185.143.232.13'', ''185.143.232.36'']\<rparr>,
      \<lparr>op_key = ''irancell'', op_asn = ''AS49100'', op_dns = ''10.202.10.10'', op_ports = [443, 2053, 2087],
        op_preferred = [''104.16.132.229'', ''172.67.73.161'']\<rparr>,
      \<lparr>op_key = ''rightel'', op_asn = ''AS57218'', op_dns = ''185.51.200.2'', op_ports = [443, 8443],
        op_preferred = [''162.159.192.1'', ''188.114.96.1'']\<rparr>,
      \<lparr>op_key = ''shatel'', op_asn = ''AS31549'', op_dns = ''185.51.200.2'', op_ports = [443, 2087],
        op_preferred = [''37.32.16.11'', ''94.182.182.10'']\<rparr>,
      \<lparr>op_key = ''mokhaberat'', op_asn = ''AS39501'', op_dns = ''178.22.122.100'', op_ports = [443, 8443, 2053],
        op_preferred = [''172.67.73.161'', ''104.21.32.115'']\<rparr>,
      \<lparr>op_key = ''asiatech'', op_asn = ''AS43754'', op_dns = ''10.202.10.11'', op_ports = [443, 2096],
        op_preferred = [''185.143.233.9'', ''185.143.234.18'']\<rparr>]"

definition CLEAN_IP_CITIES :: "string list" where
  "CLEAN_IP_CITIES = [''tehran'', ''karaj'', ''isfahan'', ''mashhad'', ''shiraz'', ''tabriz'', ''qom'']"

definition findOperator :: "string option \<Rightarrow> clean_operator" where
  "findOperator key = (case find (\<lambda>x. key = Some (op_key x)) CLEAN_IP_OPERATORS of Some x \<Rightarrow> x | None \<Rightarrow> CLEAN_IP_OPERATORS ! 0)"

definition findCity :: "string option \<Rightarrow> string" where
  "findCity key = (case find (\<lambda>x. key = Some x) CLEAN_IP_CITIES of Some x \<Rightarrow> x | None \<Rightarrow> CLEAN_IP_CITIES ! 0)"

definition operatorByAsn :: "string \<Rightarrow> clean_operator option" where
  "operatorByAsn asn = find (\<lambda>x. to_lower (op_asn x) = to_lower asn) CLEAN_IP_OPERATORS"

definition cleanIpPool :: "(string \<times> clean_tier) list" where
  "cleanIpPool =
     map (\<lambda>ip. (ip, Arvan)) ARVAN_CLEAN_IPS @ map (\<lambda>ip. (ip, Cloudflare)) CLOUDFLARE_CLEAN_IPS @ map (\<lambda>ip. (ip, Warp)) WARP_CLEAN_IPS"

text \<open>\<open>Number(part) || 0\<close>: infinities stay numbers, but no octet of an address gives one.\<close>

definition octet_num :: "string \<Rightarrow> num" where
  "octet_num part = (case str_to_num part of Fin q \<Rightarrow> q | _ \<Rightarrow> 0)"

definition ipOctetSum :: "string \<Rightarrow> num" where
  "ipOctetSum ip = sum_list (map octet_num (split_on CHR ''.'' ip))"

record ip_hints =
  ih_sni :: string
  ih_fingerprint :: string
  ih_fragment :: string

definition octet_at :: "nat \<Rightarrow> string \<Rightarrow> nat" where
  "octet_at i ip = (let os = map octet_num (split_on CHR ''.'' ip) in if i < length os then nat \<lfloor>os ! i\<rfloor> else 0)"

definition ipHints :: "string \<Rightarrow> clean_tier \<Rightarrow> ip_hints" where
  "ipHints ip tier =
     \<lparr>ih_sni = (if tier = Cloudflare \<or> tier = Warp then [] else CLEAN_IP_SNIS ! (nat \<lfloor>ipOctetSum ip\<rfloor> mod length CLEAN_IP_SNIS)),
      ih_fingerprint = CLEAN_IP_FINGERPRINTS ! (octet_at 1 ip mod length CLEAN_IP_FINGERPRINTS),
      ih_fragment = show_nat (10 + of_char (hd ip) mod 20) @ ''-'' @ show_nat (40 + octet_at 2 ip mod 40)\<rparr>"

subsection \<open>Reports\<close>

record clean_report =
  cq_ip :: string
  cq_operator :: string
  cq_city :: string
  cq_latency :: num
  cq_loss :: num
  cq_ok :: bool

definition num_field :: "jval \<Rightarrow> string \<Rightarrow> string \<Rightarrow> jsnum" where
  "num_field body k k2 = (case fld body k of JNum n \<Rightarrow> n | _ \<Rightarrow> to_num (fld body k2))"

definition report_operator :: "jval \<Rightarrow> string" where
  "report_operator body =
     (let key = to_lower (trim (str_or_empty (fld body ''operator''))) in
      if key \<in> op_key ` set CLEAN_IP_OPERATORS then key
      else case fld body ''asn'' of
        JStr asn \<Rightarrow> (case operatorByAsn asn of Some x \<Rightarrow> op_key x | None \<Rightarrow> ''mci'')
      | _ \<Rightarrow> ''mci'')"

definition parseCleanIpReport :: "jval \<Rightarrow> clean_report res" where
  "parseCleanIpReport inp =
     (if \<not> is_object inp then Inl invalid_input
      else
        let ip = trim (str_or_empty (fld inp ''ip''));
            latency = (case num_field inp ''latencyMs'' ''t'' of Fin q \<Rightarrow> js_round q | _ \<Rightarrow> -1);
            loss = (case num_field inp ''lossPct'' ''loss'' of Fin q \<Rightarrow> js_round (min 100 (max 0 q) * 10) / 10 | _ \<Rightarrow> 0);
            good = (if fld inp ''ok'' = JUndef then 0 \<le> latency else fld inp ''ok'' \<noteq> JBool False \<and> fld inp ''ok'' \<noteq> JNum (Fin 0));
            cityKey = to_lower (trim (str_or_empty (fld inp ''city''))) in
        if \<not> isPublicIpv4 ip then Inl (http_error 400 ''invalid_ip'')
        else if 10000 < latency then Inl (http_error 400 ''invalid_latency'')
        else Inr \<lparr>cq_ip = ip, cq_operator = report_operator inp, cq_city = (if cityKey \<in> set CLEAN_IP_CITIES then cityKey else ''other''),
                  cq_latency = max (-1) latency, cq_loss = loss, cq_ok = good\<rparr>)"

record clean_row =
  ci_ip :: string
  ci_operator :: string
  ci_city :: string
  ci_latency :: num
  ci_loss :: num
  ci_ok :: nat
  ci_reports :: nat
  ci_first :: num
  ci_updated :: num
  ci_expires :: num

text \<open>SQLite's \<open>ROUND\<close>: halves away from zero.\<close>

definition sql_round :: "num \<Rightarrow> num" where
  "sql_round q = (if 0 \<le> q then of_int \<lfloor>q + 1 / 2\<rfloor> else - of_int \<lfloor>- q + 1 / 2\<rfloor>)"

definition clean_cell :: "clean_report \<Rightarrow> clean_row \<Rightarrow> bool" where
  "clean_cell r x \<longleftrightarrow> ci_ip x = cq_ip r \<and> ci_operator x = cq_operator r \<and> ci_city x = cq_city r"

definition merge_clean :: "num \<Rightarrow> clean_report \<Rightarrow> clean_row \<Rightarrow> clean_row" where
  "merge_clean now r x =
     x\<lparr>ci_latency := sql_round (ci_latency x * 6 / 10 + max (-1) (cq_latency r) * 4 / 10),
       ci_loss := sql_round ((ci_loss x * 6 / 10 + cq_loss r * 4 / 10) * 10) / 10,
       ci_ok := ci_ok x + (if cq_ok r then 1 else 0), ci_reports := Suc (ci_reports x), ci_updated := now,
       ci_expires := now + 7 * 86400 * 1000\<rparr>"

definition recordCleanIpReport :: "num \<Rightarrow> clean_report \<Rightarrow> clean_row list \<Rightarrow> clean_row list" where
  "recordCleanIpReport now r rows =
     (if list_ex (clean_cell r) rows then map (\<lambda>x. if clean_cell r x then merge_clean now r x else x) rows
      else rows @ [\<lparr>ci_ip = cq_ip r, ci_operator = cq_operator r, ci_city = cq_city r, ci_latency = max (-1) (cq_latency r),
             ci_loss = cq_loss r, ci_ok = (if cq_ok r then 1 else 0), ci_reports = 1, ci_first = now, ci_updated = now,
             ci_expires = now + 7 * 86400 * 1000\<rparr>])"

definition purgeExpiredCleanIpReports :: "num \<Rightarrow> clean_row list \<Rightarrow> nat \<times> clean_row list" where
  "purgeExpiredCleanIpReports now rows = (length (filter (\<lambda>x. ci_expires x \<le> now) rows), filter (\<lambda>x. \<not> ci_expires x \<le> now) rows)"

subsection \<open>Ranking\<close>

datatype clean_status = Verified | Degraded | Risky | No_data

record ranked_ip =
  ck_ip :: string
  ck_tier :: clean_tier
  ck_port :: nat
  ck_sni :: string
  ck_fingerprint :: string
  ck_fragment :: string
  ck_latency :: "num option"
  ck_loss :: "num option"
  ck_reports :: nat
  ck_ok_ratio :: "num option"
  ck_age :: "num option"
  ck_measured :: bool
  ck_preferred :: bool
  ck_score :: num
  ck_status :: clean_status

record clean_ranking =
  cn_operator :: clean_operator
  cn_city :: string
  cn_generated :: num
  cn_rows :: "ranked_ip list"
  cn_measured :: nat
  cn_pool :: nat

text \<open>The newest row of each address in the segment, in the order of first appearance.\<close>

definition newer_row :: "clean_row \<Rightarrow> (string \<times> clean_row) list \<Rightarrow> (string \<times> clean_row) list" where
  "newer_row row m =
     (case map_of m (ci_ip row) of
        None \<Rightarrow> upsert (ci_ip row) row m
      | Some existing \<Rightarrow> if ci_updated existing < ci_updated row then upsert (ci_ip row) row m else m)"

definition clean_segment :: "string \<Rightarrow> string \<Rightarrow> clean_row list \<Rightarrow> clean_row list" where
  "clean_segment operator city rows = filter (\<lambda>x. ci_operator x = operator \<and> (city = ''all'' \<or> ci_city x = city)) rows"

definition by_ip :: "string \<Rightarrow> string \<Rightarrow> clean_row list \<Rightarrow> (string \<times> clean_row) list" where
  "by_ip operator city rows = fold newer_row (clean_segment operator city rows) []"

definition ranking_pool :: "(string \<times> clean_row) list \<Rightarrow> (string \<times> clean_tier) list" where
  "ranking_pool m =
     (let base = fold (\<lambda>(ip, tier) p. upsert ip tier p) cleanIpPool [] in
      base @ map (\<lambda>ip. (ip, Cloudflare)) (filter (\<lambda>ip. ip \<notin> fst ` set base) (map fst m)))"

definition tenth :: "num \<Rightarrow> num" where
  "tenth q = js_round (q * 10) / 10"

definition or_zero :: "num option \<Rightarrow> num" where
  "or_zero v = (case v of None \<Rightarrow> 0 | Some q \<Rightarrow> q)"

definition is_fresh :: "num \<Rightarrow> clean_row option \<Rightarrow> bool" where
  "is_fresh now report = (case report of None \<Rightarrow> False | Some x \<Rightarrow> now - 24 * 3600000 < ci_updated x)"

definition clean_score :: "num option \<Rightarrow> num option \<Rightarrow> num option \<Rightarrow> num" where
  "clean_score latency loss age = (case latency of None \<Rightarrow> 60 | Some l \<Rightarrow> l * (1 / 2)) + or_zero loss * 25 + or_zero age * 2"

definition clean_status_of :: "num option \<Rightarrow> num option \<Rightarrow> num option \<Rightarrow> clean_status" where
  "clean_status_of okRatio loss latency =
     (if (case okRatio of Some q \<Rightarrow> q < 1 / 2 | None \<Rightarrow> False) then Risky
      else if 5 < or_zero loss then Risky
      else if 1 < or_zero loss \<or> 150 < or_zero latency then Degraded
      else Verified)"

definition rank_row :: "num \<Rightarrow> clean_operator \<Rightarrow> (string \<times> clean_row) list \<Rightarrow> string \<times> clean_tier \<Rightarrow> ranked_ip" where
  "rank_row now operator m = (\<lambda>(ip, tier).
     let hints = ipHints ip tier; report = map_of m ip; fresh = is_fresh now report;
         age = map_option (\<lambda>x. max 0 ((now - ci_updated x) / 3600000)) report;
         latency = (case report of Some x \<Rightarrow> if fresh \<and> 0 \<le> ci_latency x then Some (ci_latency x) else None | None \<Rightarrow> None);
         loss = (case report of Some x \<Rightarrow> if fresh then Some (ci_loss x) else None | None \<Rightarrow> None);
         okRatio = (case report of Some x \<Rightarrow> if 0 < ci_reports x then Some (of_nat (ci_ok x) / of_nat (ci_reports x)) else None | None \<Rightarrow> None);
         reports = (case report of Some x \<Rightarrow> ci_reports x | None \<Rightarrow> 0);
         measured = (fresh \<and> (latency \<noteq> None \<or> 0 < reports));
         score = (if measured then clean_score latency loss age else 1000000 + ipOctetSum ip)
     in \<lparr>ck_ip = ip, ck_tier = tier, ck_port = (if op_ports operator = [] then 443 else hd (op_ports operator)),
         ck_sni = (if ih_sni hints = [] then ip else ih_sni hints), ck_fingerprint = ih_fingerprint hints, ck_fragment = ih_fragment hints,
         ck_latency = latency, ck_loss = loss, ck_reports = reports, ck_ok_ratio = okRatio, ck_age = map_option tenth age,
         ck_measured = measured, ck_preferred = (ip \<in> set (op_preferred operator)), ck_score = tenth score,
         ck_status = (if measured then clean_status_of okRatio loss latency else No_data)\<rparr>)"

definition rank_before :: "ranked_ip \<Rightarrow> ranked_ip \<Rightarrow> bool" where
  "rank_before a b \<longleftrightarrow> ck_score a < ck_score b \<or> ck_score a = ck_score b \<and> ck_ip a \<le> ck_ip b"

text \<open>The clamped limit, cut to a whole number as \<open>slice\<close> does.\<close>

definition rank_limit :: "jsnum \<Rightarrow> nat" where
  "rank_limit limit = (case js_min (Fin 48) (js_max (Fin 1) limit) of Fin q \<Rightarrow> nat \<lfloor>q\<rfloor> | _ \<Rightarrow> 0)"

definition rankCleanIps :: "num \<Rightarrow> string option \<Rightarrow> string option \<Rightarrow> jsnum \<Rightarrow> clean_row list \<Rightarrow> clean_ranking" where
  "rankCleanIps now operatorKey cityKey limit table =
     (let operator = findOperator operatorKey;
          city = (if cityKey = None \<or> cityKey = Some [] then ''all'' else findCity cityKey);
          m = by_ip (op_key operator) city table; pool = ranking_pool m;
          rows = sort_by rank_before (map (rank_row now operator m) pool)
      in \<lparr>cn_operator = operator, cn_city = city, cn_generated = now, cn_rows = take (rank_limit limit) rows,
          cn_measured = length (filter ck_measured rows), cn_pool = length pool\<rparr>)"

fun status_label :: "clean_status \<Rightarrow> string" where
  "status_label Verified = ''verified''"
| "status_label Degraded = ''degraded''"
| "status_label Risky = ''risky''"
| "status_label No_data = ''nodata''"

definition cleanIpReportTargets :: "num \<Rightarrow> string \<Rightarrow> string \<Rightarrow> clean_row list \<Rightarrow> ranked_ip list" where
  "cleanIpReportTargets now operator city table = cn_rows (rankCleanIps now (Some operator) (Some city) (Fin 48) table)"

subsection \<open>Numbers\<close>

lemma str_to_num_digits:
  assumes "digits_only s"
  shows "str_to_num s = Fin (of_nat (nat_of_digits 0 s))"
proof -
  have no: "c \<notin> set s" if "\<not> is_digit c" for c using assms that by (auto simp: digits_only_def list_all_iff)
  have "list_all (\<lambda>c. \<not> is_ws c) s" using assms by (auto simp: digits_only_def list_all_iff is_digit_def is_ws_def Let_def)
  then have t: "trim s = s" by (rule trim_no_ws)
  have "\<not> starts_with ''0x'' s" "\<not> starts_with ''0X'' s" "\<not> starts_with ''-'' s" "\<not> starts_with ''+'' s" "s \<noteq> ''Infinity''"
    using assms by (auto simp: starts_with_append digits_only_def list_all_iff is_digit_def)
  moreover have "map (\<lambda>c. if c = CHR ''E'' then CHR ''e'' else c) s = s" using no [of "CHR ''E''"] by (auto intro!: map_idI simp: is_digit_def)
  moreover have "split_on CHR ''e'' s = [s]" "split_on CHR ''.'' s = [s]" by (rule split_on_no_sep, rule no, simp add: is_digit_def)+
  ultimately show ?thesis using assms t by (simp add: str_to_num_def parse_unsigned_def parse_mantissa_def digits_only_def)
qed

lemma octet_sum_nonneg: "isValidIpv4 ip \<Longrightarrow> 0 \<le> ipOctetSum ip"
proof -
  assume "isValidIpv4 ip"
  then obtain a b c d where "ip = dotted_quad a b c d" by (auto simp: valid_ipv4_iff)
  moreover have "octet_num (show_nat n) = of_nat n" for n
    using show_nat_digits [of n] by (simp add: octet_num_def str_to_num_digits digits_only_def nat_of_digits_show_nat)
  ultimately show ?thesis by (simp add: ipOctetSum_def split_dotted_quad)
qed

lemma js_round_bounds: "q - 1 / 2 < js_round q" "js_round q \<le> q + 1 / 2"
  unfolding js_round_def by linarith+

lemma js_round_mono: "a \<le> b \<Longrightarrow> js_round a \<le> js_round b"
  by (simp add: js_round_def floor_mono)

lemma js_round_int: "js_round (of_int n) = of_int n"
  unfolding js_round_def by (simp add: floor_eq_iff)

lemma tenth_mono: "a \<le> b \<Longrightarrow> tenth a \<le> tenth b"
  by (simp add: tenth_def js_round_mono)

lemma sql_round_range: "of_int a \<le> q \<Longrightarrow> q \<le> of_int b \<Longrightarrow> of_int a \<le> sql_round q \<and> sql_round q \<le> of_int b"
proof -
  assume a: "of_int a \<le> q" and b: "q \<le> of_int b"
  show ?thesis
  proof (cases "0 \<le> q")
    case True
    have "a \<le> \<lfloor>q + 1 / 2\<rfloor>" using a by (simp add: le_floor_iff)
    moreover have "\<lfloor>q + 1 / 2\<rfloor> \<le> b" using b by (simp add: floor_le_iff)
    ultimately show ?thesis using True by (simp add: sql_round_def)
  next
    case False
    have "\<lfloor>- q + 1 / 2\<rfloor> \<le> - a" using a by (simp add: floor_le_iff)
    moreover have "- b \<le> \<lfloor>- q + 1 / 2\<rfloor>" using b by (simp add: le_floor_iff)
    ultimately have "of_int a \<le> - (of_int \<lfloor>- q + 1 / 2\<rfloor> :: rat)" "- (of_int \<lfloor>- q + 1 / 2\<rfloor> :: rat) \<le> of_int b" by linarith+
    with False show ?thesis by (simp add: sql_round_def)
  qed
qed

subsection \<open>The table stays in range\<close>

definition row_ok :: "clean_row \<Rightarrow> bool" where
  "row_ok x \<longleftrightarrow> isPublicIpv4 (ci_ip x) \<and> -1 \<le> ci_latency x \<and> ci_latency x \<le> 10000 \<and> 0 \<le> ci_loss x \<and> ci_loss x \<le> 100 \<and>
     1 \<le> ci_reports x \<and> ci_ok x \<le> ci_reports x"

definition clean_cell_key :: "clean_row \<Rightarrow> string \<times> string \<times> string" where
  "clean_cell_key x = (ci_ip x, ci_operator x, ci_city x)"

definition clean_ok :: "clean_row list \<Rightarrow> bool" where
  "clean_ok rows \<longleftrightarrow> list_all row_ok rows \<and> distinct (map clean_cell_key rows)"

definition report_ok :: "clean_report \<Rightarrow> bool" where
  "report_ok r \<longleftrightarrow> isPublicIpv4 (cq_ip r) \<and> -1 \<le> cq_latency r \<and> cq_latency r \<le> 10000 \<and> 0 \<le> cq_loss r \<and> cq_loss r \<le> 100"

lemma parsed_report_ok: "parseCleanIpReport inp = Inr r \<Longrightarrow> report_ok r"
proof -
  have "0 \<le> js_round (min 100 (max 0 q) * 10) / 10 \<and> js_round (min 100 (max 0 q) * 10) / 10 \<le> 100" for q :: num
    using js_round_mono [of 0 "min 100 (max 0 q) * 10"] js_round_mono [of "min 100 (max 0 q) * 10" 1000]
      js_round_int [of 0] js_round_int [of 1000] by (auto simp: min_def max_def)
  then have l: "0 \<le> (case n of Fin q \<Rightarrow> js_round (min 100 (max 0 q) * 10) / 10 | _ \<Rightarrow> 0) \<and>
      (case n of Fin q \<Rightarrow> js_round (min 100 (max 0 q) * 10) / 10 | _ \<Rightarrow> 0) \<le> 100" for n by (cases n) simp_all
  assume "parseCleanIpReport inp = Inr r"
  then show "report_ok r"
    unfolding parseCleanIpReport_def Let_def using l by (simp add: report_ok_def split: if_splits) (auto simp: max_def)
qed

lemma merge_ok:
  assumes "row_ok x" and "report_ok r"
  shows "row_ok (merge_clean now r x)"
proof -
  have "of_int (-1) \<le> sql_round (ci_latency x * 6 / 10 + max (-1) (cq_latency r) * 4 / 10) \<and>
      sql_round (ci_latency x * 6 / 10 + max (-1) (cq_latency r) * 4 / 10) \<le> of_int 10000"
    using assms by (intro sql_round_range) (auto simp: row_ok_def report_ok_def max_def)
  moreover have "of_int 0 \<le> sql_round ((ci_loss x * 6 / 10 + cq_loss r * 4 / 10) * 10) \<and>
      sql_round ((ci_loss x * 6 / 10 + cq_loss r * 4 / 10) * 10) \<le> of_int 1000"
    using assms by (intro sql_round_range) (auto simp: row_ok_def report_ok_def)
  ultimately show ?thesis using assms by (auto simp: row_ok_def merge_clean_def)
qed

lemma merge_key [simp]: "clean_cell_key (merge_clean now r x) = clean_cell_key x"
  by (simp add: merge_clean_def clean_cell_key_def)

lemma record_ok:
  assumes "clean_ok rows" and "report_ok r"
  shows "clean_ok (recordCleanIpReport now r rows)"
proof (cases "list_ex (clean_cell r) rows")
  case True
  let ?f = "\<lambda>x. if clean_cell r x then merge_clean now r x else x"
  have "map clean_cell_key (map ?f rows) = map clean_cell_key rows" by simp
  then have "distinct (map clean_cell_key (map ?f rows))" using assms(1) by (simp only: clean_ok_def)
  moreover have "list_all row_ok (map ?f rows)" using assms by (auto simp: clean_ok_def list_all_iff merge_ok)
  ultimately show ?thesis using True by (simp add: recordCleanIpReport_def clean_ok_def)
next
  case False
  then have "(cq_ip r, cq_operator r, cq_city r) \<notin> clean_cell_key ` set rows" by (auto simp: list_ex_iff clean_cell_def clean_cell_key_def)
  with False assms show ?thesis
    by (auto simp: recordCleanIpReport_def clean_ok_def clean_cell_key_def row_ok_def report_ok_def)
qed

lemma purge_clean_ok: "clean_ok rows \<Longrightarrow> clean_ok (snd (purgeExpiredCleanIpReports now rows))"
  by (auto simp: clean_ok_def purgeExpiredCleanIpReports_def list_all_iff distinct_map_filter)

subsection \<open>The ranking is what was measured\<close>

interpretation rank_order: total_preorder rank_before
  by unfold_locales (auto simp: rank_before_def)

lemma sorted_split:
  "sorted_wrt R xs \<Longrightarrow> (\<And>x y. x \<in> set xs \<Longrightarrow> y \<in> set xs \<Longrightarrow> R x y \<Longrightarrow> P y \<Longrightarrow> P x) \<Longrightarrow> list_all (\<lambda>x. \<not> P x) (dropWhile P xs)"
proof (induction xs)
  case (Cons x xs)
  show ?case
  proof (cases "P x")
    case True
    with Cons show ?thesis by auto
  next
    case False
    then have "\<forall>y \<in> set xs. \<not> P y" using Cons.prems by auto
    with False show ?thesis by (simp add: list_all_iff)
  qed
qed simp

lemma newer_row_rows: "(ip, x) \<in> set (fold newer_row rows m) \<Longrightarrow> (ip, x) \<in> set m \<or> x \<in> set rows \<and> ci_ip x = ip"
proof (induction rows arbitrary: m)
  case (Cons r rows)
  have "set (upsert k v m) \<subseteq> insert (k, v) (set m)" for k :: string and v :: clean_row and m
    by (induction m) (auto split: if_splits)
  then have "set (newer_row r m) \<subseteq> insert (ci_ip r, r) (set m)" by (auto simp: newer_row_def split: option.splits)
  with Cons show ?case by fastforce
qed simp

lemma by_ip_rows: "map_of (by_ip operator city rows) ip = Some x \<Longrightarrow> x \<in> set rows \<and> ci_ip x = ip \<and> ci_operator x = operator \<and>
    (city = ''all'' \<or> ci_city x = city)"
  using newer_row_rows [of ip x "clean_segment operator city rows" "[]"]
  by (auto simp: by_ip_def clean_segment_def dest: map_of_SomeD)

lemma pool_ips:
  assumes "(ip, tier) \<in> set (ranking_pool m)"
  shows "ip \<in> fst ` set cleanIpPool \<or> ip \<in> fst ` set m"
proof -
  have "fst ` set (fold (\<lambda>(ip, tier) p. upsert ip tier p) ps q) \<subseteq> fst ` set ps \<union> fst ` set q" for ps :: "(string \<times> clean_tier) list" and q
  proof (induction ps arbitrary: q)
    case (Cons p ps)
    obtain k v where p: "p = (k, v)" by (cases p)
    show ?case using Cons [of "upsert k v q"] keys_upsert [of k v q] by (auto simp: p)
  qed simp
  from this [of cleanIpPool "[]"] assms show ?thesis by (force simp: ranking_pool_def Let_def)
qed

lemma pool_valid: "ip \<in> fst ` set cleanIpPool \<Longrightarrow> isValidIpv4 ip"
proof -
  have "list_all (\<lambda>p. isValidIpv4 (fst p)) cleanIpPool" by code_simp
  then show "ip \<in> fst ` set cleanIpPool \<Longrightarrow> isValidIpv4 ip" by (auto simp: list_all_iff)
qed

lemma public_valid: "isPublicIpv4 ip \<Longrightarrow> isValidIpv4 ip"
  by (rule ccontr) (simp add: isPublicIpv4_def)

lemma measured_score:
  assumes "\<And>x. map_of m ip = Some x \<Longrightarrow> row_ok x" and "isValidIpv4 ip"
  shows "if ck_measured (rank_row now operator m (ip, tier)) then ck_score (rank_row now operator m (ip, tier)) < 1000000
     else 1000000 \<le> ck_score (rank_row now operator m (ip, tier))"
proof (cases "map_of m ip")
  case None
  have "tenth (of_int 1000000) \<le> tenth (1000000 + ipOctetSum ip)" using octet_sum_nonneg [OF assms(2)] by (intro tenth_mono) simp
  moreover have "tenth (of_int 1000000) = 1000000" using js_round_int [of 10000000] by (simp add: tenth_def)
  ultimately show ?thesis using None by (simp add: rank_row_def Let_def is_fresh_def)
next
  case (Some x)
  have x: "row_ok x" using assms(1) Some .
  show ?thesis
  proof (cases "is_fresh now (Some x)")
    case True
    define l where "l = (if 0 \<le> ci_latency x then Some (ci_latency x) else None)"
    define a where "a = max 0 ((now - ci_updated x) / 3600000)"
    have "a < 24" using True by (simp add: a_def is_fresh_def)
    then have "clean_score l (Some (ci_loss x)) (Some a) \<le> 8000" using x by (auto simp: clean_score_def or_zero_def l_def row_ok_def)
    then have "tenth (clean_score l (Some (ci_loss x)) (Some a)) \<le> tenth (of_int 8000)" by (intro tenth_mono) simp
    moreover have "tenth (of_int 8000) = 8000" using js_round_int [of 80000] by (simp add: tenth_def)
    ultimately show ?thesis using True Some x by (simp add: rank_row_def Let_def l_def a_def row_ok_def)
  next
    case False
    have "tenth (of_int 1000000) \<le> tenth (1000000 + ipOctetSum ip)" using octet_sum_nonneg [OF assms(2)] by (intro tenth_mono) simp
    moreover have "tenth (of_int 1000000) = 1000000" using js_round_int [of 10000000] by (simp add: tenth_def)
    ultimately show ?thesis using Some False by (simp add: rank_row_def Let_def)
  qed
qed

lemma rank_limit_48: "rank_limit l \<le> 48"
  by (cases l) (auto simp: rank_limit_def nat_le_iff floor_le_iff split: if_splits)

lemma rank_row_facts:
  "\<not> ck_measured (rank_row now operator m p) \<Longrightarrow> ck_status (rank_row now operator m p) = No_data"
  "(\<And>x. map_of m (fst p) = Some x \<Longrightarrow> row_ok x) \<Longrightarrow> \<not> ck_measured (rank_row now operator m p) \<Longrightarrow>
    ck_latency (rank_row now operator m p) = None \<and> ck_loss (rank_row now operator m p) = None"
  "ck_measured (rank_row now operator m p) \<Longrightarrow> \<exists>x. map_of m (fst p) = Some x \<and> now - 24 * 3600000 < ci_updated x \<and>
    ck_latency (rank_row now operator m p) = (if 0 \<le> ci_latency x then Some (ci_latency x) else None) \<and>
    ck_loss (rank_row now operator m p) = Some (ci_loss x) \<and> ck_reports (rank_row now operator m p) = ci_reports x"
  "ck_ip (rank_row now operator m p) = fst p"
proof -
  obtain ip tier where p: "p = (ip, tier)" by (cases p)
  have "ck_status (rank_row now operator m p) = (if ck_measured (rank_row now operator m p)
      then clean_status_of (ck_ok_ratio (rank_row now operator m p)) (ck_loss (rank_row now operator m p)) (ck_latency (rank_row now operator m p))
      else No_data)"
    unfolding p rank_row_def Let_def case_prod_conv ranked_ip.simps ..
  then show "\<not> ck_measured (rank_row now operator m p) \<Longrightarrow> ck_status (rank_row now operator m p) = No_data"
    by (simp only: if_False)
  show "ck_ip (rank_row now operator m p) = fst p" by (simp add: p rank_row_def Let_def)
  show "ck_latency (rank_row now operator m p) = None \<and> ck_loss (rank_row now operator m p) = None"
    if "\<And>x. map_of m (fst p) = Some x \<Longrightarrow> row_ok x" "\<not> ck_measured (rank_row now operator m p)"
    using that by (cases "map_of m ip") (auto simp: p rank_row_def Let_def row_ok_def is_fresh_def split: if_splits)
  show "\<exists>x. map_of m (fst p) = Some x \<and> now - 24 * 3600000 < ci_updated x \<and>
    ck_latency (rank_row now operator m p) = (if 0 \<le> ci_latency x then Some (ci_latency x) else None) \<and>
    ck_loss (rank_row now operator m p) = Some (ci_loss x) \<and> ck_reports (rank_row now operator m p) = ci_reports x"
    if "ck_measured (rank_row now operator m p)"
    using that by (cases "map_of m ip") (auto simp: p rank_row_def Let_def is_fresh_def)
qed

text \<open>A table as clients can leave it: reports that were accepted and purges, in any order.\<close>

inductive clean_table :: "clean_row list \<Rightarrow> bool" where
  empty: "clean_table []"
| report: "clean_table rows \<Longrightarrow> parseCleanIpReport body = Inr r \<Longrightarrow> clean_table (recordCleanIpReport now r rows)"
| purge: "clean_table rows \<Longrightarrow> clean_table (snd (purgeExpiredCleanIpReports now rows))"

lemma clean_table_ok: "clean_table rows \<Longrightarrow> clean_ok rows"
proof (induction rule: clean_table.induct)
  case (report rows body r now)
  then show ?case using record_ok parsed_report_ok by blast
qed (simp_all add: clean_ok_def purge_clean_ok [unfolded clean_ok_def])

text \<open>
  C33. The ranking is what was measured. On every table that accepted reports and purges can leave, for every operator, city and limit, a
  ranking has at most 48 rows; a row is shown as measured exactly with the latency, loss and number of reports of a stored
  row of that address and operator from the last 24 hours; every other row is marked as having no data and shows no latency and no
  loss; and the measured rows all come before the others.
\<close>

theorem clean_ranking_honest:
  assumes "clean_table table"
  shows "let k = rankCleanIps now o' c limit table in length (cn_rows k) \<le> 48 \<and>
    (\<forall>r \<in> set (cn_rows k). if ck_measured r
       then \<exists>x \<in> set table. ci_ip x = ck_ip r \<and> ci_operator x = op_key (cn_operator k) \<and> now - 24 * 3600000 < ci_updated x \<and>
         ck_latency r = (if 0 \<le> ci_latency x then Some (ci_latency x) else None) \<and> ck_loss r = Some (ci_loss x) \<and> ck_reports r = ci_reports x
       else ck_status r = No_data \<and> ck_latency r = None \<and> ck_loss r = None) \<and>
    (\<exists>a b. cn_rows k = a @ b \<and> list_all ck_measured a \<and> list_all (\<lambda>r. \<not> ck_measured r) b)"
proof -
  define operator where "operator = findOperator o'"
  define city where "city = (if c = None \<or> c = Some [] then ''all'' else findCity c)"
  define m where "m = by_ip (op_key operator) city table"
  define rows where "rows = sort_by rank_before (map (rank_row now operator m) (ranking_pool m))"
  have k: "cn_rows (rankCleanIps now o' c limit table) = take (rank_limit limit) rows" "cn_operator (rankCleanIps now o' c limit table) = operator"
    by (simp_all add: rankCleanIps_def Let_def operator_def city_def m_def rows_def)
  have ok: "row_ok x \<and> x \<in> set table \<and> ci_ip x = ip \<and> ci_operator x = op_key operator" if "map_of m ip = Some x" for ip x
    using by_ip_rows [OF that [unfolded m_def]] clean_table_ok [OF assms] by (auto simp: clean_ok_def list_all_iff)
  have valid: "isValidIpv4 ip" if "(ip, tier) \<in> set (ranking_pool m)" for ip tier
  proof -
    have "isValidIpv4 ip" if in_m: "ip \<in> fst ` set m"
    proof -
      obtain x where "map_of m ip = Some x" using in_m map_of_eq_None_iff [of m ip] by (cases "map_of m ip") simp_all
      then have "isPublicIpv4 ip" using ok [of ip x] unfolding row_ok_def by argo
      then show ?thesis by (rule public_valid)
    qed
    then show ?thesis using pool_ips [OF that] pool_valid [of ip] by argo
  qed
  have each: "\<exists>p \<in> set (ranking_pool m). r = rank_row now operator m p" if "r \<in> set rows" for r
    using that by (auto simp: rows_def)
  have sep: "ck_measured r \<longleftrightarrow> ck_score r < 1000000" if "r \<in> set rows" for r
  proof -
    from each [OF that] obtain ip tier where p: "(ip, tier) \<in> set (ranking_pool m)" "r = rank_row now operator m (ip, tier)" by auto
    show ?thesis using measured_score [of m ip now operator tier] ok valid [OF p(1)] p(2) by (auto split: if_splits)
  qed
  have "sorted_wrt rank_before rows" unfolding rows_def by (rule rank_order.sort_by_sorted)
  then have "sorted_wrt rank_before (take (rank_limit limit) rows)" by (metis append_take_drop_id sorted_wrt_append)
  then have "list_all (\<lambda>r. \<not> ck_measured r) (dropWhile ck_measured (take (rank_limit limit) rows))"
  proof (rule sorted_split)
    fix x y assume "x \<in> set (take (rank_limit limit) rows)" "y \<in> set (take (rank_limit limit) rows)" "rank_before x y" "ck_measured y"
    then show "ck_measured x" using sep [of x] sep [of y] by (auto simp: rank_before_def dest!: in_set_takeD)
  qed
  moreover have "list_all ck_measured (takeWhile ck_measured (take (rank_limit limit) rows))" by (auto simp: list_all_iff dest: set_takeWhileD)
  ultimately have split: "\<exists>a b. take (rank_limit limit) rows = a @ b \<and> list_all ck_measured a \<and> list_all (\<lambda>r. \<not> ck_measured r) b"
    by (intro exI [of _ "takeWhile ck_measured (take (rank_limit limit) rows)"] exI [of _ "dropWhile ck_measured (take (rank_limit limit) rows)"])
      (simp only: takeWhile_dropWhile_id simp_thms)
  define good where "good r \<longleftrightarrow> (if ck_measured r
       then \<exists>x \<in> set table. ci_ip x = ck_ip r \<and> ci_operator x = op_key operator \<and> now - 24 * 3600000 < ci_updated x \<and>
         ck_latency r = (if 0 \<le> ci_latency x then Some (ci_latency x) else None) \<and> ck_loss r = Some (ci_loss x) \<and> ck_reports r = ci_reports x
       else ck_status r = No_data \<and> ck_latency r = None \<and> ck_loss r = None)" for r :: ranked_ip
  have good: "good r" if "r \<in> set rows" for r
  proof -
    from each [OF that] obtain p where r: "r = rank_row now operator m p" by blast
    show ?thesis
    proof (cases "ck_measured r")
      case True
      then obtain x where "map_of m (fst p) = Some x" and "now - 24 * 3600000 < ci_updated x"
        and "ck_latency r = (if 0 \<le> ci_latency x then Some (ci_latency x) else None)" "ck_loss r = Some (ci_loss x)" "ck_reports r = ci_reports x"
        unfolding r using rank_row_facts(3) by metis
      then show ?thesis unfolding good_def if_P [OF True] using ok [of "fst p" x] rank_row_facts(4) [where now = now and operator = operator and m = m and p = p] by (intro bexI [of _ x]) (simp_all add: r)
    next
      case False
      then show ?thesis unfolding good_def if_not_P [OF False] using ok rank_row_facts(1,2) [where now = now and operator = operator and m = m and p = p, folded r] by blast
    qed
  qed
  have "\<forall>r \<in> set (take (rank_limit limit) rows). good r" using good by (blast dest: in_set_takeD)
  moreover have "length (take (rank_limit limit) rows) \<le> 48" using rank_limit_48 [of limit] by simp
  ultimately show ?thesis unfolding Let_def k good_def using split by (intro conjI)
qed

definition demo_report :: jval where
  "demo_report = JObj [(''ip'', JStr ''104.16.0.1''), (''operator'', JStr ''mci''), (''latencyMs'', JNum (Fin 80)), (''lossPct'', JNum (Fin 0))]"

definition demo_clean :: clean_report where
  "demo_clean = \<lparr>cq_ip = ''104.16.0.1'', cq_operator = ''mci'', cq_city = ''other'', cq_latency = 80, cq_loss = 0, cq_ok = True\<rparr>"

lemma demo_parsed: "parseCleanIpReport demo_report = Inr demo_clean"
  by code_simp

theorem clean_ranking_honest_witness:
  "length (cn_rows (rankCleanIps 3600000 (Some ''mci'') None (Fin 24) (recordCleanIpReport 0 demo_clean []))) \<le> 48"
  using clean_ranking_honest [OF clean_table.report [OF clean_table.empty demo_parsed], of 3600000 "Some ''mci''" None "Fin 24" 0]
  unfolding Let_def by (rule conjunct1)

text \<open>
  A report without a measurement (\<open>-1\<close>) is averaged into the stored latency like a number and makes the address look faster.
\<close>

lemma unmeasured_report_lowers:
  assumes "cq_latency r = -1" and "1 \<le> ci_latency x" and "is_int (ci_latency x)"
  shows "ci_latency (merge_clean now r x) < ci_latency x"
proof -
  obtain n where n: "ci_latency x = of_int n" "1 \<le> n" using assms(2,3) by (auto simp: is_int_def Ints_def elim!: Ints_cases)
  have "0 \<le> ci_latency x * 6 / 10 - 4 / 10" using assms(2) by simp
  moreover have "\<lfloor>(of_int n * 6 / 10 - 4 / 10 :: rat) + 1 / 2\<rfloor> < n" using n(2) by (simp add: floor_less_iff)
  ultimately show ?thesis using assms(1) n by (simp add: merge_clean_def sql_round_def)
qed

end
