(* ===== verification/Cp_Drop.thy ===== *)
theory Cp_Drop
  imports Cp_Clean_Ip Cp_Flow
begin

text \<open>
  The WhiteHole dead-drop (\<^verbatim>\<open>src/whitehole.ts\<close>): the clean-IP list of a tenant, cut into TXT records of the tenant's own zone,
  and the reader script that puts it together from inside a shutdown. The script is modelled as the program it is: its commands are
  functions on texts, and \<open>dig\<close> is a parameter. The Persian cards are not modelled; ids of the stored rows are.
\<close>

subsection \<open>The payload and its shards\<close>

definition drop_ip :: "ranked_ip \<Rightarrow> jval" where
  "drop_ip r = JObj [(''ip'', JStr (ck_ip r)), (''port'', JInt (int (ck_port r))), (''sni'', JStr (ck_sni r)), (''status'', JStr (status_label (ck_status r)))]"

definition buildWhiteHolePayload :: "num \<Rightarrow> clean_ranking \<Rightarrow> string \<Rightarrow> nat \<Rightarrow> jval" where
  "buildWhiteHolePayload now ranking zone limit =
     (let ordered = take limit (filter ck_measured (cn_rows ranking) @ filter (\<lambda>r. \<not> ck_measured r) (cn_rows ranking))
      in JObj [(''v'', JInt 13), (''ts'', JNum (Fin now)), (''zone'', JStr zone), (''ips'', JArr (map drop_ip ordered)),
           (''dns'', JArr (map JStr [''178.22.122.100'', ''185.51.200.2'', ''10.202.10.10'', ''10.202.10.11''])),
           (''sni'', JArr (map JStr [''snapp.ir'', ''digikala.com'', ''aparat.com'', ''divar.ir'', ''myket.ir'']))])"

definition base64UrlSafe :: "string \<Rightarrow> string" where
  "base64UrlSafe value = strip_eq (map url_safe (btoa (utf8_encode value)))"

definition chunkString :: "string \<Rightarrow> nat \<Rightarrow> string list" where
  "chunkString value width = chunks width value"

definition WHITEHOLE_MAX_SHARDS :: nat where
  "WHITEHOLE_MAX_SHARDS = 8"

definition WHITEHOLE_SHARD_CHARS :: nat where
  "WHITEHOLE_SHARD_CHARS = 180"

record whitehole_drop =
  wh_payload :: jval
  wh_shards :: "string list"
  wh_checksum :: nat
  wh_names :: "string list"

definition shard_name :: "nat \<Rightarrow> string" where
  "shard_name n = ''ghost'' @ show_nat n"

definition assembleWhiteHoleDrop :: "jval \<Rightarrow> whitehole_drop" where
  "assembleWhiteHoleDrop payload =
     (let encoded = base64UrlSafe (json_stringify payload);
          shards = take WHITEHOLE_MAX_SHARDS (chunkString encoded WHITEHOLE_SHARD_CHARS)
      in \<lparr>wh_payload = payload, wh_shards = shards, wh_checksum = length encoded mod 97,
          wh_names = map (\<lambda>i. shard_name (Suc i)) [0..<length shards]\<rparr>)"

definition whiteHoleRecordValue :: "nat \<Rightarrow> nat \<Rightarrow> nat \<Rightarrow> string \<Rightarrow> string" where
  "whiteHoleRecordValue index n checksum shard =
     ''v13;p'' @ show_nat (Suc index) @ ''='' @ shard @ '';n='' @ show_nat n @ '';c='' @ show_nat checksum"

definition validateDropDomain :: "string \<Rightarrow> string res" where
  "validateDropDomain value =
     (let domain = take 253 (to_lower (trim value)) in if isValidHostname domain then Inr domain else Inl (http_error 400 ''invalid_domain''))"

subsection \<open>Publishing and clearing\<close>

record drop_row =
  dr_id :: string
  dr_tenant :: string
  dr_zone :: string
  dr_names :: string
  dr_sha256 :: string
  dr_count :: nat
  dr_status :: string
  dr_detail :: string
  dr_created :: num
  dr_expires :: num

record drop_world =
  dw_world :: cp_world
  dw_drops :: "drop_row list"

definition dw_run :: "(cp_world, 'a) act \<Rightarrow> (drop_world, 'a) act" where
  "dw_run m d = (case m (dw_world d) of (r, w) \<Rightarrow> (r, d\<lparr>dw_world := w\<rparr>))"

text \<open>The tenant's newest live token connection that is bound to a zone: \<open>activeConnection\<close>.\<close>

definition drop_connection :: "cp_runtime \<Rightarrow> string \<Rightarrow> cp_db \<Rightarrow> (connection \<times> string \<times> string) res" where
  "drop_connection rtm tenant d =
     (let none = Inl (http_error 409 ''cloudflare_reconnect_required'') in
      case sort_by (\<lambda>a b. c_created b \<le> c_created a)
          (filter (\<lambda>c. c_tenant c = tenant \<and> c_auth_type c = ''api_token'' \<and> c_revoked c = None \<and>
             (case c_expires c of None \<Rightarrow> False | Some t \<Rightarrow> cr_now rtm < t)) (cp_conns d)) of
        [] \<Rightarrow> none
      | c # _ \<Rightarrow> (case (c_zone c, c_zone_name c) of
            (Some i, Some z) \<Rightarrow> if i = [] \<or> z = [] then none else Inr (c, i, z)
          | _ \<Rightarrow> none))"

fun put_shards :: "cp_runtime \<Rightarrow> string \<Rightarrow> string \<Rightarrow> string \<Rightarrow> nat \<Rightarrow> nat \<Rightarrow> nat \<Rightarrow> string list \<Rightarrow> (cp_world, unit) act" where
  "put_shards rtm auth zoneId zone n checksum index [] = act_ret ()"
| "put_shards rtm auth zoneId zone n checksum index (shard # shards) =
     act_bind (upsertTxtRecord rtm auth zoneId (shard_name (Suc index) @ ''.'' @ zone) (whiteHoleRecordValue index n checksum shard) 120)
       (\<lambda>_. put_shards rtm auth zoneId zone n checksum (Suc index) shards)"

record drop_result =
  ds_zone :: string
  ds_names :: "string list"
  ds_shards :: nat
  ds_checksum :: nat
  ds_digest :: string
  ds_measured :: nat

definition publishWhiteHoleDrop :: "cp_runtime \<Rightarrow> principal \<Rightarrow> clean_ranking \<Rightarrow> (drop_world, drop_result) act" where
  "publishWhiteHoleDrop rtm p ranking =
     act_bind (dw_run (cdb_run (rateLimit rtm (''whitehole:'' @ pr_tenant p) 6 3600))) (\<lambda>allowed.
     act_seq (act_when (\<not> allowed) (http_error 429 ''rate_limited''))
     (act_bind (dw_run (cdb_res (drop_connection rtm (pr_tenant p)))) (\<lambda>(conn, zoneId, zone).
      let drp = assembleWhiteHoleDrop (buildWhiteHolePayload (cr_now rtm) ranking zone 10);
          digest = cp_sha256 (cr_P rtm) (json_stringify (wh_payload drp)) in
      act_bind (act_lift (getValidCloudflareAuth rtm conn)) (\<lambda>auth.
      act_seq (dw_run (put_shards rtm auth zoneId zone (length (wh_shards drp)) (wh_checksum drp) 0 (wh_shards drp)))
      (act_seq (act_upd (\<lambda>d. d\<lparr>dw_drops := dw_drops d @ [\<lparr>dr_id = cr_uuid rtm, dr_tenant = pr_tenant p, dr_zone = zone,
           dr_names = json_stringify (JArr (map JStr (wh_names drp))), dr_sha256 = digest, dr_count = length (wh_shards drp),
           dr_status = ''published'', dr_detail = show_nat (cn_measured ranking) @ '' measured IP(s) in the drop'',
           dr_created = cr_now rtm, dr_expires = cr_now rtm + 30 * 86400000\<rparr>]\<rparr>))
      (act_ret \<lparr>ds_zone = zone, ds_names = wh_names drp, ds_shards = length (wh_shards drp), ds_checksum = wh_checksum drp,
                ds_digest = digest, ds_measured = cn_measured ranking\<rparr>))))))"

text \<open>
  \<open>deleteTxtRecords\<close> of \<^verbatim>\<open>cloudflare-api.ts\<close>. The model knows one text per name, the one the program wrote; the first deletion
  takes it away.
\<close>

fun iter_of :: "jval \<Rightarrow> jval list res" where
  "iter_of (JArr xs) = Inr xs"
| "iter_of (JStr s) = Inr (map (\<lambda>c. JStr [c]) s)"
| "iter_of v = Inl (JsError ''TypeError'')"

fun delete_each :: "cp_runtime \<Rightarrow> string \<Rightarrow> string \<Rightarrow> string \<Rightarrow> jval list \<Rightarrow> (cp_world, nat) act" where
  "delete_each rtm token zoneId name [] = act_ret 0"
| "delete_each rtm token zoneId name (v # vs) =
     act_bind (act_lift (need_obj v)) (\<lambda>r.
     act_bind (act_lift (cloudflareApi rtm token ''DELETE'' (''/zones/'' @ zoneId @ ''/dns_records/'' @ to_str (fld r ''id'')) [])) (\<lambda>_.
     act_seq (act_upd (\<lambda>w. w\<lparr>cw_dns := adel (zoneId, ''TXT'', name) (cw_dns w)\<rparr>))
     (act_bind (delete_each rtm token zoneId name vs) (\<lambda>n. act_ret (Suc n)))))"

definition deleteTxtRecords :: "cp_runtime \<Rightarrow> string \<Rightarrow> string \<Rightarrow> string \<Rightarrow> (cp_world, nat) act" where
  "deleteTxtRecords rtm token zoneId name =
     act_bind (act_lift (res_bind (cloudflareApi rtm token ''GET''
         (''/zones/'' @ zoneId @ ''/dns_records?type=TXT&name='' @ encodeURIComponent name @ ''&per_page=20'') []) iter_of))
       (delete_each rtm token zoneId name)"

fun clear_shards :: "cp_runtime \<Rightarrow> string \<Rightarrow> string \<Rightarrow> string \<Rightarrow> nat list \<Rightarrow> (cp_world, nat) act" where
  "clear_shards rtm auth zoneId zone [] = act_ret 0"
| "clear_shards rtm auth zoneId zone (i # ks) =
     act_bind (deleteTxtRecords rtm auth zoneId (shard_name i @ ''.'' @ zone)) (\<lambda>n.
     act_bind (clear_shards rtm auth zoneId zone ks) (\<lambda>m. act_ret (n + m)))"

definition clearWhiteHoleDrop :: "cp_runtime \<Rightarrow> principal \<Rightarrow> (drop_world, nat) act" where
  "clearWhiteHoleDrop rtm p =
     act_bind (dw_run (cdb_res (drop_connection rtm (pr_tenant p)))) (\<lambda>(conn, zoneId, zone).
     act_bind (act_lift (getValidCloudflareAuth rtm conn)) (\<lambda>auth.
     act_bind (dw_run (clear_shards rtm auth zoneId zone [1..<Suc WHITEHOLE_MAX_SHARDS])) (\<lambda>removed.
     act_seq (act_upd (\<lambda>d. d\<lparr>dw_drops := map (\<lambda>x. if dr_tenant x = pr_tenant p \<and> dr_status x = ''published''
         then x\<lparr>dr_status := ''cleared'', dr_detail := show_nat removed @ '' record(s) removed''\<rparr> else x) (dw_drops d)\<rparr>))
       (act_ret removed))))"

definition latestWhiteHoleDrop :: "num \<Rightarrow> string \<Rightarrow> drop_row list \<Rightarrow> drop_row option" where
  "latestWhiteHoleDrop now tenant drops =
     (case sort_by (\<lambda>a b. dr_created b \<le> dr_created a) (filter (\<lambda>x. dr_tenant x = tenant \<and> now < dr_expires x) drops) of
        [] \<Rightarrow> None | x # _ \<Rightarrow> Some x)"

definition purgeExpiredWhiteHoleDrops :: "num \<Rightarrow> drop_row list \<Rightarrow> nat \<times> drop_row list" where
  "purgeExpiredWhiteHoleDrops now drops = (length (filter (\<lambda>x. dr_expires x \<le> now) drops), filter (\<lambda>x. \<not> dr_expires x \<le> now) drops)"

subsection \<open>The reader script\<close>

text \<open>\<open>dig +short TXT name @resolver | tr -d '\"' | head -1\<close>, over the output of \<open>dig\<close>; the first resolver that prints something counts.\<close>

definition DROP_RESOLVERS :: "string list" where
  "DROP_RESOLVERS = [''178.22.122.100'', ''185.51.200.2'', ''10.202.10.10'', ''10.202.10.11'']"

definition dig_line :: "string \<Rightarrow> string" where
  "dig_line out = takeWhile (\<lambda>c. c \<noteq> CHR 0x0A) (filter (\<lambda>c. c \<noteq> CHR 0x22) out)"

definition ask :: "(string \<Rightarrow> string \<Rightarrow> string) \<Rightarrow> string \<Rightarrow> string" where
  "ask dig name = (case filter (\<lambda>t. t \<noteq> []) (map (\<lambda>r. dig_line (dig r name)) DROP_RESOLVERS) of [] \<Rightarrow> [] | t # _ \<Rightarrow> t)"

text \<open>\<open>sed 's/^v13;p[0-9]*=//; s/;n=.*$//'\<close>.\<close>

definition sed_head :: "string \<Rightarrow> string" where
  "sed_head s =
     (if starts_with ''v13;p'' s then (case dropWhile is_digit (drop 5 s) of c # t \<Rightarrow> if c = CHR ''='' then t else s | [] \<Rightarrow> s) else s)"

fun sed_tail :: "string \<Rightarrow> string" where
  "sed_tail [] = []"
| "sed_tail (c # cs) = (if starts_with '';n='' (c # cs) then [] else c # sed_tail cs)"

fun collect :: "(string \<Rightarrow> string \<Rightarrow> string) \<Rightarrow> string \<Rightarrow> nat list \<Rightarrow> string" where
  "collect dig domain [] = []"
| "collect dig domain (i # ks) =
     (let txt = ask dig (shard_name i @ ''.'' @ domain) in if txt = [] then [] else sed_tail (sed_head txt) @ collect dig domain ks)"

definition read_drop :: "(string \<Rightarrow> string \<Rightarrow> string) \<Rightarrow> string \<Rightarrow> byte list option" where
  "read_drop dig domain =
     (let b64 = collect dig domain [1..<9] in
      if b64 = [] then None else atob (map url_unsafe b64 @ replicate ((4 - length b64 mod 4) mod 4) CHR ''=''))"

subsection \<open>What is published can be read\<close>

lemma show_nat_length: "length (show_nat n) \<le> Suc n"
proof (induction n rule: show_nat.induct)
  case (1 n)
  then show ?case by (subst show_nat.simps) auto
qed

lemma sed_head_value: "sed_head (''v13;p'' @ show_nat n @ ''='' @ t) = t"
proof -
  have "dropWhile is_digit (show_nat n @ ''='' @ t) = ''='' @ t"
    using show_nat_digits [of n] by (subst dropWhile_append2) (auto simp: list_all_iff is_digit_def)
  then show ?thesis by (simp add: sed_head_def)
qed

lemma sed_tail_plain: "CHR '';'' \<notin> set a \<Longrightarrow> sed_tail (a @ '';n='' @ t) = a"
  by (induction a) auto

lemma encoded_plain: "c \<in> set (base64UrlSafe v) \<Longrightarrow> is_alnum c \<or> c = CHR ''-'' \<or> c = CHR ''_''"
  unfolding base64UrlSafe_def b64u_encode_def [symmetric] by (rule b64u_encode_no_sep)

lemma value_chars: "c \<in> set (whiteHoleRecordValue i n k t) \<Longrightarrow> c \<in> set t \<or> is_alnum c \<or> c \<in> set '';=''"
  using show_nat_digits [of "Suc i"] show_nat_digits [of n] show_nat_digits [of k]
  by (auto simp: whiteHoleRecordValue_def list_all_iff is_alnum_def is_lower_def is_digit_def)

text \<open>What \<open>dig\<close> prints for a name of the zone whose TXT texts are \<open>txt\<close>: the quoted text on a line of its own.\<close>

definition dig_of :: "(string \<Rightarrow> string option) \<Rightarrow> string \<Rightarrow> string \<Rightarrow> string" where
  "dig_of txts resolver name = (case txts name of None \<Rightarrow> [] | Some t \<Rightarrow> [CHR 0x22] @ t @ [CHR 0x22, CHR 0x0A])"

lemma ask_dig:
  "txts name = None \<Longrightarrow> ask (dig_of txts) name = []"
  "txts name = Some t \<Longrightarrow> CHR 0x22 \<notin> set t \<Longrightarrow> CHR 0x0A \<notin> set t \<Longrightarrow> ask (dig_of txts) name = t"
proof -
  show "txts name = None \<Longrightarrow> ask (dig_of txts) name = []" by (simp add: ask_def dig_of_def dig_line_def DROP_RESOLVERS_def)
  assume t: "txts name = Some t" "CHR 0x22 \<notin> set t" "CHR 0x0A \<notin> set t"
  have "filter (\<lambda>c. c \<noteq> CHR 0x22) t = t" using t(2) by (auto simp: filter_id_conv)
  moreover have "takeWhile (\<lambda>c. c \<noteq> CHR 0x0A) (t @ [CHR 0x0A]) = t" using t(3) by (subst takeWhile_append2) auto
  ultimately have "dig_line (dig_of txts r name) = t" for r by (simp add: dig_line_def dig_of_def t(1))
  then show "ask (dig_of txts) name = t" by (simp add: ask_def DROP_RESOLVERS_def)
qed

definition shard_ok :: "string \<Rightarrow> bool" where
  "shard_ok t \<longleftrightarrow> list_all (\<lambda>c. is_alnum c \<or> c = CHR ''-'' \<or> c = CHR ''_'') t"

lemma read_value: "shard_ok t \<Longrightarrow> sed_tail (sed_head (whiteHoleRecordValue i n k t)) = t"
  unfolding whiteHoleRecordValue_def sed_head_value
  by (rule sed_tail_plain) (auto simp: shard_ok_def list_all_iff is_alnum_def is_lower_def is_digit_def is_upper_def)

text \<open>The reader concatenates the shards that follow each other without a gap.\<close>

lemma collect_shards:
  assumes "\<And>k. k < length shards \<Longrightarrow> \<exists>n c. txts (shard_name (Suc (i + k)) @ ''.'' @ zone) = Some (whiteHoleRecordValue (i + k) n c (shards ! k))"
    and "list_all shard_ok shards" and "i + length shards \<le> 8"
    and "i + length shards < 8 \<Longrightarrow> txts (shard_name (Suc (i + length shards)) @ ''.'' @ zone) = None"
  shows "collect (dig_of txts) zone [Suc i..<9] = concat shards"
  using assms
proof (induction shards arbitrary: i)
  case Nil
  show ?case
  proof (cases "i < 8")
    case True
    then have "[Suc i..<9] = Suc i # [Suc (Suc i)..<9]" by (simp add: upt_rec)
    with Nil(4) True show ?thesis by (simp add: ask_dig(1) Let_def)
  next
    case False
    then show ?thesis by simp
  qed
next
  case (Cons t shards)
  from Cons.prems(1) [of 0] obtain n c where v: "txts (shard_name (Suc i) @ ''.'' @ zone) = Some (whiteHoleRecordValue i n c t)" by auto
  let ?v = "whiteHoleRecordValue i n c t"
  have up: "[Suc i..<9] = Suc i # [Suc (Suc i)..<9]" using Cons.prems(3) by (simp add: upt_rec)
  have t: "shard_ok t" using Cons.prems(2) by simp
  have "\<forall>ch \<in> set ?v. ch \<noteq> CHR 0x22 \<and> ch \<noteq> CHR 0x0A"
    using t by (auto simp: shard_ok_def list_all_iff is_alnum_def is_lower_def is_digit_def is_upper_def dest!: value_chars)
  then have "ask (dig_of txts) (shard_name (Suc i) @ ''.'' @ zone) = ?v" using v by (intro ask_dig(2)) auto
  moreover have "?v \<noteq> []" by (simp add: whiteHoleRecordValue_def)
  moreover have "collect (dig_of txts) zone [Suc (Suc i)..<9] = concat shards"
  proof (rule Cons.IH)
    fix k assume "k < length shards"
    then show "\<exists>n c. txts (shard_name (Suc (Suc i + k)) @ ''.'' @ zone) = Some (whiteHoleRecordValue (Suc i + k) n c (shards ! k))"
      using Cons.prems(1) [of "Suc k"] by simp
  qed (use Cons.prems in simp_all)
  ultimately show ?case unfolding up by (simp add: Let_def read_value [OF t])
qed

lemma shard_name_inj [simp]: "shard_name a = shard_name b \<longleftrightarrow> a = b"
  by (auto simp: shard_name_def dest!: show_nat_inj)

lemma put_shards_dns:
  assumes "put_shards rtm auth zoneId zone n c i shards w = (Inr (), w')" and "list_all (\<lambda>t. length t \<le> 180) shards" and "i + length shards \<le> 8" "n \<le> 8" "c < 97"
  shows "(\<forall>k < length shards. map_of (cw_dns w') (zoneId, ''TXT'', shard_name (Suc (i + k)) @ ''.'' @ zone) = Some (whiteHoleRecordValue (i + k) n c (shards ! k))) \<and>
    (\<forall>q. (\<forall>k < length shards. q \<noteq> (zoneId, ''TXT'', shard_name (Suc (i + k)) @ ''.'' @ zone)) \<longrightarrow> map_of (cw_dns w') q = map_of (cw_dns w) q) \<and>
    cw_db w' = cw_db w"
  using assms
proof (induction shards arbitrary: i w)
  case Nil
  then show ?case by (simp add: act_ret_def)
next
  case (Cons t shards)
  let ?key = "\<lambda>i. (zoneId, ''TXT'', shard_name (Suc i) @ ''.'' @ zone)"
  have key: "?key a = ?key b \<longleftrightarrow> a = b" for a b by simp
  have "length (whiteHoleRecordValue i n c t) \<le> 4500"
    using Cons.prems show_nat_length [of "Suc i"] show_nat_length [of n] show_nat_length [of c] by (simp add: whiteHoleRecordValue_def)
  then have tk: "take 4500 (whiteHoleRecordValue i n c t) = whiteHoleRecordValue i n c t" by simp
  from Cons.prems(1) obtain r v where up: "upsert_record rtm auth zoneId ''TXT'' (shard_name (Suc i) @ ''.'' @ zone) (whiteHoleRecordValue i n c t) 120 w = (Inr r, v)"
    and rest: "put_shards rtm auth zoneId zone n c (Suc i) shards v = (Inr (), w')"
    by (auto simp: upsertTxtRecord_def tk act_bind_def split: prod.splits sum.splits)
  have v: "v = w\<lparr>cw_dns := upsert (?key i) (whiteHoleRecordValue i n c t) (cw_dns w)\<rparr>" using upsert_record_cases [OF up] by auto
  note ih = Cons.IH [OF rest]
  have IH: "(\<forall>k < length shards. map_of (cw_dns w') (?key (Suc i + k)) = Some (whiteHoleRecordValue (Suc i + k) n c (shards ! k)))"
    "\<forall>q. (\<forall>k < length shards. q \<noteq> ?key (Suc i + k)) \<longrightarrow> map_of (cw_dns w') q = map_of (cw_dns v) q" "cw_db w' = cw_db v"
    using ih Cons.prems by auto
  have first: "map_of (cw_dns w') (?key i) = Some (whiteHoleRecordValue i n c t)"
    using IH(2) key by (auto simp: v map_of_upsert)
  show ?case
  proof (intro conjI allI impI)
    fix k assume "k < length (t # shards)"
    then show "map_of (cw_dns w') (?key (i + k)) = Some (whiteHoleRecordValue (i + k) n c ((t # shards) ! k))"
      using first IH(1) by (cases k) auto
  next
    fix q assume q: "\<forall>k < length (t # shards). q \<noteq> ?key (i + k)"
    then have "q \<noteq> ?key i" "\<forall>k < length shards. q \<noteq> ?key (Suc i + k)" by (auto dest: spec [of _ 0] spec [of _ "Suc _"])
    then have "map_of (cw_dns w') q = map_of (cw_dns v) q" and "q \<noteq> ?key i" using IH(2) by blast+
    then show "map_of (cw_dns w') q = map_of (cw_dns w) q" by (simp add: v map_of_upsert)
  next
    show "cw_db w' = cw_db w" using IH(3) by (simp add: v)
  qed
qed

lemma encoded_shards:
  assumes "length (base64UrlSafe v) \<le> 1440"
  defines "shards \<equiv> take WHITEHOLE_MAX_SHARDS (chunkString (base64UrlSafe v) WHITEHOLE_SHARD_CHARS)"
  shows "concat shards = base64UrlSafe v" "list_all shard_ok shards" "list_all (\<lambda>t. length t \<le> 180) shards" "length shards \<le> 8"
proof -
  have le: "length (chunks 180 xs) \<le> n" if "length xs \<le> 180 * n" for xs :: string and n
    using that
  proof (induction n arbitrary: xs)
    case (Suc n)
    show ?case
    proof (cases "xs = []")
      case False
      then have "chunks 180 xs = take 180 xs # chunks 180 (drop 180 xs)" by (subst chunks.simps) simp
      with Suc.IH [of "drop 180 xs"] Suc.prems show ?thesis by simp
    qed simp
  qed simp
  have "length (chunks 180 (base64UrlSafe v)) \<le> 8" by (rule le) (use assms(1) in simp)
  then have s: "shards = chunks 180 (base64UrlSafe v)" by (simp add: shards_def chunkString_def WHITEHOLE_MAX_SHARDS_def WHITEHOLE_SHARD_CHARS_def)
  show c: "concat shards = base64UrlSafe v" by (simp add: s concat_chunks)
  show "length shards \<le> 8" by (simp add: shards_def WHITEHOLE_MAX_SHARDS_def)
  show "list_all (\<lambda>t. length t \<le> 180) shards" using chunks_bound unfolding s by (auto simp: list_all_iff)
  show "list_all shard_ok shards" unfolding list_all_iff shard_ok_def using encoded_plain [of _ v] unfolding c [symmetric] by auto
qed

lemma shell_decode: "atob (map url_unsafe (base64UrlSafe v) @ replicate ((4 - length (base64UrlSafe v) mod 4) mod 4) CHR ''='') = Some (utf8_encode v)"
  using base64UrlToBytes_encode [of "utf8_encode v"] by (simp add: base64UrlSafe_def base64UrlToBytes_def bytesToBase64Url_def Let_def)

lemma rateLimit_frame: "rateLimit rtm key n secs d = (q, d') \<Longrightarrow> \<exists>rates. d' = d\<lparr>cp_rates := rates\<rparr>"
  by (auto simp: rateLimit_def Let_def)

lemma publish_cases:
  assumes "publishWhiteHoleDrop rtm p ranking d = (Inr res, d')"
  defines "drp \<equiv> \<lambda>zone. assembleWhiteHoleDrop (buildWhiteHolePayload (cr_now rtm) ranking zone 10)"
  shows "\<exists>rates conn zoneId zone auth w.
    drop_connection rtm (pr_tenant p) ((cw_db (dw_world d))\<lparr>cp_rates := rates\<rparr>) = Inr (conn, zoneId, zone) \<and>
    put_shards rtm auth zoneId zone (length (wh_shards (drp zone))) (wh_checksum (drp zone)) 0 (wh_shards (drp zone))
       ((dw_world d)\<lparr>cw_db := (cw_db (dw_world d))\<lparr>cp_rates := rates\<rparr>\<rparr>) = (Inr (), w) \<and>
    dw_world d' = w \<and> ds_zone res = zone \<and> ds_shards res = length (wh_shards (drp zone))"
proof -
  obtain q d1 where r: "rateLimit rtm (''whitehole:'' @ pr_tenant p) 6 3600 (cw_db (dw_world d)) = (q, d1)" by fastforce
  from rateLimit_frame [OF r] obtain rates where d1: "d1 = (cw_db (dw_world d))\<lparr>cp_rates := rates\<rparr>" by blast
  from assms(1) obtain conn zoneId zone auth w where
    "drop_connection rtm (pr_tenant p) d1 = Inr (conn, zoneId, zone)"
    "put_shards rtm auth zoneId zone (length (wh_shards (drp zone))) (wh_checksum (drp zone)) 0 (wh_shards (drp zone)) ((dw_world d)\<lparr>cw_db := d1\<rparr>) = (Inr (), w)"
    "dw_world d' = w" "ds_zone res = zone" "ds_shards res = length (wh_shards (drp zone))"
    unfolding publishWhiteHoleDrop_def Let_def drp_def act_bind_def act_seq_def act_when_def act_lift_def act_ret_def act_throw_def act_upd_def
      dw_run_def cdb_run_def cdb_res_def r prod.case
    by (auto split: prod.splits sum.splits if_splits)
  then show ?thesis unfolding d1 by blast
qed

text \<open>
  C34. What is published can be read. When a tenant's drop was published - the text of its payload has at most 1440 base64url
  characters, and the zone holds no shard of an earlier drop beyond the new ones - then a client that asks for the zone's TXT records
  through any resolver reconstructs exactly the payload, byte by byte; and the records went to the zone of a live connection of that
  tenant.
\<close>

theorem whitehole_readable:
  assumes "publishWhiteHoleDrop rtm p ranking d = (Inr res, d')"
    and "length (base64UrlSafe (json_stringify (buildWhiteHolePayload (cr_now rtm) ranking (ds_zone res) 10))) \<le> 1440"
    and "\<forall>zoneId i. ds_shards res < i \<and> i \<le> 8 \<longrightarrow> map_of (cw_dns (dw_world d)) (zoneId, ''TXT'', shard_name i @ ''.'' @ ds_zone res) = None"
  shows "\<exists>c \<in> set (cp_conns (cw_db (dw_world d))). c_tenant c = pr_tenant p \<and> c_revoked c = None \<and> c_zone_name c = Some (ds_zone res) \<and>
    read_drop (dig_of (\<lambda>name. map_of (cw_dns (dw_world d')) (the (c_zone c), ''TXT'', name))) (ds_zone res) =
      Some (utf8_encode (json_stringify (buildWhiteHolePayload (cr_now rtm) ranking (ds_zone res) 10)))"
proof -
  let ?json = "\<lambda>zone. json_stringify (buildWhiteHolePayload (cr_now rtm) ranking zone 10)"
  let ?drp = "\<lambda>zone. assembleWhiteHoleDrop (buildWhiteHolePayload (cr_now rtm) ranking zone 10)"
  obtain rates conn zoneId zone auth w where
    conn: "drop_connection rtm (pr_tenant p) ((cw_db (dw_world d))\<lparr>cp_rates := rates\<rparr>) = Inr (conn, zoneId, zone)"
    and put: "put_shards rtm auth zoneId zone (length (wh_shards (?drp zone))) (wh_checksum (?drp zone)) 0 (wh_shards (?drp zone))
       ((dw_world d)\<lparr>cw_db := (cw_db (dw_world d))\<lparr>cp_rates := rates\<rparr>\<rparr>) = (Inr (), w)"
    and w: "dw_world d' = w" and z: "ds_zone res = zone" and n: "ds_shards res = length (wh_shards (?drp zone))"
    using publish_cases [OF assms(1)] by blast
  have shards: "wh_shards (?drp zone) = take WHITEHOLE_MAX_SHARDS (chunkString (base64UrlSafe (?json zone)) WHITEHOLE_SHARD_CHARS)"
    by (simp add: assembleWhiteHoleDrop_def Let_def)
  note enc = encoded_shards [OF assms(2) [unfolded z], folded shards]
  have "wh_checksum (?drp zone) < 97" by (simp add: assembleWhiteHoleDrop_def Let_def)
  moreover have "0 + length (wh_shards (?drp zone)) \<le> 8" using enc(4) by simp
  ultimately have dns: "\<forall>k < length (wh_shards (?drp zone)). map_of (cw_dns w) (zoneId, ''TXT'', shard_name (Suc (0 + k)) @ ''.'' @ zone) =
      Some (whiteHoleRecordValue (0 + k) (length (wh_shards (?drp zone))) (wh_checksum (?drp zone)) (wh_shards (?drp zone) ! k))"
    and same: "\<forall>q. (\<forall>k < length (wh_shards (?drp zone)). q \<noteq> (zoneId, ''TXT'', shard_name (Suc (0 + k)) @ ''.'' @ zone)) \<longrightarrow>
      map_of (cw_dns w) q = map_of (cw_dns (dw_world d)) q"
    using put_shards_dns [OF put enc(3)] enc(4) by simp_all
  have "collect (dig_of (\<lambda>name. map_of (cw_dns w) (zoneId, ''TXT'', name))) zone [Suc 0..<9] = concat (wh_shards (?drp zone))"
  proof (rule collect_shards)
    show "list_all shard_ok (wh_shards (?drp zone))" "0 + length (wh_shards (?drp zone)) \<le> 8" using enc by simp_all
  next
    fix k assume "k < length (wh_shards (?drp zone))"
    then show "\<exists>n c. map_of (cw_dns w) (zoneId, ''TXT'', shard_name (Suc (0 + k)) @ ''.'' @ zone) =
        Some (whiteHoleRecordValue (0 + k) n c (wh_shards (?drp zone) ! k))" using dns by auto
  next
    assume lt: "0 + length (wh_shards (?drp zone)) < 8"
    have "map_of (cw_dns w) (zoneId, ''TXT'', shard_name (Suc (length (wh_shards (?drp zone)))) @ ''.'' @ zone) =
        map_of (cw_dns (dw_world d)) (zoneId, ''TXT'', shard_name (Suc (length (wh_shards (?drp zone)))) @ ''.'' @ zone)"
      by (rule same [rule_format]) simp
    then show "map_of (cw_dns w) (zoneId, ''TXT'', shard_name (Suc (0 + length (wh_shards (?drp zone)))) @ ''.'' @ zone) = None"
      using assms(3) lt by (simp add: z n)
  qed
  moreover have "base64UrlSafe (?json zone) \<noteq> []"
    by (simp add: base64UrlSafe_def b64u_encode_def [symmetric] b64u_encode_Nil_iff buildWhiteHolePayload_def Let_def utf8_encode_def utf8_char_def)
  ultimately have "read_drop (dig_of (\<lambda>name. map_of (cw_dns w) (zoneId, ''TXT'', name))) zone = Some (utf8_encode (?json zone))"
    unfolding read_drop_def enc(1) Let_def using shell_decode by simp
  moreover have "conn \<in> set (cp_conns (cw_db (dw_world d))) \<and> c_tenant conn = pr_tenant p \<and> c_revoked conn = None \<and>
      c_zone conn = Some zoneId \<and> c_zone_name conn = Some zone"
  proof -
    let ?cs = "sort_by (\<lambda>a b. c_created b \<le> c_created a)
          (filter (\<lambda>c. c_tenant c = pr_tenant p \<and> c_auth_type c = ''api_token'' \<and> c_revoked c = None \<and>
             (case c_expires c of None \<Rightarrow> False | Some t \<Rightarrow> cr_now rtm < t)) (cp_conns (cw_db (dw_world d))))"
    from conn obtain cs where cs: "?cs = conn # cs" and f: "c_zone conn = Some zoneId \<and> c_zone_name conn = Some zone"
      by (auto simp: drop_connection_def Let_def split: list.splits option.splits if_splits)
    have "conn \<in> set ?cs" by (simp add: cs)
    with f show ?thesis by simp
  qed
  ultimately show ?thesis unfolding w z by (intro bexI [of _ conn]) simp_all
qed

definition demo_drop_conn :: "string \<Rightarrow> connection" where
  "demo_drop_conn enc = (demo_conn enc)\<lparr>c_expires := Some 9000\<rparr>"

definition demo_drop_world :: "string \<Rightarrow> drop_world" where
  "demo_drop_world enc = \<lparr>dw_world = cp_start\<lparr>cw_db := empty_cp\<lparr>cp_conns := [demo_drop_conn enc]\<rparr>\<rparr>, dw_drops = []\<rparr>"

definition demo_owner :: principal where
  "demo_owner = \<lparr>pr_tenant = ''t1'', pr_telegram = ''42'', pr_name = ''Ali'', pr_admin = False, pr_session = ''s1''\<rparr>"

definition demo_ranking :: clean_ranking where
  "demo_ranking = \<lparr>cn_operator = findOperator None, cn_city = ''all'', cn_generated = 5000,
     cn_rows = [\<lparr>ck_ip = ''104.21.64.1'', ck_tier = Cloudflare, ck_port = 443, ck_sni = ''104.21.64.1'', ck_fingerprint = ''firefox'', ck_fragment = ''19-64'',
       ck_latency = None, ck_loss = None, ck_reports = 0, ck_ok_ratio = None, ck_age = None, ck_measured = False, ck_preferred = False,
       ck_score = 1000190, ck_status = No_data\<rparr>], cn_measured = 0, cn_pool = 39\<rparr>"

lemma demo_drop_auth: "\<exists>enc. getValidCloudflareAuth demo_flow_cr (demo_drop_conn enc) = Inr ''tok''"
proof -
  obtain enc where enc: "encryptJson demo_cp \<lparr>er_key = [5], er_wrap = [1], er_data = [2]\<rparr> (JStr ''tok'') (bytesToBase64Url (replicate 32 0))
      ''cloudflare:c1:api-token'' = Inr enc" using encryptJson_eq [OF demo_key] by blast
  have "decryptJson demo_cp enc (bytesToBase64Url (replicate 32 0)) ''cloudflare:c1:api-token'' = Inr (JStr ''tok'')"
    by (rule sealed_opens [OF demo_cp_laws demo_key _ _ _ enc]) simp_all
  then have "getValidCloudflareAuth demo_flow_cr (demo_drop_conn enc) = Inr ''tok''"
    by (simp add: getValidCloudflareAuth_def demo_drop_conn_def demo_conn_def demo_flow_cr_def demo_cr_def)
  then show ?thesis ..
qed

lemma encoded_length:
  assumes "list_all (\<lambda>c. of_char c < (128 :: nat)) v \<and> length v \<le> 1000"
  shows "length (base64UrlSafe v) \<le> 1440"
proof -
  have "length (sextets bs) \<le> 4 * length bs div 3 + 4" for bs
    by (induction bs rule: sextets.induct) auto
  moreover have "length (utf8_encode v) = length v" using assms by (induction v) (auto simp: utf8_encode_def utf8_char_def)
  ultimately have "length (sextets (utf8_encode v)) \<le> 4 * length v div 3 + 4" by metis
  moreover have "4 * length v div 3 \<le> 4000 div 3" using assms by (intro div_le_mono) simp
  ultimately have "length (sextets (utf8_encode v)) \<le> 1440" by simp
  then show ?thesis unfolding base64UrlSafe_def b64u_encode_def [symmetric] by (simp add: b64u_encode_sextets)
qed

lemma show_num_whole: "show_num (of_int k) = show_int k"
  by (simp add: show_num_def is_int_def)

lemma demo_json: "list_all (\<lambda>c. of_char c < (128 :: nat)) (json_stringify (buildWhiteHolePayload 5000 demo_ranking ''example.org'' 10)) \<and>
    length (json_stringify (buildWhiteHolePayload 5000 demo_ranking ''example.org'' 10)) \<le> 1000"
proof -
  have n: "show_num 5000 = ''5000''" "show_num 13 = ''13''" "show_num 443 = ''443''"
    using show_num_whole [of 5000] show_num_whole [of 13] show_num_whole [of 443]
    by (simp_all add: show_int_def show_nat.simps digit_char_def char_of_def bit_0)
  show ?thesis
    by (simp add: buildWhiteHolePayload_def demo_ranking_def drop_ip_def Let_def quote_def esc_char_def n)
qed

lemma publish_succeeds:
  assumes "rateLimit rtm (''whitehole:'' @ pr_tenant p) 6 3600 (cw_db (dw_world d)) = (Inr True, d1)"
    and "drop_connection rtm (pr_tenant p) d1 = Inr (conn, zoneId, zone)" and "getValidCloudflareAuth rtm conn = Inr auth"
    and "put_shards rtm auth zoneId zone (length (wh_shards (assembleWhiteHoleDrop (buildWhiteHolePayload (cr_now rtm) ranking zone 10))))
       (wh_checksum (assembleWhiteHoleDrop (buildWhiteHolePayload (cr_now rtm) ranking zone 10))) 0
       (wh_shards (assembleWhiteHoleDrop (buildWhiteHolePayload (cr_now rtm) ranking zone 10))) ((dw_world d)\<lparr>cw_db := d1\<rparr>) = (Inr (), w)"
  shows "\<exists>res d'. publishWhiteHoleDrop rtm p ranking d = (Inr res, d') \<and> ds_zone res = zone"
proof -
  have "cdb_run (rateLimit rtm (''whitehole:'' @ pr_tenant p) 6 3600) (dw_world d) = (Inr True, (dw_world d)\<lparr>cw_db := d1\<rparr>)"
    unfolding cdb_run_def assms(1) by simp
  then show ?thesis unfolding publishWhiteHoleDrop_def act_bind_def dw_run_def
    using assms(2-4) by (simp add: act_seq_def act_bind_def act_when_def act_lift_def act_ret_def act_upd_def cdb_res_def Let_def)
qed

lemma demo_put:
  assumes "length z = length (d_zone demo_dep)"
  shows "\<exists>w'. put_shards demo_flow_cr tok z zone n c i shards w = (Inr (), w')"
proof (induction shards arbitrary: i w)
  case (Cons t shards)
  have "''/zones/'' @ z @ ''/dns_records'' @ u \<noteq> ''/zones/'' @ d_zone demo_dep" for u using assms by (auto dest: arg_cong [of _ _ length])
  then have "\<exists>v. upsertTxtRecord demo_flow_cr tok z nm val 120 w = (Inr ''r1'', v)" for nm val w
    by (simp add: upsertTxtRecord_def upsert_record_def Let_def demo_api act_unfold need_obj_def nullish_def)
  then obtain v where v: "upsertTxtRecord demo_flow_cr tok z (shard_name (Suc i) @ ''.'' @ zone) (whiteHoleRecordValue i n c t) 120 w = (Inr ''r1'', v)"
    by blast
  obtain w' where "put_shards demo_flow_cr tok z zone n c (Suc i) shards v = (Inr (), w')" using Cons.IH by blast
  then show ?case unfolding put_shards.simps(2) act_bind_def v by simp
qed (simp add: act_ret_def)

theorem whitehole_readable_witness:
  "\<exists>enc res d'. publishWhiteHoleDrop demo_flow_cr demo_owner demo_ranking (demo_drop_world enc) = (Inr res, d') \<and> ds_zone res = ''example.org'' \<and>
     read_drop (dig_of (\<lambda>name. map_of (cw_dns (dw_world d')) (replicate 32 CHR ''b'', ''TXT'', name))) ''example.org'' =
       Some (utf8_encode (json_stringify (buildWhiteHolePayload 5000 demo_ranking ''example.org'' 10)))"
proof -
  obtain enc where auth: "getValidCloudflareAuth demo_flow_cr (demo_drop_conn enc) = Inr ''tok''" using demo_drop_auth by blast
  let ?d = "demo_drop_world enc"
  have conn: "drop_connection demo_flow_cr ''t1'' ((cw_db (dw_world ?d))\<lparr>cp_rates := rates\<rparr>) = Inr (demo_drop_conn enc, replicate 32 CHR ''b'', ''example.org'')" for rates
    by (simp add: drop_connection_def demo_drop_world_def cp_start_def empty_cp_def demo_drop_conn_def demo_conn_def demo_flow_cr_def demo_cr_def sort_by_def)
  have rate: "rateLimit demo_flow_cr key 6 3600 (cw_db (dw_world ?d)) =
      (Inr True, (cw_db (dw_world ?d))\<lparr>cp_rates := [(key, rate_window 5000 3600, 1)]\<rparr>)" for key
    by (simp add: rateLimit_def rate_hit_def Let_def demo_drop_world_def cp_start_def empty_cp_def demo_flow_cr_def demo_cr_def)
  let ?drp = "assembleWhiteHoleDrop (buildWhiteHolePayload (cr_now demo_flow_cr) demo_ranking ''example.org'' 10)"
  obtain w' where put: "put_shards demo_flow_cr ''tok'' (replicate 32 CHR ''b'') ''example.org'' (length (wh_shards ?drp)) (wh_checksum ?drp) 0 (wh_shards ?drp)
      ((dw_world ?d)\<lparr>cw_db := (cw_db (dw_world ?d))\<lparr>cp_rates := [(''whitehole:'' @ pr_tenant demo_owner, rate_window 5000 3600, 1)]\<rparr>\<rparr>) = (Inr (), w')"
  proof -
    have l: "length (replicate 32 CHR ''b'') = length (d_zone demo_dep)" by (simp add: demo_dep_def)
    show ?thesis using demo_put [OF l] that by blast
  qed
  have t: "pr_tenant demo_owner = ''t1''" by (simp add: demo_owner_def)
  from publish_succeeds [OF rate conn [folded t] auth put]
  have "\<exists>res d'. publishWhiteHoleDrop demo_flow_cr demo_owner demo_ranking ?d = (Inr res, d') \<and> ds_zone res = ''example.org''" .
  then obtain res d' where p: "publishWhiteHoleDrop demo_flow_cr demo_owner demo_ranking ?d = (Inr res, d')" and z: "ds_zone res = ''example.org''" by blast
  have now: "cr_now demo_flow_cr = 5000" by (simp add: demo_flow_cr_def demo_cr_def)
  have short: "length (base64UrlSafe (json_stringify (buildWhiteHolePayload (cr_now demo_flow_cr) demo_ranking (ds_zone res) 10))) \<le> 1440"
    unfolding z now by (rule encoded_length [OF demo_json])
  have "\<forall>zoneId i. ds_shards res < i \<and> i \<le> 8 \<longrightarrow> map_of (cw_dns (dw_world ?d)) (zoneId, ''TXT'', shard_name i @ ''.'' @ ds_zone res) = None"
    by (simp add: demo_drop_world_def cp_start_def)
  from whitehole_readable [OF p short this] obtain c where c: "c \<in> set (cp_conns (cw_db (dw_world ?d)))"
    and r: "read_drop (dig_of (\<lambda>name. map_of (cw_dns (dw_world d')) (the (c_zone c), ''TXT'', name))) (ds_zone res) =
      Some (utf8_encode (json_stringify (buildWhiteHolePayload (cr_now demo_flow_cr) demo_ranking (ds_zone res) 10)))" by blast
  have "the (c_zone c) = replicate 32 CHR ''b''" using c by (simp add: demo_drop_world_def cp_start_def empty_cp_def demo_drop_conn_def demo_conn_def)
  with p z r now show ?thesis by metis
qed

text \<open>
  The precondition on earlier drops matters: the reader ignores the number of shards that the records carry, and publishing removes
  no record, so the shards of a longer earlier drop are read behind the new ones.
\<close>

lemma stale_shards_read:
  assumes "\<And>k. k < length shards \<Longrightarrow> txts (shard_name (Suc k) @ ''.'' @ zone) = Some (whiteHoleRecordValue k n c (shards ! k))"
    and "list_all shard_ok shards" and "length shards < 8"
    and "txts (shard_name (Suc (length shards)) @ ''.'' @ zone) = Some (whiteHoleRecordValue (length shards) n' c' old)" and "shard_ok old"
    and "length shards < 7 \<Longrightarrow> txts (shard_name (Suc (Suc (length shards))) @ ''.'' @ zone) = None"
  shows "collect (dig_of txts) zone [1..<9] = concat shards @ old"
proof -
  have "collect (dig_of txts) zone [Suc 0..<9] = concat (shards @ [old])"
  proof (rule collect_shards)
    fix k assume "k < length (shards @ [old])"
    then show "\<exists>n c. txts (shard_name (Suc (0 + k)) @ ''.'' @ zone) = Some (whiteHoleRecordValue (0 + k) n c ((shards @ [old]) ! k))"
      using assms(1,4) by (cases "k < length shards") (auto simp: nth_append less_Suc_eq)
  qed (use assms in simp_all)
  then show ?thesis by simp
qed

end
