(* ===== verification/Cp_Map.thy ===== *)
theory Cp_Map
  imports Cp_Clean_Ip "HOL-Library.Multiset"
begin

text \<open>
  The live censorship map (\<^verbatim>\<open>src/censorship-map.ts\<close>): anonymous reports of which transport works for which provider and city, and
  their aggregate over a window of hours. The list of providers is the parameter \<open>nt_isps\<close> (Persian names); the random ids of
  the rows are not modelled. SQLite leaves the order of \<open>GROUP BY\<close> open: groups come here in the order of their first row. The
  latencies of a group, which the code passes through a comma-separated text, are a list here. The Persian card is not modelled.
\<close>

subsection \<open>Reports\<close>

definition MAP_TRANSPORTS :: "string list" where
  "MAP_TRANSPORTS = [''hysteria2'', ''vless-reality'', ''ech'', ''fragment'', ''dns-tunnel'', ''other'']"

datatype map_verdict = Up | Map_degraded | Down | Map_nodata

record map_report =
  mq_isp :: string
  mq_city :: string
  mq_transport :: string
  mq_rtt :: "num option"
  mq_ok :: bool

definition map_transport :: "jval \<Rightarrow> string" where
  "map_transport body =
     (let raw = (case fld body ''transport'' of JStr s \<Rightarrow> s | _ \<Rightarrow> str_or_empty (fld body ''tr''))
      in if raw \<in> set MAP_TRANSPORTS then raw else ''other'')"

definition map_rtt :: "jval \<Rightarrow> num option" where
  "map_rtt body =
     (case js_coalesce (fld body ''rttMs'') (fld body ''rtt'') of
        JNum (Fin q) \<Rightarrow> Some (min 10000 (max (-1) (js_round q))) | _ \<Rightarrow> None)"

definition parseMapReport :: "net_text \<Rightarrow> jval \<Rightarrow> map_report res" where
  "parseMapReport N body =
     (if \<not> is_object body then Inl invalid_input
      else let rtt = map_rtt body in
        Inr \<lparr>mq_isp = isp_of N (fld body ''isp''), mq_city = sanitizeCity N (fld body ''city''), mq_transport = map_transport body,
             mq_rtt = rtt, mq_ok = (if fld body ''ok'' = JUndef then (case rtt of None \<Rightarrow> False | Some q \<Rightarrow> 0 \<le> q)
                                    else fld body ''ok'' = JBool True \<or> fld body ''ok'' = JNum (Fin 1))\<rparr>)"

record map_row =
  mr_isp :: string
  mr_city :: string
  mr_transport :: string
  mr_rtt :: "num option"
  mr_ok :: bool
  mr_created :: num
  mr_expires :: num

definition recordMapReport :: "num \<Rightarrow> map_report \<Rightarrow> map_row list \<Rightarrow> map_row list" where
  "recordMapReport now r rows =
     rows @ [\<lparr>mr_isp = mq_isp r, mr_city = mq_city r, mr_transport = mq_transport r, mr_rtt = mq_rtt r, mr_ok = mq_ok r,
              mr_created = now, mr_expires = now + 24 * 3600000\<rparr>]"

definition purgeExpiredMapReports :: "num \<Rightarrow> map_row list \<Rightarrow> nat \<times> map_row list" where
  "purgeExpiredMapReports now rows = (length (filter (\<lambda>x. mr_expires x \<le> now) rows), filter (\<lambda>x. \<not> mr_expires x \<le> now) rows)"

subsection \<open>The query\<close>

definition same_group :: "map_row \<Rightarrow> map_row \<Rightarrow> bool" where
  "same_group a b \<longleftrightarrow> mr_isp a = mr_isp b \<and> mr_city a = mr_city b \<and> mr_transport a = mr_transport b"

function group_rows :: "map_row list \<Rightarrow> map_row list list" where
  "group_rows [] = []"
| "group_rows (r # rs) = (r # filter (same_group r) rs) # group_rows (filter (\<lambda>x. \<not> same_group r x) rs)"
  by pat_completeness auto
termination by (relation "measure length") (auto simp: le_imp_less_Suc)

record map_group =
  mg_isp :: string
  mg_city :: string
  mg_transport :: string
  mg_n :: nat
  mg_ok :: nat
  mg_rtts :: "num list"

definition known_rtt :: "map_row \<Rightarrow> num option" where
  "known_rtt r = (case mr_rtt r of Some q \<Rightarrow> if 0 \<le> q then Some q else None | None \<Rightarrow> None)"

definition group_of :: "map_row list \<Rightarrow> map_group" where
  "group_of rs = \<lparr>mg_isp = mr_isp (hd rs), mg_city = mr_city (hd rs), mg_transport = mr_transport (hd rs), mg_n = length rs,
     mg_ok = length (filter mr_ok rs), mg_rtts = List.map_filter known_rtt rs\<rparr>"

definition map_window :: "num \<Rightarrow> num \<Rightarrow> map_row list \<Rightarrow> map_row list" where
  "map_window now hours rows = filter (\<lambda>x. now - hours * 3600000 < mr_created x) rows"

subsection \<open>The aggregate\<close>

type_synonym stat_table = "(string \<times> nat \<times> nat) list"

definition add_stat :: "map_group \<Rightarrow> stat_table \<Rightarrow> stat_table" where
  "add_stat g m =
     (case map_of m (mg_transport g) of
        None \<Rightarrow> upsert (mg_transport g) (mg_n g, mg_ok g) m
      | Some (n, k) \<Rightarrow> upsert (mg_transport g) (n + mg_n g, k + mg_ok g) m)"

record map_acc =
  ma_isp :: string
  ma_city :: string
  ma_reports :: nat
  ma_ok :: nat
  ma_rtts :: "num list"
  ma_transports :: stat_table

definition group_key :: "map_group \<Rightarrow> string" where
  "group_key g = mg_isp g @ ''|'' @ mg_city g"

definition add_group :: "map_group \<Rightarrow> (string \<times> map_acc) list \<Rightarrow> (string \<times> map_acc) list" where
  "add_group g cells =
     (let cell = (case map_of cells (group_key g) of
            None \<Rightarrow> \<lparr>ma_isp = mg_isp g, ma_city = mg_city g, ma_reports = 0, ma_ok = 0, ma_rtts = [], ma_transports = []\<rparr>
          | Some c \<Rightarrow> c)
      in upsert (group_key g)
           (cell\<lparr>ma_reports := ma_reports cell + mg_n g, ma_ok := ma_ok cell + mg_ok g, ma_rtts := ma_rtts cell @ mg_rtts g,
                 ma_transports := add_stat g (ma_transports cell)\<rparr>) cells)"

definition map_ratio :: "nat \<Rightarrow> nat \<Rightarrow> num" where
  "map_ratio part whole = (if 0 < whole then js_round (of_nat part / of_nat whole * 100) / 100 else 0)"

definition verdictFor :: "nat \<Rightarrow> num \<Rightarrow> map_verdict" where
  "verdictFor reports okRatio =
     (if reports < 3 then Map_nodata else if 8 / 10 \<le> okRatio then Up else if 4 / 10 \<le> okRatio then Map_degraded else Down)"

record map_cell =
  mc_isp :: string
  mc_city :: string
  mc_reports :: nat
  mc_ratio :: num
  mc_median :: "num option"
  mc_verdict :: map_verdict
  mc_transports :: "(string \<times> nat \<times> num) list"

record map_aggregate =
  mx_updated :: num
  mx_window :: num
  mx_total :: nat
  mx_cells :: "map_cell list"
  mx_transports :: "(string \<times> nat \<times> num) list"

definition cell_of_acc :: "map_acc \<Rightarrow> map_cell" where
  "cell_of_acc c =
     \<lparr>mc_isp = ma_isp c, mc_city = ma_city c, mc_reports = ma_reports c, mc_ratio = map_ratio (ma_ok c) (ma_reports c),
      mc_median = median_of (ma_rtts c), mc_verdict = verdictFor (ma_reports c) (map_ratio (ma_ok c) (ma_reports c)),
      mc_transports = map (\<lambda>(t, n, k). (t, n, map_ratio k n)) (ma_transports c)\<rparr>"

definition worse_cell :: "map_cell \<Rightarrow> map_cell \<Rightarrow> bool" where
  "worse_cell a b \<longleftrightarrow> mc_ratio a < mc_ratio b \<or> mc_ratio a = mc_ratio b \<and> mc_reports b \<le> mc_reports a"

definition better_transport :: "string \<times> nat \<times> num \<Rightarrow> string \<times> nat \<times> num \<Rightarrow> bool" where
  "better_transport a b \<longleftrightarrow> snd (snd b) < snd (snd a) \<or> snd (snd a) = snd (snd b) \<and> fst (snd b) \<le> fst (snd a)"

definition aggregateMap :: "num \<Rightarrow> num \<Rightarrow> map_row list \<Rightarrow> map_aggregate" where
  "aggregateMap now windowHours rows =
     (let groups = map group_of (group_rows (map_window now windowHours rows)); cells = fold add_group groups []; stats = fold add_stat groups []
      in \<lparr>mx_updated = now, mx_window = windowHours, mx_total = sum_list (map mg_n groups),
          mx_cells = sort_by worse_cell (map (\<lambda>c. cell_of_acc (snd c)) cells),
          mx_transports = sort_by better_transport (map (\<lambda>(t, n, k). (t, n, map_ratio k n)) stats)\<rparr>)"

subsection \<open>Groups\<close>

interpretation cell_order: total_preorder worse_cell
  by unfold_locales (auto simp: worse_cell_def)

lemma mset_group_rows: "mset (concat (group_rows rows)) = mset rows"
  by (induction rows rule: group_rows.induct) (simp_all add: mset_filter)

lemma group_rows_uniform: "g \<in> set (group_rows rows) \<Longrightarrow> g \<noteq> [] \<and> (\<forall>x \<in> set g. same_group (hd g) x)"
  by (induction rows rule: group_rows.induct) (auto simp: same_group_def)

lemma filter_concat_uniform:
  assumes "\<forall>g \<in> set gs. g \<noteq> [] \<and> (\<forall>x \<in> set g. P x \<longleftrightarrow> P (hd g))"
  shows "filter P (concat gs) = concat (filter (\<lambda>g. P (hd g)) gs)"
  using assms
proof (induction gs)
  case (Cons g gs)
  have rest: "filter P (concat gs) = concat (filter (\<lambda>g. P (hd g)) gs)" using Cons by (meson list.set_intros(2))
  have "filter P g = (if P (hd g) then g else [])"
  proof (cases "P (hd g)")
    case True
    with Cons.prems have "\<forall>x \<in> set g. P x" by simp
    with True show ?thesis by (simp add: filter_id_conv)
  next
    case False
    with Cons.prems show ?thesis by (simp add: filter_empty_conv)
  qed
  with rest show ?case by simp
qed simp

lemma concat_eq_Nil: "\<forall>g \<in> set gs. g \<noteq> [] \<Longrightarrow> concat gs = [] \<longleftrightarrow> gs = []"
  by (cases gs) auto

lemma sum_groups: "sum_list (map mg_n (map group_of gs)) = length (concat gs)"
  by (induction gs) (simp_all add: group_of_def)

text \<open>The counts of the groups of one transport.\<close>

definition stat_of :: "map_row list \<Rightarrow> (nat \<times> nat) option" where
  "stat_of rs = (if rs = [] then None else Some (length rs, length (filter mr_ok rs)))"

lemma stats_of_groups:
  assumes "\<forall>g \<in> set gs. g \<noteq> []"
  shows "map_of (fold add_stat (map group_of gs) []) t = stat_of (concat (filter (\<lambda>g. mr_transport (hd g) = t) gs))"
  using assms
proof (induction gs rule: rev_induct)
  case (snoc g gs)
  then show ?case
    by (auto simp: add_stat_def stat_of_def group_of_def map_of_upsert split: option.splits if_splits)
qed (simp add: stat_of_def)

definition acc_of :: "map_row list list \<Rightarrow> map_acc" where
  "acc_of gs = \<lparr>ma_isp = mr_isp (hd (hd gs)), ma_city = mr_city (hd (hd gs)), ma_reports = length (concat gs),
     ma_ok = length (filter mr_ok (concat gs)), ma_rtts = List.map_filter known_rtt (concat gs),
     ma_transports = fold add_stat (map group_of gs) []\<rparr>"

definition cell_key :: "map_row \<Rightarrow> string" where
  "cell_key r = mr_isp r @ ''|'' @ mr_city r"

lemma map_filter_append [simp]: "List.map_filter f (xs @ ys) = List.map_filter f xs @ List.map_filter f ys"
  by (simp add: List.map_filter_def)

definition extend_acc :: "map_group \<Rightarrow> map_acc \<Rightarrow> map_acc" where
  "extend_acc g cell = cell\<lparr>ma_reports := ma_reports cell + mg_n g, ma_ok := ma_ok cell + mg_ok g, ma_rtts := ma_rtts cell @ mg_rtts g,
     ma_transports := add_stat g (ma_transports cell)\<rparr>"

lemma acc_of_snoc: "gs \<noteq> [] \<Longrightarrow> acc_of (gs @ [g]) = extend_acc (group_of g) (acc_of gs)"
  by (simp add: acc_of_def group_of_def extend_acc_def)

lemma acc_of_single: "acc_of [g] = extend_acc (group_of g)
    \<lparr>ma_isp = mg_isp (group_of g), ma_city = mg_city (group_of g), ma_reports = 0, ma_ok = 0, ma_rtts = [], ma_transports = []\<rparr>"
  by (simp add: acc_of_def group_of_def extend_acc_def)

lemma add_group_lookup:
  "map_of (add_group g m) k =
     (if k = group_key g
      then Some (extend_acc g (case map_of m (group_key g) of Some c \<Rightarrow> c
        | None \<Rightarrow> \<lparr>ma_isp = mg_isp g, ma_city = mg_city g, ma_reports = 0, ma_ok = 0, ma_rtts = [], ma_transports = []\<rparr>))
      else map_of m k)"
  unfolding add_group_def Let_def map_of_upsert extend_acc_def by simp

lemma group_key_of: "group_key (group_of g) = cell_key (hd g)"
  by (simp add: group_key_def group_of_def cell_key_def)

lemma cells_of_groups:
  "map_of (fold add_group (map group_of gs) []) k =
     (let hs = filter (\<lambda>g. cell_key (hd g) = k) gs in if hs = [] then None else Some (acc_of hs))"
proof (induction gs arbitrary: k rule: rev_induct)
  case (snoc g gs)
  let ?hs = "filter (\<lambda>h. cell_key (hd h) = k) gs"
  show ?case
  proof (cases "k = cell_key (hd g)")
    case True
    then have "map_of (fold add_group (map group_of (gs @ [g])) []) k = Some (acc_of (?hs @ [g]))"
      using snoc [of k] by (simp add: add_group_lookup group_key_of Let_def acc_of_snoc acc_of_single)
    with True show ?thesis by simp
  next
    case False
    then have "map_of (fold add_group (map group_of (gs @ [g])) []) k = map_of (fold add_group (map group_of gs) []) k"
      by (simp add: add_group_lookup group_key_of)
    with False snoc [of k] show ?thesis by simp
  qed
qed simp

lemma distinct_keys_fold: "distinct (map fst (fold add_group gs []))"
proof -
  have "distinct (map fst m) \<Longrightarrow> distinct (map fst (fold add_group gs m))" for m
    by (induction gs arbitrary: m) (simp_all add: add_group_def Let_def distinct_upsert)
  then show ?thesis by simp
qed

subsection \<open>The map counts every report once\<close>

lemma mset_sort_by: "mset (sort_by le xs) = mset xs"
proof -
  have ins: "mset (insert_by le x ys) = add_mset x (mset ys)" for x and ys :: "'a list" by (induction ys) auto
  show ?thesis by (induction xs) (simp_all add: sort_by_def ins)
qed

lemma distinct_map_sort_by: "distinct (map f (sort_by le xs)) \<longleftrightarrow> distinct (map f xs)"
  by (rule mset_eq_imp_distinct_iff) (simp add: mset_sort_by)

interpretation num_order: total_preorder "\<lambda>a b :: num. a \<le> b"
  by unfold_locales auto

lemma median_mset: "mset xs = mset ys \<Longrightarrow> median_of xs = median_of ys"
proof -
  assume e: "mset xs = mset ys"
  have "sort_by (\<lambda>a b. a \<le> b) zs = sort zs" for zs :: "num list"
    by (rule properties_for_sort [symmetric]) (simp_all add: mset_sort_by num_order.sort_by_sorted)
  moreover have "sort xs = sort ys" by (rule properties_for_sort) (simp_all add: e)
  ultimately show ?thesis by (simp add: median_of_def)
qed

lemma mset_map_filter: "mset (List.map_filter f xs) = image_mset (\<lambda>x. the (f x)) (filter_mset (\<lambda>x. f x \<noteq> None) (mset xs))"
  by (induction xs) (auto simp: List.map_filter_def)

lemma stat_of_mset: "mset xs = mset ys \<Longrightarrow> stat_of xs = stat_of ys"
  by (metis mset_filter mset_eq_length mset_zero_iff stat_of_def)

text \<open>A table as clients and the cron can leave it.\<close>

inductive map_table :: "net_text \<Rightarrow> map_row list \<Rightarrow> bool" for N where
  empty: "map_table N []"
| report: "map_table N rows \<Longrightarrow> parseMapReport N body = Inr r \<Longrightarrow> map_table N (recordMapReport now r rows)"
| purge: "map_table N rows \<Longrightarrow> map_table N (snd (purgeExpiredMapReports now rows))"

lemma map_table_isp: "map_table N rows \<Longrightarrow> x \<in> set rows \<Longrightarrow> mr_isp x \<in> set (nt_other_isp N # nt_isps N)"
proof (induction rule: map_table.induct)
  case (report rows body r now)
  have "mq_isp r \<in> set (nt_other_isp N # nt_isps N)"
    using report.hyps(2) by (auto simp: parseMapReport_def Let_def isp_of_def split: if_splits jval.splits)
  with report show ?case by (auto simp: recordMapReport_def)
qed (auto simp: purgeExpiredMapReports_def)

lemma cell_key_split:
  assumes "CHR ''|'' \<notin> set (mr_isp a)" and "CHR ''|'' \<notin> set (mr_isp b)"
  shows "cell_key a = cell_key b \<longleftrightarrow> mr_isp a = mr_isp b \<and> mr_city a = mr_city b"
proof -
  have "takeWhile (\<lambda>c. c \<noteq> CHR ''|'') (cell_key r) = mr_isp r" if "CHR ''|'' \<notin> set (mr_isp r)" for r :: map_row
    using that by (subst cell_key_def, subst takeWhile_append2) auto
  then show ?thesis using assms by (metis append_same_eq cell_key_def same_append_eq)
qed

lemma cell_counts:
  fixes w :: "map_row list"
  defines "gs \<equiv> group_rows w"
  assumes pipe: "\<forall>r \<in> set w. CHR ''|'' \<notin> set (mr_isp r)" and acc: "(k, c) \<in> set (fold add_group (map group_of gs) [])"
  defines "rs \<equiv> filter (\<lambda>r. mr_isp r = ma_isp c \<and> mr_city r = ma_city c) w"
  shows "rs \<noteq> [] \<and> k = ma_isp c @ ''|'' @ ma_city c \<and> ma_reports c = length rs \<and> ma_ok c = length (filter mr_ok rs) \<and>
    median_of (ma_rtts c) = median_of (List.map_filter known_rtt rs)"
proof -
  let ?hs = "filter (\<lambda>g. cell_key (hd g) = k) gs"
  have uni: "g \<noteq> [] \<and> (\<forall>x \<in> set g. same_group (hd g) x)" if "g \<in> set gs" for g using that group_rows_uniform unfolding gs_def by blast
  have "map_of (fold add_group (map group_of gs) []) k = Some c"
    using acc distinct_keys_fold by (rule map_of_is_SomeI [rotated])
  then have hs: "?hs \<noteq> []" and c: "c = acc_of ?hs" by (simp_all add: cells_of_groups Let_def split: if_splits)
  have "filter (\<lambda>r. cell_key r = k) (concat gs) = concat ?hs"
    by (rule filter_concat_uniform) (use uni in \<open>simp add: cell_key_def same_group_def\<close>)
  moreover have "mset (filter (\<lambda>r. cell_key r = k) (concat gs)) = mset (filter (\<lambda>r. cell_key r = k) w)"
    unfolding mset_filter gs_def mset_group_rows ..
  ultimately have m: "mset (concat ?hs) = mset (filter (\<lambda>r. cell_key r = k) w)" by simp
  let ?r = "hd (hd ?hs)"
  have "hd ?hs \<in> set ?hs" using hs by (rule hd_in_set)
  then have h: "hd ?hs \<in> set gs" "cell_key ?r = k" by simp_all
  then have "?r \<in> set (concat gs)" using uni [OF h(1)] by (auto intro!: bexI [of _ "hd ?hs"])
  then have r: "?r \<in> set w" using mset_group_rows [of w] unfolding gs_def by (metis mset_eq_setD)
  have "cell_key x = k \<longleftrightarrow> mr_isp x = ma_isp c \<and> mr_city x = ma_city c" if "x \<in> set w" for x
    using cell_key_split [of x ?r] pipe that r h(2) by (auto simp: c acc_of_def)
  then have f: "filter (\<lambda>r. cell_key r = k) w = rs" unfolding rs_def by (rule filter_cong [OF refl])
  have "?r \<in> set rs" using r h(2) by (simp add: f [symmetric])
  then have "rs \<noteq> []" by auto
  moreover have "k = ma_isp c @ ''|'' @ ma_city c" using h(2) by (simp add: c acc_of_def cell_key_def)
  moreover have "ma_reports c = length rs" "ma_ok c = length (filter mr_ok rs)"
    using mset_eq_length [OF m] arg_cong [OF m, of "\<lambda>M. size (filter_mset mr_ok M)"] unfolding f c acc_of_def
    by (simp_all flip: mset_filter)
  moreover have "median_of (ma_rtts c) = median_of (List.map_filter known_rtt rs)"
    by (rule median_mset) (use m in \<open>simp add: c acc_of_def mset_map_filter f\<close>)
  ultimately show ?thesis by blast
qed

lemma every_report_has_cell:
  assumes "r \<in> set w"
  shows "cell_key r \<in> fst ` set (fold add_group (map group_of (group_rows w)) [])"
proof -
  from assms obtain g where g: "g \<in> set (group_rows w)" "r \<in> set g" using mset_group_rows [of w] by (metis UN_E mset_eq_setD set_concat)
  then have "cell_key (hd g) = cell_key r" using group_rows_uniform [OF g(1)] by (simp add: same_group_def cell_key_def)
  then have "filter (\<lambda>g. cell_key (hd g) = cell_key r) (group_rows w) \<noteq> []" using g(1) by (auto simp: filter_empty_conv)
  then have "map_of (fold add_group (map group_of (group_rows w)) []) (cell_key r) \<noteq> None" by (simp add: cells_of_groups Let_def)
  then show ?thesis by (simp add: map_of_eq_None_iff)
qed

lemma map_of_ratios: "map_of (map (\<lambda>(t, n, k). (t, n, map_ratio k n)) m) t = map_option (\<lambda>(n, k). (n, map_ratio k n)) (map_of m t)"
  by (induction m) auto

text \<open>
  C36. The map counts every report once. On every table that accepted reports and purges can leave, the aggregate of a window has
  exactly one cell per provider and city of a report in the window, and no others; a cell's number of reports, share of
  successes, median latency and verdict are those of exactly the window's reports of that provider and city; the total is the
  number of reports in the window; and the worst cells come first.
\<close>

theorem map_counts_every_report:
  assumes "map_table N rows" and "\<forall>i \<in> set (nt_other_isp N # nt_isps N). CHR ''|'' \<notin> set i"
  shows "let a = aggregateMap now hours rows; w = map_window now hours rows in
    mx_total a = length w \<and> sorted_wrt worse_cell (mx_cells a) \<and>
    distinct (map (\<lambda>c. (mc_isp c, mc_city c)) (mx_cells a)) \<and>
    (\<lambda>c. (mc_isp c, mc_city c)) ` set (mx_cells a) = (\<lambda>r. (mr_isp r, mr_city r)) ` set w \<and>
    (\<forall>c \<in> set (mx_cells a). let rs = filter (\<lambda>r. mr_isp r = mc_isp c \<and> mr_city r = mc_city c) w in
       mc_reports c = length rs \<and> mc_ratio c = map_ratio (length (filter mr_ok rs)) (length rs) \<and>
       mc_median c = median_of (List.map_filter known_rtt rs) \<and> mc_verdict c = verdictFor (length rs) (mc_ratio c))"
proof -
  define w where "w = map_window now hours rows"
  define cs where "cs = fold add_group (map group_of (group_rows w)) []"
  have cells: "mx_cells (aggregateMap now hours rows) = sort_by worse_cell (map (\<lambda>c. cell_of_acc (snd c)) cs)"
    and total: "mx_total (aggregateMap now hours rows) = length w"
    using arg_cong [OF mset_group_rows [of w], of size] by (simp_all add: aggregateMap_def Let_def w_def cs_def sum_groups del: map_map)
  have pipe: "\<forall>r \<in> set w. CHR ''|'' \<notin> set (mr_isp r)"
  proof
    fix r assume "r \<in> set w"
    then have "mr_isp r \<in> set (nt_other_isp N # nt_isps N)" by (intro map_table_isp [OF assms(1)]) (simp add: w_def map_window_def)
    then show "CHR ''|'' \<notin> set (mr_isp r)" by (rule bspec [OF assms(2)])
  qed
  note counts = cell_counts [OF pipe, folded cs_def]
  have names: "map (\<lambda>c. (mc_isp c, mc_city c)) (map (\<lambda>c. cell_of_acc (snd c)) cs) = map (\<lambda>p. (ma_isp (snd p), ma_city (snd p))) cs"
    by (simp add: cell_of_acc_def)
  have "distinct (map fst cs)" unfolding cs_def by (rule distinct_keys_fold)
  moreover have "map fst cs = map (\<lambda>(i, c). i @ ''|'' @ c) (map (\<lambda>p. (ma_isp (snd p), ma_city (snd p))) cs)"
    using counts by (auto simp: case_prod_beta)
  ultimately have "distinct (map (\<lambda>p. (ma_isp (snd p), ma_city (snd p))) cs)" by (simp only: distinct_map [of "\<lambda>(i, c). i @ ''|'' @ c"])
  then have "distinct (map (\<lambda>c. (mc_isp c, mc_city c)) (sort_by worse_cell (map (\<lambda>c. cell_of_acc (snd c)) cs)))"
    unfolding names [symmetric] by (subst distinct_map_sort_by)
  moreover have "(\<lambda>c. (mc_isp c, mc_city c)) ` set (mx_cells (aggregateMap now hours rows)) = (\<lambda>r. (mr_isp r, mr_city r)) ` set w"
  proof (intro equalityI subsetI, goal_cases)
    case (1 q)
    then obtain k c where c: "(k, c) \<in> set cs" "q = (ma_isp c, ma_city c)" by (auto simp: cells cell_of_acc_def)
    then obtain r where "r \<in> set w" "mr_isp r = ma_isp c" "mr_city r = ma_city c" using counts [OF c(1)] by (auto simp: filter_empty_conv)
    with c(2) show ?case by force
  next
    case (2 q)
    then obtain r where r: "r \<in> set w" "q = (mr_isp r, mr_city r)" by auto
    then obtain c where c: "(cell_key r, c) \<in> set cs" using every_report_has_cell unfolding cs_def by fastforce
    from counts [OF this] obtain x where x: "x \<in> set w" "mr_isp x = ma_isp c" "mr_city x = ma_city c" "cell_key r = ma_isp c @ ''|'' @ ma_city c"
      by (auto simp: filter_empty_conv)
    then have "cell_key r = cell_key x" by (simp add: cell_key_def)
    then have "mr_isp r = mr_isp x \<and> mr_city r = mr_city x" using cell_key_split pipe r(1) x(1) by blast
    with c r(2) x show ?case by (force simp: cells cell_of_acc_def)
  qed
  moreover have "let rs = filter (\<lambda>r. mr_isp r = mc_isp c \<and> mr_city r = mc_city c) w in
       mc_reports c = length rs \<and> mc_ratio c = map_ratio (length (filter mr_ok rs)) (length rs) \<and>
       mc_median c = median_of (List.map_filter known_rtt rs) \<and> mc_verdict c = verdictFor (length rs) (mc_ratio c)"
    if "c \<in> set (mx_cells (aggregateMap now hours rows))" for c
  proof -
    from that obtain k x where x: "(k, x) \<in> set cs" "c = cell_of_acc x" by (auto simp: cells)
    show ?thesis using counts [OF x(1)] by (simp add: x(2) cell_of_acc_def Let_def)
  qed
  ultimately show ?thesis unfolding Let_def w_def [symmetric] using total cells cell_order.sort_by_sorted by simp
qed

definition demo_texts :: net_text where
  "demo_texts = \<lparr>nt_isps = [''MCI''], nt_other_isp = ''other'', nt_unknown_city = ''unknown''\<rparr>"

definition demo_map_body :: jval where
  "demo_map_body = JObj [(''isp'', JStr ''MCI''), (''city'', JStr ''<b>Qom''), (''transport'', JStr ''ech''), (''rttMs'', JNum (Fin 90))]"

lemma demo_map_parsed: "parseMapReport demo_texts demo_map_body =
    Inr \<lparr>mq_isp = ''MCI'', mq_city = ''Qom'', mq_transport = ''ech'', mq_rtt = Some 90, mq_ok = True\<rparr>"
  by code_simp

theorem map_counts_every_report_witness:
  "mx_total (aggregateMap 3600000 6 (recordMapReport 0 \<lparr>mq_isp = ''MCI'', mq_city = ''Qom'', mq_transport = ''ech'', mq_rtt = Some 90, mq_ok = True\<rparr> [])) = 1"
proof -
  let ?rows = "recordMapReport 0 \<lparr>mq_isp = ''MCI'', mq_city = ''Qom'', mq_transport = ''ech'', mq_rtt = Some 90, mq_ok = True\<rparr> []"
  have t: "map_table demo_texts ?rows" by (rule map_table.report [OF map_table.empty demo_map_parsed])
  have i: "\<forall>i \<in> set (nt_other_isp demo_texts # nt_isps demo_texts). CHR ''|'' \<notin> set i" by (simp add: demo_texts_def)
  have "length (map_window 3600000 6 ?rows) = 1" by (simp add: map_window_def recordMapReport_def)
  with map_counts_every_report [OF t i, of 3600000 6] show ?thesis by (simp only: Let_def simp_thms)
qed

end
