(* ===== verification/Cp_Packs.thy ===== *)
theory Cp_Packs
  imports Cp_Db
begin

text \<open>
  What the control plane generates from a host name without storing anything: the PHANTOM pack of twenty client configurations in three
  formats (\<^verbatim>\<open>src/phantom-pack.ts\<close>), and the installation script of a dnstt server (\<^verbatim>\<open>src/dnstt.ts\<close>). The texts for the
  chat, in Persian, are not modelled. A random UUID is a parameter.
\<close>

subsection \<open>phantom-pack.ts\<close>

definition PACK_SIZE :: nat where
  "PACK_SIZE = 20"

definition PACK_PORTS :: "nat list" where
  "PACK_PORTS = [443, 8443, 2053, 2083, 2087, 2096]"

definition PACK_FINGERPRINTS :: "string list" where
  "PACK_FINGERPRINTS = [''chrome'', ''firefox'', ''safari'', ''edge'', ''ios'', ''android'']"

definition SS_METHODS :: "string list" where
  "SS_METHODS = [''chacha20-ietf-poly1305'', ''aes-256-gcm'', ''2022-blake3-aes-128-gcm'', ''2022-blake3-chacha20-poly1305'']"

datatype pack_kind = Pack_vless | Pack_ss | Pack_hysteria2

fun kind_name :: "pack_kind \<Rightarrow> string" where
  "kind_name Pack_vless = ''vless''"
| "kind_name Pack_ss = ''ss''"
| "kind_name Pack_hysteria2 = ''hysteria2''"

record pack_entry =
  pk_label :: string
  pk_kind :: pack_kind
  pk_port :: nat
  pk_link :: string

record phantom_pack =
  pp_domain :: string
  pp_uuid :: string
  pp_entries :: "pack_entry list"

text \<open>The counts of the pack are the numbers of entries of a kind.\<close>

definition pack_count :: "pack_kind \<Rightarrow> phantom_pack \<Rightarrow> nat" where
  "pack_count k pack = length (filter (\<lambda>e. pk_kind e = k) (pp_entries pack))"

fun after_scheme :: "string \<Rightarrow> string option" where
  "after_scheme [] = None"
| "after_scheme (c # cs) = (if starts_with ''://'' (c # cs) then Some (drop 3 (c # cs)) else after_scheme cs)"

definition pack_char :: "char \<Rightarrow> bool" where
  "pack_char c \<longleftrightarrow> is_lower c \<or> is_digit c \<or> c = CHR ''.'' \<or> c = CHR ''-''"

definition sanitizePackDomain :: "string \<Rightarrow> string option" where
  "sanitizePackDomain inp =
     (let raw = to_lower (trim inp); withoutScheme = (case after_scheme raw of Some r \<Rightarrow> r | None \<Rightarrow> raw);
          host = hd (split_on CHR '':'' (hd (split_on CHR ''/'' withoutScheme))); parts = split_on CHR ''.'' host in
      if length host < 4 \<or> 253 < length host \<or> CHR ''.'' \<notin> set host \<or> CHR '' '' \<in> set host then None
      else if \<not> list_all pack_char host then None
      else if list_ex (\<lambda>p. p = [] \<or> 63 < length p) parts then None
      else if length (last parts) < 2 \<or> \<not> list_all is_lower (last parts) then None
      else Some host)"

definition lower_id_char :: "char \<Rightarrow> bool" where
  "lower_id_char c \<longleftrightarrow> is_lower c \<or> is_digit c \<or> c = CHR ''-''"

text \<open>A full UUID has 36 characters of the class of short identifiers, so the test for it decides nothing.\<close>

definition normalizePackUuid :: "string \<Rightarrow> string option \<Rightarrow> string" where
  "normalizePackUuid uuid0 inp =
     (let value = to_lower (trim (case inp of None \<Rightarrow> [] | Some s \<Rightarrow> s)) in
      if value = [] \<or> value = ''new'' \<or> value = ''uuid'' then uuid0
      else if 8 \<le> length value \<and> length value \<le> 64 \<and> list_all lower_id_char value then value
      else uuid0)"

definition toBase64 :: "string \<Rightarrow> string" where
  "toBase64 value = btoa (utf8_encode value)"

definition toBase64Url :: "string \<Rightarrow> string" where
  "toBase64Url value = strip_eq (map url_safe (toBase64 value))"

definition pack_path :: "string \<Rightarrow> string" where
  "pack_path domain = ''/vless?ed=2048&security=tls&sni='' @ domain"

definition vlessLink :: "string \<Rightarrow> string \<Rightarrow> nat \<Rightarrow> string \<Rightarrow> string \<Rightarrow> nat \<Rightarrow> string" where
  "vlessLink domain uuid port fingerprint label index =
     ''vless://'' @ uuid @ ''@'' @ domain @ '':'' @ show_nat port @ ''?'' @
     query_string [(''type'', ''ws''), (''security'', ''tls''), (''sni'', domain), (''fp'', fingerprint), (''alpn'', ''h2''), (''host'', domain),
       (''path'', pack_path domain), (''seed'', ''null'')] @ ''#'' @ encodeURIComponent label @ ''-'' @ show_nat (Suc index)"

definition ssLink :: "string \<Rightarrow> string \<Rightarrow> nat \<Rightarrow> string \<Rightarrow> string \<Rightarrow> string" where
  "ssLink domain uuid port meth label =
     (let key = (if starts_with ''2022'' meth then take 16 (toBase64 (filter (\<lambda>c. c \<noteq> CHR ''-'') uuid)) else uuid)
      in ''ss://'' @ toBase64Url (meth @ '':'' @ key) @ ''@'' @ domain @ '':'' @ show_nat port @ ''?'' @
         query_string [(''plugin'', ''obfs-local;obfs=http;obfs-host='' @ domain), (''obfsParam'', domain)] @ ''#'' @ encodeURIComponent label)"

definition hysteria2Link :: "string \<Rightarrow> string \<Rightarrow> nat \<Rightarrow> string \<Rightarrow> string" where
  "hysteria2Link domain uuid port label =
     ''hy2://'' @ uuid @ ''@'' @ domain @ '':'' @ show_nat port @ ''?'' @
     query_string [(''sni'', domain), (''obfs'', ''salamander''), (''obfs-password'', take 8 uuid)] @ ''#'' @ encodeURIComponent label"

definition vless_entry :: "string \<Rightarrow> string \<Rightarrow> nat \<Rightarrow> pack_entry" where
  "vless_entry domain uuid i =
     (let port = PACK_PORTS ! (i mod length PACK_PORTS); fp = PACK_FINGERPRINTS ! (i mod length PACK_FINGERPRINTS)
      in \<lparr>pk_label = ''VL-'' @ show_nat port @ ''-'' @ fp, pk_kind = Pack_vless, pk_port = port,
          pk_link = vlessLink domain uuid port fp (''VL'' @ show_nat port) i\<rparr>)"

definition ss_entry :: "string \<Rightarrow> string \<Rightarrow> nat \<Rightarrow> pack_entry" where
  "ss_entry domain uuid i =
     (let port = PACK_PORTS ! (i mod length PACK_PORTS)
      in \<lparr>pk_label = ''SS-'' @ SS_METHODS ! i, pk_kind = Pack_ss, pk_port = port,
          pk_link = ssLink domain uuid port (SS_METHODS ! i) (''SS'' @ show_nat port)\<rparr>)"

definition hy_entry :: "string \<Rightarrow> string \<Rightarrow> nat \<Rightarrow> pack_entry" where
  "hy_entry domain uuid i =
     (let port = [8443, 443, 2087, 2053, 50000] ! (i mod 5)
      in \<lparr>pk_label = ''HY2-'' @ show_nat port, pk_kind = Pack_hysteria2, pk_port = port,
          pk_link = hysteria2Link domain uuid port (''HY2-'' @ show_nat (Suc i))\<rparr>)"

definition buildPhantomPack :: "string \<Rightarrow> string \<Rightarrow> string option \<Rightarrow> phantom_pack option" where
  "buildPhantomPack uuid0 domainInput uuidInput =
     (case sanitizePackDomain domainInput of
        None \<Rightarrow> None
      | Some domain \<Rightarrow>
          let uuid = normalizePackUuid uuid0 uuidInput;
              first = map (vless_entry domain uuid) [0..<12] @ map (ss_entry domain uuid) [0..<length SS_METHODS]
          in Some \<lparr>pp_domain = domain, pp_uuid = uuid,
                   pp_entries = first @ map (hy_entry domain uuid) [0..<PACK_SIZE - length first]\<rparr>)"

definition packToSubscription :: "phantom_pack \<Rightarrow> string" where
  "packToSubscription pack = toBase64 (join_with [CHR 0x0A] (map pk_link (pp_entries pack)))"

definition dq :: string where
  "dq = [CHR 0x22]"

text \<open>\<open>label.replace(\"SS-\", \"\")\<close> of a label that starts so.\<close>

definition clash_entry :: "phantom_pack \<Rightarrow> pack_entry \<Rightarrow> string list" where
  "clash_entry pack e =
     (let name = ''  - name: '' @ dq @ pk_label e @ dq; server = ''    server: '' @ pp_domain pack; port = ''    port: '' @ show_nat (pk_port e) in
      case pk_kind e of
        Pack_vless \<Rightarrow> [name, ''    type: vless'', server, port, ''    uuid: '' @ pp_uuid pack, ''    tls: true'', ''    network: ws'',
          ''    servername: '' @ pp_domain pack, ''    udp: true'', ''    client-fingerprint: chrome'', ''    ws-opts:'',
          ''      path: '' @ dq @ pack_path (pp_domain pack) @ dq, ''      headers:'', ''        Host: '' @ pp_domain pack]
      | Pack_ss \<Rightarrow> [name, ''    type: shadowsocks'', server, port, ''    cipher: '' @ drop 3 (pk_label e), ''    password: '' @ pp_uuid pack]
      | Pack_hysteria2 \<Rightarrow> [name @ '','', ''    type: hysteria2'', server, port, ''    password: '' @ pp_uuid pack, ''    sni: '' @ pp_domain pack])"

definition packToClashYaml :: "phantom_pack \<Rightarrow> string" where
  "packToClashYaml pack =
     join_with [CHR 0x0A] ([''proxies:''] @ concat (map (clash_entry pack) (pp_entries pack)) @
       [''proxy-groups:'', ''  - name: PHANTOM'', ''    type: url-test'',
        ''    proxies: ['' @ join_with '', '' (map (\<lambda>e. dq @ pk_label e @ dq) (pp_entries pack)) @ '']'',
        ''    url: https://www.gstatic.com/generate_204'', ''    interval: 30''])"

definition singbox_outbound :: "phantom_pack \<Rightarrow> pack_entry \<Rightarrow> jval" where
  "singbox_outbound pack e =
     (let head = (\<lambda>t. [(''tag'', JStr (pk_label e)), (''type'', JStr t), (''server'', JStr (pp_domain pack)), (''server_port'', JInt (int (pk_port e)))]);
          tls = [(''enabled'', JBool True), (''server_name'', JStr (pp_domain pack))] in
      case pk_kind e of
        Pack_vless \<Rightarrow> JObj (head ''vless'' @ [(''uuid'', JStr (pp_uuid pack)),
          (''tls'', JObj (tls @ [(''utls'', JObj [(''enabled'', JBool True), (''fingerprint'', JStr ''chrome'')])])),
          (''transport'', JObj [(''type'', JStr ''ws''), (''path'', JStr (pack_path (pp_domain pack))), (''headers'', JObj [(''Host'', JStr (pp_domain pack))])])])
      | Pack_ss \<Rightarrow> JObj (head ''shadowsocks'' @ [(''method'', JStr (drop 3 (pk_label e))), (''password'', JStr (pp_uuid pack))])
      | Pack_hysteria2 \<Rightarrow> JObj (head ''hysteria2'' @ [(''password'', JStr (pp_uuid pack)), (''tls'', JObj (tls @ [(''insecure'', JBool True)]))]))"

text \<open>The document before it is printed with an indentation of two.\<close>

definition packToSingBox :: "phantom_pack \<Rightarrow> jval" where
  "packToSingBox pack =
     (let outbounds = map (singbox_outbound pack) (pp_entries pack)
      in JObj [(''log'', JObj [(''level'', JStr ''info'')]),
           (''outbounds'', JArr (JObj [(''type'', JStr ''selector''), (''tag'', JStr ''PHANTOM''), (''outbounds'', JArr (map (\<lambda>o'. fld o' ''tag'') outbounds))] # outbounds))])"

subsection \<open>dnstt.ts\<close>

definition isValidVpsIpv4 :: "string \<Rightarrow> bool" where
  "isValidVpsIpv4 value \<longleftrightarrow>
     (let parts = split_on CHR ''.'' value in
      length parts = 4 \<and> list_all (\<lambda>p. digits_only p \<and> length p \<le> 3) parts \<and> list_all (\<lambda>p. nat_of_digits 0 p \<le> 255) parts)"

definition strip_http :: "string \<Rightarrow> string" where
  "strip_http s = (if starts_with ''http://'' s then drop 7 s else if starts_with ''https://'' s then drop 8 s else s)"

text \<open>\<open>/^[a-z0-9.-]+\.[a-z]{2,}$/\<close>.\<close>

definition tunnel_domain :: "string \<Rightarrow> bool" where
  "tunnel_domain s \<longleftrightarrow>
     (let parts = split_on CHR ''.'' s in
      list_all pack_char s \<and> 2 \<le> length parts \<and> butlast parts \<noteq> [[]] \<and> 2 \<le> length (last parts) \<and> list_all is_lower (last parts))"

definition normalizeDnsttDomain :: "string \<Rightarrow> string option" where
  "normalizeDnsttDomain inp =
     (let cleaned = trim (hd (split_on CHR ''/'' (strip_http (to_lower (trim inp)))))
      in if \<not> tunnel_domain cleaned \<or> 253 < length cleaned then None else Some cleaned)"

definition dnsttServerScript :: "string \<Rightarrow> string \<Rightarrow> string" where
  "dnsttServerScript vps domain = join_with [CHR 0x0A]
    [''#!/bin/bash'',
     ''# OMNI dnstt tunnel server auto-install (Ubuntu/Debian). Review before running as root!'',
     ''# Docs: https://www.bamsoftware.com/software/dnstt/'',
     ''# VPS: '' @ vps @ '' | Tunnel: '' @ domain,
     ''set -e'',
     ''VPS_IP='' @ dq @ vps @ dq,
     ''TUN='' @ dq @ domain @ dq,
     ''DNSTT_VER='' @ dq @ ''20260501'' @ dq,
     ''echo '' @ dq @ ''==> [1/7] deps...'' @ dq,
     ''apt-get update -y'',
     ''DEBIAN_FRONTEND=noninteractive apt-get install -y golang-go git curl unzip iptables iproute2 dnsutils'',
     ''echo '' @ dq @ ''==> [2/7] dnstt source...'' @ dq,
     ''cd /tmp && rm -rf dnstt-src && mkdir -p dnstt-src && cd dnstt-src'',
     ''(curl -sSL -o dnstt.zip '' @ dq @ ''https://www.bamsoftware.com/software/dnstt/dnstt-${DNSTT_VER}.zip'' @ dq @ '' && unzip -q -o dnstt.zip) || git clone https://www.bamsoftware.com/git/dnstt.git dnstt-git'',
     ''SRCDIR=$(find . -maxdepth 3 -type d -name dnstt-server | head -1)'',
     ''[ -z '' @ dq @ ''$SRCDIR'' @ dq @ '' ] && { echo '' @ dq @ ''source not found'' @ dq @ ''; exit 1; }'',
     ''echo '' @ dq @ ''==> [3/7] build...'' @ dq,
     ''(cd '' @ dq @ ''$SRCDIR'' @ dq @ '' && go build -o /usr/local/bin/dnstt-server .)'',
     ''chmod +x /usr/local/bin/dnstt-server'',
     ''echo '' @ dq @ ''==> [4/7] keys...'' @ dq,
     ''mkdir -p /etc/dnstt && cd /etc/dnstt'',
     ''/usr/local/bin/dnstt-server -gen-key -privkey-file server.key -pubkey-file server.pub'',
     ''chmod 600 server.key'',
     ''echo '' @ dq @ ''==> [5/7] systemd...'' @ dq,
     ''cat > /etc/systemd/system/dnstt.service <<EOF'',
     ''[Unit]'',
     ''Description=dnstt DNS tunnel server'',
     ''After=network.target'',
     ''[Service]'',
     ''ExecStart=/usr/local/bin/dnstt-server -udp :5300 -privkey-file /etc/dnstt/server.key ${TUN} 127.0.0.1:22'',
     ''Restart=always'',
     ''User=root'',
     ''[Install]'',
     ''WantedBy=multi-user.target'',
     ''EOF'',
     ''systemctl daemon-reload && systemctl enable --now dnstt'',
     ''echo '' @ dq @ ''==> [6/7] firewall 53/udp -> 5300...'' @ dq,
     ''if ss -lun | grep -qE '' @ dq @ ''[: ]53 '' @ dq @ ''; then echo '' @ dq @ ''!! udp/53 busy:'' @ dq @ ''; ss -lun | grep -E '' @ dq @ ''[: ]53 '' @ dq @ '' || true; fi'',
     ''iptables -I INPUT -p udp --dport 5300 -j ACCEPT || true'',
     ''iptables -t nat -I PREROUTING -p udp --dport 53 -j REDIRECT --to-ports 5300 || true'',
     ''mkdir -p /etc/iptables && iptables-save > /etc/iptables/rules.v4 || true'',
     ''(ufw allow 53/udp) >/dev/null 2>&1 || true'',
     ''sleep 2'',
     ''systemctl is-active --quiet dnstt && echo '' @ dq @ ''dnstt: ACTIVE'' @ dq @ '' || (echo '' @ dq @ ''dnstt FAILED:'' @ dq @ ''; journalctl -u dnstt --no-pager -n 20 || true)'',
     ''echo '' @ dq @ ''==> [7/7] DONE. server.pub (copy to clients):'' @ dq,
     ''echo '' @ dq @ ''================ server.pub ================'' @ dq,
     ''cat /etc/dnstt/server.pub'',
     ''echo '' @ dq @ ''============================================'' @ dq,
     ''echo '' @ dq @ ''Client:'' @ dq,
     ''echo '' @ dq @ ''./dnstt-client -udp ${VPS_IP}:53 -pubkey-file server.pub ${TUN} 127.0.0.1:8000'' @ dq,
     ''echo '' @ dq @ ''Then: ssh -N -D 127.0.0.1:7000 -p 8000 user@127.0.0.1   (SOCKS5 on 127.0.0.1:7000)'' @ dq]"

definition serveDnsttScript :: "cp_runtime \<Rightarrow> request \<Rightarrow> (cp_db, response) act" where
  "serveDnsttScript rtm r =
     (let clientIp = (case header_of r ''cf-connecting-ip'' of None \<Rightarrow> ''unknown'' | Some v \<Rightarrow> v);
          vps = (case query_of r ''vps'' of None \<Rightarrow> [] | Some v \<Rightarrow> v); domain = to_lower (case query_of r ''domain'' of None \<Rightarrow> [] | Some v \<Rightarrow> v) in
      act_bind (rateLimit rtm (''dnstt-sh:'' @ clientIp) 60 3600) (\<lambda>allowed.
      act_seq (act_when (\<not> allowed) (http_error 429 ''rate_limited''))
      (if \<not> isValidVpsIpv4 vps \<or> normalizeDnsttDomain domain = None
       then act_ret \<lparr>rs_status = 400, rs_headers = [(''content-type'', ''text/plain'')], rs_body = Text ''# bad vps/domain params''\<rparr>
       else act_ret \<lparr>rs_status = 200, rs_headers = [(''content-type'', ''text/x-shellscript; charset=utf-8''), (''access-control-allow-origin'', ''*'')],
              rs_body = Text (dnsttServerScript vps domain)\<rparr>)))"

subsection \<open>The pack is complete\<close>

abbreviation one_line :: "string \<Rightarrow> bool" where
  "one_line s \<equiv> CHR 0x0A \<notin> set s"

lemma one_line_hex: "one_line (hex_upper b)"
proof -
  let ?up = "\<lambda>c. if is_lower c then char_of (of_char c - (32 :: nat)) else c"
  have "list_all (\<lambda>n. CHR 0x0A \<noteq> ?up (hex_digit n)) [0..<16]"
    by (simp add: upt_rec hex_digit_def is_lower_def char_of_def bit_0)
  then have up: "CHR 0x0A \<noteq> ?up (hex_digit n)" if "n < 16" for n using that by (simp add: list_all_iff)
  have "unat b div 16 < 16" "unat b mod 16 < 16" using unsigned_less [of b, where ?'a = nat] by simp_all
  from up [OF this(1)] up [OF this(2)] show ?thesis unfolding hex_upper_def hex2_def list.map by (simp only: list.set insert_iff empty_iff simp_thms)
qed

lemma one_line_percent: "one_line (percent c)"
  by (auto simp: percent_def one_line_hex)

lemma one_line_encode: "one_line (form_encode s)" "one_line (encodeURIComponent s)"
  by (auto simp: form_encode_def encodeURIComponent_def one_line_percent is_alnum_def is_digit_def is_lower_def is_upper_def split: if_splits)

lemma one_line_query: "one_line (query_string kvs)"
proof -
  have "one_line (join_with ''&'' xs)" if "\<forall>x \<in> set xs. one_line x" for xs
    using that by (induction "''&'' :: string" xs rule: join_with.induct) auto
  then show ?thesis unfolding query_string_def by (rule meta_mp) (auto simp: one_line_encode)
qed

lemma one_line_nat: "one_line (show_nat n)"
  using show_nat_digits [of n] by (auto simp: list_all_iff is_digit_def)

lemma one_line_id: "list_all lower_id_char s \<Longrightarrow> one_line s" "list_all pack_char s \<Longrightarrow> one_line s"
  by (auto simp: list_all_iff lower_id_char_def pack_char_def is_lower_def is_digit_def)

lemma one_line_base64Url: "one_line (toBase64Url s)"
  using b64u_encode_no_sep [of "CHR 0x0A" "utf8_encode s"]
  by (auto simp: toBase64Url_def toBase64_def b64u_encode_def is_alnum_def is_lower_def is_digit_def is_upper_def)

lemmas one_line_facts = one_line_query one_line_encode one_line_nat one_line_base64Url

lemma pack_sizes: "length SS_METHODS = 4" "PACK_SIZE = 20"
  by (simp_all add: SS_METHODS_def PACK_SIZE_def)

lemma links_one_line:
  assumes "list_all pack_char domain" and "list_all lower_id_char uuid"
  shows "one_line (pk_link (vless_entry domain uuid i))" "one_line (pk_link (ss_entry domain uuid i))" "one_line (pk_link (hy_entry domain uuid i))"
  using one_line_id(2) [OF assms(1)] one_line_id(1) [OF assms(2)]
  by (simp_all add: vless_entry_def ss_entry_def hy_entry_def vlessLink_def ssLink_def hysteria2Link_def Let_def one_line_facts)

text \<open>
  The pack is complete and can be imported. For every input that is accepted, the pack has twenty entries - twelve VLESS, four
  Shadowsocks, four Hysteria2 - for one plain host name and one identifier; and the subscription text decodes to exactly their twenty
  links, one per line, whatever the caller wrote.
\<close>

theorem pack_subscription:
  assumes "buildPhantomPack uuid0 domainInput uuidInput = Some pack" and "list_all lower_id_char uuid0"
  shows "list_all pack_char (pp_domain pack) \<and> list_all lower_id_char (pp_uuid pack) \<and>
    pack_count Pack_vless pack = 12 \<and> pack_count Pack_ss pack = 4 \<and> pack_count Pack_hysteria2 pack = 4 \<and> length (pp_entries pack) = PACK_SIZE \<and>
    (\<exists>text. atob (packToSubscription pack) = Some (utf8_encode text) \<and> split_on (CHR 0x0A) text = map pk_link (pp_entries pack))"
proof -
  from assms(1) obtain domain where d: "sanitizePackDomain domainInput = Some domain"
    and p: "pp_domain pack = domain" "pp_uuid pack = normalizePackUuid uuid0 uuidInput"
    and es: "pp_entries pack = map (vless_entry domain (pp_uuid pack)) [0..<12] @ map (ss_entry domain (pp_uuid pack)) [0..<4] @ map (hy_entry domain (pp_uuid pack)) [0..<4]"
    by (auto simp: buildPhantomPack_def Let_def pack_sizes split: option.splits)
  have dom: "list_all pack_char domain" using d by (auto simp: sanitizePackDomain_def Let_def split: if_splits)
  have uuid: "list_all lower_id_char (pp_uuid pack)" using assms(2) by (simp add: p normalizePackUuid_def Let_def)
  have kinds: "pk_kind (vless_entry domain u i) = Pack_vless" "pk_kind (ss_entry domain u i) = Pack_ss" "pk_kind (hy_entry domain u i) = Pack_hysteria2" for u i
    by (simp_all add: vless_entry_def ss_entry_def hy_entry_def Let_def)
  have "filter (\<lambda>e. pk_kind e = k) (map f xs) = (if q = k then map f xs else [])" if "\<And>i. pk_kind (f i) = q" for k q f and xs :: "nat list"
    using that by (induction xs) auto
  note flt = this [of "vless_entry domain (pp_uuid pack)" Pack_vless, OF kinds(1)] this [of "ss_entry domain (pp_uuid pack)" Pack_ss, OF kinds(2)]
    this [of "hy_entry domain (pp_uuid pack)" Pack_hysteria2, OF kinds(3)]
  have counts: "pack_count Pack_vless pack = 12" "pack_count Pack_ss pack = 4" "pack_count Pack_hysteria2 pack = 4"
    unfolding pack_count_def es filter_append flt by simp_all
  have "\<forall>l \<in> set (map pk_link (pp_entries pack)). one_line l"
    unfolding es using links_one_line [OF dom uuid] by auto
  moreover have "map pk_link (pp_entries pack) \<noteq> []" by (simp add: es upt_rec)
  ultimately have "split_on (CHR 0x0A) (join_with [CHR 0x0A] (map pk_link (pp_entries pack))) = map pk_link (pp_entries pack)"
    by (intro split_on_join) auto
  then show ?thesis using dom uuid counts
    by (auto simp: p(1) es PACK_SIZE_def packToSubscription_def toBase64_def atob_btoa)
qed

theorem pack_subscription_witness:
  "\<exists>pack. buildPhantomPack ''7d444840-9dc0-11d1-b245-5ffdce74fad2'' ''https://Example.com:8443/x'' (Some ''new'') = Some pack \<and>
     pp_domain pack = ''example.com'' \<and> pp_uuid pack = ''7d444840-9dc0-11d1-b245-5ffdce74fad2'' \<and> length (pp_entries pack) = PACK_SIZE"
proof -
  have d: "sanitizePackDomain ''https://Example.com:8443/x'' = Some ''example.com''" by code_simp
  have u: "normalizePackUuid ''7d444840-9dc0-11d1-b245-5ffdce74fad2'' (Some ''new'') = ''7d444840-9dc0-11d1-b245-5ffdce74fad2''" by code_simp
  obtain pack where p: "buildPhantomPack ''7d444840-9dc0-11d1-b245-5ffdce74fad2'' ''https://Example.com:8443/x'' (Some ''new'') = Some pack"
    "pp_domain pack = ''example.com''" "pp_uuid pack = ''7d444840-9dc0-11d1-b245-5ffdce74fad2''"
    unfolding buildPhantomPack_def d option.case Let_def u by simp
  have l: "list_all lower_id_char ''7d444840-9dc0-11d1-b245-5ffdce74fad2''" by code_simp
  from pack_subscription [OF p(1) l] p show ?thesis by blast
qed

text \<open>
  The twelve VLESS entries run through six ports and six fingerprints in step, so each label occurs twice; as the labels are the tags
  of the sing-box document and the proxy names of the Clash document, both have duplicates.
\<close>

lemma vless_labels_repeat: "pk_label (vless_entry domain uuid (i + 6)) = pk_label (vless_entry domain uuid i)"
  by (simp add: vless_entry_def Let_def PACK_PORTS_def PACK_FINGERPRINTS_def)

lemma pack_labels_repeat:
  assumes "buildPhantomPack uuid0 d i = Some pack"
  shows "\<not> distinct (map pk_label (pp_entries pack))"
proof -
  obtain domain rest where e: "pp_entries pack = map (vless_entry domain (pp_uuid pack)) [0..<12] @ rest"
    using assms that unfolding buildPhantomPack_def Let_def by (force split: option.splits)
  have "[0..<12] = 0 # [1..<6] @ 6 # [7..<12]" by (simp add: upt_rec)
  then show ?thesis using vless_labels_repeat [of domain "pp_uuid pack" 0] by (simp add: e)
qed

text \<open>
  The check of the script's domain looks at the text up to the first slash, but the script is built from the whole text: what stands
  behind the slash is written into a root shell script between double quotes.
\<close>

lemma dnstt_script_injection:
  assumes "query_of r ''vps'' = Some ''192.0.2.1''" and "query_of r ''domain'' = Some ''t.example.com/$(reboot)''"
    and "fst (rateLimit rtm (''dnstt-sh:'' @ (case header_of r ''cf-connecting-ip'' of None \<Rightarrow> ''unknown'' | Some v \<Rightarrow> v)) 60 3600 d) = Inr True"
  shows "\<exists>hs text. fst (serveDnsttScript rtm r d) = Inr \<lparr>rs_status = 200, rs_headers = hs, rs_body = Text text\<rparr> \<and>
    (''TUN='' @ dq @ ''t.example.com/$(reboot)'' @ dq) \<in> set (split_on (CHR 0x0A) text)"
proof -
  have ok: "isValidVpsIpv4 ''192.0.2.1''" "to_lower ''t.example.com/$(reboot)'' = ''t.example.com/$(reboot)''"
    "normalizeDnsttDomain ''t.example.com/$(reboot)'' = Some ''t.example.com''" by code_simp+
  obtain d' where "rateLimit rtm (''dnstt-sh:'' @ (case header_of r ''cf-connecting-ip'' of None \<Rightarrow> ''unknown'' | Some v \<Rightarrow> v)) 60 3600 d = (Inr True, d')"
    using assms(3) by (metis prod.collapse)
  then have "fst (serveDnsttScript rtm r d) = Inr \<lparr>rs_status = 200, rs_headers = [(''content-type'', ''text/x-shellscript; charset=utf-8''),
      (''access-control-allow-origin'', ''*'')], rs_body = Text (dnsttServerScript ''192.0.2.1'' ''t.example.com/$(reboot)'')\<rparr>"
    unfolding serveDnsttScript_def Let_def assms(1,2) option.case ok act_bind_def by (simp add: ok act_seq_def act_bind_def act_when_def act_ret_def)
  moreover have "(''TUN='' @ dq @ ''t.example.com/$(reboot)'' @ dq) \<in> set (split_on (CHR 0x0A) (dnsttServerScript ''192.0.2.1'' ''t.example.com/$(reboot)''))"
    unfolding dnsttServerScript_def by (subst split_on_join) (simp_all add: dq_def)
  ultimately show ?thesis by blast
qed

end
