(* ===== verification/Cp_Donate.thy ===== *)
theory Cp_Donate
  imports Cp_Db
begin

text \<open>
  Donated AI keys (\<^verbatim>\<open>src/ai-donate.ts\<close>): a donation is a row with a fingerprint and a redacted snippet; the key itself is a sealed
  envelope in a table of its own. The two provider names and the ellipsis that Latin-1 cannot hold are the parameter
  \<open>donate_text\<close>; the cards are not modelled.
\<close>

subsection \<open>Rows\<close>

datatype donation_status = D_pending | D_approved | D_rejected | D_withdrawn

record donation =
  dn_id :: string
  dn_tenant :: string
  dn_donor :: string
  dn_provider :: string
  dn_fingerprint :: string
  dn_snippet :: string
  dn_status :: donation_status
  dn_created :: num
  dn_updated :: num
  dn_review :: "num option"
  dn_expires :: num

record donate_db =
  nb_db :: cp_db
  nb_rows :: "donation list"
  nb_secrets :: "(string \<times> string) list"

record donate_text =
  dt_compatible :: string
  dt_unknown :: string
  dt_ellipsis :: string

definition PROVIDER_PREFIXES :: "donate_text \<Rightarrow> (string \<times> string) list" where
  "PROVIDER_PREFIXES N = [(''sk-ant-'', ''Anthropic Claude''), (''sk-proj-'', ''OpenAI (Project key)''), (''sk-or-'', ''OpenRouter''),
     (''sk-'', dt_compatible N), (''gsk_'', ''Groq''), (''AIza'', ''Google AI Studio''), (''deepseek-'', ''DeepSeek'')]"

definition detectProvider :: "donate_text \<Rightarrow> string \<Rightarrow> string" where
  "detectProvider N key = (case find (\<lambda>(prefix, label). starts_with prefix key) (PROVIDER_PREFIXES N) of Some (p, label) \<Rightarrow> label | None \<Rightarrow> dt_unknown N)"

definition redactKey :: "donate_text \<Rightarrow> string \<Rightarrow> string" where
  "redactKey N key = take 3 key @ dt_ellipsis N @ drop (length key - 4) key"

definition donation_char :: "char \<Rightarrow> bool" where
  "donation_char c \<longleftrightarrow> is_alnum c \<or> c = CHR ''_'' \<or> c = CHR ''.'' \<or> c = CHR ''-''"

definition placeholder_key :: "string \<Rightarrow> bool" where
  "placeholder_key key \<longleftrightarrow>
     list_ex (\<lambda>w. starts_with (w @ ''-'') (to_lower key) \<or> starts_with (w @ ''_'') (to_lower key)) [''replace'', ''changeme'', ''example'', ''test'']"

definition validateDonationKey :: "jval \<Rightarrow> string res" where
  "validateDonationKey value =
     (case value of
        JStr s \<Rightarrow>
          let key = trim s in
          if length key < 20 \<or> 256 < length key then Inl (http_error 400 ''invalid_key'')
          else if \<not> list_all donation_char key then Inl (http_error 400 ''invalid_key'')
          else if placeholder_key key then Inl (http_error 400 ''invalid_key'')
          else Inr key
      | _ \<Rightarrow> Inl (http_error 400 ''invalid_key''))"

subsection \<open>Operations\<close>

definition nb_run :: "(cp_db, 'a) act \<Rightarrow> (donate_db, 'a) act" where
  "nb_run m d = (case m (nb_db d) of (r, c) \<Rightarrow> (r, d\<lparr>nb_db := c\<rparr>))"

definition active_donations :: "num \<Rightarrow> string \<Rightarrow> string \<Rightarrow> donate_db \<Rightarrow> nat" where
  "active_donations now tenant donor d =
     length (filter (\<lambda>x. dn_tenant x = tenant \<and> dn_donor x = donor \<and> dn_status x \<in> {D_pending, D_approved} \<and> now < dn_expires x) (nb_rows d))"

text \<open>The batch of both inserts: a violated uniqueness is the conflict, an unknown tenant another error; then nothing is stored.\<close>

definition insert_donation :: "donation \<Rightarrow> string \<Rightarrow> (donate_db, unit) act" where
  "insert_donation x enc d =
     (if dn_id x \<in> dn_id ` set (nb_rows d) \<or> dn_fingerprint x \<in> dn_fingerprint ` set (nb_rows d) \<or> dn_id x \<in> fst ` set (nb_secrets d)
      then (Inl (http_error 409 ''duplicate_donation''), d)
      else if dn_tenant x \<notin> t_id ` set (cp_tenants (nb_db d)) then (Inl (JsError ''FOREIGN KEY constraint failed''), d)
      else (Inr (), d\<lparr>nb_rows := nb_rows d @ [x], nb_secrets := nb_secrets d @ [(dn_id x, enc)]\<rparr>))"

definition donation_aad :: "string \<Rightarrow> string" where
  "donation_aad i = ''ai-donation:'' @ i"

definition new_donation :: "donate_text \<Rightarrow> cp_runtime \<Rightarrow> string \<Rightarrow> string \<Rightarrow> string \<Rightarrow> donation" where
  "new_donation N rtm tenant donor key =
     \<lparr>dn_id = cr_uuid rtm, dn_tenant = tenant, dn_donor = donor, dn_provider = detectProvider N key,
      dn_fingerprint = cp_sha256 (cr_P rtm) (''ai-donation:'' @ key), dn_snippet = redactKey N key, dn_status = D_pending,
      dn_created = cr_now rtm, dn_updated = cr_now rtm, dn_review = None, dn_expires = cr_now rtm + 30 * 86400000\<rparr>"

definition createDonation :: "donate_text \<Rightarrow> cp_runtime \<Rightarrow> string \<Rightarrow> string \<Rightarrow> jval \<Rightarrow> (donate_db, donation) act" where
  "createDonation N rtm tenant donor inp =
     act_bind (act_lift (validateDonationKey inp)) (\<lambda>key.
     act_bind (nb_run (rateLimit rtm (''ai-donate:'' @ donor) 3 3600)) (\<lambda>allowed.
     act_seq (act_when (\<not> allowed) (http_error 429 ''rate_limited''))
     (act_bind (act_get (active_donations (cr_now rtm) tenant donor)) (\<lambda>n.
     act_seq (act_when (5 \<le> n) (http_error 429 ''too_many_donations''))
     (act_bind (act_lift (encryptJson (cr_P rtm) (cr_envelope rtm) (JObj [(''key'', JStr key)]) (cr_key rtm) (donation_aad (cr_uuid rtm)))) (\<lambda>enc.
     act_seq (insert_donation (new_donation N rtm tenant donor key) enc)
       (act_ret (new_donation N rtm tenant donor key))))))))"

definition listDonations :: "num \<Rightarrow> string option \<Rightarrow> string option \<Rightarrow> donation_status option \<Rightarrow> num option \<Rightarrow> donate_db \<Rightarrow> donation list" where
  "listDonations now tenant donor status limit d =
     (let set_filter = (\<lambda>f v. case f of None \<Rightarrow> True | Some s \<Rightarrow> s = [] \<or> v = s);
          lim = min 25 (max 1 (case limit of None \<Rightarrow> 10 | Some q \<Rightarrow> q))
      in take (nat \<lfloor>lim\<rfloor>) (sort_by (\<lambda>a b. dn_created b \<le> dn_created a)
           (filter (\<lambda>x. now < dn_expires x \<and> set_filter tenant (dn_tenant x) \<and> set_filter donor (dn_donor x) \<and>
              (status = None \<or> status = Some (dn_status x))) (nb_rows d))))"

record donation_stats =
  ns_total :: nat
  ns_by_status :: "donation_status \<Rightarrow> nat"
  ns_providers :: "(string \<times> nat) list"

definition donationPoolStats :: "num \<Rightarrow> donate_db \<Rightarrow> donation_stats" where
  "donationPoolStats now d =
     (let live = filter (\<lambda>x. now < dn_expires x) (nb_rows d)
      in \<lparr>ns_total = length live, ns_by_status = (\<lambda>s. length (filter (\<lambda>x. dn_status x = s) live)),
          ns_providers = take 8 (sort_by (\<lambda>a b. snd b \<le> snd a)
            (map (\<lambda>p. (p, length (filter (\<lambda>x. dn_provider x = p) live))) (uniq (map dn_provider live))))\<rparr>)"

definition readDonationKey :: "cp_runtime \<Rightarrow> string \<Rightarrow> donate_db \<Rightarrow> jval" where
  "readDonationKey rtm i d =
     (case map_of (nb_secrets d) i of
        None \<Rightarrow> JNull
      | Some enc \<Rightarrow> (case decryptJson (cr_P rtm) enc (cr_key rtm) (donation_aad i) of
            Inl e \<Rightarrow> JNull | Inr v \<Rightarrow> if nullish v then JNull else fld v ''key''))"

definition set_donation :: "string \<Rightarrow> (donation \<Rightarrow> donation) \<Rightarrow> donate_db \<Rightarrow> donate_db" where
  "set_donation i f d = d\<lparr>nb_rows := map (\<lambda>x. if dn_id x = i then f x else x) (nb_rows d)\<rparr>"

definition drop_secret :: "string \<Rightarrow> donate_db \<Rightarrow> donate_db" where
  "drop_secret i d = d\<lparr>nb_secrets := adel i (nb_secrets d)\<rparr>"

definition setDonationStatus :: "num \<Rightarrow> string \<Rightarrow> donation_status \<Rightarrow> donate_db \<Rightarrow> donation option \<times> donate_db" where
  "setDonationStatus now i status d =
     (let d1 = (if status = D_withdrawn \<or> status = D_rejected then drop_secret i d else d);
          d2 = set_donation i (\<lambda>x. x\<lparr>dn_status := status, dn_updated := now, dn_review := Some now\<rparr>) d1
      in (find (\<lambda>x. dn_id x = i) (nb_rows d2), d2))"

definition withdrawDonation :: "num \<Rightarrow> string \<Rightarrow> string \<Rightarrow> donate_db \<Rightarrow> bool \<times> donate_db" where
  "withdrawDonation now i donor d =
     (case find (\<lambda>x. dn_id x = i) (nb_rows d) of
        None \<Rightarrow> (False, d)
      | Some x \<Rightarrow>
          if dn_donor x \<noteq> donor \<or> dn_status x = D_withdrawn then (False, d)
          else (True, set_donation i (\<lambda>x. x\<lparr>dn_status := D_withdrawn, dn_updated := now\<rparr>) (drop_secret i d)))"

text \<open>The deletions run in batches of ten donations; here as one pass.\<close>

definition donation_due :: "num \<Rightarrow> donation \<Rightarrow> bool" where
  "donation_due now x \<longleftrightarrow> dn_expires x \<le> now \<or> dn_status x = D_rejected"

definition purgeExpiredDonations :: "num \<Rightarrow> donate_db \<Rightarrow> nat \<times> donate_db" where
  "purgeExpiredDonations now d =
     (let ids = map dn_id (filter (donation_due now) (nb_rows d))
      in (length ids, d\<lparr>nb_rows := filter (\<lambda>x. dn_id x \<notin> set ids) (nb_rows d), nb_secrets := filter (\<lambda>s. fst s \<notin> set ids) (nb_secrets d)\<rparr>))"

subsection \<open>The vault\<close>

text \<open>What a stored envelope promises for its donation.\<close>

definition vault_entry :: "donate_text \<Rightarrow> cp_platform \<Rightarrow> string \<Rightarrow> string \<times> string \<Rightarrow> donation \<Rightarrow> bool" where
  "vault_entry N P key s x \<longleftrightarrow> dn_id x = fst s \<and> dn_status x \<in> {D_pending, D_approved} \<and>
     (\<exists>k. decryptJson P (snd s) key (donation_aad (fst s)) = Inr (JObj [(''key'', JStr k)]) \<and>
        dn_fingerprint x = cp_sha256 P (''ai-donation:'' @ k) \<and> dn_snippet x = redactKey N k)"

definition vault_ok :: "donate_text \<Rightarrow> cp_platform \<Rightarrow> string \<Rightarrow> donate_db \<Rightarrow> bool" where
  "vault_ok N P key d \<longleftrightarrow> distinct (map dn_id (nb_rows d)) \<and> distinct (map dn_fingerprint (nb_rows d)) \<and> distinct (map fst (nb_secrets d)) \<and>
     (\<forall>s \<in> set (nb_secrets d). \<exists>x \<in> set (nb_rows d). vault_entry N P key s x)"

lemma vault_ok_db: "vault_ok N P key (d\<lparr>nb_db := c\<rparr>) = vault_ok N P key d"
  by (simp add: vault_ok_def)

lemma insert_vault:
  assumes "vault_ok N P key d" and "vault_entry N P key (dn_id x, enc) x" and "insert_donation x enc d = (r, d')"
  shows "vault_ok N P key d'"
proof (cases r)
  case (Inl e)
  with assms show ?thesis by (auto simp: insert_donation_def split: if_splits)
next
  case (Inr u)
  with assms(3) have d': "d' = d\<lparr>nb_rows := nb_rows d @ [x], nb_secrets := nb_secrets d @ [(dn_id x, enc)]\<rparr>"
    and fresh: "dn_id x \<notin> dn_id ` set (nb_rows d)" "dn_fingerprint x \<notin> dn_fingerprint ` set (nb_rows d)" "dn_id x \<notin> fst ` set (nb_secrets d)"
    by (auto simp: insert_donation_def split: if_splits)
  show ?thesis using assms(1,2) fresh unfolding vault_ok_def d' by auto
qed

lemma create_vault:
  assumes "vault_ok N P key d" and "aead_laws P" and "importEncryptionKey key = Inr kek"
    and "cr_P rtm = P" and "cr_key rtm = key" and "er_wrap (cr_envelope rtm) \<noteq> []" and "er_data (cr_envelope rtm) \<noteq> []"
  shows "vault_ok N P key (snd (createDonation N rtm tenant donor inp d))"
proof (cases "validateDonationKey inp")
  case (Inl e)
  with assms(1) show ?thesis by (simp add: createDonation_def act_bind_def act_lift_def)
next
  case (Inr k)
  obtain q c where rl: "rateLimit rtm (''ai-donate:'' @ donor) 3 3600 (nb_db d) = (q, c)" by fastforce
  let ?d = "d\<lparr>nb_db := c\<rparr>"
  have ok: "vault_ok N P key ?d" using assms(1) by (simp only: vault_ok_db)
  obtain enc where enc: "encryptJson P (cr_envelope rtm) (JObj [(''key'', JStr k)]) key (donation_aad (cr_uuid rtm)) = Inr enc"
    using encryptJson_eq [OF assms(3)] by blast
  have "decryptJson P enc key (donation_aad (cr_uuid rtm)) = Inr (JObj [(''key'', JStr k)])"
    by (rule sealed_opens [OF assms(2,3) _ assms(6,7) enc]) simp
  then have e: "vault_entry N P key (dn_id (new_donation N rtm tenant donor k), enc) (new_donation N rtm tenant donor k)"
    by (simp add: vault_entry_def new_donation_def assms(4))
  obtain r d' where ins: "insert_donation (new_donation N rtm tenant donor k) enc ?d = (r, d')" by fastforce
  have d': "vault_ok N P key d'" by (rule insert_vault [OF ok e ins])
  have run: "nb_run (rateLimit rtm (''ai-donate:'' @ donor) 3 3600) d = (q, ?d)" unfolding nb_run_def rl by simp
  have "snd (createDonation N rtm tenant donor inp d) \<in> {?d, d'}"
    unfolding createDonation_def act_bind_def act_lift_def Inr prod.case sum.case run assms(4,5) enc
    using ins by (auto simp: act_seq_def act_bind_def act_when_def act_get_def act_ret_def act_throw_def enc split: sum.splits prod.splits if_splits)
  with ok d' show ?thesis by auto
qed

lemma map_keeps: "(\<And>x. f (g x) = f x) \<Longrightarrow> map f (map (\<lambda>x. if P x then g x else x) xs) = map f xs"
  by (induction xs) auto

lemma secret_drop_vault:
  assumes "vault_ok N P key d" and "\<And>x. dn_id (f x) = dn_id x \<and> dn_fingerprint (f x) = dn_fingerprint x"
  shows "vault_ok N P key (set_donation i f (drop_secret i d))"
proof -
  let ?g = "\<lambda>x. if dn_id x = i then f x else x"
  have "\<exists>x \<in> set (map ?g (nb_rows d)). vault_entry N P key s x" if s: "s \<in> set (adel i (nb_secrets d))" for s
  proof -
    from s assms(1) obtain x where x: "x \<in> set (nb_rows d)" "vault_entry N P key s x" by (auto simp: vault_ok_def adel_def)
    moreover have "dn_id x \<noteq> i" using x(2) s by (auto simp: vault_entry_def adel_def)
    ultimately show ?thesis by force
  qed
  with assms show ?thesis
    by (simp add: vault_ok_def set_donation_def drop_secret_def map_keeps distinct_adel del: map_map)
qed

lemma approve_vault:
  assumes "vault_ok N P key d"
  shows "vault_ok N P key (set_donation i (\<lambda>x. x\<lparr>dn_status := D_approved, dn_updated := now, dn_review := r\<rparr>) d)"
proof -
  let ?f = "\<lambda>x. x\<lparr>dn_status := D_approved, dn_updated := now, dn_review := r\<rparr>"
  let ?g = "\<lambda>x. if dn_id x = i then ?f x else x"
  have "\<exists>x \<in> set (map ?g (nb_rows d)). vault_entry N P key s x" if s: "s \<in> set (nb_secrets d)" for s
  proof -
    from s assms(1) obtain x where x: "x \<in> set (nb_rows d)" "vault_entry N P key s x" by (auto simp: vault_ok_def)
    then have "vault_entry N P key s (?g x)" by (auto simp: vault_entry_def)
    with imageI [OF x(1), of ?g] show ?thesis unfolding set_map by blast
  qed
  with assms show ?thesis by (simp add: vault_ok_def set_donation_def map_keeps del: map_map)
qed

lemma status_vault: "vault_ok N P key d \<Longrightarrow> status \<noteq> D_pending \<Longrightarrow> vault_ok N P key (snd (setDonationStatus now i status d))"
  by (cases status) (simp_all add: setDonationStatus_def Let_def secret_drop_vault approve_vault)

lemma withdraw_vault: "vault_ok N P key d \<Longrightarrow> vault_ok N P key (snd (withdrawDonation now i donor d))"
  by (auto simp: withdrawDonation_def secret_drop_vault split: option.splits)

lemma purge_vault:
  assumes "vault_ok N P key d"
  shows "vault_ok N P key (snd (purgeExpiredDonations now d))"
proof -
  let ?ids = "map dn_id (filter (donation_due now) (nb_rows d))"
  have "\<exists>x \<in> set (filter (\<lambda>x. dn_id x \<notin> set ?ids) (nb_rows d)). vault_entry N P key s x"
    if s: "s \<in> set (nb_secrets d)" "fst s \<notin> set ?ids" for s
  proof -
    from s(1) assms obtain x where x: "x \<in> set (nb_rows d)" "vault_entry N P key s x" by (auto simp: vault_ok_def)
    then have "dn_id x = fst s" by (simp add: vault_entry_def)
    with x s(2) show ?thesis by (intro bexI [of _ x]) auto
  qed
  with assms show ?thesis by (simp add: vault_ok_def purgeExpiredDonations_def Let_def distinct_map_filter)
qed

text \<open>Any sequence of donations, reviews, withdrawals and purges under one encryption key; the rest of the database may change.\<close>

inductive vault :: "donate_text \<Rightarrow> cp_platform \<Rightarrow> string \<Rightarrow> donate_db \<Rightarrow> bool" for N P key where
  start: "nb_rows d = [] \<Longrightarrow> nb_secrets d = [] \<Longrightarrow> vault N P key d"
| create: "vault N P key d \<Longrightarrow> cr_P rtm = P \<Longrightarrow> cr_key rtm = key \<Longrightarrow> er_wrap (cr_envelope rtm) \<noteq> [] \<Longrightarrow> er_data (cr_envelope rtm) \<noteq> [] \<Longrightarrow>
     vault N P key (snd (createDonation N rtm tenant donor inp d))"
| status: "vault N P key d \<Longrightarrow> s \<noteq> D_pending \<Longrightarrow> vault N P key (snd (setDonationStatus now i s d))"
| withdraw: "vault N P key d \<Longrightarrow> vault N P key (snd (withdrawDonation now i donor d))"
| purge: "vault N P key d \<Longrightarrow> vault N P key (snd (purgeExpiredDonations now d))"
| other: "vault N P key d \<Longrightarrow> vault N P key (d\<lparr>nb_db := c\<rparr>)"

text \<open>
  C35. The vault of donated keys. In every state that donations, reviews, withdrawals and purges can reach, in any order: no key is stored
  twice; every sealed key belongs to a donation that is pending or approved, so a rejected or withdrawn donation keeps no
  ciphertext; and the envelope opens, under the donation's own identifier, to the key whose fingerprint and redacted snippet the donation
  shows.
\<close>

theorem donation_vault:
  assumes "vault N P key d" and "aead_laws P" and "importEncryptionKey key = Inr kek"
  shows "distinct (map dn_fingerprint (nb_rows d)) \<and>
    (\<forall>(i, enc) \<in> set (nb_secrets d). \<exists>x \<in> set (nb_rows d). dn_id x = i \<and> dn_status x \<in> {D_pending, D_approved} \<and>
       (\<exists>k. decryptJson P enc key (donation_aad i) = Inr (JObj [(''key'', JStr k)]) \<and>
          dn_fingerprint x = cp_sha256 P (''ai-donation:'' @ k) \<and> dn_snippet x = redactKey N k))"
proof -
  have "vault_ok N P key d" using assms(1)
  proof induction
    case (start d)
    then show ?case by (simp add: vault_ok_def)
  next
    case (create d rtm tenant donor inp)
    then show ?case using create_vault assms(2,3) by blast
  qed (simp_all add: status_vault withdraw_vault purge_vault vault_ok_db)
  then show ?thesis unfolding vault_ok_def vault_entry_def by (auto simp: case_prod_beta)
qed

definition demo_donations :: donate_db where
  "demo_donations = \<lparr>nb_db = demo_cp_db, nb_rows = [], nb_secrets = []\<rparr>"

definition demo_donate_text :: donate_text where
  "demo_donate_text = \<lparr>dt_compatible = ''OpenAI compatible'', dt_unknown = ''unknown'', dt_ellipsis = ''...''\<rparr>"

lemma demo_created:
  "\<exists>enc. nb_secrets (snd (createDonation demo_donate_text demo_cr ''t1'' ''42'' (JStr ''sk-ant-0123456789abcdef'') demo_donations)) = [(cr_uuid demo_cr, enc)]"
proof -
  let ?k = "''sk-ant-0123456789abcdef''"
  have k: "validateDonationKey (JStr ?k) = Inr ?k" by code_simp
  have t: "''t1'' \<in> t_id ` set (cp_tenants demo_cp_db)" "cp_rates demo_cp_db = []" by (simp_all add: demo_cp_db_def empty_cp_def)
  obtain enc where enc: "encryptJson demo_cp (cr_envelope demo_cr) (JObj [(''key'', JStr ?k)]) (bytesToBase64Url (replicate 32 0)) (donation_aad (cr_uuid demo_cr)) = Inr enc"
    using encryptJson_eq [OF demo_key] by blast
  have c: "cr_P demo_cr = demo_cp" "cr_key demo_cr = bytesToBase64Url (replicate 32 0)" by (simp_all add: demo_cr_def)
  have "nb_run (rateLimit demo_cr (''ai-donate:'' @ ''42'') 3 3600) demo_donations =
      (Inr True, demo_donations\<lparr>nb_db := demo_cp_db\<lparr>cp_rates := [(''ai-donate:'' @ ''42'', rate_window (cr_now demo_cr) 3600, 1)]\<rparr>\<rparr>)"
    using t(2) by (simp add: nb_run_def rateLimit_def rate_hit_def Let_def demo_donations_def)
  then have "snd (createDonation demo_donate_text demo_cr ''t1'' ''42'' (JStr ?k) demo_donations) =
      snd (insert_donation (new_donation demo_donate_text demo_cr ''t1'' ''42'' ?k) enc
        (demo_donations\<lparr>nb_db := demo_cp_db\<lparr>cp_rates := [(''ai-donate:'' @ ''42'', rate_window (cr_now demo_cr) 3600, 1)]\<rparr>\<rparr>))"
    unfolding createDonation_def act_bind_def act_lift_def k c
    using enc by (simp add: act_seq_def act_bind_def act_when_def act_get_def act_ret_def active_donations_def demo_donations_def split: sum.splits prod.splits)
  then show ?thesis using t by (simp add: insert_donation_def new_donation_def demo_donations_def)
qed

theorem donation_vault_witness:
  "\<exists>enc k. nb_secrets (snd (createDonation demo_donate_text demo_cr ''t1'' ''42'' (JStr ''sk-ant-0123456789abcdef'') demo_donations)) = [(cr_uuid demo_cr, enc)] \<and>
     decryptJson demo_cp enc (bytesToBase64Url (replicate 32 0)) (donation_aad (cr_uuid demo_cr)) = Inr (JObj [(''key'', JStr k)])"
proof -
  let ?d = "snd (createDonation demo_donate_text demo_cr ''t1'' ''42'' (JStr ''sk-ant-0123456789abcdef'') demo_donations)"
  have v: "vault demo_donate_text demo_cp (bytesToBase64Url (replicate 32 0)) ?d"
    by (rule vault.create [OF vault.start]) (simp_all add: demo_donations_def demo_cr_def)
  obtain enc where s: "nb_secrets ?d = [(cr_uuid demo_cr, enc)]" using demo_created by blast
  from donation_vault [OF v demo_cp_laws demo_key] have "\<forall>(i, enc) \<in> set (nb_secrets ?d). \<exists>k. decryptJson demo_cp enc (bytesToBase64Url (replicate 32 0)) (donation_aad i) = Inr (JObj [(''key'', JStr k)])"
    by blast
  then show ?thesis unfolding s by auto
qed

end
