(* ===== verification/Cp_Wizard.thy ===== *)
theory Cp_Wizard
  imports Cp_Deploy
begin

text \<open>
  The deployment wizard of the chat (\<^verbatim>\<open>src/telegram-wizard.ts\<close>): the validators of its answers, its steps as a state
  machine, its row in \<open>telegram_wizards\<close>, and the input it submits (\<^verbatim>\<open>src/telegram.ts\<close>, the button
  \<open>wiz:confirm\<close>). A reply is the prompt it shows; the Persian texts and keyboards are not modelled.
\<close>

subsection \<open>State\<close>

record wizard_state =
  ws_connection :: string
  ws_connection_name :: string
  ws_account :: string
  ws_account_name :: string
  ws_zone :: string
  ws_zone_name :: string
  ws_worker_name :: "string option"
  ws_worker_hostname :: "string option"
  ws_node_hostname :: "string option"
  ws_vps :: "string option"
  ws_email :: "string option"
  ws_reality :: "string option"
  ws_ufw :: "bool option"

datatype wizard_step = W_connection | W_worker_name | W_worker_hostname | W_node_hostname | W_vps | W_email | W_reality | W_ufw | W_confirm

fun wizard_step_name :: "wizard_step \<Rightarrow> string" where
  "wizard_step_name W_connection = ''connection''"
| "wizard_step_name W_worker_name = ''workerName''"
| "wizard_step_name W_worker_hostname = ''workerHostname''"
| "wizard_step_name W_node_hostname = ''nodeHostname''"
| "wizard_step_name W_vps = ''vpsIpv4''"
| "wizard_step_name W_email = ''acmeEmail''"
| "wizard_step_name W_reality = ''realitySNI''"
| "wizard_step_name W_ufw = ''ufw''"
| "wizard_step_name W_confirm = ''confirm''"

text \<open>A value that is not set is left out of the stored object.\<close>

definition opt_text :: "string option \<Rightarrow> jval" where
  "opt_text v = (case v of None \<Rightarrow> JUndef | Some s \<Rightarrow> JStr s)"

definition opt_bool :: "bool option \<Rightarrow> jval" where
  "opt_bool v = (case v of None \<Rightarrow> JUndef | Some b \<Rightarrow> JBool b)"

definition state_json :: "wizard_state \<Rightarrow> jval" where
  "state_json s = JObj
     [(''connectionId'', JStr (ws_connection s)), (''connectionName'', JStr (ws_connection_name s)),
      (''accountId'', JStr (ws_account s)), (''accountName'', JStr (ws_account_name s)),
      (''zoneId'', JStr (ws_zone s)), (''zoneName'', JStr (ws_zone_name s)),
      (''workerName'', opt_text (ws_worker_name s)), (''workerHostname'', opt_text (ws_worker_hostname s)),
      (''nodeHostname'', opt_text (ws_node_hostname s)), (''vpsIpv4'', opt_text (ws_vps s)),
      (''acmeEmail'', opt_text (ws_email s)), (''realityServerName'', opt_text (ws_reality s)), (''enableUfw'', opt_bool (ws_ufw s))]"

text \<open>\<open>parseState\<close>; the stored values are texts and a Boolean, as \<open>saveWizard\<close> writes them.\<close>

fun text_of :: "jval \<Rightarrow> string option" where
  "text_of (JStr s) = Some s"
| "text_of v = None"

fun bool_of :: "jval \<Rightarrow> bool option" where
  "bool_of (JBool b) = Some b"
| "bool_of v = None"

definition text_or_empty :: "jval \<Rightarrow> string" where
  "text_or_empty v = (case text_of v of None \<Rightarrow> [] | Some s \<Rightarrow> s)"

definition parseState :: "string \<Rightarrow> wizard_state option" where
  "parseState raw =
     (case json_parse raw of
        None \<Rightarrow> None
      | Some v \<Rightarrow>
          if \<not> (truthy (fld v ''connectionId'') \<and> truthy (fld v ''accountId'') \<and> truthy (fld v ''zoneId'') \<and> truthy (fld v ''zoneName''))
          then None
          else Some
            \<lparr>ws_connection = text_or_empty (fld v ''connectionId''), ws_connection_name = text_or_empty (fld v ''connectionName''),
             ws_account = text_or_empty (fld v ''accountId''), ws_account_name = text_or_empty (fld v ''accountName''),
             ws_zone = text_or_empty (fld v ''zoneId''), ws_zone_name = text_or_empty (fld v ''zoneName''),
             ws_worker_name = text_of (fld v ''workerName''), ws_worker_hostname = text_of (fld v ''workerHostname''),
             ws_node_hostname = text_of (fld v ''nodeHostname''), ws_vps = text_of (fld v ''vpsIpv4''),
             ws_email = text_of (fld v ''acmeEmail''), ws_reality = text_of (fld v ''realityServerName''),
             ws_ufw = bool_of (fld v ''enableUfw'')\<rparr>)"

subsection \<open>The table\<close>

record wizard_row =
  wz_user :: string
  wz_flow :: string
  wz_step :: wizard_step
  wz_json :: string
  wz_expires :: num
  wz_updated :: num

definition WIZARD_TTL_SECONDS :: num where
  "WIZARD_TTL_SECONDS = 1800"

definition WIZARD_FLOW_DEPLOY :: string where
  "WIZARD_FLOW_DEPLOY = ''deploy''"

definition clearWizard :: "string \<Rightarrow> wizard_row list \<Rightarrow> wizard_row list" where
  "clearWizard user rows = filter (\<lambda>w. wz_user w \<noteq> user) rows"

definition loadWizard :: "num \<Rightarrow> string \<Rightarrow> wizard_row list \<Rightarrow> (wizard_step \<times> wizard_state) option \<times> wizard_row list" where
  "loadWizard now user rows =
     (case find (\<lambda>w. wz_user w = user) rows of
        None \<Rightarrow> (None, rows)
      | Some w \<Rightarrow>
          if wz_expires w \<le> now \<or> wz_flow w \<noteq> WIZARD_FLOW_DEPLOY then (None, clearWizard user rows)
          else case parseState (wz_json w) of
            None \<Rightarrow> (None, clearWizard user rows)
          | Some s \<Rightarrow> (Some (wz_step w, s), rows))"

text \<open>
  A prepared statement of D1 runs only with exactly as many bound values as it has placeholders; otherwise it raises.
\<close>

definition d1_run :: "nat \<Rightarrow> string list \<Rightarrow> ('s \<Rightarrow> 's) \<Rightarrow> ('s, unit) act" where
  "d1_run placeholders vals f =
     act_seq (act_when (length vals \<noteq> placeholders) (JsError ''Wrong number of parameter bindings for SQL query'')) (act_upd f)"

definition put_wizard :: "wizard_row \<Rightarrow> wizard_row list \<Rightarrow> wizard_row list" where
  "put_wizard w rows = (if list_ex (\<lambda>x. wz_user x = wz_user w) rows then map (\<lambda>x. if wz_user x = wz_user w then w else x) rows else rows @ [w])"

definition saveWizard :: "num \<Rightarrow> string \<Rightarrow> wizard_step \<Rightarrow> wizard_state \<Rightarrow> (wizard_row list, unit) act" where
  "saveWizard now user step s =
     (let expires = addSecondsIso now WIZARD_TTL_SECONDS; raw = json_stringify (state_json s) in
      d1_run 6
        [user, WIZARD_FLOW_DEPLOY, wizard_step_name step, raw, iso_string expires, iso_string now, iso_string now]
        (put_wizard \<lparr>wz_user = user, wz_flow = WIZARD_FLOW_DEPLOY, wz_step = step, wz_json = raw, wz_expires = expires, wz_updated = now\<rparr>))"

subsection \<open>Validation\<close>

datatype wizard_error = Bad_worker_name | Bad_hostname | Outside_zone | Same_hostname | Bad_ipv4 | Bad_email | Bad_target | Target_is_node

definition validateWizardWorkerName :: "string \<Rightarrow> wizard_error option" where
  "validateWizardWorkerName v = (if isValidWorkerName (to_lower (trim v)) then None else Some Bad_worker_name)"

definition validateWizardSubdomain :: "string \<Rightarrow> string \<Rightarrow> string option \<Rightarrow> wizard_error option" where
  "validateWizardSubdomain v zoneName other =
     (let normalized = to_lower (trim v) in
      if \<not> isValidHostname normalized then Some Bad_hostname
      else if \<not> ends_with (''.'' @ to_lower zoneName) normalized then Some Outside_zone
      else if (case other of None \<Rightarrow> False | Some n \<Rightarrow> n \<noteq> [] \<and> normalized = n) then Some Same_hostname
      else None)"

definition validateWizardIpv4 :: "string \<Rightarrow> wizard_error option" where
  "validateWizardIpv4 v = (if isPublicIpv4 (trim v) then None else Some Bad_ipv4)"

definition validateWizardEmail :: "string \<Rightarrow> wizard_error option" where
  "validateWizardEmail v = (if isValidEmail (to_lower (trim v)) then None else Some Bad_email)"

definition validateWizardSni :: "string \<Rightarrow> string \<Rightarrow> wizard_error option" where
  "validateWizardSni v nodeHostname =
     (let normalized = to_lower (trim v) in
      if \<not> isValidHostname normalized then Some Bad_target
      else if normalized = nodeHostname then Some Target_is_node
      else None)"

subsection \<open>Steps\<close>

datatype wizard_reply = Ask wizard_step | Again wizard_error wizard_step | Press_buttons | Summary wizard_state | Wizard_over

datatype wizard_next = Stay wizard_reply | Goto wizard_step wizard_state | Drop

definition accept :: "wizard_error option \<Rightarrow> wizard_step \<Rightarrow> wizard_step \<Rightarrow> wizard_state \<Rightarrow> wizard_next" where
  "accept e here there s = (case e of Some x \<Rightarrow> Stay (Again x here) | None \<Rightarrow> Goto there s)"

text \<open>What \<open>processWizardText\<close> decides in each case of its switch.\<close>

fun wizard_answer :: "wizard_step \<Rightarrow> wizard_state \<Rightarrow> string \<Rightarrow> wizard_next" where
  "wizard_answer W_worker_name s v =
     accept (validateWizardWorkerName v) W_worker_name W_worker_hostname (s\<lparr>ws_worker_name := Some (to_lower (trim v))\<rparr>)"
| "wizard_answer W_worker_hostname s v =
     accept (validateWizardSubdomain v (ws_zone_name s) None) W_worker_hostname W_node_hostname
       (s\<lparr>ws_worker_hostname := Some (to_lower (trim v))\<rparr>)"
| "wizard_answer W_node_hostname s v =
     accept (validateWizardSubdomain v (ws_zone_name s) (ws_worker_hostname s)) W_node_hostname W_vps
       (s\<lparr>ws_node_hostname := Some (to_lower (trim v))\<rparr>)"
| "wizard_answer W_vps s v = accept (validateWizardIpv4 v) W_vps W_email (s\<lparr>ws_vps := Some (trim v)\<rparr>)"
| "wizard_answer W_email s v = accept (validateWizardEmail v) W_email W_reality (s\<lparr>ws_email := Some (to_lower (trim v))\<rparr>)"
| "wizard_answer W_reality s v =
     accept (validateWizardSni v (case ws_node_hostname s of None \<Rightarrow> [] | Some n \<Rightarrow> n)) W_reality W_ufw
       (s\<lparr>ws_reality := Some (to_lower (trim v))\<rparr>)"
| "wizard_answer W_ufw s v = Stay Press_buttons"
| "wizard_answer W_confirm s v = Stay (Summary s)"
| "wizard_answer W_connection s v = Drop"

definition processWizardText ::
  "num \<Rightarrow> string \<Rightarrow> wizard_step \<times> wizard_state \<Rightarrow> string \<Rightarrow> (wizard_row list, wizard_reply) act" where
  "processWizardText now user = (\<lambda>(step, s) v.
     case wizard_answer step s v of
       Stay r \<Rightarrow> act_ret r
     | Goto n s' \<Rightarrow> act_seq (saveWizard now user n s') (act_ret (Ask n))
     | Drop \<Rightarrow> act_seq (act_upd (clearWizard user)) (act_ret Wizard_over))"

record wizard_boundary =
  wb_connection :: string
  wb_account :: string
  wb_account_name :: string
  wb_zone :: string
  wb_zone_name :: string

definition wizard_start :: "wizard_boundary \<Rightarrow> wizard_state" where
  "wizard_start b =
     \<lparr>ws_connection = wb_connection b, ws_connection_name = wb_zone_name b, ws_account = wb_account b, ws_account_name = wb_account_name b,
      ws_zone = wb_zone b, ws_zone_name = wb_zone_name b, ws_worker_name = None, ws_worker_hostname = None, ws_node_hostname = None,
      ws_vps = None, ws_email = None, ws_reality = None, ws_ufw = None\<rparr>"

definition beginDeployWizard :: "num \<Rightarrow> string \<Rightarrow> wizard_boundary \<Rightarrow> (wizard_row list, wizard_reply) act" where
  "beginDeployWizard now user b = act_seq (saveWizard now user W_worker_name (wizard_start b)) (act_ret (Ask W_worker_name))"

definition sni_default :: "wizard_state \<Rightarrow> wizard_state" where
  "sni_default s = s\<lparr>ws_reality := Some ''www.microsoft.com''\<rparr>"

definition applySniDefault :: "num \<Rightarrow> string \<Rightarrow> wizard_state \<Rightarrow> (wizard_row list, wizard_reply) act" where
  "applySniDefault now user s = act_seq (saveWizard now user W_ufw (sni_default s)) (act_ret (Ask W_ufw))"

definition applyUfwChoice :: "num \<Rightarrow> string \<Rightarrow> wizard_state \<Rightarrow> bool \<Rightarrow> (wizard_row list, wizard_reply) act" where
  "applyUfwChoice now user s enable =
     (let s' = s\<lparr>ws_ufw := Some enable\<rparr> in act_seq (saveWizard now user W_confirm s') (act_ret (Summary s')))"

text \<open>The bound resources of a connection: \<open>botConnectionBoundary\<close> of \<^verbatim>\<open>src/bot-actions.ts\<close>.\<close>

definition set_text :: "string option \<Rightarrow> bool" where
  "set_text v \<longleftrightarrow> v \<noteq> None \<and> v \<noteq> Some []"

definition botConnectionBoundary :: "principal \<Rightarrow> string \<Rightarrow> cp_db \<Rightarrow> wizard_boundary res" where
  "botConnectionBoundary p cid d =
     res_bind (getConnection cid (Some (pr_tenant p)) d) (\<lambda>c.
       if c_auth_type c \<noteq> ''api_token'' \<or> \<not> set_text (c_account c) \<or> \<not> set_text (c_account_name c) \<or>
          \<not> set_text (c_zone c) \<or> \<not> set_text (c_zone_name c)
       then Inl (JsError ''Cloudflare connection resource binding is unavailable'')
       else Inr \<lparr>wb_connection = c_id c, wb_account = the (c_account c), wb_account_name = the (c_account_name c),
                 wb_zone = the (c_zone c), wb_zone_name = the (c_zone_name c)\<rparr>)"

text \<open>The input that \<open>wiz:confirm\<close> submits, when no answer is missing or empty.\<close>

definition confirm_input :: "wizard_state \<Rightarrow> deployment_input option" where
  "confirm_input s =
     (if set_text (ws_worker_name s) \<and> set_text (ws_worker_hostname s) \<and> set_text (ws_node_hostname s) \<and> set_text (ws_vps s) \<and>
         set_text (ws_email s) \<and> set_text (ws_reality s) \<and> ws_ufw s \<noteq> None
      then Some \<lparr>di_connectionId = ws_connection s, di_accountId = ws_account s, di_zoneId = ws_zone s,
        di_workerName = the (ws_worker_name s), di_workerHostname = the (ws_worker_hostname s),
        di_nodeHostname = the (ws_node_hostname s), di_vpsIpv4 = the (ws_vps s), di_acmeEmail = the (ws_email s),
        di_realityServerName = the (ws_reality s), di_enableUfw = the (ws_ufw s)\<rparr>
      else None)"


subsection \<open>The stored state\<close>

text \<open>What \<open>saveWizard\<close> would store reads back, when the four identifiers are not empty.\<close>

lemma text_of_opt [simp]: "text_of (opt_text v) = v"
  by (cases v) (simp_all add: opt_text_def)

lemma bool_of_opt [simp]: "bool_of (opt_bool v) = v"
  by (cases v) (simp_all add: opt_bool_def)

lemma parseState_state:
  assumes "ws_connection s \<noteq> []" and "ws_account s \<noteq> []" and "ws_zone s \<noteq> []" and "ws_zone_name s \<noteq> []"
  shows "parseState (json_stringify (state_json s)) = Some s"
proof -
  obtain kvs where kvs: "state_json s = JObj kvs" by (simp add: state_json_def)
  let ?set = "filter (\<lambda>(k, v). v \<noteq> JUndef) kvs"
  have d: "distinct (map fst kvs)" using kvs by (auto simp: state_json_def)
  have m: "map_of ?set k = (case map_of kvs k of None \<Rightarrow> None | Some v \<Rightarrow> if v = JUndef then None else Some v)" for k
    using d by (induction kvs) (auto split: option.splits simp: weak_map_of_SomeI map_of_eq_None_iff image_iff)
  then have f: "fld (JObj ?set) k = fld (JObj kvs) k" for k by (auto split: option.splits)
  have "list_all (\<lambda>(k, v). v = JUndef \<or> plain v) kvs"
    using kvs by (auto simp: state_json_def opt_text_def opt_bool_def split: option.splits)
  then have "plain (JObj ?set)" using d by (auto simp: list_all_iff intro: distinct_map_filter)
  moreover have "json_stringify (JObj ?set) = json_stringify (state_json s)" by (simp add: kvs)
  ultimately have p: "json_parse (json_stringify (state_json s)) = Some (JObj ?set)" using json_parse_stringify by metis
  have g: "fld (JObj ?set) k = fld (state_json s) k" for k by (simp only: f kvs)
  show ?thesis
    unfolding parseState_def p option.case g using assms by (simp add: state_json_def text_or_empty_def)
qed

subsection \<open>No step is ever stored\<close>

text \<open>
  \<open>saveWizard\<close> prepares a statement with six placeholders and binds seven values.
\<close>

lemma saveWizard_raises: "saveWizard now user step s rows = (Inl (JsError ''Wrong number of parameter bindings for SQL query''), rows)"
  by (simp add: saveWizard_def d1_run_def act_defs)

definition raises :: "('s, 'a) act \<Rightarrow> bool" where
  "raises m \<longleftrightarrow> (\<forall>s. \<exists>e. m s = (Inl e, s))"

lemma raises_seq: "raises m \<Longrightarrow> raises (act_seq m k)"
  unfolding raises_def act_seq_def act_bind_def by (metis (mono_tags, lifting) case_prod_conv sum.simps(5))

lemma raises_save: "raises (saveWizard now user step s)"
  by (simp add: raises_def saveWizard_raises)


subsection \<open>What the wizard would submit\<close>

datatype wizard_event = Say string | Default_target | Choose_ufw bool

text \<open>The step after an event, had it been stored; the buttons of an earlier message keep working, at any step.\<close>

fun wizard_move :: "wizard_event \<Rightarrow> wizard_step \<times> wizard_state \<Rightarrow> wizard_step \<times> wizard_state" where
  "wizard_move (Say v) (step, s) = (case wizard_answer step s v of Goto n s' \<Rightarrow> (n, s') | _ \<Rightarrow> (step, s))"
| "wizard_move Default_target (step, s) = (W_ufw, sni_default s)"
| "wizard_move (Choose_ufw b) (step, s) = (W_confirm, s\<lparr>ws_ufw := Some b\<rparr>)"

definition all_opt :: "('a \<Rightarrow> bool) \<Rightarrow> 'a option \<Rightarrow> bool" where
  "all_opt P v = (case v of None \<Rightarrow> True | Some x \<Rightarrow> P x)"

lemma all_opt_simps [simp]: "all_opt P None" "all_opt P (Some x) = P x"
  by (simp_all add: all_opt_def)

definition below_zone :: "string \<Rightarrow> string \<Rightarrow> bool" where
  "below_zone zone h \<longleftrightarrow> isValidHostname h \<and> ends_with (''.'' @ to_lower zone) h"

definition wizard_ok :: "wizard_boundary \<Rightarrow> wizard_step \<times> wizard_state \<Rightarrow> bool" where
  "wizard_ok b = (\<lambda>(step, s).
     ws_connection s = wb_connection b \<and> ws_account s = wb_account b \<and> ws_zone s = wb_zone b \<and> ws_zone_name s = wb_zone_name b \<and>
     all_opt isValidWorkerName (ws_worker_name s) \<and>
     all_opt (below_zone (wb_zone_name b)) (ws_worker_hostname s) \<and>
     all_opt (below_zone (wb_zone_name b)) (ws_node_hostname s) \<and>
     (step \<in> {W_worker_name, W_worker_hostname} \<longrightarrow> ws_node_hostname s = None) \<and>
     all_opt (\<lambda>n. ws_worker_hostname s \<noteq> Some n) (ws_node_hostname s) \<and>
     all_opt isPublicIpv4 (ws_vps s) \<and>
     all_opt (\<lambda>e. isValidEmail e \<and> list_all normal_char e) (ws_email s) \<and>
     all_opt isValidHostname (ws_reality s))"

lemma wizard_ok_start: "wizard_ok b (W_worker_name, wizard_start b)"
  by (simp add: wizard_ok_def wizard_start_def)

lemma host_nonempty: "isValidHostname h \<Longrightarrow> h \<noteq> []"
  by (auto simp: isValidHostname_def)

lemma wizard_ok_answer:
  assumes "wizard_ok b (step, s)" and "wizard_answer step s v = Goto n s'"
  shows "wizard_ok b (n, s')"
proof (cases step)
qed (use assms in \<open>auto simp: wizard_ok_def accept_def validateWizardWorkerName_def validateWizardSubdomain_def validateWizardIpv4_def
        validateWizardEmail_def validateWizardSni_def below_zone_def Let_def host_nonempty intro: email_chars
      split: if_splits option.splits\<close>)

lemma wizard_ok_move: "wizard_ok b p \<Longrightarrow> wizard_ok b (wizard_move e p)"
proof (cases p)
  case (Pair step s)
  assume "wizard_ok b p"
  moreover have "isValidHostname ''www.microsoft.com''" by code_simp
  ultimately show ?thesis
    using wizard_ok_answer [of b step s] Pair
    by (cases e) (auto simp: wizard_ok_def sni_default_def split: wizard_next.splits)
qed

lemma wizard_ok_fold: "wizard_ok b p \<Longrightarrow> wizard_ok b (fold wizard_move es p)"
  by (induction es arbitrary: p) (simp_all add: wizard_ok_move)

text \<open>
  The wizard asks for everything. Whatever a user types and presses, in any order, a wizard that reaches the
  confirmation button with all answers set submits an input that the validator of deployments accepts unchanged: its answers
  pass every check, both host names lie below the zone of the picked connection and differ, and the identifiers are those of
  that connection.
\<close>

theorem wizard_submits_valid:
  assumes "id36 (wb_connection b)" and "isValidCloudflareId (wb_account b)" and "isValidCloudflareId (wb_zone b)"
    and "confirm_input (snd (fold wizard_move es (W_worker_name, wizard_start b))) = Some i"
  shows "validateCreateDeployment (input_json i) = Inr i \<and> di_connectionId i = wb_connection b \<and> di_zoneId i = wb_zone b \<and>
    below_zone (wb_zone_name b) (di_workerHostname i) \<and> below_zone (wb_zone_name b) (di_nodeHostname i)"
proof -
  obtain step s where p: "fold wizard_move es (W_worker_name, wizard_start b) = (step, s)" by fastforce
  have ok: "wizard_ok b (step, s)" using wizard_ok_fold [OF wizard_ok_start, of b es] by (simp add: p)
  have "confirm_input s = Some i" using assms(4) by (simp add: p)
  with ok assms(1-3) have "input_ok i" "list_all normal_char (di_acmeEmail i)" "di_connectionId i = wb_connection b" "di_zoneId i = wb_zone b"
    "below_zone (wb_zone_name b) (di_workerHostname i)" "below_zone (wb_zone_name b) (di_nodeHostname i)"
    by (auto simp: wizard_ok_def confirm_input_def input_ok_def set_text_def below_zone_def split: if_splits)
  then show ?thesis by (simp add: validate_input_json)
qed

definition demo_boundary :: wizard_boundary where
  "demo_boundary = \<lparr>wb_connection = replicate 36 CHR ''a'', wb_account = replicate 32 CHR ''b'', wb_account_name = ''acc'',
     wb_zone = replicate 32 CHR ''c'', wb_zone_name = ''Example.org''\<rparr>"

definition demo_events :: "wizard_event list" where
  "demo_events = [Say '' V13-Node '', Say ''sub.example.com'', Say ''sub.example.org'', Say ''sub.example.org'', Say ''Node.example.org'',
     Say ''10.0.0.1'', Say ''8.8.4.4'', Say ''me@example.org'', Default_target, Choose_ufw False]"

theorem wizard_submits_valid_witness:
  "\<exists>i. confirm_input (snd (fold wizard_move demo_events (W_worker_name, wizard_start demo_boundary))) = Some i \<and>
     validateCreateDeployment (input_json i) = Inr i \<and> di_workerName i = ''v13-node'' \<and> di_nodeHostname i = ''node.example.org''"
proof -
  define i where "i = \<lparr>di_connectionId = replicate 36 CHR ''a'', di_accountId = replicate 32 CHR ''b'', di_zoneId = replicate 32 CHR ''c'',
     di_workerName = ''v13-node'', di_workerHostname = ''sub.example.org'', di_nodeHostname = ''node.example.org'',
     di_vpsIpv4 = ''8.8.4.4'', di_acmeEmail = ''me@example.org'', di_realityServerName = ''www.microsoft.com'', di_enableUfw = False\<rparr>"
  have c: "confirm_input (snd (fold wizard_move demo_events (W_worker_name, wizard_start demo_boundary))) = Some i"
    unfolding i_def by code_simp
  have "id36 (wb_connection demo_boundary)" "isValidCloudflareId (wb_account demo_boundary)" "isValidCloudflareId (wb_zone demo_boundary)"
    by code_simp+
  from wizard_submits_valid [OF this c] c show ?thesis by (auto simp: i_def)
qed

end
