(* ===== verification/Cp_State.thy ===== *)
theory Cp_State
  imports Cp_Flow Cp_Dns Cp_Connect Cp_Drop Cp_Map Cp_Packs Cp_Donate Cp_Wizard
begin

text \<open>
  The whole database of the control plane: the tables of every component in one record, the operations of a component lifted
  to it, and the contract of the tables whose rows expire.
\<close>

subsection \<open>The product state\<close>

record flow_row =
  fl_user :: string
  fl_flow :: string
  fl_step :: string
  fl_json :: string
  fl_expires :: num
  fl_updated :: num

record site =
  si_world :: cp_world
  si_net :: net_db
  si_scan :: scan_db
  si_clean :: "clean_row list"
  si_map :: "map_row list"
  si_drops :: "drop_row list"
  si_donations :: "donation list"
  si_secrets :: "(string \<times> string) list"
  si_updates :: "(int \<times> num) list"
  si_wizards :: "wizard_row list"
  si_flows :: "flow_row list"

text \<open>An operation on a part, as an operation on the whole.\<close>

definition zoom :: "('s \<Rightarrow> 'p) \<Rightarrow> ('p \<Rightarrow> 's \<Rightarrow> 's) \<Rightarrow> ('p, 'a) act \<Rightarrow> ('s, 'a) act" where
  "zoom get put m s = (case m (get s) of (r, x) \<Rightarrow> (r, put x s))"

lemma zoom_eq: "zoom get put m s = (fst (m (get s)), put (snd (m (get s))) s)"
  by (simp add: zoom_def split: prod.splits)

locale part =
  fixes get :: "'s \<Rightarrow> 'p" and put :: "'p \<Rightarrow> 's \<Rightarrow> 's"
  assumes get_put: "get (put x s) = x" and put_get: "put (get s) s = s" and put_put: "put x (put y s) = put x s"
begin

lemma zoom_result: "fst (zoom get put m s) = fst (m (get s))"
  by (simp add: zoom_eq)

lemma zoom_part: "get (snd (zoom get put m s)) = snd (m (get s))"
  by (simp add: zoom_eq get_put)

lemma zoom_ret: "zoom get put (act_ret x) = act_ret x"
  by (rule ext) (simp add: zoom_def act_ret_def put_get)

lemma zoom_throw: "zoom get put (act_throw e) = act_throw e"
  by (rule ext) (simp add: zoom_def act_throw_def put_get)

lemma zoom_lift: "zoom get put (act_lift r) = act_lift r"
  by (rule ext) (simp add: zoom_def act_lift_def put_get)

lemma zoom_bind: "zoom get put (act_bind m k) = act_bind (zoom get put m) (\<lambda>x. zoom get put (k x))"
  by (rule ext) (simp add: zoom_def act_bind_def get_put put_put split: prod.splits sum.splits)

lemma zoom_keeps:
  assumes "keeps I m"
  shows "keeps (\<lambda>s. I (get s)) (zoom get put m)"
  using assms by (simp add: keeps_def zoom_eq get_put)

lemma zoom_frame: "(\<And>x s. h (put x s) = h s) \<Longrightarrow> h (snd (zoom get put m s)) = h s"
  by (simp add: zoom_eq)

lemma zoom_frame_keeps: "(\<And>x s. h (put x s) = h s) \<Longrightarrow> keeps (\<lambda>s. I (h s)) (zoom get put m)"
  by (simp add: keeps_def zoom_eq)

end

definition put_db :: "cp_db \<Rightarrow> site \<Rightarrow> site" where
  "put_db d s = s\<lparr>si_world := (si_world s)\<lparr>cw_db := d\<rparr>\<rparr>"

definition get_drops :: "site \<Rightarrow> drop_world" where
  "get_drops s = \<lparr>dw_world = si_world s, dw_drops = si_drops s\<rparr>"

definition put_drops :: "drop_world \<Rightarrow> site \<Rightarrow> site" where
  "put_drops d s = s\<lparr>si_world := dw_world d, si_drops := dw_drops d\<rparr>"

definition get_donate :: "site \<Rightarrow> donate_db" where
  "get_donate s = \<lparr>nb_db = cw_db (si_world s), nb_rows = si_donations s, nb_secrets = si_secrets s\<rparr>"

definition put_donate :: "donate_db \<Rightarrow> site \<Rightarrow> site" where
  "put_donate d s = s\<lparr>si_world := (si_world s)\<lparr>cw_db := nb_db d\<rparr>, si_donations := nb_rows d, si_secrets := nb_secrets d\<rparr>"

abbreviation on_world :: "(cp_world, 'a) act \<Rightarrow> (site, 'a) act" where
  "on_world \<equiv> zoom si_world (\<lambda>w. si_world_update (\<lambda>_. w))"

abbreviation on_db :: "(cp_db, 'a) act \<Rightarrow> (site, 'a) act" where
  "on_db m \<equiv> on_world (cdb_run m)"

abbreviation on_net :: "(net_db, 'a) act \<Rightarrow> (site, 'a) act" where
  "on_net \<equiv> zoom si_net (\<lambda>x. si_net_update (\<lambda>_. x))"

abbreviation on_scan :: "(scan_db, 'a) act \<Rightarrow> (site, 'a) act" where
  "on_scan \<equiv> zoom si_scan (\<lambda>x. si_scan_update (\<lambda>_. x))"

abbreviation on_clean :: "(clean_row list, 'a) act \<Rightarrow> (site, 'a) act" where
  "on_clean \<equiv> zoom si_clean (\<lambda>x. si_clean_update (\<lambda>_. x))"

abbreviation on_map :: "(map_row list, 'a) act \<Rightarrow> (site, 'a) act" where
  "on_map \<equiv> zoom si_map (\<lambda>x. si_map_update (\<lambda>_. x))"

abbreviation on_wizards :: "(wizard_row list, 'a) act \<Rightarrow> (site, 'a) act" where
  "on_wizards \<equiv> zoom si_wizards (\<lambda>x. si_wizards_update (\<lambda>_. x))"

abbreviation on_flows :: "(flow_row list, 'a) act \<Rightarrow> (site, 'a) act" where
  "on_flows \<equiv> zoom si_flows (\<lambda>x. si_flows_update (\<lambda>_. x))"

abbreviation on_drops :: "(drop_world, 'a) act \<Rightarrow> (site, 'a) act" where
  "on_drops \<equiv> zoom get_drops put_drops"

abbreviation on_donate :: "(donate_db, 'a) act \<Rightarrow> (site, 'a) act" where
  "on_donate \<equiv> zoom get_donate put_donate"

interpretation world_part: part si_world "\<lambda>w. si_world_update (\<lambda>_. w)"
  by unfold_locales simp_all

interpretation db_part: part "\<lambda>s. cw_db (si_world s)" put_db
  by unfold_locales (simp_all add: put_db_def)

interpretation net_part: part si_net "\<lambda>w. si_net_update (\<lambda>_. w)"
  by unfold_locales simp_all

interpretation scan_part: part si_scan "\<lambda>w. si_scan_update (\<lambda>_. w)"
  by unfold_locales simp_all

interpretation clean_part: part si_clean "\<lambda>w. si_clean_update (\<lambda>_. w)"
  by unfold_locales simp_all

interpretation map_part: part si_map "\<lambda>w. si_map_update (\<lambda>_. w)"
  by unfold_locales simp_all

interpretation wizard_part: part si_wizards "\<lambda>w. si_wizards_update (\<lambda>_. w)"
  by unfold_locales simp_all

interpretation flow_part: part si_flows "\<lambda>w. si_flows_update (\<lambda>_. w)"
  by unfold_locales simp_all

interpretation drops_part: part get_drops put_drops
  by unfold_locales (simp_all add: get_drops_def put_drops_def)

interpretation donate_part: part get_donate put_donate
  by unfold_locales (simp_all add: get_donate_def put_donate_def)

subsection \<open>Tables whose rows expire\<close>

text \<open>A purge removes exactly the rows that are due and reports how many.\<close>

locale expiring =
  fixes purge :: "num \<Rightarrow> 's \<Rightarrow> nat \<times> 's" and rows :: "'s \<Rightarrow> 'r list" and due :: "num \<Rightarrow> 'r \<Rightarrow> bool"
  assumes purge_rows: "rows (snd (purge now s)) = filter (\<lambda>r. \<not> due now r) (rows s)"
    and purge_count: "fst (purge now s) = length (filter (due now) (rows s))"
begin

lemma purge_none_due: "r \<in> set (rows (snd (purge now s))) \<Longrightarrow> \<not> due now r"
  by (simp add: purge_rows)

lemma purge_keeps_rest: "r \<in> set (rows s) \<Longrightarrow> \<not> due now r \<Longrightarrow> r \<in> set (rows (snd (purge now s)))"
  by (simp add: purge_rows)

lemma purge_counts: "fst (purge now s) + length (rows (snd (purge now s))) = length (rows s)"
  by (simp add: purge_rows purge_count sum_length_filter_compl)

lemma purge_twice: "fst (purge now (snd (purge now s))) = 0"
  by (simp add: purge_count purge_rows)

end

interpretation clean_purge: expiring purgeExpiredCleanIpReports "\<lambda>s. s" "\<lambda>now r. ci_expires r \<le> now"
  by unfold_locales (simp_all add: purgeExpiredCleanIpReports_def)

interpretation map_purge: expiring purgeExpiredMapReports "\<lambda>s. s" "\<lambda>now r. mr_expires r \<le> now"
  by unfold_locales (simp_all add: purgeExpiredMapReports_def)

interpretation drop_purge: expiring purgeExpiredWhiteHoleDrops "\<lambda>s. s" "\<lambda>now r. dr_expires r \<le> now"
  by unfold_locales (simp_all add: purgeExpiredWhiteHoleDrops_def)

interpretation poison_purge: expiring purgeExpiredPoisonReports nd_poison "\<lambda>now r. po_expires r \<le> now"
  by unfold_locales (simp_all add: purgeExpiredPoisonReports_def)

interpretation mtu_purge: expiring purgeExpiredMtuReports nd_mtu "\<lambda>now r. mt_expires r \<le> now"
  by unfold_locales (simp_all add: purgeExpiredMtuReports_def)

interpretation edge_purge: expiring purgeExpiredEdgeProbes nd_edge "\<lambda>now r. eg_expires r \<le> now"
  by unfold_locales (simp_all add: purgeExpiredEdgeProbes_def)

interpretation race_purge: expiring purgeExpiredRaceReports nd_race "\<lambda>now r. rr_expires r \<le> now"
  by unfold_locales (simp_all add: purgeExpiredRaceReports_def)

end
