(* ===== verification/Cp_Panel_Flows.thy ===== *)
theory Cp_Panel_Flows
  imports Cp_State
begin

text \<open>
  The small conversations of the chat (\<^verbatim>\<open>src/panel-flows.ts\<close>): one row per Telegram user in \<open>telegram_flows\<close>, the
  text half of each flow, and the buttons that start and advance them (\<^verbatim>\<open>src/telegram.ts\<close>, \<open>handlePanelCallback\<close>).
  A reply is what it is about; the Persian texts and keyboards are not modelled.
\<close>

subsection \<open>The table\<close>

record panel_flow =
  pf_flow :: string
  pf_step :: string
  pf_data :: "(string \<times> string) list"

definition PANEL_FLOW_TTL_SECONDS :: num where
  "PANEL_FLOW_TTL_SECONDS = 900"

definition BUTTON_ONLY_STEPS :: "string list" where
  "BUTTON_ONLY_STEPS = [''map:isp'', ''map:transport'', ''map:verdict'', ''map:city'']"

definition isFlowKind :: "string \<Rightarrow> bool" where
  "isFlowKind value \<longleftrightarrow> value \<in> {''rum'', ''map'', ''donate'', ''pack'', ''panel'', ''dnsrange'', ''white'', ''slipcfg'', ''dnstt'', ''omni''}"

definition flow_datum :: "panel_flow \<Rightarrow> string \<Rightarrow> string option" where
  "flow_datum f k = map_of (pf_data f) k"

definition datum_or :: "panel_flow \<Rightarrow> string \<Rightarrow> string \<Rightarrow> string" where
  "datum_or f k d = (case flow_datum f k of None \<Rightarrow> d | Some v \<Rightarrow> v)"

text \<open>The stored object has texts as its members, as \<open>savePanelFlow\<close> writes them.\<close>

definition text_members :: "jval \<Rightarrow> (string \<times> string) list" where
  "text_members v = (case v of JObj kvs \<Rightarrow> List.map_filter (\<lambda>(k, x). map_option (Pair k) (text_of x)) kvs | _ \<Rightarrow> [])"

definition data_json :: "(string \<times> string) list \<Rightarrow> string" where
  "data_json kvs = json_stringify (JObj (map (\<lambda>(k, v). (k, JStr v)) kvs))"

definition clearPanelFlow :: "string \<Rightarrow> flow_row list \<Rightarrow> flow_row list" where
  "clearPanelFlow user rows = filter (\<lambda>x. fl_user x \<noteq> user) rows"

definition loadPanelFlow :: "num \<Rightarrow> string \<Rightarrow> flow_row list \<Rightarrow> panel_flow option \<times> flow_row list" where
  "loadPanelFlow now user rows =
     (case find (\<lambda>x. fl_user x = user) rows of
        None \<Rightarrow> (None, rows)
      | Some x \<Rightarrow>
          let data = (case json_parse (fl_json x) of None \<Rightarrow> [] | Some v \<Rightarrow> text_members v) in
          if \<not> isFlowKind (fl_flow x) \<or> fl_expires x \<le> now then (None, clearPanelFlow user rows)
          else (Some \<lparr>pf_flow = fl_flow x, pf_step = fl_step x, pf_data = data\<rparr>, rows))"

definition put_flow :: "flow_row \<Rightarrow> flow_row list \<Rightarrow> flow_row list" where
  "put_flow x rows = (if list_ex (\<lambda>y. fl_user y = fl_user x) rows then map (\<lambda>y. if fl_user y = fl_user x then x else y) rows else rows @ [x])"

definition savePanelFlow :: "num \<Rightarrow> string \<Rightarrow> panel_flow \<Rightarrow> (flow_row list, unit) act" where
  "savePanelFlow now user f =
     (let expires = addSecondsIso now PANEL_FLOW_TTL_SECONDS; raw = data_json (pf_data f) in
      d1_run 6 [user, pf_flow f, pf_step f, raw, iso_string expires, iso_string now]
        (put_flow \<lparr>fl_user = user, fl_flow = pf_flow f, fl_step = pf_step f, fl_json = raw, fl_expires = expires, fl_updated = now\<rparr>))"

subsection \<open>Answers in text\<close>

datatype typed_number = Typed num | Dash | Invalid_number

text \<open>The dash, \<open>none\<close> and the Persian word of \<open>parseNumberOrDash\<close> are the texts \<open>dashes\<close>.\<close>

definition parseNumberOrDash :: "string list \<Rightarrow> string \<Rightarrow> num \<Rightarrow> typed_number" where
  "parseNumberOrDash dashes s mx =
     (let value = trim s; normalized = filter (\<lambda>c. is_digit c \<or> c = CHR ''.'') value in
      if value \<in> set dashes then Dash
      else if normalized = [] then Invalid_number
      else case str_to_num normalized of
        Fin q \<Rightarrow> if q < 0 \<or> mx < q then Invalid_number else Typed (js_round (q * 10) / 10)
      | _ \<Rightarrow> Invalid_number)"

datatype flow_reply =
    Buttons_only
  | Try_again panel_flow
  | Next_prompt panel_flow
  | Flow_stale
  | Clean_saved clean_report
  | Map_saved map_report
  | Pack_made phantom_pack
  | Donation_saved donation
  | Dnstt_made string string
  | Flow_refused exn

record flow_text =
  ft_dashes :: "string list"
  ft_other :: string
  ft_unknown :: string
  ft_donate :: donate_text

definition flow_to :: "cp_runtime \<Rightarrow> string \<Rightarrow> panel_flow \<Rightarrow> string \<Rightarrow> (string \<times> string) list \<Rightarrow> (site, flow_reply) act" where
  "flow_to rtm user f step data =
     (let f' = f\<lparr>pf_step := step, pf_data := data\<rparr> in act_seq (on_flows (savePanelFlow (cr_now rtm) user f')) (act_ret (Next_prompt f')))"

definition flow_end :: "string \<Rightarrow> flow_reply \<Rightarrow> (site, flow_reply) act" where
  "flow_end user reply = act_seq (on_flows (act_upd (clearPanelFlow user))) (act_ret reply)"

definition rum_ping :: "flow_text \<Rightarrow> cp_runtime \<Rightarrow> string \<Rightarrow> panel_flow \<Rightarrow> string \<Rightarrow> (site, flow_reply) act" where
  "rum_ping N rtm user f s =
     (let put = (\<lambda>v. flow_to rtm user f ''rum:loss'' (upsert ''latencyMs'' v (pf_data f))) in
      case parseNumberOrDash (ft_dashes N) s 10000 of
        Invalid_number \<Rightarrow> act_ret (Try_again f) | Dash \<Rightarrow> put [] | Typed q \<Rightarrow> put (show_num q))"

definition rum_report :: "panel_flow \<Rightarrow> string \<Rightarrow> typed_number \<Rightarrow> clean_report" where
  "rum_report f ip loss =
     (let latency = str_to_num (datum_or f ''latencyMs'' []); positive = num_lt (Fin 0) latency in
      \<lparr>cq_ip = ip, cq_operator = datum_or f ''operator'' ''mci'', cq_city = datum_or f ''city'' ''tehran'',
       cq_latency = (case latency of Fin q \<Rightarrow> if 0 < q then js_round q else -1 | _ \<Rightarrow> -1),
       cq_loss = (case loss of Typed q \<Rightarrow> q | _ \<Rightarrow> 0), cq_ok = (case loss of Typed q \<Rightarrow> q < 100 | _ \<Rightarrow> positive)\<rparr>)"

definition rum_loss :: "flow_text \<Rightarrow> cp_runtime \<Rightarrow> string \<Rightarrow> panel_flow \<Rightarrow> string \<Rightarrow> (site, flow_reply) act" where
  "rum_loss N rtm user f s =
     (let loss = parseNumberOrDash (ft_dashes N) s 100; ip = datum_or f ''ip'' [] in
      if loss = Invalid_number then act_ret (Try_again f)
      else if ip = [] then flow_end user Flow_stale
      else act_seq (on_clean (act_upd (recordCleanIpReport (cr_now rtm) (rum_report f ip loss))))
             (flow_end user (Clean_saved (rum_report f ip loss))))"

definition pack_domain :: "cp_runtime \<Rightarrow> string \<Rightarrow> panel_flow \<Rightarrow> string \<Rightarrow> (site, flow_reply) act" where
  "pack_domain rtm user f s =
     (case sanitizePackDomain s of None \<Rightarrow> act_ret (Try_again f)
      | Some domain \<Rightarrow> flow_to rtm user f ''pack:uuid'' (upsert ''domain'' domain (pf_data f)))"

definition pack_uuid :: "cp_runtime \<Rightarrow> string \<Rightarrow> panel_flow \<Rightarrow> string \<Rightarrow> (site, flow_reply) act" where
  "pack_uuid rtm user f s =
     (case sanitizePackDomain (datum_or f ''domain'' []) of None \<Rightarrow> flow_end user Flow_stale
      | Some domain \<Rightarrow>
          (case buildPhantomPack (cr_uuid rtm) domain (Some s) of
             None \<Rightarrow> act_throw (JsError ''invalid domain'')
           | Some pack \<Rightarrow> flow_end user (Pack_made pack)))"

definition map_rtt_report :: "flow_text \<Rightarrow> panel_flow \<Rightarrow> typed_number \<Rightarrow> map_report" where
  "map_rtt_report N f rtt =
     \<lparr>mq_isp = datum_or f ''isp'' (ft_other N), mq_city = datum_or f ''city'' (ft_unknown N), mq_transport = datum_or f ''transport'' ''other'',
      mq_rtt = (case rtt of Typed q \<Rightarrow> Some (js_round q) | _ \<Rightarrow> None), mq_ok = (flow_datum f ''ok'' = Some ''1'')\<rparr>"

definition map_rtt_step :: "flow_text \<Rightarrow> cp_runtime \<Rightarrow> string \<Rightarrow> panel_flow \<Rightarrow> string \<Rightarrow> (site, flow_reply) act" where
  "map_rtt_step N rtm user f s =
     (let rtt = parseNumberOrDash (ft_dashes N) s 10000 in
      if rtt = Invalid_number then act_ret (Try_again f)
      else act_seq (on_map (act_upd (recordMapReport (cr_now rtm) (map_rtt_report N f rtt))))
             (flow_end user (Map_saved (map_rtt_report N f rtt))))"

definition donate_key :: "flow_text \<Rightarrow> cp_runtime \<Rightarrow> string \<Rightarrow> string \<Rightarrow> string \<Rightarrow> (site, flow_reply) act" where
  "donate_key N rtm user tenant s =
     act_bind (on_donate (createDonation (ft_donate N) rtm tenant user (JStr s))) (\<lambda>d. flow_end user (Donation_saved d))"

definition dnstt_vps :: "cp_runtime \<Rightarrow> string \<Rightarrow> panel_flow \<Rightarrow> string \<Rightarrow> (site, flow_reply) act" where
  "dnstt_vps rtm user f s =
     (let vps = trim s in
      if \<not> isValidVpsIpv4 vps then act_ret (Try_again f) else flow_to rtm user f ''dnstt:domain'' (upsert ''vps'' vps (pf_data f)))"

definition dnstt_domain :: "string \<Rightarrow> panel_flow \<Rightarrow> string \<Rightarrow> (site, flow_reply) act" where
  "dnstt_domain user f s =
     (let vps = datum_or f ''vps'' [] in
      if \<not> isValidVpsIpv4 vps then flow_end user Flow_stale
      else case normalizeDnsttDomain s of None \<Rightarrow> act_ret (Try_again f) | Some domain \<Rightarrow> flow_end user (Dnstt_made vps domain))"

fun refused :: "exn \<Rightarrow> (site, flow_reply) act" where
  "refused (HttpError st c r a d) = act_ret (Flow_refused (HttpError st c r a d))"
| "refused e = act_throw e"

definition processPanelFlowText :: "flow_text \<Rightarrow> cp_runtime \<Rightarrow> string \<Rightarrow> string \<Rightarrow> panel_flow \<Rightarrow> string \<Rightarrow> (site, flow_reply) act" where
  "processPanelFlowText N rtm user tenant f s =
     act_catch
       (if pf_step f \<in> set BUTTON_ONLY_STEPS then act_ret Buttons_only
        else if pf_step f = ''rum:ping'' then rum_ping N rtm user f s
        else if pf_step f = ''rum:loss'' then rum_loss N rtm user f s
        else if pf_step f = ''pack:domain'' then pack_domain rtm user f s
        else if pf_step f = ''pack:uuid'' then pack_uuid rtm user f s
        else if pf_step f = ''map:rtt'' then map_rtt_step N rtm user f s
        else if pf_step f = ''donate:key'' then donate_key N rtm user tenant s
        else if pf_step f = ''dnstt:vps'' then dnstt_vps rtm user f s
        else if pf_step f = ''dnstt:domain'' then dnstt_domain user f s
        else flow_end user Flow_stale)
       refused"


subsection \<open>A stored flow reads back\<close>

lemma text_members_data:
  assumes "distinct (map fst kvs)"
  shows "json_parse (data_json kvs) = Some (JObj (map (\<lambda>(k, v). (k, JStr v)) kvs))"
    and "text_members (JObj (map (\<lambda>(k, v). (k, JStr v)) kvs)) = kvs"
proof -
  have "plain (JObj (map (\<lambda>(k, v). (k, JStr v)) kvs))"
    using assms by (simp add: list_all_iff case_prod_beta comp_def)
  then show "json_parse (data_json kvs) = Some (JObj (map (\<lambda>(k, v). (k, JStr v)) kvs))"
    unfolding data_json_def by (rule json_parse_stringify)
  show "text_members (JObj (map (\<lambda>(k, v). (k, JStr v)) kvs)) = kvs"
    by (induction kvs) (auto simp: text_members_def List.map_filter_def)
qed

lemma find_put_flow: "find (\<lambda>y. fl_user y = fl_user x) (put_flow x rows) = Some x"
proof -
  have "find (\<lambda>y. fl_user y = fl_user x) (map (\<lambda>y. if fl_user y = fl_user x then x else y) rows) = Some x"
    if "list_ex (\<lambda>y. fl_user y = fl_user x) rows"
    using that by (induction rows) auto
  moreover have "find (\<lambda>y. fl_user y = fl_user x) (rows @ [x]) = Some x" if "\<not> list_ex (\<lambda>y. fl_user y = fl_user x) rows"
    using that by (induction rows) auto
  ultimately show ?thesis by (simp add: put_flow_def)
qed

lemma put_flow_others:
  assumes "fl_user x = user"
  shows "filter (\<lambda>y. fl_user y \<noteq> user) (put_flow x rows) = filter (\<lambda>y. fl_user y \<noteq> user) rows"
proof -
  have "filter (\<lambda>y. fl_user y \<noteq> user) (map (\<lambda>y. if fl_user y = user then x else y) rows) = filter (\<lambda>y. fl_user y \<noteq> user) rows"
    using assms by (induction rows) auto
  then show ?thesis using assms by (simp add: put_flow_def)
qed

lemma savePanelFlow_eq:
  "savePanelFlow now user f rows =
     (Inr (), put_flow \<lparr>fl_user = user, fl_flow = pf_flow f, fl_step = pf_step f, fl_json = data_json (pf_data f),
        fl_expires = addSecondsIso now PANEL_FLOW_TTL_SECONDS, fl_updated = now\<rparr> rows)"
  by (simp add: savePanelFlow_def d1_run_def act_defs Let_def)

lemma flow_saved_loads:
  assumes "savePanelFlow now user f rows = (Inr (), rows')" and "isFlowKind (pf_flow f)" and "distinct (map fst (pf_data f))"
    and "later < addSecondsIso now PANEL_FLOW_TTL_SECONDS"
  shows "loadPanelFlow later user rows' = (Some f, rows')"
proof -
  define x where "x = \<lparr>fl_user = user, fl_flow = pf_flow f, fl_step = pf_step f, fl_json = data_json (pf_data f),
     fl_expires = addSecondsIso now PANEL_FLOW_TTL_SECONDS, fl_updated = now\<rparr>"
  have r: "rows' = put_flow x rows" using assms(1) by (simp add: savePanelFlow_eq x_def)
  have "find (\<lambda>y. fl_user y = user) rows' = Some x" using find_put_flow [of x rows] by (simp add: r x_def)
  then show ?thesis using assms(2-4) text_members_data [OF assms(3)] by (simp add: loadPanelFlow_def x_def)
qed

subsection \<open>What an answer does\<close>

text \<open>The number of answers a step still needs.\<close>

definition flow_rank :: "string \<Rightarrow> nat" where
  "flow_rank step =
     (if step = ''map:isp'' then 5 else if step = ''map:transport'' then 4 else if step = ''map:verdict'' then 3
      else if step \<in> {''map:city'', ''rum:ping'', ''pack:domain'', ''dnstt:vps''} then 2 else 1)"

definition no_flow :: "string \<Rightarrow> site \<Rightarrow> bool" where
  "no_flow user s \<longleftrightarrow> list_all (\<lambda>x. fl_user x \<noteq> user) (si_flows s)"

text \<open>The tables behind the flows, as one value; \<open>rates_only\<close> is a world whose limiter may have counted a call.\<close>

definition rates_only :: "cp_world \<Rightarrow> cp_world \<Rightarrow> bool" where
  "rates_only w w' \<longleftrightarrow> (\<exists>rates. w' = w\<lparr>cw_db := (cw_db w)\<lparr>cp_rates := rates\<rparr>\<rparr>)"

definition flow_tables :: "site \<Rightarrow> clean_row list \<times> map_row list \<times> donation list \<times> (string \<times> string) list" where
  "flow_tables s = (si_clean s, si_map s, si_donations s, si_secrets s)"

definition flow_effect :: "cp_runtime \<Rightarrow> string \<Rightarrow> panel_flow \<Rightarrow> site \<Rightarrow> flow_reply \<Rightarrow> site \<Rightarrow> bool" where
  "flow_effect rtm user f s r s' =
     (case r of
        Clean_saved q \<Rightarrow> flow_tables s' = (recordCleanIpReport (cr_now rtm) q (si_clean s), si_map s, si_donations s, si_secrets s) \<and>
          cq_ip q = datum_or f ''ip'' [] \<and> -1 \<le> cq_latency q \<and> 0 \<le> cq_loss q \<and> cq_loss q \<le> 100
      | Map_saved q \<Rightarrow> flow_tables s' = (si_clean s, recordMapReport (cr_now rtm) q (si_map s), si_donations s, si_secrets s) \<and>
          (\<forall>ms. mq_rtt q = Some ms \<longrightarrow> 0 \<le> ms \<and> ms \<le> 10000)
      | Donation_saved d \<Rightarrow> si_donations s' = si_donations s @ [d] \<and> dn_donor d = user \<and> dn_status d = D_pending \<and>
          si_clean s' = si_clean s \<and> si_map s' = si_map s
      | _ \<Rightarrow> flow_tables s' = flow_tables s)"

definition flow_progress :: "cp_runtime \<Rightarrow> string \<Rightarrow> panel_flow \<Rightarrow> site \<Rightarrow> flow_reply \<Rightarrow> site \<Rightarrow> bool" where
  "flow_progress rtm user f s r s' =
     (case r of
        Buttons_only \<Rightarrow> si_flows s' = si_flows s
      | Try_again g \<Rightarrow> g = f \<and> si_flows s' = si_flows s
      | Flow_refused e \<Rightarrow> si_flows s' = si_flows s
      | Next_prompt g \<Rightarrow> pf_flow g = pf_flow f \<and> flow_rank (pf_step g) < flow_rank (pf_step f) \<and>
          (\<forall>later. later < addSecondsIso (cr_now rtm) PANEL_FLOW_TTL_SECONDS \<longrightarrow> loadPanelFlow later user (si_flows s') = (Some g, si_flows s'))
      | _ \<Rightarrow> no_flow user s')"

definition others_flows :: "string \<Rightarrow> site \<Rightarrow> flow_row list" where
  "others_flows user s = filter (\<lambda>x. fl_user x \<noteq> user) (si_flows s)"

definition flow_step_ok :: "cp_runtime \<Rightarrow> string \<Rightarrow> panel_flow \<Rightarrow> site \<Rightarrow> flow_reply res \<times> site \<Rightarrow> bool" where
  "flow_step_ok rtm user f s = (\<lambda>(r, s').
     rates_only (si_world s) (si_world s') \<and> others_flows user s' = others_flows user s \<and>
     (case r of Inr q \<Rightarrow> flow_progress rtm user f s q s' \<and> flow_effect rtm user f s q s'
      | Inl e \<Rightarrow> flow_tables s' = flow_tables s \<and> si_flows s' = si_flows s))"


lemma rates_only_refl [simp]: "rates_only w w"
  unfolding rates_only_def by (rule exI [of _ "cp_rates (cw_db w)"]) simp

text \<open>The three ways a step ends without touching a table but the flows.\<close>

lemma ok_stay: "q \<in> {Buttons_only, Try_again f} \<Longrightarrow> flow_step_ok rtm user f s (act_ret q s)"
  by (auto simp: flow_step_ok_def flow_progress_def flow_effect_def act_ret_def)

lemma ok_throw: "flow_step_ok rtm user f s (act_throw e s)"
  by (simp add: flow_step_ok_def act_throw_def)

lemma clear_flow: "no_flow user (s\<lparr>si_flows := clearPanelFlow user (si_flows s)\<rparr>)"
    "others_flows user (s\<lparr>si_flows := clearPanelFlow user (si_flows s)\<rparr>) = others_flows user s"
  by (simp_all add: no_flow_def others_flows_def clearPanelFlow_def list_all_iff)

lemma flow_end_eq: "flow_end user q s = (Inr q, s\<lparr>si_flows := clearPanelFlow user (si_flows s)\<rparr>)"
  by (simp add: flow_end_def act_defs zoom_def)

lemma ok_end:
  assumes "q = Flow_stale \<or> (\<exists>p. q = Pack_made p) \<or> (\<exists>a b. q = Dnstt_made a b)"
  shows "flow_step_ok rtm user f s (flow_end user q s)"
  using assms
  by (auto simp: flow_step_ok_def flow_end_eq flow_progress_def flow_effect_def flow_tables_def clear_flow)

lemma ok_to:
  assumes "flow_rank step < flow_rank (pf_step f)" and "isFlowKind (pf_flow f)" and "distinct (map fst (pf_data f))"
  shows "flow_step_ok rtm user f s (flow_to rtm user f step (upsert k v (pf_data f)) s)"
proof -
  let ?g = "f\<lparr>pf_step := step, pf_data := upsert k v (pf_data f)\<rparr>"
  obtain rows where r: "savePanelFlow (cr_now rtm) user ?g (si_flows s) = (Inr (), rows)" by (simp add: savePanelFlow_eq)
  have l: "loadPanelFlow later user rows = (Some ?g, rows)" if "later < addSecondsIso (cr_now rtm) PANEL_FLOW_TTL_SECONDS" for later
    using flow_saved_loads [OF r] that assms(2) distinct_upsert [OF assms(3)] by simp
  have o: "filter (\<lambda>y. fl_user y \<noteq> user) rows = filter (\<lambda>y. fl_user y \<noteq> user) (si_flows s)"
    using r by (auto simp: savePanelFlow_eq put_flow_others)
  have e: "flow_to rtm user f step (upsert k v (pf_data f)) s = (Inr (Next_prompt ?g), s\<lparr>si_flows := rows\<rparr>)"
    by (simp add: flow_to_def Let_def act_defs zoom_def r)
  show ?thesis
    unfolding e using assms(1) l o
    by (simp add: flow_step_ok_def flow_progress_def flow_effect_def flow_tables_def others_flows_def)
qed

lemma typed_range: "parseNumberOrDash dashes v mx = Typed q \<Longrightarrow> 0 \<le> mx \<Longrightarrow> is_int (mx * 10) \<Longrightarrow> 0 \<le> q \<and> q \<le> mx"
proof -
  assume p: "parseNumberOrDash dashes v mx = Typed q" and mx: "0 \<le> mx" "is_int (mx * 10)"
  then obtain x where nx: "\<not> x < 0" "\<not> mx < x" and q: "js_round (x * 10) = q * 10"
    by (auto simp: parseNumberOrDash_def Let_def split: if_splits jsnum.splits)
  from nx have x: "0 \<le> x" "x \<le> mx" by simp_all
  have "of_int \<lfloor>x * 10 + 1 / 2\<rfloor> \<le> mx * 10"
  proof -
    obtain n where n: "mx * 10 = of_int n" using mx(2) unfolding is_int_def by metis
    have "x * 10 \<le> of_int n" using x(2) n by simp
    then have "\<lfloor>x * 10 + 1 / 2\<rfloor> \<le> n" by linarith
    then show ?thesis by (simp add: n)
  qed
  moreover have "0 \<le> \<lfloor>x * 10 + 1 / 2\<rfloor>" using x(1) by simp
  then have "(0::num) \<le> of_int \<lfloor>x * 10 + 1 / 2\<rfloor>" by (simp only: of_int_0_le_iff)
  ultimately show ?thesis using q by (simp add: js_round_def del: of_int_0_le_iff)
qed


lemma latency_bound: "-1 \<le> cq_latency (rum_report f ip loss)"
  by (auto simp: rum_report_def js_round_def Let_def split: jsnum.splits) linarith

lemma ok_rum_loss: "flow_step_ok rtm user f s (rum_loss N rtm user f v s)"
proof -
  define loss where "loss = parseNumberOrDash (ft_dashes N) v 100"
  define ip where "ip = datum_or f ''ip'' []"
  have e: "rum_loss N rtm user f v s =
    (if loss = Invalid_number then act_ret (Try_again f) s
     else if ip = [] then flow_end user Flow_stale s
     else (Inr (Clean_saved (rum_report f ip loss)),
       s\<lparr>si_clean := recordCleanIpReport (cr_now rtm) (rum_report f ip loss) (si_clean s), si_flows := clearPanelFlow user (si_flows s)\<rparr>))"
    by (simp add: rum_loss_def loss_def ip_def Let_def act_defs zoom_def flow_end_eq)
  have b: "0 \<le> cq_loss (rum_report f ip loss) \<and> cq_loss (rum_report f ip loss) \<le> 100" if "loss \<noteq> Invalid_number"
    using that typed_range [of "ft_dashes N" v 100] by (cases loss) (auto simp: rum_report_def Let_def loss_def is_int_def)
  have c: "cq_ip (rum_report f ip loss) = ip" by (simp add: rum_report_def Let_def)
  show ?thesis
    unfolding e using ok_stay [of "Try_again f"] ok_end [of Flow_stale] b c latency_bound [of f ip loss]
    by (auto simp: flow_step_ok_def flow_progress_def flow_effect_def flow_tables_def no_flow_def others_flows_def clearPanelFlow_def
        list_all_iff ip_def)
qed

lemma rounded_range: "0 \<le> q \<Longrightarrow> q \<le> 10000 \<Longrightarrow> 0 \<le> js_round q \<and> js_round q \<le> 10000"
proof -
  assume q: "0 \<le> q" "q \<le> 10000"
  then have "0 \<le> \<lfloor>q + 1 / 2\<rfloor>" "\<lfloor>q + 1 / 2\<rfloor> \<le> 10000" by linarith+
  then show ?thesis unfolding js_round_def by (metis of_int_0_le_iff of_int_le_iff of_int_numeral)
qed

lemma ok_map_rtt: "flow_step_ok rtm user f s (map_rtt_step N rtm user f v s)"
proof -
  define rtt where "rtt = parseNumberOrDash (ft_dashes N) v 10000"
  have e: "map_rtt_step N rtm user f v s =
    (if rtt = Invalid_number then act_ret (Try_again f) s
     else (Inr (Map_saved (map_rtt_report N f rtt)),
       s\<lparr>si_map := recordMapReport (cr_now rtm) (map_rtt_report N f rtt) (si_map s), si_flows := clearPanelFlow user (si_flows s)\<rparr>))"
    by (simp add: map_rtt_step_def rtt_def Let_def act_defs zoom_def flow_end_eq)
  have "0 \<le> ms \<and> ms \<le> 10000" if "mq_rtt (map_rtt_report N f rtt) = Some ms" for ms
    using that typed_range [of "ft_dashes N" v 10000] rounded_range
    by (auto simp: map_rtt_report_def rtt_def is_int_def split: typed_number.splits)
  then show ?thesis
    unfolding e using ok_stay [of "Try_again f"]
    by (auto simp: flow_step_ok_def flow_progress_def flow_effect_def flow_tables_def no_flow_def others_flows_def clearPanelFlow_def list_all_iff)
qed


lemma createDonation_outcome:
  assumes "createDonation T rtm tenant donor inp d = (r, d')"
  shows "nb_db d' = (nb_db d)\<lparr>cp_rates := cp_rates (nb_db d')\<rparr>"
    and "r = Inr x \<Longrightarrow> nb_rows d' = nb_rows d @ [x] \<and> dn_donor x = donor \<and> dn_status x = D_pending"
    and "r = Inl e \<Longrightarrow> nb_rows d' = nb_rows d \<and> nb_secrets d' = nb_secrets d"
  using assms
  by (auto simp: createDonation_def act_defs nb_run_def rateLimit_def Let_def insert_donation_def new_donation_def
      split: sum.splits if_splits prod.splits)

lemma refused_stays: "snd (refused e s) = s" "refused e s = (Inr q, s') \<Longrightarrow> q = Flow_refused e"
  by (cases e; simp add: act_defs)+

lemma ok_refused:
  assumes "flow_step_ok rtm user f s (m s)"
  shows "flow_step_ok rtm user f s (act_catch m refused s)"
proof (cases "m s")
  case (Pair r s')
  show ?thesis
  proof (cases r)
    case (Inl e)
    have "refused e s' = (Inr (Flow_refused e), s') \<or> refused e s' = (Inl e, s')" by (cases e) (simp_all add: act_defs)
    with assms Pair Inl show ?thesis
      by (auto simp: act_catch_def flow_step_ok_def flow_progress_def flow_effect_def)
  qed (use assms Pair in \<open>simp add: act_catch_def\<close>)
qed

lemma ok_donate: "flow_step_ok rtm user f s (donate_key N rtm user tenant v s)"
proof -
  obtain r d where c: "createDonation (ft_donate N) rtm tenant user (JStr v) (get_donate s) = (r, d)" by fastforce
  note o = createDonation_outcome [OF c]
  have w: "rates_only (si_world s) ((si_world s)\<lparr>cw_db := nb_db d\<rparr>)"
    unfolding rates_only_def by (rule exI [of _ "cp_rates (nb_db d)"]) (use o(1) in \<open>simp add: get_donate_def\<close>)
  show ?thesis
  proof (cases r)
    case (Inl e)
    have "donate_key N rtm user tenant v s = (Inl e, put_donate d s)"
      by (simp add: donate_key_def act_defs zoom_def c Inl)
    with w o(3) [OF Inl] show ?thesis
      by (simp add: flow_step_ok_def put_donate_def get_donate_def others_flows_def flow_tables_def)
  next
    case (Inr x)
    have "donate_key N rtm user tenant v s = (Inr (Donation_saved x), (put_donate d s)\<lparr>si_flows := clearPanelFlow user (si_flows s)\<rparr>)"
      by (simp add: donate_key_def act_defs zoom_def c Inr flow_end_eq put_donate_def)
    with w o(2) [OF Inr] show ?thesis
      by (simp add: flow_step_ok_def put_donate_def get_donate_def others_flows_def flow_progress_def flow_effect_def no_flow_def
          clearPanelFlow_def list_all_iff)
  qed
qed

lemma ok_steps:
  assumes "isFlowKind (pf_flow f)" and "distinct (map fst (pf_data f))"
  shows "pf_step f = ''rum:ping'' \<Longrightarrow> flow_step_ok rtm user f s (rum_ping N rtm user f v s)"
    and "pf_step f = ''pack:domain'' \<Longrightarrow> flow_step_ok rtm user f s (pack_domain rtm user f v s)"
    and "flow_step_ok rtm user f s (pack_uuid rtm user f v s)"
    and "pf_step f = ''dnstt:vps'' \<Longrightarrow> flow_step_ok rtm user f s (dnstt_vps rtm user f v s)"
    and "flow_step_ok rtm user f s (dnstt_domain user f v s)"
proof -
  note to = ok_to [OF _ assms]
  show "flow_step_ok rtm user f s (rum_ping N rtm user f v s)" if "pf_step f = ''rum:ping''"
    using to [of "''rum:loss''"] that ok_stay [of "Try_again f"]
    by (simp add: rum_ping_def flow_rank_def Let_def split: typed_number.splits)
  show "flow_step_ok rtm user f s (pack_domain rtm user f v s)" if "pf_step f = ''pack:domain''"
    using to [of "''pack:uuid''"] that ok_stay [of "Try_again f"]
    by (simp add: pack_domain_def flow_rank_def split: option.splits)
  show "flow_step_ok rtm user f s (pack_uuid rtm user f v s)"
    by (auto simp: pack_uuid_def ok_end ok_throw split: option.splits)
  show "flow_step_ok rtm user f s (dnstt_vps rtm user f v s)" if "pf_step f = ''dnstt:vps''"
    using to [of "''dnstt:domain''"] that ok_stay [of "Try_again f"]
    by (simp add: dnstt_vps_def flow_rank_def Let_def)
  show "flow_step_ok rtm user f s (dnstt_domain user f v s)"
    using ok_end [of "Dnstt_made a b" for a b] ok_end [of Flow_stale] ok_stay [of "Try_again f"]
    by (auto simp: dnstt_domain_def Let_def split: option.splits)
qed


definition demo_site :: site where
  "demo_site = \<lparr>si_world = cp_start, si_net = demo_net, si_scan = \<lparr>sd_ranges = [], sd_results = []\<rparr>, si_clean = [], si_map = [], si_drops = [],
     si_donations = [], si_secrets = [], si_updates = [], si_wizards = [], si_flows = []\<rparr>"

definition demo_flow :: panel_flow where
  "demo_flow = \<lparr>pf_flow = ''rum'', pf_step = ''rum:ping'', pf_data = [(''ip'', ''188.114.96.1''), (''operator'', ''mci'')]\<rparr>"


end
