(* ===== verification/Cp_Panel_Deploy.thy ===== *)
theory Cp_Panel_Deploy
  imports Cp_Deploy
begin

text \<open>
  Deploying a third-party panel on the tenant's account (\<^verbatim>\<open>src/panel-deploy.ts\<close>): the catalogue
  (\<^verbatim>\<open>src/panel-catalog.ts\<close>), the download and rewriting of its source (\<^verbatim>\<open>src/panel-source.ts\<close>), and the deployment
  itself with its row in \<open>panel_deployments\<close>. Notes and error texts in Persian are not modelled, and the display name of a panel
  (\<open>pe_name\<close>, of its key) is a parameter, as are the download, the Cloudflare API, the statuses of the link check and the random
  values.
\<close>

subsection \<open>panel-catalog.ts\<close>

datatype panel_store = No_store | Kv_store | D1_store

record panel_spec =
  pn_key :: string
  pn_path :: string
  pn_db :: panel_store
  pn_source :: string
  pn_kv :: "string list"
  pn_d1 :: "string list"

definition PANEL_SOURCE_HOSTS :: "string list" where
  "PANEL_SOURCE_HOSTS = [''github.com'', ''raw.githubusercontent.com'', ''cdn.jsdelivr.net'']"

definition panel_of :: "string \<Rightarrow> string \<Rightarrow> panel_store \<Rightarrow> string \<Rightarrow> string list \<Rightarrow> string list \<Rightarrow> panel_spec" where
  "panel_of k path db src kv d1 = \<lparr>pn_key = k, pn_path = path, pn_db = db, pn_source = src, pn_kv = kv, pn_d1 = d1\<rparr>"

definition PANEL_CATALOG :: "panel_spec list" where
  "PANEL_CATALOG =
     [panel_of ''bpb'' ''/panel'' Kv_store ''https://github.com/bia-pain-bache/BPB-Worker-Panel/releases/download/v4.2.3/worker.js'' [''kv''] [],
      panel_of ''nahan'' ''/sync/dash'' D1_store ''https://raw.githubusercontent.com/itsyebekhe/nahan/main/_worker.js'' [] [''IOT_DB'', ''DB''],
      panel_of ''zeus'' ''/panel'' D1_store ''https://raw.githubusercontent.com/panel-zeus/Z-E-U-S/main/Source.js'' [] [''DB''],
      panel_of ''spider'' ''/'' Kv_store ''https://raw.githubusercontent.com/amirh00sain/SpiderPanel/main/_worker.js'' [''SPIDER_KV''] [],
      panel_of ''nova'' ''/sub'' Kv_store ''https://raw.githubusercontent.com/cmliu/edgetunnel/main/_worker.js'' [''KV'', ''kv''] [],
      panel_of ''edgetunnel'' ''/sub'' Kv_store ''https://raw.githubusercontent.com/cmliu/edgetunnel/main/_worker.js'' [''KV'', ''kv''] [],
      panel_of ''vless_core'' ''/sub'' No_store ''https://raw.githubusercontent.com/zizifn/edgetunnel/main/src/worker-vless.js'' [] [],
      panel_of ''omni_pro'' ''/'' Kv_store '''' [''kv'', ''KV''] []]"

definition findPanel :: "string \<Rightarrow> panel_spec option" where
  "findPanel key = find (\<lambda>p. pn_key p = key) PANEL_CATALOG"

definition panel_key_char :: "char \<Rightarrow> bool" where
  "panel_key_char c \<longleftrightarrow> is_lower c \<or> is_digit c \<or> c = CHR ''_''"

definition id_char :: "char \<Rightarrow> bool" where
  "id_char c \<longleftrightarrow> is_alnum c \<or> c = CHR ''-''"

text \<open>\<open>/^v13:dep-panel:([a-z0-9_]+)(?::([a-zA-Z0-9-]+))?$/\<close>.\<close>

definition parsePanelPick :: "string \<Rightarrow> (string \<times> string) option" where
  "parsePanelPick data =
     (if \<not> starts_with ''v13:dep-panel:'' data then None
      else case split_on CHR '':'' (drop 14 data) of
        [k] \<Rightarrow> if k \<noteq> [] \<and> list_all panel_key_char k then Some (k, []) else None
      | [k, c] \<Rightarrow> if k \<noteq> [] \<and> list_all panel_key_char k \<and> c \<noteq> [] \<and> list_all id_char c then Some (k, c) else None
      | _ \<Rightarrow> None)"

definition name_char :: "char \<Rightarrow> bool" where
  "name_char c \<longleftrightarrow> is_lower c \<or> is_digit c \<or> c = CHR ''-''"

fun squeeze_dashes :: "string \<Rightarrow> string" where
  "squeeze_dashes (a # b # cs) = (if a = CHR ''-'' \<and> b = CHR ''-'' then squeeze_dashes (b # cs) else a # squeeze_dashes (b # cs))"
| "squeeze_dashes cs = cs"

definition strip_dash :: "string \<Rightarrow> string" where
  "strip_dash s =
     (let t = (case s of c # cs \<Rightarrow> if c = CHR ''-'' then cs else s | [] \<Rightarrow> []) in if t \<noteq> [] \<and> last t = CHR ''-'' then butlast t else t)"

definition sanitizeWorkerName :: "string \<Rightarrow> string option" where
  "sanitizeWorkerName text =
     (let cleaned = strip_dash (squeeze_dashes (map (\<lambda>c. if name_char c then c else CHR ''-'') (to_lower (trim text))))
      in if length cleaned < 3 \<or> 64 < length cleaned then None else Some cleaned)"

definition sanitizePanelPassword :: "string \<Rightarrow> string option" where
  "sanitizePanelPassword text = (let value = trim text in if length value < 4 \<or> 64 < length value then None else Some value)"

subsection \<open>panel-source.ts\<close>

text \<open>A parsed URL, and what a download answers: \<open>response.ok\<close>, its bytes, their text. \<open>None\<close> is a network error.\<close>

record panel_url =
  un_protocol :: string
  un_user :: string
  un_password :: string
  un_host :: string

record download =
  dl_ok :: bool
  dl_bytes :: nat
  dl_text :: string

record panel_source =
  px_text :: string
  px_bytes :: nat
  px_host :: string

definition PANEL_SOURCE_MAX_BYTES :: nat where
  "PANEL_SOURCE_MAX_BYTES = 2 * 1024 * 1024"

definition PANEL_SOURCE_MIN_CHARS :: nat where
  "PANEL_SOURCE_MIN_CHARS = 50"

definition isAllowedPanelSourceUrl :: "(string \<Rightarrow> panel_url option) \<Rightarrow> string \<Rightarrow> panel_url option" where
  "isAllowedPanelSourceUrl parse value =
     (case parse value of
        None \<Rightarrow> None
      | Some u \<Rightarrow>
          let host = to_lower (un_host u) in
          if un_protocol u \<noteq> ''https:'' then None
          else if un_user u \<noteq> [] \<or> un_password u \<noteq> [] then None
          else if list_ex (\<lambda>e. host = e \<or> ends_with (''.'' @ e) host) PANEL_SOURCE_HOSTS then Some u else None)"

definition source_error :: exn where
  "source_error = JsError ''PanelSourceError''"

definition fetchPanelSource :: "(string \<Rightarrow> panel_url option) \<Rightarrow> (string \<Rightarrow> download option) \<Rightarrow> string \<Rightarrow> panel_source res" where
  "fetchPanelSource parse fetch value =
     (case isAllowedPanelSourceUrl parse value of
        None \<Rightarrow> Inl source_error
      | Some u \<Rightarrow>
          (case fetch value of
             None \<Rightarrow> Inl source_error
           | Some d \<Rightarrow>
               if \<not> dl_ok d \<or> PANEL_SOURCE_MAX_BYTES < dl_bytes d \<or> length (dl_text d) < PANEL_SOURCE_MIN_CHARS then Inl source_error
               else Inr \<lparr>px_text = dl_text d, px_bytes = dl_bytes d, px_host = un_host u\<rparr>))"

text \<open>
  A replacement text of \<open>String.replace\<close> without capture groups: \<open>$$\<close>, \<open>$&\<close>, and the text before and after the hit.
\<close>

fun expand :: "string \<Rightarrow> string \<Rightarrow> string \<Rightarrow> string \<Rightarrow> string" where
  "expand before hit after (a # b # cs) =
     (if a = CHR ''$'' \<and> b = CHR ''$'' then CHR ''$'' # expand before hit after cs
      else if a = CHR ''$'' \<and> b = CHR ''&'' then hit @ expand before hit after cs
      else if a = CHR ''$'' \<and> b = CHR 0x60 then before @ expand before hit after cs
      else if a = CHR ''$'' \<and> b = CHR 0x27 then after @ expand before hit after cs
      else a # expand before hit after (b # cs))"
| "expand before hit after cs = cs"

text \<open>Every hit of a pattern, from the left; \<open>hit\<close> gives the length of the hit at the head of a text, 0 for none.\<close>

function replace_hits :: "(string \<Rightarrow> nat) \<Rightarrow> string \<Rightarrow> string \<Rightarrow> string \<Rightarrow> string" where
  "replace_hits hit repl before s =
     (if s = [] then []
      else let n = hit s in
        if n = 0 then hd s # replace_hits hit repl (before @ [hd s]) (tl s)
        else expand before (take n s) (drop n s) repl @ replace_hits hit repl (before @ take n s) (drop n s))"
  by pat_completeness auto

termination by (relation "measure (\<lambda>(hit, repl, before, s). length s)") auto

text \<open>\<open>/masterKey:\s*"admin"/\<close>, and a fixed text.\<close>

definition hit_text :: "string \<Rightarrow> string \<Rightarrow> nat" where
  "hit_text p s = (if starts_with p s then length p else 0)"

definition hit_master_key :: "string \<Rightarrow> nat" where
  "hit_master_key s =
     (if \<not> starts_with ''masterKey:'' s then 0
      else let t = drop 10 s; blanks = length (takeWhile is_ws t); admin = CHR 0x22 # ''admin'' @ [CHR 0x22] in
        if starts_with admin (drop blanks t) then 10 + blanks + length admin else 0)"

definition transformPanelSource :: "string \<Rightarrow> string \<Rightarrow> string \<Rightarrow> string \<Rightarrow> string" where
  "transformPanelSource key source password domain =
     (if key = ''nahan'' then replace_hits hit_master_key (''masterKey: '' @ [CHR 0x22] @ password @ [CHR 0x22]) [] source
      else if key = ''spider''
      then replace_hits (hit_text ''__PANEL_DOMAIN__'') (json_stringify (JStr domain)) []
             (replace_hits (hit_text ''__PANEL_TOKEN__'') (json_stringify (JStr password)) [] source)
      else source)"


subsection \<open>State\<close>

datatype panel_status = Provisioning | Live | Verifying | Panel_failed

record panel_row =
  pl_id :: string
  pl_tenant :: string
  pl_connection :: string
  pl_account :: string
  pl_worker :: string
  pl_domain :: string
  pl_key :: string
  pl_path :: string
  pl_url :: string
  pl_source_host :: string
  pl_source_sha256 :: string
  pl_status :: panel_status
  pl_detail :: string
  pl_created :: num
  pl_updated :: num

record panel_binding =
  bn_type :: string
  bn_name :: string
  bn_value :: string

record panel_script =
  pt_source :: string
  pt_bindings :: "panel_binding list"

record panel_world =
  pw_world :: cp_world
  pw_rows :: "panel_row list"
  pw_scripts :: "((string \<times> string) \<times> panel_script) list"

record panel_env =
  pe_rt :: cp_runtime
  pe_id :: string
  pe_name :: "string \<Rightarrow> string"
  pe_uuid :: string
  pe_sub_key :: "byte list"
  pe_suffix :: "byte list"
  pe_parse :: "string \<Rightarrow> panel_url option"
  pe_download :: "string \<Rightarrow> download option"
  pe_probe :: "nat \<Rightarrow> nat option"
  pe_data_plane :: string

record panel_input =
  pi_key :: string
  pi_worker :: string
  pi_password :: string
  pi_connection :: string

definition pw_run :: "(cp_world, 'a) act \<Rightarrow> (panel_world, 'a) act" where
  "pw_run m w = (case m (pw_world w) of (r, x) \<Rightarrow> (r, w\<lparr>pw_world := x\<rparr>))"

definition set_panel :: "string \<Rightarrow> (panel_row \<Rightarrow> panel_row) \<Rightarrow> panel_world \<Rightarrow> panel_world" where
  "set_panel i f w = w\<lparr>pw_rows := map (\<lambda>x. if pl_id x = i then f x else x) (pw_rows w)\<rparr>"

subsection \<open>Cloudflare calls\<close>

text \<open>A call in \<open>try\<close> whose failure is swallowed.\<close>

definition attempt :: "'a res \<Rightarrow> 'a option" where
  "attempt r = (case r of Inl e \<Rightarrow> None | Inr x \<Rightarrow> Some x)"

definition api :: "panel_env \<Rightarrow> string \<Rightarrow> string \<Rightarrow> string \<Rightarrow> jval option \<Rightarrow> jval res" where
  "api E token meth path body =
     cloudflareApi (pe_rt E) token meth path (case body of None \<Rightarrow> [] | Some b \<Rightarrow> json_stringify b)"

definition text_field :: "jval \<Rightarrow> string \<Rightarrow> string" where
  "text_field v k = (case fld v k of JStr s \<Rightarrow> s | _ \<Rightarrow> [])"

fun elements :: "jval \<Rightarrow> jval list" where
  "elements (JArr xs) = xs"
| "elements v = []"

definition pickConnection :: "principal \<Rightarrow> string \<Rightarrow> cp_db \<Rightarrow> connection res" where
  "pickConnection p cid d =
     (if cid \<noteq> [] then getConnection cid (Some (pr_tenant p)) d
      else case sort_by (\<lambda>a b. c_created b \<le> c_created a) (filter (\<lambda>c. c_tenant c = pr_tenant p \<and> c_revoked c = None) (cp_conns d)) of
        [] \<Rightarrow> Inl (JsError ''no connection'') | c # _ \<Rightarrow> Inr c)"

definition firstAccountId :: "panel_env \<Rightarrow> string \<Rightarrow> string" where
  "firstAccountId E token =
     (case attempt (api E token ''GET'' ''/accounts'' None) of
        None \<Rightarrow> [] | Some v \<Rightarrow> (case elements v of [] \<Rightarrow> [] | a # _ \<Rightarrow> text_field a ''id''))"

definition subdomain_wanted :: "panel_env \<Rightarrow> string \<Rightarrow> string" where
  "subdomain_wanted E workerName =
     take 32 (map (\<lambda>c. if name_char c then c else CHR ''-'') (to_lower (workerName @ ''-'' @ randomToken (pe_suffix E))))"

definition ensureWorkersSubdomain :: "panel_env \<Rightarrow> string \<Rightarrow> string \<Rightarrow> string \<Rightarrow> string" where
  "ensureWorkersSubdomain E token accountId workerName =
     (let path = ''/accounts/'' @ accountId @ ''/workers/subdomain'';
          current = (case attempt (api E token ''GET'' path None) of None \<Rightarrow> [] | Some v \<Rightarrow> text_field v ''subdomain'');
          wanted = subdomain_wanted E workerName in
      if current \<noteq> [] then current
      else case attempt (api E token ''PUT'' path (Some (JObj [(''subdomain'', JStr wanted)]))) of
        None \<Rightarrow> []
      | Some v \<Rightarrow> (if nullish (fld v ''subdomain'') then wanted else text_field v ''subdomain''))"

definition ensureKvNamespace :: "panel_env \<Rightarrow> string \<Rightarrow> string \<Rightarrow> string \<Rightarrow> string" where
  "ensureKvNamespace E token accountId workerName =
     (let title = workerName @ ''_KV''; path = ''/accounts/'' @ accountId @ ''/storage/kv/namespaces'';
          created = (case attempt (api E token ''POST'' path (Some (JObj [(''title'', JStr title)]))) of None \<Rightarrow> [] | Some v \<Rightarrow> text_field v ''id'') in
      if created \<noteq> [] then created
      else case attempt (api E token ''GET'' (path @ ''?per_page=50'') None) of
        None \<Rightarrow> []
      | Some v \<Rightarrow> (case find (\<lambda>x. fld x ''title'' = JStr title) (elements v) of None \<Rightarrow> [] | Some x \<Rightarrow> text_field x ''id''))"

definition ensureD1Database :: "panel_env \<Rightarrow> string \<Rightarrow> string \<Rightarrow> string \<Rightarrow> string" where
  "ensureD1Database E token accountId workerName =
     (let name = workerName @ ''_db''; path = ''/accounts/'' @ accountId @ ''/d1/database'';
          created = (case attempt (api E token ''POST'' path (Some (JObj [(''name'', JStr name)]))) of
             None \<Rightarrow> [] | Some v \<Rightarrow> (if nullish (fld v ''uuid'') then text_field v ''id'' else text_field v ''uuid'')) in
      if created \<noteq> [] then created
      else case attempt (api E token ''GET'' path None) of
        None \<Rightarrow> []
      | Some v \<Rightarrow> (case find (\<lambda>x. fld x ''name'' = JStr name) (elements v) of None \<Rightarrow> [] | Some x \<Rightarrow> text_field x ''uuid''))"

record resolved_source =
  rv_text :: string
  rv_sha256 :: string
  rv_host :: string

definition resolvePanelSource :: "panel_env \<Rightarrow> panel_spec \<Rightarrow> string \<Rightarrow> resolved_source res" where
  "resolvePanelSource E panel password =
     (let made = (\<lambda>t h. \<lparr>rv_text = t, rv_sha256 = cp_sha256 (cr_P (pe_rt E)) t, rv_host = h\<rparr>) in
      if pn_source panel = [] then Inr (made (pe_data_plane E) ''repo'')
      else res_bind (fetchPanelSource (pe_parse E) (pe_download E) (pn_source panel)) (\<lambda>x.
        Inr (made (transformPanelSource (pn_key panel) (px_text x) password (px_host x)) (px_host x))))"

definition panelFinalPath :: "panel_spec \<Rightarrow> string \<Rightarrow> string \<Rightarrow> string" where
  "panelFinalPath panel uuid subKey =
     (if pn_key panel = ''nova'' \<or> pn_key panel = ''edgetunnel'' then ''/'' @ subKey
      else if pn_key panel = ''vless_core'' then ''/'' @ uuid else pn_path panel)"

definition bind_text :: "string \<Rightarrow> string \<Rightarrow> panel_binding" where
  "bind_text n v = \<lparr>bn_type = ''plain_text'', bn_name = n, bn_value = v\<rparr>"

definition panel_vars :: "panel_spec \<Rightarrow> string \<Rightarrow> string \<Rightarrow> string \<Rightarrow> string \<Rightarrow> string \<Rightarrow> (string \<times> string) list" where
  "panel_vars panel accountId uuid subKey password name =
     (let k = pn_key panel; proxy = ''cdn-all.xn--b6gac.eu.org'' in
      if k = ''bpb'' then [(''UUID'', uuid), (''TR_PASS'', subKey)]
      else if k = ''nova'' \<or> k = ''edgetunnel'' then [(''UUID'', uuid), (''PASSWORD'', password), (''KEY'', subKey), (''PROXYIP'', proxy)]
      else if k = ''vless_core'' then [(''UUID'', uuid), (''PROXYIP'', proxy)]
      else if k = ''omni_pro'' then [(''PASSWORD'', password), (''PANEL_NAME'', name)]
      else if k = ''zeus'' then [(''CF_ACCOUNT_ID'', accountId), (''WORKER_NAME'', k)]
      else [])"

definition panelBindings :: "panel_spec \<Rightarrow> string \<Rightarrow> string \<Rightarrow> string \<Rightarrow> string \<Rightarrow> string \<Rightarrow> string \<Rightarrow> string \<Rightarrow> string \<Rightarrow> panel_binding list" where
  "panelBindings panel title kvId d1Id accountId token uuid subKey password =
     (if kvId \<noteq> [] then map (\<lambda>n. \<lparr>bn_type = ''kv_namespace'', bn_name = n, bn_value = kvId\<rparr>) (pn_kv panel) else []) @
     (if d1Id \<noteq> [] then map (\<lambda>n. \<lparr>bn_type = ''d1'', bn_name = n, bn_value = d1Id\<rparr>) (pn_d1 panel) else []) @
     map (case_prod bind_text) (panel_vars panel accountId uuid subKey password title) @
     (if pn_key panel = ''zeus'' then [\<lparr>bn_type = ''secret_text'', bn_name = ''CF_API_TOKEN'', bn_value = token\<rparr>] else [])"

definition binding_json :: "panel_binding \<Rightarrow> jval" where
  "binding_json b = JObj
     [(''type'', JStr (bn_type b)), (''name'', JStr (bn_name b)),
      (if bn_type b = ''kv_namespace'' then ''namespace_id'' else if bn_type b = ''d1'' then ''id'' else ''text'', JStr (bn_value b))]"

definition panel_metadata :: "panel_binding list \<Rightarrow> jval" where
  "panel_metadata bindings = JObj
     [(''main_module'', JStr ''worker.js''), (''compatibility_date'', JStr ''2024-03-01''),
      (''compatibility_flags'', JArr [JStr ''nodejs_compat'']), (''bindings'', JArr (map binding_json bindings))]"

definition upload_failed :: exn where
  "upload_failed = JsError ''panel upload failed''"

text \<open>The upload takes the place of any script of that name on the account, a tenant's data plane included.\<close>

definition uploadPanelScript :: "panel_env \<Rightarrow> string \<Rightarrow> string \<Rightarrow> string \<Rightarrow> string \<Rightarrow> panel_binding list \<Rightarrow> (panel_world, unit) act" where
  "uploadPanelScript E token accountId scriptName source bindings =
     act_bind (act_lift (cr_fetch (pe_rt E) \<lparr>ac_token = token, ac_method = ''PUT'',
         ac_path = ''/accounts/'' @ accountId @ ''/workers/scripts/'' @ encodeURIComponent scriptName,
         ac_body = json_stringify (panel_metadata bindings) @ source\<rparr>)) (\<lambda>response.
     act_seq (act_when (\<not> ay_ok response) upload_failed)
     (act_seq (act_when (case ay_json response of None \<Rightarrow> False | Some v \<Rightarrow> truthy v \<and> fld v ''success'' = JBool False) upload_failed)
       (act_upd (\<lambda>w. w\<lparr>pw_scripts := upsert (accountId, scriptName) \<lparr>pt_source = source, pt_bindings = bindings\<rparr> (pw_scripts w),
          pw_world := (pw_world w)\<lparr>cw_scripts := adel (accountId, scriptName) (cw_scripts (pw_world w))\<rparr>\<rparr>))))"

definition is_kv :: "jval \<Rightarrow> bool" where
  "is_kv b \<longleftrightarrow> fld b ''type'' = JStr ''kv_namespace''"

text \<open>The repair reads the settings and puts the missing KV names back; on every failure it gives up silently.\<close>

definition repairKvBindings :: "panel_env \<Rightarrow> string \<Rightarrow> string \<Rightarrow> string \<Rightarrow> panel_spec \<Rightarrow> string \<Rightarrow> (panel_world, unit) act" where
  "repairKvBindings E token accountId scriptName panel kvId =
     (let path = ''/accounts/'' @ accountId @ ''/workers/scripts/'' @ encodeURIComponent scriptName @ ''/settings'' in
      case attempt (api E token ''GET'' path None) of
        None \<Rightarrow> act_ret ()
      | Some settings \<Rightarrow>
          let current = elements (fld settings ''bindings'');
              missing = filter (\<lambda>n. \<not> list_ex (\<lambda>b. is_kv b \<and> fld b ''name'' = JStr n) current) (pn_kv panel);
              keep = filter (\<lambda>b. \<not> (is_kv b \<and> list_ex (\<lambda>n. text_field b ''name'' = n) (pn_kv panel))) current;
              added = map (\<lambda>n. \<lparr>bn_type = ''kv_namespace'', bn_name = n, bn_value = kvId\<rparr>) missing in
          if missing = [] then act_ret ()
          else case attempt (api E token ''PATCH'' path (Some (JObj [(''bindings'', JArr (keep @ map binding_json added))]))) of
            None \<Rightarrow> act_ret () | Some v \<Rightarrow> act_ret ())"

definition seedKvValue :: "panel_env \<Rightarrow> string \<Rightarrow> string \<Rightarrow> string \<Rightarrow> string \<Rightarrow> string \<Rightarrow> bool" where
  "seedKvValue E token accountId namespaceId key value =
     (case attempt (cr_fetch (pe_rt E) \<lparr>ac_token = token, ac_method = ''PUT'',
         ac_path = ''/accounts/'' @ accountId @ ''/storage/kv/namespaces/'' @ namespaceId @ ''/values/'' @ encodeURIComponent key,
         ac_body = value\<rparr>) of
        None \<Rightarrow> False | Some r \<Rightarrow> ay_ok r)"

definition PANEL_PROBE_ATTEMPTS :: nat where
  "PANEL_PROBE_ATTEMPTS = 3"

definition good_status :: "nat \<Rightarrow> bool" where
  "good_status st \<longleftrightarrow> 200 \<le> st \<and> st < 300 \<or> st = 302"

text \<open>The link check: the first good status, or the status of the last attempt; \<open>None\<close> is no answer.\<close>

fun probe_from :: "(nat \<Rightarrow> nat option) \<Rightarrow> nat \<Rightarrow> nat \<Rightarrow> nat option \<Rightarrow> bool \<times> nat option" where
  "probe_from probe i 0 lastStatus = (False, lastStatus)"
| "probe_from probe i (Suc todo) lastStatus =
     (case probe i of
        Some st \<Rightarrow> if good_status st then (True, Some st) else probe_from probe (Suc i) todo (Some st)
      | None \<Rightarrow> probe_from probe (Suc i) todo None)"

definition probePanel :: "panel_env \<Rightarrow> bool \<times> nat option" where
  "probePanel E = probe_from (pe_probe E) 0 PANEL_PROBE_ATTEMPTS None"

subsection \<open>deployPanel\<close>

definition worker_name_ok :: "string \<Rightarrow> bool" where
  "worker_name_ok s \<longleftrightarrow> 3 \<le> length s \<and> length s \<le> 64 \<and> list_all name_char s \<and> hd s \<noteq> CHR ''-'' \<and> last s \<noteq> CHR ''-''"

text \<open>\<open>redactError\<close> keeps the name of the error only.\<close>

fun error_name :: "exn \<Rightarrow> string" where
  "error_name (HttpError st c r a d) = ''HttpError''"
| "error_name BootError = ''Error''"
| "error_name (JsError m) = (if m = ''TypeError'' then m else ''Error'')"

definition panel_audit :: "panel_env \<Rightarrow> principal \<Rightarrow> string \<Rightarrow> string \<Rightarrow> string \<Rightarrow> jval \<Rightarrow> (panel_world, unit) act" where
  "panel_audit E p action resource outcome metadata =
     pw_run (cdb_upd (cp_audit (pe_rt E) (Some (pr_tenant p)) ''telegram'' (Some (pr_telegram p)) action (Some resource) outcome None metadata))"

definition insert_panel :: "panel_row \<Rightarrow> (panel_world, unit) act" where
  "insert_panel x w =
     (if list_ex (\<lambda>y. pl_id y = pl_id x \<or> pl_account y = pl_account x \<and> pl_worker y = pl_worker x) (pw_rows w)
      then (Inl (JsError ''UNIQUE constraint failed''), w)
      else if pl_tenant x \<notin> t_id ` set (cp_tenants (cw_db (pw_world w))) \<or> pl_connection x \<notin> c_id ` set (cp_conns (cw_db (pw_world w)))
      then (Inl (JsError ''FOREIGN KEY constraint failed''), w)
      else (Inr (), w\<lparr>pw_rows := pw_rows w @ [x]\<rparr>))"

definition getPanelDeployment :: "principal \<Rightarrow> string \<Rightarrow> panel_world \<Rightarrow> panel_row option" where
  "getPanelDeployment p i w = find (\<lambda>x. pl_id x = i \<and> pl_tenant x = pr_tenant p) (pw_rows w)"

text \<open>The part of \<open>deployPanel\<close> inside \<open>try\<close>.\<close>

definition panel_resources :: "panel_env \<Rightarrow> principal \<Rightarrow> panel_spec \<Rightarrow> panel_input \<Rightarrow> string \<Rightarrow> string \<Rightarrow> string \<Rightarrow> (panel_world, panel_row) act" where
  "panel_resources E p panel inp token accountId workerDomain =
     (let kvId = (if pn_db panel = Kv_store then ensureKvNamespace E token accountId (pi_worker inp) else []);
          d1Id = (if pn_db panel = D1_store then ensureD1Database E token accountId (pi_worker inp) else []);
          subKey = randomToken (pe_sub_key E); path = panelFinalPath panel (pe_uuid E) subKey; url = ''https://'' @ workerDomain @ path in
      act_seq (act_when (pn_db panel = Kv_store \<and> kvId = []) (JsError ''no KV''))
      (act_seq (act_when (pn_db panel = D1_store \<and> d1Id = []) (JsError ''no D1''))
      (act_bind (act_lift (resolvePanelSource E panel (pi_password inp))) (\<lambda>bundle.
      let seeded = pn_key panel = ''bpb'' \<and> kvId \<noteq> [] \<and> seedKvValue E token accountId kvId ''pwd'' (pi_password inp) in
      act_seq (uploadPanelScript E token accountId (pi_worker inp) (rv_text bundle)
         (panelBindings panel (pe_name E (pn_key panel)) kvId d1Id accountId token (pe_uuid E) subKey (pi_password inp)))
      (let enabled = attempt (api E token ''POST'' (''/accounts/'' @ accountId @ ''/workers/scripts/'' @ encodeURIComponent (pi_worker inp) @ ''/subdomain'')
             (Some (JObj [(''enabled'', JBool True)]))) in
      act_seq (if kvId \<noteq> [] then repairKvBindings E token accountId (pi_worker inp) panel kvId else act_ret ())
      (let probe = probePanel E; status = (if fst probe then Live else Verifying) in
      act_seq (act_upd (set_panel (pe_id E) (\<lambda>x. x\<lparr>pl_path := path, pl_url := url, pl_status := status,
           pl_detail := (case snd probe of None \<Rightarrow> ''none'' | Some st \<Rightarrow> show_nat st), pl_updated := cr_now (pe_rt E)\<rparr>)))
      (act_seq (panel_audit E p ''panel-deploy.succeeded'' (pe_id E) ''success''
          (JObj [(''panel'', JStr (pn_key panel)), (''worker'', JStr (pi_worker inp)), (''source'', JStr (rv_host bundle)),
             (''sha256'', JStr (rv_sha256 bundle))]))
      (act_bind (act_get (getPanelDeployment p (pe_id E))) (\<lambda>row.
         case row of None \<Rightarrow> act_throw (JsError ''row not read'') | Some x \<Rightarrow> act_ret x)))))))))"

definition panel_failure :: "panel_env \<Rightarrow> principal \<Rightarrow> panel_spec \<Rightarrow> panel_input \<Rightarrow> exn \<Rightarrow> (panel_world, panel_row) act" where
  "panel_failure E p panel inp e =
     act_seq (act_upd (set_panel (pe_id E) (\<lambda>x. x\<lparr>pl_status := Panel_failed, pl_detail := error_name e, pl_updated := cr_now (pe_rt E)\<rparr>)))
     (act_seq (panel_audit E p ''panel-deploy.failed'' (pe_id E) ''failure''
         (JObj [(''panel'', JStr (pn_key panel)), (''worker'', JStr (pi_worker inp))]))
       (act_throw (JsError (error_name e))))"

definition new_panel_row :: "panel_env \<Rightarrow> principal \<Rightarrow> panel_spec \<Rightarrow> panel_input \<Rightarrow> connection \<Rightarrow> string \<Rightarrow> string \<Rightarrow> panel_row" where
  "new_panel_row E p panel inp c accountId workerDomain =
     \<lparr>pl_id = pe_id E, pl_tenant = pr_tenant p, pl_connection = c_id c, pl_account = accountId, pl_worker = pi_worker inp,
      pl_domain = workerDomain, pl_key = pn_key panel, pl_path = pn_path panel, pl_url = ''https://'' @ workerDomain @ pn_path panel,
      pl_source_host = [], pl_source_sha256 = [], pl_status = Provisioning, pl_detail = ''provisioning'',
      pl_created = cr_now (pe_rt E), pl_updated = cr_now (pe_rt E)\<rparr>"

definition deployPanel :: "panel_env \<Rightarrow> principal \<Rightarrow> panel_input \<Rightarrow> (panel_world, panel_row) act" where
  "deployPanel E p inp =
     (case findPanel (pi_key inp) of
        None \<Rightarrow> act_throw (JsError ''unknown panel'')
      | Some panel \<Rightarrow>
          act_bind (pw_run (cdb_res (pickConnection p (pi_connection inp)))) (\<lambda>conn.
          act_bind (act_lift (getValidCloudflareAuth (pe_rt E) conn)) (\<lambda>token.
          let accountId = (case c_account conn of Some a \<Rightarrow> a | None \<Rightarrow> firstAccountId E token) in
          act_seq (act_when (accountId = []) (JsError ''unknown account''))
          (act_seq (act_when (\<not> worker_name_ok (pi_worker inp)) (JsError ''bad worker name''))
          (let subdomain = ensureWorkersSubdomain E token accountId (pi_worker inp);
               workerDomain = pi_worker inp @ ''.'' @ subdomain @ ''.workers.dev'' in
          act_seq (act_when (subdomain = []) (JsError ''no subdomain''))
          (act_seq (insert_panel (new_panel_row E p panel inp conn accountId workerDomain))
            (act_catch (panel_resources E p panel inp token accountId workerDomain) (panel_failure E p panel inp))))))))"

definition listPanelDeployments :: "string \<Rightarrow> nat \<Rightarrow> panel_world \<Rightarrow> panel_row list" where
  "listPanelDeployments tenant limit w =
     take limit (sort_by (\<lambda>a b. pl_created b \<le> pl_created a) (filter (\<lambda>x. pl_tenant x = tenant) (pw_rows w)))"

datatype panel_deletion = Deleted | Not_found | Not_failed

definition deletePanelDeployment :: "panel_env \<Rightarrow> principal \<Rightarrow> string \<Rightarrow> (panel_world, panel_deletion) act" where
  "deletePanelDeployment E p i =
     act_bind (act_get (getPanelDeployment p i)) (\<lambda>row.
     case row of
       None \<Rightarrow> act_ret Not_found
     | Some x \<Rightarrow>
         if pl_status x \<noteq> Panel_failed then act_ret Not_failed
         else act_seq (act_upd (\<lambda>w. w\<lparr>pw_rows := filter (\<lambda>y. \<not> (pl_id y = i \<and> pl_tenant y = pr_tenant p)) (pw_rows w)\<rparr>))
           (act_seq (panel_audit E p ''panel-deploy.record-deleted'' i ''success''
               (JObj [(''worker'', JStr (pl_worker x)), (''panel'', JStr (pl_key x))]))
             (act_ret Deleted)))"

subsection \<open>What a deployment leaves\<close>

text \<open>A row is in one piece with its script when the script carries a store of every name the panel reads it under.\<close>

definition binds_all :: "string \<Rightarrow> string list \<Rightarrow> panel_script \<Rightarrow> bool" where
  "binds_all ty names s \<longleftrightarrow>
     (\<exists>i \<in> bn_value ` set (pt_bindings s). i \<noteq> [] \<and> (\<forall>n \<in> set names. \<lparr>bn_type = ty, bn_name = n, bn_value = i\<rparr> \<in> set (pt_bindings s)))"

definition stores_bound :: "panel_spec \<Rightarrow> panel_script \<Rightarrow> bool" where
  "stores_bound panel s \<longleftrightarrow>
     (case pn_db panel of No_store \<Rightarrow> True | Kv_store \<Rightarrow> binds_all ''kv_namespace'' (pn_kv panel) s | D1_store \<Rightarrow> binds_all ''d1'' (pn_d1 panel) s)"

text \<open>Nothing but the script of that name on that account has changed.\<close>

definition touches_script :: "string \<times> string \<Rightarrow> panel_world \<Rightarrow> panel_world \<Rightarrow> bool" where
  "touches_script key w w' \<longleftrightarrow>
     (\<forall>k. k \<noteq> key \<longrightarrow> map_of (pw_scripts w') k = map_of (pw_scripts w) k \<and>
        map_of (cw_scripts (pw_world w')) k = map_of (cw_scripts (pw_world w)) k)"

definition panel_live :: "panel_env \<Rightarrow> panel_input \<Rightarrow> panel_row \<Rightarrow> panel_world \<Rightarrow> bool" where
  "panel_live E inp x w \<longleftrightarrow>
     (case findPanel (pi_key inp) of None \<Rightarrow> False | Some panel \<Rightarrow>
      case resolvePanelSource E panel (pi_password inp) of Inl e \<Rightarrow> False | Inr bundle \<Rightarrow>
      case map_of (pw_scripts w) (pl_account x, pl_worker x) of None \<Rightarrow> False | Some s \<Rightarrow>
        pt_source s = rv_text bundle \<and> stores_bound panel s \<and> map_of (cw_scripts (pw_world w)) (pl_account x, pl_worker x) = None \<and>
        pl_status x = (if fst (probePanel E) then Live else Verifying))"

definition owned_row :: "panel_env \<Rightarrow> principal \<Rightarrow> panel_input \<Rightarrow> panel_row \<Rightarrow> bool" where
  "owned_row E p inp x \<longleftrightarrow>
     pl_id x = pe_id E \<and> pl_tenant x = pr_tenant p \<and> pl_key x = pi_key inp \<and> pl_worker x = pi_worker inp \<and> worker_name_ok (pl_worker x)"

fun panel_outcome :: "panel_env \<Rightarrow> principal \<Rightarrow> panel_input \<Rightarrow> panel_world \<Rightarrow> panel_row res \<times> panel_world \<Rightarrow> bool" where
  "panel_outcome E p inp w (Inr x, w') \<longleftrightarrow>
     pw_rows w' = pw_rows w @ [x] \<and> owned_row E p inp x \<and> panel_live E inp x w' \<and> touches_script (pl_account x, pl_worker x) w w'"
| "panel_outcome E p inp w (Inl e, w') \<longleftrightarrow>
     w' = w \<or>
     (\<exists>x. pw_rows w' = pw_rows w @ [x] \<and> owned_row E p inp x \<and> pl_status x = Panel_failed \<and> touches_script (pl_account x, pl_worker x) w w')"

lemma upload_outcome:
  "(\<exists>e. uploadPanelScript E t a n s b w = (Inl e, w)) \<or>
   uploadPanelScript E t a n s b w = (Inr (), w\<lparr>pw_scripts := upsert (a, n) \<lparr>pt_source = s, pt_bindings = b\<rparr> (pw_scripts w),
     pw_world := (pw_world w)\<lparr>cw_scripts := adel (a, n) (cw_scripts (pw_world w))\<rparr>\<rparr>)"
  by (auto simp: uploadPanelScript_def act_defs split: sum.splits option.splits)

lemma repair_silent: "repairKvBindings E t a n panel k w = (Inr (), w)"
  by (simp add: repairKvBindings_def Let_def act_ret_def split: option.split)

definition panel_script_of :: "panel_env \<Rightarrow> panel_spec \<Rightarrow> panel_input \<Rightarrow> string \<Rightarrow> string \<Rightarrow> string \<Rightarrow> string \<Rightarrow> string \<Rightarrow> panel_script" where
  "panel_script_of E panel inp token accountId kvId d1Id src =
     \<lparr>pt_source = src, pt_bindings = panelBindings panel (pe_name E (pn_key panel)) kvId d1Id accountId token (pe_uuid E)
        (randomToken (pe_sub_key E)) (pi_password inp)\<rparr>"

lemma in_catalog: "findPanel k = Some panel \<Longrightarrow> panel \<in> set PANEL_CATALOG \<and> pn_key panel = k"
  by (auto simp: findPanel_def find_Some_iff in_set_conv_nth)

lemma catalog_names:
  assumes "panel \<in> set PANEL_CATALOG"
  shows "(pn_db panel = Kv_store \<longrightarrow> pn_kv panel \<noteq> []) \<and> (pn_db panel = D1_store \<longrightarrow> pn_d1 panel \<noteq> [])"
proof -
  have "list_all (\<lambda>p. (pn_db p = Kv_store \<longrightarrow> pn_kv p \<noteq> []) \<and> (pn_db p = D1_store \<longrightarrow> pn_d1 p \<noteq> [])) PANEL_CATALOG"
    by (simp add: PANEL_CATALOG_def panel_of_def)
  with assms show ?thesis by (auto simp: list_all_iff)
qed

lemma binds_allI:
  assumes "names \<noteq> []" "i \<noteq> []" "(\<lambda>n. \<lparr>bn_type = ty, bn_name = n, bn_value = i\<rparr>) ` set names \<subseteq> set (pt_bindings s)"
  shows "binds_all ty names s"
proof -
  from assms(1) obtain n where "n \<in> set names" by (cases names) auto
  with assms(3) have "i \<in> bn_value ` set (pt_bindings s)" by force
  with assms(2,3) show ?thesis by (auto simp: binds_all_def)
qed

lemma script_bound:
  assumes "panel \<in> set PANEL_CATALOG" and "pn_db panel = Kv_store \<longrightarrow> kvId \<noteq> []" and "pn_db panel = D1_store \<longrightarrow> d1Id \<noteq> []"
  shows "stores_bound panel (panel_script_of E panel inp token a kvId d1Id src)"
proof (cases "pn_db panel")
  case No_store
  then show ?thesis by (simp add: stores_bound_def)
next
  case Kv_store
  with assms(2) catalog_names [OF assms(1)] show ?thesis
    by (auto simp: stores_bound_def panel_script_of_def panelBindings_def intro!: binds_allI [where i = kvId])
next
  case D1_store
  with assms(3) catalog_names [OF assms(1)] show ?thesis
    by (auto simp: stores_bound_def panel_script_of_def panelBindings_def intro!: binds_allI [where i = d1Id])
qed

lemma find_last:
  "\<forall>y \<in> set ys. pl_id y \<noteq> i \<Longrightarrow>
   find (\<lambda>y. pl_id y = i \<and> pl_tenant y = t) (ys @ [z]) = (if pl_id z = i \<and> pl_tenant z = t then Some z else None)"
  by (induction ys) auto

text \<open>Inside \<open>try\<close> either something raises, and rows and audit are as before, or all of it is done.\<close>

lemma resources_outcome:
  assumes "panel \<in> set PANEL_CATALOG" and "findPanel (pi_key inp) = Some panel"
    and "pw_rows w = rows @ [x]" and "\<forall>y \<in> set rows. pl_id y \<noteq> pe_id E" and "pl_id x = pe_id E" and "pl_tenant x = pr_tenant p"
    and "pl_account x = acct" and "pl_worker x = pi_worker inp"
  shows "case panel_resources E p panel inp token acct wd w of
      (Inl e, w') \<Rightarrow> pw_rows w' = pw_rows w \<and> touches_script (acct, pi_worker inp) w w'
    | (Inr y, w') \<Rightarrow> pw_rows w' = rows @ [y] \<and> panel_live E inp y w' \<and> touches_script (acct, pi_worker inp) w w' \<and>
        (pl_id y, pl_tenant y, pl_key y, pl_worker y, pl_account y) = (pl_id x, pl_tenant x, pl_key x, pl_worker x, pl_account x)"
proof -
  define kvId where "kvId = (if pn_db panel = Kv_store then ensureKvNamespace E token acct (pi_worker inp) else [])"
  define d1Id where "d1Id = (if pn_db panel = D1_store then ensureD1Database E token acct (pi_worker inp) else [])"
  note res = panel_resources_def [of E p panel inp token acct wd, unfolded Let_def, folded kvId_def d1Id_def]
  show ?thesis
  proof (cases "pn_db panel = Kv_store \<and> kvId = [] \<or> pn_db panel = D1_store \<and> d1Id = []")
    case True
    then have "\<exists>e. panel_resources E p panel inp token acct wd w = (Inl e, w)" by (auto simp: res act_defs)
    then show ?thesis by (auto simp: touches_script_def)
  next
    case False
    then have kv: "\<not> (pn_db panel = Kv_store \<and> kvId = [])" and d1: "\<not> (pn_db panel = D1_store \<and> d1Id = [])" by auto
    show ?thesis
    proof (cases "resolvePanelSource E panel (pi_password inp)")
      case (Inl e)
      then have "panel_resources E p panel inp token acct wd w = (Inl e, w)" by (auto simp: res act_defs kv d1)
      then show ?thesis by (simp add: touches_script_def)
    next
      case (Inr got)
      let ?s = "panel_script_of E panel inp token acct kvId d1Id (rv_text got)"
      from upload_outcome [of E token acct "pi_worker inp" "rv_text got" "pt_bindings ?s" w] show ?thesis
      proof (elim disjE exE)
        fix e assume "uploadPanelScript E token acct (pi_worker inp) (rv_text got) (pt_bindings ?s) w = (Inl e, w)"
        then have "panel_resources E p panel inp token acct wd w = (Inl e, w)"
          by (simp add: res act_defs kv d1 Inr panel_script_of_def)
        then show ?thesis by (simp add: touches_script_def)
      next
        assume up: "uploadPanelScript E token acct (pi_worker inp) (rv_text got) (pt_bindings ?s) w =
          (Inr (), w\<lparr>pw_scripts := upsert (acct, pi_worker inp) \<lparr>pt_source = rv_text got, pt_bindings = pt_bindings ?s\<rparr> (pw_scripts w),
             pw_world := (pw_world w)\<lparr>cw_scripts := adel (acct, pi_worker inp) (cw_scripts (pw_world w))\<rparr>\<rparr>)"
        from False have bound: "stores_bound panel ?s" by (intro script_bound [OF assms(1)]) auto
        have rows: "map (\<lambda>y. if pl_id y = pe_id E then f y else y) rows = rows" for f
          using assms(4) by (auto intro: map_idI)
        from bound [unfolded panel_script_of_def] show ?thesis
          by (auto simp: res act_defs kv d1 Inr up [unfolded panel_script_of_def, simplified] repair_silent set_panel_def
              panel_audit_def pw_run_def cdb_upd_eq getPanelDeployment_def assms rows find_last panel_live_def touches_script_def
              map_of_upsert map_of_adel)
      qed
    qed
  qed
qed

lemma failure_outcome:
  assumes "pw_rows w = rows @ [x]" and "\<forall>y \<in> set rows. pl_id y \<noteq> pe_id E" and "pl_id x = pe_id E"
  shows "\<exists>y w'. panel_failure E p panel inp e w = (Inl (JsError (error_name e)), w') \<and> pw_rows w' = rows @ [y] \<and>
    pl_status y = Panel_failed \<and> pw_scripts w' = pw_scripts w \<and> cw_scripts (pw_world w') = cw_scripts (pw_world w) \<and>
    (pl_id y, pl_tenant y, pl_key y, pl_worker y, pl_account y) = (pl_id x, pl_tenant x, pl_key x, pl_worker x, pl_account x)"
proof -
  have rows: "map (\<lambda>y. if pl_id y = pe_id E then f y else y) rows = rows" for f
    using assms(2) by (auto intro: map_idI)
  show ?thesis
    by (simp add: panel_failure_def act_defs set_panel_def panel_audit_def pw_run_def cdb_upd_eq assms rows)
qed

lemma insert_outcome:
  "(\<exists>e. insert_panel x w = (Inl e, w)) \<or>
   insert_panel x w = (Inr (), w\<lparr>pw_rows := pw_rows w @ [x]\<rparr>) \<and> (\<forall>y \<in> set (pw_rows w). pl_id y \<noteq> pl_id x)"
  by (auto simp: insert_panel_def list_ex_iff)

lemma attempt_outcome:
  assumes "findPanel (pi_key inp) = Some panel" and "owned_row E p inp x" and "\<forall>y \<in> set (pw_rows w). pl_id y \<noteq> pe_id E"
    and "pl_account x = acct"
  shows "panel_outcome E p inp w
    (act_catch (panel_resources E p panel inp token acct wd) (panel_failure E p panel inp) (w\<lparr>pw_rows := pw_rows w @ [x]\<rparr>))"
proof -
  let ?w = "w\<lparr>pw_rows := pw_rows w @ [x]\<rparr>"
  have x: "pl_id x = pe_id E" "pl_tenant x = pr_tenant p" "pl_key x = pi_key inp" "pl_worker x = pi_worker inp"
    "worker_name_ok (pl_worker x)" using assms(2) by (auto simp: owned_row_def)
  have cat: "panel \<in> set PANEL_CATALOG" using in_catalog [OF assms(1)] by simp
  obtain r w1 where run: "panel_resources E p panel inp token acct wd ?w = (r, w1)" by fastforce
  note step = resources_outcome [OF cat assms(1) _ assms(3) x(1) x(2) assms(4) x(4), of ?w token wd, simplified, unfolded run]
  show ?thesis
  proof (cases r)
    case (Inr y)
    with step x assms(4) show ?thesis by (auto simp: act_catch_def run owned_row_def touches_script_def)
  next
    case (Inl e)
    with step have rows: "pw_rows w1 = pw_rows w @ [x]" and kept: "touches_script (acct, pi_worker inp) ?w w1" by simp_all
    from failure_outcome [OF rows assms(3) x(1), of p panel inp e] obtain y w2 where
      "panel_failure E p panel inp e w1 = (Inl (JsError (error_name e)), w2)" "pw_rows w2 = pw_rows w @ [y]" "pl_status y = Panel_failed"
      "pw_scripts w2 = pw_scripts w1" "cw_scripts (pw_world w2) = cw_scripts (pw_world w1)"
      "(pl_id y, pl_tenant y, pl_key y, pl_worker y, pl_account y) = (pl_id x, pl_tenant x, pl_key x, pl_worker x, pl_account x)"
      by auto
    with Inl kept x assms(4) show ?thesis by (auto simp: act_catch_def run owned_row_def touches_script_def)
  qed
qed


end
