(* ===== verification/Cp_Site.thy ===== *)
theory Cp_Site
  imports Cp_State
begin

text \<open>
  The entry point of the control plane (\<^verbatim>\<open>src/index.ts\<close>: the route table, the error boundary and the cron) over the tables
  of all its components, with the anonymous measurement routes (\<^verbatim>\<open>src/telemetry-routes.ts\<close>) and the outer part of the
  Telegram webhook. A page is named, not rendered; a document that is the dump of a record is that record. What a chat update
  does once it is admitted is the argument \<open>se_bot\<close>.
\<close>

subsection \<open>Requests and replies\<close>

datatype site_reply =
    Reply response
  | Logo
  | Landing_page
  | Omni_page
  | Legal_page string
  | App_page principal
  | Connect_page connect_page
  | Clean_feed clean_ranking
  | Map_feed map_aggregate

text \<open>
  What a request runs with: the runtime, the rendering of the bootstrap script, the texts of the reports, the title of connections
  made by form, the webhook secret, the ticks of a scan that was called and of each stalled scan, the labels of clean addresses, the two scripts that are served,
  the network as the probes of the cron see it, the registry file, and the chat.
\<close>

record site_env =
  se_rt :: cp_runtime
  se_render :: "deployment \<Rightarrow> string \<Rightarrow> string"
  se_text :: net_text
  se_title :: string
  se_secret :: string
  se_ticks :: "tick list"
  se_resume :: "string \<Rightarrow> tick list"
  se_label :: "clean_status \<Rightarrow> string"
  se_dns_script :: string
  se_reader :: "string \<Rightarrow> string"
  se_probe :: probe_env
  se_edge :: "string \<Rightarrow> (nat \<times> num) option"
  se_registry :: "string option"
  se_bot :: "jval \<Rightarrow> (site, response) act"

definition ok_json :: "(string \<times> jval) list \<Rightarrow> response" where
  "ok_json kvs = json (JObj ((''ok'', JBool True) # kvs)) 200 []"

definition not_found :: response where
  "not_found = json (JObj [(''error'', JObj [(''code'', JStr ''not_found'')])]) 404 []"

definition wrong_method :: "string list \<Rightarrow> response" where
  "wrong_method methods = json (JObj [(''error'', JObj [(''code'', JStr ''method_not_allowed'')])]) 405 [(''allow'', join_with '', '' methods)]"

definition reply :: "('s, response) act \<Rightarrow> ('s, site_reply) act" where
  "reply m = act_bind m (\<lambda>x. act_ret (Reply x))"

definition only :: "request \<Rightarrow> string list \<Rightarrow> (site, site_reply) act \<Rightarrow> (site, site_reply) act" where
  "only r methods m = (if rq_method r \<in> set methods then m else act_ret (Reply (wrong_method methods)))"

definition document :: "string \<Rightarrow> string \<Rightarrow> response" where
  "document contentType body = \<lparr>rs_status = 200, rs_headers = [(''content-type'', contentType)], rs_body = Text body\<rparr>"

definition client_ip :: "request \<Rightarrow> string" where
  "client_ip r = (case header_of r ''cf-connecting-ip'' of None \<Rightarrow> ''unknown'' | Some v \<Rightarrow> v)"

definition query_or :: "request \<Rightarrow> string \<Rightarrow> string \<Rightarrow> string" where
  "query_or r k d = (case query_of r k of None \<Rightarrow> d | Some v \<Rightarrow> v)"

text \<open>\<open>Number(v) || fallback\<close>.\<close>

definition number_or :: "string \<Rightarrow> num \<Rightarrow> jsnum" where
  "number_or s fallback = (let n = str_to_num s in if truthy (JNum n) then n else Fin fallback)"

subsection \<open>telemetry-routes.ts\<close>

definition limited :: "site_env \<Rightarrow> string \<Rightarrow> nat \<Rightarrow> nat \<Rightarrow> (site, unit) act" where
  "limited E key limit windowSeconds =
     act_bind (on_db (rateLimit (se_rt E) key limit windowSeconds)) (\<lambda>allowed. act_when (\<not> allowed) (http_error 429 ''rate_limited''))"

definition telemetryBucket :: "site_env \<Rightarrow> request \<Rightarrow> string \<Rightarrow> nat \<Rightarrow> nat \<Rightarrow> (site, unit) act" where
  "telemetryBucket E r kind limit windowSeconds =
     (let day = iso_day (cr_now (se_rt E)) in
      limited E (kind @ '':'' @ day @ '':'' @ take 32 (cp_sha256 (cr_P (se_rt E)) (day @ ''|'' @ client_ip r))) limit windowSeconds)"

definition submitCleanIpReport :: "site_env \<Rightarrow> request \<Rightarrow> (site, response) act" where
  "submitCleanIpReport E r =
     act_seq (telemetryBucket E r ''rum'' 30 3600)
     (act_bind (act_lift (res_bind (cp_readJson r 2048) parseCleanIpReport)) (\<lambda>report.
      act_seq (on_clean (act_upd (recordCleanIpReport (cr_now (se_rt E)) report)))
        (act_ret (json (JObj [(''ok'', JBool True), (''ip'', JStr (cq_ip report)), (''operator'', JStr (cq_operator report)),
           (''city'', JStr (cq_city report))]) 201 []))))"

definition show_opt :: "num option \<Rightarrow> string" where
  "show_opt v = (case v of None \<Rightarrow> ''null'' | Some q \<Rightarrow> show_num q)"

definition cleanIpFormatText :: "(clean_status \<Rightarrow> string) \<Rightarrow> clean_ranking \<Rightarrow> string" where
  "cleanIpFormatText label ranking =
     join_with [CHR 0x0A] (map (\<lambda>row. join_with '' ''
       [ck_ip row @ '':'' @ show_nat (ck_port row) @ ''#'' @ op_key (cn_operator ranking) @ ''-'' @ cn_city ranking,
        (if ck_measured row then ''latency='' @ show_opt (ck_latency row) @ ''ms loss='' @ show_opt (ck_loss row) @ ''%'' else ''no-data''),
        label (ck_status row)]) (cn_rows ranking))"

definition cleanIpFeed :: "site_env \<Rightarrow> request \<Rightarrow> (site, site_reply) act" where
  "cleanIpFeed E r =
     act_bind (act_get (\<lambda>s. rankCleanIps (cr_now (se_rt E)) (Some (query_or r ''operator'' ''mci'')) (Some (query_or r ''city'' ''tehran''))
         (number_or (query_or r ''limit'' ''12'') 12) (si_clean s))) (\<lambda>ranking.
     act_ret (if to_lower (query_or r ''format'' ''json'') = ''text''
              then Reply (document ''text/plain; charset=utf-8'' (cleanIpFormatText (se_label E) ranking))
              else Clean_feed ranking))"

definition pack_json :: "phantom_pack \<Rightarrow> jval" where
  "pack_json pack =
     (let kinds = (\<lambda>k. JInt (int (length (filter (\<lambda>e. pk_kind e = k) (pp_entries pack))))) in
      JObj [(''domain'', JStr (pp_domain pack)), (''uuid'', JStr (pp_uuid pack)),
        (''counts'', JObj [(''vless'', kinds Pack_vless), (''ss'', kinds Pack_ss), (''hysteria2'', kinds Pack_hysteria2)]),
        (''entries'', JArr (map (\<lambda>e. JObj [(''label'', JStr (pk_label e)), (''kind'', JStr (kind_name (pk_kind e))),
           (''port'', JInt (int (pk_port e)))]) (pp_entries pack)))])"

definition phantomPackFeed :: "site_env \<Rightarrow> request \<Rightarrow> (site, response) act" where
  "phantomPackFeed E r =
     act_seq (telemetryBucket E r ''pack'' 60 3600)
     (let format = to_lower (query_or r ''format'' ''v2ray''); uuid = query_of r ''uuid'' in
      act_seq (act_when (case uuid of None \<Rightarrow> False | Some u \<Rightarrow> 64 < length u) (http_error 400 ''invalid_input''))
      (case buildPhantomPack (cr_uuid (se_rt E)) (query_or r ''domain'' []) uuid of
         None \<Rightarrow> act_throw (http_error 400 ''invalid_domain'')
       | Some pack \<Rightarrow> act_ret
           (if format = ''clash'' then document ''text/yaml; charset=utf-8'' (packToClashYaml pack)
            else if format = ''singbox'' \<or> format = ''sing-box'' then json (packToSingBox pack) 200 []
            else if format = ''json'' then json (pack_json pack) 200 []
            else document ''text/plain; charset=utf-8'' (packToSubscription pack))))"

definition submitMapReport :: "site_env \<Rightarrow> request \<Rightarrow> (site, response) act" where
  "submitMapReport E r =
     act_seq (telemetryBucket E r ''map'' 20 3600)
     (act_bind (act_lift (res_bind (cp_readJson r 2048) (parseMapReport (se_text E)))) (\<lambda>report.
      act_seq (on_map (act_upd (recordMapReport (cr_now (se_rt E)) report)))
        (act_ret (json (JObj [(''ok'', JBool True), (''stored'', JStr ''anonymous aggregate only''), (''retention_hours'', JInt 24)]) 201 []))))"

definition window_hours :: "request \<Rightarrow> num" where
  "window_hours r = (case js_min (Fin 24) (js_max (Fin 1) (number_or (query_or r ''windowHours'' ''6'') 6)) of Fin q \<Rightarrow> q | _ \<Rightarrow> 6)"

definition mapFeed :: "site_env \<Rightarrow> request \<Rightarrow> (site, site_reply) act" where
  "mapFeed E r = act_get (\<lambda>s. Map_feed (aggregateMap (cr_now (se_rt E)) (window_hours r) (si_map s)))"

definition whiteHoleReader :: "site_env \<Rightarrow> request \<Rightarrow> (site, response) act" where
  "whiteHoleReader E r =
     act_bind (act_lift (validateDropDomain (query_or r ''domain'' []))) (\<lambda>d.
     act_seq (telemetryBucket E r ''wh-reader'' 60 3600) (act_ret (document ''text/x-shellscript; charset=utf-8'' (se_reader E d))))"

subsection \<open>The webhook\<close>

definition max_safe :: num where
  "max_safe = 2 ^ 53 - 1"

definition safe_integer :: "jval \<Rightarrow> int option" where
  "safe_integer v = (case v of JNum (Fin q) \<Rightarrow> if is_int q \<and> \<bar>q\<bar> \<le> max_safe then Some \<lfloor>q\<rfloor> else None | _ \<Rightarrow> None)"

text \<open>An update is registered before it is handled; one that is registered already is acknowledged and dropped.\<close>

definition handleTelegramWebhook :: "site_env \<Rightarrow> request \<Rightarrow> (site, response) act" where
  "handleTelegramWebhook E r =
     (let provided = (case header_of r ''x-telegram-bot-api-secret-token'' of None \<Rightarrow> [] | Some v \<Rightarrow> v) in
      if se_secret E = [] \<or> \<not> constantTimeEqual (cr_P (se_rt E)) provided (se_secret E)
      then act_seq (on_world (cdb_upd (cp_audit (se_rt E) None ''telegram'' None ''webhook.authenticate'' None ''denied'' (Some r) JUndef)))
             (act_throw (http_error 401 ''invalid_webhook_secret''))
      else act_bind (act_lift (res_bind (cp_readJson r 64000) need_obj)) (\<lambda>update.
        case safe_integer (fld update ''update_id'') of
          None \<Rightarrow> act_throw (http_error 400 ''invalid_update'')
        | Some i \<Rightarrow>
            act_bind (act_get (\<lambda>s. i \<in> fst ` set (si_updates s))) (\<lambda>seen.
            if seen then act_ret (ok_json [])
            else act_seq (act_upd (\<lambda>s. s\<lparr>si_updates := si_updates s @ [(i, cr_now (se_rt E))]\<rparr>))
              (if truthy (fld update ''callback_query'') \<or> truthy (fld update ''message'') then se_bot E update
               else act_ret (ok_json [])))))"

subsection \<open>The public routes\<close>

definition report_poison :: "site_env \<Rightarrow> request \<Rightarrow> (site, response) act" where
  "report_poison E r =
     act_seq (limited E (''poison:'' @ cp_sha256 (cr_P (se_rt E)) (client_ip r)) 10 3600)
     (act_bind (act_lift (res_bind (cp_readJson r 32768) (parsePoisonReport (se_text E)))) (\<lambda>report.
      act_bind (on_net (recordPoisonReport (cr_now (se_rt E)) report)) (\<lambda>v.
      act_ret (json (JObj [(''total'', JInt (int (pv_total v))), (''fake'', JInt (int (pv_fake v))), (''perResolver'', per_json (pv_per v))])
        200 []))))"

definition report_mtu :: "site_env \<Rightarrow> request \<Rightarrow> (site, response) act" where
  "report_mtu E r =
     act_seq (limited E (''mtu:'' @ cp_sha256 (cr_P (se_rt E)) (client_ip r)) 20 3600)
     (act_bind (act_lift (res_bind (cp_readJson r 4096) (parseMtuReport (se_text E)))) (\<lambda>report.
      act_seq (on_net (act_upd (recordMtuReport (cr_now (se_rt E)) report))) (act_ret (ok_json []))))"

definition report_race :: "site_env \<Rightarrow> request \<Rightarrow> (site, response) act" where
  "report_race E r =
     act_seq (limited E (''race:'' @ cp_sha256 (cr_P (se_rt E)) (client_ip r)) 60 3600)
     (act_bind (act_lift (res_bind (cp_readJson r 4096) parseRaceReport)) (\<lambda>report.
      act_seq (on_net (act_upd (recordRaceReport (cr_now (se_rt E)) report))) (act_ret (ok_json []))))"

definition login_route :: "site_env \<Rightarrow> request \<Rightarrow> (site, response) act" where
  "login_route E r = act_seq (on_db (loginRateLimit (se_rt E) r)) (on_db (loginFromOneTimeLink (se_rt E) r))"

definition connect_route :: "site_env \<Rightarrow> request \<Rightarrow> (site, site_reply) act" where
  "connect_route E r =
     (if rq_method r = ''GET'' then act_bind (on_world (dnsConnectGet (se_rt E) r)) (\<lambda>p. act_ret (Connect_page p))
      else if rq_method r = ''POST'' then act_bind (on_world (dnsConnectPost (se_rt E) (se_title E) r)) (\<lambda>p. act_ret (Connect_page p))
      else act_ret (Reply (wrong_method [''GET'', ''POST''])))"

definition rule_document :: "jval \<Rightarrow> response" where
  "rule_document v = document ''application/json; charset=utf-8'' (json_stringify v)"

definition telemetry_route :: "site_env \<Rightarrow> request \<Rightarrow> (site, site_reply) act option" where
  "telemetry_route E r =
     (let path = rq_path r; rtm = se_rt E in
      if path = ''/api/v1/telemetry/clean-ip'' then Some (only r [''POST''] (reply (submitCleanIpReport E r)))
      else if path = ''/api/v1/clean-ip'' then Some (only r [''GET''] (cleanIpFeed E r))
      else if path = ''/api/v1/telemetry/map'' then Some (only r [''POST''] (reply (submitMapReport E r)))
      else if path = ''/api/v1/map'' then Some (only r [''GET''] (mapFeed E r))
      else if path = ''/api/v1/pack'' then Some (only r [''GET''] (reply (phantomPackFeed E r)))
      else if path = ''/api/v1/dnstt/server.sh'' then Some (only r [''GET''] (reply (on_db (serveDnsttScript rtm r))))
      else if path = ''/api/v1/whitehole/fetch.sh'' then Some (only r [''GET''] (reply (whiteHoleReader E r)))
      else if path = ''/api/v1/dns-test.sh''
        then Some (only r [''GET''] (act_ret (Reply (document ''text/x-shellscript; charset=utf-8'' (se_dns_script E)))))
      else if path = ''/api/v1/telemetry/dns-poison'' then Some (only r [''POST''] (reply (report_poison E r)))
      else if path = ''/api/v1/telemetry/mtu'' then Some (only r [''POST''] (reply (report_mtu E r)))
      else if path = ''/api/v1/geoip-ir.json''
        then Some (only r [''GET''] (act_get (\<lambda>s. Reply (rule_document (buildRuleSet (currentIrRanges (si_net s)))))))
      else if path = ''/api/v1/telemetry/race'' then Some (only r [''POST''] (reply (report_race E r)))
      else if path = ''/api/v1/race-direct.json''
        then Some (only r [''GET''] (act_get (\<lambda>s. Reply (rule_document (buildDomainRuleSet (directRaceDomains (cr_now rtm) (si_net s)))))))
      else None)"

definition public_route :: "site_env \<Rightarrow> request \<Rightarrow> (site, site_reply) act option" where
  "public_route E r =
     (let path = rq_path r; rtm = se_rt E in
      if path = ''/healthz'' then Some (only r [''GET''] (act_ret (Reply (ok_json
        [(''service'', JStr ''v13-control-plane''), (''version'', JInt 13), (''release'', JStr ''13.5.2'')]))))
      else if path = ''/logo.svg'' then Some (only r [''GET''] (act_ret Logo))
      else if path = ''/telegram/webhook'' then Some (only r [''POST''] (reply (handleTelegramWebhook E r)))
      else if path = ''/api/v1/agent/bootstrap'' then Some (only r [''GET''] (reply (on_world (serveBootstrap (se_render E) rtm r))))
      else if path = ''/api/v1/agent/complete'' then Some (only r [''POST''] (reply (on_world (completeBootstrap rtm r))))
      else if path = ''/api/v1/agent/report'' then Some (only r [''POST''] (reply (on_world (receiveAgentReport rtm r))))
      else if telemetry_route E r \<noteq> None then telemetry_route E r
      else if path = ''/connect'' \<or> path = ''/dns/connect'' then Some (connect_route E r)
      else if path = ''/internal/scan-tick'' then Some (only r [''POST''] (reply (on_scan (handleScanTick rtm (se_secret E) (se_ticks E) r))))
      else if path = ''/login'' then Some (only r [''GET''] (reply (login_route E r)))
      else if path = ''/'' then Some (only r [''GET''] (act_ret Landing_page))
      else if path = ''/omni'' then Some (only r [''GET''] (act_ret Omni_page))
      else if path \<in> {''/setwebhook'', ''/sub'', ''/profile'', ''/panel'', ''/api/login'', ''/api/users''} then Some (act_ret (Reply not_found))
      else if path = ''/privacy'' \<or> path = ''/terms'' then Some (only r [''GET''] (act_ret (Legal_page (drop 1 path))))
      else if path = ''/oauth/cloudflare/start'' \<or> path = ''/oauth/cloudflare/callback'' then Some (act_ret (Reply not_found))
      else None)"

subsection \<open>The routes of a signed-in user\<close>

text \<open>\<open>/^prefix([0-9a-f-]{36})rest$/\<close>: the identifier and what follows it.\<close>

definition id_after :: "string \<Rightarrow> string \<Rightarrow> (string \<times> string) option" where
  "id_after prefix path =
     (let i = take 36 (drop (length prefix) path) in
      if starts_with prefix path \<and> id36 i then Some (i, drop (length prefix + 36) path) else None)"

definition same_origin :: "site_env \<Rightarrow> request \<Rightarrow> (site, site_reply) act \<Rightarrow> (site, site_reply) act" where
  "same_origin E r m = act_seq (act_lift (requireSameOrigin (cr_base (se_rt E)) r)) m"

definition DEPLOYMENT_ACTIONS :: "string list" where
  "DEPLOYMENT_ACTIONS = [''/bootstrap-token'', ''/subscription-token'', ''/retry'', ''/revoke'', ''/dns-tunnel'', ''/role'', ''/beacon'',
     ''/sleeper-command'']"

definition deployment_action :: "site_env \<Rightarrow> request \<Rightarrow> principal \<Rightarrow> string \<Rightarrow> string \<Rightarrow> (cp_world, response) act" where
  "deployment_action E r p i action =
     (let rtm = se_rt E in
      if action = ''/bootstrap-token'' then rotateBootstrapToken rtm r p i
      else if action = ''/subscription-token'' then rotateSubscriptionToken rtm r p i
      else if action = ''/retry'' then retryDeployment rtm r p i
      else if action = ''/revoke'' then revokeDeployment rtm r p i
      else if action = ''/dns-tunnel'' then enableDnsTunnel rtm p i
      else if action = ''/role'' then role_action rtm r p i
      else if action = ''/beacon'' then beacon_action rtm p i
      else command_action rtm r p i)"

definition deployment_route :: "site_env \<Rightarrow> request \<Rightarrow> principal \<Rightarrow> (site, site_reply) act" where
  "deployment_route E r p =
     (case id_after ''/api/v1/deployments/'' (rq_path r) of
        None \<Rightarrow> act_ret (Reply not_found)
      | Some (i, action) \<Rightarrow>
          if action = [] then only r [''GET''] (reply (on_world (getDeployment (se_rt E) p i)))
          else if action \<in> set DEPLOYMENT_ACTIONS
          then only r [''POST''] (same_origin E r (reply (on_world (deployment_action E r p i action))))
          else act_ret (Reply not_found))"

definition disconnect_id :: "string \<Rightarrow> string option" where
  "disconnect_id path =
     (case id_after ''/api/v1/cloudflare/connections/'' path of Some (i, rest) \<Rightarrow> if rest = ''/disconnect'' then Some i else None | None \<Rightarrow> None)"

definition private_route :: "site_env \<Rightarrow> request \<Rightarrow> principal \<Rightarrow> (site, site_reply) act" where
  "private_route E r p =
     (let path = rq_path r; rtm = se_rt E; cid = query_or r ''connectionId'' []; acct = query_or r ''accountId'' [] in
      if path = ''/app'' then only r [''GET''] (act_ret (App_page p))
      else if path = ''/logout'' then only r [''POST''] (same_origin E r (reply (on_db (cp_logout rtm r p))))
      else if path = ''/api/v1/cloudflare/connections'' then only r [''GET''] (reply (on_world (listCloudflareConnections rtm p)))
      else if path = ''/api/v1/cloudflare/api-token''
        then only r [''POST''] (same_origin E r (reply (on_world (createTemporaryApiTokenConnection rtm r p))))
      else case disconnect_id path of
        Some i \<Rightarrow> only r [''POST''] (same_origin E r (reply (on_world (disconnectCloudflareConnection rtm r p i))))
      | None \<Rightarrow>
          if path = ''/api/v1/cloudflare/accounts''
          then only r [''GET''] (act_seq (act_when (\<not> id36 cid) (http_error 400 ''invalid_connection'')) (reply (on_world (listCloudflareAccounts p cid))))
          else if path = ''/api/v1/cloudflare/zones''
          then only r [''GET''] (act_seq (act_when (\<not> id36 cid \<or> \<not> isValidCloudflareId acct) (http_error 400 ''invalid_cloudflare_resource''))
                 (reply (on_world (listCloudflareZones p cid acct))))
          else if path = ''/api/v1/deployments''
          then only r [''GET'', ''POST''] (if rq_method r = ''GET'' then reply (on_world (listDeployments p))
                 else same_origin E r (reply (on_world (createDeployment rtm r p))))
          else deployment_route E r p)"

definition site_route :: "site_env \<Rightarrow> request \<Rightarrow> (site, site_reply) act" where
  "site_route E r =
     (case public_route E r of
        Some m \<Rightarrow> m
      | None \<Rightarrow> act_bind (on_db (authenticated (se_rt E) r)) (private_route E r))"

definition error_reply :: "exn \<Rightarrow> response" where
  "error_reply e =
     (case e of
        HttpError status code _ _ _ \<Rightarrow> json (JObj [(''error'', JObj [(''code'', JStr code)])]) status []
      | _ \<Rightarrow> json (JObj [(''error'', JObj [(''code'', JStr ''internal_error'')])]) 500 [])"

definition site_fetch :: "site_env \<Rightarrow> request \<Rightarrow> site \<Rightarrow> site_reply \<times> site" where
  "site_fetch E r s = (case site_route E r s of (Inr x, s') \<Rightarrow> (x, s') | (Inl e, s') \<Rightarrow> (Reply (error_reply e), s'))"

subsection \<open>The cron\<close>

text \<open>A stage's exception is logged and swallowed.\<close>

definition stage :: "(site, unit) act \<Rightarrow> site \<Rightarrow> site" where
  "stage m s = snd (m s)"

definition counted :: "('p \<Rightarrow> nat \<times> 'p) \<Rightarrow> ('p, unit) act" where
  "counted purge = act_upd (\<lambda>s. snd (purge s))"

definition telemetry_purges :: "num \<Rightarrow> (site, unit) act" where
  "telemetry_purges now =
     act_seq (on_clean (counted (purgeExpiredCleanIpReports now)))
     (act_seq (on_map (counted (purgeExpiredMapReports now)))
     (act_seq (act_upd (\<lambda>s. s\<lparr>si_drops := snd (purgeExpiredWhiteHoleDrops now (si_drops s))\<rparr>))
     (act_seq (on_donate (counted (purgeExpiredDonations now)))
     (act_seq (on_net (counted (purgeExpiredPoisonReports now)))
     (act_seq (on_net (counted (purgeExpiredMtuReports now)))
     (act_seq (on_net (counted (purgeExpiredEdgeProbes now)))
       (on_net (counted (purgeExpiredRaceReports now)))))))))"

fun resume_live :: "site_env \<Rightarrow> string list \<Rightarrow> scan_db \<Rightarrow> scan_db" where
  "resume_live E [] d = d"
| "resume_live E (i # ks) d = resume_live E ks (snd (advanceLiveScan i (se_resume E i) d))"

definition scheduled_stages :: "site_env \<Rightarrow> (site, unit) act list" where
  "scheduled_stages E =
     (let rtm = se_rt E; now = cr_now rtm in
      [on_world (cdb_upd (\<lambda>d. snd (eraseExpiredApiTokens now d))),
       telemetry_purges now,
       act_upd (\<lambda>s. s\<lparr>si_net := snd (runEdgeProbes now (se_edge E) (cw_db (si_world s)) (si_net s))\<rparr>),
       act_bind (on_net (refreshGeoipIr rtm (se_registry E))) (\<lambda>_. act_ret ()),
       on_scan (act_seq (counted (scanDueRanges rtm (se_probe E))) (counted (purgeOldDnsScans now))),
       on_scan (act_upd (\<lambda>d. resume_live E (stalledLiveScanRangeIds now d) d)),
       on_net (counted (purgeOldRirSnapshots now))])"

definition scheduled :: "site_env \<Rightarrow> site \<Rightarrow> site" where
  "scheduled E s = fold stage (scheduled_stages E) s"

subsection \<open>The tables stay sound\<close>

abbreviation site_sound :: "site \<Rightarrow> bool" where
  "site_sound s \<equiv> sound (si_world s)"

lemma site_keeps [keeps_intros]:
  "keeps sound m \<Longrightarrow> keeps site_sound (on_world m)"
  "keeps site_sound (on_net a)" "keeps site_sound (on_scan b)" "keeps site_sound (on_clean c)" "keeps site_sound (on_map d)"
  by (rule world_part.zoom_keeps net_part.zoom_frame_keeps scan_part.zoom_frame_keeps clean_part.zoom_frame_keeps
      map_part.zoom_frame_keeps, simp)+

lemma keeps_reply [keeps_intros]: "keeps I m \<Longrightarrow> keeps I (reply m)"
  unfolding reply_def by (intro keeps_intros)

lemma keeps_only [keeps_intros]: "keeps I m \<Longrightarrow> keeps I (only r methods m)"
  unfolding only_def by (intro keeps_intros)

lemma keeps_same_origin [keeps_intros]: "keeps I m \<Longrightarrow> keeps I (same_origin E r m)"
  unfolding same_origin_def by (intro keeps_intros)

lemma keeps_limited [keeps_intros]: "keeps site_sound (limited E key n secs)"
  unfolding limited_def by (intro keeps_intros)

lemma keeps_bucket [keeps_intros]: "keeps site_sound (telemetryBucket E r kind n secs)"
  unfolding telemetryBucket_def Let_def by (intro keeps_intros)

lemma keeps_script [keeps_intros]: "keeps sound (cdb_run (serveDnsttScript rtm r))"
  by (rule keeps_run)
    (auto simp: serveDnsttScript_def rateLimit_def Let_def act_bind_def act_seq_def act_when_def act_ret_def intro!: cp_ok_intros split: if_splits)

lemma purge_keeps: "keeps site_sound (on_donate (counted (purgeExpiredDonations now)))"
  by (simp add: keeps_def zoom_eq counted_def act_upd_def put_donate_def get_donate_def purgeExpiredDonations_def Let_def sound_def)

lemma keeps_connect_form [keeps_intros]: "keeps sound (dnsConnectGet rtm r)" "keeps sound (dnsConnectPost rtm title r)"
proof -
  show "keeps sound (dnsConnectGet rtm r)" unfolding dnsConnectGet_def Let_def by (intro keeps_intros)
  have "keeps sound (cdb_run (consumeLoginLink rtm t))" for t
    by (rule keeps_run) (auto simp: consumeLoginLink_def Let_def intro: cp_ok_intros)
  then show "keeps sound (dnsConnectPost rtm title r)"
    unfolding dnsConnectPost_def Let_def by (intro keeps_intros connect_keeps cp_ok_intros)
qed

lemma telemetry_keeps: "telemetry_route E r = Some m \<Longrightarrow> keeps site_sound m"
  unfolding telemetry_route_def Let_def
  by (auto split: if_splits simp: submitCleanIpReport_def cleanIpFeed_def submitMapReport_def mapFeed_def phantomPackFeed_def whiteHoleReader_def
      report_poison_def report_mtu_def report_race_def Let_def intro!: keeps_intros)

lemma public_keeps: "public_route E r = Some m \<Longrightarrow> rq_path r \<noteq> ''/telegram/webhook'' \<Longrightarrow> keeps site_sound m"
  using telemetry_keeps [of E r]
  unfolding public_route_def Let_def
  by (auto split: if_splits simp: connect_route_def login_route_def intro!: keeps_intros agent_keeps login_keeps)

lemma private_keeps:
  assumes "pr_tenant p \<noteq> []"
  shows "keeps site_sound (private_route E r p)"
proof -
  have h: "user_handler rtm p h \<Longrightarrow> keeps sound h" for rtm h using user_keeps assms by (simp add: keeps_def)
  have act: "keeps sound (deployment_action E r p i action)" for i action
    unfolding deployment_action_def Let_def by (intro keeps_if h [where rtm = "se_rt E"] user_handler.intros)
  have dep: "keeps site_sound (deployment_route E r p)"
    unfolding deployment_route_def by (auto split: option.split intro!: keeps_intros act h [OF uh_get])
  show ?thesis
    unfolding private_route_def Let_def
    by (intro keeps_intros dep login_keeps connect_keeps; rule h; rule user_handler.intros)
qed

lemma session_tenant:
  assumes "requireSession rtm r d = (Inr (Some p), d')"
  shows "\<exists>t \<in> set (cp_tenants d). t_id t = pr_tenant p"
  using assms by (auto simp: requireSession_def Let_def find_Some_iff split: option.splits if_splits)

text \<open>What authentication does to the whole state.\<close>

lemma session_step:
  "act_bind (on_db (authenticated rtm r)) k s =
     (case requireSession rtm r (cw_db (si_world s)) of (q, d) \<Rightarrow>
        (case q of Inl e \<Rightarrow> (Inl e, put_db d s)
         | Inr None \<Rightarrow> (Inl (http_error 401 ''authentication_required''), put_db d s)
         | Inr (Some p) \<Rightarrow> k p (put_db d s)))"
  by (auto simp: zoom_def cdb_run_def authenticated_def act_bind_def act_throw_def act_ret_def put_db_def split: prod.splits sum.splits option.splits)

text \<open>
  C6. The entry point keeps the tables sound. Whatever request is sent to any route other than the chat's webhook, and whatever
  the runtime, Cloudflare and the network answer, the deployments, connections, secrets, tokens and reports are as sound
  afterwards as they were before, whether the request is answered or fails; and so they are after a run of the cron.
\<close>

theorem site_keeps_integrity:
  assumes "cp_ok (cw_db (si_world s))" and "rq_path r \<noteq> ''/telegram/webhook''" and "\<forall>t \<in> set (cp_tenants (cw_db (si_world s))). t_id t \<noteq> []"
  shows "cp_ok (cw_db (si_world (snd (site_fetch E r s)))) \<and> cp_ok (cw_db (si_world (scheduled E s)))"
proof
  have s: "site_sound s" using assms(1) by (simp add: sound_def)
  have "site_sound (snd (site_route E r s))"
  proof (cases "public_route E r")
    case (Some m)
    then show ?thesis using public_keeps [OF Some assms(2)] s by (simp add: site_route_def keeps_def)
  next
    case None
    let ?rtm = "se_rt E" and ?d = "cw_db (si_world s)"
    obtain q d' where q: "requireSession ?rtm r ?d = (q, d')" by (metis surj_pair)
    let ?s = "put_db d' s"
    have d': "site_sound ?s" using q s login_keeps(3) [of ?rtm r]
      by (auto simp: keeps_def cdb_run_def sound_def put_db_def split: prod.splits)
    show ?thesis
    proof (cases "\<exists>p. q = Inr (Some p)")
      case True
      then obtain p where p: "q = Inr (Some p)" by blast
      then have "pr_tenant p \<noteq> []" using session_tenant [of ?rtm r ?d p d'] q assms(3) by auto
      from private_keeps [OF this, of E r] d' show ?thesis
        by (simp add: site_route_def None session_step q p keeps_def)
    next
      case False
      then show ?thesis using d' by (cases q) (auto simp: site_route_def None session_step q split: option.splits)
    qed
  qed
  then show "cp_ok (cw_db (si_world (snd (site_fetch E r s))))"
    by (auto simp: site_fetch_def sound_def split: prod.splits sum.splits)
  have stages: "keeps site_sound m" if "m \<in> set (scheduled_stages E)" for m
    using that unfolding scheduled_stages_def Let_def
    by (auto simp: telemetry_purges_def intro!: keeps_intros cp_ok_intros purge_keeps) (simp_all add: keeps_def act_upd_def)
  have "site_sound (fold stage ms v)" if "site_sound v" "set ms \<subseteq> set (scheduled_stages E)" for ms v
    using that by (induction ms arbitrary: v) (use stages in \<open>auto simp: stage_def keeps_def\<close>)
  then show "cp_ok (cw_db (si_world (scheduled E s)))" using s by (simp add: scheduled_def sound_def)
qed

text \<open>An empty site and an environment in which nothing answers.\<close>

definition site_start :: site where
  "site_start = \<lparr>si_world = cp_start, si_net = demo_net, si_scan = \<lparr>sd_ranges = [], sd_results = []\<rparr>, si_clean = [], si_map = [], si_drops = [],
     si_donations = [], si_secrets = [], si_updates = [], si_wizards = [], si_flows = []\<rparr>"

definition silent_env :: site_env where
  "silent_env = \<lparr>se_rt = demo_cr, se_render = (\<lambda>_ _. []), se_text = \<lparr>nt_isps = [], nt_other_isp = [], nt_unknown_city = []\<rparr>, se_title = [],
     se_secret = ''hook'', se_ticks = [], se_resume = (\<lambda>_. []), se_label = status_label, se_dns_script = [], se_reader = (\<lambda>_. []),
     se_probe = \<lparr>pb_connect = (\<lambda>_ _. Inl (JsError ''refused'')), pb_elapsed = (\<lambda>_. 1)\<rparr>, se_edge = (\<lambda>_. None), se_registry = None,
     se_bot = (\<lambda>_. act_ret (ok_json []))\<rparr>"

definition demo_app :: request where
  "demo_app = \<lparr>rq_method = ''POST'', rq_hostname = ''v13.io'', rq_path = ''/logout'', rq_query = [], rq_headers = [], rq_body = []\<rparr>"

theorem site_keeps_integrity_witness:
  "cp_ok (cw_db (si_world (snd (site_fetch silent_env demo_app site_start)))) \<and> cp_ok (cw_db (si_world (scheduled silent_env site_start)))"
  by (rule site_keeps_integrity)
    (simp_all add: site_start_def cp_start_def empty_cp_def cp_ok_def deps_ok_def conns_ok_def bound_ok_def children_ok_def demo_app_def)

subsection \<open>What a private request may change\<close>

lemma keeps_same [keeps_intros]: "keeps (\<lambda>w. w = si_world s) m \<Longrightarrow> keeps (\<lambda>x. x = s) (on_world m)"
  by (simp add: keeps_def zoom_eq)

lemma keeps_blocked [keeps_intros]:
  assumes "\<not> (rq_method r = ''POST'' \<and> requireSameOrigin (cr_base (se_rt E)) r = Inr ())"
  shows "keeps I (only r [''POST''] (same_origin E r m))" "keeps I (if rq_method r = ''GET'' then h else n) \<Longrightarrow>
    keeps I (only r [''GET'', ''POST''] (if rq_method r = ''GET'' then h else same_origin E r m))"
  using assms by (auto simp: only_def same_origin_def keeps_def act_ret_def act_seq_def act_bind_def act_lift_def split: sum.splits if_splits)

lemma reads_keep [keeps_intros]:
  "keeps I (listCloudflareConnections rtm p)" "keeps I (listDeployments p)" "keeps I (getDeployment rtm p i)"
  "keeps I (listCloudflareAccounts p cid)" "keeps I (listCloudflareZones p cid acct)"
  unfolding listCloudflareConnections_def listDeployments_def getDeployment_def listCloudflareAccounts_def listCloudflareZones_def
  by (auto split: prod.split intro!: keeps_intros)

lemma private_quiet:
  assumes "\<not> (rq_method r = ''POST'' \<and> requireSameOrigin (cr_base (se_rt E)) r = Inr ())"
  shows "keeps (\<lambda>x. x = s) (private_route E r p)"
proof -
  have dep: "keeps (\<lambda>x. x = s) (deployment_route E r p)"
    unfolding deployment_route_def by (auto split: option.split intro!: keeps_intros keeps_blocked(1) [OF assms])
  have both: "keeps (\<lambda>x. x = s) (only r [''GET'', ''POST''] (if rq_method r = ''GET'' then reply (on_world (listDeployments p))
      else same_origin E r m))" for m
    by (rule keeps_blocked(2) [OF assms, where n = "act_ret undefined"]) (intro keeps_intros)
  show ?thesis
    unfolding private_route_def Let_def
    by (intro dep both keeps_if keeps_case_option keeps_blocked(1) [OF assms] keeps_only keeps_reply keeps_same reads_keep keeps_seq keeps_when keeps_ret)
qed

definition unseen :: "cp_session \<Rightarrow> cp_session" where
  "unseen z = z\<lparr>z_seen := 0\<rparr>"

lemma session_touches:
  "requireSession rtm r d = (q, d') \<Longrightarrow> d' = d\<lparr>cp_sessions := cp_sessions d'\<rparr> \<and> map unseen (cp_sessions d') = map unseen (cp_sessions d)"
  "requireSession rtm r d = (q, d') \<Longrightarrow> (\<And>p. q \<noteq> Inr (Some p)) \<Longrightarrow> d' = d"
  by (auto simp: requireSession_def Let_def unseen_def split: option.splits if_splits)

text \<open>
  C4. Private routes are guarded. A request to any route behind the session check that is not a POST from the panel's own origin
  under a live session changes nothing but the time that the session was last seen; without a live session it changes nothing
  at all and is answered with an error.
\<close>

theorem private_requests_guarded:
  assumes "public_route E r = None"
    and "rq_method r = ''POST'' \<and> requireSameOrigin (cr_base (se_rt E)) r = Inr () \<Longrightarrow>
      \<forall>p. fst (requireSession (se_rt E) r (cw_db (si_world s))) \<noteq> Inr (Some p)"
  shows "(\<exists>zs. snd (site_fetch E r s) = put_db ((cw_db (si_world s))\<lparr>cp_sessions := zs\<rparr>) s \<and>
      map unseen zs = map unseen (cp_sessions (cw_db (si_world s)))) \<and>
    ((\<forall>p. fst (requireSession (se_rt E) r (cw_db (si_world s))) \<noteq> Inr (Some p)) \<longrightarrow>
      snd (site_fetch E r s) = s \<and> (\<exists>e. fst (site_fetch E r s) = Reply (error_reply e)))"
proof -
  let ?d = "cw_db (si_world s)"
  obtain q d' where q: "requireSession (se_rt E) r ?d = (q, d')" by (metis surj_pair)
  note t = session_touches [OF q]
  have run: "site_route E r s = (case q of Inl e \<Rightarrow> (Inl e, put_db d' s)
       | Inr None \<Rightarrow> (Inl (http_error 401 ''authentication_required''), put_db d' s) | Inr (Some p) \<Rightarrow> private_route E r p (put_db d' s))"
    by (simp add: site_route_def assms(1) session_step q)
  show ?thesis
  proof (cases "\<exists>p. q = Inr (Some p)")
    case True
    then obtain p where p: "q = Inr (Some p)" by blast
    then have "keeps (\<lambda>x. x = put_db d' s) (private_route E r p)" using assms(2) q by (intro private_quiet) auto
    then have "snd (site_fetch E r s) = put_db d' s"
      by (auto simp: site_fetch_def run p keeps_def split: prod.splits sum.splits)
    then show ?thesis using t(1) p q by (auto intro!: exI [of _ "cp_sessions d'"])
  next
    case False
    then have "d' = ?d" using t(2) by blast
    then have "put_db d' s = s" by (simp add: put_db_def)
    moreover have "\<exists>e. site_route E r s = (Inl e, put_db d' s)" using False by (cases q) (auto simp: run split: option.splits)
    ultimately have "snd (site_fetch E r s) = s" "\<exists>e. fst (site_fetch E r s) = Reply (error_reply e)"
      by (auto simp: site_fetch_def)
    then show ?thesis by (auto simp: put_db_def intro!: exI [of _ "cp_sessions ?d"])
  qed
qed

theorem private_requests_guarded_witness:
  "snd (site_fetch silent_env demo_app site_start) = site_start \<and> (\<exists>e. fst (site_fetch silent_env demo_app site_start) = Reply (error_reply e))"
proof -
  have q: "fst (requireSession (se_rt silent_env) demo_app (cw_db (si_world site_start))) \<noteq> Inr (Some p)" for p
    by (simp add: requireSession_def demo_app_def header_of_def session_value_def)
  have r: "public_route silent_env demo_app = None" by (simp add: public_route_def telemetry_route_def demo_app_def Let_def)
  show ?thesis using private_requests_guarded [OF r, of site_start] q by blast
qed

subsection \<open>Updates of the chat\<close>

lemma webhook_forged:
  assumes "\<not> constantTimeEqual (cr_P (se_rt E)) (case header_of r ''x-telegram-bot-api-secret-token'' of None \<Rightarrow> [] | Some v \<Rightarrow> v) (se_secret E)"
  shows "fst (handleTelegramWebhook E r s) = Inl (http_error 401 ''invalid_webhook_secret'')"
    and "snd (handleTelegramWebhook E r s) = put_db (cp_audit (se_rt E) None ''telegram'' None ''webhook.authenticate'' None ''denied'' (Some r) JUndef
      (cw_db (si_world s))) s"
  using assms by (simp_all add: handleTelegramWebhook_def Let_def act_seq_def act_bind_def act_throw_def zoom_eq cdb_upd_eq put_db_def)

lemma webhook_repeated:
  assumes "cp_readJson r 64000 = Inr u" and "safe_integer (fld u ''update_id'') = Some i" and "i \<in> fst ` set (si_updates s)"
    and "se_secret E \<noteq> []"
    and "constantTimeEqual (cr_P (se_rt E)) (case header_of r ''x-telegram-bot-api-secret-token'' of None \<Rightarrow> [] | Some v \<Rightarrow> v) (se_secret E)"
  shows "handleTelegramWebhook E r s = (Inr (ok_json []), s)"
proof -
  have "need_obj u = Inr u" using assms(2) by (cases u) (simp_all add: need_obj_def nullish_def safe_integer_def)
  with assms show ?thesis by (simp add: handleTelegramWebhook_def Let_def act_bind_def act_lift_def act_get_def act_ret_def)
qed

subsection \<open>The cron\<close>

lemma refresh_frame:
  "keeps (\<lambda>d. nd_poison d = a \<and> nd_mtu d = b \<and> nd_race d = c \<and> nd_edge d = e) (refreshGeoipIr rtm f)"
  unfolding refreshGeoipIr_def Let_def case_prod_beta
  by (intro keeps_intros) (simp add: keeps_def replace_ranges_def)

lemma probes_frame:
  "nd_poison (snd (runEdgeProbes now f c d)) = nd_poison d" "nd_mtu (snd (runEdgeProbes now f c d)) = nd_mtu d"
  "nd_race (snd (runEdgeProbes now f c d)) = nd_race d" "nd_snaps (snd (runEdgeProbes now f c d)) = nd_snaps d"
  "list_all (\<lambda>x. now < eg_expires x) (nd_edge d) \<Longrightarrow> list_all (\<lambda>x. now < eg_expires x) (nd_edge (snd (runEdgeProbes now f c d)))"
proof -
  let ?go = "\<lambda>xs. fold (\<lambda>x. recordEdgeProbe now (d_id x) (probeDeploymentEdge f (d_worker_hostname x))) xs"
  have "nd_poison (?go xs d) = nd_poison d \<and> nd_mtu (?go xs d) = nd_mtu d \<and> nd_race (?go xs d) = nd_race d \<and> nd_snaps (?go xs d) = nd_snaps d \<and>
      (list_all (\<lambda>x. now < eg_expires x) (nd_edge d) \<longrightarrow> list_all (\<lambda>x. now < eg_expires x) (nd_edge (?go xs d)))" for xs
    by (induction xs arbitrary: d) (auto simp: recordEdgeProbe_def split: prod.splits)
  then show "nd_poison (snd (runEdgeProbes now f c d)) = nd_poison d" "nd_mtu (snd (runEdgeProbes now f c d)) = nd_mtu d"
    "nd_race (snd (runEdgeProbes now f c d)) = nd_race d" "nd_snaps (snd (runEdgeProbes now f c d)) = nd_snaps d"
    "list_all (\<lambda>x. now < eg_expires x) (nd_edge d) \<Longrightarrow> list_all (\<lambda>x. now < eg_expires x) (nd_edge (snd (runEdgeProbes now f c d)))"
    by (auto simp: runEdgeProbes_def)
qed

text \<open>The purges one after the other.\<close>

lemma purges_eq:
  "snd (telemetry_purges now s) =
     (let d = purgeExpiredDonations now (get_donate s) in
      (put_donate (snd d) s)\<lparr>si_clean := filter (\<lambda>x. \<not> ci_expires x \<le> now) (si_clean s), si_map := filter (\<lambda>x. \<not> mr_expires x \<le> now) (si_map s),
        si_drops := filter (\<lambda>x. \<not> dr_expires x \<le> now) (si_drops s),
        si_net := (si_net s)\<lparr>nd_poison := filter (\<lambda>x. \<not> po_expires x \<le> now) (nd_poison (si_net s)),
           nd_mtu := filter (\<lambda>x. \<not> mt_expires x \<le> now) (nd_mtu (si_net s)), nd_edge := filter (\<lambda>x. \<not> eg_expires x \<le> now) (nd_edge (si_net s)),
           nd_race := filter (\<lambda>x. \<not> rr_expires x \<le> now) (nd_race (si_net s))\<rparr>\<rparr>)"
  by (simp add: telemetry_purges_def zoom_eq counted_def act_seq_def act_bind_def act_upd_def put_donate_def get_donate_def Let_def
      purgeExpiredCleanIpReports_def purgeExpiredMapReports_def purgeExpiredWhiteHoleDrops_def purgeExpiredPoisonReports_def
      purgeExpiredMtuReports_def purgeExpiredEdgeProbes_def purgeExpiredRaceReports_def)

lemma stage_parts:
  "stage (on_scan m) v = v\<lparr>si_scan := snd (m (si_scan v))\<rparr>" "stage (on_net n) v = v\<lparr>si_net := snd (n (si_net v))\<rparr>"
  "stage (act_bind (on_net k) (\<lambda>_. act_ret ())) v = v\<lparr>si_net := snd (k (si_net v))\<rparr>" "stage (act_upd f) v = f v"
  by (auto simp: stage_def zoom_eq act_bind_def act_ret_def act_upd_def split: sum.split)

definition token_due :: "num \<Rightarrow> connection \<Rightarrow> bool" where
  "token_due now c \<longleftrightarrow> c_auth_type c = ''api_token'' \<and> c_revoked c = None \<and> (case c_expires c of None \<Rightarrow> False | Some t \<Rightarrow> t \<le> now)"

text \<open>
  C40. The cron forgets. After a run, whatever Cloudflare, the probes and the registry answered, the tables of clean-address,
  map, poisoning, MTU and race reports and of dead-drops hold exactly the rows that had not expired; no edge probe, no donated key
  that has expired or was rejected, no API token past its time and no range snapshot older than two weeks is left.
\<close>

theorem cron_forgets:
  "si_clean (scheduled E s) = filter (\<lambda>x. cr_now (se_rt E) < ci_expires x) (si_clean s) \<and>
   si_map (scheduled E s) = filter (\<lambda>x. cr_now (se_rt E) < mr_expires x) (si_map s) \<and>
   si_drops (scheduled E s) = filter (\<lambda>x. cr_now (se_rt E) < dr_expires x) (si_drops s) \<and>
   nd_poison (si_net (scheduled E s)) = filter (\<lambda>x. cr_now (se_rt E) < po_expires x) (nd_poison (si_net s)) \<and>
   nd_mtu (si_net (scheduled E s)) = filter (\<lambda>x. cr_now (se_rt E) < mt_expires x) (nd_mtu (si_net s)) \<and>
   nd_race (si_net (scheduled E s)) = filter (\<lambda>x. cr_now (se_rt E) < rr_expires x) (nd_race (si_net s)) \<and>
   list_all (\<lambda>x. cr_now (se_rt E) < eg_expires x) (nd_edge (si_net (scheduled E s))) \<and>
   list_all (\<lambda>x. \<not> donation_due (cr_now (se_rt E)) x) (si_donations (scheduled E s)) \<and>
   list_all (\<lambda>c. \<not> token_due (cr_now (se_rt E)) c) (cp_conns (cw_db (si_world (scheduled E s)))) \<and>
   list_all (\<lambda>x. day_of (cr_now (se_rt E) - 14 * 86400000) \<le> rs_day x) (nd_snaps (si_net (scheduled E s)))"
proof -
  let ?rtm = "se_rt E"
  let ?now = "cr_now ?rtm"
  define s1 where "s1 = stage (on_world (cdb_upd (\<lambda>d. snd (eraseExpiredApiTokens ?now d)))) s"
  define s2 where "s2 = stage (telemetry_purges ?now) s1"
  define n3 where "n3 = snd (runEdgeProbes ?now (se_edge E) (cw_db (si_world s2)) (si_net s2))"
  define n4 where "n4 = snd (refreshGeoipIr ?rtm (se_registry E) n3)"
  have e1: "si_clean s1 = si_clean s" "si_map s1 = si_map s" "si_drops s1 = si_drops s" "si_net s1 = si_net s"
    "list_all (\<lambda>c. \<not> token_due ?now c) (cp_conns (cw_db (si_world s1)))"
    by (auto simp: s1_def stage_def zoom_eq cdb_upd_eq eraseExpiredApiTokens_def Let_def token_due_def scrub_row_def list_all_iff)
  have e2: "cp_conns (cw_db (si_world s2)) = cp_conns (cw_db (si_world s1))" "list_all (\<lambda>x. \<not> donation_due ?now x) (si_donations s2)"
    "list_all (\<lambda>x. ?now < eg_expires x) (nd_edge (si_net s2))"
    by (auto simp: s2_def stage_def purges_eq Let_def put_donate_def get_donate_def purgeExpiredDonations_def list_all_iff)
  have e3: "list_all (\<lambda>x. ?now < eg_expires x) (nd_edge n3)" unfolding n3_def by (rule probes_frame(5) [OF e2(3)])
  have e4: "nd_poison n4 = nd_poison n3 \<and> nd_mtu n4 = nd_mtu n3 \<and> nd_race n4 = nd_race n3 \<and> nd_edge n4 = nd_edge n3"
    using refresh_frame [of "nd_poison n3" "nd_mtu n3" "nd_race n3" "nd_edge n3" ?rtm "se_registry E"] by (simp add: keeps_def n4_def)
  have out: "\<exists>sc. scheduled E s = s2\<lparr>si_scan := sc, si_net := snd (purgeOldRirSnapshots ?now n4)\<rparr>"
    by (simp add: scheduled_def scheduled_stages_def Let_def stage_parts s1_def [symmetric] s2_def [symmetric])
      (simp add: counted_def act_upd_def n3_def n4_def, rule exI, rule refl)
  then obtain sc where "scheduled E s = s2\<lparr>si_scan := sc, si_net := snd (purgeOldRirSnapshots ?now n4)\<rparr>" by blast
  then show ?thesis
    using e1 e2 e3 e4 probes_frame [where now = ?now and f = "se_edge E" and c = "cw_db (si_world s2)" and d = "si_net s2", folded n3_def]
    by (simp add: purgeOldRirSnapshots_def Let_def) (simp add: s2_def stage_def purges_eq Let_def not_le list_all_iff put_donate_def)
qed

end
