(* ===== verification/Cp_Omni.thy ===== *)
theory Cp_Omni
  imports Cp_Panel_Deploy
begin

text \<open>
  Panel nodes on the tenant's own account: provisioning (\<^verbatim>\<open>src/omni-engine.ts\<close>) and what the chat does with a node over its
  agent channel (\<^verbatim>\<open>src/omni-flows.ts\<close>). The channel is an action on the state \<open>'n\<close> of whatever runs at the other end, so that
  the panel itself can stand there. The bundle that is uploaded and the random values are parameters.
\<close>

subsection \<open>State\<close>

record omni_row =
  on_id :: string
  on_tenant :: string
  on_connection :: string
  on_account :: string
  on_worker :: string
  on_d1 :: string
  on_base :: string
  on_key_enc :: string
  on_created :: num

record 'n omni_world =
  ow_panel :: panel_world
  ow_nodes :: "omni_row list"
  ow_net :: 'n

type_synonym 'n channel = "string \<Rightarrow> request \<Rightarrow> ('n, response) act"

record 'n omni_env =
  oe_rt :: cp_runtime
  oe_uuid :: string
  oe_agent_key :: "byte list"
  oe_signing :: "byte list"
  oe_id :: "byte list"
  oe_source :: string
  oe_call :: "'n channel"

definition on_panel :: "(panel_world, 'a) act \<Rightarrow> ('n omni_world, 'a) act" where
  "on_panel m w = (case m (ow_panel w) of (r, x) \<Rightarrow> (r, w\<lparr>ow_panel := x\<rparr>))"

definition on_node :: "('n, 'a) act \<Rightarrow> ('n omni_world, 'a) act" where
  "on_node m w = (case m (ow_net w) of (r, x) \<Rightarrow> (r, w\<lparr>ow_net := x\<rparr>))"

subsection \<open>omni-engine.ts\<close>

definition OMNI_DEFAULT_CRON :: string where
  "OMNI_DEFAULT_CRON = ''*/10 * * * *''"

record omni_plan =
  op_account :: string
  op_worker :: string
  op_d1 :: string
  op_agent_key :: string
  op_signing :: string

definition node_vars :: "(string \<times> string) list" where
  "node_vars =
     [(''PANEL_NAME'', ''Omni''), (''DEFAULT_QUOTA_GB'', ''50''), (''DEFAULT_EXPIRY_DAYS'', ''30''), (''SUB_PATH_PREFIX'', ''s''),
      (''FRAGMENT_PRESET'', ''mci''), (''LOG_LEVEL'', ''info''), (''DEBUG_ERRORS'', ''0'')]"

definition node_bindings :: "omni_plan \<Rightarrow> string \<Rightarrow> panel_binding list" where
  "node_bindings plan d1Id =
     [\<lparr>bn_type = ''d1'', bn_name = ''DB'', bn_value = d1Id\<rparr>,
      \<lparr>bn_type = ''durable_object_namespace'', bn_name = ''LEDGER'', bn_value = ''Ledger''\<rparr>,
      \<lparr>bn_type = ''durable_object_namespace'', bn_name = ''GUARD'', bn_value = ''Guard''\<rparr>,
      \<lparr>bn_type = ''secret_text'', bn_name = ''AGENT_KEY'', bn_value = op_agent_key plan\<rparr>] @
     (if op_signing plan \<noteq> [] then [\<lparr>bn_type = ''secret_text'', bn_name = ''SECRET'', bn_value = op_signing plan\<rparr>] else []) @
     map (case_prod bind_text) node_vars"

definition node_binding_json :: "panel_binding \<Rightarrow> jval" where
  "node_binding_json b =
     (if bn_type b = ''durable_object_namespace''
      then JObj [(''type'', JStr (bn_type b)), (''name'', JStr (bn_name b)), (''class_name'', JStr (bn_value b))]
      else binding_json b)"

definition omniUploadMetadata :: "omni_plan \<Rightarrow> string \<Rightarrow> jval" where
  "omniUploadMetadata plan d1Id = JObj
     [(''main_module'', JStr ''omni.mjs''), (''compatibility_date'', JStr ''2026-05-01''), (''compatibility_flags'', JArr []),
      (''bindings'', JArr (map node_binding_json (node_bindings plan d1Id))),
      (''migrations'', JArr [JObj [(''tag'', JStr ''v1''), (''new_sqlite_classes'', JArr [JStr ''Ledger'', JStr ''Guard''])]]),
      (''triggers'', JObj [(''crons'', JArr [JStr OMNI_DEFAULT_CRON])])]"

definition omni_api :: "'n omni_env \<Rightarrow> string \<Rightarrow> string \<Rightarrow> string \<Rightarrow> string \<Rightarrow> jval res" where
  "omni_api E token meth path body = cloudflareApi (oe_rt E) token meth path body"

definition id_or_uuid :: "jval \<Rightarrow> jval" where
  "id_or_uuid v = js_coalesce (fld v ''uuid'') (fld v ''id'')"

definition need_id :: "jval \<Rightarrow> string res" where
  "need_id v = (if truthy v then Inr (to_str v) else Inl (JsError ''no id''))"

definition findOrCreateD1 :: "'n omni_env \<Rightarrow> string \<Rightarrow> string \<Rightarrow> string \<Rightarrow> (string \<times> bool) res" where
  "findOrCreateD1 E token accountId name =
     (let path = ''/accounts/'' @ accountId @ ''/d1/database'' in
      res_bind (omni_api E token ''GET'' (path @ ''?name='' @ encodeURIComponent name) []) (\<lambda>existing.
        case find (\<lambda>d. fld d ''name'' = JStr name) (elements existing) of
          Some hit \<Rightarrow> res_bind (need_id (id_or_uuid hit)) (\<lambda>i. Inr (i, False))
        | None \<Rightarrow>
            res_bind (omni_api E token ''POST'' path (json_stringify (JObj [(''name'', JStr name)]))) (\<lambda>made.
              res_bind (need_id (id_or_uuid made)) (\<lambda>i. Inr (i, True)))))"

definition uploadKavehWorker :: "'n omni_env \<Rightarrow> string \<Rightarrow> omni_plan \<Rightarrow> string \<Rightarrow> (panel_world, unit) act" where
  "uploadKavehWorker E token plan d1Id =
     act_bind (act_lift (omni_api E token ''PUT'' (''/accounts/'' @ op_account plan @ ''/workers/scripts/'' @ encodeURIComponent (op_worker plan))
         (json_stringify (omniUploadMetadata plan d1Id) @ oe_source E))) (\<lambda>_.
       act_upd (\<lambda>w. w\<lparr>pw_scripts := upsert (op_account plan, op_worker plan)
           \<lparr>pt_source = oe_source E, pt_bindings = node_bindings plan d1Id\<rparr> (pw_scripts w),
          pw_world := (pw_world w)\<lparr>cw_scripts := adel (op_account plan, op_worker plan) (cw_scripts (pw_world w))\<rparr>\<rparr>))"

definition enableWorkersDev :: "'n omni_env \<Rightarrow> string \<Rightarrow> string \<Rightarrow> string \<Rightarrow> string option" where
  "enableWorkersDev E token accountId workerName =
     attempt (res_bind (omni_api E token ''POST'' (''/accounts/'' @ accountId @ ''/workers/scripts/'' @ encodeURIComponent workerName @ ''/subdomain'')
         (json_stringify (JObj [(''enabled'', JBool True)]))) (\<lambda>_.
       res_bind (omni_api E token ''GET'' (''/accounts/'' @ accountId @ ''/workers/subdomain'') []) (\<lambda>found.
       res_bind (need_obj found) (\<lambda>sub.
         Inr (''https://'' @ workerName @ ''.'' @ to_str (fld sub ''subdomain'') @ ''.workers.dev'')))))"

definition provisionOmniNode :: "'n omni_env \<Rightarrow> string \<Rightarrow> omni_plan \<Rightarrow> (panel_world, string \<times> string option) act" where
  "provisionOmniNode E token plan =
     act_bind (act_lift (findOrCreateD1 E token (op_account plan) (op_d1 plan))) (\<lambda>(d1Id, created).
     act_seq (uploadKavehWorker E token plan d1Id)
       (act_ret (d1Id, enableWorkersDev E token (op_account plan) (op_worker plan))))"

text \<open>Both deletions swallow their failure; the script is gone only when Cloudflare says so.\<close>

definition deleteOmniNode :: "'n omni_env \<Rightarrow> string \<Rightarrow> string \<Rightarrow> string \<Rightarrow> string \<Rightarrow> (panel_world, unit) act" where
  "deleteOmniNode E token accountId workerName d1Id =
     (case attempt (omni_api E token ''DELETE'' (''/accounts/'' @ accountId @ ''/workers/scripts/'' @ encodeURIComponent workerName) []) of
        None \<Rightarrow> act_ret ()
      | Some _ \<Rightarrow> act_upd (\<lambda>w. w\<lparr>pw_scripts := adel (accountId, workerName) (pw_scripts w),
          pw_world := (pw_world w)\<lparr>cw_scripts := adel (accountId, workerName) (cw_scripts (pw_world w))\<rparr>\<rparr>))"

definition drop_slash :: "string \<Rightarrow> string" where
  "drop_slash s = (if s \<noteq> [] \<and> last s = CHR ''/'' then butlast s else s)"

definition agent_request :: "string \<Rightarrow> string \<Rightarrow> string \<Rightarrow> string \<Rightarrow> jval option \<Rightarrow> request" where
  "agent_request baseUrl agentKey meth path body =
     \<lparr>rq_method = meth, rq_hostname = drop 8 (drop_slash baseUrl), rq_path = path, rq_query = [],
      rq_headers = [(''x-omni-agent'', agentKey), (''x-kaveh-agent'', agentKey), (''accept'', ''application/json'')] @
        (if body = None then [] else [(''content-type'', ''application/json'')]),
      rq_body = (case body of None \<Rightarrow> [] | Some b \<Rightarrow> json_stringify b)\<rparr>"

text \<open>\<open>response.json()\<close>.\<close>

fun body_json :: "resp_body \<Rightarrow> jval res" where
  "body_json (Json v) = Inr v"
| "body_json (Text s) = (case json_parse s of None \<Rightarrow> Inl (JsError ''SyntaxError'') | Some v \<Rightarrow> Inr v)"
| "body_json Empty = Inl (JsError ''SyntaxError'')"

definition agent_ok :: "response \<Rightarrow> bool" where
  "agent_ok res \<longleftrightarrow> 200 \<le> rs_status res \<and> rs_status res < 300"

definition omniAgent :: "'n channel \<Rightarrow> string \<Rightarrow> string \<Rightarrow> string \<Rightarrow> string \<Rightarrow> jval option \<Rightarrow> ('n, jval) act" where
  "omniAgent call baseUrl agentKey meth path body =
     act_bind (call (drop_slash baseUrl) (agent_request baseUrl agentKey meth path body)) (\<lambda>res.
     act_bind (act_lift (body_json (rs_body res))) (\<lambda>j.
     act_bind (act_lift (need_obj j)) (\<lambda>v.
       if \<not> agent_ok res \<or> fld v ''ok'' = JBool False then act_throw (JsError ''agent refused'') else act_ret v)))"

subsection \<open>omni-flows.ts\<close>

definition listOmniNodes :: "principal \<Rightarrow> 'n omni_world \<Rightarrow> omni_row list" where
  "listOmniNodes p w = sort_by (\<lambda>a b. on_created b \<le> on_created a) (filter (\<lambda>x. on_tenant x = pr_tenant p) (ow_nodes w))"

text \<open>The node of that id among the tenant's own.\<close>

definition own_node :: "principal \<Rightarrow> string \<Rightarrow> ('n omni_world, omni_row) act" where
  "own_node p nodeId =
     act_bind (act_get (\<lambda>w. find (\<lambda>x. on_id x = nodeId) (listOmniNodes p w))) (\<lambda>row.
       case row of None \<Rightarrow> act_throw (JsError ''node not found'') | Some x \<Rightarrow> act_ret x)"

definition sealed_key :: "cp_runtime \<Rightarrow> string \<Rightarrow> string \<Rightarrow> string res" where
  "sealed_key rtm aad enc = res_bind (decryptJson (cr_P rtm) enc (cr_key rtm) aad) (\<lambda>v. res_bind (need_obj v) (\<lambda>k. Inr (to_str (fld k ''key''))))"

definition agentKeyOf :: "cp_runtime \<Rightarrow> omni_row \<Rightarrow> string res" where
  "agentKeyOf rtm x =
     (case sealed_key rtm (''omni:'' @ on_id x) (on_key_enc x) of
        Inr k \<Rightarrow> Inr k | Inl _ \<Rightarrow> sealed_key rtm (''kaveh:'' @ on_id x) (on_key_enc x))"

definition omni_audit :: "'n omni_env \<Rightarrow> principal \<Rightarrow> string \<Rightarrow> jval \<Rightarrow> ('n omni_world, unit) act" where
  "omni_audit E p action metadata =
     on_panel (pw_run (cdb_upd (cp_audit (oe_rt E) (Some (pr_tenant p)) ''telegram'' (Some (pr_telegram p)) action None ''success'' None metadata)))"

definition generateOmniWorkerSuffix :: "string \<Rightarrow> string" where
  "generateOmniWorkerSuffix uuid = take 6 (filter (\<lambda>c. c \<noteq> CHR ''-'') uuid)"

definition generateOmniWorkerName :: "string \<Rightarrow> string" where
  "generateOmniWorkerName uuid = ''omni-'' @ generateOmniWorkerSuffix uuid"

definition insert_node :: "omni_row \<Rightarrow> ('n omni_world, unit) act" where
  "insert_node x w =
     (if list_ex (\<lambda>y. on_id y = on_id x) (ow_nodes w) then (Inl (JsError ''UNIQUE constraint failed''), w)
      else (Inr (), w\<lparr>ow_nodes := ow_nodes w @ [x]\<rparr>))"

record omni_vip =
  vp_sub :: string
  vp_uri :: string

definition vip_of :: "string \<Rightarrow> jval \<Rightarrow> omni_vip res" where
  "vip_of baseUrl created =
     res_bind (need_obj (fld created ''user'')) (\<lambda>user.
     res_bind (need_obj (fld created ''configs'')) (\<lambda>configs.
     res_bind (need_obj (fld configs ''uris'')) (\<lambda>uris.
       Inr \<lparr>vp_sub = baseUrl @ ''/s/'' @ to_str (fld user ''sub_token''),
            vp_uri = (case elements uris of [] \<Rightarrow> [] | u # _ \<Rightarrow> (if truthy u then to_str u else []))\<rparr>)))"

definition vip_input :: jval where
  "vip_input = JObj [(''username'', JStr ''vip''), (''quota_gb'', JInt 100), (''expiry_days'', JInt 365), (''device_limit'', JInt 5)]"

text \<open>Five attempts, with a pause after each failure.\<close>

fun seed_vip :: "nat \<Rightarrow> 'n channel \<Rightarrow> string \<Rightarrow> string \<Rightarrow> ('n, omni_vip option) act" where
  "seed_vip 0 call baseUrl agentKey = act_ret None"
| "seed_vip (Suc todo) call baseUrl agentKey =
     act_catch
       (act_bind (omniAgent call baseUrl agentKey ''POST'' ''/api/agent/users'' (Some vip_input)) (\<lambda>created.
        act_bind (act_lift (vip_of baseUrl created)) (\<lambda>v. act_ret (Some v))))
       (\<lambda>_. seed_vip todo call baseUrl agentKey)"

definition omni_plan_of :: "'n omni_env \<Rightarrow> string \<Rightarrow> omni_plan" where
  "omni_plan_of E accountId =
     \<lparr>op_account = accountId, op_worker = generateOmniWorkerName (oe_uuid E), op_d1 = ''omni-'' @ generateOmniWorkerSuffix (oe_uuid E),
      op_agent_key = randomToken (oe_agent_key E), op_signing = randomToken (oe_signing E)\<rparr>"

definition createOmniNode :: "'n omni_env \<Rightarrow> principal \<Rightarrow> string \<Rightarrow> ('n omni_world, omni_row \<times> omni_vip option) act" where
  "createOmniNode E p connectionId =
     act_bind (on_panel (pw_run (cdb_res (getConnection connectionId (Some (pr_tenant p)))))) (\<lambda>conn.
     act_bind (act_lift (getValidCloudflareAuth (oe_rt E) conn)) (\<lambda>token.
     let accountId = (case c_account conn of None \<Rightarrow> [] | Some a \<Rightarrow> a); plan = omni_plan_of E accountId; i = randomToken (oe_id E) in
     act_seq (act_when (accountId = []) (JsError ''connection has no stored account boundary''))
     (act_bind (on_panel (provisionOmniNode E token plan)) (\<lambda>(d1Id, url).
     let baseUrl = (case url of None \<Rightarrow> ''https://'' @ op_worker plan @ ''.workers.dev'' | Some u \<Rightarrow> u) in
     act_bind (act_lift (encryptJson (cr_P (oe_rt E)) (cr_envelope (oe_rt E)) (JObj [(''key'', JStr (op_agent_key plan))]) (cr_key (oe_rt E))
         (''omni:'' @ i))) (\<lambda>enc.
     let x = \<lparr>on_id = i, on_tenant = pr_tenant p, on_connection = connectionId, on_account = accountId, on_worker = op_worker plan,
              on_d1 = d1Id, on_base = baseUrl, on_key_enc = enc, on_created = cr_now (oe_rt E)\<rparr> in
     act_seq (insert_node x)
     (act_seq (omni_audit E p ''omni.create'' (JObj [(''worker'', JStr (op_worker plan)), (''account'', JStr accountId)]))
     (act_bind (on_node (seed_vip 5 (oe_call E) baseUrl (op_agent_key plan))) (\<lambda>vip. act_ret (x, vip)))))))))"

definition node_call :: "'n omni_env \<Rightarrow> omni_row \<Rightarrow> string \<Rightarrow> string \<Rightarrow> jval option \<Rightarrow> ('n omni_world, jval) act" where
  "node_call E x meth path body =
     act_bind (act_lift (agentKeyOf (oe_rt E) x)) (\<lambda>key. on_node (omniAgent (oe_call E) (on_base x) key meth path body))"

definition omniNewUser :: "'n omni_env \<Rightarrow> principal \<Rightarrow> string \<Rightarrow> string \<Rightarrow> jval \<Rightarrow> jval \<Rightarrow> ('n omni_world, string) act" where
  "omniNewUser E p nodeId username quotaGb days =
     act_bind (own_node p nodeId) (\<lambda>x.
     act_bind (node_call E x ''POST'' ''/api/agent/users''
         (Some (JObj [(''username'', JStr username), (''quota_gb'', quotaGb), (''expiry_days'', days)]))) (\<lambda>made.
     act_bind (act_lift (need_obj (fld made ''user''))) (\<lambda>user.
       act_ret (drop_slash (on_base x) @ ''/s/'' @ to_str (fld user ''sub_token'')))))"

definition omniListUsers :: "'n omni_env \<Rightarrow> principal \<Rightarrow> string \<Rightarrow> ('n omni_world, jval) act" where
  "omniListUsers E p nodeId = act_bind (own_node p nodeId) (\<lambda>x. node_call E x ''GET'' ''/api/agent/users'' None)"

definition omniIssueLoginToken :: "'n omni_env \<Rightarrow> principal \<Rightarrow> string \<Rightarrow> ('n omni_world, string \<times> string) act" where
  "omniIssueLoginToken E p nodeId =
     act_bind (own_node p nodeId) (\<lambda>x.
     let token = take 20 (filter (\<lambda>c. c \<noteq> CHR ''-'') (oe_uuid E)) in
     act_seq (act_when (on_base x = []) (JsError ''no address''))
     (act_seq (node_call E x ''POST'' ''/api/agent/admin/password'' (Some (JObj [(''password'', JStr token)])))
     (act_seq (omni_audit E p ''omni.login_token'' (JObj [(''worker'', JStr (on_worker x))]))
       (act_ret (token, on_base x)))))"

definition omniRecover :: "'n omni_env \<Rightarrow> principal \<Rightarrow> string \<Rightarrow> ('n omni_world, string) act" where
  "omniRecover E p nodeId =
     act_bind (own_node p nodeId) (\<lambda>x.
     act_seq (node_call E x ''POST'' ''/api/agent/admin/reset'' None)
     (act_seq (omni_audit E p ''omni.recover'' (JObj [(''worker'', JStr (on_worker x))]))
       (act_ret (on_base x))))"

definition deleteOmniNodeFlow :: "'n omni_env \<Rightarrow> principal \<Rightarrow> string \<Rightarrow> ('n omni_world, unit) act" where
  "deleteOmniNodeFlow E p nodeId =
     act_bind (own_node p nodeId) (\<lambda>x.
     act_bind (on_panel (pw_run (cdb_res (getConnection (on_connection x) (Some (pr_tenant p)))))) (\<lambda>conn.
     act_bind (act_lift (getValidCloudflareAuth (oe_rt E) conn)) (\<lambda>token.
     act_seq (on_panel (deleteOmniNode E token (on_account x) (on_worker x) (on_d1 x)))
     (act_seq (act_upd (\<lambda>w. w\<lparr>ow_nodes := filter (\<lambda>y. on_id y \<noteq> nodeId) (ow_nodes w)\<rparr>))
       (omni_audit E p ''omni.delete'' (JObj [(''worker'', JStr (on_worker x))]))))))"

end
