(* ===== verification/Node_Link.thy ===== *)
theory Node_Link
  imports Cp_Omni Cp_Drop Access
begin

text \<open>
  The two programs joined: the panel runs as a node with the bindings the control plane uploads, and the control plane calls its
  worker over the agent channel.
\<close>

subsection \<open>The environment an uploaded script runs in\<close>

text \<open>Cloudflare hands a script its databases and objects under their names, and its texts and secrets as variables.\<close>

definition worker_env :: "panel_script \<Rightarrow> raw_env" where
  "worker_env s =
     \<lparr>re_bound = (\<lambda>n. list_ex (\<lambda>b. bn_name b = n \<and> bn_type b \<in> {''d1'', ''durable_object_namespace'', ''kv_namespace''}) (pt_bindings s)),
      re_vars = JObj (map (\<lambda>b. (bn_name b, JStr (bn_value b))) (filter (\<lambda>b. bn_type b \<in> {''plain_text'', ''secret_text''}) (pt_bindings s)))\<rparr>"

definition node_channel :: "runtime \<Rightarrow> raw_env \<Rightarrow> world channel" where
  "node_channel rtm raw url r = worker_fetch rtm raw r"

lemma agent_header: "header_of (agent_request base k m p b) ''x-kaveh-agent'' = Some k"
  by (simp add: agent_request_def header_of_def to_lower_def)

lemma agent_cookie: "header_of (agent_request base k m p b) ''cookie'' = None" "header_of (agent_request base k m p b) ''upgrade'' = None"
  by (simp_all add: agent_request_def header_of_def to_lower_def)

lemma node_env_vars:
  "fld (re_vars (worker_env \<lparr>pt_source = src, pt_bindings = node_bindings plan d1\<rparr>)) ''AGENT_KEY'' = JStr (op_agent_key plan)"
  by (simp add: worker_env_def node_bindings_def)

lemma agent_admitted:
  assumes "op_agent_key plan \<noteq> []"
  shows "agent_guard (resolveEnv (worker_env \<lparr>pt_source = src, pt_bindings = node_bindings plan d1\<rparr>)) (agent_request base (op_agent_key plan) m p b) = None"
  using assms
  by (simp add: agent_guard_def resolveEnv_def Let_def node_env_vars agent_header js_coalesce_def nullish_def agk.eq_iff)

lemma node_bound:
  "e_db (resolveEnv (worker_env \<lparr>pt_source = src, pt_bindings = node_bindings plan d1\<rparr>)) \<and>
   e_guard (resolveEnv (worker_env \<lparr>pt_source = src, pt_bindings = node_bindings plan d1\<rparr>)) \<and>
   e_ledger (resolveEnv (worker_env \<lparr>pt_source = src, pt_bindings = node_bindings plan d1\<rparr>))"
  by (simp add: resolveEnv_def Let_def worker_env_def node_bindings_def)

subsection \<open>A created node takes orders from the control plane\<close>

lemma provision_uploads:
  assumes "provisionOmniNode E token plan v = (Inr (d1Id, url), v')"
  shows "map_of (pw_scripts v') (op_account plan, op_worker plan) = Some \<lparr>pt_source = oe_source E, pt_bindings = node_bindings plan d1Id\<rparr>"
  using assms
  by (auto simp: provisionOmniNode_def uploadKavehWorker_def act_defs map_of_upsert split: sum.splits prod.splits)

lemma key_opens:
  assumes "aead_laws (cr_P rtm)" and "importEncryptionKey (cr_key rtm) = Inr kek" and "er_wrap rnd \<noteq> []" and "er_data rnd \<noteq> []"
    and "encryptJson (cr_P rtm) rnd (JObj [(''key'', JStr k)]) (cr_key rtm) aad = Inr enc"
  shows "sealed_key rtm aad enc = Inr k"
proof -
  have "plain (JObj [(''key'', JStr k)])" by simp
  from sealed_opens [OF assms(1,2) this assms(3,4,5)] show ?thesis by (simp add: sealed_key_def need_obj_def nullish_def)
qed

lemma node_frames:
  "omni_audit E p a m w = (Inr (), w1) \<Longrightarrow> ow_nodes w1 = ow_nodes w \<and> ow_net w1 = ow_net w \<and> pw_scripts (ow_panel w1) = pw_scripts (ow_panel w)"
  "on_node h w = (x, w2) \<Longrightarrow> ow_nodes w2 = ow_nodes w \<and> ow_panel w2 = ow_panel w"
  "on_panel g w = (y, w3) \<Longrightarrow> ow_nodes w3 = ow_nodes w \<and> ow_net w3 = ow_net w \<and> g (ow_panel w) = (y, ow_panel w3)"
  by (auto simp: omni_audit_def on_panel_def on_node_def pw_run_def cdb_upd_eq split: prod.splits)

text \<open>
  C9. A node the control plane has created takes orders from it. After \<open>createOmniNode\<close> the tenant's new row is stored, the
  script on the tenant's account is the panel with its database and objects bound, and the key sealed in the row opens to one
  that the panel's agent guard admits on every agent request, when the panel runs with the bindings that were uploaded.
\<close>

theorem node_accepts_control_plane:
  assumes "aead_laws (cr_P (oe_rt E))" and "importEncryptionKey (cr_key (oe_rt E)) = Inr kek"
    and "er_wrap (cr_envelope (oe_rt E)) \<noteq> []" and "er_data (cr_envelope (oe_rt E)) \<noteq> []" and "oe_agent_key E \<noteq> []"
    and "createOmniNode E p cid w = (Inr (x, vip), w')"
  shows "ow_nodes w' = ow_nodes w @ [x] \<and> on_tenant x = pr_tenant p \<and>
    (\<exists>s k. map_of (pw_scripts (ow_panel w')) (on_account x, on_worker x) = Some s \<and> pt_source s = oe_source E \<and>
       e_db (resolveEnv (worker_env s)) \<and> e_guard (resolveEnv (worker_env s)) \<and> e_ledger (resolveEnv (worker_env s)) \<and>
       agentKeyOf (oe_rt E) x = Inr k \<and>
       (\<forall>m path b. agent_guard (resolveEnv (worker_env s)) (agent_request (on_base x) k m path b) = None))"
proof -
  define a where "a c = (case c_account c of None \<Rightarrow> [] | Some a \<Rightarrow> a)" for c :: connection
  define i where "i = randomToken (oe_id E)"
  define url where "url plan u = (case u of None \<Rightarrow> ''https://'' @ op_worker plan @ ''.workers.dev'' | Some v \<Rightarrow> v)" for plan :: omni_plan and u :: "string option"
  note steps = assms(6) [unfolded createOmniNode_def Let_def, folded a_def i_def]
  from steps obtain c w1 where c: "on_panel (pw_run (cdb_res (getConnection cid (Some (pr_tenant p))))) w = (Inr c, w1)"
    by (auto simp: act_bind_def split: prod.splits sum.splits)
  let ?plan = "omni_plan_of E (a c)"
  from steps c obtain t d1 u w2 enc x0 w3 w4 where
    p: "on_panel (provisionOmniNode E t ?plan) w1 = (Inr (d1, u), w2)"
    and e: "encryptJson (cr_P (oe_rt E)) (cr_envelope (oe_rt E)) (JObj [(''key'', JStr (op_agent_key ?plan))]) (cr_key (oe_rt E)) (''omni:'' @ i) = Inr enc"
    and x: "x = \<lparr>on_id = i, on_tenant = pr_tenant p, on_connection = cid, on_account = a c, on_worker = op_worker ?plan,
              on_d1 = d1, on_base = url ?plan u, on_key_enc = enc, on_created = cr_now (oe_rt E)\<rparr>"
    and ins: "insert_node x w2 = (Inr (), w3)"
    and au: "omni_audit E p ''omni.create'' (JObj [(''worker'', JStr (op_worker ?plan)), (''account'', JStr (a c))]) w3 = (Inr (), w4)"
    and sd: "on_node (seed_vip 5 (oe_call E) (url ?plan u) (op_agent_key ?plan)) w4 = (Inr vip, w')"
    by (auto simp: act_bind_def act_seq_def act_lift_def act_when_def act_ret_def url_def split: prod.splits sum.splits if_splits)
  let ?s = "\<lparr>pt_source = oe_source E, pt_bindings = node_bindings ?plan d1\<rparr>" and ?k = "op_agent_key ?plan"
  have k: "?k \<noteq> []" using assms(5) by (cases "oe_agent_key E") (simp_all add: omni_plan_of_def randomToken_def bytesToBase64Url_Nil)
  have acc: "op_account ?plan = a c" by (simp add: omni_plan_of_def)
  have "map_of (pw_scripts (ow_panel w')) (on_account x, on_worker x) = Some ?s"
    using provision_uploads [of E t ?plan "ow_panel w1" d1 u "ow_panel w2"] node_frames(3) [OF p] node_frames(1) [OF au] node_frames(2) [OF sd] ins
    by (auto simp: x acc insert_node_def split: if_splits)
  moreover have "ow_nodes w' = ow_nodes w @ [x]"
    using node_frames(3) [OF c] node_frames(3) [OF p] node_frames(1) [OF au] node_frames(2) [OF sd] ins
    by (auto simp: insert_node_def split: if_splits)
  moreover have "agentKeyOf (oe_rt E) x = Inr ?k"
    using key_opens [OF assms(1-4) e] by (simp add: agentKeyOf_def x)
  ultimately show ?thesis
    using node_bound [of "oe_source E" ?plan d1] agent_admitted [OF k, of "oe_source E" d1]
    by (intro conjI exI [of _ ?s] exI [of _ ?k]) (simp_all add: x)
qed

text \<open>A tenant with an open connection and a Cloudflare that answers.\<close>

definition demo_plan :: omni_plan where
  "demo_plan = \<lparr>op_account = replicate 32 CHR ''a'', op_worker = ''omni-7d4448'', op_d1 = ''omni-7d4448'',
     op_agent_key = randomToken (replicate 32 4), op_signing = randomToken (replicate 32 6)\<rparr>"

definition demo_omni :: "world omni_env" where
  "demo_omni = \<lparr>oe_rt = demo_flow_cr, oe_uuid = ''7d444840-9dc0-11d1-b245-5ffdce74fad2'', oe_agent_key = replicate 32 4,
     oe_signing = replicate 32 6, oe_id = replicate 16 7, oe_source = ''export default {}'',
     oe_call = node_channel demo_runtime (worker_env \<lparr>pt_source = ''export default {}'', pt_bindings = node_bindings demo_plan ''r1''\<rparr>)\<rparr>"

definition demo_omni_world :: "string \<Rightarrow> omni_row list \<Rightarrow> world omni_world" where
  "demo_omni_world enc xs = \<lparr>ow_panel = \<lparr>pw_world = demo_cp_world enc, pw_rows = [], pw_scripts = []\<rparr>, ow_nodes = xs,
     ow_net = demo_world\<lparr>w_provisioned := True\<rparr>\<rparr>"

lemma seed_vip_returns: "\<exists>vip v'. seed_vip n call b k v = (Inr vip, v')"
  by (induction n arbitrary: v) (simp_all add: act_catch_def act_ret_def split: prod.splits sum.splits)

lemma demo_rt: "cr_P demo_flow_cr = demo_cp" "cr_key demo_flow_cr = bytesToBase64Url (replicate 32 0)"
  "cr_envelope demo_flow_cr = \<lparr>er_key = [5], er_wrap = [1], er_data = [2]\<rparr>" "cr_now demo_flow_cr = 5000"
  by (simp_all add: demo_flow_cr_def demo_cr_def)

lemma demo_sealed: "\<exists>enc. encryptJson (cr_P demo_flow_cr) (cr_envelope demo_flow_cr) v (cr_key demo_flow_cr) aad = Inr enc"
  using encryptJson_eq [OF demo_key] by (simp add: demo_rt)

lemma demo_token: "\<exists>enc. getValidCloudflareAuth demo_flow_cr (demo_conn enc) = Inr ''tok''"
proof -
  obtain enc where enc: "encryptJson demo_cp \<lparr>er_key = [5], er_wrap = [1], er_data = [2]\<rparr> (JStr ''tok'') (bytesToBase64Url (replicate 32 0))
      ''cloudflare:c1:api-token'' = Inr enc" using encryptJson_eq [OF demo_key] by blast
  have "decryptJson demo_cp enc (bytesToBase64Url (replicate 32 0)) ''cloudflare:c1:api-token'' = Inr (JStr ''tok'')"
    by (rule sealed_opens [OF demo_cp_laws demo_key _ _ _ enc]) simp_all
  then have "getValidCloudflareAuth demo_flow_cr (demo_conn enc) = Inr ''tok''"
    by (simp add: getValidCloudflareAuth_def demo_conn_def demo_rt)
  then show ?thesis by blast
qed

lemma demo_provision: "\<exists>u v'. provisionOmniNode demo_omni ''tok'' plan v = (Inr (''r1'', u), v')"
proof -
  have api: "omni_api demo_omni ''tok'' m path body = (if m \<noteq> ''GET'' then Inr (JObj [(''id'', JStr ''r1'')])
        else if path = ''/zones/'' @ d_zone demo_dep
        then Inr (JObj [(''status'', JStr ''active''), (''account'', JObj [(''id'', JStr (d_account demo_dep))])]) else Inr (JArr []))" for m path body
    by (simp add: omni_api_def demo_omni_def demo_api)
  have "findOrCreateD1 demo_omni ''tok'' a n = Inr (''r1'', True)" for a n
    by (simp add: findOrCreateD1_def Let_def api id_or_uuid_def js_coalesce_def nullish_def need_id_def)
  then show ?thesis by (auto simp: provisionOmniNode_def uploadKavehWorker_def api act_defs)
qed

lemma demo_plan_of: "omni_plan_of demo_omni (replicate 32 CHR ''a'') = demo_plan"
  by (simp add: omni_plan_of_def demo_plan_def demo_omni_def generateOmniWorkerName_def generateOmniWorkerSuffix_def)

lemma demo_creates: "\<exists>enc x vip w'. createOmniNode demo_omni demo_owner ''c1'' (demo_omni_world enc []) = (Inr (x, vip), w')"
proof -
  obtain enc where auth: "getValidCloudflareAuth demo_flow_cr (demo_conn enc) = Inr ''tok''" using demo_token by blast
  have c: "getConnection ''c1'' (Some ''t1'') (cw_db (demo_cp_world enc)) = Inr (demo_conn enc)"
    by (simp add: getConnection_def demo_cp_world_def demo_conn_def)
  let ?v = "ow_panel (demo_omni_world enc [])"
  obtain u v' where p: "provisionOmniNode demo_omni ''tok'' demo_plan ?v = (Inr (''r1'', u), v')" using demo_provision by blast
  obtain key where k: "encryptJson (cr_P demo_flow_cr) (cr_envelope demo_flow_cr) (JObj [(''key'', JStr (op_agent_key demo_plan))]) (cr_key demo_flow_cr)
      (''omni:'' @ randomToken (replicate 16 7)) = Inr key" using demo_sealed by blast
  define b where "b = (case u of None \<Rightarrow> ''https://'' @ op_worker demo_plan @ ''.workers.dev'' | Some y \<Rightarrow> y)"
  obtain vip n where sd: "seed_vip 5 (oe_call demo_omni) b (op_agent_key demo_plan) (demo_world\<lparr>w_provisioned := True\<rparr>) = (Inr vip, n)"
    using seed_vip_returns [of 5 "oe_call demo_omni" b "op_agent_key demo_plan"] by blast
  have conn: "on_panel (pw_run (cdb_res (getConnection ''c1'' (Some ''t1'')))) (demo_omni_world enc []) = (Inr (demo_conn enc), demo_omni_world enc [])"
    using c by (simp add: on_panel_def pw_run_def cdb_res_def demo_omni_world_def)
  have own: "pr_tenant demo_owner = ''t1''" "oe_rt demo_omni = demo_flow_cr" "oe_id demo_omni = replicate 16 7"
    "c_account (demo_conn enc) = Some (replicate 32 CHR ''a'')"
    by (simp_all add: demo_owner_def demo_omni_def demo_conn_def)
  have acc: "(case c_account (demo_conn enc) of None \<Rightarrow> [] | Some a \<Rightarrow> a) = replicate 32 CHR ''a''" "replicate 32 CHR ''a'' \<noteq> []"
    by (simp_all add: own)
  have "\<exists>x w'. createOmniNode demo_omni demo_owner ''c1'' (demo_omni_world enc []) = (Inr (x, vip), w')"
    unfolding createOmniNode_def Let_def own(1-3) act_bind_def [of "on_panel (pw_run y)" for y] conn
    using sd p k unfolding b_def
    by (cases u) (simp_all add: auth acc demo_plan_of act_bind_def act_seq_def act_when_def act_lift_def act_ret_def
        on_panel_def on_node_def insert_node_def omni_audit_def pw_run_def cdb_upd_eq own demo_omni_world_def)
  then show ?thesis by blast
qed

theorem node_accepts_control_plane_witness:
  "\<exists>enc x vip w'. createOmniNode demo_omni demo_owner ''c1'' (demo_omni_world enc []) = (Inr (x, vip), w') \<and> ow_nodes w' = [x] \<and>
    (\<exists>s k. map_of (pw_scripts (ow_panel w')) (on_account x, on_worker x) = Some s \<and> agentKeyOf demo_flow_cr x = Inr k \<and>
       (\<forall>m path b. agent_guard (resolveEnv (worker_env s)) (agent_request (on_base x) k m path b) = None))"
proof -
  obtain enc x vip w' where c: "createOmniNode demo_omni demo_owner ''c1'' (demo_omni_world enc []) = (Inr (x, vip), w')"
    using demo_creates by blast
  have E: "oe_rt demo_omni = demo_flow_cr" "oe_agent_key demo_omni = replicate 32 4" by (simp_all add: demo_omni_def)
  have "ow_nodes w' = ow_nodes (demo_omni_world enc []) @ [x] \<and> on_tenant x = pr_tenant demo_owner \<and>
    (\<exists>s k. map_of (pw_scripts (ow_panel w')) (on_account x, on_worker x) = Some s \<and> pt_source s = oe_source demo_omni \<and>
       e_db (resolveEnv (worker_env s)) \<and> e_guard (resolveEnv (worker_env s)) \<and> e_ledger (resolveEnv (worker_env s)) \<and>
       agentKeyOf (oe_rt demo_omni) x = Inr k \<and>
       (\<forall>m path b. agent_guard (resolveEnv (worker_env s)) (agent_request (on_base x) k m path b) = None))"
    by (rule node_accepts_control_plane [OF _ _ _ _ _ c, of "replicate 32 0"]) (simp_all add: E demo_rt demo_cp_laws demo_key)
  moreover have "ow_nodes (demo_omni_world enc []) = []" by (simp add: demo_omni_world_def)
  ultimately show ?thesis using c unfolding E by (intro exI [of _ enc] exI [of _ x] exI [of _ vip] exI [of _ w']) auto
qed

subsection \<open>The password shown in the chat opens the node\<close>

lemma password_route:
  "\<forall>route \<in> set router. rt_path route = ''/api/agent/admin/password'' \<longrightarrow> rt_handler route = adminPassword \<and> rt_auth route = Some ''none''"
  by (simp add: router_def public_def admin_def add_route_def)

lemma router_compiled: "\<forall>route \<in> set router. rt_re route = fst (compile (rt_path route))"
  by (simp add: router_def public_def admin_def add_route_def)

definition router_lines :: "(string \<times> string) list" where
  "router_lines = map (\<lambda>route. (rt_method route, rt_path route)) router"

lemma router_lines_eq: "router_lines =
  [(''POST'', ''/api/setup''),
   (''POST'', ''/api/login''),
   (''POST'', ''/api/recover''),
   (''GET'', ''/api/whoami''),
   (''POST'', ''/api/logout''),
   (''POST'', ''/api/password''),
   (''GET'', ''/api/sessions''),
   (''POST'', ''/api/sessions/revoke''),
   (''GET'', ''/api/overview''),
   (''GET'', ''/api/stats/usage''),
   (''GET'', ''/api/settings''),
   (''PUT'', ''/api/settings''),
   (''GET'', ''/api/backup''),
   (''POST'', ''/api/backup''),
   (''GET'', ''/api/users''),
   (''POST'', ''/api/users''),
   (''POST'', ''/api/users/bulk''),
   (''GET'', ''/api/users/:username''),
   (''PATCH'', ''/api/users/:username''),
   (''DELETE'', ''/api/users/:username''),
   (''POST'', ''/api/users/:username/reset''),
   (''POST'', ''/api/users/:username/rotate-token''),
   (''POST'', ''/api/users/:username/rotate-uuid''),
   (''GET'', ''/api/diag/cf-usage''),
   (''POST'', ''/api/diag/probe-node''),
   (''POST'', ''/api/diag/rank-ips''),
   (''GET'', ''/api/diag/ping''),
   (''GET'', ''/api/diag/logs''),
   (''GET'', ''/api/fragments''),
   (''POST'', ''/api/diag/maintenance''),
   (''POST'', ''/api/diag/unban''),
   (''GET'', ''/api/agent/health''),
   (''GET'', ''/api/agent/users''),
   (''POST'', ''/api/agent/users''),
   (''GET'', ''/api/agent/users/:username''),
   (''POST'', ''/api/agent/users/:username/reset''),
   (''DELETE'', ''/api/agent/users/:username''),
   (''POST'', ''/api/agent/admin/reset''),
   (''POST'', ''/api/agent/admin/password'')]"
  by (simp add: router_lines_def router_def public_def admin_def add_route_def)

lemma password_alone:
  "list_all (\<lambda>(m, q). m = ''POST'' \<and> rx_exec (fst (compile q)) ''/api/agent/admin/password'' \<noteq> None \<longrightarrow> q = ''/api/agent/admin/password'') router_lines"
  "rx_exec (fst (compile ''/api/agent/admin/password'')) ''/api/agent/admin/password'' \<noteq> None"
  unfolding router_lines_eq by code_simp+

lemma password_matched:
  "\<exists>route ps. route_match du router ''POST'' ''/api/agent/admin/password'' = Hit route ps \<and> rt_handler route = adminPassword \<and> rt_auth route = Some ''none''"
proof -
  let ?P = "\<lambda>r. path_matches r ''/api/agent/admin/password'' \<and> rt_method r = ''POST''"
  have "(''POST'', ''/api/agent/admin/password'') \<in> set router_lines" by (simp add: router_lines_eq)
  then obtain r where "r \<in> set router" "rt_method r = ''POST''" "rt_path r = ''/api/agent/admin/password''"
    by (auto simp: router_lines_def)
  then have "?P r" using password_alone(2) router_compiled by (simp add: path_matches_def)
  with \<open>r \<in> set router\<close> have "find ?P router \<noteq> None" by (auto simp: find_None_iff)
  then obtain route where f: "find ?P router = Some route" by blast
  then have route: "route \<in> set router" "?P route" by (auto simp: find_Some_iff in_set_conv_nth)
  then have "(''POST'', rt_path route) \<in> set router_lines" by (force simp: router_lines_def)
  with password_alone(1) route router_compiled have "rt_path route = ''/api/agent/admin/password''"
    by (auto simp: list_all_iff path_matches_def)
  with route password_route f show ?thesis by (simp add: route_match_spec)
qed

text \<open>What the handler does for an admitted caller with a password that is long enough.\<close>

lemma adminPassword_effect:
  assumes "settings_ok (w_db v)" and "agent_guard E r = None" and "readJson r = Inr (JObj [(''password'', JStr tok)])" and "10 \<le> length tok"
  shows "\<exists>v'. adminPassword rtm E r cx v = (Inr (json (JObj [(''ok'', JBool True), (''installed'', JBool True)]) 200 []), v') \<and>
    db_sessions (w_db v') = [] \<and> verifyPassword (rt_P rtm) tok (setting (w_db v') ADMIN_HASH_KEY) = Inr True"
proof -
  obtain h v1 where s: "set_password rtm tok [(''installed_at'', JStr (show_num (rt_now rtm)))] v = (Inr (), v1)"
    "hashPassword (rt_P rtm) (en_salt (rt_en rtm)) tok = Inr h" "setting (w_db v1) ADMIN_HASH_KEY = Some h"
    using set_password_spec [OF assms(1), of rtm tok "[(''installed_at'', JStr (show_num (rt_now rtm)))]"]
    by (auto simp: ADMIN_HASH_KEY_def)
  have pw: "to_str (js_coalesce (fld (JObj [(''password'', JStr tok)]) ''password'') (JStr [])) = tok"
    by (simp add: js_coalesce_def nullish_def)
  have "adminPassword rtm E r cx v = (Inr (json (JObj [(''ok'', JBool True), (''installed'', JBool True)]) 200 []),
      v1\<lparr>w_db := audit (rt_P rtm) (rt_now rtm) (JStr ''agent'') ''admin.password.set'' None (Some []) JNull ((w_db v1)\<lparr>db_sessions := []\<rparr>)\<rparr>)"
    using s(1) assms(2-4) pw by (simp add: adminPassword_def agent_only_def act_defs audit_log_def db_upd_def Let_def)
  then show ?thesis using s hash_verifies [OF s(2)] by (auto simp: audit_def setting_def)
qed

lemma agent_plain: "\<not> is_upgrade (agent_request base k m p b)" "rq_path (agent_request base k m p b) = p" "rq_method (agent_request base k m p b) = m"
  by (simp_all add: is_upgrade_def agent_cookie to_lower_def) (simp_all add: agent_request_def)

lemma agent_api:
  assumes "w_provisioned v" and "subPrefix (e_config (resolveEnv raw)) = ''s''"
  shows "dispatch rtm (resolveEnv raw) (agent_request base k ''POST'' (''/api/agent/'' @ q) b) v =
    (if e_db (resolveEnv raw) then api rtm (resolveEnv raw) (agent_request base k ''POST'' (''/api/agent/'' @ q) b) v else (Inl BootError, v))"
proof (cases "e_db (resolveEnv raw)")
  case True
  then have "api_request (resolveEnv raw) (agent_request base k ''POST'' (''/api/agent/'' @ q) b)"
    using assms(2) by (simp add: api_request_def agent_plain sub_path_def)
  with True assms(1) show ?thesis by (simp add: dispatch_api)
next
  case False
  then show ?thesis by (simp add: dispatch_def assertReady_def act_defs)
qed

lemma node_prefix:
  "subPrefix (e_config (resolveEnv (worker_env \<lparr>pt_source = src, pt_bindings = node_bindings plan d1\<rparr>))) = ''s''"
  by (simp add: resolveEnv_def Let_def worker_env_def node_bindings_def node_vars_def bind_text_def env_str_def nullish_def js_defs)

lemma password_call:
  assumes "settings_ok (w_db v)" and "w_provisioned v" and "subPrefix (e_config (resolveEnv raw)) = ''s''" and "e_db (resolveEnv raw)"
    and "agent_guard (resolveEnv raw) (agent_request base k ''POST'' ''/api/agent/admin/password'' (Some (JObj [(''password'', JStr tok)]))) = None"
    and "10 \<le> length tok"
  shows "\<exists>j v'. omniAgent (node_channel rtm raw) base k ''POST'' ''/api/agent/admin/password'' (Some (JObj [(''password'', JStr tok)])) v = (Inr j, v') \<and>
    db_sessions (w_db v') = [] \<and> verifyPassword (rt_P rtm) tok (setting (w_db v') ADMIN_HASH_KEY) = Inr True"
proof -
  let ?E = "resolveEnv raw" and ?r = "agent_request base k ''POST'' ''/api/agent/admin/password'' (Some (JObj [(''password'', JStr tok)]))"
  have parsed: "readJson ?r = Inr (JObj [(''password'', JStr tok)])"
    using readJson_stringify [of "JObj [(''password'', JStr tok)]" ?r] by (simp add: agent_request_def del: json_stringify.simps)
  obtain route ps where m: "route_match (p_decodeURI (rt_P rtm)) router ''POST'' ''/api/agent/admin/password'' = Hit route ps"
    "rt_handler route = adminPassword" "rt_auth route = Some ''none''"
    using password_matched by blast
  define cx where "cx = \<lparr>cx_params = ps, cx_session = None, cx_ip = clientIp ?r\<rparr>"
  have "dispatch rtm ?E ?r v = act_bind (adminPassword rtm ?E ?r cx) (\<lambda>response. act_ret (withSecurity False response)) v"
    using agent_api [OF assms(2,3), of rtm base k "''admin/password''"] assms(4) m
    by (simp add: api_def act_bind_def [of "act_lift y" for y] act_lift_def agent_plain authenticate_def agent_cookie
        act_bind_def [of "act_ret y" for y] act_ret_def cx_def)
  with adminPassword_effect [OF assms(1,5) parsed assms(6), of rtm cx] obtain v' where
    "worker_fetch rtm raw ?r v = (Inr (withSecurity False (json (JObj [(''ok'', JBool True), (''installed'', JBool True)]) 200 [])), v')"
    and out: "db_sessions (w_db v') = []" "verifyPassword (rt_P rtm) tok (setting (w_db v') ADMIN_HASH_KEY) = Inr True"
    by (auto simp: worker_fetch_def Let_def act_catch_def act_bind_def act_ret_def)
  then have "omniAgent (node_channel rtm raw) base k ''POST'' ''/api/agent/admin/password'' (Some (JObj [(''password'', JStr tok)])) v =
      (Inr (JObj [(''ok'', JBool True), (''installed'', JBool True)]), v')"
    by (simp add: omniAgent_def node_channel_def act_bind_def act_lift_def act_ret_def withSecurity_def json_def agent_ok_def need_obj_def nullish_def)
  with out show ?thesis by blast
qed

text \<open>
  C10. The password the chat shows opens the node. When the panel runs, provisioned, with the bindings the control plane uploaded
  and the tenant's row holds the key of those bindings, \<open>omniIssueLoginToken\<close> returns a password, and afterwards that password
  verifies against the panel's stored hash and the panel has no session left: whoever was signed in has to sign in again with it.
\<close>

theorem issued_password_opens_node:
  assumes "oe_call E = node_channel rtm (worker_env \<lparr>pt_source = src, pt_bindings = node_bindings plan d1\<rparr>)"
    and "settings_ok (w_db (ow_net w))" and "w_provisioned (ow_net w)"
    and "find (\<lambda>x. on_id x = nodeId) (listOmniNodes p w) = Some x" and "on_base x \<noteq> []"
    and "agentKeyOf (oe_rt E) x = Inr (op_agent_key plan)" and "op_agent_key plan \<noteq> []"
    and "10 \<le> length (take 20 (filter (\<lambda>c. c \<noteq> CHR ''-'') (oe_uuid E)))"
  shows "\<exists>tok w'. omniIssueLoginToken E p nodeId w = (Inr (tok, on_base x), w') \<and>
    verifyPassword (rt_P rtm) tok (setting (w_db (ow_net w')) ADMIN_HASH_KEY) = Inr True \<and> db_sessions (w_db (ow_net w')) = []"
proof -
  let ?raw = "worker_env \<lparr>pt_source = src, pt_bindings = node_bindings plan d1\<rparr>" and ?tok = "take 20 (filter (\<lambda>c. c \<noteq> CHR ''-'') (oe_uuid E))"
  have "e_db (resolveEnv ?raw)" using node_bound by blast
  from password_call [OF assms(2,3) node_prefix this agent_admitted [OF assms(7)] assms(8), of rtm "on_base x"] obtain j v' where
    "omniAgent (node_channel rtm ?raw) (on_base x) (op_agent_key plan) ''POST'' ''/api/agent/admin/password'' (Some (JObj [(''password'', JStr ?tok)]))
       (ow_net w) = (Inr j, v')"
    "db_sessions (w_db v') = []" "verifyPassword (rt_P rtm) ?tok (setting (w_db v') ADMIN_HASH_KEY) = Inr True"
    by blast
  then show ?thesis
    using assms(4-6)
    by (simp add: omniIssueLoginToken_def own_node_def node_call_def on_node_def omni_audit_def on_panel_def pw_run_def cdb_upd_eq
        assms(1) act_bind_def act_seq_def act_get_def act_when_def act_lift_def act_ret_def Let_def)
qed

theorem issued_password_opens_node_witness:
  "\<exists>x tok w'. omniIssueLoginToken demo_omni demo_owner ''n1'' (demo_omni_world [] [x]) = (Inr (tok, ''https://n.workers.dev''), w') \<and>
    verifyPassword demo_platform tok (setting (w_db (ow_net w')) ADMIN_HASH_KEY) = Inr True \<and> db_sessions (w_db (ow_net w')) = []"
proof -
  obtain enc where enc: "encryptJson (cr_P demo_flow_cr) (cr_envelope demo_flow_cr) (JObj [(''key'', JStr (op_agent_key demo_plan))]) (cr_key demo_flow_cr)
      (''omni:'' @ ''n1'') = Inr enc" using demo_sealed by blast
  let ?x = "\<lparr>on_id = ''n1'', on_tenant = ''t1'', on_connection = ''c1'', on_account = ''a'', on_worker = ''omni-7d4448'', on_d1 = ''r1'',
     on_base = ''https://n.workers.dev'', on_key_enc = enc, on_created = 0\<rparr>"
  have "sealed_key demo_flow_cr (''omni:'' @ ''n1'') enc = Inr (op_agent_key demo_plan)"
    by (rule key_opens [OF _ _ _ _ enc, of "replicate 32 0"]) (simp_all add: demo_rt demo_cp_laws demo_key)
  then have key: "agentKeyOf demo_flow_cr ?x = Inr (op_agent_key demo_plan)" by (simp add: agentKeyOf_def)
  have "op_agent_key demo_plan \<noteq> []" by (simp add: demo_plan_def randomToken_def bytesToBase64Url_Nil)
  moreover have "find (\<lambda>y. on_id y = ''n1'') (listOmniNodes demo_owner (demo_omni_world [] [?x])) = Some ?x"
    by (simp add: listOmniNodes_def demo_owner_def demo_omni_world_def sort_by_def)
  ultimately have "\<exists>tok w'. omniIssueLoginToken demo_omni demo_owner ''n1'' (demo_omni_world [] [?x]) = (Inr (tok, on_base ?x), w') \<and>
    verifyPassword (rt_P demo_runtime) tok (setting (w_db (ow_net w')) ADMIN_HASH_KEY) = Inr True \<and> db_sessions (w_db (ow_net w')) = []"
    by (intro issued_password_opens_node [where x = ?x and plan = demo_plan and ?d1.0 = "''r1''" and src = "''export default {}''"])
      (simp_all add: key demo_omni_def demo_omni_world_def demo_world_def empty_db_def settings_ok_def)
  then show ?thesis by (auto simp: demo_runtime_def)
qed

end
