(* ===== verification/Spec2Isabelle.thy ===== *)
theory Spec2Isabelle
  imports Panel_Invariant Cp_Flow Data_Plane Cp_Net Cp_Dns Cp_Connect Cp_Drop Cp_Map Cp_Packs Cp_Donate Cp_Panel_Flows Cp_Panel_Deploy Cp_Site Node_Link
begin

text \<open>
  The repository holds two programs and their user interfaces. The \<^bold>\<open>panel\<close> (\<^verbatim>\<open>omni-panel/src\<close>, a Cloudflare Worker in
  JavaScript) manages the users of one VLESS proxy and carries their traffic. The \<^bold>\<open>control plane\<close> (\<^verbatim>\<open>src\<close>, a Worker in
  TypeScript) lets many tenants, reached through a Telegram bot, deploy proxy nodes on their own Cloudflare accounts and
  servers, and publishes network measurements. Both keep their state in D1 databases and run one request at a time against it.

  \<^bold>\<open>How the code is modelled.\<close> A table is a list of rows (a \<open>record\<close> per row), a database a record of tables, a D1 batch a
  transaction, a constraint of the schema a check that raises. A handler is an \<open>act\<close>: a function from the state to a result or
  a thrown value and the state it leaves, so every early return and every \<open>throw\<close> is a branch. Durable Objects, the VLESS
  tunnel and the provisioning workflow are step functions with a run or reachability relation. Numbers are exact rationals with
  the special values of JavaScript where conversions produce them; 32-bit and byte arithmetic is on machine words; texts are in
  U+0000..U+00FF. What lies outside the repository is an argument of the definitions: WebCrypto and hashing (\<open>platform\<close>,
  \<open>cp_platform\<close>), \<open>fetch\<close> of other services, sockets, the clock and the random source (\<open>runtime\<close>, \<open>cp_runtime\<close>), with
  what the code relies on (an HMAC that verifies what it signs, a cipher that opens what it sealed, a SHA-256 with fixed
  length) as named hypotheses, each shown satisfiable by a witness.

  \<^bold>\<open>Shared.\<close> \<^verbatim>\<open>Js_Prelude\<close> (strings, numbers, JSON values, the \<open>act\<close> combinators, list lemmas), \<^verbatim>\<open>Codec\<close> (UTF-8,
  base64, base64url, UUIDs), \<^verbatim>\<open>Json\<close> (\<open>JSON.parse\<close> inverts \<open>JSON.stringify\<close>).

  \<^bold>\<open>Panel.\<close>
    \<^item> \<^verbatim>\<open>Core_Http\<close>: \<^verbatim>\<open>core/http.js\<close>, \<^verbatim>\<open>core/errors.js\<close>, \<^verbatim>\<open>core/env.js\<close>. \<^verbatim>\<open>Router\<close>: \<^verbatim>\<open>core/router.js\<close>.
    \<^item> \<^verbatim>\<open>Db\<close>: \<^verbatim>\<open>db/index.js\<close>, \<^verbatim>\<open>db/migrate.js\<close>, \<^verbatim>\<open>core/keys.js\<close> - settings, audit, atomic provisioning.
      \<^verbatim>\<open>Users\<close>: \<^verbatim>\<open>db/users.js\<close> - normalisation, creation with its constraints, listing, patching.
    \<^item> \<^verbatim>\<open>Auth_Session\<close>: \<^verbatim>\<open>auth/session.js\<close>. \<^verbatim>\<open>Auth_Guard\<close>, \<^verbatim>\<open>Ledger\<close>: the two Durable Objects of
      \<^verbatim>\<open>auth/guard.js\<close>.
    \<^item> \<^verbatim>\<open>Net_Dns\<close>: \<^verbatim>\<open>net/dns.js\<close> with its bounded cache. \<^verbatim>\<open>Upstream\<close>: \<^verbatim>\<open>proxy/upstream.js\<close>. \<^verbatim>\<open>Vless\<close>, \<^verbatim>\<open>Tunnel\<close>:
      \<^verbatim>\<open>proxy/vless.js\<close>, \<^verbatim>\<open>proxy/udp.js\<close>, \<^verbatim>\<open>proxy/tunnel.js\<close> - header codec, admission, and the tunnel as a state
      machine over socket events. \<^verbatim>\<open>Config\<close>: \<^verbatim>\<open>config/*.js\<close>.
    \<^item> \<^verbatim>\<open>World\<close>: the state a request runs against (database, the two objects, caches) and what a runtime provides.
      \<^verbatim>\<open>Api_Auth\<close>, \<^verbatim>\<open>Api_Users\<close>, \<^verbatim>\<open>Api_Admin\<close>: \<^verbatim>\<open>api/*.js\<close>, \<^verbatim>\<open>core/maintenance.js\<close>. \<^verbatim>\<open>Worker\<close>:
      \<^verbatim>\<open>index.js\<close>, the whole route table and request pipeline.
    \<^item> Composition: \<^verbatim>\<open>Access\<close> (without a session, CSRF marker or agent key nothing protected changes; the router agrees with
      its denotational specification) and \<^verbatim>\<open>Panel_Invariant\<close> (the integrity of the database in every reachable state).

  \<^bold>\<open>Control plane.\<close>
    \<^item> \<^verbatim>\<open>Cp_Security\<close>: \<^verbatim>\<open>security.ts\<close>, \<^verbatim>\<open>http.ts\<close>, \<^verbatim>\<open>validation.ts\<close>. \<^verbatim>\<open>Cp_Db\<close>: the tables, \<^verbatim>\<open>db.ts\<close>,
      \<^verbatim>\<open>auth.ts\<close>. \<^verbatim>\<open>Cp_Profiles\<close>: \<^verbatim>\<open>profiles.ts\<close>. \<^verbatim>\<open>Cp_Cloud\<close>: \<^verbatim>\<open>cloudflare-api.ts\<close>.
    \<^item> \<^verbatim>\<open>Cp_Deploy\<close>: \<^verbatim>\<open>deployments.ts\<close>, \<^verbatim>\<open>oauth.ts\<close>. \<^verbatim>\<open>Cp_Agent\<close>: \<^verbatim>\<open>agent.ts\<close>, \<^verbatim>\<open>api-token.ts\<close>. \<^verbatim>\<open>Cp_Workflow\<close>:
      \<^verbatim>\<open>workflow.ts\<close>. \<^verbatim>\<open>Cp_Node\<close>: \<^verbatim>\<open>sleeper.ts\<close>, \<^verbatim>\<open>dns-tunnel.ts\<close>. \<^verbatim>\<open>Data_Plane\<close>: the script of
      \<^verbatim>\<open>data-plane-source.ts\<close> that runs on the tenant's account.
    \<^item> Composition: \<^verbatim>\<open>Cp_Lifecycle\<close> (the tables stay sound under each deployment operation), \<^verbatim>\<open>Cp_Isolation\<close> (tenants cannot
      touch each other), \<^verbatim>\<open>Cp_Reach\<close> (the transition system of requests, node calls, cron runs and workflow attempts in any
      order, with the integrity of every reachable state), \<^verbatim>\<open>Cp_Flow\<close> (the workflow terminates and makes progress).
    \<^item> Measurements and tools: \<^verbatim>\<open>Cp_Net\<close> (\<^verbatim>\<open>geoip-ir.ts\<close>, \<^verbatim>\<open>domestic-race.ts\<close>, \<^verbatim>\<open>dns-poison.ts\<close>, \<^verbatim>\<open>net-mode.ts\<close>),
      \<^verbatim>\<open>Cp_Dns\<close> (\<^verbatim>\<open>dns-center.ts\<close> and the live scan of \<^verbatim>\<open>telegram.ts\<close>), \<^verbatim>\<open>Cp_Connect\<close> (\<^verbatim>\<open>dns-connect.ts\<close>), \<^verbatim>\<open>Cp_Clean_Ip\<close>
      (\<^verbatim>\<open>clean-ip.ts\<close>), \<^verbatim>\<open>Cp_Drop\<close> (\<^verbatim>\<open>whitehole.ts\<close>), \<^verbatim>\<open>Cp_Map\<close> (\<^verbatim>\<open>censorship-map.ts\<close>), \<^verbatim>\<open>Cp_Packs\<close>
      (\<^verbatim>\<open>phantom-pack.ts\<close>, \<^verbatim>\<open>dnstt.ts\<close>), \<^verbatim>\<open>Cp_Donate\<close> (\<^verbatim>\<open>ai-donate.ts\<close>).
    \<^item> Chat: \<^verbatim>\<open>Cp_State\<close> (the tables of all these components as one record, and the operations of each part on the
      whole), \<^verbatim>\<open>Cp_Wizard\<close> (\<^verbatim>\<open>telegram-wizard.ts\<close>: the deployment wizard and what it submits), \<^verbatim>\<open>Cp_Panel_Flows\<close>
      (\<^verbatim>\<open>panel-flows.ts\<close>: the forms answered in text), \<^verbatim>\<open>Cp_Panel_Deploy\<close> (\<^verbatim>\<open>panel-deploy.ts\<close>,
      \<^verbatim>\<open>panel-source.ts\<close>, \<^verbatim>\<open>panel-catalog.ts\<close>: third-party panels on the tenant's account).
    \<^item> Whole: \<^verbatim>\<open>Cp_Site\<close> (\<^verbatim>\<open>index.ts\<close>, \<^verbatim>\<open>telemetry-routes.ts\<close>: the route table over all of the above, the
      guard of the private routes and the cron; it keeps the tables sound), \<^verbatim>\<open>Cp_Omni\<close> (\<^verbatim>\<open>omni-engine.ts\<close>,
      \<^verbatim>\<open>omni-flows.ts\<close>: the panel as a node on the tenant's account), \<^verbatim>\<open>Node_Link\<close> (the two programs joined: a panel that
      runs with the uploaded bindings admits the control plane, and the password shown in the chat opens it).
  \<^bold>\<open>Interfaces.\<close> Where one component relies on another, or several share a contract, the contract is a \<open>locale\<close> (an encoding
  and its decoder, a key-value store, a bounded cache, a constant-time comparison, an ordering used for sorting, updates that
  keep a user's identity, a part of the whole state, a table whose rows expire) whose lemmas are proved once and interpreted on the code's own definitions.

  \<^bold>\<open>Bounds and fuel.\<close> \<open>JSON.parse\<close> runs with the length of the text as fuel, which every value consumes (\<open>json_parse_stringify\<close>
  shows it is enough). Reading loops over sockets recurse over the finite list of chunks. A workflow has at most 32 attempts,
  the sum of its steps' retry limits; live scans take the list of their ticks and end after as many as there are waves. Other
  loops are structural.

  \<^bold>\<open>Not modelled\<close>, with the reason: the Persian texts, HTML pages, cards and keyboards (display only, no decision depends on
  them); response headers other than those named; the shell scripts that \<^verbatim>\<open>agent.ts\<close> and \<^verbatim>\<open>dns-poison.ts\<close> render for a
  server (text templates that run elsewhere); the browser assets (\<^verbatim>\<open>omni-panel/ui\<close>), the development server, build scripts and
  tests; the QR encoder (vendored) and the bundles (build output of the sources above).
  Of \<^verbatim>\<open>telegram.ts\<close> the webhook up to the dispatch of an update, the live scan and the confirmation of the wizard are modelled;
  what an admitted update does is the argument \<open>se_bot\<close> of the entry point, on which no property rests.
  \<^verbatim>\<open>panel-overview.ts\<close>, \<^verbatim>\<open>help-topics.ts\<close> and \<^verbatim>\<open>dashboard.ts\<close> render cards and pages and are not modelled.
\<close>

end
